(* ===== verification/Prelude.thy ===== *)
theory Prelude
  imports Main "HOL-Library.Word"
begin

text \<open>
  The vocabulary every component shares: byte strings, the error type and its bind, the
  checked arithmetic of \<open>u64\<close> and \<open>usize\<close> (both 64 bits wide on the supported targets),
  \<open>File\<close> reads and writes at an offset as functions on the file's bytes, little-endian
  integers, and the lower-case hexadecimal of \<open>src/hash.rs\<close>. Numbers that Rust keeps in
  \<open>u64\<close>, \<open>u32\<close> and \<open>u16\<close> are natural numbers with every overflow check of the source
  written out; flag sets are machine words.
\<close>

named_theorems success_simps \<open>what it means that a chain of checks succeeds\<close>
named_theorems bytes_simps \<open>lengths and slices of byte strings\<close>

type_synonym byte = "8 word"
type_synonym bytes = "byte list"

section \<open>Errors\<close>

text \<open>
  \<open>std::io::Error\<close> by kind, and \<open>invalid_data(...)\<close> / \<open>miette!(...)\<close> by the fixed part of
  the message. A \<open>result\<close> is the source's \<open>io::Result\<close> or \<open>miette::Result\<close>.
\<close>

datatype err =
    Not_Found | Already_Exists | Would_Block | Unexpected_Eof | Io_Failed | Invalid string

type_synonym 'a result = "err + 'a"

definition rbind :: "'a result \<Rightarrow> ('a \<Rightarrow> 'b result) \<Rightarrow> 'b result" where
  "rbind m f = (case m of Inl e \<Rightarrow> Inl e | Inr x \<Rightarrow> f x)"

definition ok_or :: "string \<Rightarrow> 'a option \<Rightarrow> 'a result" where
  "ok_or msg m = (case m of None \<Rightarrow> Inl (Invalid msg) | Some x \<Rightarrow> Inr x)"

definition is_ok :: "'a result \<Rightarrow> bool" where
  "is_ok m = (case m of Inl _ \<Rightarrow> False | Inr _ \<Rightarrow> True)"

lemma rbind_simps [simp]:
  "rbind (Inl e) f = Inl e"
  "rbind (Inr x) f = f x"
  by (simp_all add: rbind_def)

lemma rbind_eq_Inr [success_simps]: "rbind m f = Inr y \<longleftrightarrow> (\<exists>x. m = Inr x \<and> f x = Inr y)"
  by (cases m) auto

lemma rbind_cong [fundef_cong]:
  "m = m' \<Longrightarrow> (\<And>x. m' = Inr x \<Longrightarrow> f x = g x) \<Longrightarrow> rbind m f = rbind m' g"
  by (cases m') auto

lemma ok_or_simps [simp]:
  "ok_or msg None = Inl (Invalid msg)"
  "ok_or msg (Some x) = Inr x"
  by (simp_all add: ok_or_def)

lemma ok_or_eq_Inr [success_simps]: "ok_or msg m = Inr x \<longleftrightarrow> m = Some x"
  by (cases m) auto

lemma is_ok_simps [simp]: "is_ok (Inr x)" "\<not> is_ok (Inl e)"
  by (simp_all add: is_ok_def)

text \<open>An early return: the rest of the function runs exactly when the check passes.\<close>

lemma if_error_eq_Inr [success_simps]:
  "(if bad then Inl e else m) = Inr y \<longleftrightarrow> \<not> bad \<and> m = Inr y"
  by simp

section \<open>Checked unsigned arithmetic\<close>

definition checked_add :: "nat \<Rightarrow> nat \<Rightarrow> nat option" where
  "checked_add a b = (if a + b < 2 ^ 64 then Some (a + b) else None)"

definition checked_sub :: "nat \<Rightarrow> nat \<Rightarrow> nat option" where
  "checked_sub a b = (if b \<le> a then Some (a - b) else None)"

definition checked_mul :: "nat \<Rightarrow> nat \<Rightarrow> nat option" where
  "checked_mul a b = (if a * b < 2 ^ 64 then Some (a * b) else None)"

text \<open>\<open>u32::try_from\<close> on a \<open>u64\<close>.\<close>

definition u32_try_from :: "nat \<Rightarrow> nat option" where
  "u32_try_from a = (if a < 2 ^ 32 then Some a else None)"

lemma checked_add_eq_Some [success_simps]:
  "checked_add a b = Some c \<longleftrightarrow> c = a + b \<and> a + b < 2 ^ 64"
  by (auto simp: checked_add_def)

lemma checked_sub_eq_Some [success_simps]:
  "checked_sub a b = Some c \<longleftrightarrow> c = a - b \<and> b \<le> a"
  by (auto simp: checked_sub_def)

lemma checked_mul_eq_Some [success_simps]:
  "checked_mul a b = Some c \<longleftrightarrow> c = a * b \<and> a * b < 2 ^ 64"
  by (auto simp: checked_mul_def)

lemma u32_try_from_eq_Some [success_simps]:
  "u32_try_from a = Some c \<longleftrightarrow> c = a \<and> a < 2 ^ 32"
  by (auto simp: u32_try_from_def)

text \<open>\<open>align_up\<close> of \<open>runtime_data.rs\<close>: the next multiple, with its two error returns.\<close>

definition align_up :: "nat \<Rightarrow> nat \<Rightarrow> nat result" where
  "align_up value alignment =
     (if alignment = 0 then Inl (Invalid ''binary alignment is zero'')
      else rbind (ok_or ''binary alignment overflow'' (checked_add value (alignment - 1)))
             (\<lambda>aligned. Inr (aligned div alignment * alignment)))"

lemma align_up_eq_Inr [success_simps]:
  "align_up v a = Inr r \<longleftrightarrow>
     a \<noteq> 0 \<and> v + (a - 1) < 2 ^ 64 \<and> r = (v + (a - 1)) div a * a"
  by (auto simp: align_up_def rbind_def ok_or_def checked_add_def)

lemma round_up_bounds:
  fixes v a :: nat
  assumes "0 < a"
  shows "v \<le> (v + (a - 1)) div a * a" and "(v + (a - 1)) div a * a < v + a"
proof -
  let ?q = "(v + (a - 1)) div a * a"
  have split: "?q + (v + (a - 1)) mod a = v + (a - 1)" by simp
  have "(v + (a - 1)) mod a < a" using assms by simp
  with split assms show "v \<le> ?q" and "?q < v + a" by linarith+
qed

lemma align_up_props:
  assumes "align_up v a = Inr r"
  shows "v \<le> r" and "r < v + a" and "a dvd r" and "0 < a"
proof -
  from assms have pos: "0 < a" and r: "r = (v + (a - 1)) div a * a"
    by (simp_all add: align_up_eq_Inr)
  from pos show "0 < a" .
  from round_up_bounds [OF pos, of v] show "v \<le> r" and "r < v + a" unfolding r .
  from r show "a dvd r" by simp
qed

lemma align_up_of_multiple:
  assumes "a dvd v" "0 < a" "v + (a - 1) < 2 ^ 64"
  shows "align_up v a = Inr v"
proof -
  obtain k where v: "v = a * k" using assms(1) by (elim dvdE)
  have "(a * k + (a - 1)) div a = k + (a - 1) div a"
    using assms(2) by (metis add.commute div_mult_self2 less_not_refl2)
  also have "\<dots> = k" using assms(2) by simp
  finally have "(v + (a - 1)) div a = k" by (simp only: v)
  with assms v show ?thesis by (simp add: align_up_eq_Inr mult.commute)
qed

section \<open>Reading and writing a file's bytes at an offset\<close>

text \<open>\<open>seek\<close> followed by \<open>read_exact\<close>: a short read is \<open>UnexpectedEof\<close>.\<close>

definition bytes_at :: "bytes \<Rightarrow> nat \<Rightarrow> nat \<Rightarrow> bytes" where
  "bytes_at file off len = take len (drop off file)"

definition read_exact_at :: "bytes \<Rightarrow> nat \<Rightarrow> nat \<Rightarrow> bytes result" where
  "read_exact_at file off len =
     (if length (bytes_at file off len) = len then Inr (bytes_at file off len) else Inl Unexpected_Eof)"

text \<open>\<open>set_len\<close>: truncate, or extend with zero bytes.\<close>

definition set_len :: "bytes \<Rightarrow> nat \<Rightarrow> bytes" where
  "set_len file n = take n file @ replicate (n - length file) 0"

text \<open>\<open>seek\<close> followed by \<open>write_all\<close>; a gap past the end is filled with zero bytes.\<close>

definition write_at :: "bytes \<Rightarrow> nat \<Rightarrow> bytes \<Rightarrow> bytes" where
  "write_at file off bs =
     take off file @ replicate (off - length file) 0 @ bs @ drop (off + length bs) file"

definition all_zero :: "bytes \<Rightarrow> bool" where
  "all_zero bs = list_all (\<lambda>b. b = 0) bs"

lemma length_set_len [simp, bytes_simps]: "length (set_len file n) = n"
  by (simp add: set_len_def)

lemma length_write_at [simp, bytes_simps]:
  "length (write_at file off bs) = max (length file) (off + length bs)"
  by (simp add: write_at_def)

lemma length_slice [simp, bytes_simps]:
  "length (bytes_at file off len) = min len (length file - off)"
  by (simp add: bytes_at_def)

lemma slice_full [bytes_simps]: "off + len \<le> length file \<Longrightarrow> length (bytes_at file off len) = len"
  by simp

lemma read_exact_at_eq_Inr [success_simps]:
  "read_exact_at file off len = Inr bs \<longleftrightarrow>
     bs = bytes_at file off len \<and> length (bytes_at file off len) = len"
  by (auto simp: read_exact_at_def)

lemma read_exact_at_in_range:
  "off + len \<le> length file \<Longrightarrow> read_exact_at file off len = Inr (bytes_at file off len)"
  by (simp add: read_exact_at_def)

text \<open>Slices of concatenations; the layout proofs are rewritings with these.\<close>

lemma slice_append_left [bytes_simps]:
  "off + len \<le> length xs \<Longrightarrow> bytes_at (xs @ ys) off len = bytes_at xs off len"
  by (simp add: bytes_at_def)

lemma slice_append_right [bytes_simps]:
  "length xs \<le> off \<Longrightarrow> bytes_at (xs @ ys) off len = bytes_at ys (off - length xs) len"
  by (simp add: bytes_at_def)

lemma slice_prefix [bytes_simps]: "n = length xs \<Longrightarrow> bytes_at (xs @ ys) 0 n = xs"
  by (simp add: bytes_at_def)

lemma slice_all [bytes_simps]: "n = length xs \<Longrightarrow> bytes_at xs 0 n = xs"
  by (simp add: bytes_at_def)

lemma slice_mid:
  "length a = off \<Longrightarrow> length b = len \<Longrightarrow> bytes_at (a @ b @ c) off len = b"
  by (simp add: bytes_at_def)

lemma slice_slice:
  "i + m \<le> len \<Longrightarrow> bytes_at (bytes_at f off len) i m = bytes_at f (off + i) m"
proof -
  assume "i + m \<le> len"
  then have "m \<le> len - i" by simp
  then show ?thesis
    by (simp add: bytes_at_def drop_take take_take min.absorb1 add.commute)
qed

lemma slice_write_at_same [bytes_simps]: "bytes_at (write_at file off bs) off (length bs) = bs"
  by (cases "off \<le> length file") (simp_all add: bytes_at_def write_at_def)

lemma slice_write_at_before [bytes_simps]:
  "o' + len \<le> off \<Longrightarrow> o' + len \<le> length file \<Longrightarrow>
   bytes_at (write_at file off bs) o' len = bytes_at file o' len"
  using slice_slice [where f = "file" and len = off and off = 0 and i = o' and m = len]
  by (simp add: write_at_def slice_append_left) (simp add: bytes_at_def)

lemma slice_write_at_after [bytes_simps]:
  assumes "off + length bs \<le> o'" and "off + length bs \<le> length file"
  shows "bytes_at (write_at file off bs) o' len = bytes_at file o' len"
proof -
  have "drop o' (write_at file off bs) = drop o' file"
    using assms by (simp add: write_at_def)
  then show ?thesis by (simp add: bytes_at_def)
qed

lemma slice_set_len_below [bytes_simps]:
  "o' + len \<le> n \<Longrightarrow> o' + len \<le> length file \<Longrightarrow> bytes_at (set_len file n) o' len = bytes_at file o' len"
  using slice_slice [where f = "file" and len = n and off = 0 and i = o' and m = len]
  by (simp add: set_len_def slice_append_left) (simp add: bytes_at_def)

lemma slice_set_len_zero [bytes_simps]:
  assumes "length file \<le> o'" "o' + len \<le> n"
  shows "bytes_at (set_len file n) o' len = replicate len 0"
  using assms by (simp add: bytes_at_def set_len_def min_def)

lemma set_len_same [bytes_simps]: "n = length f \<Longrightarrow> set_len f n = f"
  by (simp add: set_len_def)

lemma all_zero_replicate [simp]: "all_zero (replicate n 0)"
  by (simp add: all_zero_def list_all_iff)

lemma all_zero_Nil [simp]: "all_zero []"
  by (simp add: all_zero_def)

section \<open>Fixed-width codecs\<close>

text \<open>
  What the readers rely on of every fixed-width field: encoding has the advertised width,
  and decoding gives the value back on the values the writer produces.
\<close>

locale fixed_width_codec =
  fixes width :: nat
    and enc :: "'a \<Rightarrow> bytes"
    and dec :: "bytes \<Rightarrow> 'b"
    and view :: "'a \<Rightarrow> 'b"
    and dom :: "'a \<Rightarrow> bool"
  assumes enc_length: "dom x \<Longrightarrow> length (enc x) = width"
    and dec_enc: "dom x \<Longrightarrow> dec (enc x) = view x"
begin

lemma dec_prefix: "dom x \<Longrightarrow> dec (take width (enc x @ rest)) = view x"
  by (simp add: enc_length dec_enc)

lemma dec_written:
  "dom x \<Longrightarrow> dec (bytes_at (write_at file off (enc x)) off width) = view x"
  using slice_write_at_same [where bs = "enc x"] by (simp add: enc_length dec_enc)

lemma dec_placed:
  "dom x \<Longrightarrow> length before = off \<Longrightarrow> dec (bytes_at (before @ enc x @ rest) off width) = view x"
  by (simp add: slice_mid enc_length dec_enc)

end

text \<open>\<open>to_le_bytes\<close> and \<open>from_le_bytes\<close>.\<close>

primrec le_bytes :: "nat \<Rightarrow> nat \<Rightarrow> bytes" where
  "le_bytes 0 v = []"
| "le_bytes (Suc n) v = of_nat (v mod 256) # le_bytes n (v div 256)"

primrec le_nat :: "bytes \<Rightarrow> nat" where
  "le_nat [] = 0"
| "le_nat (b # bs) = unat b + 256 * le_nat bs"

lemma length_le_bytes [simp, bytes_simps]: "length (le_bytes n v) = n"
  by (induction n arbitrary: v) simp_all

lemma le_nat_le_bytes: "le_nat (le_bytes n v) = v mod 256 ^ n"
proof (induction n arbitrary: v)
  case 0
  then show ?case by simp
next
  case (Suc n)
  have "unat (of_nat (v mod 256) :: byte) = v mod 256"
    by (simp add: unat_of_nat)
  with Suc have "le_nat (le_bytes (Suc n) v) = v mod 256 + 256 * (v div 256 mod 256 ^ n)"
    by simp
  also have "\<dots> = v mod (256 * 256 ^ n)"
    by (simp add: mod_mult2_eq)
  finally show ?case by simp
qed

lemma unat_byte_less [simp]: "unat (b :: byte) < 256"
  using unsigned_less [of b, where 'a = nat] by simp

lemma le_nat_bound: "le_nat bs < 256 ^ length bs"
proof (induction bs)
  case Nil
  then show ?case by simp
next
  case (Cons b bs)
  have "unat b + 256 * le_nat bs < 256 + 256 * le_nat bs" by simp
  also have "\<dots> = 256 * Suc (le_nat bs)" by simp
  also have "\<dots> \<le> 256 * 256 ^ length bs" using Cons by (intro mult_le_mono2) simp
  finally show ?case by simp
qed

lemma le_bytes_le_nat: "length bs = n \<Longrightarrow> le_bytes n (le_nat bs) = bs"
proof (induction n arbitrary: bs)
  case 0
  then show ?case by simp
next
  case (Suc n)
  then obtain c cs where bs: "bs = c # cs" and cs: "length cs = n"
    by (cases bs) auto
  have "(unat c + 256 * le_nat cs) mod 256 = unat c" "(unat c + 256 * le_nat cs) div 256 = le_nat cs"
    using unat_byte_less [of c] by simp_all
  with Suc.IH [OF cs] show ?case by (simp add: bs)
qed

interpretation u64_codec: fixed_width_codec 8 "le_bytes 8" le_nat "\<lambda>v. v" "\<lambda>v. v < 2 ^ 64"
  by unfold_locales (simp_all add: le_nat_le_bytes del: le_bytes.simps)

interpretation u32_codec: fixed_width_codec 4 "le_bytes 4" le_nat "\<lambda>v. v" "\<lambda>v. v < 2 ^ 32"
  by unfold_locales (simp_all add: le_nat_le_bytes del: le_bytes.simps)

interpretation u16_codec: fixed_width_codec 2 "le_bytes 2" le_nat "\<lambda>v. v" "\<lambda>v. v < 2 ^ 16"
  by unfold_locales (simp_all add: le_nat_le_bytes del: le_bytes.simps)

section \<open>File and address ranges\<close>

text \<open>
  \<open>sort_unstable_by_key(|range| range.0)\<close> followed by the \<open>windows(2)\<close> test of the layout
  checks. The ranges are half open and never empty, so the order of equal keys is irrelevant.
\<close>

fun windows_overlap :: "(nat \<times> nat) list \<Rightarrow> bool" where
  "windows_overlap (r # s # rs) = (fst s < snd r \<or> windows_overlap (s # rs))"
| "windows_overlap rs = False"

definition ranges_overlap :: "(nat \<times> nat) list \<Rightarrow> bool" where
  "ranges_overlap ranges = windows_overlap (sort_key fst ranges)"

lemma windows_overlap_sorted_wrt:
  "\<forall>r \<in> set rs. fst r \<le> snd r \<Longrightarrow> \<not> windows_overlap rs \<Longrightarrow>
   sorted_wrt (\<lambda>r s. snd r \<le> fst s) rs"
proof (induction rs rule: windows_overlap.induct)
  case (1 r s rs)
  then have IH: "sorted_wrt (\<lambda>r s. snd r \<le> fst s) (s # rs)" and rs: "snd r \<le> fst s"
    by simp_all
  have "snd r \<le> fst t" if "t \<in> set rs" for t
    using IH rs that "1.prems"(1) by (fastforce intro: le_trans)
  with IH rs show ?case by simp
qed simp_all

lemma ranges_overlap_disjoint:
  assumes "\<not> ranges_overlap rs" "\<forall>r \<in> set rs. fst r \<le> snd r"
    and "r \<in> set rs" "s \<in> set rs" "r \<noteq> s"
  shows "snd r \<le> fst s \<or> snd s \<le> fst r"
proof -
  let ?q = "sort_key fst rs"
  have sorted: "sorted_wrt (\<lambda>r s. snd r \<le> fst s) ?q"
    using assms(1,2) by (intro windows_overlap_sorted_wrt) (simp_all add: ranges_overlap_def)
  from assms(3,4) obtain i j where i: "i < length ?q" "?q ! i = r" and j: "j < length ?q" "?q ! j = s"
    by (metis in_set_conv_nth set_sort)
  with assms(5) have "i < j \<or> j < i" by (metis linorder_neqE_nat)
  with sorted i j show ?thesis by (metis sorted_wrt_nth_less)
qed

section \<open>Lower-case hexadecimal (\<open>hash::hex\<close>)\<close>

definition hex_digits :: string where
  "hex_digits = ''0123456789abcdef''"

definition hex_byte :: "byte \<Rightarrow> string" where
  "hex_byte b = [hex_digits ! (unat b div 16), hex_digits ! (unat b mod 16)]"

definition hex :: "bytes \<Rightarrow> string" where
  "hex bs = concat (map hex_byte bs)"

lemma length_hex [simp]: "length (hex bs) = 2 * length bs"
  by (induction bs) (simp_all add: hex_def hex_byte_def)

lemma hex_digit_mem: "n < 16 \<Longrightarrow> hex_digits ! n \<in> set hex_digits"
  by (intro nth_mem) (simp add: hex_digits_def)

lemma set_hex: "set (hex bs) \<subseteq> set hex_digits"
proof -
  have "unat b div 16 < 16" for b :: byte
    using unat_byte_less [of b] by (simp add: less_mult_imp_div_less)
  then show ?thesis
    by (auto simp: hex_def hex_byte_def intro: hex_digit_mem)
qed

end
