(* ===== verification/Names.thy ===== *)
theory Names
  imports Prelude
begin

text \<open>
  Strings and paths. A Rust \<open>str\<close> is its UTF-8 byte sequence, so a \<open>char\<close> of HOL is one
  byte and \<open>length\<close> is \<open>str::len\<close>; the character classes of the validators are read on the
  bytes (ASCII classes directly, \<open>char::is_control\<close> with the two-byte encodings of
  U+0080 to U+009F). A \<open>Path\<close> is the list of its normal components below the root.
  The locale \<open>component_validator\<close> states what every name validator of the source
  promises its callers: an accepted name can be joined to a directory and names a direct
  child of it.
\<close>

section \<open>Character classes\<close>

abbreviation code :: "char \<Rightarrow> nat" where
  "code c \<equiv> of_char c"

definition is_ascii_uppercase :: "char \<Rightarrow> bool" where
  "is_ascii_uppercase c = (65 \<le> code c \<and> code c \<le> 90)"

definition is_ascii_lowercase :: "char \<Rightarrow> bool" where
  "is_ascii_lowercase c = (97 \<le> code c \<and> code c \<le> 122)"

definition is_ascii_digit :: "char \<Rightarrow> bool" where
  "is_ascii_digit c = (48 \<le> code c \<and> code c \<le> 57)"

definition is_ascii_alphanumeric :: "char \<Rightarrow> bool" where
  "is_ascii_alphanumeric c = (is_ascii_uppercase c \<or> is_ascii_lowercase c \<or> is_ascii_digit c)"

definition is_ascii_hexdigit :: "char \<Rightarrow> bool" where
  "is_ascii_hexdigit c =
     (is_ascii_digit c \<or> (65 \<le> code c \<and> code c \<le> 70) \<or> (97 \<le> code c \<and> code c \<le> 102))"

definition to_ascii_uppercase :: "char \<Rightarrow> char" where
  "to_ascii_uppercase c = (if is_ascii_lowercase c then char_of (code c - 32) else c)"

lemmas ascii_class_defs =
  is_ascii_uppercase_def is_ascii_lowercase_def is_ascii_digit_def
  is_ascii_alphanumeric_def is_ascii_hexdigit_def

text \<open>Continuation bytes of UTF-8 do not start a character.\<close>

definition utf8_continuation :: "char \<Rightarrow> bool" where
  "utf8_continuation c = (128 \<le> code c \<and> code c \<le> 191)"

text \<open>\<open>s.chars().any(char::is_control)\<close>.\<close>

fun has_control :: "string \<Rightarrow> bool" where
  "has_control [] = False"
| "has_control [c] = (code c < 32 \<or> code c = 127)"
| "has_control (c # d # cs) =
     (code c < 32 \<or> code c = 127 \<or> (code c = 194 \<and> 128 \<le> code d \<and> code d \<le> 159)
      \<or> has_control (d # cs))"

text \<open>\<open>s.trim().is_empty()\<close>: only Unicode white space, in its UTF-8 encodings.\<close>

fun all_whitespace :: "string \<Rightarrow> bool" where
  "all_whitespace [] = True"
| "all_whitespace (c # cs) =
     (if (9 \<le> code c \<and> code c \<le> 13) \<or> code c = 32 then all_whitespace cs
      else case cs of
        d # ds \<Rightarrow>
          (if code c = 194 \<and> (code d = 133 \<or> code d = 160) then all_whitespace ds
           else case ds of
             e # es \<Rightarrow>
               (if (code c = 225 \<and> code d = 154 \<and> code e = 128)
                   \<or> (code c = 226 \<and> code d = 128 \<and> ((128 \<le> code e \<and> code e \<le> 138)
                        \<or> code e = 168 \<or> code e = 169 \<or> code e = 175))
                   \<or> (code c = 226 \<and> code d = 129 \<and> code e = 159)
                   \<or> (code c = 227 \<and> code d = 128 \<and> code e = 128)
                then all_whitespace es else False)
           | [] \<Rightarrow> False)
      | [] \<Rightarrow> False)"

definition starts_with :: "string \<Rightarrow> string \<Rightarrow> bool" where
  "starts_with p s = (take (length p) s = p)"

definition ends_with :: "string \<Rightarrow> string \<Rightarrow> bool" where
  "ends_with p s = (length p \<le> length s \<and> drop (length s - length p) s = p)"

definition strip_suffix :: "string \<Rightarrow> string \<Rightarrow> string option" where
  "strip_suffix p s = (if ends_with p s then Some (take (length s - length p) s) else None)"

lemma ends_with_append [simp]: "ends_with p (s @ p)"
  by (simp add: ends_with_def)

lemma strip_suffix_append [simp]: "strip_suffix p (s @ p) = Some s"
  by (simp add: strip_suffix_def)

lemma alphanumeric_not_separator:
  assumes "is_ascii_alphanumeric c"
  shows "c \<noteq> CHR ''/''" and "c \<noteq> CHR 0x5C" and "c \<noteq> CHR ''.''" and "\<not> utf8_continuation c"
  using assms by (auto simp: ascii_class_defs utf8_continuation_def)

section \<open>Paths\<close>

type_synonym path = "string list"

fun split_on :: "char \<Rightarrow> string \<Rightarrow> string list" where
  "split_on c [] = [[]]"
| "split_on c (x # xs) =
     (if x = c then [] # split_on c xs
      else case split_on c xs of [] \<Rightarrow> [[x]] | y # ys \<Rightarrow> (x # y) # ys)"

text \<open>\<open>Path::components\<close> without the root: empty and \<open>.\<close> segments are dropped.\<close>

definition components :: "string \<Rightarrow> path" where
  "components s = filter (\<lambda>c. c \<noteq> [] \<and> c \<noteq> ''.'') (split_on CHR ''/'' s)"

text \<open>\<open>Path::join\<close>: an absolute argument replaces the base.\<close>

definition join :: "path \<Rightarrow> string \<Rightarrow> path" where
  "join d s = (if starts_with ''/'' s then components s else d @ components s)"

definition parent :: "path \<Rightarrow> path option" where
  "parent p = (if p = [] then None else Some (butlast p))"

definition file_name :: "path \<Rightarrow> string option" where
  "file_name p = (if p = [] \<or> last p = ''..'' then None else Some (last p))"

text \<open>\<open>Path::file_stem\<close>: up to the last dot, unless the name only starts with one.\<close>

definition name_stem :: "string \<Rightarrow> string" where
  "name_stem n =
     (let tail = dropWhile (\<lambda>c. c \<noteq> CHR ''.'') (rev n) in
      if tail = [] \<or> tl tail = [] then n else rev (tl tail))"

lemma name_stem_dot: "x \<noteq> [] \<Longrightarrow> CHR ''.'' \<notin> set e \<Longrightarrow> name_stem (x @ ''.'' @ e) = x"
  by (simp add: name_stem_def dropWhile_append Let_def)

definition with_extension :: "path \<Rightarrow> string \<Rightarrow> path" where
  "with_extension p ext =
     (case file_name p of None \<Rightarrow> p
      | Some n \<Rightarrow> butlast p @ [name_stem n @ ''.'' @ ext])"

definition plain_component :: "string \<Rightarrow> bool" where
  "plain_component s =
     (s \<noteq> [] \<and> s \<noteq> ''.'' \<and> s \<noteq> ''..'' \<and> CHR ''/'' \<notin> set s \<and> CHR 0x5C \<notin> set s)"

lemma split_on_absent: "c \<notin> set s \<Longrightarrow> split_on c s = [s]"
  by (induction s) auto

lemma components_plain: "plain_component s \<Longrightarrow> components s = [s]"
  by (simp add: components_def plain_component_def split_on_absent)

lemma join_plain [simp]:
  assumes "plain_component s"
  shows "join d s = d @ [s]"
proof -
  from assms have "\<not> starts_with ''/'' s"
    by (cases s) (auto simp: starts_with_def plain_component_def)
  with assms show ?thesis by (simp add: join_def components_plain)
qed

lemma plain_dot_prefixed:
  assumes "CHR ''/'' \<notin> set s" "CHR 0x5C \<notin> set s" "s \<noteq> []" "s \<noteq> ''.''"
  shows "plain_component (CHR ''.'' # s)"
  using assms by (auto simp: plain_component_def)

text \<open>The contract of the name validators.\<close>

locale component_validator =
  fixes valid :: "string \<Rightarrow> bool"
  assumes valid_plain: "valid s \<Longrightarrow> plain_component s"
begin

lemma join_direct_child: "valid s \<Longrightarrow> parent (join d s) = Some d"
  by (simp add: valid_plain parent_def)

lemma join_file_name: "valid s \<Longrightarrow> file_name (join d s) = Some s"
  using valid_plain by (auto simp: file_name_def plain_component_def)

lemma join_inj: "valid s \<Longrightarrow> valid t \<Longrightarrow> join d s = join d t \<longleftrightarrow> s = t"
  by (simp add: valid_plain)

lemma join_strictly_below: "valid s \<Longrightarrow> length (join d s) = Suc (length d)"
  by (simp add: valid_plain)

end

end
