(* ===== verification/Runtime_Header.thy ===== *)
theory Runtime_Header
  imports Names
begin

text \<open>
  The data types of \<open>src/runtime_data.rs\<close>: the header that is stamped onto a generated
  runtime, its update and policy sections, and the environment variable names derived from
  a runtime name. \<open>codec_ext\<close> holds what the file takes from the crates \<open>sha2\<close> and
  \<open>serde_json\<close>; \<open>codec_laws\<close> is what the code relies on of them.
\<close>

definition FORMAT_VERSION :: nat where
  "FORMAT_VERSION = 1"

record runtime_config =
  rc_channels :: "string list"
  rc_packages :: "string list"
  rc_condarc :: "string option"
  rc_freeze_base :: bool

definition runtime_config_default :: runtime_config where
  "runtime_config_default =
     \<lparr>rc_channels = [], rc_packages = [], rc_condarc = None, rc_freeze_base = False\<rparr>"

definition runtime_config_is_empty :: "runtime_config \<Rightarrow> bool" where
  "runtime_config_is_empty c =
     (rc_channels c = [] \<and> rc_packages c = [] \<and> rc_condarc c = None \<and> \<not> rc_freeze_base c)"

datatype update_ownership = Direct | External

definition update_ownership_default :: update_ownership where
  "update_ownership_default = Direct"

record runtime_update_config =
  u_channel :: string
  u_package :: string
  u_build_number :: nat
  compatibility_ownership :: "update_ownership option"
  compatibility_instruction :: "string option"

definition runtime_update_config_new :: "string \<Rightarrow> string \<Rightarrow> nat \<Rightarrow> runtime_update_config" where
  "runtime_update_config_new channel package build_number =
     \<lparr>u_channel = channel, u_package = package, u_build_number = build_number,
      compatibility_ownership = None, compatibility_instruction = None\<rparr>"

definition initial_ownership :: "runtime_update_config \<Rightarrow> update_ownership" where
  "initial_ownership u =
     (case compatibility_ownership u of None \<Rightarrow> update_ownership_default | Some o' \<Rightarrow> o')"

definition initial_instruction :: "runtime_update_config \<Rightarrow> string option" where
  "initial_instruction u = compatibility_instruction u"

definition has_compatibility_policy :: "runtime_update_config \<Rightarrow> bool" where
  "has_compatibility_policy u =
     (compatibility_ownership u \<noteq> None \<or> compatibility_instruction u \<noteq> None)"

definition supports_direct_update :: "runtime_update_config \<Rightarrow> bool" where
  "supports_direct_update u =
     (compatibility_ownership u \<noteq> Some External \<and> compatibility_instruction u = None)"

datatype install_scheme = Conda_Home | User_Data

record runtime_header =
  h_schema_version :: nat
  h_artifact_name :: string
  h_runtime_name :: string
  h_runtime_version :: string
  h_artifact_layout :: string
  h_platform :: string
  h_embedded_artifact_name :: string
  h_delegate_executable :: string
  h_install_scheme :: install_scheme
  h_install_name :: string
  h_metadata_file :: string
  h_bundle_env_var :: string
  h_offline_env_var :: string
  h_docs_url :: string
  h_installer :: "string option"
  h_update :: "runtime_update_config option"
  h_runtime_config :: runtime_config
  h_runtime_lock :: string

text \<open>
  \<open>runtime_env_var\<close> maps over the characters of the name: every character that is not an
  ASCII letter or digit, whatever its width in UTF-8, becomes one underscore.
\<close>

definition runtime_env_var :: "string \<Rightarrow> string \<Rightarrow> string" where
  "runtime_env_var name suffix =
     map (\<lambda>c. if is_ascii_alphanumeric c then to_ascii_uppercase c else CHR ''_'')
       (filter (\<lambda>c. \<not> utf8_continuation c) name) @ ''_'' @ suffix"

text \<open>\<open>RuntimeDataHeader::for_name\<close>; \<open>pkg_version\<close> is the build's \<open>CARGO_PKG_VERSION\<close>.\<close>

definition header_for_name :: "string \<Rightarrow> string \<Rightarrow> runtime_header" where
  "header_for_name pkg_version name =
     \<lparr>h_schema_version = FORMAT_VERSION, h_artifact_name = name, h_runtime_name = name,
      h_runtime_version = pkg_version, h_artifact_layout = '''', h_platform = '''',
      h_embedded_artifact_name = name, h_delegate_executable = ''conda'',
      h_install_scheme = Conda_Home, h_install_name = name,
      h_metadata_file = ''.'' @ name @ ''.json'',
      h_bundle_env_var = runtime_env_var name ''BUNDLE'',
      h_offline_env_var = runtime_env_var name ''OFFLINE'',
      h_docs_url = ''https://conda-incubator.github.io/conda-ship/'',
      h_installer = None, h_update = None,
      h_runtime_config = runtime_config_default, h_runtime_lock = ''''\<rparr>"

section \<open>What the file takes from other crates\<close>

record codec_ext =
  sha256 :: "bytes \<Rightarrow> bytes"
  header_to_vec :: "runtime_header \<Rightarrow> bytes result"
  header_from_slice :: "bytes \<Rightarrow> runtime_header result"

text \<open>A digest has 32 bytes, and a header that serialises parses back to itself.\<close>

definition codec_laws :: "codec_ext \<Rightarrow> bool" where
  "codec_laws X \<longleftrightarrow>
     (\<forall>b. length (sha256 X b) = 32) \<and>
     (\<forall>h b. header_to_vec X h = Inr b \<longrightarrow> header_from_slice X b = Inr h)"

lemma codec_lawsD:
  assumes "codec_laws X"
  shows "length (sha256 X b) = 32"
    and "header_to_vec X h = Inr v \<Longrightarrow> header_from_slice X v = Inr h"
  using assms by (auto simp: codec_laws_def)

section \<open>Environment variable names\<close>

definition env_var_char :: "char \<Rightarrow> bool" where
  "env_var_char c = (is_ascii_uppercase c \<or> is_ascii_digit c \<or> c = CHR ''_'')"

lemma to_ascii_uppercase_alphanumeric:
  assumes "is_ascii_alphanumeric c"
  shows "env_var_char (to_ascii_uppercase c)"
proof (cases "is_ascii_lowercase c")
  case True
  then have bounds: "97 \<le> code c" "code c \<le> 122" by (simp_all add: is_ascii_lowercase_def)
  then have "code (char_of (code c - 32) :: char) = code c - 32" by simp
  moreover from bounds have "65 \<le> code c - 32 \<and> code c - 32 \<le> 90" by linarith
  ultimately show ?thesis using True
    by (simp add: env_var_char_def to_ascii_uppercase_def is_ascii_uppercase_def)
next
  case False
  with assms show ?thesis
    by (auto simp: env_var_char_def to_ascii_uppercase_def is_ascii_alphanumeric_def)
qed

lemma runtime_env_var_chars:
  assumes "\<forall>c \<in> set suffix. env_var_char c"
  shows "\<forall>c \<in> set (runtime_env_var name suffix). env_var_char c"
  using assms
  by (auto simp: runtime_env_var_def to_ascii_uppercase_alphanumeric env_var_char_def [of "CHR ''_''"])

text \<open>A config that supports a direct update starts out directly owned, with no instruction.\<close>

lemma supports_direct_update_initial:
  "supports_direct_update u \<longleftrightarrow> initial_ownership u = Direct \<and> initial_instruction u = None"
  by (cases "compatibility_ownership u")
     (auto simp: supports_direct_update_def initial_ownership_def initial_instruction_def
        update_ownership_default_def intro: update_ownership.exhaust)

lemma new_config_supports_direct_update:
  "supports_direct_update (runtime_update_config_new c p b)"
  "\<not> has_compatibility_policy (runtime_update_config_new c p b)"
  by (simp_all add: supports_direct_update_def has_compatibility_policy_def
      runtime_update_config_new_def)

section \<open>A sample codec\<close>

text \<open>
  An instance of \<open>codec_ext\<close> for evaluating the model: the digest is the first 32 bytes, and
  one header has a serialisation.
\<close>

definition sample_header :: runtime_header where
  "sample_header = header_for_name ''1.0.0'' ''demo''"

definition sample_codec :: codec_ext where
  "sample_codec =
     \<lparr>sha256 = (\<lambda>b. take 32 (b @ replicate 32 0)),
      header_to_vec = (\<lambda>h. if h = sample_header then Inr [1, 2] else Inl Io_Failed),
      header_from_slice = (\<lambda>b. if b = [1, 2] then Inr sample_header else Inl Io_Failed)\<rparr>"

lemma sample_codec_laws [simp]: "codec_laws sample_codec"
  by (auto simp: codec_laws_def sample_codec_def min_def)

lemma sample_header_fields [simp]:
  "h_schema_version sample_header = 1" "h_platform sample_header = ''''"
  "header_to_vec sample_codec sample_header = Inr [1, 2]"
  by (simp_all add: sample_header_def header_for_name_def sample_codec_def FORMAT_VERSION_def)

end
