(* ===== verification/Runtime_Footer.thy ===== *)
theory Runtime_Footer
  imports Runtime_Header
begin

text \<open>
  The footer that ends the runtime data, and the readers of \<open>src/runtime_data.rs\<close> that start
  from it: \<open>encode_footer\<close> and \<open>decode_footer\<close>, the search for a footer before up to
  \<open>alignment - 1\<close> bytes of zero padding, the header and bundle it points to, and the two
  checks of an embedded bundle. A file is the list of its bytes. The search and the payload
  reader are proved to find what a writer appended, whatever precedes it.
\<close>

definition FOOTER_MAGIC :: bytes where
  "FOOTER_MAGIC = map of_char ''CONDA_SHIP_V0001''"

definition FOOTER_LEN :: nat where
  "FOOTER_LEN = 8 + 8 + 32 + 32 + 4 + length FOOTER_MAGIC"

definition MAX_HEADER_LEN :: nat where
  "MAX_HEADER_LEN = 16 * 1024 * 1024"

lemma length_FOOTER_MAGIC [simp]: "length FOOTER_MAGIC = 16"
  by (simp add: FOOTER_MAGIC_def)

lemma FOOTER_LEN_eq [simp]: "FOOTER_LEN = 100"
  by (simp add: FOOTER_LEN_def)

lemma FOOTER_MAGIC_last: "last FOOTER_MAGIC \<noteq> 0"
  by (simp add: FOOTER_MAGIC_def)

record decoded_footer =
  d_header_len :: nat
  d_bundle_len :: nat
  d_header_sha256 :: bytes
  d_bundle_sha256 :: bytes

definition encode_footer :: "nat \<Rightarrow> nat \<Rightarrow> bytes \<Rightarrow> bytes \<Rightarrow> bytes" where
  "encode_footer header_len bundle_len header_sha256 bundle_sha256 =
     le_bytes 8 header_len @ le_bytes 8 bundle_len @ header_sha256 @ bundle_sha256
       @ le_bytes 4 FORMAT_VERSION @ FOOTER_MAGIC"

definition decode_footer :: "bytes \<Rightarrow> decoded_footer option result" where
  "decode_footer footer =
     (if bytes_at footer 84 16 \<noteq> FOOTER_MAGIC then Inr None
      else if le_nat (bytes_at footer 80 4) \<noteq> FORMAT_VERSION
      then Inl (Invalid ''unsupported runtime data footer version'')
      else Inr (Some \<lparr>d_header_len = le_nat (bytes_at footer 0 8),
                      d_bundle_len = le_nat (bytes_at footer 8 8),
                      d_header_sha256 = bytes_at footer 16 32,
                      d_bundle_sha256 = bytes_at footer 48 32\<rparr>))"

section \<open>Embedded bundles\<close>

record embedded_bundle =
  eb_executable :: path
  eb_offset :: nat
  eb_len :: nat
  eb_sha256 :: bytes

record runtime_data =
  rd_header :: runtime_header
  rd_bundle :: "embedded_bundle option"
  rd_stamped :: bool

text \<open>
  \<open>hash_file_range\<close>: \<open>take(len)\<close> reads what there is; a short read is an error.
\<close>

definition hash_file_range :: "codec_ext \<Rightarrow> bytes \<Rightarrow> nat \<Rightarrow> nat \<Rightarrow> bytes result" where
  "hash_file_range X file offset len =
     (if length (bytes_at file offset len) \<noteq> len
      then Inl (Invalid ''file range ended before its declared length'')
      else Inr (sha256 X (bytes_at file offset len)))"

text \<open>\<open>EmbeddedBundle::open_verified\<close>: the verified snapshot, as its bytes.\<close>

definition open_verified :: "codec_ext \<Rightarrow> bytes \<Rightarrow> embedded_bundle \<Rightarrow> bytes result" where
  "open_verified X executable_bytes b =
     (let snapshot = bytes_at executable_bytes (eb_offset b) (eb_len b) in
      if length snapshot \<noteq> eb_len b
      then Inl (Invalid ''embedded bundle ended before its declared length'')
      else if sha256 X snapshot \<noteq> eb_sha256 b
      then Inl (Invalid ''embedded bundle checksum mismatch'')
      else Inr snapshot)"

definition verify_bundle :: "codec_ext \<Rightarrow> bytes \<Rightarrow> embedded_bundle \<Rightarrow> unit result" where
  "verify_bundle X executable_bytes b =
     rbind (hash_file_range X executable_bytes (eb_offset b) (eb_len b)) (\<lambda>actual.
       if actual \<noteq> eb_sha256 b then Inl (Invalid ''embedded bundle checksum mismatch'')
       else Inr ())"

section \<open>Reading the payload a footer describes\<close>

definition read_runtime_data_payload ::
    "codec_ext \<Rightarrow> path \<Rightarrow> bytes \<Rightarrow> nat \<Rightarrow> decoded_footer \<Rightarrow> runtime_data option result" where
  "read_runtime_data_payload X path file payload_start decoded =
     (if d_header_len decoded > MAX_HEADER_LEN
      then Inl (Invalid ''runtime data header is too large'')
      else
        rbind (read_exact_at file payload_start (d_header_len decoded)) (\<lambda>header_bytes.
        if sha256 X header_bytes \<noteq> d_header_sha256 decoded
        then Inl (Invalid ''runtime data header checksum mismatch'')
        else
          rbind (header_from_slice X header_bytes) (\<lambda>header.
          if h_schema_version header \<noteq> FORMAT_VERSION
          then Inl (Invalid ''unsupported runtime data schema version'')
          else Inr (Some
            \<lparr>rd_header = header,
             rd_bundle =
               (if d_bundle_len decoded > 0
                then Some \<lparr>eb_executable = path,
                           eb_offset = payload_start + d_header_len decoded,
                           eb_len = d_bundle_len decoded,
                           eb_sha256 = d_bundle_sha256 decoded\<rparr>
                else None),
             rd_stamped = True\<rparr>))))"

definition read_runtime_data_at_footer ::
    "codec_ext \<Rightarrow> path \<Rightarrow> bytes \<Rightarrow> nat \<Rightarrow> nat \<Rightarrow> bytes \<Rightarrow> runtime_data option result" where
  "read_runtime_data_at_footer X path file footer_start min_payload_start footer =
     rbind (decode_footer footer) (\<lambda>d. case d of None \<Rightarrow> Inr None | Some decoded \<Rightarrow>
       rbind (ok_or ''runtime data length overflow''
                (checked_add (d_header_len decoded) (d_bundle_len decoded))) (\<lambda>payload_len.
       if payload_len > footer_start
       then Inl (Invalid ''runtime data footer points before start of file'')
       else let payload_start = footer_start - payload_len in
         if payload_start < min_payload_start
         then Inl (Invalid ''runtime data payload starts before the minimum payload offset'')
         else read_runtime_data_payload X path file payload_start decoded))"

section \<open>Searching for the footer\<close>

record footer_search_spec =
  fs_data_end :: nat
  fs_alignment :: nat
  fs_minimum_payload_offset :: nat

text \<open>
  The loop over \<open>padding in 0..=alignment-1\<close>. The source reads the padding into a 15-byte
  buffer, so it needs \<open>alignment \<le> 16\<close>, which both its callers satisfy.
\<close>

fun search_paddings ::
    "codec_ext \<Rightarrow> path \<Rightarrow> bytes \<Rightarrow> footer_search_spec \<Rightarrow> nat list \<Rightarrow> runtime_data option result" where
  "search_paddings X path file spec [] = Inr None"
| "search_paddings X path file spec (padding # rest) =
     (case checked_sub (fs_data_end spec) padding of
        None \<Rightarrow> search_paddings X path file spec rest
      | Some footer_end \<Rightarrow>
          (case checked_sub footer_end FOOTER_LEN of
             None \<Rightarrow> search_paddings X path file spec rest
           | Some footer_start \<Rightarrow>
               rbind (read_exact_at file footer_start FOOTER_LEN) (\<lambda>footer.
               if bytes_at footer (FOOTER_LEN - length FOOTER_MAGIC) 16 \<noteq> FOOTER_MAGIC
               then search_paddings X path file spec rest
               else if padding \<noteq> 0 then
                 rbind (read_exact_at file footer_end padding) (\<lambda>alignment_bytes.
                 if \<not> all_zero alignment_bytes
                 then Inl (Invalid ''runtime data footer has nonzero platform alignment padding'')
                 else read_runtime_data_at_footer X path file footer_start
                        (fs_minimum_payload_offset spec) footer)
               else read_runtime_data_at_footer X path file footer_start
                      (fs_minimum_payload_offset spec) footer)))"

definition read_runtime_data_with_search_spec ::
    "codec_ext \<Rightarrow> path \<Rightarrow> bytes \<Rightarrow> footer_search_spec \<Rightarrow> runtime_data option result" where
  "read_runtime_data_with_search_spec X path file spec =
     search_paddings X path file spec [0 ..< Suc (fs_alignment spec - 1)]"

text \<open>\<open>footer_magic_exists_with_search_spec\<close>: the legacy check of signed PE files.\<close>

fun magic_at_paddings :: "bytes \<Rightarrow> footer_search_spec \<Rightarrow> nat list \<Rightarrow> bool result" where
  "magic_at_paddings file spec [] = Inr False"
| "magic_at_paddings file spec (padding # rest) =
     (case checked_sub (fs_data_end spec) padding of
        None \<Rightarrow> magic_at_paddings file spec rest
      | Some footer_end \<Rightarrow>
          (case checked_sub footer_end (length FOOTER_MAGIC) of
             None \<Rightarrow> magic_at_paddings file spec rest
           | Some magic_start \<Rightarrow>
               rbind (read_exact_at file magic_start (length FOOTER_MAGIC)) (\<lambda>magic.
               if magic = FOOTER_MAGIC then Inr True
               else magic_at_paddings file spec rest)))"

definition footer_magic_exists_with_search_spec ::
    "bytes \<Rightarrow> footer_search_spec \<Rightarrow> bool result" where
  "footer_magic_exists_with_search_spec file spec =
     magic_at_paddings file spec [0 ..< fs_alignment spec]"

text \<open>\<open>ensure_zero_file_range\<close>, in chunks of at most 4096 bytes.\<close>

function ensure_zero_file_range :: "bytes \<Rightarrow> nat \<Rightarrow> nat \<Rightarrow> string \<Rightarrow> unit result" where
  "ensure_zero_file_range file offset remaining message =
     (if remaining = 0 then Inr ()
      else let read_len = min remaining 4096 in
        rbind (read_exact_at file offset read_len) (\<lambda>buffer.
        if \<not> all_zero buffer then Inl (Invalid message)
        else ensure_zero_file_range file (offset + read_len) (remaining - read_len) message))"
  by pat_completeness auto
termination
  by (relation "measure (\<lambda>(file, offset, remaining, message). remaining)") auto

declare ensure_zero_file_range.simps [simp del]


section \<open>The footer codec\<close>

text \<open>What the encoder is applied to: 64-bit lengths and 32-byte digests.\<close>

definition footer_fields_ok :: "nat \<times> nat \<times> bytes \<times> bytes \<Rightarrow> bool" where
  "footer_fields_ok = (\<lambda>(hl, bl, hs, bs). hl < 2 ^ 64 \<and> bl < 2 ^ 64 \<and> length hs = 32 \<and> length bs = 32)"

lemma length_encode_footer:
  "length hs = 32 \<Longrightarrow> length bs = 32 \<Longrightarrow> length (encode_footer hl bl hs bs) = FOOTER_LEN"
  by (simp add: encode_footer_def del: le_bytes.simps)

lemma encode_footer_slices:
  assumes "length hs = 32" "length bs = 32"
  shows "bytes_at (encode_footer hl bl hs bs) 0 8 = le_bytes 8 hl"
    and "bytes_at (encode_footer hl bl hs bs) 8 8 = le_bytes 8 bl"
    and "bytes_at (encode_footer hl bl hs bs) 16 32 = hs"
    and "bytes_at (encode_footer hl bl hs bs) 48 32 = bs"
    and "bytes_at (encode_footer hl bl hs bs) 80 4 = le_bytes 4 FORMAT_VERSION"
    and "bytes_at (encode_footer hl bl hs bs) 84 16 = FOOTER_MAGIC"
  using assms by (simp_all add: encode_footer_def bytes_at_def)

lemma decode_encode_footer:
  assumes "footer_fields_ok (hl, bl, hs, bs)"
  shows "decode_footer (encode_footer hl bl hs bs) =
     Inr (Some \<lparr>d_header_len = hl, d_bundle_len = bl, d_header_sha256 = hs, d_bundle_sha256 = bs\<rparr>)"
  using assms
  by (simp add: decode_footer_def encode_footer_slices footer_fields_ok_def le_nat_le_bytes
      FORMAT_VERSION_def del: le_bytes.simps)

interpretation footer_codec: fixed_width_codec FOOTER_LEN
  "\<lambda>(hl, bl, hs, bs). encode_footer hl bl hs bs" decode_footer
  "\<lambda>(hl, bl, hs, bs). Inr (Some \<lparr>d_header_len = hl, d_bundle_len = bl,
                                 d_header_sha256 = hs, d_bundle_sha256 = bs\<rparr>)"
  footer_fields_ok
proof (unfold_locales, goal_cases)
  case (1 x)
  then show ?case
    by (cases x) (simp add: footer_fields_ok_def length_encode_footer del: FOOTER_LEN_eq)
next
  case (2 x)
  then show ?case by (cases x) (simp add: decode_encode_footer)
qed

text \<open>The decoder accepts nothing but an encoding, and reads 64-bit lengths.\<close>

lemma decode_footer_Some:
  assumes "decode_footer f = Inr (Some d)" and len: "length f = FOOTER_LEN"
  shows "f = encode_footer (d_header_len d) (d_bundle_len d) (d_header_sha256 d) (d_bundle_sha256 d)"
    and "d_header_len d < 2 ^ 64" and "d_bundle_len d < 2 ^ 64"
    and "length (d_header_sha256 d) = 32" and "length (d_bundle_sha256 d) = 32"
proof -
  from assms(1) have magic: "bytes_at f 84 16 = FOOTER_MAGIC"
    and version: "le_nat (bytes_at f 80 4) = FORMAT_VERSION"
    and d: "d = \<lparr>d_header_len = le_nat (bytes_at f 0 8), d_bundle_len = le_nat (bytes_at f 8 8),
                 d_header_sha256 = bytes_at f 16 32, d_bundle_sha256 = bytes_at f 48 32\<rparr>"
    by (auto simp: decode_footer_def split: if_splits)
  have f: "f = bytes_at f 0 8 @ bytes_at f 8 8 @ bytes_at f 16 32 @ bytes_at f 48 32 @ bytes_at f 80 4 @ bytes_at f 84 16"
  proof -
    have cut: "bytes_at f a m @ drop (a + m) f = drop a f" for a m
      by (metis add.commute append_take_drop_id drop_drop bytes_at_def)
    have last: "bytes_at f 84 16 = drop 84 f"
      using len by (simp add: bytes_at_def)
    show ?thesis
      using cut [of 0 8] cut [of 8 8] cut [of 16 32] cut [of 48 32] cut [of 80 4] last by simp
  qed
  have parts: "bytes_at f 0 8 = le_bytes 8 (d_header_len d)" "bytes_at f 8 8 = le_bytes 8 (d_bundle_len d)"
    "bytes_at f 80 4 = le_bytes 4 FORMAT_VERSION"
    using len le_bytes_le_nat [of "bytes_at f 80 4" 4] version by (simp_all add: d le_bytes_le_nat del: le_bytes.simps)
  have digests: "bytes_at f 16 32 = d_header_sha256 d" "bytes_at f 48 32 = d_bundle_sha256 d"
    by (simp_all add: d)
  have "f = le_bytes 8 (d_header_len d) @ le_bytes 8 (d_bundle_len d) @ d_header_sha256 d
        @ d_bundle_sha256 d @ le_bytes 4 FORMAT_VERSION @ FOOTER_MAGIC"
    using f unfolding parts digests magic .
  then show "f = encode_footer (d_header_len d) (d_bundle_len d) (d_header_sha256 d) (d_bundle_sha256 d)"
    by (simp only: encode_footer_def)
  show "d_header_len d < 2 ^ 64" "d_bundle_len d < 2 ^ 64"
    using le_nat_bound [of "bytes_at f 0 8"] le_nat_bound [of "bytes_at f 8 8"] len by (simp_all add: d)
  show "length (d_header_sha256 d) = 32" "length (d_bundle_sha256 d) = 32"
    using len by (simp_all add: d)
qed

lemma ensure_zero_file_range_iff:
  "ensure_zero_file_range f off n msg = Inr () \<longleftrightarrow>
     length (bytes_at f off n) = n \<and> all_zero (bytes_at f off n)"
proof (induction f off n msg rule: ensure_zero_file_range.induct)
  case (1 f off n msg)
  show ?case
  proof (cases "n = 0")
    case True
    then show ?thesis by (simp add: ensure_zero_file_range.simps bytes_at_def)
  next
    case False
    define k where "k = min n 4096"
    have k: "k \<le> n" "0 < k" using False by (simp_all add: k_def)
    have split: "bytes_at f off n = bytes_at f off k @ bytes_at f (off + k) (n - k)"
      using k by (simp add: bytes_at_def add.commute flip: drop_drop take_add)
    have IH: "length (bytes_at f off k) = k \<Longrightarrow> all_zero (bytes_at f off k) \<Longrightarrow>
      ensure_zero_file_range f (off + k) (n - k) msg = Inr () \<longleftrightarrow>
        length (bytes_at f (off + k) (n - k)) = n - k \<and> all_zero (bytes_at f (off + k) (n - k))"
      using "1.IH" [OF False k_def, of "bytes_at f off k"] by (simp add: read_exact_at_def)
    have unfold: "ensure_zero_file_range f off n msg =
        rbind (read_exact_at f off k) (\<lambda>buffer.
          if \<not> all_zero buffer then Inl (Invalid msg)
          else ensure_zero_file_range f (off + k) (n - k) msg)"
      unfolding k_def using False by (subst ensure_zero_file_range.simps) (simp add: Let_def)
    show ?thesis
    proof (cases "length (bytes_at f off k) = k \<and> all_zero (bytes_at f off k)")
      case True
      then have "ensure_zero_file_range f off n msg = ensure_zero_file_range f (off + k) (n - k) msg"
        by (simp add: unfold read_exact_at_def)
      with IH True split k show ?thesis
        by (auto simp: all_zero_def)
    next
      case bad: False
      then have "ensure_zero_file_range f off n msg \<noteq> Inr ()"
        by (auto simp: unfold read_exact_at_def)
      moreover have "\<not> (length (bytes_at f off n) = n \<and> all_zero (bytes_at f off n))"
        using bad k split by (auto simp: all_zero_def)
      ultimately show ?thesis by simp
    qed
  qed
qed


section \<open>Reading back what was written\<close>

text \<open>
  The payload \<open>write_runtime_payload\<close> appends for header bytes \<open>hb\<close> and bundle bytes \<open>b\<close>,
  and the runtime data a reader of it returns when it starts at \<open>start\<close>.
\<close>

definition payload_footer :: "codec_ext \<Rightarrow> bytes \<Rightarrow> bytes \<Rightarrow> bytes" where
  "payload_footer X hb b = encode_footer (length hb) (length b) (sha256 X hb) (sha256 X b)"

definition stamp_payload :: "codec_ext \<Rightarrow> bytes \<Rightarrow> bytes \<Rightarrow> bytes" where
  "stamp_payload X hb b = hb @ b @ payload_footer X hb b"

definition payload_decoded :: "codec_ext \<Rightarrow> bytes \<Rightarrow> bytes \<Rightarrow> decoded_footer" where
  "payload_decoded X hb b =
     \<lparr>d_header_len = length hb, d_bundle_len = length b,
      d_header_sha256 = sha256 X hb, d_bundle_sha256 = sha256 X b\<rparr>"

definition stamped_data :: "codec_ext \<Rightarrow> path \<Rightarrow> nat \<Rightarrow> runtime_header \<Rightarrow> bytes \<Rightarrow> bytes \<Rightarrow> runtime_data" where
  "stamped_data X path start h hb b =
     \<lparr>rd_header = h,
      rd_bundle = (if b = [] then None
                   else Some \<lparr>eb_executable = path, eb_offset = start + length hb,
                              eb_len = length b, eb_sha256 = sha256 X b\<rparr>),
      rd_stamped = True\<rparr>"

text \<open>What the writer has checked before it writes a payload.\<close>

definition stampable :: "codec_ext \<Rightarrow> runtime_header \<Rightarrow> bytes \<Rightarrow> bytes \<Rightarrow> bool" where
  "stampable X h hb b \<longleftrightarrow>
     codec_laws X \<and> header_to_vec X h = Inr hb \<and> h_schema_version h = FORMAT_VERSION \<and>
     length hb \<le> MAX_HEADER_LEN \<and> length hb + length b + FOOTER_LEN < 2 ^ 64"

lemma stampable_footer_ok:
  assumes "stampable X h hb b"
  shows "footer_fields_ok (length hb, length b, sha256 X hb, sha256 X b)"
  using assms by (auto simp: stampable_def footer_fields_ok_def codec_laws_def)

lemma length_payload_footer:
  "stampable X h hb b \<Longrightarrow> length (payload_footer X hb b) = FOOTER_LEN"
  using stampable_footer_ok [of X h hb b]
  by (simp add: payload_footer_def footer_fields_ok_def length_encode_footer del: FOOTER_LEN_eq)

lemma length_stamp_payload:
  "stampable X h hb b \<Longrightarrow> length (stamp_payload X hb b) = length hb + length b + FOOTER_LEN"
  by (simp add: stamp_payload_def length_payload_footer del: FOOTER_LEN_eq)

lemma decode_payload_footer:
  "stampable X h hb b \<Longrightarrow> decode_footer (payload_footer X hb b) = Inr (Some (payload_decoded X hb b))"
  using footer_codec.dec_enc [OF stampable_footer_ok]
  by (simp add: payload_footer_def payload_decoded_def)

lemma payload_footer_magic:
  "stampable X h hb b \<Longrightarrow> bytes_at (payload_footer X hb b) 84 16 = FOOTER_MAGIC"
  using stampable_footer_ok [of X h hb b]
  by (simp add: payload_footer_def footer_fields_ok_def encode_footer_slices)

lemma read_payload_stamped:
  assumes ok: "stampable X h hb b" and hdr: "bytes_at f start (length hb) = hb"
  shows "read_runtime_data_payload X path f start (payload_decoded X hb b) =
     Inr (Some (stamped_data X path start h hb b))"
proof -
  from ok have "header_from_slice X hb = Inr h" "length hb \<le> MAX_HEADER_LEN"
    "h_schema_version h = FORMAT_VERSION"
    by (auto simp: stampable_def dest: codec_lawsD)
  moreover have "read_exact_at f start (length hb) = Inr hb"
    by (simp add: read_exact_at_def hdr)
  ultimately show ?thesis
    by (simp add: read_runtime_data_payload_def payload_decoded_def stamped_data_def)
qed

lemma read_at_footer_stamped:
  assumes ok: "stampable X h hb b"
    and at: "bytes_at f start (length hb) = hb" and min: "minp \<le> start"
  shows "read_runtime_data_at_footer X path f (start + length hb + length b) minp (payload_footer X hb b)
     = Inr (Some (stamped_data X path start h hb b))"
proof -
  have "checked_add (d_header_len (payload_decoded X hb b)) (d_bundle_len (payload_decoded X hb b))
      = Some (length hb + length b)"
    using ok by (simp add: payload_decoded_def checked_add_eq_Some stampable_def)
  with min show ?thesis
    by (simp add: read_runtime_data_at_footer_def decode_payload_footer [OF ok]
        read_payload_stamped [OF ok at])
qed

text \<open>No footer ends inside the zero padding, because the magic does not end in a zero byte.\<close>

lemma magic_not_in_padding:
  assumes "bytes_at f (e - 1) 1 = [0]" "16 \<le> e" "e \<le> length f"
  shows "bytes_at f (e - 16) 16 \<noteq> FOOTER_MAGIC"
proof
  assume eq: "bytes_at f (e - 16) 16 = FOOTER_MAGIC"
  have "last (bytes_at f (e - 16) 16) = f ! (e - 1)"
    using assms(2,3) by (subst last_conv_nth) (auto simp: bytes_at_def)
  also have "f ! (e - 1) = hd (bytes_at f (e - 1) 1)"
    using assms(2,3) by (simp add: bytes_at_def hd_drop_conv_nth take_Suc_conv_app_nth)
  also have "\<dots> = 0" using assms(1) by simp
  finally show False using eq FOOTER_MAGIC_last by simp
qed

lemma search_paddings_skip:
  assumes end_ok: "fs_data_end spec \<le> length f"
    and no: "100 \<le> fs_data_end spec - i \<Longrightarrow> bytes_at f (fs_data_end spec - i - 16) 16 \<noteq> FOOTER_MAGIC"
  shows "search_paddings X path f spec (i # rest) = search_paddings X path f spec rest"
proof (cases "100 \<le> fs_data_end spec - i")
  case True
  let ?s = "fs_data_end spec - i - 100"
  have "bytes_at (bytes_at f ?s 100) 84 16 = bytes_at f (fs_data_end spec - i - 16) 16"
    using True by (subst slice_slice) (simp_all add: add.commute)
  with no [OF True] True end_ok show ?thesis
    by (simp add: checked_sub_def read_exact_at_def)
next
  case False
  then show ?thesis by (simp add: checked_sub_def)
qed

lemma search_paddings_reach:
  assumes end_ok: "fs_data_end spec \<le> length f" and le: "i \<le> p" "p < m"
    and no: "\<And>j. i \<le> j \<Longrightarrow> j < p \<Longrightarrow> 100 \<le> fs_data_end spec - j \<Longrightarrow>
               bytes_at f (fs_data_end spec - j - 16) 16 \<noteq> FOOTER_MAGIC"
  shows "search_paddings X path f spec [i ..< m] = search_paddings X path f spec [p ..< m]"
  using le no
proof (induction "p - i" arbitrary: i)
  case 0
  then show ?case by simp
next
  case (Suc k)
  then have "[i ..< m] = i # [Suc i ..< m]" by (simp add: upt_conv_Cons)
  moreover have "search_paddings X path f spec (i # [Suc i ..< m]) = search_paddings X path f spec [Suc i ..< m]"
    using Suc by (intro search_paddings_skip [OF end_ok]) simp_all
  moreover have "search_paddings X path f spec [Suc i ..< m] = search_paddings X path f spec [p ..< m]"
    using Suc by (intro Suc.hyps(1)) simp_all
  ultimately show ?case by simp
qed

lemma search_finds_stamp:
  assumes ok: "stampable X h hb b"
    and f: "f = pre @ stamp_payload X hb b @ replicate p 0 @ post"
    and de: "fs_data_end spec = length pre + length (stamp_payload X hb b) + p"
    and al: "p < max 1 (fs_alignment spec)"
    and min: "fs_minimum_payload_offset spec \<le> length pre"
  shows "read_runtime_data_with_search_spec X path f spec =
     Inr (Some (stamped_data X path (length pre) h hb b))"
proof -
  let ?fs = "length pre + length hb + length b"
  note lens = length_stamp_payload [OF ok] length_payload_footer [OF ok]
  have de': "fs_data_end spec = ?fs + 100 + p" by (simp add: de lens)
  have end_ok: "fs_data_end spec \<le> length f" by (simp add: f de)
  have zero: "bytes_at f (fs_data_end spec - j - 1) 1 = [0]" if "j < p" for j
  proof -
    have "fs_data_end spec - j - 1 - length (pre @ stamp_payload X hb b) = p - j - 1"
      using that by (simp add: de)
    moreover have "bytes_at (replicate p 0 @ post) (p - j - 1) 1 = [0 :: byte]"
      using that by (simp add: bytes_at_def)
    ultimately have "bytes_at ((pre @ stamp_payload X hb b) @ replicate p 0 @ post) (fs_data_end spec - j - 1) 1 = [0]"
      using that by (subst slice_append_right) (simp_all add: de)
    then show ?thesis by (simp add: f)
  qed
  have skip: "read_runtime_data_with_search_spec X path f spec =
      search_paddings X path f spec [p ..< Suc (fs_alignment spec - 1)]"
    unfolding read_runtime_data_with_search_spec_def
  proof (rule search_paddings_reach [OF end_ok])
    show "p < Suc (fs_alignment spec - 1)" using al by simp
    fix j assume "j < p" "100 \<le> fs_data_end spec - j"
    then show "bytes_at f (fs_data_end spec - j - 16) 16 \<noteq> FOOTER_MAGIC"
      using end_ok by (intro magic_not_in_padding zero) auto
  qed simp
  have list: "[p ..< Suc (fs_alignment spec - 1)] = p # [Suc p ..< Suc (fs_alignment spec - 1)]"
    using al by (intro upt_conv_Cons) simp
  have footer: "bytes_at f ?fs 100 = payload_footer X hb b"
    unfolding f stamp_payload_def using lens
    by (simp add: bytes_at_def)
  have pad: "bytes_at f (fs_data_end spec - p) p = replicate p 0"
  proof -
    have "length (pre @ stamp_payload X hb b) = fs_data_end spec - p" by (simp add: de)
    then show ?thesis
      using slice_mid [of "pre @ stamp_payload X hb b" "fs_data_end spec - p" "replicate p 0" p post]
      by (simp add: f)
  qed
  have hdr: "bytes_at f (length pre) (length hb) = hb"
    by (simp add: f stamp_payload_def bytes_at_def)
  have "search_paddings X path f spec (p # rest) = Inr (Some (stamped_data X path (length pre) h hb b))" for rest
    using read_at_footer_stamped [OF ok hdr min] payload_footer_magic [OF ok] footer pad de' lens
    by (simp add: checked_sub_def read_exact_at_def)
  with skip list show ?thesis by simp
qed


section \<open>What an accepted payload guarantees\<close>

text \<open>
  \<open>authentic X path f start d data\<close>: the header of \<open>data\<close> is the parse of the bytes the
  footer \<open>d\<close> describes at \<open>start\<close>, those bytes hash to the recorded digest, and the bundle
  is the range that follows them, with the digest the footer records.
\<close>

definition authentic :: "codec_ext \<Rightarrow> path \<Rightarrow> bytes \<Rightarrow> nat \<Rightarrow> decoded_footer \<Rightarrow> runtime_data \<Rightarrow> bool" where
  "authentic X path f start d data \<longleftrightarrow>
     d_header_len d \<le> MAX_HEADER_LEN \<and>
     length (bytes_at f start (d_header_len d)) = d_header_len d \<and>
     sha256 X (bytes_at f start (d_header_len d)) = d_header_sha256 d \<and>
     header_from_slice X (bytes_at f start (d_header_len d)) = Inr (rd_header data) \<and>
     h_schema_version (rd_header data) = FORMAT_VERSION \<and>
     rd_stamped data \<and>
     rd_bundle data =
       (if d_bundle_len d > 0
        then Some \<lparr>eb_executable = path, eb_offset = start + d_header_len d,
                   eb_len = d_bundle_len d, eb_sha256 = d_bundle_sha256 d\<rparr>
        else None)"

lemma read_runtime_data_payload_eq_Inr:
  "read_runtime_data_payload X path f start d = Inr r \<longleftrightarrow>
     (\<exists>data. r = Some data \<and> authentic X path f start d data)"
  by (auto simp: read_runtime_data_payload_def authentic_def success_simps not_less
      intro!: exI [of _ "the r"])

lemma read_runtime_data_payload_stamped:
  "read_runtime_data_payload X path f start d = Inr (Some data) \<Longrightarrow> rd_stamped data"
  by (auto simp: read_runtime_data_payload_eq_Inr authentic_def)

text \<open>Where a footer is found: its position, the payload before it and the padding behind it.\<close>

definition located :: "codec_ext \<Rightarrow> path \<Rightarrow> bytes \<Rightarrow> nat \<Rightarrow> nat \<Rightarrow> nat \<Rightarrow> nat \<Rightarrow> runtime_data \<Rightarrow> bool" where
  "located X path f minp start footer_start padding data \<longleftrightarrow>
     (\<exists>d. decode_footer (bytes_at f footer_start FOOTER_LEN) = Inr (Some d) \<and>
          length (bytes_at f footer_start FOOTER_LEN) = FOOTER_LEN \<and>
          start + d_header_len d + d_bundle_len d = footer_start \<and> minp \<le> start \<and>
          length (bytes_at f (footer_start + FOOTER_LEN) padding) = padding \<and>
          all_zero (bytes_at f (footer_start + FOOTER_LEN) padding) \<and>
          authentic X path f start d data)"

lemma read_at_footer_Some:
  assumes "read_runtime_data_at_footer X path f footer_start minp footer = Inr (Some data)"
  obtains d start where "decode_footer footer = Inr (Some d)"
    and "start + d_header_len d + d_bundle_len d = footer_start" and "minp \<le> start"
    and "authentic X path f start d data"
proof -
  from assms obtain d where d: "decode_footer footer = Inr (Some d)"
    by (auto simp: read_runtime_data_at_footer_def success_simps split: option.splits)
  let ?start = "footer_start - (d_header_len d + d_bundle_len d)"
  from assms d have "d_header_len d + d_bundle_len d \<le> footer_start" "minp \<le> ?start"
    "read_runtime_data_payload X path f ?start d = Inr (Some data)"
    by (auto simp: read_runtime_data_at_footer_def success_simps Let_def not_less)
  with d that [of d ?start] show ?thesis
    by (auto simp: read_runtime_data_payload_eq_Inr)
qed

lemma search_paddings_Some:
  assumes "search_paddings X path f spec ps = Inr (Some data)"
  shows "\<exists>p start footer_start. p \<in> set ps \<and> footer_start + FOOTER_LEN + p = fs_data_end spec \<and>
     located X path f (fs_minimum_payload_offset spec) start footer_start p data"
  using assms
proof (induction ps)
  case Nil
  then show ?case by simp
next
  case (Cons p ps)
  show ?case
  proof (cases "search_paddings X path f spec ps = Inr (Some data)")
    case True
    with Cons.IH show ?thesis by auto
  next
    case rest: False
    let ?fe = "fs_data_end spec - p" and ?fs = "fs_data_end spec - p - 100"
    let ?footer = "bytes_at f ?fs 100"
    from Cons.prems rest have ge: "p \<le> fs_data_end spec" "100 \<le> ?fe"
      by (auto simp: checked_sub_def split: if_splits)
    with Cons.prems rest have len: "length ?footer = 100"
      and pad: "length (bytes_at f ?fe p) = p" "all_zero (bytes_at f ?fe p)"
      and found: "read_runtime_data_at_footer X path f ?fs (fs_minimum_payload_offset spec) ?footer
                   = Inr (Some data)"
      by (auto simp: checked_sub_def success_simps bytes_at_def split: if_splits)
    from ge have eqs: "?fs + 100 = ?fe" "?fs + 100 + p = fs_data_end spec" by simp_all
    from found obtain d start where "decode_footer ?footer = Inr (Some d)"
      "start + d_header_len d + d_bundle_len d = ?fs" "fs_minimum_payload_offset spec \<le> start"
      "authentic X path f start d data"
      by (rule read_at_footer_Some)
    with len pad eqs have "located X path f (fs_minimum_payload_offset spec) start ?fs p data"
      by (auto simp: located_def)
    moreover have "p \<in> set (p # ps)" "?fs + FOOTER_LEN + p = fs_data_end spec" using eqs by simp_all
    ultimately show ?thesis by blast
  qed
qed

lemma search_spec_Some:
  assumes "read_runtime_data_with_search_spec X path f spec = Inr (Some data)"
  obtains p start footer_start where "p < max 1 (fs_alignment spec)"
    and "footer_start + FOOTER_LEN + p = fs_data_end spec"
    and "located X path f (fs_minimum_payload_offset spec) start footer_start p data"
proof -
  from search_paddings_Some [OF assms [unfolded read_runtime_data_with_search_spec_def]]
  obtain p start footer_start where "p \<in> set [0 ..< Suc (fs_alignment spec - 1)]"
    "footer_start + FOOTER_LEN + p = fs_data_end spec"
    "located X path f (fs_minimum_payload_offset spec) start footer_start p data" by blast
  with that [of p footer_start start] show ?thesis by auto
qed

text \<open>The two checks of an embedded bundle agree, and a checked bundle has the recorded digest.\<close>

lemma open_verified_eq_Inr:
  "open_verified X f b = Inr snapshot \<longleftrightarrow>
     snapshot = bytes_at f (eb_offset b) (eb_len b) \<and> length snapshot = eb_len b \<and>
     sha256 X snapshot = eb_sha256 b"
  by (auto simp: open_verified_def Let_def)

lemma verify_bundle_iff_open_verified:
  "verify_bundle X f b = Inr () \<longleftrightarrow> is_ok (open_verified X f b)"
  by (auto simp: verify_bundle_def hash_file_range_def open_verified_def Let_def)

lemma open_verified_stamped:
  assumes "b \<noteq> []" "rd_bundle (stamped_data X path start h hb b) = Some e"
    and "bytes_at f (start + length hb) (length b) = b"
  shows "open_verified X f e = Inr b"
  using assms by (auto simp: stamped_data_def open_verified_eq_Inr)

end
