(* ===== verification/Runtime_Content.thy ===== *)
theory Runtime_Content
  imports Runtime_Footer
begin

text \<open>
  Writing the runtime data of \<open>src/runtime_data.rs\<close>: \<open>BundleSource\<close>, \<open>ensure_unchanged\<close>,
  \<open>write_runtime_content\<close> and \<open>write_runtime_payload\<close>. The bundle file may change while it
  is read, so what each pass over it returns, and the metadata seen after each pass, are
  separate observations; the functions compute the bytes written from them.
\<close>

record file_metadata =
  fm_is_file :: bool
  fm_len :: nat
  fm_modified :: "nat option"

record bundle_source =
  bs_len :: nat
  bs_modified :: "nat option"

text \<open>
  \<open>BundleSource::open\<close>: the metadata of the path, then the metadata of the opened file.
\<close>

definition bundle_source_open :: "file_metadata \<Rightarrow> file_metadata \<Rightarrow> bundle_source result" where
  "bundle_source_open path_metadata metadata =
     (if \<not> fm_is_file path_metadata
      then Inl (Invalid ''runtime data bundle is not a regular file'')
      else if \<not> fm_is_file metadata
      then Inl (Invalid ''runtime data bundle is not a regular file'')
      else Inr \<lparr>bs_len = fm_len metadata, bs_modified = fm_modified metadata\<rparr>)"

text \<open>Two modification times that are both known and differ.\<close>

definition times_differ :: "nat option \<Rightarrow> nat option \<Rightarrow> bool" where
  "times_differ earlier later =
     (case (earlier, later) of (Some b, Some a) \<Rightarrow> b \<noteq> a | _ \<Rightarrow> False)"

definition ensure_unchanged :: "bundle_source \<Rightarrow> file_metadata \<Rightarrow> unit result" where
  "ensure_unchanged source metadata =
     (if fm_len metadata \<noteq> bs_len source \<or> times_differ (bs_modified source) (fm_modified metadata)
      then Inl (Invalid ''runtime data bundle changed while being read'')
      else Inr ())"

text \<open>What the environment answers while the bundle is copied and then hashed again.\<close>

record bundle_reads =
  br_first :: bytes
  br_meta_after_first :: file_metadata
  br_second :: bytes
  br_meta_after_second :: file_metadata

record prepared_data =
  p_header_bytes :: bytes
  p_header_len :: nat
  p_bundle_len :: nat
  p_header_sha256 :: bytes
  p_payload_len :: nat

definition write_runtime_content ::
    "codec_ext \<Rightarrow> (bundle_source \<times> bundle_reads) option \<Rightarrow> prepared_data \<Rightarrow> (bytes \<times> bytes) result" where
  "write_runtime_content X bundle prepared =
     (let first = (case bundle of None \<Rightarrow> [] | Some (_, reads) \<Rightarrow> br_first reads) in
      if length first > p_bundle_len prepared
      then Inl (Invalid ''runtime data bundle grew while being read'')
      else if length first \<noteq> p_bundle_len prepared
      then Inl (Invalid ''runtime data bundle changed while being read'')
      else
        let bundle_sha256 = sha256 X first in
        rbind (case bundle of None \<Rightarrow> Inr ()
               | Some (source, reads) \<Rightarrow>
                   rbind (ensure_unchanged source (br_meta_after_first reads)) (\<lambda>_.
                   let second = take (bs_len source) (br_second reads) in
                   rbind (ensure_unchanged source (br_meta_after_second reads)) (\<lambda>_.
                   if length second \<noteq> bs_len source \<or> sha256 X second \<noteq> bundle_sha256
                   then Inl (Invalid ''runtime data bundle changed while being read'')
                   else Inr ()))) (\<lambda>_.
        Inr (p_header_bytes prepared @ first,
             encode_footer (p_header_len prepared) (p_bundle_len prepared)
               (p_header_sha256 prepared) bundle_sha256)))"

definition write_runtime_payload ::
    "codec_ext \<Rightarrow> (bundle_source \<times> bundle_reads) option \<Rightarrow> prepared_data \<Rightarrow> bytes result" where
  "write_runtime_payload X bundle prepared =
     rbind (write_runtime_content X bundle prepared) (\<lambda>(content, footer). Inr (content @ footer))"

text \<open>The prefix of \<open>append_to_binary\<close> that checks and measures the header and the bundle.\<close>

definition prepare_runtime_data ::
    "codec_ext \<Rightarrow> runtime_header \<Rightarrow> bundle_source option \<Rightarrow> prepared_data result" where
  "prepare_runtime_data X header source =
     (if h_schema_version header \<noteq> FORMAT_VERSION
      then Inl (Invalid ''unsupported runtime data schema version'')
      else
        rbind (header_to_vec X header) (\<lambda>header_bytes.
        let header_len = length header_bytes in
        if header_len > MAX_HEADER_LEN
        then Inl (Invalid ''runtime data header is too large'')
        else
          let bundle_len = (case source of None \<Rightarrow> 0 | Some s \<Rightarrow> bs_len s) in
          rbind (ok_or ''runtime data length overflow''
                   (Option.bind (checked_add header_len bundle_len)
                      (\<lambda>len. checked_add len FOOTER_LEN))) (\<lambda>payload_len.
          Inr \<lparr>p_header_bytes = header_bytes, p_header_len = header_len,
               p_bundle_len = bundle_len, p_header_sha256 = sha256 X header_bytes,
               p_payload_len = payload_len\<rparr>)))"

section \<open>What a successful write has checked\<close>

definition bundle_bytes :: "(bundle_source \<times> bundle_reads) option \<Rightarrow> bytes" where
  "bundle_bytes bundle = (case bundle of None \<Rightarrow> [] | Some (_, reads) \<Rightarrow> br_first reads)"

lemma prepare_runtime_data_Inr:
  assumes "prepare_runtime_data X h source = Inr p"
  shows "h_schema_version h = FORMAT_VERSION"
    and "header_to_vec X h = Inr (p_header_bytes p)"
    and "p_header_len p = length (p_header_bytes p)" and "p_header_len p \<le> MAX_HEADER_LEN"
    and "p_bundle_len p = (case source of None \<Rightarrow> 0 | Some s \<Rightarrow> bs_len s)"
    and "p_header_sha256 p = sha256 X (p_header_bytes p)"
    and "p_payload_len p = p_header_len p + p_bundle_len p + FOOTER_LEN"
    and "p_payload_len p < 2 ^ 64"
  using assms
  by (auto simp: prepare_runtime_data_def Let_def success_simps not_less bind_eq_Some_conv
      simp del: FOOTER_LEN_eq)

lemma write_runtime_content_Inr:
  assumes "write_runtime_content X bundle p = Inr (content, footer)"
  shows "content = p_header_bytes p @ bundle_bytes bundle"
    and "length (bundle_bytes bundle) = p_bundle_len p"
    and "footer = encode_footer (p_header_len p) (p_bundle_len p) (p_header_sha256 p)
                    (sha256 X (bundle_bytes bundle))"
  using assms
  by (auto simp: write_runtime_content_def Let_def success_simps bundle_bytes_def
      split: option.splits)

text \<open>The second pass over the bundle saw the same number of bytes and the same digest.\<close>

lemma write_runtime_content_rechecked:
  assumes "write_runtime_content X (Some (source, reads)) p = Inr r"
  shows "sha256 X (take (bs_len source) (br_second reads)) = sha256 X (br_first reads)"
    and "length (br_first reads) = p_bundle_len p"
    and "fm_len (br_meta_after_second reads) = bs_len source"
  using assms
  by (auto simp: write_runtime_content_def Let_def success_simps ensure_unchanged_def)

lemma prepared_stampable:
  assumes laws: "codec_laws X" and prep: "prepare_runtime_data X h (map_option fst bundle) = Inr p"
    and w: "write_runtime_content X bundle p = Inr (content, footer)"
  shows "stampable X h (p_header_bytes p) (bundle_bytes bundle)"
    and "content @ footer = stamp_payload X (p_header_bytes p) (bundle_bytes bundle)"
    and "footer = payload_footer X (p_header_bytes p) (bundle_bytes bundle)"
    and "length (content @ footer) = p_payload_len p"
proof -
  note P = prepare_runtime_data_Inr [OF prep] and W = write_runtime_content_Inr [OF w]
  show st: "stampable X h (p_header_bytes p) (bundle_bytes bundle)"
    using laws P W(2) by (simp add: stampable_def)
  show eq: "content @ footer = stamp_payload X (p_header_bytes p) (bundle_bytes bundle)"
    and "footer = payload_footer X (p_header_bytes p) (bundle_bytes bundle)"
    using P W by (simp_all add: stamp_payload_def payload_footer_def)
  show "length (content @ footer) = p_payload_len p"
    unfolding eq using P W by (simp add: length_stamp_payload [OF st])
qed

section \<open>Signed copies\<close>

text \<open>
  \<open>f\<close> holds the image data of \<open>out\<close>: a signing tool may rewrite the headers (the first
  \<open>soh\<close> bytes) and append a certificate table, and changes nothing else.
\<close>

definition same_image_data :: "nat \<Rightarrow> bytes \<Rightarrow> bytes \<Rightarrow> bool" where
  "same_image_data soh out f \<longleftrightarrow>
     length out \<le> length f \<and> drop soh (take (length out) f) = drop soh out"

lemma same_image_data_bytes_at:
  assumes same: "same_image_data soh out f" and "soh \<le> off" "off + n \<le> length out"
  shows "bytes_at f off n = bytes_at out off n"
proof -
  have "bytes_at f off n = take n (drop (off - soh) (drop soh (take (length out) f)))"
    using assms(2,3) by (simp add: bytes_at_def drop_take min_def)
  also have "\<dots> = take n (drop (off - soh) (drop soh out))"
    using same by (simp add: same_image_data_def)
  also have "\<dots> = bytes_at out off n"
    using assms(2) by (simp add: bytes_at_def)
  finally show ?thesis .
qed

lemma same_image_data_refl: "same_image_data soh out out"
  by (simp add: same_image_data_def)

section \<open>A sample bundle\<close>

definition sample_meta :: file_metadata where
  "sample_meta = \<lparr>fm_is_file = True, fm_len = 2, fm_modified = None\<rparr>"

definition sample_bundle :: "(bundle_source \<times> bundle_reads) option" where
  "sample_bundle = Some (\<lparr>bs_len = 2, bs_modified = None\<rparr>,
     \<lparr>br_first = [7, 8], br_meta_after_first = sample_meta, br_second = [7, 8],
      br_meta_after_second = sample_meta\<rparr>)"

definition sample_prepared :: prepared_data where
  "sample_prepared = \<lparr>p_header_bytes = [1, 2], p_header_len = 2, p_bundle_len = 2,
     p_header_sha256 = sha256 sample_codec [1, 2], p_payload_len = 104\<rparr>"

lemma sample_prepare:
  "prepare_runtime_data sample_codec sample_header (map_option fst sample_bundle) = Inr sample_prepared"
  by (simp add: prepare_runtime_data_def sample_bundle_def sample_prepared_def FORMAT_VERSION_def
      MAX_HEADER_LEN_def checked_add_def Let_def)

lemma sample_content:
  "write_runtime_content sample_codec sample_bundle sample_prepared =
     Inr ([1, 2, 7, 8], encode_footer 2 2 (sha256 sample_codec [1, 2]) (sha256 sample_codec [7, 8]))"
  by (simp add: write_runtime_content_def sample_bundle_def sample_prepared_def
      ensure_unchanged_def times_differ_def Let_def sample_meta_def)

lemma sample_bundle_facts [simp]:
  "bundle_bytes sample_bundle = [7, 8]" "p_payload_len sample_prepared = 104"
  "p_header_bytes sample_prepared = [1, 2]" "p_header_len sample_prepared = 2" "p_bundle_len sample_prepared = 2"
  by (simp_all add: bundle_bytes_def sample_bundle_def sample_prepared_def)

end
