(* ===== verification/Pe_Image.thy ===== *)
theory Pe_Image
  imports Runtime_Content
begin

unbundle bit_operations_syntax

text \<open>
  The PE half of \<open>src/runtime_data.rs\<close>: the checks of \<open>pe_layout_from_file\<close>, the anchor
  section that \<open>write_pe_runtime_data\<close> adds, the certificate table and the reader of a
  stamped and possibly signed executable. Parsing the headers is the \<open>object\<close> crate's work:
  \<open>pe_ext\<close> takes a file's bytes to the header fields the source reads. The offsets of the
  patched header fields are those of the PE/COFF format.
\<close>

section \<open>Header fields and constants\<close>

datatype file_kind = Kind_Pe32 | Kind_Pe64 | Kind_Other

datatype pe_kind = Pe32 | Pe64

record pe_section =
  s_name :: bytes
  s_virtual_size :: nat
  s_virtual_address :: nat
  s_size_of_raw_data :: nat
  s_pointer_to_raw_data :: nat
  s_characteristics :: "32 word"

record pe_file =
  pf_characteristics :: "16 word"
  pf_machine :: nat
  pf_number_of_sections :: nat
  pf_size_of_optional_header :: nat
  pf_size_of_headers :: nat
  pf_file_alignment :: nat
  pf_section_alignment :: nat
  pf_size_of_image :: nat
  pf_size_of_initialized_data :: nat
  pf_number_of_rva_and_sizes :: nat
  pf_sections :: "pe_section list"
  pf_data_directories :: "(nat \<times> nat) list"

record pe_ext =
  parse_file_kind :: "bytes \<Rightarrow> file_kind result"
  parse_pe_file :: "pe_kind \<Rightarrow> bytes \<Rightarrow> pe_file result"

definition IMAGE_FILE_EXECUTABLE_IMAGE :: "16 word" where
  "IMAGE_FILE_EXECUTABLE_IMAGE = 0x0002"

definition IMAGE_FILE_DLL :: "16 word" where
  "IMAGE_FILE_DLL = 0x2000"

definition IMAGE_SIZEOF_SECTION_HEADER :: nat where
  "IMAGE_SIZEOF_SECTION_HEADER = 40"

definition IMAGE_DIRECTORY_ENTRY_SECURITY :: nat where
  "IMAGE_DIRECTORY_ENTRY_SECURITY = 4"

definition IMAGE_FILE_HEADER_LEN :: nat where
  "IMAGE_FILE_HEADER_LEN = 20"

definition optional_fixed_size :: "pe_kind \<Rightarrow> nat" where
  "optional_fixed_size kind = (case kind of Pe32 \<Rightarrow> 96 | Pe64 \<Rightarrow> 112)"

definition PE_ANCHOR_SECTION_NAME :: bytes where
  "PE_ANCHOR_SECTION_NAME = map of_char ''.cship'' @ [0, 0]"

definition PE_READER_CAPABILITY_SECTION_NAME :: bytes where
  "PE_READER_CAPABILITY_SECTION_NAME = map of_char ''.cscap'' @ [0, 0]"

text \<open>\<open>IMAGE_SCN_CNT_INITIALIZED_DATA | IMAGE_SCN_MEM_READ\<close>.\<close>

definition PE_ANCHOR_SECTION_CHARACTERISTICS :: "32 word" where
  "PE_ANCHOR_SECTION_CHARACTERISTICS = 0x00000040 OR 0x40000000"

definition READER_CAPABILITY_RECORD_LEN :: nat where
  "READER_CAPABILITY_RECORD_LEN = 16 + 4 + 4 + 4 + 4 + 16"

definition PE_CERTIFICATE_ALIGNMENT :: nat where
  "PE_CERTIFICATE_ALIGNMENT = 8"

definition MAX_PE_CERTIFICATE_ENTRIES :: nat where
  "MAX_PE_CERTIFICATE_ENTRIES = 1024"

definition MAX_PE_HEADER_BYTES :: nat where
  "MAX_PE_HEADER_BYTES = 16 * 1024 * 1024"

definition PE_MAX_IMAGE_SIZE :: nat where
  "PE_MAX_IMAGE_SIZE = 2 * 1024 * 1024 * 1024"

lemma PE_CERTIFICATE_ALIGNMENT_eq [simp]: "PE_CERTIFICATE_ALIGNMENT = 8"
  by (simp add: PE_CERTIFICATE_ALIGNMENT_def)

definition is_power_of_two :: "nat \<Rightarrow> bool" where
  "is_power_of_two n = list_ex (\<lambda>k. n = 2 ^ k) [0 ..< 64]"

text \<open>\<open>validate_pe_platform\<close>; the empty platform name accepts every machine.\<close>

definition expected_pe_machine :: "string \<Rightarrow> (nat \<times> pe_kind) option" where
  "expected_pe_machine platform =
     (if platform = ''win-32'' then Some (0x014c, Pe32)
      else if platform = ''win-64'' then Some (0x8664, Pe64)
      else if platform = ''win-arm64'' then Some (0xaa64, Pe64)
      else None)"

definition validate_pe_platform :: "nat \<Rightarrow> pe_kind \<Rightarrow> string \<Rightarrow> unit result" where
  "validate_pe_platform machine kind platform =
     (if platform = '''' then Inr ()
      else case expected_pe_machine platform of
        None \<Rightarrow> Inl (Invalid ''PE runtime template does not match platform'')
      | Some (expected_machine, expected_kind) \<Rightarrow>
          if machine \<noteq> expected_machine \<or> kind \<noteq> expected_kind
          then Inl (Invalid ''PE runtime template machine does not match platform'')
          else Inr ())"

section \<open>The section table scan\<close>

record pe_anchor_layout =
  pa_offset :: nat
  pa_raw_size :: nat
  pa_raw_end :: nat
  pa_virtual_end :: nat

text \<open>The mutable variables of the loop over the section table.\<close>

record pe_scan =
  sc_first_section_offset :: "nat option"
  sc_max_raw_end :: nat
  sc_max_virtual_end :: nat
  sc_raw_ranges :: "(nat \<times> nat) list"
  sc_virtual_ranges :: "(nat \<times> nat) list"
  sc_previous_raw_end :: "nat option"
  sc_previous_virtual_end :: "nat option"
  sc_anchor :: "pe_anchor_layout option"
  sc_reader_capability :: "(nat \<times> nat) option"

text \<open>The values the loop only reads: lengths and alignments of the image.\<close>

record pe_limits =
  lim_file_len :: nat
  lim_size_of_headers :: nat
  lim_file_alignment :: nat
  lim_section_alignment :: nat

definition low_alignment :: "pe_limits \<Rightarrow> bool" where
  "low_alignment lim = (lim_section_alignment lim < 4 * 1024)"

definition scan_raw_range :: "pe_limits \<Rightarrow> pe_section \<Rightarrow> pe_scan \<Rightarrow> pe_scan result" where
  "scan_raw_range lim section sc =
     (let offset = s_pointer_to_raw_data section; size = s_size_of_raw_data section in
      rbind (ok_or ''PE section file range overflow'' (checked_add offset size)) (\<lambda>raw_end.
      if raw_end > lim_file_len lim then Inl (Invalid ''PE section extends past end of file'')
      else if size = 0 then Inr sc
      else if offset < lim_size_of_headers lim
      then Inl (Invalid ''PE section overlaps its headers'')
      else if offset mod lim_file_alignment lim \<noteq> 0 \<or> size mod lim_file_alignment lim \<noteq> 0
      then Inl (Invalid ''PE raw section is not file-aligned'')
      else if low_alignment lim \<and> offset \<noteq> s_virtual_address section
      then Inl (Invalid ''low-alignment PE section file offset does not match its virtual address'')
      else if (case sc_previous_raw_end sc of None \<Rightarrow> False | Some previous \<Rightarrow> offset < previous)
      then Inl (Invalid ''PE raw sections overlap or are not ordered by virtual address'')
      else Inr (sc\<lparr>sc_previous_raw_end := Some raw_end,
                   sc_raw_ranges := sc_raw_ranges sc @ [(offset, raw_end)],
                   sc_first_section_offset :=
                     Some (case sc_first_section_offset sc of None \<Rightarrow> offset
                           | Some first \<Rightarrow> min first offset),
                   sc_max_raw_end := max (sc_max_raw_end sc) raw_end\<rparr>)))"

definition section_virtual_span :: "pe_section \<Rightarrow> nat" where
  "section_virtual_span section = max (s_virtual_size section) (s_size_of_raw_data section)"

definition scan_virtual_range :: "pe_limits \<Rightarrow> pe_section \<Rightarrow> pe_scan \<Rightarrow> pe_scan result" where
  "scan_virtual_range lim section sc =
     (let virtual_address = s_virtual_address section; virtual_span = section_virtual_span section in
      rbind (ok_or ''PE section virtual range overflow'' (checked_add virtual_address virtual_span)) (\<lambda>virtual_end.
      if virtual_span = 0 then Inr sc
      else if virtual_address mod lim_section_alignment lim \<noteq> 0
      then Inl (Invalid ''PE virtual section is not section-aligned'')
      else
        rbind (case sc_previous_virtual_end sc of
                 Some previous \<Rightarrow>
                   rbind (align_up previous (lim_section_alignment lim)) (\<lambda>expected.
                   if virtual_address \<noteq> expected
                   then Inl (Invalid ''PE virtual sections are not adjacent'') else Inr ())
               | None \<Rightarrow>
                   rbind (align_up (lim_size_of_headers lim) (lim_section_alignment lim)) (\<lambda>first.
                   if virtual_address < first
                   then Inl (Invalid ''PE virtual section overlaps its headers'') else Inr ())) (\<lambda>_.
        Inr (sc\<lparr>sc_previous_virtual_end := Some virtual_end,
                sc_virtual_ranges := sc_virtual_ranges sc @ [(virtual_address, virtual_end)],
                sc_max_virtual_end := max (sc_max_virtual_end sc) virtual_end\<rparr>))))"

definition scan_special_section :: "pe_limits \<Rightarrow> pe_section \<Rightarrow> pe_scan \<Rightarrow> pe_scan result" where
  "scan_special_section lim section sc =
     (let offset = s_pointer_to_raw_data section; size = s_size_of_raw_data section;
          virtual_size = s_virtual_size section in
      rbind (if s_name section = PE_ANCHOR_SECTION_NAME then
               rbind (align_up FOOTER_LEN (lim_file_alignment lim)) (\<lambda>expected_raw_size.
               if virtual_size \<noteq> FOOTER_LEN \<or> size \<noteq> expected_raw_size
                  \<or> s_characteristics section \<noteq> PE_ANCHOR_SECTION_CHARACTERISTICS
               then Inl (Invalid ''PE conda-ship anchor section has an invalid layout'')
               else Inr (sc\<lparr>sc_anchor := Some \<lparr>pa_offset = offset, pa_raw_size = size,
                              pa_raw_end = offset + size,
                              pa_virtual_end = s_virtual_address section + section_virtual_span section\<rparr>\<rparr>))
             else Inr sc) (\<lambda>sc.
      if s_name section = PE_READER_CAPABILITY_SECTION_NAME then
        if sc_reader_capability sc \<noteq> None
        then Inl (Invalid ''PE binary has multiple reader capability sections'')
        else
          rbind (align_up READER_CAPABILITY_RECORD_LEN (lim_file_alignment lim)) (\<lambda>expected_raw_size.
          if virtual_size \<noteq> READER_CAPABILITY_RECORD_LEN \<or> size \<noteq> expected_raw_size
             \<or> s_characteristics section \<noteq> PE_ANCHOR_SECTION_CHARACTERISTICS
          then Inl (Invalid ''PE reader capability section has an invalid layout'')
          else Inr (sc\<lparr>sc_reader_capability := Some (offset, size)\<rparr>))
      else Inr sc))"

definition scan_section :: "pe_limits \<Rightarrow> pe_section \<Rightarrow> pe_scan \<Rightarrow> pe_scan result" where
  "scan_section lim section sc =
     (if s_name section = PE_ANCHOR_SECTION_NAME \<and> sc_anchor sc \<noteq> None
      then Inl (Invalid ''PE binary has multiple conda-ship anchor sections'')
      else rbind (scan_raw_range lim section sc) (\<lambda>sc.
           rbind (scan_virtual_range lim section sc) (\<lambda>sc.
           scan_special_section lim section sc)))"

fun scan_sections :: "pe_limits \<Rightarrow> pe_section list \<Rightarrow> pe_scan \<Rightarrow> pe_scan result" where
  "scan_sections lim [] sc = Inr sc"
| "scan_sections lim (section # rest) sc =
     rbind (scan_section lim section sc) (\<lambda>sc. scan_sections lim rest sc)"

definition scan_start :: "pe_limits \<Rightarrow> pe_scan" where
  "scan_start lim =
     \<lparr>sc_first_section_offset = None, sc_max_raw_end = lim_size_of_headers lim,
      sc_max_virtual_end = 0, sc_raw_ranges = [], sc_virtual_ranges = [],
      sc_previous_raw_end = None, sc_previous_virtual_end = None,
      sc_anchor = None, sc_reader_capability = None\<rparr>"

section \<open>The image layout\<close>

record pe_certificate_layout =
  pc_offset :: nat
  pc_size :: nat

record pe_layout =
  pl_kind :: pe_kind
  pl_machine :: nat
  pl_file_header_offset :: nat
  pl_optional_header_offset :: nat
  pl_section_table_offset :: nat
  pl_security_directory_offset :: "nat option"
  pl_section_count :: nat
  pl_size_of_headers :: nat
  pl_size_of_image :: nat
  pl_size_of_initialized_data :: nat
  pl_file_alignment :: nat
  pl_section_alignment :: nat
  pl_first_section_offset :: "nat option"
  pl_max_raw_end :: nat
  pl_max_virtual_end :: nat
  pl_anchor :: "pe_anchor_layout option"
  pl_certificate :: "pe_certificate_layout option"
  pl_reader_capability :: "(nat \<times> nat) option"

definition pe_alignment_invalid :: "nat \<Rightarrow> nat \<Rightarrow> bool" where
  "pe_alignment_invalid file_alignment section_alignment =
     (file_alignment = 0 \<or> \<not> is_power_of_two file_alignment
      \<or> \<not> (512 \<le> file_alignment \<and> file_alignment \<le> 64 * 1024)
      \<or> section_alignment = 0 \<or> \<not> is_power_of_two section_alignment
      \<or> (if section_alignment < 4 * 1024 then section_alignment \<noteq> file_alignment
         else section_alignment < file_alignment))"

text \<open>The Security Directory entry, when the optional header has room for it.\<close>

definition pe_security_directory_offset :: "pe_file \<Rightarrow> pe_kind \<Rightarrow> nat \<Rightarrow> nat \<Rightarrow> nat option" where
  "pe_security_directory_offset pe kind optional_header_offset section_table_offset =
     (if pf_number_of_rva_and_sizes pe > IMAGE_DIRECTORY_ENTRY_SECURITY
      then Option.bind (checked_add optional_header_offset (optional_fixed_size kind)) (\<lambda>base.
           Option.bind (checked_add base (IMAGE_DIRECTORY_ENTRY_SECURITY * 8)) (\<lambda>offset.
           case checked_add offset 8 of
             Some end' \<Rightarrow> if end' \<le> section_table_offset then Some offset else None
           | None \<Rightarrow> None))
      else None)"

definition pe_certificate_range ::
    "nat \<Rightarrow> nat \<Rightarrow> nat \<times> nat \<Rightarrow> pe_certificate_layout option result" where
  "pe_certificate_range file_len max_raw_end security =
     (let (offset, size) = security in
      if offset = 0 \<and> size = 0 then Inr None
      else if offset = 0 \<or> size = 0
      then Inl (Invalid ''PE security directory has an incomplete certificate range'')
      else if offset mod PE_CERTIFICATE_ALIGNMENT \<noteq> 0
      then Inl (Invalid ''PE certificate table offset is not aligned'')
      else if size < 8 then Inl (Invalid ''PE certificate table is too small'')
      else rbind (ok_or ''PE certificate table range overflow'' (checked_add offset size)) (\<lambda>certificate_end.
        if certificate_end \<noteq> file_len
        then Inl (Invalid ''PE certificate table is not the final data in the file'')
        else if offset < max_raw_end
        then Inl (Invalid ''PE certificate table overlaps image data'')
        else Inr (Some \<lparr>pc_offset = offset, pc_size = size\<rparr>)))"

text \<open>The checks after the loop: overlap, image size, and the anchor as last section.\<close>

definition pe_check_ranges :: "pe_limits \<Rightarrow> nat \<Rightarrow> pe_scan \<Rightarrow> unit result" where
  "pe_check_ranges lim size_of_image sc =
     (if ranges_overlap (sc_raw_ranges sc) then Inl (Invalid ''PE raw sections overlap'')
      else if ranges_overlap (sc_virtual_ranges sc) then Inl (Invalid ''PE virtual sections overlap'')
      else rbind (align_up (sc_max_virtual_end sc) (lim_section_alignment lim)) (\<lambda>image_end.
        if image_end > size_of_image then Inl (Invalid ''PE sections extend past SizeOfImage'')
        else if (case sc_anchor sc of None \<Rightarrow> False
                 | Some anchor \<Rightarrow> pa_raw_end anchor \<noteq> sc_max_raw_end sc
                                 \<or> pa_virtual_end anchor \<noteq> sc_max_virtual_end sc)
        then Inl (Invalid ''PE conda-ship anchor is not the final section'')
        else Inr ()))"

definition pe_layout_from_file :: "pe_file \<Rightarrow> pe_kind \<Rightarrow> nat \<Rightarrow> nat \<Rightarrow> pe_layout result" where
  "pe_layout_from_file pe kind pe_offset file_len =
     (if pf_characteristics pe AND IMAGE_FILE_EXECUTABLE_IMAGE \<noteq> IMAGE_FILE_EXECUTABLE_IMAGE
         \<or> pf_characteristics pe AND IMAGE_FILE_DLL = IMAGE_FILE_DLL
      then Inl (Invalid ''PE runtime template is not an executable image'')
      else if pf_number_of_sections pe = 0 \<or> pf_number_of_sections pe > 96
      then Inl (Invalid ''PE section count is outside the loader limit'')
      else
        rbind (ok_or ''PE file header offset overflow'' (checked_add pe_offset 4)) (\<lambda>file_header_offset.
        rbind (ok_or ''PE optional header offset overflow''
                 (checked_add file_header_offset IMAGE_FILE_HEADER_LEN)) (\<lambda>optional_header_offset.
        rbind (ok_or ''PE section table offset overflow''
                 (checked_add optional_header_offset (pf_size_of_optional_header pe))) (\<lambda>section_table_offset.
        rbind (ok_or ''PE section table size overflow''
                 (Option.bind (checked_mul (pf_number_of_sections pe) IMAGE_SIZEOF_SECTION_HEADER)
                    (checked_add section_table_offset))) (\<lambda>section_table_end.
        let size_of_headers = pf_size_of_headers pe;
            file_alignment = pf_file_alignment pe;
            section_alignment = pf_section_alignment pe;
            lim = \<lparr>lim_file_len = file_len, lim_size_of_headers = size_of_headers,
                   lim_file_alignment = file_alignment, lim_section_alignment = section_alignment\<rparr> in
        if size_of_headers > MAX_PE_HEADER_BYTES
        then Inl (Invalid ''PE SizeOfHeaders exceeds the byte limit'')
        else if size_of_headers > file_len \<or> section_table_end > size_of_headers
        then Inl (Invalid ''PE headers extend past end of file'')
        else if pe_alignment_invalid file_alignment section_alignment
        then Inl (Invalid ''PE section alignment is invalid'')
        else if size_of_headers mod file_alignment \<noteq> 0
        then Inl (Invalid ''PE SizeOfHeaders is not file-aligned'')
        else if pf_size_of_image pe mod section_alignment \<noteq> 0
        then Inl (Invalid ''PE SizeOfImage is not section-aligned'')
        else if kind = Pe64 \<and> pf_size_of_image pe > PE_MAX_IMAGE_SIZE
        then Inl (Invalid ''PE32+ SizeOfImage exceeds the 2 GiB loader limit'')
        else
          rbind (scan_sections lim (pf_sections pe) (scan_start lim)) (\<lambda>sc.
          rbind (pe_check_ranges lim (pf_size_of_image pe) sc) (\<lambda>_.
          let security =
                (if IMAGE_DIRECTORY_ENTRY_SECURITY < length (pf_data_directories pe)
                 then pf_data_directories pe ! IMAGE_DIRECTORY_ENTRY_SECURITY else (0, 0)) in
          rbind (pe_certificate_range file_len (sc_max_raw_end sc) security) (\<lambda>certificate.
          Inr \<lparr>pl_kind = kind, pl_machine = pf_machine pe,
               pl_file_header_offset = file_header_offset,
               pl_optional_header_offset = optional_header_offset,
               pl_section_table_offset = section_table_offset,
               pl_security_directory_offset =
                 pe_security_directory_offset pe kind optional_header_offset section_table_offset,
               pl_section_count = pf_number_of_sections pe,
               pl_size_of_headers = size_of_headers,
               pl_size_of_image = pf_size_of_image pe,
               pl_size_of_initialized_data = pf_size_of_initialized_data pe,
               pl_file_alignment = file_alignment, pl_section_alignment = section_alignment,
               pl_first_section_offset = sc_first_section_offset sc,
               pl_max_raw_end = sc_max_raw_end sc, pl_max_virtual_end = sc_max_virtual_end sc,
               pl_anchor = sc_anchor sc, pl_certificate = certificate,
               pl_reader_capability = sc_reader_capability sc\<rparr>))))))))"

definition read_pe_layout :: "pe_ext \<Rightarrow> bytes \<Rightarrow> pe_layout result" where
  "read_pe_layout P f =
     rbind (read_exact_at f 0x3c 4) (\<lambda>pe_offset_bytes.
     let pe_offset = le_nat pe_offset_bytes in
     rbind (parse_file_kind P f) (\<lambda>kind. case kind of
       Kind_Pe32 \<Rightarrow> rbind (parse_pe_file P Pe32 f) (\<lambda>pe. pe_layout_from_file pe Pe32 pe_offset (length f))
     | Kind_Pe64 \<Rightarrow> rbind (parse_pe_file P Pe64 f) (\<lambda>pe. pe_layout_from_file pe Pe64 pe_offset (length f))
     | Kind_Other \<Rightarrow> Inl (Invalid ''invalid PE binary'')))"


section \<open>Stamping a PE template\<close>

definition pe_runtime_content_layout :: "nat \<Rightarrow> nat \<Rightarrow> (nat \<times> nat) result" where
  "pe_runtime_content_layout anchor_end content_len =
     rbind (ok_or ''PE runtime data range overflow'' (checked_add anchor_end content_len)) (\<lambda>unaligned_end.
     rbind (align_up unaligned_end PE_CERTIFICATE_ALIGNMENT) (\<lambda>payload_end.
     rbind (ok_or ''PE runtime data is too large for a certificate table offset''
              (u32_try_from payload_end)) (\<lambda>_.
     rbind (ok_or ''PE runtime data range overflow''
              (checked_add anchor_end (payload_end - unaligned_end))) (\<lambda>payload_start.
     Inr (payload_start, payload_end)))))"

text \<open>Where the new section goes, and what the headers become: the values before any write.\<close>

record pe_plan =
  pp_new_section_header_offset :: nat
  pp_security_directory_offset :: nat
  pp_anchor_virtual_address :: nat
  pp_anchor_offset :: nat
  pp_anchor_raw_size :: nat
  pp_payload_start :: nat
  pp_payload_end :: nat
  pp_size_of_image :: nat
  pp_size_of_initialized_data :: nat
  pp_section_count :: nat

definition pe_anchor_end :: "pe_plan \<Rightarrow> nat" where
  "pe_anchor_end plan = pp_anchor_offset plan + pp_anchor_raw_size plan"

text \<open>The refusals of \<open>write_pe_runtime_data\<close> that concern the template as it is.\<close>

definition pe_template_room :: "pe_layout \<Rightarrow> nat \<Rightarrow> string \<Rightarrow> (nat \<times> nat) result" where
  "pe_template_room layout file_len platform =
     rbind (validate_pe_platform (pl_machine layout) (pl_kind layout) platform) (\<lambda>_.
     if pl_anchor layout \<noteq> None
     then Inl (Invalid ''PE runtime template already contains a conda-ship anchor section'')
     else if pl_certificate layout \<noteq> None
     then Inl (Invalid ''signed PE templates must be unsigned before runtime stamping'')
     else if file_len \<noteq> pl_max_raw_end layout
     then Inl (Invalid ''PE runtime template has data outside its declared sections'')
     else
       rbind (ok_or ''PE optional header has no Security Directory entry for signing''
                (pl_security_directory_offset layout)) (\<lambda>security_directory_offset.
       rbind (ok_or ''PE binary has no file-backed sections''
                (pl_first_section_offset layout)) (\<lambda>first_section_offset.
       rbind (ok_or ''PE section table size overflow''
                (Option.bind (checked_mul (pl_section_count layout) IMAGE_SIZEOF_SECTION_HEADER)
                   (checked_add (pl_section_table_offset layout)))) (\<lambda>new_section_header_offset.
       rbind (ok_or ''PE section table size overflow''
                (checked_add new_section_header_offset IMAGE_SIZEOF_SECTION_HEADER)) (\<lambda>new_section_header_end.
       if new_section_header_end > pl_size_of_headers layout
          \<or> new_section_header_end > first_section_offset
       then Inl (Invalid ''PE headers have no room for a runtime anchor section'')
       else Inr (new_section_header_offset, security_directory_offset))))))"

definition pe_stamp_plan :: "pe_layout \<Rightarrow> nat \<Rightarrow> nat \<Rightarrow> nat \<Rightarrow> string \<Rightarrow> pe_plan result" where
  "pe_stamp_plan layout file_len header_len bundle_len platform =
     rbind (pe_template_room layout file_len platform) (\<lambda>(new_section_header_offset, security_directory_offset).
     rbind (align_up (pl_max_virtual_end layout) (pl_section_alignment layout)) (\<lambda>anchor_virtual_address.
     let anchor_offset = (if pl_section_alignment layout < 4 * 1024 then anchor_virtual_address
                          else pl_max_raw_end layout) in
     rbind (align_up FOOTER_LEN (pl_file_alignment layout)) (\<lambda>anchor_raw_size.
     rbind (ok_or ''PE runtime anchor range overflow''
              (checked_add anchor_offset anchor_raw_size)) (\<lambda>anchor_end.
     rbind (ok_or ''PE runtime data range overflow'' (checked_add header_len bundle_len)) (\<lambda>content_len.
     rbind (pe_runtime_content_layout anchor_end content_len) (\<lambda>(payload_start, payload_end).
     rbind (ok_or ''PE runtime anchor virtual range overflow''
              (checked_add anchor_virtual_address (max anchor_raw_size FOOTER_LEN))) (\<lambda>anchor_virtual_end.
     rbind (align_up anchor_virtual_end (pl_section_alignment layout)) (\<lambda>required_size_of_image.
     let size_of_image = max required_size_of_image (pl_size_of_image layout) in
     if pl_kind layout = Pe64 \<and> size_of_image > PE_MAX_IMAGE_SIZE
     then Inl (Invalid ''stamped PE32+ SizeOfImage exceeds the 2 GiB loader limit'')
     else if 2 ^ 32 \<le> anchor_offset
     then Inl (Invalid ''PE runtime anchor offset does not fit in a section header'')
     else if 2 ^ 32 \<le> anchor_raw_size
     then Inl (Invalid ''PE runtime anchor size does not fit in a section header'')
     else if 2 ^ 32 \<le> anchor_virtual_address
     then Inl (Invalid ''PE runtime anchor address does not fit in a section header'')
     else if 2 ^ 32 \<le> size_of_image
     then Inl (Invalid ''PE image size does not fit in its optional header'')
     else if 2 ^ 32 \<le> pl_size_of_initialized_data layout + anchor_raw_size
     then Inl (Invalid ''PE initialized-data size overflow'')
     else if 2 ^ 16 \<le> pl_section_count layout + 1
     then Inl (Invalid ''PE section count overflow'')
     else if pl_section_count layout + 1 > 96
     then Inl (Invalid ''PE image has no room for another section'')
     else Inr \<lparr>pp_new_section_header_offset = new_section_header_offset,
               pp_security_directory_offset = security_directory_offset,
               pp_anchor_virtual_address = anchor_virtual_address,
               pp_anchor_offset = anchor_offset, pp_anchor_raw_size = anchor_raw_size,
               pp_payload_start = payload_start, pp_payload_end = payload_end,
               pp_size_of_image = size_of_image,
               pp_size_of_initialized_data = pl_size_of_initialized_data layout + anchor_raw_size,
               pp_section_count = pl_section_count layout + 1\<rparr>))))))))"

text \<open>The \<open>ImageSectionHeader\<close> of the anchor: relocation and line-number fields stay zero.\<close>

definition pe_anchor_section_header :: "pe_plan \<Rightarrow> bytes" where
  "pe_anchor_section_header plan =
     PE_ANCHOR_SECTION_NAME @ le_bytes 4 FOOTER_LEN @ le_bytes 4 (pp_anchor_virtual_address plan)
       @ le_bytes 4 (pp_anchor_raw_size plan) @ le_bytes 4 (pp_anchor_offset plan)
       @ le_bytes 4 0 @ le_bytes 4 0 @ le_bytes 2 0 @ le_bytes 2 0
       @ le_bytes 4 (unat PE_ANCHOR_SECTION_CHARACTERISTICS)"

text \<open>
  The patched headers: \<open>NumberOfSections\<close> at offset 2 of the file header;
  \<open>SizeOfInitializedData\<close>, \<open>SizeOfImage\<close> and \<open>CheckSum\<close> at offsets 8, 56 and 64 of both
  optional headers; the cleared Security Directory; the new section header.
\<close>

definition pe_patch_headers :: "pe_layout \<Rightarrow> pe_plan \<Rightarrow> bytes \<Rightarrow> bytes result" where
  "pe_patch_headers layout plan prefix =
     (let fh = pl_file_header_offset layout; oh = pl_optional_header_offset layout;
          sh = pp_new_section_header_offset plan in
      if \<not> all_zero (bytes_at prefix sh IMAGE_SIZEOF_SECTION_HEADER)
      then Inl (Invalid ''PE runtime anchor section header space is not zero-filled'')
      else if length prefix < fh then Inl (Invalid ''PE file header is missing'')
      else if length prefix < fh + IMAGE_FILE_HEADER_LEN then Inl (Invalid ''PE file header is invalid'')
      else if length prefix < oh then Inl (Invalid ''PE optional header is missing'')
      else if length prefix < oh + optional_fixed_size (pl_kind layout)
      then Inl (Invalid ''PE optional header is invalid'')
      else
        let p1 = write_at prefix (fh + 2) (le_bytes 2 (pp_section_count plan));
            p2 = write_at p1 (oh + 8) (le_bytes 4 (pp_size_of_initialized_data plan));
            p3 = write_at p2 (oh + 56) (le_bytes 4 (pp_size_of_image plan));
            p4 = write_at p3 (oh + 64) (le_bytes 4 0);
            p5 = write_at p4 (pp_security_directory_offset plan) (replicate 8 0) in
        Inr (write_at p5 sh (pe_anchor_section_header plan)))"

text \<open>The writes to the temporary output, in the order of the source.\<close>

definition pe_write_output :: "bytes \<Rightarrow> pe_plan \<Rightarrow> bytes \<Rightarrow> bytes \<Rightarrow> bytes \<Rightarrow> bytes" where
  "pe_write_output output plan content footer prefix =
     (let f1 = set_len output (pe_anchor_end plan);
          f2 = set_len f1 (pp_payload_start plan);
          f3 = write_at f2 (pp_payload_start plan) content;
          f4 = set_len f3 (pp_payload_end plan);
          f5 = write_at f4 (pp_anchor_offset plan) footer in
      write_at f5 0 prefix)"

definition write_pe_runtime_data ::
    "codec_ext \<Rightarrow> pe_ext \<Rightarrow> bytes \<Rightarrow> (bundle_source \<times> bundle_reads) option \<Rightarrow> prepared_data
       \<Rightarrow> string \<Rightarrow> bytes result" where
  "write_pe_runtime_data X P output bundle prepared platform =
     rbind (read_pe_layout P output) (\<lambda>layout.
     rbind (pe_stamp_plan layout (length output) (p_header_len prepared) (p_bundle_len prepared) platform) (\<lambda>plan.
     rbind (read_exact_at output 0 (pl_size_of_headers layout)) (\<lambda>prefix.
     rbind (pe_patch_headers layout plan prefix) (\<lambda>patched.
     rbind (write_runtime_content X bundle prepared) (\<lambda>(content, footer).
     Inr (pe_write_output output plan content footer patched))))))"

section \<open>Reading a stamped PE executable\<close>

function certificate_entries :: "bytes \<Rightarrow> pe_certificate_layout \<Rightarrow> nat \<Rightarrow> nat \<Rightarrow> unit result" where
  "certificate_entries f certificate cursor entry_count =
     (if pc_size certificate \<le> cursor then Inr ()
      else if pc_size certificate - cursor < 8
      then Inl (Invalid ''PE certificate table entry is truncated'')
      else if entry_count + 1 > MAX_PE_CERTIFICATE_ENTRIES
      then Inl (Invalid ''PE certificate table exceeds the entry limit'')
      else
        rbind (read_exact_at f (pc_offset certificate + cursor) 8) (\<lambda>header.
        let entry_len = le_nat (take 4 header) in
        if entry_len < 8 then Inl (Invalid ''PE certificate table entry is too small'')
        else
          rbind (align_up entry_len PE_CERTIFICATE_ALIGNMENT) (\<lambda>aligned_len.
          rbind (ok_or ''PE certificate table entry range overflow''
                   (checked_add cursor aligned_len)) (\<lambda>cursor'.
          if cursor' > pc_size certificate
          then Inl (Invalid ''PE certificate entries exceed the Security Directory size'')
          else certificate_entries f certificate cursor' (entry_count + 1)))))"
  by pat_completeness auto
termination
proof (relation "measure (\<lambda>(f, certificate, cursor, entry_count). pc_size certificate - cursor)", goal_cases)
  case 1
  show ?case by simp
next
  case (2 f certificate cursor entry_count header entry_len aligned_len cursor')
  have "8 \<le> entry_len" using 2 by simp
  also have "entry_len \<le> aligned_len" using 2 by (auto dest: align_up_props)
  finally have "cursor < cursor'" using 2 by (auto simp: success_simps)
  with 2 show ?case by simp
qed

declare certificate_entries.simps [simp del]

definition validate_pe_certificate_table :: "bytes \<Rightarrow> pe_certificate_layout \<Rightarrow> unit result" where
  "validate_pe_certificate_table f certificate = certificate_entries f certificate 0 0"

definition read_pe_unanchored ::
    "codec_ext \<Rightarrow> path \<Rightarrow> bytes \<Rightarrow> pe_layout \<Rightarrow> runtime_data option result" where
  "read_pe_unanchored X path f layout =
     (case pl_certificate layout of
        Some certificate \<Rightarrow>
          rbind (footer_magic_exists_with_search_spec f
                   \<lparr>fs_data_end = pc_offset certificate, fs_alignment = PE_CERTIFICATE_ALIGNMENT,
                    fs_minimum_payload_offset = pl_max_raw_end layout\<rparr>) (\<lambda>found.
          if found then Inl (Invalid ''signed PE runtime data has no authenticated anchor section'')
          else Inr None)
      | None \<Rightarrow>
          rbind (read_runtime_data_with_search_spec X path f
                   \<lparr>fs_data_end = length f, fs_alignment = 1,
                    fs_minimum_payload_offset = pl_max_raw_end layout\<rparr>) (\<lambda>data.
          rbind (case data of None \<Rightarrow> Inr ()
                 | Some d \<Rightarrow> validate_pe_platform (pl_machine layout) (pl_kind layout)
                              (h_platform (rd_header d))) (\<lambda>_.
          Inr data)))"

definition read_pe_anchored ::
    "codec_ext \<Rightarrow> path \<Rightarrow> bytes \<Rightarrow> pe_layout \<Rightarrow> pe_anchor_layout \<Rightarrow> runtime_data option result" where
  "read_pe_anchored X path f layout anchor =
     rbind (read_exact_at f (pa_offset anchor) FOOTER_LEN) (\<lambda>footer.
     rbind (rbind (decode_footer footer)
              (ok_or ''PE conda-ship anchor section has no runtime data footer'')) (\<lambda>decoded.
     rbind (ok_or ''PE conda-ship anchor section is truncated''
              (checked_sub (pa_raw_size anchor) FOOTER_LEN)) (\<lambda>anchor_padding_len.
     rbind (ensure_zero_file_range f (pa_offset anchor + FOOTER_LEN) anchor_padding_len
              ''PE conda-ship anchor section padding is not zero'') (\<lambda>_.
     rbind (ok_or ''runtime data length overflow''
              (checked_add (d_header_len decoded) (d_bundle_len decoded))) (\<lambda>content_len.
     rbind (pe_runtime_content_layout (pa_raw_end anchor) content_len) (\<lambda>(payload_start, payload_end).
     let expected_end = (case pl_certificate layout of None \<Rightarrow> length f
                         | Some certificate \<Rightarrow> pc_offset certificate) in
     if payload_end \<noteq> expected_end
     then Inl (Invalid ''PE runtime data does not end at the certificate table offset'')
     else
       rbind (ensure_zero_file_range f (pa_raw_end anchor) (payload_start - pa_raw_end anchor)
                ''PE runtime data alignment padding is not zero'') (\<lambda>_.
       rbind (read_runtime_data_payload X path f payload_start decoded) (\<lambda>data.
       rbind (case data of None \<Rightarrow> Inr ()
              | Some d \<Rightarrow> validate_pe_platform (pl_machine layout) (pl_kind layout)
                           (h_platform (rd_header d))) (\<lambda>_.
       Inr data)))))))))"

definition read_pe_runtime_data :: "codec_ext \<Rightarrow> pe_ext \<Rightarrow> path \<Rightarrow> bytes \<Rightarrow> runtime_data option result" where
  "read_pe_runtime_data X P path f =
     rbind (read_pe_layout P f) (\<lambda>layout.
     rbind (case pl_certificate layout of None \<Rightarrow> Inr ()
            | Some certificate \<Rightarrow> validate_pe_certificate_table f certificate) (\<lambda>_.
     case pl_anchor layout of
       None \<Rightarrow> read_pe_unanchored X path f layout
     | Some anchor \<Rightarrow> read_pe_anchored X path f layout anchor))"

end
