(* ===== verification/Pe_Roundtrip.thy ===== *)
theory Pe_Roundtrip
  imports Pe_Image
begin

text \<open>
  What the PE checks and writes establish. \<open>scan_inv\<close> is the invariant of the section loop;
  from it follow the facts of an accepted layout (\<open>pe_layout_ok\<close>). \<open>pe_write_output\<close> is
  proved to place footer, padding and content where the reader looks and to leave the image
  data alone, and reading the result, unsigned or with an appended certificate table, gives
  back the stamped runtime data.
\<close>

section \<open>The content range behind the anchor\<close>

lemma pe_runtime_content_layout_Inr:
  assumes "pe_runtime_content_layout ae cl = Inr (ps, pe)"
  shows "ps + cl = pe" "ae \<le> ps" "ps < ae + 8" "8 dvd pe" "pe < 2 ^ 32"
proof -
  from assms have up: "align_up (ae + cl) 8 = Inr pe" and ps: "ps = ae + (pe - (ae + cl))"
    and bound: "pe < 2 ^ 32"
    by (auto simp: pe_runtime_content_layout_def success_simps simp del: align_up_def
        dest!: align_up_eq_Inr [THEN iffD1] intro: align_up_eq_Inr [THEN iffD2])
  from align_up_props [OF up] ps show "ps + cl = pe" "ae \<le> ps" "ps < ae + 8" "8 dvd pe"
    by simp_all
  show "pe < 2 ^ 32" by (fact bound)
qed

section \<open>The section loop\<close>

definition scan_inv :: "pe_limits \<Rightarrow> pe_scan \<Rightarrow> bool" where
  "scan_inv lim sc \<longleftrightarrow>
     lim_size_of_headers lim \<le> sc_max_raw_end sc \<and> sc_max_raw_end sc \<le> lim_file_len lim \<and>
     (\<forall>r \<in> set (sc_raw_ranges sc). lim_size_of_headers lim \<le> fst r \<and> fst r < snd r \<and>
        snd r \<le> sc_max_raw_end sc \<and> (low_alignment lim \<longrightarrow> snd r \<le> sc_max_virtual_end sc)) \<and>
     (sc_max_raw_end sc = lim_size_of_headers lim \<or> sc_max_raw_end sc \<in> snd ` set (sc_raw_ranges sc)) \<and>
     (\<forall>o'. sc_first_section_offset sc = Some o' \<longrightarrow> o' \<in> fst ` set (sc_raw_ranges sc)) \<and>
     (\<forall>r \<in> set (sc_virtual_ranges sc). fst r < snd r \<and> snd r \<le> sc_max_virtual_end sc) \<and>
     (\<forall>a. sc_anchor sc = Some a \<longrightarrow>
        (pa_offset a, pa_raw_end a) \<in> set (sc_raw_ranges sc) \<and>
        pa_raw_end a = pa_offset a + pa_raw_size a \<and> FOOTER_LEN \<le> pa_raw_size a)"

lemma scan_inv_start: "lim_size_of_headers lim \<le> lim_file_len lim \<Longrightarrow> scan_inv lim (scan_start lim)"
  by (simp add: scan_inv_def scan_start_def)

text \<open>What one successful iteration adds to the scan.\<close>

lemma scan_raw_range_Inr:
  assumes "scan_raw_range lim s sc = Inr sc'"
  defines "o' \<equiv> s_pointer_to_raw_data s" and "n \<equiv> s_size_of_raw_data s"
  shows "o' + n \<le> lim_file_len lim"
    and "n = 0 \<Longrightarrow> sc' = sc"
    and "n \<noteq> 0 \<Longrightarrow> lim_size_of_headers lim \<le> o' \<and> (low_alignment lim \<longrightarrow> o' = s_virtual_address s) \<and>
       sc' = sc\<lparr>sc_previous_raw_end := Some (o' + n), sc_raw_ranges := sc_raw_ranges sc @ [(o', o' + n)],
               sc_first_section_offset := Some (case sc_first_section_offset sc of None \<Rightarrow> o' | Some f \<Rightarrow> min f o'),
               sc_max_raw_end := max (sc_max_raw_end sc) (o' + n)\<rparr>"
  using assms by (auto simp: scan_raw_range_def Let_def success_simps not_less split: if_splits)

lemma scan_virtual_range_Inr:
  assumes "scan_virtual_range lim s sc = Inr sc'"
  defines "a \<equiv> s_virtual_address s" and "n \<equiv> section_virtual_span s"
  shows "n = 0 \<Longrightarrow> sc' = sc"
    and "n \<noteq> 0 \<Longrightarrow> sc' = sc\<lparr>sc_previous_virtual_end := Some (a + n),
       sc_virtual_ranges := sc_virtual_ranges sc @ [(a, a + n)],
       sc_max_virtual_end := max (sc_max_virtual_end sc) (a + n)\<rparr>"
  using assms by (auto simp: scan_virtual_range_def Let_def success_simps split: if_splits option.splits)

lemma scan_special_section_Inr:
  assumes step: "scan_special_section lim s sc = Inr sc'"
  shows "sc_first_section_offset sc' = sc_first_section_offset sc"
    and "sc_max_raw_end sc' = sc_max_raw_end sc" and "sc_max_virtual_end sc' = sc_max_virtual_end sc"
    and "sc_raw_ranges sc' = sc_raw_ranges sc" and "sc_virtual_ranges sc' = sc_virtual_ranges sc"
    and "sc_anchor sc' = sc_anchor sc \<or>
      FOOTER_LEN \<le> s_size_of_raw_data s \<and>
      sc_anchor sc' = Some \<lparr>pa_offset = s_pointer_to_raw_data s, pa_raw_size = s_size_of_raw_data s,
                   pa_raw_end = s_pointer_to_raw_data s + s_size_of_raw_data s,
                   pa_virtual_end = s_virtual_address s + section_virtual_span s\<rparr>"
proof -
  let ?A = "\<lparr>pa_offset = s_pointer_to_raw_data s, pa_raw_size = s_size_of_raw_data s,
               pa_raw_end = s_pointer_to_raw_data s + s_size_of_raw_data s,
               pa_virtual_end = s_virtual_address s + section_virtual_span s\<rparr>"
  from step [unfolded scan_special_section_def Let_def rbind_eq_Inr]
  obtain sc1 where
    m: "(if s_name s = PE_ANCHOR_SECTION_NAME then
          rbind (align_up FOOTER_LEN (lim_file_alignment lim)) (\<lambda>r.
          if s_virtual_size s \<noteq> FOOTER_LEN \<or> s_size_of_raw_data s \<noteq> r
             \<or> s_characteristics s \<noteq> PE_ANCHOR_SECTION_CHARACTERISTICS
          then Inl (Invalid ''PE conda-ship anchor section has an invalid layout'')
          else Inr (sc\<lparr>sc_anchor := Some ?A\<rparr>))
        else Inr sc) = Inr sc1" and
    cap: "sc' = sc1 \<or> (\<exists>rc. sc' = sc1\<lparr>sc_reader_capability := Some rc\<rparr>)"
    by (auto simp: rbind_eq_Inr if_error_eq_Inr split: if_splits simp del: FOOTER_LEN_eq)
  have anchor: "sc1 = sc \<or> FOOTER_LEN \<le> s_size_of_raw_data s \<and> sc1 = sc\<lparr>sc_anchor := Some ?A\<rparr>"
  proof (cases "s_name s = PE_ANCHOR_SECTION_NAME")
    case True
    with m obtain r where r: "align_up FOOTER_LEN (lim_file_alignment lim) = Inr r"
      and eq: "s_size_of_raw_data s = r" "sc1 = sc\<lparr>sc_anchor := Some ?A\<rparr>"
      by (auto simp: rbind_eq_Inr if_error_eq_Inr simp del: FOOTER_LEN_eq)
    from align_up_props(1) [OF r] eq show ?thesis by simp
  next
    case False
    with m show ?thesis by simp
  qed
  show "sc_first_section_offset sc' = sc_first_section_offset sc"
    "sc_max_raw_end sc' = sc_max_raw_end sc" "sc_max_virtual_end sc' = sc_max_virtual_end sc"
    "sc_raw_ranges sc' = sc_raw_ranges sc" "sc_virtual_ranges sc' = sc_virtual_ranges sc"
    using anchor cap by (elim disjE exE; simp)+
  show "sc_anchor sc' = sc_anchor sc \<or> FOOTER_LEN \<le> s_size_of_raw_data s \<and> sc_anchor sc' = Some ?A"
    using anchor cap by (elim disjE exE conjE; simp)
qed

text \<open>The two updates of an iteration, as the invariant sees them.\<close>

definition add_virtual :: "nat \<Rightarrow> nat \<Rightarrow> pe_scan \<Rightarrow> pe_scan" where
  "add_virtual a e sc =
     sc\<lparr>sc_previous_virtual_end := Some e, sc_virtual_ranges := sc_virtual_ranges sc @ [(a, e)],
        sc_max_virtual_end := max (sc_max_virtual_end sc) e\<rparr>"

definition add_raw :: "nat \<Rightarrow> nat \<Rightarrow> pe_scan \<Rightarrow> pe_scan" where
  "add_raw a e sc =
     sc\<lparr>sc_previous_raw_end := Some e, sc_raw_ranges := sc_raw_ranges sc @ [(a, e)],
        sc_first_section_offset := Some (case sc_first_section_offset sc of None \<Rightarrow> a | Some f \<Rightarrow> min f a),
        sc_max_raw_end := max (sc_max_raw_end sc) e\<rparr>"

lemma scan_inv_add_virtual:
  assumes "scan_inv lim sc" "a < e"
  shows "scan_inv lim (add_virtual a e sc)"
proof -
  have up: "sc_max_virtual_end sc \<le> sc_max_virtual_end (add_virtual a e sc)" by (simp add: add_virtual_def)
  have raw: "\<forall>r \<in> set (sc_raw_ranges sc). low_alignment lim \<longrightarrow> snd r \<le> sc_max_virtual_end (add_virtual a e sc)"
    using assms(1) up unfolding scan_inv_def by (meson order_trans)
  have virt: "\<forall>r \<in> set (sc_virtual_ranges (add_virtual a e sc)).
      fst r < snd r \<and> snd r \<le> sc_max_virtual_end (add_virtual a e sc)"
    using assms unfolding scan_inv_def by (auto simp: add_virtual_def intro: max.coboundedI1)
  have same: "sc_max_raw_end (add_virtual a e sc) = sc_max_raw_end sc"
    "sc_raw_ranges (add_virtual a e sc) = sc_raw_ranges sc"
    "sc_first_section_offset (add_virtual a e sc) = sc_first_section_offset sc"
    "sc_anchor (add_virtual a e sc) = sc_anchor sc"
    by (simp_all add: add_virtual_def)
  show ?thesis
    using assms(1) raw virt unfolding scan_inv_def same by blast
qed

lemma scan_inv_add_raw:
  assumes inv: "scan_inv lim sc" and "a < e" "lim_size_of_headers lim \<le> a" "e \<le> lim_file_len lim"
    and "low_alignment lim \<Longrightarrow> e \<le> sc_max_virtual_end sc"
  shows "scan_inv lim (add_raw a e sc)"
proof -
  have first: "\<forall>o'. sc_first_section_offset (add_raw a e sc) = Some o'
      \<longrightarrow> o' \<in> fst ` set (sc_raw_ranges (add_raw a e sc))"
    using inv by (auto simp: scan_inv_def add_raw_def min_def image_iff split: option.splits)
  have top: "max (sc_max_raw_end sc) e = lim_size_of_headers lim \<or>
      max (sc_max_raw_end sc) e \<in> snd ` set (sc_raw_ranges (add_raw a e sc))"
    using inv by (auto simp: scan_inv_def add_raw_def max_def)
  have ranges: "\<forall>r \<in> set (sc_raw_ranges (add_raw a e sc)). lim_size_of_headers lim \<le> fst r \<and> fst r < snd r \<and>
      snd r \<le> max (sc_max_raw_end sc) e \<and> (low_alignment lim \<longrightarrow> snd r \<le> sc_max_virtual_end sc)"
    using inv assms(2-5) by (auto simp: scan_inv_def add_raw_def intro: max.coboundedI1)
  have anchor: "\<forall>x. sc_anchor sc = Some x \<longrightarrow> (pa_offset x, pa_raw_end x) \<in> set (sc_raw_ranges (add_raw a e sc)) \<and>
      pa_raw_end x = pa_offset x + pa_raw_size x \<and> FOOTER_LEN \<le> pa_raw_size x"
    using inv by (simp add: scan_inv_def add_raw_def) metis
  have same: "sc_max_raw_end (add_raw a e sc) = max (sc_max_raw_end sc) e"
    "sc_max_virtual_end (add_raw a e sc) = sc_max_virtual_end sc"
    "sc_virtual_ranges (add_raw a e sc) = sc_virtual_ranges sc"
    "sc_anchor (add_raw a e sc) = sc_anchor sc"
    by (simp_all add: add_raw_def)
  have bounds: "lim_size_of_headers lim \<le> max (sc_max_raw_end sc) e" "max (sc_max_raw_end sc) e \<le> lim_file_len lim"
    using inv assms(4) by (auto simp: scan_inv_def)
  show ?thesis
    using inv first top ranges anchor bounds unfolding scan_inv_def same by blast
qed

lemma scan_section_inv:
  assumes inv: "scan_inv lim sc" and step: "scan_section lim s sc = Inr sc'"
  shows "scan_inv lim sc'"
proof -
  from step obtain sc1 sc2 where r: "scan_raw_range lim s sc = Inr sc1"
    and v: "scan_virtual_range lim s sc1 = Inr sc2" and a: "scan_special_section lim s sc2 = Inr sc'"
    by (auto simp: scan_section_def rbind_eq_Inr if_error_eq_Inr)
  let ?o = "s_pointer_to_raw_data s" and ?n = "s_size_of_raw_data s"
    and ?a = "s_virtual_address s" and ?v = "section_virtual_span s"
  note R = scan_raw_range_Inr [OF r] and V = scan_virtual_range_Inr [OF v]
  have span: "?n \<le> ?v" by (simp add: section_virtual_span_def)
  have inv2: "scan_inv lim sc2 \<and> (?n \<noteq> 0 \<longrightarrow> (?o, ?o + ?n) \<in> set (sc_raw_ranges sc2))"
  proof (cases "?n = 0")
    case True
    with R(2) have "sc1 = sc" by simp
    moreover have "?v \<noteq> 0 \<Longrightarrow> sc2 = add_virtual ?a (?a + ?v) sc1"
      using V(2) by (simp add: add_virtual_def)
    ultimately show ?thesis
      using True V(1) inv scan_inv_add_virtual [OF inv, of ?a "?a + ?v"] by (cases "?v = 0") simp_all
  next
    case False
    with span have pos: "?v \<noteq> 0" by simp
    have sc2: "sc2 = add_raw ?o (?o + ?n) (add_virtual ?a (?a + ?v) sc)"
      using V(2) [OF pos] R(3) [OF False] by (simp add: add_virtual_def add_raw_def)
    have "scan_inv lim (add_raw ?o (?o + ?n) (add_virtual ?a (?a + ?v) sc))"
      using R(1) R(3) [OF False] False pos span
      by (intro scan_inv_add_raw scan_inv_add_virtual inv) (auto simp: add_virtual_def)
    with sc2 show ?thesis by (simp add: add_raw_def)
  qed
  note S = scan_special_section_Inr [OF a]
  have "\<forall>x. sc_anchor sc' = Some x \<longrightarrow> (pa_offset x, pa_raw_end x) \<in> set (sc_raw_ranges sc') \<and>
        pa_raw_end x = pa_offset x + pa_raw_size x \<and> FOOTER_LEN \<le> pa_raw_size x"
    using S(4,6) inv2 unfolding scan_inv_def by auto
  with inv2 S(1-5) show ?thesis
    unfolding scan_inv_def by metis
qed

lemma scan_sections_inv:
  "scan_inv lim sc \<Longrightarrow> scan_sections lim ss sc = Inr sc' \<Longrightarrow> scan_inv lim sc'"
  by (induction ss arbitrary: sc) (auto simp: rbind_eq_Inr intro: scan_section_inv)

section \<open>An accepted layout\<close>

text \<open>
  Headers, sections and certificate table follow one another in the file; the anchor is the
  last section and large enough for a footer; in a low-alignment image, where file offsets
  are virtual addresses, the sections end no later in the file than in memory.
\<close>

definition pe_layout_ok :: "pe_layout \<Rightarrow> nat \<Rightarrow> bool" where
  "pe_layout_ok l file_len \<longleftrightarrow>
     pl_size_of_headers l \<le> pl_max_raw_end l \<and> pl_max_raw_end l \<le> file_len \<and>
     0 < pl_file_alignment l \<and> 0 < pl_section_alignment l \<and>
     (\<forall>d. pl_security_directory_offset l = Some d \<longrightarrow> d + 8 \<le> pl_size_of_headers l) \<and>
     (\<forall>o'. pl_first_section_offset l = Some o' \<longrightarrow>
        pl_size_of_headers l \<le> o' \<and> o' < pl_max_raw_end l \<and>
        (pl_section_alignment l < 4 * 1024 \<longrightarrow> pl_max_raw_end l \<le> pl_max_virtual_end l)) \<and>
     (\<forall>a. pl_anchor l = Some a \<longrightarrow>
        pa_raw_end a = pl_max_raw_end l \<and> pa_raw_end a = pa_offset a + pa_raw_size a \<and>
        FOOTER_LEN \<le> pa_raw_size a \<and> pl_size_of_headers l \<le> pa_offset a) \<and>
     (\<forall>c. pl_certificate l = Some c \<longrightarrow>
        8 dvd pc_offset c \<and> pl_max_raw_end l \<le> pc_offset c \<and> 8 \<le> pc_size c \<and>
        pc_offset c + pc_size c = file_len)"

lemma pe_certificate_range_Some:
  assumes "pe_certificate_range n m sec = Inr (Some c)"
  shows "8 dvd pc_offset c" "m \<le> pc_offset c" "8 \<le> pc_size c" "pc_offset c + pc_size c = n"
  using assms
  by (auto simp: pe_certificate_range_def Let_def rbind_eq_Inr ok_or_eq_Inr checked_add_eq_Some
      not_less mod_eq_0_iff_dvd split: prod.splits if_splits)

lemma pe_layout_from_file_Inr:
  assumes "pe_layout_from_file pe kind off n = Inr l"
  obtains lim sc where
    "lim = \<lparr>lim_file_len = n, lim_size_of_headers = pl_size_of_headers l,
            lim_file_alignment = pl_file_alignment l, lim_section_alignment = pl_section_alignment l\<rparr>"
    "pl_size_of_headers l \<le> n" "\<not> pe_alignment_invalid (pl_file_alignment l) (pl_section_alignment l)"
    "scan_sections lim (pf_sections pe) (scan_start lim) = Inr sc"
    "pe_check_ranges lim (pl_size_of_image l) sc = Inr ()"
    "pe_certificate_range n (pl_max_raw_end l)
       (if IMAGE_DIRECTORY_ENTRY_SECURITY < length (pf_data_directories pe)
        then pf_data_directories pe ! IMAGE_DIRECTORY_ENTRY_SECURITY else (0, 0)) = Inr (pl_certificate l)"
    "pl_first_section_offset l = sc_first_section_offset sc" "pl_max_raw_end l = sc_max_raw_end sc"
    "pl_max_virtual_end l = sc_max_virtual_end sc" "pl_anchor l = sc_anchor sc"
    "pl_kind l = kind" "pl_machine l = pf_machine pe" "pl_reader_capability l = sc_reader_capability sc"
    "pl_security_directory_offset l =
       pe_security_directory_offset pe kind (pl_optional_header_offset l) (pl_section_table_offset l)"
    "pl_section_table_offset l \<le> pl_size_of_headers l"
  using assms
  by (auto simp: pe_layout_from_file_def Let_def rbind_eq_Inr if_error_eq_Inr not_less
      bind_eq_Some_conv ok_or_eq_Inr checked_add_eq_Some simp del: split_paired_Ex)

lemma pe_layout_from_file_ok:
  assumes "pe_layout_from_file pe kind off n = Inr l"
  shows "pe_layout_ok l n"
proof -
  from assms obtain lim sc where
    lim: "lim = \<lparr>lim_file_len = n, lim_size_of_headers = pl_size_of_headers l,
            lim_file_alignment = pl_file_alignment l, lim_section_alignment = pl_section_alignment l\<rparr>"
    and hd: "pl_size_of_headers l \<le> n" and al: "\<not> pe_alignment_invalid (pl_file_alignment l) (pl_section_alignment l)"
    and scan: "scan_sections lim (pf_sections pe) (scan_start lim) = Inr sc"
    and check: "pe_check_ranges lim (pl_size_of_image l) sc = Inr ()"
    and cert: "pe_certificate_range n (pl_max_raw_end l)
       (if IMAGE_DIRECTORY_ENTRY_SECURITY < length (pf_data_directories pe)
        then pf_data_directories pe ! IMAGE_DIRECTORY_ENTRY_SECURITY else (0, 0)) = Inr (pl_certificate l)"
    and eqs: "pl_first_section_offset l = sc_first_section_offset sc" "pl_max_raw_end l = sc_max_raw_end sc"
    "pl_max_virtual_end l = sc_max_virtual_end sc" "pl_anchor l = sc_anchor sc"
    and dir: "pl_security_directory_offset l =
       pe_security_directory_offset pe kind (pl_optional_header_offset l) (pl_section_table_offset l)"
    "pl_section_table_offset l \<le> pl_size_of_headers l"
    by (rule pe_layout_from_file_Inr)
  have security: "d + 8 \<le> pl_size_of_headers l" if "pl_security_directory_offset l = Some d" for d
    using that dir by (auto simp: pe_security_directory_offset_def bind_eq_Some_conv checked_add_eq_Some
        split: if_splits option.splits)
  have inv: "scan_inv lim sc"
    using scan by (rule scan_sections_inv [rotated]) (simp add: scan_inv_start lim hd)
  then have bounds: "pl_size_of_headers l \<le> pl_max_raw_end l" "pl_max_raw_end l \<le> n"
    by (simp_all add: scan_inv_def eqs lim)
  have align: "0 < pl_file_alignment l" "0 < pl_section_alignment l"
    using al by (simp_all add: pe_alignment_invalid_def)
  have first: "pl_size_of_headers l \<le> o' \<and> o' < pl_max_raw_end l \<and>
      (pl_section_alignment l < 4 * 1024 \<longrightarrow> pl_max_raw_end l \<le> pl_max_virtual_end l)"
    if o': "pl_first_section_offset l = Some o'" for o'
  proof -
    from inv o' obtain r where r: "r \<in> set (sc_raw_ranges sc)" "o' = fst r"
      unfolding scan_inv_def eqs by blast
    with inv have R: "pl_size_of_headers l \<le> fst r" "fst r < snd r" "snd r \<le> pl_max_raw_end l"
      unfolding scan_inv_def eqs lim by (metis pe_limits.select_convs(2))+
    then have "sc_max_raw_end sc \<noteq> lim_size_of_headers lim" by (simp add: lim eqs)
    with inv obtain q where "q \<in> set (sc_raw_ranges sc)" "sc_max_raw_end sc = snd q"
      unfolding scan_inv_def by blast
    with inv have "low_alignment lim \<Longrightarrow> pl_max_raw_end l \<le> pl_max_virtual_end l"
      unfolding scan_inv_def eqs by metis
    with R r show ?thesis by (simp add: low_alignment_def lim)
  qed
  have anchor: "pa_raw_end a = pl_max_raw_end l \<and> pa_raw_end a = pa_offset a + pa_raw_size a \<and>
      FOOTER_LEN \<le> pa_raw_size a \<and> pl_size_of_headers l \<le> pa_offset a"
    if a: "pl_anchor l = Some a" for a
  proof -
    from check a have "pa_raw_end a = pl_max_raw_end l"
      by (auto simp: pe_check_ranges_def rbind_eq_Inr if_error_eq_Inr eqs)
    moreover from inv a have "(pa_offset a, pa_raw_end a) \<in> set (sc_raw_ranges sc)"
      "pa_raw_end a = pa_offset a + pa_raw_size a" "FOOTER_LEN \<le> pa_raw_size a"
      unfolding scan_inv_def eqs by blast+
    moreover from this(1) inv have "pl_size_of_headers l \<le> pa_offset a"
      unfolding scan_inv_def lim by force
    ultimately show ?thesis by blast
  qed
  have "8 dvd pc_offset c \<and> pl_max_raw_end l \<le> pc_offset c \<and> 8 \<le> pc_size c \<and> pc_offset c + pc_size c = n"
    if "pl_certificate l = Some c" for c
    using pe_certificate_range_Some cert that by metis
  with bounds align security first anchor show ?thesis
    unfolding pe_layout_ok_def by blast
qed

lemma read_pe_layout_ok:
  "read_pe_layout P f = Inr l \<Longrightarrow> pe_layout_ok l (length f)"
  by (auto simp: read_pe_layout_def Let_def rbind_eq_Inr split: file_kind.split_asm
      intro: pe_layout_from_file_ok file_kind.exhaust)

section \<open>The plan and the bytes written\<close>

lemma pe_template_room_Inr:
  assumes "pe_template_room l n platform = Inr (sh, sd)"
  shows "validate_pe_platform (pl_machine l) (pl_kind l) platform = Inr ()"
    and "pl_anchor l = None" "pl_certificate l = None" "n = pl_max_raw_end l"
    and "pl_security_directory_offset l = Some sd"
    and "sh + 40 \<le> pl_size_of_headers l"
    and "\<exists>o'. pl_first_section_offset l = Some o' \<and> sh + 40 \<le> o'"
  using assms
  by (auto simp: pe_template_room_def rbind_eq_Inr if_error_eq_Inr ok_or_eq_Inr checked_add_eq_Some
      IMAGE_SIZEOF_SECTION_HEADER_def not_less)

lemma pe_stamp_plan_Inr:
  assumes plan: "pe_stamp_plan l n hl bl platform = Inr p" and ok: "pe_layout_ok l n"
  shows "validate_pe_platform (pl_machine l) (pl_kind l) platform = Inr ()"
    and "n \<le> pp_anchor_offset p" and "FOOTER_LEN \<le> pp_anchor_raw_size p"
    and "pe_runtime_content_layout (pe_anchor_end p) (hl + bl) = Inr (pp_payload_start p, pp_payload_end p)"
    and "pl_size_of_headers l \<le> n" and "pp_section_count p = pl_section_count l + 1"
    and "pp_section_count p \<le> 96" and "pl_anchor l = None" and "pl_certificate l = None"
    and "pp_new_section_header_offset p + 40 \<le> pl_size_of_headers l"
proof -
  from plan obtain sh sd va rs ve img where room: "pe_template_room l n platform = Inr (sh, sd)"
    and va: "align_up (pl_max_virtual_end l) (pl_section_alignment l) = Inr va"
    and rs: "align_up FOOTER_LEN (pl_file_alignment l) = Inr rs"
    and off: "pp_anchor_offset p = (if pl_section_alignment l < 4 * 1024 then va else pl_max_raw_end l)"
    and size: "pp_anchor_raw_size p = rs"
    and layout: "pe_runtime_content_layout (pe_anchor_end p) (hl + bl) = Inr (pp_payload_start p, pp_payload_end p)"
    and count: "pp_section_count p = pl_section_count l + 1" "pl_section_count l + 1 \<le> 96"
    and sh: "pp_new_section_header_offset p = sh"
    by (auto simp: pe_stamp_plan_def Let_def rbind_eq_Inr if_error_eq_Inr ok_or_eq_Inr
        checked_add_eq_Some pe_anchor_end_def not_less simp del: FOOTER_LEN_eq split: prod.splits)
  note R = pe_template_room_Inr [OF room]
  from R(7) ok have "pl_section_alignment l < 4 * 1024 \<Longrightarrow> pl_max_raw_end l \<le> pl_max_virtual_end l"
    by (auto simp: pe_layout_ok_def)
  with align_up_props(1) [OF va] R(4) off show "n \<le> pp_anchor_offset p" by auto
  show "FOOTER_LEN \<le> pp_anchor_raw_size p" using align_up_props(1) [OF rs] size by simp
  show "pl_size_of_headers l \<le> n" using ok R(4) by (simp add: pe_layout_ok_def)
  show "pp_new_section_header_offset p + 40 \<le> pl_size_of_headers l" using R(6) sh by simp
  show "validate_pe_platform (pl_machine l) (pl_kind l) platform = Inr ()"
    "pl_anchor l = None" "pl_certificate l = None"
    by (fact R(1-3))+
  show "pe_runtime_content_layout (pe_anchor_end p) (hl + bl) = Inr (pp_payload_start p, pp_payload_end p)"
    by (fact layout)
  show "pp_section_count p = pl_section_count l + 1" "pp_section_count p \<le> 96" using count by simp_all
qed

lemma pe_write_output_eq:
  assumes "length prefix \<le> length t" "length t \<le> pp_anchor_offset p" "length footer \<le> pp_anchor_raw_size p"
    and "pe_anchor_end p \<le> pp_payload_start p" "pp_payload_start p + length content = pp_payload_end p"
  shows "pe_write_output t p content footer prefix =
     prefix @ drop (length prefix) t @ replicate (pp_anchor_offset p - length t) 0 @ footer
       @ replicate (pp_payload_start p - (pp_anchor_offset p + length footer)) 0 @ content"
proof -
  let ?ao = "pp_anchor_offset p" and ?ps = "pp_payload_start p"
  have le: "length t \<le> pe_anchor_end p" "length t \<le> ?ps" "?ao + length footer \<le> ?ps"
    using assms by (simp_all add: pe_anchor_end_def)
  have f2: "set_len (set_len t (pe_anchor_end p)) ?ps = t @ replicate (?ps - length t) 0"
    using le assms(4) by (simp add: set_len_def flip: replicate_add)
  have f4: "set_len (write_at (t @ replicate (?ps - length t) 0) ?ps content) (pp_payload_end p)
      = t @ replicate (?ps - length t) 0 @ content"
    using le assms(5) by (simp add: write_at_def set_len_def)
  have z: "replicate (?ps - length t) (0 :: byte) =
      replicate (?ao - length t) 0 @ replicate (length footer) 0 @ replicate (?ps - (?ao + length footer)) 0"
    using le assms(2) by (simp flip: replicate_add)
  have f5: "write_at (t @ replicate (?ps - length t) 0 @ content) ?ao footer =
      t @ replicate (?ao - length t) 0 @ footer @ replicate (?ps - (?ao + length footer)) 0 @ content"
    using assms(2) by (simp add: write_at_def z)
  show ?thesis
    unfolding pe_write_output_def Let_def f2 f4 f5 using assms(1) by (simp add: write_at_def)
qed

lemma length_pe_anchor_section_header: "length (pe_anchor_section_header plan) = 40"
  by (simp add: pe_anchor_section_header_def PE_ANCHOR_SECTION_NAME_def del: le_bytes.simps)

lemma length_pe_patch_headers:
  assumes "pe_patch_headers l plan prefix = Inr patched"
    and "pp_security_directory_offset plan + 8 \<le> length prefix"
    and "pp_new_section_header_offset plan + 40 \<le> length prefix"
  shows "length patched = length prefix"
  using assms
  by (auto simp: pe_patch_headers_def Let_def IMAGE_FILE_HEADER_LEN_def optional_fixed_size_def
      length_pe_anchor_section_header max_def split: if_splits pe_kind.splits simp del: le_bytes.simps)

section \<open>Reading back a stamped image\<close>

text \<open>The end of the reader's data: where the certificate table starts, if there is one.\<close>

definition pe_data_end :: "pe_layout \<Rightarrow> bytes \<Rightarrow> nat" where
  "pe_data_end l f = (case pl_certificate l of None \<Rightarrow> length f | Some c \<Rightarrow> pc_offset c)"

lemma write_pe_runtime_data_Inr:
  assumes "write_pe_runtime_data X P t bundle p platform = Inr out"
  obtains l plan patched content footer where "read_pe_layout P t = Inr l" "pe_layout_ok l (length t)"
    "pe_stamp_plan l (length t) (p_header_len p) (p_bundle_len p) platform = Inr plan"
    "length patched = pl_size_of_headers l"
    "pe_patch_headers l plan (bytes_at t 0 (pl_size_of_headers l)) = Inr patched"
    "pp_security_directory_offset plan + 8 \<le> pl_size_of_headers l"
    "write_runtime_content X bundle p = Inr (content, footer)"
    "out = pe_write_output t plan content footer patched"
proof -
  from assms obtain l plan patched content footer where l: "read_pe_layout P t = Inr l"
    and plan: "pe_stamp_plan l (length t) (p_header_len p) (p_bundle_len p) platform = Inr plan"
    and len: "length (bytes_at t 0 (pl_size_of_headers l)) = pl_size_of_headers l"
    and patch: "pe_patch_headers l plan (bytes_at t 0 (pl_size_of_headers l)) = Inr patched"
    and w: "write_runtime_content X bundle p = Inr (content, footer)"
    and out: "out = pe_write_output t plan content footer patched"
    by (auto simp: write_pe_runtime_data_def rbind_eq_Inr read_exact_at_eq_Inr split: prod.splits)
  note ok = read_pe_layout_ok [OF l]
  note S = pe_stamp_plan_Inr [OF plan ok]
  have "pl_security_directory_offset l = Some (pp_security_directory_offset plan)"
    using plan by (auto simp: pe_stamp_plan_def Let_def rbind_eq_Inr if_error_eq_Inr
        dest: pe_template_room_Inr(5) split: prod.splits)
  with ok have "pp_security_directory_offset plan + 8 \<le> pl_size_of_headers l"
    by (simp add: pe_layout_ok_def)
  then have dir: "pp_security_directory_offset plan + 8 \<le> pl_size_of_headers l" .
  then have "length patched = pl_size_of_headers l"
    using length_pe_patch_headers [OF patch] S(10) len by simp
  from that [OF l ok plan this patch dir w out] show thesis .
qed

text \<open>Where the writer put the parts.\<close>

lemma pe_output_parts:
  assumes ok: "pe_layout_ok l (length t)"
    and plan: "pe_stamp_plan l (length t) hl bl platform = Inr plan"
    and patched: "length patched = pl_size_of_headers l"
    and footer: "length footer = FOOTER_LEN" and content: "length content = hl + bl"
  defines "out \<equiv> pe_write_output t plan content footer patched"
  shows "length out = pp_payload_end plan"
    and "bytes_at out 0 (pl_size_of_headers l) = patched"
    and "bytes_at out (pl_size_of_headers l) (length t - pl_size_of_headers l) = drop (pl_size_of_headers l) t"
    and "bytes_at out (pp_anchor_offset plan) FOOTER_LEN = footer"
    and "bytes_at out (pp_anchor_offset plan + FOOTER_LEN) (pp_anchor_raw_size plan - FOOTER_LEN)
           = replicate (pp_anchor_raw_size plan - FOOTER_LEN) 0"
    and "bytes_at out (pe_anchor_end plan) (pp_payload_start plan - pe_anchor_end plan)
           = replicate (pp_payload_start plan - pe_anchor_end plan) 0"
    and "bytes_at out (pp_payload_start plan) (hl + bl) = content"
proof -
  note S = pe_stamp_plan_Inr [OF plan ok] and C = pe_runtime_content_layout_Inr [OF S(4)]
  let ?ao = "pp_anchor_offset plan" and ?ps = "pp_payload_start plan" and ?soh = "pl_size_of_headers l"
  let ?pre = "patched @ drop ?soh t @ replicate (?ao - length t) 0"
  let ?zeros = "replicate (?ps - (?ao + 100)) (0 :: byte)"
  have out: "out = ?pre @ footer @ ?zeros @ content"
    unfolding out_def using S C footer content patched
    by (subst pe_write_output_eq) simp_all
  have pre: "length ?pre = ?ao" using S(2,5) patched by simp
  have sizes: "100 \<le> pp_anchor_raw_size plan" "?ao + pp_anchor_raw_size plan \<le> ?ps" "pe_anchor_end plan \<le> ?ps"
    using S(3) C(2) by (simp_all add: pe_anchor_end_def)
  have l: "length footer = 100" using footer by simp
  show "length out = pp_payload_end plan"
    unfolding out using pre l content C(1) sizes by simp
  show "bytes_at out 0 ?soh = patched" using patched by (simp add: out bytes_at_def)
  show "bytes_at out ?soh (length t - ?soh) = drop ?soh t" using patched by (simp add: out bytes_at_def)
  show "bytes_at out ?ao FOOTER_LEN = footer"
    unfolding out using slice_mid [OF pre, of footer FOOTER_LEN] l by simp
  have zero: "bytes_at out (?ao + 100 + i) n = replicate n 0" if "?ao + 100 + i + n \<le> ?ps" for i n
  proof -
    have "bytes_at out (?ao + 100 + i) n = bytes_at (?zeros @ content) i n"
      unfolding out using pre l by (simp add: bytes_at_def)
    also have "\<dots> = replicate n 0" using that by (simp add: bytes_at_def min_def)
    finally show ?thesis .
  qed
  show "bytes_at out (?ao + FOOTER_LEN) (pp_anchor_raw_size plan - FOOTER_LEN)
           = replicate (pp_anchor_raw_size plan - FOOTER_LEN) 0"
    using zero [of 0 "pp_anchor_raw_size plan - 100"] sizes by simp
  have ae: "?ao + 100 + (pp_anchor_raw_size plan - 100) = pe_anchor_end plan"
    using sizes(1) by (simp add: pe_anchor_end_def)
  show "bytes_at out (pe_anchor_end plan) (?ps - pe_anchor_end plan) = replicate (?ps - pe_anchor_end plan) 0"
    using zero [of "pp_anchor_raw_size plan - 100" "?ps - pe_anchor_end plan"] sizes(3) unfolding ae by simp
  have "length (?pre @ footer @ ?zeros) = ?ps" using pre l sizes by simp
  then show "bytes_at out ?ps (hl + bl) = content"
    using slice_mid [of "?pre @ footer @ ?zeros" ?ps content "hl + bl" "[]"] content by (simp add: out)
qed

text \<open>
  The reader accepts any file with the written image data whose headers declare the written
  anchor and whose data ends where the writer said.
\<close>

lemma read_pe_anchored_stamped:
  assumes ok: "stampable X h hb b"
    and parts: "bytes_at f (pa_offset a) FOOTER_LEN = payload_footer X hb b"
      "bytes_at f (pa_offset a + FOOTER_LEN) (pa_raw_size a - FOOTER_LEN) = replicate (pa_raw_size a - FOOTER_LEN) 0"
      "bytes_at f (pa_raw_end a) (ps - pa_raw_end a) = replicate (ps - pa_raw_end a) 0"
      "bytes_at f ps (length hb) = hb"
    and size: "FOOTER_LEN \<le> pa_raw_size a"
    and layout: "pe_runtime_content_layout (pa_raw_end a) (length hb + length b) = Inr (ps, pe_data_end l f)"
    and machine: "validate_pe_platform (pl_machine l) (pl_kind l) (h_platform h) = Inr ()"
  shows "read_pe_anchored X path f l a = Inr (Some (stamped_data X path ps h hb b))"
proof -
  have footer: "read_exact_at f (pa_offset a) FOOTER_LEN = Inr (payload_footer X hb b)"
    using parts(1) length_payload_footer [OF ok] by (simp add: read_exact_at_def)
  have zero: "ensure_zero_file_range f (pa_offset a + FOOTER_LEN) (pa_raw_size a - FOOTER_LEN) msg = Inr ()"
    "ensure_zero_file_range f (pa_raw_end a) (ps - pa_raw_end a) msg = Inr ()" for msg
    unfolding ensure_zero_file_range_iff parts by simp_all
  have sub: "checked_sub (pa_raw_size a) FOOTER_LEN = Some (pa_raw_size a - FOOTER_LEN)"
    using size by (simp add: checked_sub_def)
  have add: "checked_add (length hb) (length b) = Some (length hb + length b)"
    using ok by (simp add: checked_add_def stampable_def)
  have dec: "d_header_len (payload_decoded X hb b) = length hb" "d_bundle_len (payload_decoded X hb b) = length b"
    by (simp_all add: payload_decoded_def)
  have "rd_header (stamped_data X path ps h hb b) = h" by (simp add: stamped_data_def)
  then show ?thesis
    unfolding read_pe_anchored_def footer rbind_simps decode_payload_footer [OF ok] ok_or_simps sub zero dec add
      layout prod.case Let_def pe_data_end_def
    by (simp add: read_payload_stamped [OF ok parts(4)] machine)
qed

text \<open>The core of the round trip, for the unsigned output and for signed copies of it.\<close>

lemma stamped_pe_read:
  assumes "codec_laws X"
    and prep: "prepare_runtime_data X h (map_option fst bundle) = Inr p"
    and written: "write_pe_runtime_data X P t bundle p platform = Inr out"
    and layout: "read_pe_layout P t = Inr l"
    and plan: "pe_stamp_plan l (length t) (p_header_len p) (p_bundle_len p) platform = Inr plan"
    and same: "same_image_data (pl_size_of_headers l) out f"
    and reader: "read_pe_layout P f = Inr l'" "pl_anchor l' = Some a"
      "pa_offset a = pp_anchor_offset plan" "pa_raw_size a = pp_anchor_raw_size plan"
      "pe_data_end l' f = length out"
    and certificate: "\<forall>c. pl_certificate l' = Some c \<longrightarrow> validate_pe_certificate_table f c = Inr ()"
    and machine: "validate_pe_platform (pl_machine l') (pl_kind l') (h_platform h) = Inr ()"
  shows "read_pe_runtime_data X P path f = Inr (Some
    \<lparr>rd_header = h,
     rd_bundle = (if bundle_bytes bundle = [] then None
       else Some \<lparr>eb_executable = path, eb_offset = pp_payload_start plan + p_header_len p,
                  eb_len = length (bundle_bytes bundle), eb_sha256 = sha256 X (bundle_bytes bundle)\<rparr>),
     rd_stamped = True\<rparr>)"
proof -
  from written obtain l0 plan0 patched content footer where l0: "read_pe_layout P t = Inr l0"
    and ok0: "pe_layout_ok l0 (length t)"
    and plan0: "pe_stamp_plan l0 (length t) (p_header_len p) (p_bundle_len p) platform = Inr plan0"
    and patched0: "length patched = pl_size_of_headers l0"
    and w: "write_runtime_content X bundle p = Inr (content, footer)"
    and out0: "out = pe_write_output t plan0 content footer patched"
    by (rule write_pe_runtime_data_Inr)
  have l_eq: "l0 = l" using l0 layout by simp
  have plan_eq: "plan0 = plan" using plan0 plan unfolding l_eq by simp
  note ok = ok0 [unfolded l_eq] and patched = patched0 [unfolded l_eq] and out = out0 [unfolded plan_eq]
  let ?hb = "p_header_bytes p" and ?b = "bundle_bytes bundle" and ?ps = "pp_payload_start plan"
  note st = prepared_stampable [OF assms(1) prep w] and C = write_runtime_content_Inr [OF w]
    and S = pe_stamp_plan_Inr [OF plan ok] and H = prepare_runtime_data_Inr(3) [OF prep]
  have lens: "p_header_len p = length ?hb" "p_bundle_len p = length ?b" using C(2) H by simp_all
  have "length footer = FOOTER_LEN" unfolding st(3) by (rule length_payload_footer [OF st(1)])
  moreover have "length content = p_header_len p + p_bundle_len p" using C(1) lens by simp
  ultimately have this: "length footer = FOOTER_LEN" "length content = p_header_len p + p_bundle_len p" .
  note parts = pe_output_parts [OF ok plan patched this, folded out]
  note L = pe_runtime_content_layout_Inr [OF S(4)]
  have raw: "pa_raw_end a = pe_anchor_end plan" "FOOTER_LEN \<le> pa_raw_size a"
    using read_pe_layout_ok [OF reader(1)] reader(2-4) by (auto simp: pe_layout_ok_def pe_anchor_end_def)
  have in_out: "pe_anchor_end plan + (?ps - pe_anchor_end plan) \<le> length out" "?ps + length ?hb \<le> length out"
    "pp_anchor_offset plan + pp_anchor_raw_size plan \<le> length out"
    "pl_size_of_headers l \<le> pp_anchor_offset plan" "pe_anchor_end plan \<le> ?ps"
    using L(1,2) lens S(2,5) parts(1) by (simp_all add: pe_anchor_end_def)
  note view = same_image_data_bytes_at [OF same]
  have "read_pe_anchored X path f l' a = Inr (Some (stamped_data X path ?ps h ?hb ?b))"
  proof (rule read_pe_anchored_stamped [OF st(1)])
    show "bytes_at f (pa_offset a) FOOTER_LEN = payload_footer X ?hb ?b"
      using view [of "pp_anchor_offset plan" FOOTER_LEN] in_out raw(2) reader(3,4) parts(4) st(3) by simp
    show "bytes_at f (pa_offset a + FOOTER_LEN) (pa_raw_size a - FOOTER_LEN) = replicate (pa_raw_size a - FOOTER_LEN) 0"
      using view [of "pp_anchor_offset plan + FOOTER_LEN" "pp_anchor_raw_size plan - FOOTER_LEN"]
        in_out raw(2) reader(3,4) parts(5) by simp
    show "bytes_at f (pa_raw_end a) (?ps - pa_raw_end a) = replicate (?ps - pa_raw_end a) 0"
      using view [OF _ in_out(1)] in_out parts(6) unfolding raw by (simp add: pe_anchor_end_def)
    have "bytes_at out ?ps (length ?hb) = take (length ?hb) (bytes_at out ?ps (p_header_len p + p_bundle_len p))"
      using lens by (simp add: bytes_at_def min_def)
    also have "\<dots> = ?hb" using parts(7) C(1) by simp
    finally show "bytes_at f ?ps (length ?hb) = ?hb" using view [of ?ps "length ?hb"] in_out
      by (simp add: pe_anchor_end_def)
    show "FOOTER_LEN \<le> pa_raw_size a" by (fact raw(2))
    show "pe_runtime_content_layout (pa_raw_end a) (length ?hb + length ?b) = Inr (?ps, pe_data_end l' f)"
      using S(4) parts(1) reader(5) unfolding raw lens by simp
    show "validate_pe_platform (pl_machine l') (pl_kind l') (h_platform h) = Inr ()" by (fact machine)
  qed
  then show ?thesis
    using certificate reader(1,2) lens
    by (auto simp: read_pe_runtime_data_def stamped_data_def split: option.splits)
qed

section \<open>A sample image\<close>

text \<open>A one-section 64-bit template of 1024 bytes, and what its headers say once stamped.\<close>

definition sample_pe_section :: pe_section where
  "sample_pe_section = \<lparr>s_name = [], s_virtual_size = 512, s_virtual_address = 4096,
     s_size_of_raw_data = 512, s_pointer_to_raw_data = 512, s_characteristics = 0\<rparr>"

definition sample_pe_anchor :: pe_section where
  "sample_pe_anchor = \<lparr>s_name = PE_ANCHOR_SECTION_NAME, s_virtual_size = 100, s_virtual_address = 8192,
     s_size_of_raw_data = 512, s_pointer_to_raw_data = 1024,
     s_characteristics = PE_ANCHOR_SECTION_CHARACTERISTICS\<rparr>"

definition sample_pe_file :: "nat \<Rightarrow> pe_section list \<Rightarrow> pe_file" where
  "sample_pe_file img sections = \<lparr>pf_characteristics = 2, pf_machine = 0x8664,
     pf_number_of_sections = length sections,
     pf_size_of_optional_header = 240, pf_size_of_headers = 512, pf_file_alignment = 512,
     pf_section_alignment = 4096, pf_size_of_image = img, pf_size_of_initialized_data = 0,
     pf_number_of_rva_and_sizes = 16, pf_sections = sections, pf_data_directories = []\<rparr>"

definition sample_pe :: pe_ext where
  "sample_pe = \<lparr>parse_file_kind = (\<lambda>_. Inr Kind_Pe64),
     parse_pe_file = (\<lambda>_ f. if length f = 1024 then Inr (sample_pe_file 8192 [sample_pe_section])
        else Inr (sample_pe_file 12288 [sample_pe_section, sample_pe_anchor]))\<rparr>"

definition sample_template :: bytes where
  "sample_template = replicate 1024 0"

definition sample_layout :: "nat \<Rightarrow> nat \<Rightarrow> nat \<Rightarrow> pe_anchor_layout option \<Rightarrow> pe_layout" where
  "sample_layout n raw_end img anchor =
     \<lparr>pl_kind = Pe64, pl_machine = 0x8664, pl_file_header_offset = 4, pl_optional_header_offset = 24,
      pl_section_table_offset = 264, pl_security_directory_offset = Some 168, pl_section_count = n,
      pl_size_of_headers = 512, pl_size_of_image = img, pl_size_of_initialized_data = 0,
      pl_file_alignment = 512, pl_section_alignment = 4096, pl_first_section_offset = Some 512,
      pl_max_raw_end = raw_end, pl_max_virtual_end = img - 3584, pl_anchor = anchor,
      pl_certificate = None, pl_reader_capability = None\<rparr>"

lemmas pe_sample_eval =
    pe_layout_from_file_def sample_pe_file_def checked_add_def checked_mul_def Let_def
    IMAGE_FILE_EXECUTABLE_IMAGE_def IMAGE_FILE_DLL_def IMAGE_FILE_HEADER_LEN_def IMAGE_SIZEOF_SECTION_HEADER_def
    MAX_PE_HEADER_BYTES_def pe_alignment_invalid_def PE_MAX_IMAGE_SIZE_def is_power_of_two_def
    scan_start_def scan_section_def scan_raw_range_def scan_virtual_range_def scan_special_section_def
    section_virtual_span_def low_alignment_def sample_pe_section_def sample_pe_anchor_def
    pe_check_ranges_def ranges_overlap_def align_up_def PE_ANCHOR_SECTION_NAME_def PE_READER_CAPABILITY_SECTION_NAME_def
    pe_certificate_range_def pe_security_directory_offset_def optional_fixed_size_def sample_layout_def
    IMAGE_DIRECTORY_ENTRY_SECURITY_def upt_rec


lemma le_nat_zeros [simp]: "le_nat (replicate n 0) = 0"
  by (induction n) simp_all

lemma sample_template_length: "length sample_template = 1024"
  by (simp add: sample_template_def)

lemma sample_template_layout:
  "read_pe_layout sample_pe sample_template = Inr (sample_layout 1 1024 8192 None)"
  by (simp add: read_pe_layout_def sample_pe_def sample_template_def read_exact_at_def bytes_at_def
      pe_sample_eval)

definition sample_anchor :: pe_anchor_layout where
  "sample_anchor = \<lparr>pa_offset = 1024, pa_raw_size = 512, pa_raw_end = 1536, pa_virtual_end = 8704\<rparr>"

lemma sample_stamped_layout:
  assumes "length f = 1544" "bytes_at f 60 4 = replicate 4 0"
  shows "read_pe_layout sample_pe f = Inr (sample_layout 2 1536 12288 (Some sample_anchor))"
  using assms
  by (simp add: read_pe_layout_def sample_pe_def read_exact_at_def sample_anchor_def pe_sample_eval)

definition sample_plan :: pe_plan where
  "sample_plan = \<lparr>pp_new_section_header_offset = 304, pp_security_directory_offset = 168,
     pp_anchor_virtual_address = 8192, pp_anchor_offset = 1024, pp_anchor_raw_size = 512,
     pp_payload_start = 1540, pp_payload_end = 1544, pp_size_of_image = 12288,
     pp_size_of_initialized_data = 512, pp_section_count = 2\<rparr>"

lemma sample_stamp_plan:
  "pe_stamp_plan (sample_layout 1 1024 8192 None) 1024 2 2 ''win-64'' = Inr sample_plan"
  by (simp add: pe_stamp_plan_def pe_template_room_def validate_pe_platform_def expected_pe_machine_def
      pe_runtime_content_layout_def u32_try_from_def sample_plan_def pe_sample_eval)

lemma sample_patch:
  obtains patched where
    "pe_patch_headers (sample_layout 1 1024 8192 None) sample_plan (replicate 512 0) = Inr patched"
    "bytes_at patched 60 4 = replicate 4 0"
proof -
  show thesis
  proof (rule that)
    show "pe_patch_headers (sample_layout 1 1024 8192 None) sample_plan (replicate 512 0) = Inr
      (write_at (write_at (write_at (write_at (write_at (write_at (replicate 512 0) 6 (le_bytes 2 2))
         32 (le_bytes 4 512)) 80 (le_bytes 4 12288)) 88 (le_bytes 4 0)) 168 (replicate 8 0))
         304 (pe_anchor_section_header sample_plan))"
      by (simp add: pe_patch_headers_def sample_layout_def sample_plan_def Let_def bytes_at_def
          IMAGE_SIZEOF_SECTION_HEADER_def IMAGE_FILE_HEADER_LEN_def optional_fixed_size_def
          del: le_bytes.simps)
    show "bytes_at (write_at (write_at (write_at (write_at (write_at (write_at (replicate 512 0) 6 (le_bytes 2 2))
         32 (le_bytes 4 512)) 80 (le_bytes 4 12288)) 88 (le_bytes 4 0)) 168 (replicate 8 0))
         304 (pe_anchor_section_header sample_plan)) 60 4 = replicate 4 0"
      by (simp add: slice_write_at_before slice_write_at_after length_pe_anchor_section_header
          del: le_bytes.simps) (simp add: bytes_at_def)
  qed
qed

lemma sample_plan_of_template:
  "pe_stamp_plan (sample_layout 1 1024 8192 None) (length sample_template) (p_header_len sample_prepared)
     (p_bundle_len sample_prepared) ''win-64'' = Inr sample_plan"
  using sample_stamp_plan by (simp add: sample_template_length sample_prepared_def)

lemma sample_stamped:
  obtains out where
    "write_pe_runtime_data sample_codec sample_pe sample_template sample_bundle sample_prepared ''win-64'' = Inr out"
    "length out = 1544" "read_pe_layout sample_pe out = Inr (sample_layout 2 1536 12288 (Some sample_anchor))"
proof -
  let ?l = "sample_layout 1 1024 8192 None"
  obtain patched where patch: "pe_patch_headers ?l sample_plan (replicate 512 0) = Inr patched"
    and zero: "bytes_at patched 60 4 = replicate 4 0" by (rule sample_patch)
  let ?footer = "encode_footer 2 2 (sha256 sample_codec [1, 2]) (sha256 sample_codec [7, 8])"
  let ?out = "pe_write_output sample_template sample_plan [1, 2, 7, 8] ?footer patched"
  have written: "write_pe_runtime_data sample_codec sample_pe sample_template sample_bundle sample_prepared
      ''win-64'' = Inr ?out"
    using sample_stamp_plan patch
    by (simp add: write_pe_runtime_data_def sample_template_layout sample_content)
       (simp add: sample_template_def sample_prepared_def read_exact_at_def bytes_at_def sample_layout_def)
  have plan: "pe_stamp_plan ?l (length sample_template) 2 2 ''win-64'' = Inr sample_plan"
    using sample_stamp_plan by (simp add: sample_template_length)
  have ok: "pe_layout_ok ?l (length sample_template)" by (rule read_pe_layout_ok [OF sample_template_layout])
  have "length patched = pl_size_of_headers ?l"
    using length_pe_patch_headers [OF patch] by (simp add: sample_plan_def sample_layout_def)
  moreover have "length ?footer = FOOTER_LEN"
    by (rule length_encode_footer) (simp_all add: codec_lawsD)
  ultimately have parts: "length ?out = 1544" "bytes_at ?out 0 512 = patched"
    using pe_output_parts [OF ok plan] by (simp_all add: sample_plan_def sample_layout_def)
  have "bytes_at ?out 60 4 = replicate 4 0"
    using zero slice_slice [of 60 4 512 ?out 0] parts(2) by simp
  from that [OF written parts(1) sample_stamped_layout [OF parts(1) this]] show thesis .
qed

lemma sample_pe_read:
  assumes "write_pe_runtime_data sample_codec sample_pe sample_template sample_bundle sample_prepared ''win-64'' = Inr out"
    "length out = 1544" "read_pe_layout sample_pe out = Inr (sample_layout 2 1536 12288 (Some sample_anchor))"
  shows "\<exists>d. read_pe_runtime_data sample_codec sample_pe path out = Inr (Some d)"
  by (rule exI, rule stamped_pe_read [OF sample_codec_laws sample_prepare assms(1) sample_template_layout
        sample_plan_of_template same_image_data_refl assms(3), where a = sample_anchor])
     (simp_all add: assms(2) sample_layout_def sample_anchor_def sample_plan_def pe_data_end_def
       validate_pe_platform_def)

section \<open>Properties\<close>



text \<open>
  C4. Nothing unauthenticated is read from an anchored PE image. When the reader accepts a
  file whose section table declares an anchor, the footer it used is the one at the start of
  the anchor section, the anchor and the gap behind it hold nothing but that footer and zero
  bytes, the header is the digest-checked bytes the footer describes, the recorded bundle
  follows it at once, and header and bundle end exactly where the certificate table (or the
  file) begins.
\<close>

theorem pe_anchored_read_sound:
  assumes read: "read_pe_runtime_data X P path f = Inr (Some data)"
    and layout: "read_pe_layout P f = Inr l" and anchor: "pl_anchor l = Some a"
  shows "\<exists>d start. decode_footer (bytes_at f (pa_offset a) FOOTER_LEN) = Inr (Some d) \<and>
     authentic X path f start d data \<and>
     start + d_header_len d + d_bundle_len d = pe_data_end l f \<and>
     pa_raw_end a \<le> start \<and> start < pa_raw_end a + 8 \<and>
     all_zero (bytes_at f (pa_offset a + FOOTER_LEN) (start - (pa_offset a + FOOTER_LEN))) \<and>
     validate_pe_platform (pl_machine l) (pl_kind l) (h_platform (rd_header data)) = Inr ()"
proof -
  from read layout anchor have "read_pe_anchored X path f l a = Inr (Some data)"
    by (auto simp: read_pe_runtime_data_def rbind_eq_Inr split: option.splits)
  then obtain d ps pe where d: "decode_footer (bytes_at f (pa_offset a) FOOTER_LEN) = Inr (Some d)"
    and pad: "ensure_zero_file_range f (pa_offset a + FOOTER_LEN) (pa_raw_size a - FOOTER_LEN)
                ''PE conda-ship anchor section padding is not zero'' = Inr ()"
    and lay: "pe_runtime_content_layout (pa_raw_end a) (d_header_len d + d_bundle_len d) = Inr (ps, pe)"
    and pe: "pe = pe_data_end l f"
    and gap: "ensure_zero_file_range f (pa_raw_end a) (ps - pa_raw_end a)
                ''PE runtime data alignment padding is not zero'' = Inr ()"
    and payload: "read_runtime_data_payload X path f ps d = Inr (Some data)"
    and machine: "validate_pe_platform (pl_machine l) (pl_kind l) (h_platform (rd_header data)) = Inr ()"
    by (auto simp: read_pe_anchored_def Let_def rbind_eq_Inr ok_or_eq_Inr if_error_eq_Inr checked_add_eq_Some
        checked_sub_eq_Some read_exact_at_eq_Inr pe_data_end_def simp del: FOOTER_LEN_eq split: prod.splits)
  from read_pe_layout_ok [OF layout] anchor have a: "pa_raw_end a = pa_offset a + pa_raw_size a"
    "FOOTER_LEN \<le> pa_raw_size a" by (auto simp: pe_layout_ok_def)
  note L = pe_runtime_content_layout_Inr [OF lay]
  let ?s = "pa_offset a + FOOTER_LEN" and ?n = "pa_raw_size a - FOOTER_LEN"
  have "bytes_at f ?s (ps - ?s) = bytes_at f ?s ?n @ bytes_at f (pa_raw_end a) (ps - pa_raw_end a)"
  proof -
    have split: "ps - ?s = ?n + (ps - pa_raw_end a)" and mid: "?s + ?n = pa_raw_end a"
      using a L(2) by simp_all
    have "take (?n + (ps - pa_raw_end a)) (drop ?s f) =
        take ?n (drop ?s f) @ take (ps - pa_raw_end a) (drop (?s + ?n) f)"
      by (simp only: take_add drop_drop add.commute [of ?n ?s])
    then show ?thesis unfolding split mid by (simp only: bytes_at_def)
  qed
  then have "all_zero (bytes_at f ?s (ps - ?s))"
    using pad gap by (simp add: ensure_zero_file_range_iff all_zero_def)
  moreover have "authentic X path f ps d data"
    using payload by (simp add: read_runtime_data_payload_eq_Inr)
  ultimately show ?thesis
    using d pe L(1-3) machine by (intro exI [of _ d] exI [of _ ps]) simp
qed

theorem pe_anchored_read_sound_witness:
  "\<exists>f data d start. read_pe_runtime_data sample_codec sample_pe [''demo.exe''] f = Inr (Some data) \<and>
     decode_footer (bytes_at f 1024 FOOTER_LEN) = Inr (Some d) \<and>
     authentic sample_codec [''demo.exe''] f start d data \<and> start + d_header_len d + d_bundle_len d = length f"
proof -
  obtain out where out: "write_pe_runtime_data sample_codec sample_pe sample_template sample_bundle
      sample_prepared ''win-64'' = Inr out" "length out = 1544"
      "read_pe_layout sample_pe out = Inr (sample_layout 2 1536 12288 (Some sample_anchor))"
    by (rule sample_stamped)
  obtain data where "read_pe_runtime_data sample_codec sample_pe [''demo.exe''] out = Inr (Some data)"
    using sample_pe_read [OF out] by blast
  then show ?thesis
    using pe_anchored_read_sound [OF _ out(3), of sample_codec "[''demo.exe'']" data sample_anchor]
    by (auto simp: sample_layout_def sample_anchor_def pe_data_end_def)
qed

lemma nth_write_at_outside:
  assumes "off + length bs \<le> length f" "off \<le> i \<longrightarrow> off + length bs \<le> i"
  shows "write_at f off bs ! i = f ! i"
  using assms by (auto simp: write_at_def nth_append)

lemma pe_patch_headers_nth:
  assumes "pe_patch_headers l plan prefix = Inr patched"
    and "pp_security_directory_offset plan + 8 \<le> length prefix"
    and "pp_new_section_header_offset plan + 40 \<le> length prefix"
    and "i \<notin> {pl_file_header_offset l + 2 ..< pl_file_header_offset l + 4}"
      "i \<notin> {pl_optional_header_offset l + 8 ..< pl_optional_header_offset l + 12}"
      "i \<notin> {pl_optional_header_offset l + 56 ..< pl_optional_header_offset l + 60}"
      "i \<notin> {pl_optional_header_offset l + 64 ..< pl_optional_header_offset l + 68}"
      "i \<notin> {pp_security_directory_offset plan ..< pp_security_directory_offset plan + 8}"
      "i \<notin> {pp_new_section_header_offset plan ..< pp_new_section_header_offset plan + 40}"
  shows "patched ! i = prefix ! i"
proof -
  let ?fh = "pl_file_header_offset l" and ?oh = "pl_optional_header_offset l"
  have room: "?fh + 20 \<le> length prefix" "?oh + 96 \<le> length prefix"
    using assms(1) by (auto simp: pe_patch_headers_def Let_def IMAGE_FILE_HEADER_LEN_def
        optional_fixed_size_def split: if_splits pe_kind.splits)
  have patched: "patched = write_at (write_at (write_at (write_at (write_at (write_at prefix
      (?fh + 2) (le_bytes 2 (pp_section_count plan)))
      (?oh + 8) (le_bytes 4 (pp_size_of_initialized_data plan)))
      (?oh + 56) (le_bytes 4 (pp_size_of_image plan))) (?oh + 64) (le_bytes 4 0))
      (pp_security_directory_offset plan) (replicate 8 0))
      (pp_new_section_header_offset plan) (pe_anchor_section_header plan)"
    using assms(1) by (simp add: pe_patch_headers_def Let_def del: le_bytes.simps split: if_splits)
  let ?P = "\<lambda>f. length f = length prefix \<and> f ! i = prefix ! i"
  have step: "?P (write_at f off bs)"
    if "?P f" "off + length bs \<le> length prefix" "i \<notin> {off ..< off + length bs}" for f off bs
    using that nth_write_at_outside [of off bs f i] by auto
  have "?P patched"
    unfolding patched
    by (intro step) (use room assms(2-9) in \<open>auto simp: length_pe_anchor_section_header simp del: le_bytes.simps\<close>)
  then show ?thesis by simp
qed



section \<open>The certificate table\<close>

text \<open>The entries a table is made of: each is a length of at least 8, padded to 8 bytes.\<close>

fun certificate_entries_at :: "bytes \<Rightarrow> nat \<Rightarrow> nat list \<Rightarrow> bool" where
  "certificate_entries_at f off [] = True"
| "certificate_entries_at f off (n # ns) =
     (off + 8 \<le> length f \<and> n = le_nat (bytes_at f off 4) \<and> 8 \<le> n \<and>
      certificate_entries_at f (off + (n + 7) div 8 * 8) ns)"

lemma certificate_entries_Inr:
  "certificate_entries f c cursor k = Inr () \<Longrightarrow> cursor \<le> pc_size c \<Longrightarrow>
   \<exists>ns. k + length ns \<le> max k MAX_PE_CERTIFICATE_ENTRIES \<and> certificate_entries_at f (pc_offset c + cursor) ns \<and>
        cursor + (\<Sum>n\<leftarrow>ns. (n + 7) div 8 * 8) = pc_size c"
proof (induction f c cursor k rule: certificate_entries.induct)
  case (1 f c cursor k)
  show ?case
  proof (cases "pc_size c \<le> cursor")
    case True
    with 1(3) show ?thesis by (intro exI [of _ "[]"]) simp
  next
    case False
    let ?h = "bytes_at f (pc_offset c + cursor) 8"
    let ?n = "le_nat (take 4 ?h)"
    let ?a = "(?n + 7) div 8 * 8"
    from 1(2) False have step: "\<not> pc_size c - cursor < 8" "k + 1 \<le> MAX_PE_CERTIFICATE_ENTRIES"
      "length ?h = 8" "8 \<le> ?n" "align_up ?n PE_CERTIFICATE_ALIGNMENT = Inr ?a"
      "checked_add cursor ?a = Some (cursor + ?a)" "cursor + ?a \<le> pc_size c"
      "certificate_entries f c (cursor + ?a) (k + 1) = Inr ()"
      by (subst (asm) certificate_entries.simps;
          auto simp: Let_def rbind_eq_Inr ok_or_eq_Inr read_exact_at_eq_Inr if_error_eq_Inr
            checked_add_eq_Some align_up_eq_Inr not_less)+
    have "\<exists>ns. k + 1 + length ns \<le> max (k + 1) MAX_PE_CERTIFICATE_ENTRIES \<and>
        certificate_entries_at f (pc_offset c + (cursor + ?a)) ns \<and>
        cursor + ?a + (\<Sum>n\<leftarrow>ns. (n + 7) div 8 * 8) = pc_size c"
      by (rule "1.IH" [of ?h ?n ?a "cursor + ?a"]) (use step False in \<open>simp_all add: read_exact_at_def\<close>)
    then obtain ns where ns: "k + 1 + length ns \<le> max (k + 1) MAX_PE_CERTIFICATE_ENTRIES"
      "certificate_entries_at f (pc_offset c + (cursor + ?a)) ns"
      "cursor + ?a + (\<Sum>n\<leftarrow>ns. (n + 7) div 8 * 8) = pc_size c" by blast
    have "take 4 ?h = bytes_at f (pc_offset c + cursor) 4" by (simp add: bytes_at_def)
    moreover have "pc_offset c + cursor + 8 \<le> length f" using step(3) by simp
    ultimately show ?thesis
      using ns step(2,4) by (intro exI [of _ "?n # ns"]) (simp add: add.assoc)
  qed
qed

text \<open>
  C9. An accepted certificate table of a signed executable is exactly covered by its
  entries: at most 1024 of them, each at least as long as its own header, each padded to
  8 bytes, read one after another from the start of the table to its last byte. The walk
  terminates for every input, well formed or not.
\<close>

theorem pe_certificate_table_covered:
  assumes "validate_pe_certificate_table f c = Inr ()"
  shows "\<exists>ns. length ns \<le> MAX_PE_CERTIFICATE_ENTRIES \<and> certificate_entries_at f (pc_offset c) ns \<and>
     (\<Sum>n\<leftarrow>ns. (n + 7) div 8 * 8) = pc_size c"
  using certificate_entries_Inr [of f c 0 0] assms
  by (auto simp: validate_pe_certificate_table_def)

theorem pe_certificate_table_covered_witness:
  "\<exists>ns. length ns \<le> MAX_PE_CERTIFICATE_ENTRIES \<and>
     certificate_entries_at (le_bytes 4 9 @ replicate 12 0) 0 ns \<and> (\<Sum>n\<leftarrow>ns. (n + 7) div 8 * 8) = 16"
proof -
  have "validate_pe_certificate_table (le_bytes 4 9 @ replicate 12 0) \<lparr>pc_offset = 0, pc_size = 16\<rparr> = Inr ()"
    by (simp add: validate_pe_certificate_table_def certificate_entries.simps MAX_PE_CERTIFICATE_ENTRIES_def
        read_exact_at_def bytes_at_def le_nat_le_bytes Let_def align_up_def checked_add_def del: le_bytes.simps)
  from pe_certificate_table_covered [OF this] show ?thesis by simp
qed

end
