(* ===== verification/Macho_Image.thy ===== *)
theory Macho_Image
  imports Runtime_Content
begin

unbundle bit_operations_syntax

text \<open>
  The Mach-O half of \<open>src/runtime_data.rs\<close>: the pass over the load commands with all its
  refusals (\<open>read_macho_layout\<close>), the final-layout check, and \<open>write_macho_runtime_data\<close>,
  which drops an existing signature command, appends the runtime data behind \<open>__LINKEDIT\<close>
  and lets that segment grow over it. \<open>macho_ext\<close> takes the header and the load commands
  from the \<open>object\<close> crate: the fields the source reads, each with the error the crate may
  return in its place. Sizes and field offsets are those of the Mach-O format.
\<close>

section \<open>Load commands\<close>

record macho_header =
  mh_little_endian :: bool
  mh_filetype :: nat
  mh_flags :: "32 word"
  mh_cputype :: nat
  mh_cpusubtype :: nat
  mh_ncmds :: nat
  mh_sizeofcmds :: nat

record macho_section =
  ms_segname_matches :: bool
  ms_sectname :: bytes
  ms_addr :: nat
  ms_size :: nat
  ms_file_range :: "(nat \<times> nat) option"
  ms_reloff :: nat
  ms_nreloc :: nat
  ms_type :: nat
  ms_reserved :: "nat \<times> nat \<times> nat"

record macho_segment =
  sg_name :: bytes
  sg_vmaddr :: nat
  sg_vmsize :: nat
  sg_fileoff :: nat
  sg_filesize :: nat
  sg_maxprot :: "32 word"
  sg_initprot :: "32 word"
  sg_nsects :: nat
  sg_sections :: "macho_section result list result"

text \<open>The commands the source tells apart; \<open>Symtab\<close> is symbols then strings, \<open>Dysymtab\<close> the six tables.\<close>

datatype macho_command_kind =
    Segment64 "macho_segment result"
  | Build_Version "(nat \<times> nat) result"
  | Version_Min_Macosx "unit result"
  | Version_Min_Other
  | Main "(nat \<times> nat) result"
  | Thread
  | Dyld_Info "(nat \<times> nat) list result"
  | Symtab "((nat \<times> nat) \<times> (nat \<times> nat)) result"
  | Dysymtab "(nat \<times> nat) list result"
  | Linkedit_Data "(nat \<times> nat) result"
  | Load_Dylinker "string result"
  | Load_Dylib "string result"
  | Uuid "unit result"
  | Source_Version "unit result"
  | Code_Signature "(nat \<times> nat) result"
  | Unsupported_Command nat

record macho_command =
  mc_raw_len :: nat
  mc_kind :: macho_command_kind

record macho_ext =
  parse_macho_header :: "bytes \<Rightarrow> macho_header result"
  parse_load_commands :: "bytes \<Rightarrow> macho_command result list result"

definition MACHO_HEADER_LEN :: nat where
  "MACHO_HEADER_LEN = 32"

definition MACHO_CODE_SIGNATURE_LEN :: nat where
  "MACHO_CODE_SIGNATURE_LEN = 16"

definition MACHO_SIGNATURE_ALIGNMENT :: nat where
  "MACHO_SIGNATURE_ALIGNMENT = 16"

definition MAX_MACHO_LOAD_COMMAND_BYTES :: nat where
  "MAX_MACHO_LOAD_COMMAND_BYTES = 1024 * 1024"

definition MACHO_READER_CAPABILITY_SECTION_NAME :: bytes where
  "MACHO_READER_CAPABILITY_SECTION_NAME = map of_char ''__cship_reader'' @ [0, 0]"

definition MH_EXECUTE :: nat where "MH_EXECUTE = 2"

definition MH_DYLDLINK_PIE :: "32 word" where "MH_DYLDLINK_PIE = 0x4 OR 0x200000"

definition MH_ALLOW_STACK_EXECUTION :: "32 word" where "MH_ALLOW_STACK_EXECUTION = 0x20000"

definition CPU_TYPE_X86_64 :: nat where "CPU_TYPE_X86_64 = 0x01000007"

definition CPU_TYPE_ARM64 :: nat where "CPU_TYPE_ARM64 = 0x0100000c"

definition CPU_SUBTYPE_X86_64_ALL :: nat where "CPU_SUBTYPE_X86_64_ALL = 3"

definition CPU_SUBTYPE_ARM64_ALL :: nat where "CPU_SUBTYPE_ARM64_ALL = 0"

definition VM_PROT_READ :: "32 word" where "VM_PROT_READ = 1"

definition VM_PROT_WRITE :: "32 word" where "VM_PROT_WRITE = 2"

definition VM_PROT_EXECUTE :: "32 word" where "VM_PROT_EXECUTE = 4"

text \<open>The \<open>contains\<close> of a flag set.\<close>

definition flags_contain :: "32 word \<Rightarrow> 32 word \<Rightarrow> bool" where
  "flags_contain s t = (s AND t = t)"

definition validate_macho_platform :: "nat \<Rightarrow> nat \<Rightarrow> string \<Rightarrow> unit result" where
  "validate_macho_platform cpu_type cpu_subtype platform =
     (if platform = '''' then Inr ()
      else if platform = ''osx-64'' \<or> platform = ''osx-arm64'' then
        let (expected_type, expected_subtype) =
              (if platform = ''osx-64'' then (CPU_TYPE_X86_64, CPU_SUBTYPE_X86_64_ALL)
               else (CPU_TYPE_ARM64, CPU_SUBTYPE_ARM64_ALL)) in
        if cpu_type \<noteq> expected_type \<or> cpu_subtype \<noteq> expected_subtype
        then Inl (Invalid ''Mach-O runtime template CPU type does not match platform'')
        else Inr ()
      else Inl (Invalid ''Mach-O runtime template does not match platform''))"

section \<open>The pass over the load commands\<close>

text \<open>The mutable variables of the loop.\<close>

record macho_scan =
  mo_command_offset :: nat
  mo_first_section_offset :: "nat option"
  mo_linkedit_command_offset :: "nat option"
  mo_linkedit_vmaddr :: nat
  mo_linkedit_fileoff :: nat
  mo_linkedit_filesize :: nat
  mo_max_segment_vmaddr :: nat
  mo_max_segment_fileoff :: nat
  mo_code_signature :: "(nat \<times> nat \<times> nat) option"
  mo_segment_ranges :: "(nat \<times> nat) list"
  mo_virtual_ranges :: "(nat \<times> nat) list"
  mo_referenced_ranges :: "(nat \<times> nat) list"
  mo_executable_section_ranges :: "(nat \<times> nat) list"
  mo_has_macos_platform_command :: bool
  mo_entry_point :: "nat option"
  mo_reader_capability :: "(nat \<times> nat) option"
  mo_text_segment_count :: nat
  mo_dylinker_count :: nat

definition macho_counted_range :: "nat \<Rightarrow> nat \<Rightarrow> nat \<Rightarrow> (nat \<times> nat) option result" where
  "macho_counted_range offset count entry_size =
     (if count = 0 then Inr None
      else rbind (ok_or ''Mach-O table size overflow'' (checked_mul count entry_size)) (\<lambda>size.
           Inr (Some (offset, size))))"

definition add_macho_counted_range ::
    "nat \<Rightarrow> nat \<Rightarrow> nat \<Rightarrow> macho_scan \<Rightarrow> macho_scan result" where
  "add_macho_counted_range offset count entry_size sc =
     rbind (macho_counted_range offset count entry_size) (\<lambda>r.
       Inr (case r of None \<Rightarrow> sc
            | Some entry \<Rightarrow> sc\<lparr>mo_referenced_ranges := mo_referenced_ranges sc @ [entry]\<rparr>))"

definition add_macho_byte_range :: "nat \<Rightarrow> nat \<Rightarrow> macho_scan \<Rightarrow> macho_scan" where
  "add_macho_byte_range offset len sc =
     (if len = 0 then sc
      else sc\<lparr>mo_referenced_ranges := mo_referenced_ranges sc @ [(offset, len)]\<rparr>)"

definition require_macho_command_size :: "nat \<Rightarrow> nat \<Rightarrow> unit result" where
  "require_macho_command_size raw_len expected =
     (if raw_len \<noteq> expected then Inl (Invalid ''Mach-O load command has an invalid size'') else Inr ())"

text \<open>One section of a segment: the values of its segment that the loop body uses are passed in.\<close>

record segment_context =
  cx_segment :: macho_segment
  cx_vm_end :: nat
  cx_segment_end :: nat
  cx_is_linkedit :: bool
  cx_is_text :: bool
  cx_file_len :: nat

definition scan_macho_section_file ::
    "segment_context \<Rightarrow> macho_section \<Rightarrow> macho_scan \<Rightarrow> macho_scan result" where
  "scan_macho_section_file cx section sc =
     (case ms_file_range section of
        None \<Rightarrow> Inr sc
      | Some (offset, len) \<Rightarrow>
          rbind (ok_or ''Mach-O section file range overflow'' (checked_add offset len)) (\<lambda>section_end.
          if section_end > cx_file_len cx
             \<or> (len \<noteq> 0 \<and> (offset < sg_fileoff (cx_segment cx) \<or> section_end > cx_segment_end cx))
          then Inl (Invalid ''Mach-O section extends outside its file segment'')
          else
            let sc1 = (if offset \<noteq> 0 then sc\<lparr>mo_first_section_offset :=
                          Some (case mo_first_section_offset sc of None \<Rightarrow> offset
                                | Some first \<Rightarrow> min first offset)\<rparr> else sc);
                sc2 = (if cx_is_linkedit cx then add_macho_byte_range offset len sc1 else sc1);
                sc3 = (if flags_contain (sg_initprot (cx_segment cx)) VM_PROT_EXECUTE
                       then sc2\<lparr>mo_executable_section_ranges :=
                              mo_executable_section_ranges sc2 @ [(offset, section_end)]\<rparr>
                       else sc2) in
            Inr sc3))"

definition scan_reader_capability ::
    "segment_context \<Rightarrow> macho_section \<Rightarrow> macho_scan \<Rightarrow> macho_scan result" where
  "scan_reader_capability cx section sc =
     (if ms_sectname section \<noteq> MACHO_READER_CAPABILITY_SECTION_NAME then Inr sc
      else if mo_reader_capability sc \<noteq> None
      then Inl (Invalid ''Mach-O binary has multiple reader capability sections'')
      else if \<not> cx_is_text cx \<or> ms_size section \<noteq> 48 \<or> ms_type section \<noteq> 0
              \<or> ms_nreloc section \<noteq> 0 \<or> ms_reserved section \<noteq> (0, 0, 0)
      then Inl (Invalid ''Mach-O reader capability section has an invalid layout'')
      else rbind (ok_or ''Mach-O reader capability section has no file data'' (ms_file_range section))
             (\<lambda>location. Inr (sc\<lparr>mo_reader_capability := Some location\<rparr>)))"

definition scan_macho_section ::
    "segment_context \<Rightarrow> macho_section \<Rightarrow> macho_scan \<Rightarrow> macho_scan result" where
  "scan_macho_section cx section sc =
     (if \<not> ms_segname_matches section
      then Inl (Invalid ''Mach-O section segment name does not match its segment'')
      else
        rbind (ok_or ''Mach-O section virtual range overflow''
                 (checked_add (ms_addr section) (ms_size section))) (\<lambda>section_virtual_end.
        if ms_size section \<noteq> 0 \<and>
           (ms_addr section < sg_vmaddr (cx_segment cx) \<or> section_virtual_end > cx_vm_end cx)
        then Inl (Invalid ''Mach-O section extends outside its virtual segment'')
        else
          rbind (scan_macho_section_file cx section sc) (\<lambda>sc.
          rbind (add_macho_counted_range (ms_reloff section) (ms_nreloc section) 8 sc) (\<lambda>sc.
          scan_reader_capability cx section sc))))"

fun scan_macho_sections ::
    "segment_context \<Rightarrow> macho_section result list \<Rightarrow> macho_scan \<Rightarrow> macho_scan result" where
  "scan_macho_sections cx [] sc = Inr sc"
| "scan_macho_sections cx (s # rest) sc =
     rbind s (\<lambda>section. rbind (scan_macho_section cx section sc) (\<lambda>sc. scan_macho_sections cx rest sc))"

text \<open>A segment: its protections and ranges, the rules for \<open>__TEXT\<close> and \<open>__LINKEDIT\<close>, its sections.\<close>

definition segment_protections_ok :: "macho_segment \<Rightarrow> unit result" where
  "segment_protections_ok segment =
     (if \<not> flags_contain (sg_maxprot segment) (sg_initprot segment)
      then Inl (Invalid ''Mach-O segment initial protections exceed maximum protections'')
      else if flags_contain (sg_initprot segment OR sg_maxprot segment) (VM_PROT_WRITE OR VM_PROT_EXECUTE)
      then Inl (Invalid ''Mach-O segment permits writable executable memory'')
      else Inr ())"

definition is_linkedit_segment :: "macho_segment \<Rightarrow> bool" where
  "is_linkedit_segment segment = (sg_name segment = map of_char ''__LINKEDIT'')"

definition is_text_segment :: "macho_segment \<Rightarrow> bool" where
  "is_text_segment segment = (sg_name segment = map of_char ''__TEXT'')"

definition scan_text_segment :: "nat \<Rightarrow> macho_segment \<Rightarrow> nat \<Rightarrow> macho_scan \<Rightarrow> macho_scan result" where
  "scan_text_segment command_end segment segment_end sc =
     (if \<not> is_text_segment segment then Inr sc
      else if mo_text_segment_count sc + 1 \<ge> 256
      then Inl (Invalid ''Mach-O __TEXT segment count overflow'')
      else if sg_fileoff segment \<noteq> 0
              \<or> \<not> flags_contain (sg_initprot segment) (VM_PROT_READ OR VM_PROT_EXECUTE)
              \<or> flags_contain (sg_initprot segment) VM_PROT_WRITE
              \<or> segment_end < command_end
      then Inl (Invalid ''Mach-O __TEXT segment has an invalid executable mapping'')
      else Inr (sc\<lparr>mo_text_segment_count := mo_text_segment_count sc + 1\<rparr>))"

definition linkedit_segment_ok :: "macho_segment \<Rightarrow> unit result" where
  "linkedit_segment_ok segment =
     (if is_linkedit_segment segment \<and>
         (sg_initprot segment \<noteq> VM_PROT_READ \<or> sg_maxprot segment \<noteq> VM_PROT_READ \<or> sg_nsects segment \<noteq> 0)
      then Inl (Invalid ''Mach-O __LINKEDIT segment must be read-only and section-free'') else Inr ())"

definition note_segment_start :: "macho_segment \<Rightarrow> macho_scan \<Rightarrow> macho_scan" where
  "note_segment_start segment sc =
     sc\<lparr>mo_max_segment_vmaddr := max (mo_max_segment_vmaddr sc) (sg_vmaddr segment),
        mo_max_segment_fileoff := max (mo_max_segment_fileoff sc) (sg_fileoff segment)\<rparr>"

definition record_linkedit :: "macho_segment \<Rightarrow> macho_scan \<Rightarrow> macho_scan result" where
  "record_linkedit segment sc =
     (if \<not> is_linkedit_segment segment then Inr sc
      else if mo_linkedit_command_offset sc \<noteq> None
      then Inl (Invalid ''Mach-O binary has multiple __LINKEDIT segments'')
      else Inr (sc\<lparr>mo_linkedit_command_offset := Some (mo_command_offset sc),
                   mo_linkedit_vmaddr := sg_vmaddr segment,
                   mo_linkedit_fileoff := sg_fileoff segment,
                   mo_linkedit_filesize := sg_filesize segment\<rparr>))"

definition scan_segment_size :: "nat \<Rightarrow> macho_segment \<Rightarrow> unit result" where
  "scan_segment_size raw_len segment =
     rbind (ok_or ''Mach-O section table size overflow'' (checked_mul (sg_nsects segment) 80)) (\<lambda>table_size.
     rbind (ok_or ''Mach-O segment command size overflow'' (checked_add 72 table_size)) (\<lambda>expected_command_size.
     require_macho_command_size raw_len expected_command_size))"

definition scan_segment_ranges :: "nat \<Rightarrow> macho_segment \<Rightarrow> macho_scan \<Rightarrow> (nat \<times> nat \<times> macho_scan) result" where
  "scan_segment_ranges file_len segment sc =
     rbind (ok_or ''Mach-O segment virtual range overflow''
              (checked_add (sg_vmaddr segment) (sg_vmsize segment))) (\<lambda>vm_end.
     rbind (segment_protections_ok segment) (\<lambda>_.
     if sg_filesize segment > sg_vmsize segment
     then Inl (Invalid ''Mach-O segment file size exceeds its virtual size'')
     else
       rbind (ok_or ''Mach-O segment file range overflow''
                (checked_add (sg_fileoff segment) (sg_filesize segment))) (\<lambda>segment_end.
       if segment_end > file_len then Inl (Invalid ''Mach-O segment extends past end of file'')
       else
         let sc1 = (if sg_vmsize segment = 0 then sc
                    else sc\<lparr>mo_virtual_ranges := mo_virtual_ranges sc @ [(sg_vmaddr segment, vm_end)]\<rparr>);
             sc2 = (if sg_filesize segment = 0 then sc1
                    else sc1\<lparr>mo_segment_ranges := mo_segment_ranges sc1 @ [(sg_fileoff segment, segment_end)]\<rparr>) in
         Inr (vm_end, segment_end, sc2))))"

definition scan_segment :: "nat \<Rightarrow> nat \<Rightarrow> nat \<Rightarrow> macho_segment \<Rightarrow> macho_scan \<Rightarrow> macho_scan result" where
  "scan_segment file_len command_end raw_len segment sc =
     rbind (scan_segment_size raw_len segment) (\<lambda>_.
     rbind (scan_segment_ranges file_len segment sc) (\<lambda>(vm_end, segment_end, sc2).
     rbind (scan_text_segment command_end segment segment_end sc2) (\<lambda>sc3.
     rbind (linkedit_segment_ok segment) (\<lambda>_.
     rbind (sg_sections segment) (\<lambda>sections.
     rbind (scan_macho_sections
              \<lparr>cx_segment = segment, cx_vm_end = vm_end, cx_segment_end = segment_end,
               cx_is_linkedit = is_linkedit_segment segment, cx_is_text = is_text_segment segment,
               cx_file_len = file_len\<rparr>
              sections sc3) (\<lambda>sc4.
     record_linkedit segment (note_segment_start segment sc4)))))))"

text \<open>The commands other than segments.\<close>

definition scan_build_version :: "nat \<Rightarrow> (nat \<times> nat) result \<Rightarrow> macho_scan \<Rightarrow> macho_scan result" where
  "scan_build_version raw_len version sc =
     (if mo_has_macos_platform_command sc
      then Inl (Invalid ''Mach-O runtime template has multiple target platform commands'')
      else
        rbind version (\<lambda>(ntools, platform).
        rbind (ok_or ''Mach-O build tool size overflow'' (checked_mul ntools 8)) (\<lambda>tools_size.
        rbind (ok_or ''Mach-O build version size overflow'' (checked_add 24 tools_size)) (\<lambda>expected_size.
        rbind (require_macho_command_size raw_len expected_size) (\<lambda>_.
        if platform \<noteq> 1 then Inl (Invalid ''Mach-O runtime template targets unsupported platform'')
        else Inr (sc\<lparr>mo_has_macos_platform_command := True\<rparr>))))))"

definition scan_version_min :: "nat \<Rightarrow> unit result \<Rightarrow> macho_scan \<Rightarrow> macho_scan result" where
  "scan_version_min raw_len version sc =
     (if mo_has_macos_platform_command sc
      then Inl (Invalid ''Mach-O runtime template has multiple target platform commands'')
      else rbind version (\<lambda>_. rbind (require_macho_command_size raw_len 16) (\<lambda>_.
           Inr (sc\<lparr>mo_has_macos_platform_command := True\<rparr>))))"

definition scan_main :: "nat \<Rightarrow> (nat \<times> nat) result \<Rightarrow> macho_scan \<Rightarrow> macho_scan result" where
  "scan_main raw_len entry sc =
     (if mo_entry_point sc \<noteq> None
      then Inl (Invalid ''Mach-O runtime template has multiple entry points'')
      else rbind entry (\<lambda>(entryoff, stacksize).
           rbind (require_macho_command_size raw_len 24) (\<lambda>_.
           if stacksize \<noteq> 0
           then Inl (Invalid ''Mach-O runtime template requests a custom main stack size'')
           else Inr (sc\<lparr>mo_entry_point := Some entryoff\<rparr>))))"

definition scan_dyld_info :: "nat \<Rightarrow> (nat \<times> nat) list result \<Rightarrow> macho_scan \<Rightarrow> macho_scan result" where
  "scan_dyld_info raw_len info sc =
     rbind info (\<lambda>ranges. rbind (require_macho_command_size raw_len 48) (\<lambda>_.
     Inr (fold (\<lambda>(offset, len). add_macho_byte_range offset len) ranges sc)))"

definition scan_symtab ::
    "nat \<Rightarrow> ((nat \<times> nat) \<times> (nat \<times> nat)) result \<Rightarrow> macho_scan \<Rightarrow> macho_scan result" where
  "scan_symtab raw_len info sc =
     rbind info (\<lambda>((symoff, nsyms), (stroff, strsize)).
     rbind (require_macho_command_size raw_len 24) (\<lambda>_.
     rbind (add_macho_counted_range symoff nsyms 16 sc) (\<lambda>sc.
     Inr (add_macho_byte_range stroff strsize sc))))"

text \<open>The six tables of \<open>LC_DYSYMTAB\<close>, in the order of the source, with their entry sizes.\<close>

definition dysymtab_entry_sizes :: "nat list" where
  "dysymtab_entry_sizes = [8, 56, 4, 4, 8, 8]"

fun add_counted_ranges ::
    "((nat \<times> nat) \<times> nat) list \<Rightarrow> macho_scan \<Rightarrow> macho_scan result" where
  "add_counted_ranges [] sc = Inr sc"
| "add_counted_ranges (((offset, count), entry_size) # rest) sc =
     rbind (add_macho_counted_range offset count entry_size sc) (\<lambda>sc. add_counted_ranges rest sc)"

definition scan_dysymtab :: "nat \<Rightarrow> (nat \<times> nat) list result \<Rightarrow> macho_scan \<Rightarrow> macho_scan result" where
  "scan_dysymtab raw_len info sc =
     rbind info (\<lambda>tables. rbind (require_macho_command_size raw_len 80) (\<lambda>_.
     add_counted_ranges (zip tables dysymtab_entry_sizes) sc))"

definition scan_linkedit_data :: "nat \<Rightarrow> (nat \<times> nat) result \<Rightarrow> macho_scan \<Rightarrow> macho_scan result" where
  "scan_linkedit_data raw_len info sc =
     rbind info (\<lambda>(dataoff, datasize).
     rbind (require_macho_command_size raw_len MACHO_CODE_SIGNATURE_LEN) (\<lambda>_.
     Inr (add_macho_byte_range dataoff datasize sc)))"

definition scan_dylinker :: "string result \<Rightarrow> macho_scan \<Rightarrow> macho_scan result" where
  "scan_dylinker name sc =
     rbind name (\<lambda>path.
     if path \<noteq> ''/usr/lib/dyld''
     then Inl (Invalid ''Mach-O runtime template uses an unsupported dynamic linker'')
     else if mo_dylinker_count sc + 1 \<ge> 256
     then Inl (Invalid ''Mach-O dynamic linker count overflow'')
     else Inr (sc\<lparr>mo_dylinker_count := mo_dylinker_count sc + 1\<rparr>))"

definition scan_code_signature :: "nat \<Rightarrow> (nat \<times> nat) result \<Rightarrow> macho_scan \<Rightarrow> macho_scan result" where
  "scan_code_signature raw_len signature sc =
     (if raw_len \<noteq> MACHO_CODE_SIGNATURE_LEN
      then Inl (Invalid ''Mach-O code signature command has an invalid size'')
      else if mo_code_signature sc \<noteq> None
      then Inl (Invalid ''Mach-O binary has multiple code signatures'')
      else rbind signature (\<lambda>(dataoff, datasize).
           Inr (sc\<lparr>mo_code_signature := Some (mo_command_offset sc, dataoff, datasize)\<rparr>)))"

definition scan_command_kind ::
    "nat \<Rightarrow> nat \<Rightarrow> nat \<Rightarrow> macho_command_kind \<Rightarrow> macho_scan \<Rightarrow> macho_scan result" where
  "scan_command_kind file_len command_end raw_len kind sc =
     (case kind of
        Segment64 s \<Rightarrow> rbind s (\<lambda>segment. scan_segment file_len command_end raw_len segment sc)
      | Build_Version v \<Rightarrow> scan_build_version raw_len v sc
      | Version_Min_Macosx v \<Rightarrow> scan_version_min raw_len v sc
      | Version_Min_Other \<Rightarrow> Inl (Invalid ''Mach-O runtime template does not target macOS'')
      | Main entry \<Rightarrow> scan_main raw_len entry sc
      | Thread \<Rightarrow> Inl (Invalid ''legacy Mach-O thread entry points are not supported'')
      | Dyld_Info info \<Rightarrow> scan_dyld_info raw_len info sc
      | Symtab info \<Rightarrow> scan_symtab raw_len info sc
      | Dysymtab info \<Rightarrow> scan_dysymtab raw_len info sc
      | Linkedit_Data info \<Rightarrow> scan_linkedit_data raw_len info sc
      | Load_Dylinker name \<Rightarrow> scan_dylinker name sc
      | Load_Dylib name \<Rightarrow> rbind name (\<lambda>path.
          if path = [] then Inl (Invalid ''Mach-O dylib command has an empty path'') else Inr sc)
      | Uuid d \<Rightarrow> rbind d (\<lambda>_. rbind (require_macho_command_size raw_len 24) (\<lambda>_. Inr sc))
      | Source_Version d \<Rightarrow> rbind d (\<lambda>_. rbind (require_macho_command_size raw_len 16) (\<lambda>_. Inr sc))
      | Code_Signature s \<Rightarrow> scan_code_signature raw_len s sc
      | Unsupported_Command _ \<Rightarrow> Inl (Invalid ''unsupported Mach-O load command''))"

fun scan_commands ::
    "nat \<Rightarrow> nat \<Rightarrow> macho_command result list \<Rightarrow> macho_scan \<Rightarrow> macho_scan result" where
  "scan_commands file_len command_end [] sc = Inr sc"
| "scan_commands file_len command_end (c # rest) sc =
     rbind c (\<lambda>command.
     if mc_raw_len command mod 8 \<noteq> 0 then Inl (Invalid ''Mach-O load command has an invalid size'')
     else
       rbind (ok_or ''Mach-O load command offset overflow''
                (checked_add (mo_command_offset sc) (mc_raw_len command))) (\<lambda>next_command_offset.
       rbind (scan_command_kind file_len command_end (mc_raw_len command) (mc_kind command) sc) (\<lambda>sc.
       scan_commands file_len command_end rest (sc\<lparr>mo_command_offset := next_command_offset\<rparr>))))"

definition macho_scan_start :: macho_scan where
  "macho_scan_start =
     \<lparr>mo_command_offset = MACHO_HEADER_LEN, mo_first_section_offset = None,
      mo_linkedit_command_offset = None, mo_linkedit_vmaddr = 0, mo_linkedit_fileoff = 0,
      mo_linkedit_filesize = 0, mo_max_segment_vmaddr = 0, mo_max_segment_fileoff = 0,
      mo_code_signature = None, mo_segment_ranges = [], mo_virtual_ranges = [],
      mo_referenced_ranges = [], mo_executable_section_ranges = [],
      mo_has_macos_platform_command = False, mo_entry_point = None, mo_reader_capability = None,
      mo_text_segment_count = 0, mo_dylinker_count = 0\<rparr>"

section \<open>The image layout\<close>

record macho_layout =
  ml_prefix :: bytes
  ml_cpu_type :: nat
  ml_cpu_subtype :: nat
  ml_ncmds :: nat
  ml_sizeofcmds :: nat
  ml_first_section_offset :: "nat option"
  ml_linkedit_command_offset :: nat
  ml_linkedit_vmaddr :: nat
  ml_linkedit_fileoff :: nat
  ml_linkedit_filesize :: nat
  ml_max_segment_vmaddr :: nat
  ml_max_segment_fileoff :: nat
  ml_max_non_signature_data_end :: nat
  ml_code_signature :: "(nat \<times> nat \<times> nat) option"
  ml_reader_capability :: "(nat \<times> nat) option"

definition macho_expected_subtype :: "nat \<Rightarrow> nat \<Rightarrow> nat" where
  "macho_expected_subtype cpu_type cpu_subtype =
     (if cpu_type = CPU_TYPE_X86_64 then CPU_SUBTYPE_X86_64_ALL
      else if cpu_type = CPU_TYPE_ARM64 then CPU_SUBTYPE_ARM64_ALL else cpu_subtype)"

definition macho_header_checks :: "macho_header \<Rightarrow> nat \<Rightarrow> nat result" where
  "macho_header_checks header file_len =
     (if \<not> mh_little_endian header then Inl (Invalid ''big-endian Mach-O binaries are not supported'')
      else if mh_filetype header \<noteq> MH_EXECUTE
      then Inl (Invalid ''Mach-O runtime template is not an executable image'')
      else if \<not> flags_contain (mh_flags header) MH_DYLDLINK_PIE
              \<or> flags_contain (mh_flags header) MH_ALLOW_STACK_EXECUTION
      then Inl (Invalid ''Mach-O runtime template has unsupported executable flags'')
      else if mh_cpusubtype header \<noteq> macho_expected_subtype (mh_cputype header) (mh_cpusubtype header)
      then Inl (Invalid ''unsupported Mach-O CPU subtype'')
      else if mh_sizeofcmds header > MAX_MACHO_LOAD_COMMAND_BYTES
      then Inl (Invalid ''Mach-O load command table is too large'')
      else if mh_ncmds header > mh_sizeofcmds header div 8
      then Inl (Invalid ''Mach-O load command count exceeds its command table'')
      else
        rbind (ok_or ''Mach-O load command size overflow''
                 (checked_add MACHO_HEADER_LEN (mh_sizeofcmds header))) (\<lambda>command_end.
        if command_end > file_len then Inl (Invalid ''Mach-O load commands extend past end of file'')
        else Inr command_end))"

text \<open>The loop over \<open>referenced_ranges\<close>, which returns \<open>max_non_signature_data_end\<close>.\<close>

fun check_referenced_ranges ::
    "nat \<Rightarrow> nat \<Rightarrow> nat \<Rightarrow> (nat \<times> nat) list \<Rightarrow> nat \<Rightarrow> nat result" where
  "check_referenced_ranges file_len linkedit_fileoff linkedit_end [] max_end = Inr max_end"
| "check_referenced_ranges file_len linkedit_fileoff linkedit_end ((offset, len) # rest) max_end =
     rbind (ok_or ''Mach-O referenced file range overflow'' (checked_add offset len)) (\<lambda>end'.
     if end' > file_len then Inl (Invalid ''Mach-O load command references data past end of file'')
     else if offset < linkedit_fileoff \<or> end' > linkedit_end
     then Inl (Invalid ''Mach-O link-edit data extends outside __LINKEDIT'')
     else check_referenced_ranges file_len linkedit_fileoff linkedit_end rest (max max_end end'))"

text \<open>The checks after the loop over the commands.\<close>

definition macho_finish_scan :: "nat \<Rightarrow> nat \<Rightarrow> macho_scan \<Rightarrow> (nat \<times> nat) result" where
  "macho_finish_scan file_len command_end sc =
     (if mo_command_offset sc \<noteq> command_end
      then Inl (Invalid ''Mach-O load command size does not match header'')
      else if \<not> mo_has_macos_platform_command sc
      then Inl (Invalid ''Mach-O runtime template has no macOS target platform command'')
      else if mo_text_segment_count sc \<noteq> 1
      then Inl (Invalid ''Mach-O runtime template must have exactly one __TEXT segment'')
      else if mo_dylinker_count sc \<noteq> 1
      then Inl (Invalid ''Mach-O runtime template must load exactly one /usr/lib/dyld'')
      else
        rbind (ok_or ''Mach-O runtime template has no LC_MAIN entry point'' (mo_entry_point sc)) (\<lambda>entry_point.
        if \<not> list_ex (\<lambda>(start, end'). start \<le> entry_point \<and> entry_point < end') (mo_executable_section_ranges sc)
        then Inl (Invalid ''Mach-O LC_MAIN entry point is outside executable file data'')
        else if ranges_overlap (mo_segment_ranges sc) then Inl (Invalid ''Mach-O file segments overlap'')
        else if ranges_overlap (mo_virtual_ranges sc) then Inl (Invalid ''Mach-O virtual segments overlap'')
        else
          rbind (ok_or ''Mach-O binary has no __LINKEDIT segment'' (mo_linkedit_command_offset sc)) (\<lambda>linkedit_command_offset.
          rbind (ok_or ''Mach-O __LINKEDIT range overflow''
                   (checked_add (mo_linkedit_fileoff sc) (mo_linkedit_filesize sc))) (\<lambda>linkedit_end.
          rbind (check_referenced_ranges file_len (mo_linkedit_fileoff sc) linkedit_end
                   (mo_referenced_ranges sc) 0) (\<lambda>max_non_signature_data_end.
          if (case mo_first_section_offset sc of None \<Rightarrow> False
              | Some offset \<Rightarrow> offset < command_end \<or> offset > file_len)
          then Inl (Invalid ''Mach-O load commands overlap section data'')
          else Inr (linkedit_command_offset, max_non_signature_data_end))))))"

definition read_macho_layout :: "macho_ext \<Rightarrow> bytes \<Rightarrow> macho_layout result" where
  "read_macho_layout M f =
     (let file_len = length f in
      rbind (read_exact_at f 0 MACHO_HEADER_LEN) (\<lambda>header_bytes.
      rbind (parse_macho_header M header_bytes) (\<lambda>header.
      rbind (macho_header_checks header file_len) (\<lambda>command_end.
      rbind (read_exact_at f MACHO_HEADER_LEN (mh_sizeofcmds header)) (\<lambda>command_bytes.
      let prefix = header_bytes @ command_bytes in
      rbind (parse_load_commands M prefix) (\<lambda>commands.
      rbind (scan_commands file_len command_end commands macho_scan_start) (\<lambda>sc.
      rbind (macho_finish_scan file_len command_end sc)
        (\<lambda>(linkedit_command_offset, max_non_signature_data_end).
      Inr \<lparr>ml_prefix = prefix, ml_cpu_type = mh_cputype header, ml_cpu_subtype = mh_cpusubtype header,
           ml_ncmds = mh_ncmds header, ml_sizeofcmds = mh_sizeofcmds header,
           ml_first_section_offset = mo_first_section_offset sc,
           ml_linkedit_command_offset = linkedit_command_offset,
           ml_linkedit_vmaddr = mo_linkedit_vmaddr sc, ml_linkedit_fileoff = mo_linkedit_fileoff sc,
           ml_linkedit_filesize = mo_linkedit_filesize sc,
           ml_max_segment_vmaddr = mo_max_segment_vmaddr sc,
           ml_max_segment_fileoff = mo_max_segment_fileoff sc,
           ml_max_non_signature_data_end = max_non_signature_data_end,
           ml_code_signature = mo_code_signature sc,
           ml_reader_capability = mo_reader_capability sc\<rparr>))))))))"

definition validate_macho_signature_range :: "macho_layout \<Rightarrow> nat \<Rightarrow> nat \<times> nat \<Rightarrow> unit result" where
  "validate_macho_signature_range layout file_len signature =
     (let (offset, len) = signature in
      if len = 0 then Inl (Invalid ''Mach-O code signature is empty'')
      else rbind (ok_or ''Mach-O code signature range overflow'' (checked_add offset len)) (\<lambda>signature_end.
        if signature_end \<noteq> file_len
        then Inl (Invalid ''Mach-O code signature is not the final data in the file'')
        else if offset < ml_linkedit_fileoff layout
        then Inl (Invalid ''Mach-O code signature precedes __LINKEDIT'')
        else if offset < length (ml_prefix layout)
        then Inl (Invalid ''Mach-O code signature overlaps its load commands'')
        else if offset mod MACHO_SIGNATURE_ALIGNMENT \<noteq> 0
        then Inl (Invalid ''Mach-O code signature offset is not aligned'')
        else if offset < ml_max_non_signature_data_end layout
        then Inl (Invalid ''Mach-O code signature overlaps referenced file data'')
        else Inr ()))"

definition validate_macho_final_layout :: "macho_layout \<Rightarrow> nat \<Rightarrow> unit result" where
  "validate_macho_final_layout layout file_len =
     rbind (ok_or ''Mach-O __LINKEDIT range overflow''
              (checked_add (ml_linkedit_fileoff layout) (ml_linkedit_filesize layout))) (\<lambda>linkedit_end.
     if linkedit_end \<noteq> file_len
        \<or> ml_linkedit_fileoff layout \<noteq> ml_max_segment_fileoff layout
        \<or> ml_linkedit_vmaddr layout \<noteq> ml_max_segment_vmaddr layout
     then Inl (Invalid ''Mach-O __LINKEDIT segment is not the final file segment'')
     else if ml_linkedit_fileoff layout < length (ml_prefix layout)
     then Inl (Invalid ''Mach-O __LINKEDIT segment overlaps its load commands'')
     else case ml_code_signature layout of
       None \<Rightarrow> Inr ()
     | Some (_, offset, len) \<Rightarrow> validate_macho_signature_range layout file_len (offset, len))"

section \<open>Stamping and reading\<close>

text \<open>
  What the writer makes of the load commands: the prefix with an existing signature command
  cut out (the header counts change with it), or the check that one fits behind it; and the
  offset the payload must follow.
\<close>

definition drop_signature_command :: "macho_layout \<Rightarrow> nat \<Rightarrow> macho_layout result" where
  "drop_signature_command layout command_offset =
     (let prefix = ml_prefix layout in
      rbind (ok_or ''Mach-O load command offset overflow''
               (checked_add command_offset MACHO_CODE_SIGNATURE_LEN)) (\<lambda>command_end.
      rbind (ok_or ''Mach-O load command size underflow''
               (checked_sub (length prefix) MACHO_CODE_SIGNATURE_LEN)) (\<lambda>freed_start.
      rbind (ok_or ''Mach-O load command count underflow'' (checked_sub (ml_ncmds layout) 1)) (\<lambda>command_count.
      rbind (ok_or ''Mach-O load command size underflow''
               (checked_sub (ml_sizeofcmds layout) MACHO_CODE_SIGNATURE_LEN)) (\<lambda>commands_len.
      let moved = write_at prefix command_offset (drop command_end prefix);
          cleared = take freed_start moved @ replicate (length prefix - freed_start) 0 in
      Inr (layout\<lparr>ml_prefix := cleared,
                  ml_linkedit_command_offset :=
                    (if command_offset < ml_linkedit_command_offset layout
                     then ml_linkedit_command_offset layout - MACHO_CODE_SIGNATURE_LEN
                     else ml_linkedit_command_offset layout),
                  ml_ncmds := command_count, ml_sizeofcmds := commands_len\<rparr>))))))"

definition macho_payload_base :: "bytes \<Rightarrow> macho_layout \<Rightarrow> (macho_layout \<times> nat) result" where
  "macho_payload_base output layout =
     (case ml_code_signature layout of
        Some (command_offset, offset, _) \<Rightarrow>
          rbind (drop_signature_command layout command_offset) (\<lambda>layout'. Inr (layout', offset))
      | None \<Rightarrow>
          rbind (ok_or ''Mach-O load command size overflow''
                   (checked_add (length (ml_prefix layout)) MACHO_CODE_SIGNATURE_LEN)) (\<lambda>signed_commands_end.
          if (case ml_first_section_offset layout of None \<Rightarrow> True
              | Some offset \<Rightarrow> signed_commands_end > offset)
          then Inl (Invalid ''Mach-O header has no room for a code signature command'')
          else
            rbind (ensure_zero_file_range output (length (ml_prefix layout)) MACHO_CODE_SIGNATURE_LEN
                     ''Mach-O code signature command slot is not zero-filled'') (\<lambda>_.
            Inr (layout, length output))))"

record macho_plan =
  mp_payload_offset :: nat
  mp_payload_end :: nat
  mp_linkedit_filesize :: nat
  mp_linkedit_vmsize :: nat

definition macho_page_alignment :: "nat \<Rightarrow> nat result" where
  "macho_page_alignment cpu_type =
     (if cpu_type = CPU_TYPE_X86_64 then Inr (4 * 1024)
      else if cpu_type = CPU_TYPE_ARM64 then Inr (16 * 1024)
      else Inl (Invalid ''unsupported 64-bit Mach-O CPU type''))"

definition macho_stamp_plan :: "macho_layout \<Rightarrow> nat \<Rightarrow> nat \<Rightarrow> nat \<Rightarrow> macho_plan result" where
  "macho_stamp_plan layout payload_base payload_len page_alignment =
     rbind (align_up payload_base MACHO_SIGNATURE_ALIGNMENT) (\<lambda>payload_offset.
     rbind (ok_or ''Mach-O runtime data range overflow''
              (checked_add payload_offset payload_len)) (\<lambda>payload_end.
     rbind (align_up payload_end MACHO_SIGNATURE_ALIGNMENT) (\<lambda>signature_offset.
     if signature_offset > 2 ^ 32 - 1
     then Inl (Invalid ''Mach-O runtime data is too large for a code signature offset'')
     else
       rbind (ok_or ''Mach-O runtime data precedes __LINKEDIT''
                (checked_sub payload_end (ml_linkedit_fileoff layout))) (\<lambda>linkedit_filesize.
       rbind (align_up linkedit_filesize page_alignment) (\<lambda>linkedit_vmsize.
       Inr \<lparr>mp_payload_offset = payload_offset, mp_payload_end = payload_end,
            mp_linkedit_filesize = linkedit_filesize, mp_linkedit_vmsize = linkedit_vmsize\<rparr>)))))"

text \<open>
  \<open>vmsize\<close> and \<open>filesize\<close> are at offsets 32 and 48 of the segment command, \<open>ncmds\<close> and
  \<open>sizeofcmds\<close> at 16 and 20 of the header, whose other fields are those read.
\<close>

definition macho_patch_prefix :: "bytes \<Rightarrow> macho_layout \<Rightarrow> macho_plan \<Rightarrow> bytes result" where
  "macho_patch_prefix header_bytes layout plan =
     (let prefix = ml_prefix layout; lc = ml_linkedit_command_offset layout in
      if length prefix < lc then Inl (Invalid ''Mach-O __LINKEDIT command is missing'')
      else if length prefix < lc + 72 then Inl (Invalid ''Mach-O __LINKEDIT command is invalid'')
      else
        let p1 = write_at prefix (lc + 32) (le_bytes 8 (mp_linkedit_vmsize plan));
            p2 = write_at p1 (lc + 48) (le_bytes 8 (mp_linkedit_filesize plan));
            h1 = write_at header_bytes 16 (le_bytes 4 (ml_ncmds layout));
            h2 = write_at h1 20 (le_bytes 4 (ml_sizeofcmds layout)) in
        Inr (write_at p2 0 h2))"

definition macho_write_output :: "bytes \<Rightarrow> macho_plan \<Rightarrow> bytes \<Rightarrow> bytes \<Rightarrow> bytes" where
  "macho_write_output output plan prefix payload =
     (let f1 = write_at output 0 prefix;
          f2 = set_len f1 (mp_payload_offset plan);
          f3 = write_at f2 (mp_payload_offset plan) payload in
      set_len f3 (mp_payload_end plan))"

definition write_macho_runtime_data ::
    "codec_ext \<Rightarrow> macho_ext \<Rightarrow> bytes \<Rightarrow> (bundle_source \<times> bundle_reads) option \<Rightarrow> prepared_data
       \<Rightarrow> string \<Rightarrow> bytes result" where
  "write_macho_runtime_data X M output bundle prepared platform =
     rbind (read_macho_layout M output) (\<lambda>layout.
     rbind (validate_macho_final_layout layout (length output)) (\<lambda>_.
     rbind (validate_macho_platform (ml_cpu_type layout) (ml_cpu_subtype layout) platform) (\<lambda>_.
     rbind (macho_page_alignment (ml_cpu_type layout)) (\<lambda>page_alignment.
     rbind (macho_payload_base output layout) (\<lambda>(layout', payload_base).
     rbind (macho_stamp_plan layout' payload_base (p_payload_len prepared) page_alignment) (\<lambda>plan.
     rbind (macho_patch_prefix (take MACHO_HEADER_LEN output) layout' plan) (\<lambda>prefix.
     rbind (write_runtime_payload X bundle prepared) (\<lambda>payload.
     Inr (macho_write_output output plan prefix payload)))))))))"

definition macho_footer_search_spec ::
    "macho_ext \<Rightarrow> bytes \<Rightarrow> (footer_search_spec \<times> nat \<times> nat) result" where
  "macho_footer_search_spec M f =
     rbind (read_macho_layout M f) (\<lambda>layout.
     rbind (validate_macho_final_layout layout (length f)) (\<lambda>_.
     if ml_cpu_type layout \<noteq> CPU_TYPE_X86_64 \<and> ml_cpu_type layout \<noteq> CPU_TYPE_ARM64
     then Inl (Invalid ''unsupported 64-bit Mach-O CPU type'')
     else
       let (end', alignment) = (case ml_code_signature layout of
              Some (_, offset, _) \<Rightarrow> (offset, MACHO_SIGNATURE_ALIGNMENT)
            | None \<Rightarrow> (length f, 1)) in
       Inr (\<lparr>fs_data_end = end', fs_alignment = alignment,
             fs_minimum_payload_offset = ml_linkedit_fileoff layout\<rparr>,
            ml_cpu_type layout, ml_cpu_subtype layout)))"

definition read_macho_runtime_data ::
    "codec_ext \<Rightarrow> macho_ext \<Rightarrow> path \<Rightarrow> bytes \<Rightarrow> runtime_data option result" where
  "read_macho_runtime_data X M path f =
     rbind (macho_footer_search_spec M f) (\<lambda>(spec, cpu_type, cpu_subtype).
     rbind (read_runtime_data_with_search_spec X path f spec) (\<lambda>data.
     rbind (case data of None \<Rightarrow> Inr ()
            | Some d \<Rightarrow> validate_macho_platform cpu_type cpu_subtype (h_platform (rd_header d))) (\<lambda>_.
     Inr data)))"

end
