(* ===== verification/Macho_Roundtrip.thy ===== *)
theory Macho_Roundtrip
  imports Macho_Image
begin

text \<open>
  What the Mach-O checks and writes establish: an accepted image keeps its link-edit data
  before its signature, a stamped image is the template's data followed by the payload with
  \<open>__LINKEDIT\<close> grown to the new end, and it reads back as what was stamped, unsigned or
  after a signature has been appended.
\<close>

section \<open>Accepted images\<close>

lemma check_referenced_ranges_Inr:
  "check_referenced_ranges n lo hi rs m = Inr r \<Longrightarrow>
     m \<le> r \<and> (\<forall>(off, len) \<in> set rs. lo \<le> off \<and> off + len \<le> hi \<and> off + len \<le> n \<and> off + len \<le> r)"
  by (induction n lo hi rs m rule: check_referenced_ranges.induct)
     (auto simp: rbind_eq_Inr if_error_eq_Inr ok_or_eq_Inr checked_add_eq_Some not_less)

lemma validate_macho_final_layout_Inr:
  assumes "validate_macho_final_layout l n = Inr ()"
  shows "ml_linkedit_fileoff l + ml_linkedit_filesize l = n"
    and "length (ml_prefix l) \<le> ml_linkedit_fileoff l"
    and "ml_linkedit_fileoff l = ml_max_segment_fileoff l"
    and "ml_code_signature l = Some (c, off, len) \<Longrightarrow>
      0 < len \<and> off + len = n \<and> ml_linkedit_fileoff l \<le> off \<and> length (ml_prefix l) \<le> off \<and>
      16 dvd off \<and> ml_max_non_signature_data_end l \<le> off"
  using assms
  by (auto simp: validate_macho_final_layout_def validate_macho_signature_range_def rbind_eq_Inr
      if_error_eq_Inr ok_or_eq_Inr checked_add_eq_Some MACHO_SIGNATURE_ALIGNMENT_def not_less
      mod_eq_0_iff_dvd split: option.splits)

lemma read_macho_layout_Inr:
  assumes "read_macho_layout M f = Inr l"
  obtains header commands sc ce where
    "parse_macho_header M (bytes_at f 0 32) = Inr header"
    "macho_header_checks header (length f) = Inr ce"
    "ml_prefix l = bytes_at f 0 32 @ bytes_at f 32 (mh_sizeofcmds header)"
    "length (ml_prefix l) = 32 + mh_sizeofcmds header" "32 + mh_sizeofcmds header \<le> length f"
    "parse_load_commands M (ml_prefix l) = Inr commands"
    "scan_commands (length f) ce commands macho_scan_start = Inr sc"
    "macho_finish_scan (length f) ce sc = Inr (ml_linkedit_command_offset l, ml_max_non_signature_data_end l)"
    "ml_linkedit_fileoff l = mo_linkedit_fileoff sc" "ml_linkedit_filesize l = mo_linkedit_filesize sc"
    "ml_code_signature l = mo_code_signature sc" "ml_first_section_offset l = mo_first_section_offset sc"
    "ml_ncmds l = mh_ncmds header" "ml_sizeofcmds l = mh_sizeofcmds header"
  using assms
  by (auto simp: read_macho_layout_def Let_def rbind_eq_Inr read_exact_at_eq_Inr MACHO_HEADER_LEN_def
      split: prod.splits)

lemma read_macho_layout_prefix:
  assumes "read_macho_layout M f = Inr l"
  shows "ml_prefix l = take (length (ml_prefix l)) f" and "length (ml_prefix l) \<le> length f"
    and "length (ml_prefix l) = 32 + ml_sizeofcmds l"
proof -
  from assms obtain header :: macho_header where "ml_prefix l = bytes_at f 0 32 @ bytes_at f 32 (mh_sizeofcmds header)"
    and len: "length (ml_prefix l) = 32 + mh_sizeofcmds header" "32 + mh_sizeofcmds header \<le> length f"
    "ml_sizeofcmds l = mh_sizeofcmds header"
    by (rule read_macho_layout_Inr) blast
  then have "ml_prefix l = take 32 f @ take (mh_sizeofcmds header) (drop 32 f)"
    by (simp add: bytes_at_def)
  also have "\<dots> = take (32 + mh_sizeofcmds header) f" by (simp only: take_add)
  finally show "ml_prefix l = take (length (ml_prefix l)) f" using len by simp
  show "length (ml_prefix l) \<le> length f" "length (ml_prefix l) = 32 + ml_sizeofcmds l" using len by simp_all
qed

section \<open>The bytes written\<close>

lemma macho_write_output_eq:
  assumes "length prefix \<le> length t" "length prefix \<le> mp_payload_offset p"
    and "mp_payload_end p = mp_payload_offset p + length payload"
  shows "macho_write_output t p prefix payload =
     prefix @ drop (length prefix) (set_len t (mp_payload_offset p)) @ payload"
proof -
  let ?po = "mp_payload_offset p"
  have f1: "write_at t 0 prefix = prefix @ drop (length prefix) t" by (simp add: write_at_def)
  have f2: "set_len (prefix @ drop (length prefix) t) ?po = prefix @ drop (length prefix) (set_len t ?po)"
    using assms(1,2) by (simp add: set_len_def drop_take)
  have "length (prefix @ drop (length prefix) (set_len t ?po)) = ?po" using assms(2) by simp
  then have f3: "write_at (prefix @ drop (length prefix) (set_len t ?po)) ?po payload =
      prefix @ drop (length prefix) (set_len t ?po) @ payload"
    by (simp add: write_at_def)
  show ?thesis
    unfolding macho_write_output_def Let_def f1 f2 f3 using assms(2,3) by (intro set_len_same) simp
qed

lemma drop_signature_command_Inr:
  assumes "drop_signature_command l co = Inr l'" and "co + 16 \<le> length (ml_prefix l)"
  shows "ml_prefix l' = take co (ml_prefix l) @ drop (co + 16) (ml_prefix l) @ replicate 16 0"
    and "ml_ncmds l' + 1 = ml_ncmds l" and "ml_sizeofcmds l' + 16 = ml_sizeofcmds l"
    and "ml_linkedit_fileoff l' = ml_linkedit_fileoff l"
proof -
  let ?p = "ml_prefix l"
  from assms(1) have l': "ml_prefix l' = take (length ?p - 16) (write_at ?p co (drop (co + 16) ?p)) @ replicate 16 0"
    and counts: "ml_ncmds l' + 1 = ml_ncmds l" "ml_sizeofcmds l' + 16 = ml_sizeofcmds l"
    and off: "ml_linkedit_fileoff l' = ml_linkedit_fileoff l"
    by (auto simp: drop_signature_command_def Let_def rbind_eq_Inr ok_or_eq_Inr checked_add_eq_Some
        checked_sub_eq_Some MACHO_CODE_SIGNATURE_LEN_def)
  have "take (length ?p - 16) (write_at ?p co (drop (co + 16) ?p)) = take co ?p @ drop (co + 16) ?p"
  proof -
    have "min (length ?p - 16) co = co" "co - length ?p = 0" "length ?p - 16 - co = length ?p - (co + 16)"
      using assms(2) by simp_all
    then show ?thesis using assms(2) by (simp add: write_at_def del: diff_is_0_eq)
  qed
  with l' show "ml_prefix l' = take co ?p @ drop (co + 16) ?p @ replicate 16 0" by simp
  show "ml_ncmds l' + 1 = ml_ncmds l" "ml_sizeofcmds l' + 16 = ml_sizeofcmds l"
    "ml_linkedit_fileoff l' = ml_linkedit_fileoff l" by (fact counts off)+
qed

lemma macho_payload_base_Inr:
  assumes "macho_payload_base t l = Inr (l', base)"
  shows "ml_code_signature l = None \<Longrightarrow> l' = l \<and> base = length t \<and>
       all_zero (bytes_at t (length (ml_prefix l)) 16)"
    and "ml_code_signature l = Some (co, off, len) \<Longrightarrow> drop_signature_command l co = Inr l' \<and> base = off"
  using assms
  by (auto simp: macho_payload_base_def rbind_eq_Inr if_error_eq_Inr ensure_zero_file_range_iff
      MACHO_CODE_SIGNATURE_LEN_def split: option.splits)

lemma macho_stamp_plan_Inr:
  assumes "macho_stamp_plan l base n pa = Inr p"
  shows "base \<le> mp_payload_offset p" "mp_payload_offset p < base + 16" "16 dvd mp_payload_offset p"
    and "16 dvd base \<Longrightarrow> mp_payload_offset p = base"
    and "mp_payload_end p = mp_payload_offset p + n" "mp_payload_end p < 2 ^ 32"
    and "ml_linkedit_fileoff l + mp_linkedit_filesize p = mp_payload_end p"
    and "mp_linkedit_filesize p \<le> mp_linkedit_vmsize p" "pa dvd mp_linkedit_vmsize p"
proof -
  from assms obtain so where off: "align_up base 16 = Inr (mp_payload_offset p)"
    and e: "mp_payload_end p = mp_payload_offset p + n"
    and so: "align_up (mp_payload_end p) 16 = Inr so" "so \<le> 2 ^ 32 - 1"
    and fs: "ml_linkedit_fileoff l \<le> mp_payload_end p"
      "mp_linkedit_filesize p = mp_payload_end p - ml_linkedit_fileoff l"
    and vm: "align_up (mp_linkedit_filesize p) pa = Inr (mp_linkedit_vmsize p)"
    by (auto simp: macho_stamp_plan_def rbind_eq_Inr if_error_eq_Inr ok_or_eq_Inr checked_add_eq_Some
        checked_sub_eq_Some MACHO_SIGNATURE_ALIGNMENT_def not_less)
  note A = align_up_props [OF off]
  show "base \<le> mp_payload_offset p" "mp_payload_offset p < base + 16" "16 dvd mp_payload_offset p"
    using A by simp_all
  show "mp_payload_offset p = base" if "16 dvd base"
  proof -
    have "16 dvd mp_payload_offset p - base" using A(3) that by (rule dvd_diff_nat)
    moreover have "mp_payload_offset p - base < 16" using A(1,2) by simp
    ultimately have "mp_payload_offset p - base = 0" using nat_dvd_not_less by blast
    with A(1) show ?thesis by simp
  qed
  show "mp_payload_end p = mp_payload_offset p + n" by (fact e)
  show "mp_payload_end p < 2 ^ 32" using align_up_props(1) [OF so(1)] so(2) by simp
  show "ml_linkedit_fileoff l + mp_linkedit_filesize p = mp_payload_end p" using fs by simp
  show "mp_linkedit_filesize p \<le> mp_linkedit_vmsize p" "pa dvd mp_linkedit_vmsize p"
    using align_up_props [OF vm] by simp_all
qed

lemma length_macho_patch_prefix:
  assumes "macho_patch_prefix hb l p = Inr prefix" "length hb = 32" "32 \<le> length (ml_prefix l)"
  shows "length prefix = length (ml_prefix l)"
  using assms
  by (auto simp: macho_patch_prefix_def Let_def max_def split: if_splits simp del: le_bytes.simps)

section \<open>Where the recorded commands are\<close>

text \<open>
  The scan records offsets of two commands. \<open>keeps_commands\<close> is the frame of everything else
  in the loop; \<open>commands_inv\<close> is the invariant: recorded commands end before the cursor and
  do not overlap.
\<close>

definition keeps_commands :: "macho_scan \<Rightarrow> macho_scan \<Rightarrow> bool" where
  "keeps_commands sc sc' \<longleftrightarrow>
     mo_command_offset sc' = mo_command_offset sc \<and> mo_code_signature sc' = mo_code_signature sc \<and>
     mo_linkedit_command_offset sc' = mo_linkedit_command_offset sc"

lemma keeps_commands_refl [simp]: "keeps_commands sc sc"
  by (simp add: keeps_commands_def)

lemma keeps_commands_trans [trans]:
  "keeps_commands a b \<Longrightarrow> keeps_commands b c \<Longrightarrow> keeps_commands a c"
  by (simp add: keeps_commands_def)

lemma add_macho_byte_range_keeps [simp]: "keeps_commands sc (add_macho_byte_range off n sc)"
  by (simp add: keeps_commands_def add_macho_byte_range_def)

lemma add_macho_counted_range_keeps:
  "add_macho_counted_range off c n sc = Inr sc' \<Longrightarrow> keeps_commands sc sc'"
  by (auto simp: add_macho_counted_range_def rbind_eq_Inr keeps_commands_def split: option.splits)

lemma scan_macho_section_file_keeps:
  "scan_macho_section_file cx s sc = Inr sc' \<Longrightarrow> keeps_commands sc sc'"
  by (auto simp: scan_macho_section_file_def rbind_eq_Inr if_error_eq_Inr Let_def keeps_commands_def
      add_macho_byte_range_def split: option.splits)

lemma scan_reader_capability_keeps: "scan_reader_capability cx s sc = Inr sc' \<Longrightarrow> keeps_commands sc sc'"
  by (auto simp: scan_reader_capability_def rbind_eq_Inr keeps_commands_def split: if_splits)

lemma scan_macho_section_keeps: "scan_macho_section cx s sc = Inr sc' \<Longrightarrow> keeps_commands sc sc'"
  by (auto simp: scan_macho_section_def rbind_eq_Inr if_error_eq_Inr
      dest!: scan_macho_section_file_keeps add_macho_counted_range_keeps scan_reader_capability_keeps
      intro: keeps_commands_trans)

lemma scan_macho_sections_keeps: "scan_macho_sections cx ss sc = Inr sc' \<Longrightarrow> keeps_commands sc sc'"
  by (induction cx ss sc arbitrary: sc' rule: scan_macho_sections.induct)
     (auto simp: rbind_eq_Inr dest: scan_macho_section_keeps intro: keeps_commands_trans)

lemma add_counted_ranges_keeps: "add_counted_ranges rs sc = Inr sc' \<Longrightarrow> keeps_commands sc sc'"
  by (induction rs sc arbitrary: sc' rule: add_counted_ranges.induct)
     (auto simp: rbind_eq_Inr dest: add_macho_counted_range_keeps intro: keeps_commands_trans)

lemma fold_byte_ranges_keeps:
  "keeps_commands sc (fold (\<lambda>(offset, len). add_macho_byte_range offset len) rs sc)"
  by (induction rs arbitrary: sc) (auto intro: keeps_commands_trans [OF add_macho_byte_range_keeps])

lemma scan_segment_commands:
  assumes "scan_segment n ce raw_len s sc = Inr sc'"
  shows "72 \<le> raw_len" and "mo_command_offset sc' = mo_command_offset sc"
    and "mo_code_signature sc' = mo_code_signature sc"
    and "mo_linkedit_command_offset sc' = mo_linkedit_command_offset sc \<or>
         mo_linkedit_command_offset sc' = Some (mo_command_offset sc)"
proof -
  from assms [unfolded scan_segment_def rbind_eq_Inr]
  obtain v e sc2 sc3 cx ss sc4 where sz: "scan_segment_size raw_len s = Inr ()"
    and ranges: "scan_segment_ranges n s sc = Inr (v, e, sc2)"
    and tseg: "scan_text_segment ce s e sc2 = Inr sc3"
    and ss: "scan_macho_sections cx ss sc3 = Inr sc4"
    and last: "record_linkedit s (note_segment_start s sc4) = Inr sc'"
    by (auto simp: rbind_eq_Inr)
  have k2: "keeps_commands sc sc2"
    using ranges by (auto simp: scan_segment_ranges_def rbind_eq_Inr if_error_eq_Inr Let_def keeps_commands_def)
  have k3: "keeps_commands sc2 sc3"
    using tseg by (auto simp: scan_text_segment_def keeps_commands_def split: if_splits)
  have k: "keeps_commands sc sc4"
    using k2 k3 scan_macho_sections_keeps [OF ss] by (blast intro: keeps_commands_trans)
  show "72 \<le> raw_len"
    using sz by (auto simp: scan_segment_size_def rbind_eq_Inr ok_or_eq_Inr checked_add_eq_Some
        require_macho_command_size_def split: if_splits)
  show "mo_command_offset sc' = mo_command_offset sc" "mo_code_signature sc' = mo_code_signature sc"
    "mo_linkedit_command_offset sc' = mo_linkedit_command_offset sc \<or>
     mo_linkedit_command_offset sc' = Some (mo_command_offset sc)"
    using last k by (auto simp: record_linkedit_def note_segment_start_def keeps_commands_def split: if_splits)
qed

definition commands_inv :: "macho_scan \<Rightarrow> bool" where
  "commands_inv sc \<longleftrightarrow> 32 \<le> mo_command_offset sc \<and>
     (\<forall>co off len. mo_code_signature sc = Some (co, off, len) \<longrightarrow> 32 \<le> co \<and> co + 16 \<le> mo_command_offset sc) \<and>
     (\<forall>lc. mo_linkedit_command_offset sc = Some lc \<longrightarrow> 32 \<le> lc \<and> lc + 72 \<le> mo_command_offset sc) \<and>
     (\<forall>co off len lc. mo_code_signature sc = Some (co, off, len) \<longrightarrow> mo_linkedit_command_offset sc = Some lc \<longrightarrow>
        co + 16 \<le> lc \<or> lc + 72 \<le> co)"

lemma commands_inv_advance:
  assumes "commands_inv sc" "keeps_commands sc sc'" "mo_command_offset sc \<le> k"
  shows "commands_inv (sc'\<lparr>mo_command_offset := k\<rparr>)"
proof -
  have "mo_code_signature sc' = mo_code_signature sc" "mo_linkedit_command_offset sc' = mo_linkedit_command_offset sc"
    using assms(2) by (simp_all add: keeps_commands_def)
  with assms(1,3) show ?thesis
    by (simp add: commands_inv_def del: not_None_eq) (meson order_trans)
qed

lemma scan_command_kind_inv:
  assumes inv: "commands_inv sc" and step: "scan_command_kind n ce raw_len k sc = Inr sc'"
  shows "commands_inv (sc'\<lparr>mo_command_offset := mo_command_offset sc + raw_len\<rparr>)"
proof -
  have keeps: "keeps_commands sc sc' \<Longrightarrow> ?thesis" using commands_inv_advance [OF inv] by simp
  show ?thesis
  proof (cases k)
    case (Segment64 s)
    with step obtain seg where seg: "scan_segment n ce raw_len seg sc = Inr sc'"
      by (auto simp: scan_command_kind_def rbind_eq_Inr)
    note S = scan_segment_commands [OF seg]
    show ?thesis
    proof (cases "mo_linkedit_command_offset sc' = mo_linkedit_command_offset sc")
      case True
      with S show ?thesis by (intro keeps) (simp add: keeps_commands_def)
    next
      case False
      with S(4) have "mo_linkedit_command_offset sc' = Some (mo_command_offset sc)" by simp
      with S(1,3) inv show ?thesis by (fastforce simp: commands_inv_def)
    qed
  next
    case (Code_Signature s)
    with step obtain off len where raw: "raw_len = 16"
      and "sc' = sc\<lparr>mo_code_signature := Some (mo_command_offset sc, off, len)\<rparr>"
      by (auto simp: scan_command_kind_def scan_code_signature_def rbind_eq_Inr MACHO_CODE_SIGNATURE_LEN_def
          split: if_splits prod.splits)
    with inv show ?thesis by (fastforce simp: commands_inv_def)
  next
    case (Dyld_Info info)
    with step show ?thesis
      by (intro keeps) (auto simp: scan_command_kind_def scan_dyld_info_def rbind_eq_Inr fold_byte_ranges_keeps)
  next
    case (Symtab info)
    with step show ?thesis
      by (intro keeps) (auto simp: scan_command_kind_def scan_symtab_def rbind_eq_Inr split: prod.splits
          dest!: add_macho_counted_range_keeps intro: keeps_commands_trans [OF _ add_macho_byte_range_keeps])
  next
    case (Dysymtab info)
    with step show ?thesis
      by (intro keeps) (auto simp: scan_command_kind_def scan_dysymtab_def rbind_eq_Inr add_counted_ranges_keeps)
  qed (use step in \<open>intro keeps; auto simp: scan_command_kind_def scan_build_version_def scan_version_min_def
        scan_main_def scan_linkedit_data_def scan_dylinker_def rbind_eq_Inr keeps_commands_def
        add_macho_byte_range_def split: if_splits prod.splits\<close>)+
qed

lemma scan_commands_inv:
  "commands_inv sc \<Longrightarrow> scan_commands n ce cs sc = Inr sc' \<Longrightarrow> commands_inv sc'"
proof (induction n ce cs sc arbitrary: sc' rule: scan_commands.induct)
  case (2 n ce c rest sc)
  then obtain command sc1 where c: "c = Inr command"
    and step: "scan_command_kind n ce (mc_raw_len command) (mc_kind command) sc = Inr sc1"
    and rest: "scan_commands n ce rest (sc1\<lparr>mo_command_offset := mo_command_offset sc + mc_raw_len command\<rparr>) = Inr sc'"
    by (auto simp: rbind_eq_Inr ok_or_eq_Inr if_error_eq_Inr checked_add_eq_Some)
  from 2 show ?case
    using scan_command_kind_inv [OF 2(2) step] rest c step
    by (auto simp: rbind_eq_Inr ok_or_eq_Inr if_error_eq_Inr checked_add_eq_Some)
qed simp

text \<open>The command table of an accepted image ends at the declared size and holds both commands.\<close>

lemma read_macho_layout_commands:
  assumes "read_macho_layout M f = Inr l"
  shows "32 \<le> ml_linkedit_command_offset l" "ml_linkedit_command_offset l + 72 \<le> length (ml_prefix l)"
    and "ml_code_signature l = Some (co, off, len) \<Longrightarrow> 32 \<le> co \<and> co + 16 \<le> length (ml_prefix l) \<and>
      (co + 16 \<le> ml_linkedit_command_offset l \<or> ml_linkedit_command_offset l + 72 \<le> co)"
proof -
  from assms obtain header :: macho_header and commands sc ce where
    h: "macho_header_checks header (length f) = Inr ce" "length (ml_prefix l) = 32 + mh_sizeofcmds header"
    and scan: "scan_commands (length f) ce commands macho_scan_start = Inr sc"
    and fin: "macho_finish_scan (length f) ce sc = Inr (ml_linkedit_command_offset l, ml_max_non_signature_data_end l)"
    and sig: "ml_code_signature l = mo_code_signature sc"
    by (rule read_macho_layout_Inr) blast
  have inv: "commands_inv sc"
    using scan by (rule scan_commands_inv [rotated]) (simp add: commands_inv_def macho_scan_start_def MACHO_HEADER_LEN_def)
  have ce: "ce = length (ml_prefix l)"
    using h by (auto simp: macho_header_checks_def rbind_eq_Inr if_error_eq_Inr ok_or_eq_Inr
        checked_add_eq_Some MACHO_HEADER_LEN_def)
  from fin have "mo_command_offset sc = ce" "mo_linkedit_command_offset sc = Some (ml_linkedit_command_offset l)"
    by (auto simp: macho_finish_scan_def rbind_eq_Inr if_error_eq_Inr ok_or_eq_Inr)
  with inv ce sig show "32 \<le> ml_linkedit_command_offset l"
    "ml_linkedit_command_offset l + 72 \<le> length (ml_prefix l)"
    "ml_code_signature l = Some (co, off, len) \<Longrightarrow> 32 \<le> co \<and> co + 16 \<le> length (ml_prefix l) \<and>
      (co + 16 \<le> ml_linkedit_command_offset l \<or> ml_linkedit_command_offset l + 72 \<le> co)"
    by (auto simp: commands_inv_def)
qed

section \<open>Reading back a stamped image\<close>

lemma write_macho_runtime_data_Inr:
  assumes "write_macho_runtime_data X M t bundle p platform = Inr out"
  obtains l l' base pa plan prefix payload where "read_macho_layout M t = Inr l"
    "validate_macho_final_layout l (length t) = Inr ()"
    "validate_macho_platform (ml_cpu_type l) (ml_cpu_subtype l) platform = Inr ()"
    "macho_page_alignment (ml_cpu_type l) = Inr pa"
    "macho_payload_base t l = Inr (l', base)" "macho_stamp_plan l' base (p_payload_len p) pa = Inr plan"
    "macho_patch_prefix (take 32 t) l' plan = Inr prefix"
    "write_runtime_payload X bundle p = Inr payload" "out = macho_write_output t plan prefix payload"
  using assms
  by (auto simp: write_macho_runtime_data_def rbind_eq_Inr MACHO_HEADER_LEN_def split: prod.splits)

text \<open>The output is the patched commands, the template's other data and the payload.\<close>

lemma macho_output_parts:
  assumes l: "read_macho_layout M t = Inr l" and final: "validate_macho_final_layout l (length t) = Inr ()"
    and base: "macho_payload_base t l = Inr (l', base)" and plan: "macho_stamp_plan l' base n pa = Inr plan"
    and patch: "macho_patch_prefix (take 32 t) l' plan = Inr prefix" and payload: "length payload = n"
  defines "out \<equiv> macho_write_output t plan prefix payload"
  shows "length prefix = length (ml_prefix l)" and "length prefix \<le> mp_payload_offset plan"
    and "out = prefix @ drop (length prefix) (set_len t (mp_payload_offset plan)) @ payload"
    and "length out = mp_payload_offset plan + n" and "bytes_at out (mp_payload_offset plan) n = payload"
    and "ml_linkedit_fileoff l' = ml_linkedit_fileoff l" and "ml_linkedit_fileoff l \<le> mp_payload_offset plan"
proof -
  note F = validate_macho_final_layout_Inr [OF final] and P = read_macho_layout_prefix [OF l]
    and S = macho_stamp_plan_Inr [OF plan]
  have cut: "length (ml_prefix l') = length (ml_prefix l) \<and> ml_linkedit_fileoff l' = ml_linkedit_fileoff l \<and>
      ml_linkedit_fileoff l \<le> base"
  proof (cases "ml_code_signature l")
    case None
    with macho_payload_base_Inr(1) [OF base] F(1) show ?thesis by simp
  next
    case (Some s)
    then obtain co off len where s: "ml_code_signature l = Some (co, off, len)" by (cases s) auto
    with macho_payload_base_Inr(2) [OF base] have d: "drop_signature_command l co = Inr l'" "base = off" by auto
    have room: "co + 16 \<le> length (ml_prefix l)" using read_macho_layout_commands(3) [OF l s] by simp
    from drop_signature_command_Inr [OF d(1) this] room F(4) [OF s] d(2) show ?thesis by simp
  qed
  have prefix: "length prefix = length (ml_prefix l)"
    using length_macho_patch_prefix [OF patch] cut P(2,3) by simp
  then have room: "length prefix \<le> mp_payload_offset plan" "length prefix \<le> length t"
    using cut F(2) S(1) P(2) by simp_all
  have out: "out = prefix @ drop (length prefix) (set_len t (mp_payload_offset plan)) @ payload"
    unfolding out_def using room S(5) payload by (intro macho_write_output_eq) simp_all
  show "length prefix = length (ml_prefix l)" "length prefix \<le> mp_payload_offset plan" by (fact prefix room)+
  show "out = prefix @ drop (length prefix) (set_len t (mp_payload_offset plan)) @ payload" by (fact out)
  show "length out = mp_payload_offset plan + n" using out room payload by simp
  show "bytes_at out (mp_payload_offset plan) n = payload"
    using slice_mid [of "prefix @ drop (length prefix) (set_len t (mp_payload_offset plan))"
        "mp_payload_offset plan" payload n "[]"] room payload by (simp add: out)
  show "ml_linkedit_fileoff l' = ml_linkedit_fileoff l" "ml_linkedit_fileoff l \<le> mp_payload_offset plan"
    using cut S(1) by simp_all
qed

text \<open>
  What the reader is told of the file: no signature and nothing behind the payload, or a
  signature behind less than 16 zero bytes of padding.
\<close>

definition signature_follows :: "macho_layout \<Rightarrow> nat \<Rightarrow> bytes \<Rightarrow> bool" where
  "signature_follows l n f \<longleftrightarrow>
     (case ml_code_signature l of
        None \<Rightarrow> length f = n
      | Some (_, s, _) \<Rightarrow> n \<le> s \<and> s < n + 16 \<and> all_zero (bytes_at f n (s - n)))"

lemma all_zero_eq_replicate: "all_zero bs \<longleftrightarrow> bs = replicate (length bs) 0"
  by (induction bs) (auto simp: all_zero_def)

lemma stamped_macho_read:
  assumes laws: "codec_laws X"
    and prep: "prepare_runtime_data X h (map_option fst bundle) = Inr p"
    and written: "write_macho_runtime_data X M t bundle p platform = Inr out"
    and same: "same_image_data (length out - p_payload_len p) out f"
    and reader: "read_macho_layout M f = Inr l'" "validate_macho_final_layout l' (length f) = Inr ()"
      "ml_cpu_type l' = CPU_TYPE_X86_64 \<or> ml_cpu_type l' = CPU_TYPE_ARM64"
      "ml_linkedit_fileoff l' \<le> length out - p_payload_len p" "signature_follows l' (length out) f"
    and machine: "validate_macho_platform (ml_cpu_type l') (ml_cpu_subtype l') (h_platform h) = Inr ()"
  shows "read_macho_runtime_data X M path f = Inr (Some
    (stamped_data X path (length out - p_payload_len p) h (p_header_bytes p) (bundle_bytes bundle)))"
proof -
  from written obtain l l1 base pa plan prefix payload where l: "read_macho_layout M t = Inr l"
    "validate_macho_final_layout l (length t) = Inr ()" "macho_payload_base t l = Inr (l1, base)"
    "macho_stamp_plan l1 base (p_payload_len p) pa = Inr plan" "macho_patch_prefix (take 32 t) l1 plan = Inr prefix"
    and payload: "write_runtime_payload X bundle p = Inr payload"
    and out: "out = macho_write_output t plan prefix payload"
    by (rule write_macho_runtime_data_Inr) blast
  from payload obtain content footer where w: "write_runtime_content X bundle p = Inr (content, footer)"
    and pl: "payload = content @ footer" by (auto simp: write_runtime_payload_def rbind_eq_Inr)
  note st = prepared_stampable [OF laws prep w]
  let ?stamp = "stamp_payload X (p_header_bytes p) (bundle_bytes bundle)"
  have stamp: "payload = ?stamp" "length payload = p_payload_len p" using st(2,4) by (simp_all add: pl)
  note parts = macho_output_parts [OF l stamp(2), folded out]
  let ?start = "length out - p_payload_len p"
  have start: "?start = mp_payload_offset plan" "?start + p_payload_len p = length out" using parts(4) by simp_all
  have at: "bytes_at f ?start (p_payload_len p) = ?stamp"
    using same_image_data_bytes_at [OF same, of ?start "p_payload_len p"] start parts(5) stamp(1) by simp
  have len: "length out \<le> length f" using same by (simp add: same_image_data_def)
  have split: "f = take ?start f @ ?stamp @ drop (length out) f"
  proof -
    have "f = take ?start f @ bytes_at f ?start (p_payload_len p) @ drop (?start + p_payload_len p) f"
      by (metis append_take_drop_id bytes_at_def drop_drop add.commute)
    then show ?thesis unfolding at start(2) .
  qed
  let ?e = "case ml_code_signature l' of None \<Rightarrow> length f | Some (_, s, _) \<Rightarrow> s"
  let ?al = "if ml_code_signature l' = None then 1 else (16 :: nat)"
  let ?spec = "\<lparr>fs_data_end = ?e, fs_alignment = ?al, fs_minimum_payload_offset = ml_linkedit_fileoff l'\<rparr>"
  have e: "length out \<le> ?e" "?e - length out < ?al" "?e \<le> length f" "all_zero (bytes_at f (length out) (?e - length out))"
    using reader(5) validate_macho_final_layout_Inr(4) [OF reader(2)]
    by (fastforce simp: signature_follows_def bytes_at_def split: option.splits)+
  have tail: "drop (length out) f = replicate (?e - length out) 0 @ drop ?e f"
  proof -
    have "bytes_at f (length out) (?e - length out) = replicate (?e - length out) 0"
      using e(1,3,4) len by (simp add: all_zero_eq_replicate)
    moreover have "drop (length out) f = bytes_at f (length out) (?e - length out) @ drop ?e f"
      using e(1) by (metis append_take_drop_id bytes_at_def drop_drop le_add_diff_inverse2)
    ultimately show ?thesis by simp
  qed
  have pre: "length (take ?start f) = ?start" using start(2) len by simp
  have "read_runtime_data_with_search_spec X path f ?spec =
      Inr (Some (stamped_data X path (length (take ?start f)) h (p_header_bytes p) (bundle_bytes bundle)))"
  proof (rule search_finds_stamp [OF st(1), where p = "?e - length out" and post = "drop ?e f"])
    show "f = take ?start f @ ?stamp @ replicate (?e - length out) 0 @ drop ?e f"
      using split unfolding tail .
    show "fs_data_end ?spec = length (take ?start f) + length ?stamp + (?e - length out)"
      using pre stamp start(2) e(1) by simp
    show "?e - length out < max 1 (fs_alignment ?spec)" using e(2) by simp
    show "fs_minimum_payload_offset ?spec \<le> length (take ?start f)" using reader(4) pre by simp
  qed
  then have search: "read_runtime_data_with_search_spec X path f ?spec =
      Inr (Some (stamped_data X path ?start h (p_header_bytes p) (bundle_bytes bundle)))" unfolding pre .
  have "macho_footer_search_spec M f = Inr (?spec, ml_cpu_type l', ml_cpu_subtype l')"
    using reader(1-3) by (auto simp: macho_footer_search_spec_def MACHO_SIGNATURE_ALIGNMENT_def split: option.splits)
  with search machine show ?thesis
    by (simp add: read_macho_runtime_data_def) (simp add: stamped_data_def)
qed

section \<open>A sample image\<close>

text \<open>
  Five commands: \<open>__LINKEDIT\<close> first (its size is read from the bytes), \<open>__TEXT\<close> with one
  section, the platform, the entry point and the dynamic linker.
\<close>

definition sample_text_section :: macho_section where
  "sample_text_section = \<lparr>ms_segname_matches = True, ms_sectname = [], ms_addr = 352, ms_size = 32,
     ms_file_range = Some (352, 32), ms_reloff = 0, ms_nreloc = 0, ms_type = 0, ms_reserved = (0, 0, 0)\<rparr>"

definition sample_text_segment :: macho_segment where
  "sample_text_segment = \<lparr>sg_name = map of_char ''__TEXT'', sg_vmaddr = 0, sg_vmsize = 4096, sg_fileoff = 0,
     sg_filesize = 384, sg_maxprot = 5, sg_initprot = 5, sg_nsects = 1,
     sg_sections = Inr [Inr sample_text_section]\<rparr>"

definition sample_linkedit :: "nat \<Rightarrow> macho_segment" where
  "sample_linkedit n = \<lparr>sg_name = map of_char ''__LINKEDIT'', sg_vmaddr = 4096, sg_vmsize = 4096,
     sg_fileoff = 384, sg_filesize = n, sg_maxprot = 1, sg_initprot = 1, sg_nsects = 0, sg_sections = Inr []\<rparr>"

definition sample_macho_header :: macho_header where
  "sample_macho_header = \<lparr>mh_little_endian = True, mh_filetype = 2, mh_flags = 0x200004,
     mh_cputype = 0x01000007, mh_cpusubtype = 3, mh_ncmds = 5, mh_sizeofcmds = 304\<rparr>"

definition sample_commands :: "nat \<Rightarrow> macho_command list" where
  "sample_commands n =
     [\<lparr>mc_raw_len = 72, mc_kind = Segment64 (Inr (sample_linkedit n))\<rparr>,
      \<lparr>mc_raw_len = 152, mc_kind = Segment64 (Inr sample_text_segment)\<rparr>,
      \<lparr>mc_raw_len = 24, mc_kind = Build_Version (Inr (0, 1))\<rparr>,
      \<lparr>mc_raw_len = 24, mc_kind = Main (Inr (352, 0))\<rparr>,
      \<lparr>mc_raw_len = 32, mc_kind = Load_Dylinker (Inr ''/usr/lib/dyld'')\<rparr>]"

definition sample_macho :: macho_ext where
  "sample_macho = \<lparr>parse_macho_header = (\<lambda>_. Inr sample_macho_header),
     parse_load_commands = (\<lambda>prefix. Inr (map Inr (sample_commands (le_nat (bytes_at prefix 80 8)))))\<rparr>"

definition sample_macho_template :: bytes where
  "sample_macho_template = replicate 80 0 @ le_bytes 8 16 @ replicate 312 0"

definition sample_macho_layout :: "bytes \<Rightarrow> nat \<Rightarrow> macho_layout" where
  "sample_macho_layout prefix n = \<lparr>ml_prefix = prefix, ml_cpu_type = 0x01000007, ml_cpu_subtype = 3,
     ml_ncmds = 5, ml_sizeofcmds = 304, ml_first_section_offset = Some 352, ml_linkedit_command_offset = 32,
     ml_linkedit_vmaddr = 4096, ml_linkedit_fileoff = 384, ml_linkedit_filesize = n,
     ml_max_segment_vmaddr = 4096, ml_max_segment_fileoff = 384, ml_max_non_signature_data_end = 0,
     ml_code_signature = None, ml_reader_capability = None\<rparr>"

lemmas macho_sample_eval =
  sample_macho_layout_def sample_macho_header_def sample_commands_def sample_text_section_def
  sample_text_segment_def sample_linkedit_def MACHO_HEADER_LEN_def MACHO_CODE_SIGNATURE_LEN_def
  macho_header_checks_def MH_EXECUTE_def MH_DYLDLINK_PIE_def MH_ALLOW_STACK_EXECUTION_def flags_contain_def
  macho_expected_subtype_def CPU_TYPE_X86_64_def CPU_TYPE_ARM64_def CPU_SUBTYPE_X86_64_ALL_def
  MAX_MACHO_LOAD_COMMAND_BYTES_def checked_add_def checked_mul_def macho_scan_start_def
  scan_command_kind_def scan_segment_def scan_segment_size_def scan_segment_ranges_def
  require_macho_command_size_def segment_protections_ok_def VM_PROT_READ_def VM_PROT_WRITE_def VM_PROT_EXECUTE_def
  scan_text_segment_def is_text_segment_def is_linkedit_segment_def linkedit_segment_ok_def
  note_segment_start_def record_linkedit_def scan_macho_section_def scan_macho_section_file_def
  add_macho_counted_range_def macho_counted_range_def scan_reader_capability_def
  MACHO_READER_CAPABILITY_SECTION_NAME_def scan_build_version_def scan_main_def scan_dylinker_def
  macho_finish_scan_def ranges_overlap_def Let_def

lemma sample_macho_layout_of:
  assumes "384 + n = length f" "n < 4096" "le_nat (bytes_at f 80 8) = n"
  shows "read_macho_layout sample_macho f = Inr (sample_macho_layout (take 336 f) n)"
    and "validate_macho_final_layout (sample_macho_layout (take 336 f) n) (length f) = Inr ()"
proof -
  have len: "length f = 384 + n" using assms(1) by simp
  have prefix: "bytes_at f 0 32 @ bytes_at f 32 304 = take 336 f"
    by (simp add: bytes_at_def flip: take_add)
  have field: "bytes_at (take 336 f) 80 8 = bytes_at f 80 8"
    by (simp add: bytes_at_def drop_take)
  show "validate_macho_final_layout (sample_macho_layout (take 336 f) n) (length f) = Inr ()"
    using assms(2) by (simp add: validate_macho_final_layout_def sample_macho_layout_def checked_add_def len)
  have scan: "\<exists>sc. scan_commands (length f) 336 (map Inr (sample_commands n)) macho_scan_start = Inr sc \<and>
      macho_finish_scan (length f) 336 sc = Inr (32, 0) \<and> mo_first_section_offset sc = Some 352 \<and>
      mo_linkedit_vmaddr sc = 4096 \<and> mo_linkedit_fileoff sc = 384 \<and> mo_linkedit_filesize sc = n \<and>
      mo_max_segment_vmaddr sc = 4096 \<and> mo_max_segment_fileoff sc = 384 \<and> mo_code_signature sc = None \<and>
      mo_reader_capability sc = None"
    using assms(2) by (cases "n = 0") (simp_all add: macho_sample_eval len)
  show "read_macho_layout sample_macho f = Inr (sample_macho_layout (take 336 f) n)"
    using scan len
    by (auto simp: read_macho_layout_def sample_macho_def read_exact_at_def MACHO_HEADER_LEN_def Let_def
        prefix field assms(3) sample_macho_header_def macho_header_checks_def MH_EXECUTE_def MH_DYLDLINK_PIE_def
        MH_ALLOW_STACK_EXECUTION_def flags_contain_def macho_expected_subtype_def CPU_TYPE_X86_64_def
        CPU_SUBTYPE_X86_64_ALL_def MAX_MACHO_LOAD_COMMAND_BYTES_def checked_add_def sample_macho_layout_def)
qed

lemma sample_macho_template_facts:
  "length sample_macho_template = 400" "bytes_at sample_macho_template 80 8 = le_bytes 8 16"
  "bytes_at sample_macho_template 336 16 = replicate 16 0" "take 32 sample_macho_template = replicate 32 0"
  by (simp_all add: sample_macho_template_def bytes_at_def min_def del: le_bytes.simps)

definition sample_macho_plan :: macho_plan where
  "sample_macho_plan = \<lparr>mp_payload_offset = 400, mp_payload_end = 504, mp_linkedit_filesize = 120,
     mp_linkedit_vmsize = 4096\<rparr>"

lemma sample_macho_stamped:
  obtains out where
    "write_macho_runtime_data sample_codec sample_macho sample_macho_template sample_bundle sample_prepared ''osx-64''
       = Inr out"
    "length out = 504" "le_nat (bytes_at out 80 8) = 120"
proof -
  let ?l = "sample_macho_layout (take 336 sample_macho_template) 16"
  let ?h = "write_at (write_at (replicate 32 0) 16 (le_bytes 4 5)) 20 (le_bytes 4 304)"
  let ?prefix = "write_at (write_at (write_at (take 336 sample_macho_template) 64 (le_bytes 8 4096))
      80 (le_bytes 8 120)) 0 ?h"
  let ?payload = "[1, 2, 7, 8] @ encode_footer 2 2 (sha256 sample_codec [1, 2]) (sha256 sample_codec [7, 8])"
  have "le_nat (le_bytes 8 16) = 16" "le_nat (le_bytes 8 120) = 120"
    by (simp_all add: le_nat_le_bytes del: le_bytes.simps)
  note le = this
  have layout: "read_macho_layout sample_macho sample_macho_template = Inr ?l"
    "validate_macho_final_layout ?l (length sample_macho_template) = Inr ()"
    by (rule sample_macho_layout_of; simp add: sample_macho_template_facts le del: le_bytes.simps)+
  have len: "length (ml_prefix ?l) = 336" by (simp add: sample_macho_layout_def sample_macho_template_facts)
  have base: "macho_payload_base sample_macho_template ?l = Inr (?l, 400)"
  proof -
    have "ensure_zero_file_range sample_macho_template 336 16 msg = Inr ()" for msg
      unfolding ensure_zero_file_range_iff sample_macho_template_facts by simp
    then show ?thesis
      unfolding macho_payload_base_def len using sample_macho_template_facts(1)
      by (simp add: sample_macho_layout_def checked_add_def MACHO_CODE_SIGNATURE_LEN_def)
  qed
  have plan: "macho_stamp_plan ?l 400 104 4096 = Inr sample_macho_plan"
    by (simp add: macho_stamp_plan_def align_up_def checked_add_def checked_sub_def sample_macho_layout_def
        MACHO_SIGNATURE_ALIGNMENT_def sample_macho_plan_def)
  have patch: "macho_patch_prefix (take 32 sample_macho_template) ?l sample_macho_plan = Inr ?prefix"
    by (simp add: macho_patch_prefix_def sample_macho_layout_def sample_macho_plan_def Let_def
        sample_macho_template_facts del: le_bytes.simps)
  have payload: "write_runtime_payload sample_codec sample_bundle sample_prepared = Inr ?payload"
    by (simp add: write_runtime_payload_def sample_content)
  let ?out = "macho_write_output sample_macho_template sample_macho_plan ?prefix ?payload"
  have written: "write_macho_runtime_data sample_codec sample_macho sample_macho_template sample_bundle
      sample_prepared ''osx-64'' = Inr ?out"
    using layout base plan patch payload
    by (simp add: write_macho_runtime_data_def sample_prepared_def MACHO_HEADER_LEN_def macho_page_alignment_def
        validate_macho_platform_def sample_macho_layout_def CPU_TYPE_X86_64_def CPU_SUBTYPE_X86_64_ALL_def
        del: le_bytes.simps)
  have pl: "length ?payload = 104"
    using length_encode_footer [of "sha256 sample_codec [1, 2]" "sha256 sample_codec [7, 8]" 2 2]
    by (simp add: codec_lawsD)
  note parts = macho_output_parts [OF layout base plan patch pl]
  have out: "?out = ?prefix @ drop (length ?prefix) (set_len sample_macho_template 400) @ ?payload"
    using parts(3) by (simp add: sample_macho_plan_def)
  have "bytes_at ?prefix 80 8 = le_bytes 8 120"
    using slice_write_at_same [of "write_at (take 336 sample_macho_template) 64 (le_bytes 8 4096)" 80 "le_bytes 8 120"]
    by (simp add: slice_write_at_after sample_macho_template_facts del: le_bytes.simps)
  moreover have "length ?prefix = 336" using parts(1) len by simp
  ultimately have "bytes_at ?out 80 8 = le_bytes 8 120"
    unfolding out by (subst slice_append_left) simp_all
  with le have "le_nat (bytes_at ?out 80 8) = 120" by simp
  moreover have "length ?out = 504" using parts(4) by (simp add: sample_macho_plan_def)
  ultimately show thesis using that written by blast
qed

section \<open>Properties\<close>





end
