(* ===== verification/Runtime_Stamp.thy ===== *)
theory Runtime_Stamp
  imports Pe_Roundtrip Macho_Roundtrip
begin

text \<open>
  The entry points of \<open>src/runtime_data.rs\<close>: \<open>detect_binary_format\<close>, \<open>read_from_file\<close>, the
  reader-capability check of templates, and \<open>append_to_binary\<close>, which stamps a copy, reads the
  copy back and only then renames it over the template. What the file system answers during
  a run of \<open>append_to_binary\<close> (identity checks, metadata, a second read of the input, the
  rename) is the record \<open>stamp_env\<close>; the result of a run is its \<open>io::Result\<close> and, if the
  rename happened, the new content of the file.
\<close>

section \<open>Formats\<close>

datatype binary_format = MachO64 | UnsupportedMachO string | Pe | Other

definition macho_magic_format :: "bytes \<Rightarrow> binary_format option" where
  "macho_magic_format magic =
     (if magic = [0xcf, 0xfa, 0xed, 0xfe] then Some MachO64
      else if magic = [0xfe, 0xed, 0xfa, 0xcf] then Some (UnsupportedMachO ''big-endian 64-bit'')
      else if magic = [0xce, 0xfa, 0xed, 0xfe] \<or> magic = [0xfe, 0xed, 0xfa, 0xce]
      then Some (UnsupportedMachO ''32-bit'')
      else if magic = [0xca, 0xfe, 0xba, 0xbe] \<or> magic = [0xbe, 0xba, 0xfe, 0xca]
              \<or> magic = [0xca, 0xfe, 0xba, 0xbf] \<or> magic = [0xbf, 0xba, 0xfe, 0xca]
      then Some (UnsupportedMachO ''universal'')
      else None)"

text \<open>\<open>magic\<close> is the zero-filled 16-byte buffer after one \<open>read\<close> of a regular file.\<close>

definition detect_binary_format :: "pe_ext \<Rightarrow> bytes \<Rightarrow> binary_format result" where
  "detect_binary_format P f =
     (let magic = take 16 (f @ replicate 16 0) in
      case (if 4 \<le> length f then macho_magic_format (take 4 magic) else None) of
        Some format \<Rightarrow> Inr format
      | None \<Rightarrow>
          if take 2 magic = map of_char ''MZ'' then
            rbind (parse_file_kind P f) (\<lambda>kind. case kind of
              Kind_Pe32 \<Rightarrow> Inr Pe
            | Kind_Pe64 \<Rightarrow> Inr Pe
            | Kind_Other \<Rightarrow> Inl (Invalid ''invalid PE binary''))
          else Inr Other)"

definition read_from_file ::
    "codec_ext \<Rightarrow> pe_ext \<Rightarrow> macho_ext \<Rightarrow> path \<Rightarrow> bytes \<Rightarrow> runtime_data option result" where
  "read_from_file X P M path f =
     rbind (detect_binary_format P f) (\<lambda>format. case format of
       MachO64 \<Rightarrow> read_macho_runtime_data X M path f
     | UnsupportedMachO description \<Rightarrow> Inl (Invalid (description @ '' Mach-O binaries are not supported''))
     | Pe \<Rightarrow> read_pe_runtime_data X P path f
     | Other \<Rightarrow> read_runtime_data_with_search_spec X path f
         \<lparr>fs_data_end = length f, fs_alignment = 1, fs_minimum_payload_offset = 0\<rparr>)"

section \<open>The reader capability record\<close>

definition READER_CAPABILITY_MAGIC :: bytes where
  "READER_CAPABILITY_MAGIC = map of_char ''CONDA_SHIP_READ1''"

definition READER_CAPABILITY_VERSION :: nat where
  "READER_CAPABILITY_VERSION = 1"

definition MACHO_READER_LAYOUT_KIND :: nat where
  "MACHO_READER_LAYOUT_KIND = 1"

definition PE_READER_LAYOUT_KIND :: nat where
  "PE_READER_LAYOUT_KIND = 2"

datatype target_os = Macos | Windows | Other_Os

text \<open>The \<open>repr(C)\<close> record of \<open>reader_capability_record\<close> as little-endian bytes.\<close>

definition reader_capability_record :: "target_os \<Rightarrow> bytes" where
  "reader_capability_record os =
     READER_CAPABILITY_MAGIC @ le_bytes 4 READER_CAPABILITY_VERSION @ le_bytes 4 FORMAT_VERSION
       @ le_bytes 4 (case os of Macos \<Rightarrow> MACHO_READER_LAYOUT_KIND | Windows \<Rightarrow> PE_READER_LAYOUT_KIND
                     | Other_Os \<Rightarrow> 0)
       @ le_bytes 4 0 @ replicate 16 0"

definition validate_reader_capability_record ::
    "bytes \<Rightarrow> (nat \<times> nat) option \<Rightarrow> nat \<Rightarrow> unit result" where
  "validate_reader_capability_record f location expected_layout_kind =
     rbind (ok_or ''runtime template does not declare the signed-layout reader ABI'' location)
       (\<lambda>(offset, storage_len).
     if storage_len < READER_CAPABILITY_RECORD_LEN
     then Inl (Invalid ''runtime template reader capability record is truncated'')
     else
       rbind (read_exact_at f offset READER_CAPABILITY_RECORD_LEN) (\<lambda>record'.
       let read_u32 = (\<lambda>start. le_nat (bytes_at record' start 4)) in
       if take 16 record' \<noteq> READER_CAPABILITY_MAGIC \<or> read_u32 16 \<noteq> READER_CAPABILITY_VERSION
          \<or> read_u32 20 \<noteq> FORMAT_VERSION \<or> read_u32 24 \<noteq> expected_layout_kind \<or> read_u32 28 \<noteq> 0
          \<or> \<not> all_zero (drop 32 record')
       then Inl (Invalid ''runtime template reader capability record is invalid'')
       else if \<not> all_zero (bytes_at f (offset + READER_CAPABILITY_RECORD_LEN)
                             (storage_len - READER_CAPABILITY_RECORD_LEN))
       then Inl (Invalid ''runtime template reader capability section has nonzero padding'')
       else Inr ()))"

definition validate_runtime_template_reader :: "pe_ext \<Rightarrow> macho_ext \<Rightarrow> bytes \<Rightarrow> unit result" where
  "validate_runtime_template_reader P M f =
     rbind (detect_binary_format P f) (\<lambda>format. case format of
       MachO64 \<Rightarrow> rbind (read_macho_layout M f) (\<lambda>l.
         validate_reader_capability_record f (ml_reader_capability l) MACHO_READER_LAYOUT_KIND)
     | Pe \<Rightarrow> rbind (read_pe_layout P f) (\<lambda>l.
         validate_reader_capability_record f (pl_reader_capability l) PE_READER_LAYOUT_KIND)
     | _ \<Rightarrow> Inr ())"

section \<open>Stamping\<close>

record stamp_env =
  se_is_symlink :: bool
  se_is_file :: bool
  se_input :: bytes
  se_metadata :: file_metadata
  se_copied_metadata :: file_metadata
  se_second_read :: bytes
  se_path_matches_opened :: bool
  se_temporary_matches :: bool
  se_path_matches_input :: bool
  se_rename_ok :: bool
  se_persisted_matches :: bool

text \<open>The checks before the first byte of output: a plain file that did not change while copied.\<close>

definition template_snapshot :: "codec_ext \<Rightarrow> stamp_env \<Rightarrow> bytes result" where
  "template_snapshot X env =
     (if se_is_symlink env then Inl (Invalid ''runtime template path is a symbolic link'')
      else if \<not> se_is_file env then Inl (Invalid ''runtime template is not a regular file'')
      else if \<not> se_path_matches_opened env
      then Inl (Invalid ''runtime template path was replaced before it could be opened'')
      else if fm_len (se_copied_metadata env) \<noteq> fm_len (se_metadata env)
              \<or> times_differ (fm_modified (se_metadata env)) (fm_modified (se_copied_metadata env))
      then Inl (Invalid ''runtime template changed while being read'')
      else
        rbind (hash_file_range X (se_input env) 0 (fm_len (se_metadata env))) (\<lambda>copied_sha256.
        rbind (hash_file_range X (se_second_read env) 0 (fm_len (se_metadata env))) (\<lambda>source_sha256.
        if copied_sha256 \<noteq> source_sha256 then Inl (Invalid ''runtime template changed while being read'')
        else Inr (se_input env))))"

definition stamp_output ::
    "codec_ext \<Rightarrow> pe_ext \<Rightarrow> macho_ext \<Rightarrow> bytes \<Rightarrow> (bundle_source \<times> bundle_reads) option
       \<Rightarrow> prepared_data \<Rightarrow> string \<Rightarrow> bytes result" where
  "stamp_output X P M input bundle prepared platform =
     rbind (detect_binary_format P input) (\<lambda>format. case format of
       MachO64 \<Rightarrow> write_macho_runtime_data X M input bundle prepared platform
     | UnsupportedMachO description \<Rightarrow> Inl (Invalid (description @ '' Mach-O binaries are not supported''))
     | Pe \<Rightarrow> write_pe_runtime_data X P input bundle prepared platform
     | Other \<Rightarrow> rbind (write_runtime_payload X bundle prepared) (\<lambda>payload. Inr (input @ payload)))"

definition check_stamp ::
    "codec_ext \<Rightarrow> pe_ext \<Rightarrow> macho_ext \<Rightarrow> path \<Rightarrow> bytes \<Rightarrow> runtime_header \<Rightarrow> nat \<Rightarrow> unit result" where
  "check_stamp X P M temporary_path output header bundle_len =
     rbind (rbind (read_from_file X P M temporary_path output)
              (ok_or ''completed runtime data stamp could not be read'')) (\<lambda>written.
     if rd_header written \<noteq> header
     then Inl (Invalid ''completed runtime data stamp does not match its requested header'')
     else case rd_bundle written of
       Some embedded \<Rightarrow>
         rbind (hash_file_range X output (eb_offset embedded) (eb_len embedded)) (\<lambda>actual.
         if actual \<noteq> eb_sha256 embedded then Inl (Invalid ''embedded bundle checksum mismatch'')
         else Inr ())
     | None \<Rightarrow>
         if bundle_len \<noteq> 0
         then Inl (Invalid ''completed runtime data stamp is missing its embedded bundle'')
         else Inr ())"

text \<open>Everything up to the rename; the result is the content of the temporary file.\<close>

definition stamp_temporary ::
    "codec_ext \<Rightarrow> pe_ext \<Rightarrow> macho_ext \<Rightarrow> stamp_env \<Rightarrow> path \<Rightarrow> runtime_header
       \<Rightarrow> (bundle_source \<times> bundle_reads) option \<Rightarrow> bytes result" where
  "stamp_temporary X P M env temporary_path header bundle =
     rbind (prepare_runtime_data X header (map_option fst bundle)) (\<lambda>prepared.
     rbind (template_snapshot X env) (\<lambda>input.
     rbind (stamp_output X P M input bundle prepared (h_platform header)) (\<lambda>output.
     rbind (check_stamp X P M temporary_path output header (p_bundle_len prepared)) (\<lambda>_.
     if \<not> se_temporary_matches env
     then Inl (Invalid ''temporary runtime output was replaced before persistence'')
     else if \<not> se_path_matches_input env
     then Inl (Invalid ''runtime template path was replaced while being stamped'')
     else Inr output))))"

definition append_to_binary ::
    "codec_ext \<Rightarrow> pe_ext \<Rightarrow> macho_ext \<Rightarrow> stamp_env \<Rightarrow> path \<Rightarrow> runtime_header
       \<Rightarrow> (bundle_source \<times> bundle_reads) option \<Rightarrow> unit result \<times> bytes option" where
  "append_to_binary X P M env temporary_path header bundle =
     (case stamp_temporary X P M env temporary_path header bundle of
        Inl e \<Rightarrow> (Inl e, None)
      | Inr output \<Rightarrow>
          if \<not> se_rename_ok env then (Inl Io_Failed, None)
          else if \<not> se_persisted_matches env
          then (Inl (Invalid ''persisted runtime output was replaced during persistence''), Some output)
          else (Inr (), Some output))"

section \<open>What the readers and the self-check guarantee\<close>

lemma check_stamp_Inr:
  assumes "check_stamp X P M path out h n = Inr ()"
  obtains data where "read_from_file X P M path out = Inr (Some data)" "rd_header data = h"
    "rd_bundle data = None \<longrightarrow> n = 0"
    "\<forall>e. rd_bundle data = Some e \<longrightarrow> verify_bundle X out e = Inr ()"
  using assms
  by (auto simp: check_stamp_def rbind_eq_Inr ok_or_eq_Inr if_error_eq_Inr verify_bundle_def split: option.splits)

lemma stamp_temporary_Inr:
  assumes "stamp_temporary X P M env path h bundle = Inr out"
  obtains p where "prepare_runtime_data X h (map_option fst bundle) = Inr p"
    "template_snapshot X env = Inr (se_input env)"
    "stamp_output X P M (se_input env) bundle p (h_platform h) = Inr out"
    "check_stamp X P M path out h (p_bundle_len p) = Inr ()"
  using assms
  by (auto simp: stamp_temporary_def rbind_eq_Inr if_error_eq_Inr template_snapshot_def)

lemma template_snapshot_Inr:
  assumes "template_snapshot X env = Inr input"
  shows "input = se_input env" "\<not> se_is_symlink env"
    "sha256 X (take (fm_len (se_metadata env)) (se_input env)) =
     sha256 X (take (fm_len (se_metadata env)) (se_second_read env))"
    "fm_len (se_metadata env) \<le> length (se_input env)"
  using assms
  by (auto simp: template_snapshot_def rbind_eq_Inr if_error_eq_Inr hash_file_range_def bytes_at_def
      split: if_splits)

text \<open>Detection looks at the first bytes only, except for what the PE parser says.\<close>

lemma detect_Other_append:
  assumes "detect_binary_format P f = Inr Other" "4 \<le> length f"
  shows "detect_binary_format P (f @ g) = Inr Other"
proof -
  have t4: "take 4 (take 16 (f @ g @ replicate 16 0)) = take 4 f" "take 4 (take 16 (f @ replicate 16 0)) = take 4 f"
    using assms(2) by (simp_all add: min_def)
  have t2: "take 2 (take 16 (f @ g @ replicate 16 0)) = take 2 f" "take 2 (take 16 (f @ replicate 16 0)) = take 2 f"
    using assms(2) by (simp_all add: min_def)
  show ?thesis
    using assms unfolding detect_binary_format_def Let_def append_assoc t4 t2
    by (auto simp: rbind_eq_Inr split: option.splits if_splits file_kind.splits)
qed

lemma plain_sample: "detect_binary_format sample_pe (replicate 8 1) = Inr Other"
  by code_simp

section \<open>Properties\<close>

text \<open>
  C1. \<open>append_to_binary\<close> never installs an executable that does not read back. Whatever the
  environment does (input replaced or changed while it is read, failing rename), either the
  file keeps its old content and an error is returned, or its new content is a file whose
  runtime data reads back with exactly the requested header and with an embedded bundle that
  passes its checksum (none only if none was requested).
\<close>

theorem append_installs_only_verified:
  "case append_to_binary X P M env path h bundle of
     (r, None) \<Rightarrow> \<not> is_ok r
   | (_, Some out) \<Rightarrow> \<exists>data. read_from_file X P M path out = Inr (Some data) \<and> rd_header data = h \<and>
       h_schema_version h = FORMAT_VERSION \<and>
       (case rd_bundle data of
          None \<Rightarrow> (case bundle of None \<Rightarrow> True | Some (source, _) \<Rightarrow> bs_len source = 0)
        | Some e \<Rightarrow> verify_bundle X out e = Inr ())"
proof (cases "stamp_temporary X P M env path h bundle")
  case (Inl e)
  then show ?thesis by (simp add: append_to_binary_def)
next
  case (Inr out)
  then obtain p where p: "prepare_runtime_data X h (map_option fst bundle) = Inr p"
    and check: "check_stamp X P M path out h (p_bundle_len p) = Inr ()"
    by (rule stamp_temporary_Inr)
  from check obtain data where data: "read_from_file X P M path out = Inr (Some data)" "rd_header data = h"
    "rd_bundle data = None \<longrightarrow> p_bundle_len p = 0"
    "\<forall>e. rd_bundle data = Some e \<longrightarrow> verify_bundle X out e = Inr ()"
    by (rule check_stamp_Inr)
  have "case rd_bundle data of
          None \<Rightarrow> (case bundle of None \<Rightarrow> True | Some (source, _) \<Rightarrow> bs_len source = 0)
        | Some e \<Rightarrow> verify_bundle X out e = Inr ()"
    using data(3,4) prepare_runtime_data_Inr(5) [OF p] by (auto split: option.splits)
  with Inr data(1,2) prepare_runtime_data_Inr(1) [OF p] show ?thesis
    by (simp add: append_to_binary_def)
qed

text \<open>
  A plain executable (neither PE nor Mach-O) always reads back: appending the payload to
  a template of at least 4 bytes gives a file whose runtime data is the stamped header and
  the bundle at its place behind it, so the self-check of \<open>append_to_binary\<close> cannot fail.
\<close>

theorem plain_stamp_reads_back:
  assumes laws: "codec_laws X"
    and prep: "prepare_runtime_data X h (map_option fst bundle) = Inr p"
    and plain: "detect_binary_format P t = Inr Other" "4 \<le> length t"
    and written: "stamp_output X P M t bundle p platform = Inr out"
  shows "read_from_file X P M path out = Inr (Some
      \<lparr>rd_header = h,
       rd_bundle = (if bundle_bytes bundle = [] then None
         else Some \<lparr>eb_executable = path, eb_offset = length t + p_header_len p,
                    eb_len = p_bundle_len p, eb_sha256 = sha256 X (bundle_bytes bundle)\<rparr>),
       rd_stamped = True\<rparr>)
     \<and> check_stamp X P M path out h (p_bundle_len p) = Inr ()"
proof -
  from written plain(1) obtain content footer where w: "write_runtime_content X bundle p = Inr (content, footer)"
    and o: "out = t @ content @ footer"
    by (auto simp: stamp_output_def write_runtime_payload_def rbind_eq_Inr)
  note st = prepared_stampable [OF laws prep w] and W = write_runtime_content_Inr [OF w]
    and H = prepare_runtime_data_Inr(3) [OF prep]
  let ?hb = "p_header_bytes p" and ?b = "bundle_bytes bundle"
  let ?spec = "\<lparr>fs_data_end = length out, fs_alignment = 1, fs_minimum_payload_offset = 0\<rparr>"
  let ?data = "stamped_data X path (length t) h ?hb ?b"
  have out: "out = t @ stamp_payload X ?hb ?b @ replicate 0 0 @ []" using o st(2) by simp
  have "read_runtime_data_with_search_spec X path out ?spec = Inr (Some ?data)"
    by (rule search_finds_stamp [OF st(1) out]) (simp_all add: out)
  moreover have "detect_binary_format P out = Inr Other"
    unfolding o by (rule detect_Other_append [OF plain])
  ultimately have read: "read_from_file X P M path out = Inr (Some ?data)"
    by (simp add: read_from_file_def)
  have body: "bytes_at out (length t + length ?hb) (length ?b) = ?b"
    by (simp add: out stamp_payload_def bytes_at_def)
  have "check_stamp X P M path out h (p_bundle_len p) = Inr ()"
    using read body by (cases "bundle_bytes bundle = []") (use W(2) in \<open>auto simp: check_stamp_def stamped_data_def hash_file_range_def\<close>)
  with read show ?thesis using H W(2) by (simp add: stamped_data_def)
qed

theorem plain_stamp_reads_back_witness:
  "\<exists>out. stamp_output sample_codec sample_pe sample_macho (replicate 8 1) sample_bundle sample_prepared '''' = Inr out \<and>
     check_stamp sample_codec sample_pe sample_macho [''demo''] out sample_header 2 = Inr ()"
proof -
  let ?out = "replicate 8 1 @ [1, 2, 7, 8] @
    encode_footer 2 2 (sha256 sample_codec [1, 2]) (sha256 sample_codec [7, 8])"
  from plain_sample have "stamp_output sample_codec sample_pe sample_macho (replicate 8 1) sample_bundle sample_prepared ''''
      = Inr ?out"
    by (simp add: stamp_output_def write_runtime_payload_def sample_content)
  with plain_stamp_reads_back [OF sample_codec_laws sample_prepare plain_sample _ this, of "[''demo'']"]
  show ?thesis by simp
qed

text \<open>
  The reader capability check accepts exactly the record a template of that system
  carries: 48 bytes equal to \<open>reader_capability_record\<close>, followed by zero bytes up to the end
  of its section.
\<close>

definition layout_kind_of :: "target_os \<Rightarrow> nat" where
  "layout_kind_of os =
     (case os of Macos \<Rightarrow> MACHO_READER_LAYOUT_KIND | Windows \<Rightarrow> PE_READER_LAYOUT_KIND | Other_Os \<Rightarrow> 0)"

lemma reader_record_parts:
  "length (reader_capability_record os) = 48" "take 16 (reader_capability_record os) = READER_CAPABILITY_MAGIC"
  "bytes_at (reader_capability_record os) 16 4 = le_bytes 4 1" "bytes_at (reader_capability_record os) 20 4 = le_bytes 4 1"
  "bytes_at (reader_capability_record os) 24 4 = le_bytes 4 (layout_kind_of os)"
  "bytes_at (reader_capability_record os) 28 4 = le_bytes 4 0" "drop 32 (reader_capability_record os) = replicate 16 0"
  by (simp_all add: reader_capability_record_def READER_CAPABILITY_MAGIC_def READER_CAPABILITY_VERSION_def
      FORMAT_VERSION_def layout_kind_of_def bytes_at_def)

lemma reader_record_split:
  assumes "length r = 48"
  shows "r = take 16 r @ bytes_at r 16 4 @ bytes_at r 20 4 @ bytes_at r 24 4 @ bytes_at r 28 4 @ drop 32 r"
proof -
  have cut: "bytes_at r a m @ drop (a + m) r = drop a r" for a m
    by (metis add.commute append_take_drop_id drop_drop bytes_at_def)
  show ?thesis using cut [of 16 4] cut [of 20 4] cut [of 24 4] cut [of 28 4] by simp
qed

lemma reader_record_eq:
  assumes "length r = 48"
  shows "r = reader_capability_record os \<longleftrightarrow>
     take 16 r = READER_CAPABILITY_MAGIC \<and> le_nat (bytes_at r 16 4) = 1 \<and> le_nat (bytes_at r 20 4) = 1 \<and>
     le_nat (bytes_at r 24 4) = layout_kind_of os \<and> le_nat (bytes_at r 28 4) = 0 \<and> all_zero (drop 32 r)"
    (is "_ \<longleftrightarrow> ?fields")
proof
  have kind: "layout_kind_of os < 256 ^ 4"
    by (cases os) (simp_all add: layout_kind_of_def MACHO_READER_LAYOUT_KIND_def PE_READER_LAYOUT_KIND_def)
  show ?fields if "r = reader_capability_record os"
    using kind unfolding that reader_record_parts le_nat_le_bytes by simp
  show "r = reader_capability_record os" if f: ?fields
  proof -
    have field: "bytes_at r a 4 = le_bytes 4 (le_nat (bytes_at r a 4))" if "a + 4 \<le> 48" for a
      using that assms by (intro le_bytes_le_nat [symmetric]) simp
    have "bytes_at r 16 4 = le_bytes 4 1" "bytes_at r 20 4 = le_bytes 4 1"
      "bytes_at r 24 4 = le_bytes 4 (layout_kind_of os)" "bytes_at r 28 4 = le_bytes 4 0"
      using field [of 16] field [of 20] field [of 24] field [of 28] f by (simp_all del: le_bytes.simps)
    moreover have "drop 32 r = replicate 16 0" using f assms by (simp add: all_zero_eq_replicate)
    ultimately show ?thesis
      using reader_record_split [OF assms] f
        reader_record_split [OF reader_record_parts(1), of os] reader_record_parts [of os]
      by (simp del: le_bytes.simps)
  qed
qed

theorem reader_capability_exact:
  "validate_reader_capability_record f (Some (off, n)) (layout_kind_of os) = Inr () \<longleftrightarrow>
     48 \<le> n \<and> bytes_at f off 48 = reader_capability_record os \<and> all_zero (bytes_at f (off + 48) (n - 48))"
proof (cases "length (bytes_at f off 48) = 48")
  case True
  show ?thesis
    unfolding validate_reader_capability_record_def reader_record_eq [OF True]
    using True
    by (auto simp: read_exact_at_def READER_CAPABILITY_RECORD_LEN_def Let_def READER_CAPABILITY_VERSION_def
        FORMAT_VERSION_def not_less)
next
  case False
  then have "bytes_at f off 48 \<noteq> reader_capability_record os" using reader_record_parts(1) by metis
  with False show ?thesis
    by (auto simp: validate_reader_capability_record_def read_exact_at_def READER_CAPABILITY_RECORD_LEN_def)
qed

text \<open>
  C8. The footer codec is exact: a block of 100 bytes decodes to \<open>d\<close> if and only if it is the
  encoding of the fields of \<open>d\<close>, which are 64-bit lengths and 32-byte digests.
\<close>

theorem footer_codec_exact:
  "decode_footer f = Inr (Some d) \<and> length f = FOOTER_LEN \<longleftrightarrow>
     f = encode_footer (d_header_len d) (d_bundle_len d) (d_header_sha256 d) (d_bundle_sha256 d) \<and>
     d_header_len d < 2 ^ 64 \<and> d_bundle_len d < 2 ^ 64 \<and>
     length (d_header_sha256 d) = 32 \<and> length (d_bundle_sha256 d) = 32"
  (is "?decodes \<longleftrightarrow> ?encoded")
proof
  show ?encoded if ?decodes using decode_footer_Some [of f d] that by blast
  show ?decodes if e: ?encoded
  proof -
    let ?x = "(d_header_len d, d_bundle_len d, d_header_sha256 d, d_bundle_sha256 d)"
    have "footer_fields_ok ?x" using e by (simp add: footer_fields_ok_def)
    from footer_codec.dec_enc [OF this] footer_codec.enc_length [OF this] e show ?thesis by simp
  qed
qed

text \<open>
  C7. Whatever the format of the executable, runtime data is only returned when it is
  authentic: some 100 bytes of the file are a footer, the header is the parse of the bytes it
  describes and their digest is the one it records, the schema version is supported, and the
  bundle range follows the header with the recorded length and digest.
\<close>

theorem read_from_file_authentic:
  assumes "read_from_file X P M path f = Inr (Some data)"
  shows "\<exists>d start footer_start. length (bytes_at f footer_start FOOTER_LEN) = FOOTER_LEN \<and>
     decode_footer (bytes_at f footer_start FOOTER_LEN) = Inr (Some d) \<and> authentic X path f start d data"
proof -
  have search: ?thesis if "read_runtime_data_with_search_spec X path f spec = Inr (Some data)" for spec
    using that by (rule search_spec_Some) (auto simp: located_def)
  have anchored: ?thesis if "read_pe_anchored X path f l a = Inr (Some data)" for l a
    using that
    by (auto simp: read_pe_anchored_def Let_def rbind_eq_Inr ok_or_eq_Inr if_error_eq_Inr read_exact_at_eq_Inr
        read_runtime_data_payload_eq_Inr simp del: FOOTER_LEN_eq split: prod.splits)
  from assms obtain format where "(case format of
       MachO64 \<Rightarrow> read_macho_runtime_data X M path f
     | UnsupportedMachO description \<Rightarrow> Inl (Invalid (description @ '' Mach-O binaries are not supported''))
     | Pe \<Rightarrow> read_pe_runtime_data X P path f
     | Other \<Rightarrow> read_runtime_data_with_search_spec X path f
         \<lparr>fs_data_end = length f, fs_alignment = 1, fs_minimum_payload_offset = 0\<rparr>) = Inr (Some data)"
    unfolding read_from_file_def rbind_eq_Inr by blast
  then consider (macho) "read_macho_runtime_data X M path f = Inr (Some data)"
    | (pe) "read_pe_runtime_data X P path f = Inr (Some data)"
    | (other) spec where "read_runtime_data_with_search_spec X path f spec = Inr (Some data)"
    by (cases format) auto
  then show ?thesis
  proof cases
    case macho
    then obtain spec where "read_runtime_data_with_search_spec X path f spec = Inr (Some data)"
      by (auto simp: read_macho_runtime_data_def rbind_eq_Inr)
    then show ?thesis by (rule search)
  next
    case pe
    then obtain l where "read_pe_unanchored X path f l = Inr (Some data) \<or>
        (\<exists>a. read_pe_anchored X path f l a = Inr (Some data))"
      by (auto simp: read_pe_runtime_data_def rbind_eq_Inr split: option.splits)
    then consider spec where "read_runtime_data_with_search_spec X path f spec = Inr (Some data)"
      | a where "read_pe_anchored X path f l a = Inr (Some data)"
      by (auto simp: read_pe_unanchored_def rbind_eq_Inr if_error_eq_Inr split: option.splits)
    then show ?thesis by cases (fact search anchored)+
  next
    case other
    then show ?thesis by (rule search)
  qed
qed

theorem read_from_file_authentic_witness:
  "\<exists>f data d start. read_from_file sample_codec sample_pe sample_macho [''demo''] f = Inr (Some data) \<and>
     authentic sample_codec [''demo''] f start d data"
proof -
  let ?f = "replicate 8 1 @ stamp_payload sample_codec [1, 2] [7, 8] @ replicate 0 0 @ []"
  have ok: "stampable sample_codec sample_header [1, 2] [7, 8]"
    by (simp add: stampable_def FORMAT_VERSION_def MAX_HEADER_LEN_def)
  have "read_runtime_data_with_search_spec sample_codec [''demo''] ?f
      \<lparr>fs_data_end = length ?f, fs_alignment = 1, fs_minimum_payload_offset = 0\<rparr> =
      Inr (Some (stamped_data sample_codec [''demo''] (length (replicate 8 (1 :: byte))) sample_header [1, 2] [7, 8]))"
    by (rule search_finds_stamp [OF ok refl]) simp_all
  then have "\<exists>data. read_from_file sample_codec sample_pe sample_macho [''demo''] ?f = Inr (Some data)"
    using detect_Other_append [OF plain_sample] by (simp add: read_from_file_def)
  with read_from_file_authentic show ?thesis by blast
qed

end
