(* ===== verification/Http_Urls.thy ===== *)
theory Http_Urls
  imports Names
begin

text \<open>
  URLs of artifacts and downloads (\<open>src/http.rs\<close>): what may be published, and when a redirect is
  followed. Parsing is \<open>reqwest::Url\<close>, the parameter \<open>parse_url\<close>; \<open>url\<close> holds the parts that the source reads.
  The clients themselves (timeouts, authentication, OCI) are not modelled.
\<close>

record url =
  url_scheme :: string
  url_username :: string
  url_password :: "string option"
  url_query :: "string option"
  url_fragment :: "string option"
  url_segments :: "string list option"
  url_text :: string

section \<open>Percent decoding\<close>

definition hex_value :: "char \<Rightarrow> nat" where
  "hex_value c = (if is_ascii_digit c then code c - 48 else if code c \<ge> 97 then code c - 87 else code c - 55)"

fun percent_decode :: "string \<Rightarrow> string" where
  "percent_decode (c # a # b # s) =
     (if c = CHR ''%'' \<and> is_ascii_hexdigit a \<and> is_ascii_hexdigit b
      then char_of (16 * hex_value a + hex_value b) # percent_decode s
      else c # percent_decode (a # b # s))"
| "percent_decode s = s"

lemma percent_decode_shorter: "percent_decode s = s \<or> length (percent_decode s) < length s"
  by (induction s rule: percent_decode.induct) auto

section \<open>Tokens in paths\<close>

definition path_separator :: "char \<Rightarrow> bool" where
  "path_separator c = (c = CHR ''/'' \<or> c = CHR 0x5C)"

fun split_path :: "string \<Rightarrow> string list" where
  "split_path [] = [[]]"
| "split_path (c # s) =
     (if path_separator c then [] # split_path s
      else case split_path s of [] \<Rightarrow> [[c]] | y # ys \<Rightarrow> (c # y) # ys)"

text \<open>A segment after the segment \<open>t\<close>: an Anaconda token.\<close>

fun token_after :: "string \<Rightarrow> string list \<Rightarrow> bool" where
  "token_after previous [] = False"
| "token_after previous (segment # segments) =
     ((previous = ''t'' \<and> segment \<noteq> []) \<or> token_after segment segments)"

function check_published_path :: "string \<Rightarrow> unit result" where
  "check_published_path p =
     (if token_after [] (split_path p) then Inl (Invalid ''must not contain credentials'')
      else let decoded = percent_decode p in
        if decoded = p then Inr () else check_published_path decoded)"
  by pat_completeness auto
termination
  by (relation "measure length") (use percent_decode_shorter in \<open>auto simp: Let_def\<close>)

declare check_published_path.simps [simp del]

definition validate_artifact_url :: "(string \<Rightarrow> url result) \<Rightarrow> string \<Rightarrow> unit result" where
  "validate_artifact_url parse_url value =
     rbind (parse_url value) (\<lambda>url.
     if url_username url \<noteq> [] \<or> url_password url \<noteq> None then Inl (Invalid ''must not contain credentials'')
     else if url_query url \<noteq> None \<or> url_fragment url \<noteq> None then Inl (Invalid ''must not contain a query or fragment'')
     else check_published_path value)"

section \<open>Redirects\<close>

definition is_https_downgrade :: "url \<Rightarrow> url \<Rightarrow> bool" where
  "is_https_downgrade previous next_url = (url_scheme previous = ''https'' \<and> url_scheme next_url \<noteq> ''https'')"

datatype redirect_action = Follow_Redirect | Redirect_Error string

text \<open>\<open>previous\<close>: the URLs requested so far, the last one answered with the redirect.\<close>

definition redirect_policy :: "url list \<Rightarrow> url \<Rightarrow> redirect_action" where
  "redirect_policy previous next_url =
     (if previous \<noteq> [] \<and> is_https_downgrade (last previous) next_url
      then Redirect_Error ''refusing an HTTPS redirect to a non-HTTPS URL''
      else if length previous \<ge> 10 then Redirect_Error ''too many redirects''
      else Follow_Redirect)"

text \<open>The URLs a client that asks the policy before every redirect can visit.\<close>

inductive followed :: "url \<Rightarrow> url list \<Rightarrow> bool" for start where
  request: "followed start [start]"
| redirect: "followed start urls \<Longrightarrow> redirect_policy urls next_url = Follow_Redirect \<Longrightarrow> followed start (urls @ [next_url])"

inductive_cases followedE: "followed start urls"

definition validate_response_url :: "url \<Rightarrow> url \<Rightarrow> unit result" where
  "validate_response_url requested final_url =
     (if is_https_downgrade requested final_url
      then Inl (Invalid ''runtime update download refused an HTTPS downgrade'') else Inr ())"

section \<open>Properties\<close>

lemma split_path_nonempty: "split_path s \<noteq> []"
  by (induction s) (auto split: list.split)

lemma token_after_iff:
  "token_after previous segments \<longleftrightarrow>
     (\<exists>i < length segments. segments ! i \<noteq> [] \<and> (previous # segments) ! i = ''t'')"
proof (induction segments arbitrary: previous)
  case (Cons segment segments)
  show ?case
    unfolding token_after.simps Cons.IH
    by (auto simp: less_Suc_eq_0_disj)
qed simp

lemma check_published_path_iff:
  "check_published_path p = Inr () \<longleftrightarrow> (\<forall>n. \<not> token_after [] (split_path ((percent_decode ^^ n) p)))"
proof (induction p rule: check_published_path.induct)
  case (1 p)
  show ?case
  proof (cases "token_after [] (split_path p)")
    case True
    then show ?thesis by (subst check_published_path.simps) (auto intro: exI [of _ 0])
  next
    case False
    show ?thesis
    proof (cases "percent_decode p = p")
      case True
      then have "(percent_decode ^^ n) p = p" for n by (induction n) simp_all
      with False True show ?thesis by (subst check_published_path.simps) simp
    next
      case decodes: False
      have "(\<forall>n. \<not> token_after [] (split_path ((percent_decode ^^ n) p)))
          \<longleftrightarrow> (\<forall>n. \<not> token_after [] (split_path ((percent_decode ^^ n) (percent_decode p))))"
      proof
        assume *: "\<forall>n. \<not> token_after [] (split_path ((percent_decode ^^ n) p))"
        show "\<forall>n. \<not> token_after [] (split_path ((percent_decode ^^ n) (percent_decode p)))"
        proof
          fix n show "\<not> token_after [] (split_path ((percent_decode ^^ n) (percent_decode p)))"
            using * [rule_format, of "Suc n"] by (simp add: funpow_swap1)
        qed
      next
        assume *: "\<forall>n. \<not> token_after [] (split_path ((percent_decode ^^ n) (percent_decode p)))"
        show "\<forall>n. \<not> token_after [] (split_path ((percent_decode ^^ n) p))"
        proof
          fix n show "\<not> token_after [] (split_path ((percent_decode ^^ n) p))"
            using * [rule_format, of "n - 1"] False by (cases n) (simp_all add: funpow_swap1)
        qed
      qed
      with 1 [OF False refl decodes] False decodes show ?thesis
        by (subst check_published_path.simps) (simp add: Let_def)
    qed
  qed
qed

text \<open>C39. The check of a published URL ends and is exact: the text is accepted exactly if it parses, has no user
  information, query or fragment, and, however often a server may percent-decode it, no segment \<open>t\<close> is
  followed by a non-empty segment, whether they are separated by slashes or backslashes.\<close>

theorem published_url_exact:
  "validate_artifact_url parse_url value = Inr () \<longleftrightarrow>
     (\<exists>url. parse_url value = Inr url \<and> url_username url = [] \<and> url_password url = None
        \<and> url_query url = None \<and> url_fragment url = None)
     \<and> (\<nexists>n i. Suc i < length (split_path ((percent_decode ^^ n) value))
          \<and> split_path ((percent_decode ^^ n) value) ! i = ''t'' \<and> split_path ((percent_decode ^^ n) value) ! Suc i \<noteq> [])"
proof -
  have token: "token_after [] segments \<longleftrightarrow> (\<exists>i. Suc i < length segments \<and> segments ! i = ''t'' \<and> segments ! Suc i \<noteq> [])"
    for segments
  proof
    assume "token_after [] segments"
    then obtain i where i: "i < length segments" "segments ! i \<noteq> []" "([] # segments) ! i = ''t''" by (auto simp: token_after_iff)
    then obtain j where "i = Suc j" by (cases i) auto
    with i show "\<exists>i. Suc i < length segments \<and> segments ! i = ''t'' \<and> segments ! Suc i \<noteq> []" by auto
  next
    assume "\<exists>i. Suc i < length segments \<and> segments ! i = ''t'' \<and> segments ! Suc i \<noteq> []"
    then obtain i where "Suc i < length segments" "segments ! i = ''t''" "segments ! Suc i \<noteq> []" by blast
    then show "token_after [] segments" by (auto simp: token_after_iff intro!: exI [of _ "Suc i"])
  qed
  show ?thesis
    by (cases "parse_url value") (auto simp: validate_artifact_url_def check_published_path_iff token)
qed

lemma followed_facts:
  "followed start urls \<Longrightarrow> urls \<noteq> [] \<and> hd urls = start \<and> length urls \<le> 10
     \<and> (\<forall>i. Suc i < length urls \<longrightarrow> \<not> is_https_downgrade (urls ! i) (urls ! Suc i))"
proof (induction rule: followed.induct)
  case (redirect urls next_url)
  have "\<not> is_https_downgrade ((urls @ [next_url]) ! i) ((urls @ [next_url]) ! Suc i)" if "Suc i < length (urls @ [next_url])" for i
  proof (cases "Suc i = length urls")
    case True
    then have "length urls - 1 = i" by simp
    then have "urls ! i = last urls" using redirect.IH by (simp add: last_conv_nth)
    then show ?thesis
      using True redirect.IH redirect.hyps(2) by (auto simp: nth_append redirect_policy_def split: if_splits)
  next
    case False
    then show ?thesis using that redirect.IH by (simp add: nth_append)
  qed
  moreover have "length urls < 10" using redirect.hyps(2) by (auto simp: redirect_policy_def split: if_splits)
  ultimately show ?case using redirect.IH by simp
qed simp

lemma https_kept:
  assumes steps: "\<forall>i. Suc i < length urls \<longrightarrow> \<not> is_https_downgrade (urls ! i) (urls ! Suc i)"
    and "i \<le> j" "j < length urls" "url_scheme (urls ! i) = ''https''"
  shows "url_scheme (urls ! j) = ''https''"
  using assms(2-4)
proof (induction j)
  case (Suc j)
  then show ?case
    using steps by (cases "i = Suc j") (auto simp: is_https_downgrade_def)
qed simp

text \<open>Redirects keep HTTPS and end: of the URLs a download visits, none that follows an HTTPS URL is without
  HTTPS, there are at most ten, and \<open>validate_response_url\<close> accepts the last one for the first.\<close>

theorem redirects_keep_https:
  assumes "followed start urls"
  shows "length urls \<le> 10 \<and> validate_response_url start (last urls) = Inr ()
     \<and> (\<forall>i j. i \<le> j \<longrightarrow> j < length urls \<longrightarrow> url_scheme (urls ! i) = ''https'' \<longrightarrow> url_scheme (urls ! j) = ''https'')"
proof -
  note facts = followed_facts [OF assms]
  have kept: "url_scheme (urls ! j) = ''https''" if "i \<le> j" "j < length urls" "url_scheme (urls ! i) = ''https''" for i j
    using https_kept [OF _ that] facts by blast
  have "url_scheme start = ''https'' \<Longrightarrow> url_scheme (last urls) = ''https''"
  proof -
    have "urls ! 0 = start" "last urls = urls ! (length urls - 1)" "0 < length urls"
      using facts by (simp_all add: last_conv_nth hd_conv_nth [symmetric])
    then show "url_scheme start = ''https'' \<Longrightarrow> url_scheme (last urls) = ''https''"
      using kept [of 0 "length urls - 1"] by simp
  qed
  then show ?thesis using facts kept by (auto simp: validate_response_url_def is_https_downgrade_def)
qed

definition sample_url :: "string \<Rightarrow> url" where
  "sample_url scheme = \<lparr>url_scheme = scheme, url_username = [], url_password = None, url_query = None, url_fragment = None,
     url_segments = None, url_text = []\<rparr>"

lemma redirects_keep_https_witness:
  "validate_response_url (sample_url ''http'') (last [sample_url ''http'', sample_url ''https'', sample_url ''https'']) = Inr ()"
proof -
  have "followed (sample_url ''http'') (([sample_url ''http''] @ [sample_url ''https'']) @ [sample_url ''https''])"
    by (intro followed.intros) (simp_all add: redirect_policy_def sample_url_def is_https_downgrade_def)
  from redirects_keep_https [OF this] show ?thesis by simp
qed

end
