(* ===== verification/File_System.thy ===== *)
theory File_System
  imports Names
begin

text \<open>
  File system effects with faults. A computation is a function on the file system and a
  schedule of events: each operation of \<open>std::fs\<close> consumes one event, which lets it run
  (\<open>Go\<close>), fail (\<open>Fail k\<close>, after writing \<open>k\<close> bytes if it is a write) or stops the process
  (\<open>Halt k\<close>, before its effect if \<open>k = 0\<close>, after it otherwise, after \<open>k\<close> bytes for a write).
  The empty schedule lets everything run. \<open>wp\<close> (weakest precondition) states what holds when a computation
  returns, fails or is stopped, for every schedule: the crash-safety proofs are of this form.
  What a stopped process had done stays done (the model has no power loss; \<open>sync_all\<close> is an
  operation without effect), and one computation runs at a time (the callers hold a lock).
\<close>

datatype node = Regular bytes | Directory | Symlink path

type_synonym fs = "path \<Rightarrow> node option"

datatype event = Go | Fail nat | Halt nat

record world =
  w_fs :: fs
  w_schedule :: "event list"

datatype 'a outcome = Ok 'a | Err err | Crash

type_synonym 'a io = "world \<Rightarrow> 'a outcome \<times> world"

definition next_event :: "world \<Rightarrow> event \<times> world" where
  "next_event w = (case w_schedule w of [] \<Rightarrow> (Go, w) | e # es \<Rightarrow> (e, w\<lparr>w_schedule := es\<rparr>))"

section \<open>Sequencing\<close>

definition ret :: "'a \<Rightarrow> 'a io" where
  "ret x = (\<lambda>w. (Ok x, w))"

definition fail :: "err \<Rightarrow> 'a io" where
  "fail e = (\<lambda>w. (Err e, w))"

definition bindio :: "'a io \<Rightarrow> ('a \<Rightarrow> 'b io) \<Rightarrow> 'b io" where
  "bindio m f = (\<lambda>w. case m w of
     (Ok x, w') \<Rightarrow> f x w' | (Err e, w') \<Rightarrow> (Err e, w') | (Crash, w') \<Rightarrow> (Crash, w'))"

text \<open>A match on the \<open>Result\<close> of a call; a stopped process does not get there.\<close>

definition tryio :: "'a io \<Rightarrow> 'a result io" where
  "tryio m = (\<lambda>w. case m w of
     (Ok x, w') \<Rightarrow> (Ok (Inr x), w') | (Err e, w') \<Rightarrow> (Ok (Inl e), w') | (Crash, w') \<Rightarrow> (Crash, w'))"

definition lift_result :: "'a result \<Rightarrow> 'a io" where
  "lift_result r = (case r of Inl e \<Rightarrow> fail e | Inr x \<Rightarrow> ret x)"

definition ensure :: "bool \<Rightarrow> string \<Rightarrow> unit io" where
  "ensure b msg = (if b then ret () else fail (Invalid msg))"

lemma bindio_ret [simp]: "bindio (ret x) f = f x"
  by (rule ext) (simp add: bindio_def ret_def)

lemma bindio_fail [simp]: "bindio (fail e) f = fail e"
  by (rule ext) (simp add: bindio_def fail_def)

lemma bindio_assoc: "bindio (bindio m f) g = bindio m (\<lambda>x. bindio (f x) g)"
  by (rule ext) (simp add: bindio_def split: outcome.split prod.split)

lemma bindio_Ok: "m w = (Ok x, w') \<Longrightarrow> bindio m f w = f x w'"
  by (simp add: bindio_def)

lemma lift_result_simps [simp]: "lift_result (Inr x) = ret x" "lift_result (Inl e) = fail e"
  by (simp_all add: lift_result_def)

section \<open>Operations\<close>

text \<open>An operation that happens at once or not at all.\<close>

definition atomic_op :: "(fs \<Rightarrow> ('a \<times> fs) result) \<Rightarrow> 'a io" where
  "atomic_op act = (\<lambda>w. case next_event w of
     (Go, w') \<Rightarrow> (case act (w_fs w) of
        Inl e \<Rightarrow> (Err e, w') | Inr (x, s) \<Rightarrow> (Ok x, w'\<lparr>w_fs := s\<rparr>))
   | (Fail _, w') \<Rightarrow> (Err Io_Failed, w')
   | (Halt k, w') \<Rightarrow> (case act (w_fs w) of
        Inl _ \<Rightarrow> (Crash, w') | Inr (_, s) \<Rightarrow> (Crash, if k = 0 then w' else w'\<lparr>w_fs := s\<rparr>)))"

datatype file_kind_of = Is_File | Is_Directory | Is_Symlink

definition node_kind :: "node \<Rightarrow> file_kind_of" where
  "node_kind n = (case n of Regular _ \<Rightarrow> Is_File | Directory \<Rightarrow> Is_Directory | Symlink _ \<Rightarrow> Is_Symlink)"

text \<open>A final symbolic link is followed once.\<close>

definition follow :: "fs \<Rightarrow> path \<Rightarrow> node option" where
  "follow s p = (case s p of Some (Symlink q) \<Rightarrow> s q | n \<Rightarrow> n)"

definition parent_exists :: "fs \<Rightarrow> path \<Rightarrow> bool" where
  "parent_exists s p = (case parent p of None \<Rightarrow> False | Some d \<Rightarrow> d = [] \<or> follow s d = Some Directory)"

definition symlink_metadata :: "path \<Rightarrow> file_kind_of io" where
  "symlink_metadata p = atomic_op (\<lambda>s. case s p of None \<Rightarrow> Inl Not_Found | Some n \<Rightarrow> Inr (node_kind n, s))"

definition metadata_follow :: "path \<Rightarrow> file_kind_of io" where
  "metadata_follow p = atomic_op (\<lambda>s. case follow s p of None \<Rightarrow> Inl Not_Found | Some n \<Rightarrow> Inr (node_kind n, s))"

definition read_file :: "path \<Rightarrow> bytes io" where
  "read_file p = atomic_op (\<lambda>s. case follow s p of
     None \<Rightarrow> Inl Not_Found | Some (Regular b) \<Rightarrow> Inr (b, s) | Some _ \<Rightarrow> Inl Io_Failed)"

text \<open>\<open>create_new(true).open\<close>.\<close>

definition create_new :: "path \<Rightarrow> unit io" where
  "create_new p = atomic_op (\<lambda>s.
     if s p \<noteq> None then Inl Already_Exists
     else if \<not> parent_exists s p then Inl Not_Found
     else Inr ((), s(p \<mapsto> Regular [])))"

text \<open>\<open>File::create\<close> on a path that is no symbolic link.\<close>

definition create_truncate :: "path \<Rightarrow> unit io" where
  "create_truncate p = atomic_op (\<lambda>s. case s p of
     None \<Rightarrow> if parent_exists s p then Inr ((), s(p \<mapsto> Regular [])) else Inl Not_Found
   | Some (Regular _) \<Rightarrow> Inr ((), s(p \<mapsto> Regular []))
   | Some _ \<Rightarrow> Inl Io_Failed)"

text \<open>Writing to the file just created at \<open>p\<close>: a fault leaves a prefix.\<close>

definition append_bytes :: "fs \<Rightarrow> path \<Rightarrow> bytes \<Rightarrow> fs" where
  "append_bytes s p b = (case s p of Some (Regular c) \<Rightarrow> s(p \<mapsto> Regular (c @ b)) | _ \<Rightarrow> s)"

definition write_all :: "path \<Rightarrow> bytes \<Rightarrow> unit io" where
  "write_all p b = (\<lambda>w. case next_event w of
     (Go, w') \<Rightarrow> (Ok (), w'\<lparr>w_fs := append_bytes (w_fs w) p b\<rparr>)
   | (Fail k, w') \<Rightarrow> (Err Io_Failed, w'\<lparr>w_fs := append_bytes (w_fs w) p (take k b)\<rparr>)
   | (Halt k, w') \<Rightarrow> (Crash, w'\<lparr>w_fs := append_bytes (w_fs w) p (take k b)\<rparr>))"

definition rename :: "path \<Rightarrow> path \<Rightarrow> unit io" where
  "rename p q = atomic_op (\<lambda>s. case s p of
     None \<Rightarrow> Inl Not_Found
   | Some Directory \<Rightarrow> Inl Io_Failed
   | Some n \<Rightarrow> if s q = Some Directory then Inl Io_Failed
       else if \<not> parent_exists s q then Inl Not_Found
       else Inr ((), s(p := None, q \<mapsto> n)))"

definition remove_file :: "path \<Rightarrow> unit io" where
  "remove_file p = atomic_op (\<lambda>s. case s p of
     None \<Rightarrow> Inl Not_Found | Some Directory \<Rightarrow> Inl Io_Failed | Some _ \<Rightarrow> Inr ((), s(p := None)))"

definition sync :: "unit io" where
  "sync = atomic_op (\<lambda>s. Inr ((), s))"

text \<open>\<open>Path::exists\<close>: an error counts as absence.\<close>

definition path_exists :: "path \<Rightarrow> bool io" where
  "path_exists p = bindio (tryio (metadata_follow p)) (\<lambda>r. ret (is_ok r))"

text \<open>\<open>create_dir_all\<close>: the missing directories on the way, from the root down.\<close>

definition create_dir :: "path \<Rightarrow> unit io" where
  "create_dir p = atomic_op (\<lambda>s. case follow s p of
     None \<Rightarrow> if s p = None then Inr ((), s(p \<mapsto> Directory)) else Inl Io_Failed
   | Some Directory \<Rightarrow> Inr ((), s)
   | Some _ \<Rightarrow> Inl Already_Exists)"

fun create_dirs :: "path list \<Rightarrow> unit io" where
  "create_dirs [] = ret ()"
| "create_dirs (p # ps) = bindio (create_dir p) (\<lambda>_. create_dirs ps)"

definition create_dir_all :: "path \<Rightarrow> unit io" where
  "create_dir_all p = create_dirs (map (\<lambda>n. take n p) [1 ..< Suc (length p)])"

text \<open>\<open>canonicalize\<close>: a link is resolved once.\<close>

definition canonicalize :: "path \<Rightarrow> path io" where
  "canonicalize p = atomic_op (\<lambda>s. if follow s p = None then Inl Not_Found
     else Inr (case s p of Some (Symlink q) \<Rightarrow> q | _ \<Rightarrow> p, s))"

section \<open>Running without faults\<close>

definition run :: "'a io \<Rightarrow> fs \<Rightarrow> 'a outcome \<times> fs" where
  "run m s = (case m \<lparr>w_fs = s, w_schedule = []\<rparr> of (r, w) \<Rightarrow> (r, w_fs w))"

text \<open>The empty schedule stays empty.\<close>

definition steady :: "'a io \<Rightarrow> bool" where
  "steady m \<longleftrightarrow> (\<forall>s. \<exists>r s'. m \<lparr>w_fs = s, w_schedule = []\<rparr> = (r, \<lparr>w_fs = s', w_schedule = []\<rparr>))"

named_theorems steady_intros \<open>computations that keep the empty schedule\<close>

named_theorems run_simps \<open>fault-free runs of the operations\<close>

lemma steady_atomic_op [steady_intros]: "steady (atomic_op act)"
  unfolding steady_def
proof
  fix s show "\<exists>r s'. atomic_op act \<lparr>w_fs = s, w_schedule = []\<rparr> = (r, \<lparr>w_fs = s', w_schedule = []\<rparr>)"
    by (cases "act s") (auto simp: atomic_op_def next_event_def)
qed

lemma steady_write_all [steady_intros]: "steady (write_all p b)"
  by (simp add: steady_def write_all_def next_event_def)

lemma steady_ret [steady_intros]: "steady (ret x)" by (simp add: steady_def ret_def)

lemma steady_fail [steady_intros]: "steady (fail e)" by (simp add: steady_def fail_def)

lemma run_ret [run_simps]: "run (ret x) s = (Ok x, s)" by (simp add: run_def ret_def)

lemma run_fail [run_simps]: "run (fail e) s = (Err e, s)" by (simp add: run_def fail_def)

lemma run_atomic_op [run_simps]:
  "run (atomic_op act) s = (case act s of Inl e \<Rightarrow> (Err e, s) | Inr (x, s') \<Rightarrow> (Ok x, s'))"
  by (cases "act s") (auto simp: run_def atomic_op_def next_event_def)

lemma run_write_all [run_simps]: "run (write_all p b) s = (Ok (), append_bytes s p b)"
  by (simp add: run_def write_all_def next_event_def)

lemma run_bindio [run_simps]:
  assumes "steady m"
  shows "run (bindio m f) s = (case run m s of
     (Ok x, s') \<Rightarrow> run (f x) s' | (Err e, s') \<Rightarrow> (Err e, s') | (Crash, s') \<Rightarrow> (Crash, s'))"
proof -
  from assms obtain r s' where "m \<lparr>w_fs = s, w_schedule = []\<rparr> = (r, \<lparr>w_fs = s', w_schedule = []\<rparr>)"
    unfolding steady_def by blast
  then show ?thesis by (cases r) (simp_all add: run_def bindio_def)
qed

lemma run_tryio [run_simps]:
  assumes "steady m"
  shows "run (tryio m) s = (case run m s of
     (Ok x, s') \<Rightarrow> (Ok (Inr x), s') | (Err e, s') \<Rightarrow> (Ok (Inl e), s') | (Crash, s') \<Rightarrow> (Crash, s'))"
proof -
  from assms obtain r s' where "m \<lparr>w_fs = s, w_schedule = []\<rparr> = (r, \<lparr>w_fs = s', w_schedule = []\<rparr>)"
    unfolding steady_def by blast
  then show ?thesis by (cases r) (simp_all add: run_def tryio_def)
qed

lemma steady_bindio [steady_intros]:
  assumes m: "steady m" and f: "\<And>x. steady (f x)"
  shows "steady (bindio m f)"
  unfolding steady_def
proof
  fix s
  from m obtain r s' where mr: "m \<lparr>w_fs = s, w_schedule = []\<rparr> = (r, \<lparr>w_fs = s', w_schedule = []\<rparr>)"
    unfolding steady_def by blast
  show "\<exists>r s'. bindio m f \<lparr>w_fs = s, w_schedule = []\<rparr> = (r, \<lparr>w_fs = s', w_schedule = []\<rparr>)"
    using f mr unfolding steady_def by (cases r) (simp_all add: bindio_def)
qed

lemma steady_tryio [steady_intros]:
  assumes m: "steady m"
  shows "steady (tryio m)"
  unfolding steady_def
proof
  fix s
  from m obtain r s' where mr: "m \<lparr>w_fs = s, w_schedule = []\<rparr> = (r, \<lparr>w_fs = s', w_schedule = []\<rparr>)"
    unfolding steady_def by blast
  then show "\<exists>r s'. tryio m \<lparr>w_fs = s, w_schedule = []\<rparr> = (r, \<lparr>w_fs = s', w_schedule = []\<rparr>)"
    by (cases r) (simp_all add: tryio_def)
qed

lemma steady_lift_result [steady_intros]: "steady (lift_result r)"
  by (cases r) (simp_all add: lift_result_def steady_intros)

lemma steady_ensure [steady_intros]: "steady (ensure b msg)"
  by (simp add: ensure_def steady_intros)

lemma steady_if [steady_intros]: "steady m \<Longrightarrow> steady m' \<Longrightarrow> steady (if b then m else m')"
  by simp

lemma steady_option [steady_intros]:
  "steady m \<Longrightarrow> (\<And>x. steady (f x)) \<Longrightarrow> steady (case v of None \<Rightarrow> m | Some x \<Rightarrow> f x)"
  by (cases v) simp_all

lemma steady_sum [steady_intros]:
  "(\<And>x. steady (f x)) \<Longrightarrow> (\<And>x. steady (g x)) \<Longrightarrow> steady (case v of Inl x \<Rightarrow> f x | Inr x \<Rightarrow> g x)"
  by (cases v) simp_all

lemmas basic_op_defs = symlink_metadata_def metadata_follow_def read_file_def create_new_def
  create_truncate_def rename_def remove_file_def sync_def create_dir_def

lemma steady_basic [steady_intros]:
  "steady (symlink_metadata p)" "steady (metadata_follow p)" "steady (read_file p)" "steady (create_new p)"
  "steady (create_truncate p)" "steady (rename p q)" "steady (remove_file p)" "steady sync" "steady (create_dir p)"
  by (simp_all add: basic_op_defs steady_atomic_op)

lemma steady_path_exists [steady_intros]: "steady (path_exists p)"
  by (simp add: path_exists_def steady_intros)

lemma steady_create_dir_all [steady_intros]: "steady (create_dir_all p)"
proof -
  have "steady (create_dirs ps)" for ps
    by (induction ps) (simp_all add: steady_intros)
  then show ?thesis by (simp add: create_dir_all_def)
qed

section \<open>Weakest preconditions\<close>

text \<open>
  \<open>wp m Q E C s\<close>: started in the file system \<open>s\<close>, under every schedule, \<open>m\<close> returns in \<open>Q\<close>,
  fails in \<open>E\<close>, or is stopped in \<open>C\<close>.
\<close>

definition wp ::
    "'a io \<Rightarrow> ('a \<Rightarrow> fs \<Rightarrow> bool) \<Rightarrow> (err \<Rightarrow> fs \<Rightarrow> bool) \<Rightarrow> (fs \<Rightarrow> bool) \<Rightarrow> fs \<Rightarrow> bool" where
  "wp m Q E C s \<longleftrightarrow> (\<forall>schedule r w'. m \<lparr>w_fs = s, w_schedule = schedule\<rparr> = (r, w') \<longrightarrow>
     (case r of Ok x \<Rightarrow> Q x (w_fs w') | Err e \<Rightarrow> E e (w_fs w') | Crash \<Rightarrow> C (w_fs w')))"

named_theorems wp_intros \<open>weakest preconditions of the constructs\<close>

lemma world_collapse: "(w :: world) = \<lparr>w_fs = w_fs w, w_schedule = w_schedule w\<rparr>"
  by simp

lemma wpD:
  assumes "wp m Q E C s" "m \<lparr>w_fs = s, w_schedule = schedule\<rparr> = (r, w')"
  shows "case r of Ok x \<Rightarrow> Q x (w_fs w') | Err e \<Rightarrow> E e (w_fs w') | Crash \<Rightarrow> C (w_fs w')"
  using assms unfolding wp_def by blast

lemma wp_mono:
  assumes "wp m Q E C s" "\<And>x s. Q x s \<Longrightarrow> Q' x s" "\<And>e s. E e s \<Longrightarrow> E' e s" "\<And>s. C s \<Longrightarrow> C' s"
  shows "wp m Q' E' C' s"
  unfolding wp_def
proof (intro allI impI)
  fix schedule r w' assume "m \<lparr>w_fs = s, w_schedule = schedule\<rparr> = (r, w')"
  from wpD [OF assms(1) this]
  show "case r of Ok x \<Rightarrow> Q' x (w_fs w') | Err e \<Rightarrow> E' e (w_fs w') | Crash \<Rightarrow> C' (w_fs w')"
    using assms(2-4) by (cases r) simp_all
qed

lemma wp_ret [wp_intros]: "Q x s \<Longrightarrow> wp (ret x) Q E C s"
  by (simp add: wp_def ret_def)

lemma wp_fail [wp_intros]: "E e s \<Longrightarrow> wp (fail e) Q E C s"
  by (simp add: wp_def fail_def)

lemma wp_bindio [wp_intros]:
  assumes "wp m (\<lambda>x. wp (f x) Q E C) E C s"
  shows "wp (bindio m f) Q E C s"
  unfolding wp_def
proof (intro allI impI)
  fix schedule r w' assume run: "bindio m f \<lparr>w_fs = s, w_schedule = schedule\<rparr> = (r, w')"
  obtain r1 w1 where m: "m \<lparr>w_fs = s, w_schedule = schedule\<rparr> = (r1, w1)" by fastforce
  note first = wpD [OF assms m]
  show "case r of Ok x \<Rightarrow> Q x (w_fs w') | Err e \<Rightarrow> E e (w_fs w') | Crash \<Rightarrow> C (w_fs w')"
  proof (cases r1)
    case (Ok x)
    with run m have "f x \<lparr>w_fs = w_fs w1, w_schedule = w_schedule w1\<rparr> = (r, w')"
      by (simp add: bindio_def flip: world_collapse)
    with first Ok show ?thesis by (auto dest: wpD)
  next
    case (Err e)
    with run m first show ?thesis by (auto simp: bindio_def)
  next
    case Crash
    with run m first show ?thesis by (auto simp: bindio_def)
  qed
qed

lemma wp_tryio [wp_intros]:
  assumes "wp m (\<lambda>x. Q (Inr x)) (\<lambda>e. Q (Inl e)) C s"
  shows "wp (tryio m) Q E C s"
  unfolding wp_def
proof (intro allI impI)
  fix schedule r w' assume run: "tryio m \<lparr>w_fs = s, w_schedule = schedule\<rparr> = (r, w')"
  obtain r1 w1 where m: "m \<lparr>w_fs = s, w_schedule = schedule\<rparr> = (r1, w1)" by fastforce
  show "case r of Ok x \<Rightarrow> Q x (w_fs w') | Err e \<Rightarrow> E e (w_fs w') | Crash \<Rightarrow> C (w_fs w')"
    using wpD [OF assms m] run m by (cases r1) (auto simp: tryio_def)
qed

lemma wp_ensure [wp_intros]: "(b \<Longrightarrow> Q () s) \<Longrightarrow> (\<not> b \<Longrightarrow> E (Invalid msg) s) \<Longrightarrow> wp (ensure b msg) Q E C s"
  by (simp add: ensure_def wp_ret wp_fail)

lemma wp_lift_result [wp_intros]:
  "(\<And>x. r = Inr x \<Longrightarrow> Q x s) \<Longrightarrow> (\<And>e. r = Inl e \<Longrightarrow> E e s) \<Longrightarrow> wp (lift_result r) Q E C s"
  by (cases r) (simp_all add: lift_result_def wp_ret wp_fail)

lemma wp_atomic_op:
  assumes "\<And>x s'. act s = Inr (x, s') \<Longrightarrow> Q x s' \<and> C s'" "\<And>e. act s = Inl e \<Longrightarrow> E e s"
    and "E Io_Failed s" "C s"
  shows "wp (atomic_op act) Q E C s"
  unfolding wp_def
proof (intro allI impI)
  fix schedule r w' assume run: "atomic_op act \<lparr>w_fs = s, w_schedule = schedule\<rparr> = (r, w')"
  obtain e w1 where n: "next_event \<lparr>w_fs = s, w_schedule = schedule\<rparr> = (e, w1)" by fastforce
  then have "w_fs w1 = s" by (auto simp: next_event_def split: list.splits)
  then show "case r of Ok x \<Rightarrow> Q x (w_fs w') | Err e \<Rightarrow> E e (w_fs w') | Crash \<Rightarrow> C (w_fs w')"
    using assms run
    by (cases e; cases "act s") (auto simp: atomic_op_def n split: if_splits)
qed

lemma wp_write_all [wp_intros]:
  assumes "Q () (append_bytes s p b)"
    and "\<And>k. E Io_Failed (append_bytes s p (take k b)) \<and> C (append_bytes s p (take k b))"
  shows "wp (write_all p b) Q E C s"
  unfolding wp_def
proof (intro allI impI)
  fix schedule r w' assume run: "write_all p b \<lparr>w_fs = s, w_schedule = schedule\<rparr> = (r, w')"
  obtain e w1 where n: "next_event \<lparr>w_fs = s, w_schedule = schedule\<rparr> = (e, w1)" by fastforce
  show "case r of Ok x \<Rightarrow> Q x (w_fs w') | Err e \<Rightarrow> E e (w_fs w') | Crash \<Rightarrow> C (w_fs w')"
    using assms run by (cases e) (auto simp: write_all_def n)
qed

text \<open>
  The operations of \<open>std::fs\<close>: a failure changes nothing, and a stop happens before or after
  the effect. The postcondition of a stop is asked for in both places.
\<close>

lemma wp_symlink_metadata [wp_intros]:
  assumes "\<And>n. s p = Some n \<Longrightarrow> Q (node_kind n) s" "s p = None \<Longrightarrow> E Not_Found s" and "E Io_Failed s" "C s"
  shows "wp (symlink_metadata p) Q E C s"
  unfolding symlink_metadata_def using assms by (intro wp_atomic_op) (auto split: option.splits)

lemma wp_metadata_follow [wp_intros]:
  assumes "\<And>n. follow s p = Some n \<Longrightarrow> Q (node_kind n) s" "follow s p = None \<Longrightarrow> E Not_Found s" and "E Io_Failed s" "C s"
  shows "wp (metadata_follow p) Q E C s"
  unfolding metadata_follow_def using assms by (intro wp_atomic_op) (auto split: option.splits)

lemma wp_read_file [wp_intros]:
  assumes "\<And>b. follow s p = Some (Regular b) \<Longrightarrow> Q b s" "follow s p = None \<Longrightarrow> E Not_Found s" and "E Io_Failed s" "C s"
  shows "wp (read_file p) Q E C s"
  unfolding read_file_def using assms by (intro wp_atomic_op) (auto split: option.splits node.splits)

lemma wp_create_new [wp_intros]:
  assumes "s p = None \<Longrightarrow> Q () (s(p \<mapsto> Regular [])) \<and> C (s(p \<mapsto> Regular []))" and "\<And>e. E e s" "C s"
  shows "wp (create_new p) Q E C s"
  unfolding create_new_def using assms by (intro wp_atomic_op) (auto split: if_splits)

lemma wp_create_truncate [wp_intros]:
  assumes "s p = None \<or> (\<exists>b. s p = Some (Regular b)) \<Longrightarrow>
      Q () (s(p \<mapsto> Regular [])) \<and> C (s(p \<mapsto> Regular []))" and "\<And>e. E e s" "C s"
  shows "wp (create_truncate p) Q E C s"
  unfolding create_truncate_def using assms
  by (intro wp_atomic_op) (auto split: if_splits option.splits node.splits)

lemma wp_rename [wp_intros]:
  assumes "\<And>n. s p = Some n \<Longrightarrow> n \<noteq> Directory \<Longrightarrow> s q \<noteq> Some Directory \<Longrightarrow>
      Q () (s(p := None, q \<mapsto> n)) \<and> C (s(p := None, q \<mapsto> n))" and "\<And>e. E e s" "C s"
  shows "wp (rename p q) Q E C s"
  unfolding rename_def using assms
  by (intro wp_atomic_op) (auto split: if_splits option.splits node.splits)

lemma wp_remove_file [wp_intros]:
  assumes "\<And>n. s p = Some n \<Longrightarrow> n \<noteq> Directory \<Longrightarrow> Q () (s(p := None)) \<and> C (s(p := None))"
    and "s p = None \<Longrightarrow> E Not_Found s" "E Io_Failed s" "C s"
  shows "wp (remove_file p) Q E C s"
  unfolding remove_file_def using assms by (intro wp_atomic_op) (auto split: option.splits node.splits)

lemma wp_sync [wp_intros]: "Q () s \<Longrightarrow> E Io_Failed s \<Longrightarrow> C s \<Longrightarrow> wp sync Q E C s"
  unfolding sync_def by (intro wp_atomic_op) auto

lemma wp_path_exists [wp_intros]: "(\<And>b. Q b s) \<Longrightarrow> C s \<Longrightarrow> wp (path_exists p) Q E C s"
  unfolding path_exists_def by (intro wp_intros)

lemma wp_conj:
  assumes "wp m Q E C s" "wp m Q' E' C' s"
  shows "wp m (\<lambda>x s. Q x s \<and> Q' x s) (\<lambda>e s. E e s \<and> E' e s) (\<lambda>s. C s \<and> C' s) s"
  unfolding wp_def
proof (intro allI impI)
  fix schedule r w' assume m: "m \<lparr>w_fs = s, w_schedule = schedule\<rparr> = (r, w')"
  show "case r of Ok x \<Rightarrow> Q x (w_fs w') \<and> Q' x (w_fs w') | Err e \<Rightarrow> E e (w_fs w') \<and> E' e (w_fs w')
      | Crash \<Rightarrow> C (w_fs w') \<and> C' (w_fs w')"
    using wpD [OF assms(1) m] wpD [OF assms(2) m] by (cases r) auto
qed

text \<open>Frames.\<close>

definition unchanged_outside :: "path set \<Rightarrow> fs \<Rightarrow> fs \<Rightarrow> bool" where
  "unchanged_outside P s s' \<longleftrightarrow> (\<forall>p. p \<notin> P \<longrightarrow> s' p = s p)"

lemma unchanged_outside_refl [simp]: "unchanged_outside P s s"
  by (simp add: unchanged_outside_def)

lemma unchanged_outside_trans:
  "unchanged_outside P s s' \<Longrightarrow> unchanged_outside P s' s'' \<Longrightarrow> unchanged_outside P s s''"
  by (simp add: unchanged_outside_def)

lemma unchanged_outside_mono: "unchanged_outside P s s' \<Longrightarrow> P \<subseteq> P' \<Longrightarrow> unchanged_outside P' s s'"
  by (auto simp: unchanged_outside_def)

lemma unchanged_outsideD: "unchanged_outside P s s' \<Longrightarrow> p \<notin> P \<Longrightarrow> s' p = s p"
  by (simp add: unchanged_outside_def)

lemma unchanged_outside_upd [simp]: "p \<in> P \<Longrightarrow> unchanged_outside P s (s'(p := n)) \<longleftrightarrow> unchanged_outside P s s'"
  by (auto simp: unchanged_outside_def)

section \<open>Queries on paths\<close>

definition path_is_file :: "path \<Rightarrow> bool io" where
  "path_is_file p = bindio (tryio (metadata_follow p)) (\<lambda>r. ret (r = Inr Is_File))"

definition path_is_dir :: "path \<Rightarrow> bool io" where
  "path_is_dir p = bindio (tryio (metadata_follow p)) (\<lambda>r. ret (r = Inr Is_Directory))"

text \<open>A match on an error that only changes the message (\<open>map_err\<close> with a new report).\<close>

definition map_err :: "string \<Rightarrow> 'a io \<Rightarrow> 'a io" where
  "map_err msg m = bindio (tryio m) (\<lambda>r. case r of Inr x \<Rightarrow> ret x | Inl _ \<Rightarrow> fail (Invalid msg))"

lemma steady_queries [steady_intros]: "steady (path_is_file p)" "steady (path_is_dir p)"
  by (simp_all add: path_is_file_def path_is_dir_def steady_intros)

lemma steady_map_err [steady_intros]: "steady m \<Longrightarrow> steady (map_err msg m)"
  by (simp add: map_err_def steady_intros)

lemma run_queries [run_simps]:
  "run (path_is_file p) s = (Ok (map_option node_kind (follow s p) = Some Is_File), s)"
  "run (path_is_dir p) s = (Ok (map_option node_kind (follow s p) = Some Is_Directory), s)"
  by (cases "follow s p"; simp add: path_is_file_def path_is_dir_def run_simps steady_intros metadata_follow_def)+

lemma run_path_exists [run_simps]: "run (path_exists p) s = (Ok (follow s p \<noteq> None), s)"
  by (cases "follow s p") (simp_all add: path_exists_def run_simps steady_intros metadata_follow_def)

lemma run_map_err [run_simps]:
  "steady m \<Longrightarrow> run (map_err msg m) s =
     (case run m s of (Ok x, s') \<Rightarrow> (Ok x, s') | (Err e, s') \<Rightarrow> (Err (Invalid msg), s') | (Crash, s') \<Rightarrow> (Crash, s'))"
  by (cases "run m s"; cases "fst (run m s)") (simp_all add: map_err_def run_simps steady_intros)

lemma wp_queries [wp_intros]:
  "(\<And>b. Q b s) \<Longrightarrow> C s \<Longrightarrow> wp (path_is_file p) Q E C s"
  "(\<And>b. Q b s) \<Longrightarrow> C s \<Longrightarrow> wp (path_is_dir p) Q E C s"
  unfolding path_is_file_def path_is_dir_def by (auto intro!: wp_bindio wp_tryio wp_metadata_follow wp_ret)

lemma wp_map_err [wp_intros]:
  "wp m Q (\<lambda>_. E (Invalid msg)) C s \<Longrightarrow> wp (map_err msg m) Q E C s"
  unfolding map_err_def by (rule wp_bindio, rule wp_tryio) (auto intro!: wp_intros elim: wp_mono)

section \<open>Modifies clauses\<close>

text \<open>\<open>stays m P\<close>: whatever happens, \<open>m\<close> changes nothing outside \<open>P\<close>.\<close>

definition stays :: "'a io \<Rightarrow> path set \<Rightarrow> bool" where
  "stays m P \<longleftrightarrow> (\<forall>s. wp m (\<lambda>_. unchanged_outside P s) (\<lambda>_. unchanged_outside P s) (unchanged_outside P s) s)"

named_theorems stays_intros \<open>what computations leave alone\<close>

lemma stays_wp:
  assumes "stays m P" and "\<And>x s'. unchanged_outside P s s' \<Longrightarrow> Q x s'"
    and "\<And>e s'. unchanged_outside P s s' \<Longrightarrow> E e s'" "\<And>s'. unchanged_outside P s s' \<Longrightarrow> C s'"
  shows "wp m Q E C s"
  using assms unfolding stays_def by (blast intro: wp_mono)

lemma stays_run:
  assumes "stays m P" "m \<lparr>w_fs = s, w_schedule = schedule\<rparr> = (r, w')"
  shows "unchanged_outside P s (w_fs w')"
  using wpD [OF assms(1) [unfolded stays_def, rule_format] assms(2)] by (cases r) auto

lemma stays_bindio [stays_intros]:
  assumes m: "stays m P" and f: "\<And>x. stays (f x) P"
  shows "stays (bindio m f) P"
  unfolding stays_def
proof
  fix s
  show "wp (bindio m f) (\<lambda>_. unchanged_outside P s) (\<lambda>_. unchanged_outside P s) (unchanged_outside P s) s"
    by (rule wp_bindio, rule stays_wp [OF m])
      (auto intro: stays_wp [OF f] unchanged_outside_trans)
qed

lemma stays_ret [stays_intros]: "stays (ret x) P"
  unfolding stays_def by (auto intro!: wp_ret)

lemma stays_fail [stays_intros]: "stays (fail e) P"
  unfolding stays_def by (auto intro!: wp_fail)

lemma stays_checks [stays_intros]: "stays (ensure b msg) P" "stays (lift_result v) P"
  unfolding stays_def by (auto intro!: wp_ensure wp_lift_result)

lemma stays_looking [stays_intros]:
  "stays sync P" "stays (symlink_metadata p) P" "stays (metadata_follow p) P" "stays (read_file p) P"
  "stays (path_exists p) P"
  unfolding stays_def
      apply (auto intro!: wp_sync)
     apply (auto intro!: wp_symlink_metadata)
    apply (auto intro!: wp_metadata_follow)
   apply (auto intro!: wp_read_file)
  apply (auto intro!: wp_path_exists)
  done

lemma stays_tryio [stays_intros]: "stays m P \<Longrightarrow> stays (tryio m) P"
  unfolding stays_def by (auto intro!: wp_tryio)

lemma stays_branches [stays_intros]:
  "stays m P \<Longrightarrow> stays m' P \<Longrightarrow> stays (if b then m else m') P"
  "stays m P \<Longrightarrow> (\<And>x. stays (f x) P) \<Longrightarrow> stays (case v of None \<Rightarrow> m | Some x \<Rightarrow> f x) P"
  "(\<And>x. stays (g x) P) \<Longrightarrow> (\<And>x. stays (k x) P) \<Longrightarrow> stays (case w of Inl x \<Rightarrow> g x | Inr x \<Rightarrow> k x) P"
  by (simp, cases v, simp_all, cases w, simp_all)

lemma stays_map_err [stays_intros]: "stays m P \<Longrightarrow> stays (map_err msg m) P"
  unfolding map_err_def by (intro stays_intros)

lemma stays_queries [stays_intros]: "stays (path_is_file p) P" "stays (path_is_dir p) P"
  unfolding path_is_file_def path_is_dir_def by (intro stays_intros)+

lemma stays_updates [stays_intros]:
  "p \<in> P \<Longrightarrow> stays (create_new p) P" "p \<in> P \<Longrightarrow> stays (create_truncate p) P" "p \<in> P \<Longrightarrow> stays (remove_file p) P"
  "p \<in> P \<Longrightarrow> q \<in> P \<Longrightarrow> stays (rename p q) P"
  unfolding stays_def by (auto intro!: wp_intros)

lemma stays_write_all [stays_intros]: "p \<in> P \<Longrightarrow> stays (write_all p b) P"
  unfolding stays_def by (auto intro!: wp_write_all simp: append_bytes_def split: option.splits node.splits)

lemma stays_create_dir [stays_intros]:
  assumes "p \<in> P"
  shows "stays (create_dir p) P"
  unfolding stays_def create_dir_def
  using assms by (auto intro!: wp_atomic_op split: option.splits node.splits if_splits)

lemma stays_create_dir_all [stays_intros]:
  assumes "\<And>n. 0 < n \<Longrightarrow> n \<le> length p \<Longrightarrow> take n p \<in> P"
  shows "stays (create_dir_all p) P"
proof -
  have dirs: "set ps \<subseteq> P \<Longrightarrow> stays (create_dirs ps) P" for ps
    by (induction ps) (simp_all add: stays_ret stays_bindio stays_create_dir)
  have "set (map (\<lambda>n. take n p) [1 ..< Suc (length p)]) \<subseteq> P"
  proof
    fix q assume "q \<in> set (map (\<lambda>n. take n p) [1 ..< Suc (length p)])"
    then obtain n where n: "q = take n p" "n \<in> set [1 ..< Suc (length p)]" unfolding set_map by blast
    then have "0 < n" "n \<le> length p" by auto
    with assms n(1) show "q \<in> P" by blast
  qed
  then show ?thesis unfolding create_dir_all_def by (rule dirs)
qed

lemma stays_mono: "stays m P \<Longrightarrow> P \<subseteq> P' \<Longrightarrow> stays m P'"
  unfolding stays_def by (blast intro: wp_mono unchanged_outside_mono)

text \<open>A step whose effect is only known by what it leaves alone.\<close>

lemma wp_bindio_stays:
  assumes "stays m P" and "\<And>x s'. unchanged_outside P s s' \<Longrightarrow> wp (f x) Q E C s'"
    and "\<And>s'. unchanged_outside P s s' \<Longrightarrow> (\<forall>e. E e s') \<and> C s'"
  shows "wp (bindio m f) Q E C s"
  by (rule wp_bindio, rule stays_wp [OF assms(1)]) (simp_all add: assms(2,3))

lemma unchanged_outside_empty [simp]: "unchanged_outside {} s s' \<longleftrightarrow> s' = s"
  by (auto simp: unchanged_outside_def fun_eq_iff)

end
