(* ===== verification/Prefix_Metadata.thy ===== *)
theory Prefix_Metadata
  imports Runtime_Header File_System
begin

text \<open>
  Prefix metadata of \<open>src/config.rs\<close>: its data types, the write that replaces it
  (\<open>persist_metadata_for\<close>), the read that finishes or undoes an interrupted write
  (\<open>read_metadata_for\<close>) and the validators. \<open>json_ext\<close> is what the file takes from
  \<open>serde_json\<close>. The locale \<open>durable_cell\<close> states what the write and the read promise their
  callers; it is interpreted on the two functions.
\<close>

section \<open>Data\<close>

text \<open>A \<open>PathBuf\<close> that need not be absolute: the flag and its components.\<close>

type_synonym path_buf = "bool \<times> path"

definition empty_path :: path_buf where
  "empty_path = (False, [])"

definition is_absolute :: "path_buf \<Rightarrow> bool" where
  "is_absolute p = fst p"

datatype bootstrap_phase = Installing | Bootstrap_Ready

datatype pending_phase = Staged | Ready | Replacing | Cleanup

record pending_update =
  pe_phase :: pending_phase
  pe_version :: string
  pe_build_number :: nat
  pe_executable_sha256 :: string

record update_metadata =
  xu_executable :: path_buf
  xu_ownership :: update_ownership
  xu_installation :: "string option"
  xu_artifact_name :: string
  xu_channel :: string
  xu_package :: string
  xu_build_number :: nat
  xu_sha256 :: string
  xu_instruction :: "string option"
  xu_pending :: "pending_update option"

definition update_metadata_from_config :: "runtime_update_config \<Rightarrow> update_metadata" where
  "update_metadata_from_config update =
     \<lparr>xu_executable = empty_path, xu_ownership = initial_ownership update, xu_installation = None,
      xu_artifact_name = '''', xu_channel = u_channel update, xu_package = u_package update,
      xu_build_number = u_build_number update, xu_sha256 = '''',
      xu_instruction = initial_instruction update, xu_pending = None\<rparr>"

record prefix_metadata =
  pm_schema_version :: nat
  pm_display_name :: string
  pm_install_name :: string
  pm_metadata_file :: string
  pm_version :: string
  pm_delegate_executable :: "string option"
  pm_lock_sha256 :: "string option"
  pm_channels :: "string list"
  pm_packages :: "string list"
  pm_bootstrap_state :: bootstrap_phase
  pm_update :: "update_metadata option"

definition PREFIX_METADATA_SCHEMA_VERSION :: nat where
  "PREFIX_METADATA_SCHEMA_VERSION = 1"

text \<open>The phases are ordered by progress of the replacement.\<close>

fun phase_rank :: "pending_phase \<Rightarrow> nat" where
  "phase_rank Staged = 0"
| "phase_rank Ready = 1"
| "phase_rank Replacing = 2"
| "phase_rank Cleanup = 3"

instantiation pending_phase :: linorder
begin

definition less_eq_pending_phase :: "pending_phase \<Rightarrow> pending_phase \<Rightarrow> bool" where
  "less_eq_pending_phase a b = (phase_rank a \<le> phase_rank b)"

definition less_pending_phase :: "pending_phase \<Rightarrow> pending_phase \<Rightarrow> bool" where
  "less_pending_phase a b = (phase_rank a < phase_rank b)"

instance
proof
  fix a b :: pending_phase
  show "a \<le> b \<Longrightarrow> b \<le> a \<Longrightarrow> a = b"
    by (cases a; cases b) (simp_all add: less_eq_pending_phase_def)
qed (auto simp: less_eq_pending_phase_def less_pending_phase_def)

end

section \<open>The JSON codec\<close>

text \<open>
  \<open>to_writer_pretty\<close> writes bytes and may stop with an error (a path that is not UTF-8);
  \<open>meta_parse\<close> is \<open>read_to_string\<close>'s UTF-8 check followed by \<open>from_str\<close>.
\<close>

record json_ext =
  meta_render :: "prefix_metadata \<Rightarrow> bytes \<times> bool"
  meta_parse :: "bytes \<Rightarrow> prefix_metadata result"

definition json_laws :: "json_ext \<Rightarrow> bool" where
  "json_laws J \<longleftrightarrow> (\<forall>m b. meta_render J m = (b, True) \<longrightarrow> meta_parse J (b @ [10]) = Inr m)"

section \<open>Files\<close>

definition metadata_path_for :: "path \<Rightarrow> string \<Rightarrow> path" where
  "metadata_path_for prefix metadata_file = join prefix metadata_file"

definition temporary_metadata_path_for :: "path \<Rightarrow> string \<Rightarrow> path" where
  "temporary_metadata_path_for prefix metadata_file =
     with_extension (metadata_path_for prefix metadata_file) ''tmp''"

definition backup_metadata_path_for :: "path \<Rightarrow> string \<Rightarrow> path" where
  "backup_metadata_path_for prefix metadata_file =
     with_extension (metadata_path_for prefix metadata_file) ''bak''"

definition remove_regular_file_if_present :: "path \<Rightarrow> unit io" where
  "remove_regular_file_if_present p =
     bindio (tryio (symlink_metadata p)) (\<lambda>r. case r of
       Inr kind \<Rightarrow> if kind \<noteq> Is_File then fail (Invalid ''runtime metadata is not a regular file'')
                   else remove_file p
     | Inl e \<Rightarrow> if e = Not_Found then ret () else fail e)"

definition invalidate_metadata_for :: "path \<Rightarrow> string \<Rightarrow> unit io" where
  "invalidate_metadata_for prefix metadata_file =
     bindio (remove_regular_file_if_present (metadata_path_for prefix metadata_file)) (\<lambda>_.
     bindio (remove_regular_file_if_present (temporary_metadata_path_for prefix metadata_file)) (\<lambda>_.
     remove_regular_file_if_present (backup_metadata_path_for prefix metadata_file)))"

text \<open>The fallback of \<open>persist_metadata_for\<close> when the atomic rename fails: move the old file aside.\<close>

definition replace_via_backup :: "path \<Rightarrow> path \<Rightarrow> path \<Rightarrow> err \<Rightarrow> unit io" where
  "replace_via_backup path temporary_path backup_path replace_error =
     bindio (path_exists path) (\<lambda>present.
     if \<not> present then fail replace_error
     else
       bindio (remove_regular_file_if_present backup_path) (\<lambda>_.
       bindio (rename path backup_path) (\<lambda>_.
       bindio (tryio (rename temporary_path path)) (\<lambda>r. case r of
         Inr _ \<Rightarrow> ret ()
       | Inl error \<Rightarrow> bindio (tryio (rename backup_path path)) (\<lambda>rollback. case rollback of
           Inr _ \<Rightarrow> fail error
         | Inl _ \<Rightarrow> fail (Invalid ''the previous metadata could not be restored''))))))"

definition write_temporary_metadata :: "json_ext \<Rightarrow> path \<Rightarrow> prefix_metadata \<Rightarrow> unit io" where
  "write_temporary_metadata J temporary_path meta =
     bindio (create_new temporary_path) (\<lambda>_.
     bindio (write_all temporary_path (fst (meta_render J meta))) (\<lambda>_.
     bindio (ensure (snd (meta_render J meta)) ''failed to render runtime metadata'') (\<lambda>_.
     bindio (write_all temporary_path [10]) (\<lambda>_.
     sync))))"

definition persist_metadata_for :: "json_ext \<Rightarrow> path \<Rightarrow> string \<Rightarrow> prefix_metadata \<Rightarrow> unit io" where
  "persist_metadata_for J prefix metadata_file meta =
     (let path = metadata_path_for prefix metadata_file;
          temporary_path = temporary_metadata_path_for prefix metadata_file;
          backup_path = backup_metadata_path_for prefix metadata_file in
      bindio (ensure (pm_metadata_file meta = metadata_file) ''runtime metadata file differs'') (\<lambda>_.
      bindio (remove_regular_file_if_present temporary_path) (\<lambda>_.
      bindio (write_temporary_metadata J temporary_path meta) (\<lambda>_.
      bindio (tryio (rename temporary_path path)) (\<lambda>r.
      bindio (case r of Inr _ \<Rightarrow> ret ()
              | Inl replace_error \<Rightarrow> replace_via_backup path temporary_path backup_path replace_error) (\<lambda>_.
      remove_regular_file_if_present backup_path))))))"

definition read_metadata_from_path :: "json_ext \<Rightarrow> path \<Rightarrow> prefix_metadata io" where
  "read_metadata_from_path J p = bindio (read_file p) (\<lambda>b. lift_result (meta_parse J b))"

definition read_regular_metadata_if_present :: "json_ext \<Rightarrow> path \<Rightarrow> prefix_metadata option io" where
  "read_regular_metadata_if_present J p =
     bindio (tryio (symlink_metadata p)) (\<lambda>r. case r of
       Inr kind \<Rightarrow> if kind \<noteq> Is_File then fail (Invalid ''runtime metadata is not a regular file'')
                   else bindio (read_metadata_from_path J p) (\<lambda>m. ret (Some m))
     | Inl e \<Rightarrow> if e = Not_Found then ret None else fail e)"

definition restore_metadata_path :: "json_ext \<Rightarrow> path \<Rightarrow> path \<Rightarrow> prefix_metadata \<Rightarrow> prefix_metadata io" where
  "restore_metadata_path J recovery_path final_path meta =
     bindio (tryio (rename recovery_path final_path)) (\<lambda>r. case r of
       Inr _ \<Rightarrow> ret meta
     | Inl error \<Rightarrow>
         bindio (read_regular_metadata_if_present J final_path) (\<lambda>current. case current of
           Some m \<Rightarrow> ret m | None \<Rightarrow> fail error))"

definition read_metadata_for :: "json_ext \<Rightarrow> path \<Rightarrow> string \<Rightarrow> prefix_metadata io" where
  "read_metadata_for J prefix metadata_file =
     (let path = metadata_path_for prefix metadata_file;
          temporary_path = temporary_metadata_path_for prefix metadata_file;
          backup_path = backup_metadata_path_for prefix metadata_file in
      bindio (read_regular_metadata_if_present J path) (\<lambda>m. case m of
        Some meta \<Rightarrow> ret meta
      | None \<Rightarrow>
          bindio (read_regular_metadata_if_present J temporary_path) (\<lambda>m. case m of
            Some meta \<Rightarrow>
              bindio (restore_metadata_path J temporary_path path meta) (\<lambda>meta.
              bindio (remove_regular_file_if_present backup_path) (\<lambda>_. ret meta))
          | None \<Rightarrow>
              bindio (read_regular_metadata_if_present J backup_path) (\<lambda>m. case m of
                Some meta \<Rightarrow> restore_metadata_path J backup_path path meta
              | None \<Rightarrow> read_metadata_from_path J path))))"

record metadata_identity =
  mi_display_name :: string
  mi_install_name :: string
  mi_metadata_file :: string
  mi_version :: string
  mi_delegate_executable :: "string option"
  mi_lock_sha256 :: "string option"
  mi_update :: "runtime_update_config option"

definition metadata_for_identity :: "metadata_identity \<Rightarrow> string list \<Rightarrow> string list \<Rightarrow> prefix_metadata" where
  "metadata_for_identity identity channels packages =
     \<lparr>pm_schema_version = PREFIX_METADATA_SCHEMA_VERSION, pm_display_name = mi_display_name identity,
      pm_install_name = mi_install_name identity, pm_metadata_file = mi_metadata_file identity,
      pm_version = mi_version identity, pm_delegate_executable = mi_delegate_executable identity,
      pm_lock_sha256 = mi_lock_sha256 identity, pm_channels = channels, pm_packages = packages,
      pm_bootstrap_state = Bootstrap_Ready,
      pm_update = map_option update_metadata_from_config (mi_update identity)\<rparr>"

definition write_metadata_for_identity ::
    "json_ext \<Rightarrow> path \<Rightarrow> metadata_identity \<Rightarrow> string list \<Rightarrow> string list \<Rightarrow> unit io" where
  "write_metadata_for_identity J prefix identity channels packages =
     persist_metadata_for J prefix (mi_metadata_file identity) (metadata_for_identity identity channels packages)"

definition validate_metadata_identity_for ::
    "prefix_metadata \<Rightarrow> string \<Rightarrow> string \<Rightarrow> string \<Rightarrow> unit result" where
  "validate_metadata_identity_for meta display_name install_name metadata_file =
     (if pm_schema_version meta \<noteq> PREFIX_METADATA_SCHEMA_VERSION
      then Inl (Invalid ''unsupported runtime metadata schema version'')
      else if pm_display_name meta \<noteq> display_name then Inl (Invalid ''runtime metadata belongs to another runtime'')
      else if pm_install_name meta \<noteq> install_name then Inl (Invalid ''runtime metadata install name differs'')
      else if pm_metadata_file meta \<noteq> metadata_file then Inl (Invalid ''runtime metadata file differs'')
      else Inr ())"

definition validate_ready_phase :: "prefix_metadata \<Rightarrow> unit result" where
  "validate_ready_phase meta =
     (if pm_bootstrap_state meta \<noteq> Bootstrap_Ready
      then Inl (Invalid ''runtime metadata does not mark bootstrap complete'') else Inr ())"

definition validate_metadata_ready_for ::
    "prefix_metadata \<Rightarrow> string \<Rightarrow> string \<Rightarrow> string \<Rightarrow> unit result" where
  "validate_metadata_ready_for meta display_name install_name metadata_file =
     rbind (validate_metadata_identity_for meta display_name install_name metadata_file) (\<lambda>_.
     validate_ready_phase meta)"

section \<open>What a reader finds\<close>

text \<open>
  The runtime's own metadata files are named \<open>.NAME.json\<close>, so that \<open>with_extension\<close> gives two
  further siblings.
\<close>

definition metadata_file_ok :: "string \<Rightarrow> bool" where
  "metadata_file_ok mf = (plain_component mf \<and> ends_with ''.json'' mf)"

definition metadata_files :: "path \<Rightarrow> string \<Rightarrow> path set" where
  "metadata_files prefix mf =
     {metadata_path_for prefix mf, temporary_metadata_path_for prefix mf, backup_metadata_path_for prefix mf}"

definition node_metadata :: "json_ext \<Rightarrow> node \<Rightarrow> prefix_metadata option" where
  "node_metadata J n = (case n of
     Regular b \<Rightarrow> (case meta_parse J b of Inr m \<Rightarrow> Some m | Inl _ \<Rightarrow> None) | _ \<Rightarrow> None)"

text \<open>
  The metadata of a prefix: that of the first of the three files that exists, in the order the
  reader looks at them.
\<close>

definition recoverable :: "json_ext \<Rightarrow> path \<Rightarrow> string \<Rightarrow> fs \<Rightarrow> prefix_metadata option" where
  "recoverable J prefix mf s =
     (case s (metadata_path_for prefix mf) of Some n \<Rightarrow> node_metadata J n
      | None \<Rightarrow> (case s (temporary_metadata_path_for prefix mf) of Some n \<Rightarrow> node_metadata J n
        | None \<Rightarrow> (case s (backup_metadata_path_for prefix mf) of Some n \<Rightarrow> node_metadata J n
          | None \<Rightarrow> None)))"

text \<open>The metadata file itself is there.\<close>

definition metadata_settled :: "json_ext \<Rightarrow> path \<Rightarrow> string \<Rightarrow> fs \<Rightarrow> bool" where
  "metadata_settled J prefix mf s =
     (case s (metadata_path_for prefix mf) of Some n \<Rightarrow> node_metadata J n \<noteq> None | None \<Rightarrow> False)"

lemma metadata_file_okE:
  assumes "metadata_file_ok mf"
  obtains x where "mf = x @ ''.json''" "plain_component mf"
proof -
  from assms have "drop (length mf - length ''.json'') mf = ''.json''" and plain: "plain_component mf"
    unfolding metadata_file_ok_def ends_with_def by blast+
  then have "mf = take (length mf - length ''.json'') mf @ ''.json''"
    using append_take_drop_id [of "length mf - length ''.json''" mf] by metis
  with plain that show thesis by blast
qed

lemma metadata_paths:
  assumes "metadata_file_ok mf"
  shows "metadata_path_for prefix mf = prefix @ [mf]"
    and "temporary_metadata_path_for prefix mf = prefix @ [name_stem mf @ ''.tmp'']"
    and "backup_metadata_path_for prefix mf = prefix @ [name_stem mf @ ''.bak'']"
  using assms
  by (auto simp: metadata_path_for_def temporary_metadata_path_for_def backup_metadata_path_for_def
      with_extension_def file_name_def metadata_file_ok_def plain_component_def)

lemma metadata_paths_distinct:
  assumes "metadata_file_ok mf"
  shows "metadata_path_for prefix mf \<noteq> temporary_metadata_path_for prefix mf"
    and "metadata_path_for prefix mf \<noteq> backup_metadata_path_for prefix mf"
    and "temporary_metadata_path_for prefix mf \<noteq> backup_metadata_path_for prefix mf"
proof -
  from assms obtain x where mf: "mf = x @ ''.json''" by (rule metadata_file_okE)
  have "mf \<noteq> name_stem mf @ ''.tmp''" "mf \<noteq> name_stem mf @ ''.bak''"
    by (auto simp: mf dest: arg_cong [where f = last])
  then show "metadata_path_for prefix mf \<noteq> temporary_metadata_path_for prefix mf"
    and "metadata_path_for prefix mf \<noteq> backup_metadata_path_for prefix mf"
    and "temporary_metadata_path_for prefix mf \<noteq> backup_metadata_path_for prefix mf"
    using assms by (auto simp: metadata_paths)
qed

lemma node_metadata_regular [simp]:
  "meta_parse J b = Inr m \<Longrightarrow> node_metadata J (Regular b) = Some m"
  by (simp add: node_metadata_def)

lemma node_metadata_SomeE:
  assumes "node_metadata J n = Some m"
  obtains b where "n = Regular b" "meta_parse J b = Inr m"
  using assms by (auto simp: node_metadata_def split: node.splits sum.splits)

lemma wp_remove_regular_file_if_present [wp_intros]:
  assumes "s p = None \<or> (\<exists>b. s p = Some (Regular b)) \<Longrightarrow> Q () (s(p := None)) \<and> C (s(p := None))"
    and "\<And>e. E e s" "C s"
  shows "wp (remove_regular_file_if_present p) Q E C s"
proof -
  have id: "s p = None \<Longrightarrow> s(p := None) = s" by (simp add: fun_upd_idem)
  show ?thesis
    unfolding remove_regular_file_if_present_def
    by (rule wp_bindio, rule wp_tryio, rule wp_symlink_metadata)
      (use assms id in \<open>auto intro!: wp_intros simp: node_kind_def split: node.splits\<close>)
qed

lemma wp_write_temporary_metadata [wp_intros]:
  assumes "\<And>b. meta_render J m = (b, True) \<Longrightarrow> Q () (s(p \<mapsto> Regular (b @ [10])))"
    and "\<And>e. E e s" "C s" and "\<And>b e. E e (s(p \<mapsto> Regular b))" "\<And>b. C (s(p \<mapsto> Regular b))"
  shows "wp (write_temporary_metadata J p m) Q E C s"
  unfolding write_temporary_metadata_def
  using assms by (cases "meta_render J m") (auto intro!: wp_intros simp: append_bytes_def)

section \<open>The write is atomic under faults\<close>

text \<open>The fallback: the complete new file is at the temporary path.\<close>

lemma wp_replace_via_backup:
  assumes ok: "metadata_file_ok mf"
    and new: "s (temporary_metadata_path_for prefix mf) = Some (Regular b)" "meta_parse J b = Inr m"
    and old: "s (metadata_path_for prefix mf) = Some n" "node_metadata J n = Some m0"
    and Q: "\<And>s'. recoverable J prefix mf s' = Some m \<Longrightarrow> s' (metadata_path_for prefix mf) = Some (Regular b) \<Longrightarrow>
      unchanged_outside (metadata_files prefix mf) s s' \<Longrightarrow> Q () s'"
    and I: "\<And>s'. recoverable J prefix mf s' \<in> {Some m0, Some m} \<Longrightarrow>
      unchanged_outside (metadata_files prefix mf) s s' \<Longrightarrow> (\<forall>e. E e s') \<and> C s'"
  shows "wp (replace_via_backup (metadata_path_for prefix mf) (temporary_metadata_path_for prefix mf)
      (backup_metadata_path_for prefix mf) err) Q E C s"
proof -
  note distinct = metadata_paths_distinct [OF ok, of prefix]
  note facts = recoverable_def metadata_files_def unchanged_outside_def new old distinct distinct [symmetric]
  show ?thesis
    unfolding replace_via_backup_def
    by (intro wp_intros conjI)
      (auto intro!: wp_intros Q I [THEN conjunct1, rule_format] I [THEN conjunct2] simp: facts)
qed

lemma wp_persist_metadata_for:
  fixes m :: prefix_metadata
  assumes J: "json_laws J" and ok: "metadata_file_ok mf"
    and old: "s (metadata_path_for prefix mf) = Some n" "node_metadata J n = Some m0"
  defines "I \<equiv> \<lambda>s'. recoverable J prefix mf s' \<in> {Some m0, Some m} \<and> unchanged_outside (metadata_files prefix mf) s s'"
  shows "wp (persist_metadata_for J prefix mf m)
    (\<lambda>_ s'. recoverable J prefix mf s' = Some m \<and> metadata_settled J prefix mf s'
       \<and> unchanged_outside (metadata_files prefix mf) s s') (\<lambda>_. I) I s"
proof -
  let ?path = "metadata_path_for prefix mf" and ?tmp = "temporary_metadata_path_for prefix mf"
  let ?bak = "backup_metadata_path_for prefix mf"
  let ?Q = "\<lambda>_ s'. recoverable J prefix mf s' = Some m \<and> metadata_settled J prefix mf s'
       \<and> unchanged_outside (metadata_files prefix mf) s s'"
  note distinct = metadata_paths_distinct [OF ok, of prefix]
  note facts = recoverable_def metadata_settled_def metadata_files_def unchanged_outside_def old distinct distinct [symmetric]
  have parse: "meta_render J m = (b, True) \<Longrightarrow> meta_parse J (b @ [10]) = Inr m" for b
    using J by (auto simp: json_laws_def)
  have tail: "wp (remove_regular_file_if_present ?bak) ?Q (\<lambda>_. I) I s'"
    if "s' ?path = Some (Regular b)" "meta_parse J b = Inr m" "unchanged_outside (metadata_files prefix mf) s s'"
    for s' b
    using that by (auto intro!: wp_intros simp: facts I_def)
  have replace: "wp (replace_via_backup ?path ?tmp ?bak err)
      (\<lambda>_. wp (remove_regular_file_if_present ?bak) ?Q (\<lambda>_. I) I) (\<lambda>_. I) I (s(?tmp \<mapsto> Regular (b @ [10])))"
    if b: "meta_render J m = (b, True)" for b err
  proof (rule wp_replace_via_backup [OF ok _ parse [OF b]], goal_cases)
    case (4 s')
    then show ?case using tail [of s' "b @ [10]"] parse [OF b] by (auto simp: facts)
  qed (auto simp: facts I_def)
  have install: "wp (bindio (tryio (rename ?tmp ?path)) (\<lambda>r.
      bindio (case r of Inr _ \<Rightarrow> ret () | Inl replace_error \<Rightarrow> replace_via_backup ?path ?tmp ?bak replace_error) (\<lambda>_.
      remove_regular_file_if_present ?bak))) ?Q (\<lambda>_. I) I (s(?tmp \<mapsto> Regular (b @ [10])))"
    if b: "meta_render J m = (b, True)" for b
  proof (rule wp_bindio, rule wp_tryio, rule wp_rename, goal_cases)
    case (1 n)
    then show ?case
      using parse [OF b] by (auto intro!: wp_intros tail [of _ "b @ [10]"] simp: facts I_def)
  next
    case (2 e)
    show ?case using replace [OF b, of e] by (auto intro: wp_bindio)
  next
    case 3
    show ?case by (simp add: facts I_def)
  qed
  show ?thesis
    unfolding persist_metadata_for_def Let_def
    by (rule wp_bindio, rule wp_ensure, rule wp_bindio, rule wp_remove_regular_file_if_present, rule conjI,
        rule wp_bindio, rule wp_write_temporary_metadata)
      (use install in \<open>auto simp: facts I_def intro: wp_fail\<close>)
qed

text \<open>Reading: nothing is lost, and what is returned is at its place afterwards.\<close>

lemma wp_read_regular_metadata_if_present:
  assumes "\<And>n m. s p = Some n \<Longrightarrow> node_metadata J n = Some m \<Longrightarrow> Q (Some m) s"
    and "s p = None \<Longrightarrow> Q None s" and "\<And>e. E e s" "C s"
  shows "wp (read_regular_metadata_if_present J p) Q E C s"
  unfolding read_regular_metadata_if_present_def
  by (rule wp_bindio, rule wp_tryio, rule wp_symlink_metadata)
    (use assms in \<open>auto intro!: wp_intros simp: read_metadata_from_path_def node_kind_def node_metadata_def follow_def
       split: node.splits\<close>)

lemma wp_restore_metadata_path:
  assumes "s final = None"
    and "\<And>n. s recovery = Some n \<Longrightarrow>
      Q m (s(recovery := None, final \<mapsto> n)) \<and> C (s(recovery := None, final \<mapsto> n))" "\<And>e. E e s" "C s"
  shows "wp (restore_metadata_path J recovery final m) Q E C s"
  unfolding restore_metadata_path_def
  by (rule wp_bindio, rule wp_tryio, rule wp_rename)
    (use assms in \<open>auto intro!: wp_intros wp_read_regular_metadata_if_present\<close>)

lemma wp_read_metadata_for:
  fixes s :: fs and prefix :: path and J :: json_ext
  assumes ok: "metadata_file_ok mf"
  defines "I \<equiv> \<lambda>s'. recoverable J prefix mf s' = recoverable J prefix mf s \<and> unchanged_outside (metadata_files prefix mf) s s'"
  shows "wp (read_metadata_for J prefix mf)
    (\<lambda>m s'. recoverable J prefix mf s = Some m \<and> I s' \<and> metadata_settled J prefix mf s') (\<lambda>_. I) I s"
proof -
  note distinct = metadata_paths_distinct [OF ok, of prefix]
  note facts = recoverable_def metadata_settled_def metadata_files_def unchanged_outside_def distinct distinct [symmetric]
    I_def
  show ?thesis
    unfolding read_metadata_for_def Let_def
    by (intro wp_intros wp_read_regular_metadata_if_present)
      (auto simp: facts follow_def read_metadata_from_path_def intro!: wp_intros wp_read_regular_metadata_if_present
         wp_restore_metadata_path)
qed

section \<open>The contract\<close>

text \<open>
  A cell that survives faults: \<open>cell_value\<close> is what a later read finds. \<open>settled\<close> is the state
  a successful read leaves behind, and the state a write starts from. Writing keeps the old
  or the new value whatever happens, and reading never changes the value; both leave the
  rest of the file system alone.
\<close>

locale durable_cell =
  fixes cell_read :: "'v io"
    and cell_write :: "'v \<Rightarrow> unit io"
    and cell_value :: "fs \<Rightarrow> 'v option"
    and settled :: "fs \<Rightarrow> bool"
    and footprint :: "path set"
    and legal :: bool
  assumes value_local: "(\<And>p. p \<in> footprint \<Longrightarrow> s p = s' p) \<Longrightarrow> cell_value s = cell_value s'"
    and settled_local: "(\<And>p. p \<in> footprint \<Longrightarrow> s p = s' p) \<Longrightarrow> settled s \<longleftrightarrow> settled s'"
    and write_safe: "legal \<Longrightarrow> settled s \<Longrightarrow> cell_value s = Some old \<Longrightarrow>
      wp (cell_write new)
        (\<lambda>_ s'. cell_value s' = Some new \<and> settled s' \<and> unchanged_outside footprint s s')
        (\<lambda>_ s'. cell_value s' \<in> {Some old, Some new} \<and> unchanged_outside footprint s s')
        (\<lambda>s'. cell_value s' \<in> {Some old, Some new} \<and> unchanged_outside footprint s s') s"
    and read_safe: "legal \<Longrightarrow>
      wp cell_read
        (\<lambda>m s'. cell_value s = Some m \<and> cell_value s' = Some m \<and> settled s' \<and> unchanged_outside footprint s s')
        (\<lambda>_ s'. cell_value s' = cell_value s \<and> unchanged_outside footprint s s')
        (\<lambda>s'. cell_value s' = cell_value s \<and> unchanged_outside footprint s s') s"
begin

text \<open>Read, decide, write: the value is the old one or the one decided on, at every moment.\<close>

lemma update_safe:
  assumes "legal" and old: "cell_value s = Some old"
  shows "wp (bindio cell_read (\<lambda>m. if g m then cell_write (f m) else ret ()))
     (\<lambda>_ s'. cell_value s' = Some (if g old then f old else old) \<and> settled s' \<and> unchanged_outside footprint s s')
     (\<lambda>_ s'. cell_value s' \<in> {Some old, Some (f old)} \<and> unchanged_outside footprint s s')
     (\<lambda>s'. cell_value s' \<in> {Some old, Some (f old)} \<and> unchanged_outside footprint s s') s"
proof (rule wp_bindio, rule wp_mono [OF read_safe [OF assms(1)]], goal_cases)
  case (1 m s')
  then have m: "m = old" using old by simp
  show ?case
  proof (cases "g old")
    case True
    with 1 m have "wp (cell_write (f old))
        (\<lambda>_ t. cell_value t = Some (f old) \<and> settled t \<and> unchanged_outside footprint s' t)
        (\<lambda>_ t. cell_value t \<in> {Some old, Some (f old)} \<and> unchanged_outside footprint s' t)
        (\<lambda>t. cell_value t \<in> {Some old, Some (f old)} \<and> unchanged_outside footprint s' t) s'"
      by (intro write_safe [OF assms(1)]) auto
    then show ?thesis
      using 1 m True by (auto elim!: wp_mono intro: unchanged_outside_trans)
  next
    case False
    with 1 m show ?thesis by (simp add: wp_ret)
  qed
qed (use old in auto)

end

interpretation metadata: durable_cell "read_metadata_for J prefix mf" "persist_metadata_for J prefix mf"
  "recoverable J prefix mf" "metadata_settled J prefix mf" "metadata_files prefix mf" "json_laws J \<and> metadata_file_ok mf"
  for J prefix mf
proof (unfold_locales, goal_cases)
  case (1 s s')
  then have "s p = s' p" if "p \<in> metadata_files prefix mf" for p using that by blast
  then have "s (metadata_path_for prefix mf) = s' (metadata_path_for prefix mf)"
    "s (temporary_metadata_path_for prefix mf) = s' (temporary_metadata_path_for prefix mf)"
    "s (backup_metadata_path_for prefix mf) = s' (backup_metadata_path_for prefix mf)"
    by (simp_all add: metadata_files_def)
  then show ?case by (simp add: recoverable_def cong: option.case_cong)
next
  case (2 s s')
  then show ?case by (simp add: metadata_settled_def metadata_files_def)
next
  case (3 s old new)
  then obtain n where "s (metadata_path_for prefix mf) = Some n" "node_metadata J n = Some old"
    by (auto simp: metadata_settled_def recoverable_def split: option.splits)
  with 3 show ?case using wp_persist_metadata_for by blast
next
  case (4 s)
  then have "metadata_file_ok mf" by simp
  from wp_read_metadata_for [OF this] show ?case by (rule wp_mono) auto
qed

section \<open>The fault-free reader\<close>

lemma steady_metadata [steady_intros]:
  "steady (remove_regular_file_if_present p)" "steady (read_metadata_from_path J p)"
  "steady (read_regular_metadata_if_present J p)" "steady (restore_metadata_path J p q m)"
  "steady (read_metadata_for J prefix mf)"
  by (simp_all add: remove_regular_file_if_present_def read_metadata_from_path_def
      read_regular_metadata_if_present_def restore_metadata_path_def read_metadata_for_def Let_def steady_intros)

text \<open>The directory and the three files are real ones, as the runtime creates them.\<close>

definition metadata_regular :: "path \<Rightarrow> string \<Rightarrow> fs \<Rightarrow> bool" where
  "metadata_regular prefix mf s \<longleftrightarrow> (prefix = [] \<or> s prefix = Some Directory) \<and>
     (\<forall>p \<in> metadata_files prefix mf. s p = None \<or> (\<exists>b. s p = Some (Regular b)))"

lemma run_remove_regular:
  "s p = None \<or> (\<exists>b. s p = Some (Regular b)) \<Longrightarrow> run (remove_regular_file_if_present p) s = (Ok (), s(p := None))"
  by (auto simp: remove_regular_file_if_present_def run_simps steady_intros symlink_metadata_def remove_file_def
      node_kind_def fun_upd_idem)

lemma run_read_regular:
  assumes "s p = None \<or> (\<exists>b. s p = Some (Regular b))"
  shows "run (read_regular_metadata_if_present J p) s = (case s p of None \<Rightarrow> (Ok None, s)
     | Some n \<Rightarrow> (case n of Regular b \<Rightarrow>
         (case meta_parse J b of Inr m \<Rightarrow> (Ok (Some m), s) | Inl e \<Rightarrow> (Err e, s)) | _ \<Rightarrow> (Crash, s)))"
  using assms
  by (auto simp: read_regular_metadata_if_present_def run_simps steady_intros symlink_metadata_def
      read_metadata_from_path_def read_file_def node_kind_def follow_def lift_result_def split: sum.splits)

lemma run_read_metadata_for:
  assumes ok: "metadata_file_ok mf" and regular: "metadata_regular prefix mf s"
    and found: "recoverable J prefix mf s = Some m"
  shows "fst (run (read_metadata_for J prefix mf) s) = Ok m"
proof -
  note distinct = metadata_paths_distinct [OF ok, of prefix]
  note paths = metadata_paths [OF ok, of prefix]
  have rename_ok: "run (restore_metadata_path J p (prefix @ [mf]) m) s = (Ok m, s(p := None, prefix @ [mf] \<mapsto> Regular b))"
    if "s p = Some (Regular b)" "s (prefix @ [mf]) = None" for p b
    using that regular
    by (auto simp: restore_metadata_path_def run_simps steady_intros rename_def parent_exists_def parent_def
        metadata_regular_def follow_def)
  from regular show ?thesis
    using found distinct rename_ok
    unfolding metadata_regular_def metadata_files_def recoverable_def paths read_metadata_for_def Let_def
    by (auto simp: run_simps steady_intros run_read_regular run_remove_regular node_metadata_def paths
        split: option.splits sum.splits)
qed

lemma metadata_regular_upd [simp]:
  assumes "metadata_file_ok mf" "metadata_regular prefix mf s" "p \<in> metadata_files prefix mf"
    "v = None \<or> (\<exists>b. v = Some (Regular b))"
  shows "metadata_regular prefix mf (s(p := v))"
proof -
  have "prefix \<noteq> p"
    using assms(1,3) by (auto simp: metadata_files_def metadata_paths)
  then show ?thesis using assms(2,4) by (auto simp: metadata_regular_def)
qed

lemma metadata_files_memb [simp]:
  "metadata_path_for prefix mf \<in> metadata_files prefix mf"
  "temporary_metadata_path_for prefix mf \<in> metadata_files prefix mf"
  "backup_metadata_path_for prefix mf \<in> metadata_files prefix mf"
  by (simp_all add: metadata_files_def)

lemma metadata_regularD:
  "metadata_regular prefix mf s \<Longrightarrow> p \<in> metadata_files prefix mf \<Longrightarrow> s p = None \<or> (\<exists>b. s p = Some (Regular b))"
  by (auto simp: metadata_regular_def)

lemma metadata_regular_rename:
  assumes "metadata_file_ok mf" "metadata_regular prefix mf s"
    and "p \<in> metadata_files prefix mf" "q \<in> metadata_files prefix mf" "s p = Some n"
  shows "metadata_regular prefix mf (s(p := None, q \<mapsto> n))"
proof -
  have "\<exists>b. n = Regular b" using assms(5) metadata_regularD [OF assms(2,3)] by auto
  then show ?thesis using assms by auto
qed

text \<open>Every step that keeps the files regular can be followed by one that needs it.\<close>

lemma wp_metadata_regular_steps:
  assumes ok: "metadata_file_ok mf" and regular: "metadata_regular prefix mf s"
    and after: "\<And>s'. metadata_regular prefix mf s' \<Longrightarrow> Q () s'" "\<And>e s'. metadata_regular prefix mf s' \<Longrightarrow> E e s'"
    and p: "p \<in> metadata_files prefix mf"
  shows "q \<in> metadata_files prefix mf \<Longrightarrow> wp (rename p q) Q E (metadata_regular prefix mf) s"
    and "wp (remove_regular_file_if_present p) Q E (metadata_regular prefix mf) s"
    and "wp (write_temporary_metadata J p m) Q E (metadata_regular prefix mf) s"
proof -
  assume q: "q \<in> metadata_files prefix mf"
  show "wp (rename p q) Q E (metadata_regular prefix mf) s"
    by (rule wp_rename) (simp_all add: after regular metadata_regular_rename [OF ok regular p q])
next
  show "wp (remove_regular_file_if_present p) Q E (metadata_regular prefix mf) s"
    by (rule wp_remove_regular_file_if_present) (simp_all add: after regular ok p)
  show "wp (write_temporary_metadata J p m) Q E (metadata_regular prefix mf) s"
    by (rule wp_write_temporary_metadata) (simp_all add: after regular ok p)
qed

lemma wp_persist_regular:
  assumes ok: "metadata_file_ok mf" and regular: "metadata_regular prefix mf s"
  shows "wp (persist_metadata_for J prefix mf m) (\<lambda>_. metadata_regular prefix mf)
    (\<lambda>_. metadata_regular prefix mf) (metadata_regular prefix mf) s"
proof -
  let ?R = "metadata_regular prefix mf"
  note step = wp_metadata_regular_steps [OF ok]
  have via_backup: "wp (replace_via_backup (metadata_path_for prefix mf) (temporary_metadata_path_for prefix mf)
      (backup_metadata_path_for prefix mf) e) Q (\<lambda>_. ?R) ?R s'"
    if "?R s'" "\<And>s'. ?R s' \<Longrightarrow> Q () s'" for s' e Q
    unfolding replace_via_backup_def
    using that by (auto intro!: wp_bindio wp_tryio wp_path_exists wp_ret wp_fail step)
  show ?thesis
    unfolding persist_metadata_for_def Let_def
  proof (rule wp_bindio, rule wp_ensure, goal_cases)
    case 1
    show ?case using regular by (auto intro!: wp_bindio wp_tryio wp_ret wp_fail step via_backup)
  qed (rule regular)
qed

lemma wp_read_regular:
  assumes ok: "metadata_file_ok mf" and regular: "metadata_regular prefix mf s"
  shows "wp (read_metadata_for J prefix mf) (\<lambda>_. metadata_regular prefix mf)
    (\<lambda>_. metadata_regular prefix mf) (metadata_regular prefix mf) s"
proof -
  let ?R = "metadata_regular prefix mf"
  note step = wp_metadata_regular_steps [OF ok]
  have look: "wp (read_regular_metadata_if_present J p) Q (\<lambda>_. ?R) ?R s'" if "?R s'" "\<And>x. Q x s'" for s' p Q
    by (rule wp_read_regular_metadata_if_present) (use that in auto)
  have restore: "wp (restore_metadata_path J p (metadata_path_for prefix mf) m) Q (\<lambda>_. ?R) ?R s'"
    if "?R s'" "\<And>x s'. ?R s' \<Longrightarrow> Q x s'" "p \<in> metadata_files prefix mf" for s' p m Q
    unfolding restore_metadata_path_def
    using that by (auto intro!: wp_bindio wp_tryio wp_ret wp_fail step look split: option.split)
  show ?thesis
    unfolding read_metadata_for_def Let_def read_metadata_from_path_def
    using regular by (auto intro!: wp_bindio wp_tryio wp_ret wp_fail wp_read_file wp_lift_result step look restore split: option.split)
qed

text \<open>A write without faults.\<close>

lemma run_persist_metadata_for:
  assumes "json_laws J" "metadata_file_ok mf" "metadata_regular prefix mf s"
    and "pm_metadata_file m = mf" "meta_render J m = (b, True)"
  shows "run (persist_metadata_for J prefix mf m) s =
      (Ok (), s(temporary_metadata_path_for prefix mf := None, metadata_path_for prefix mf \<mapsto> Regular (b @ [10]),
         backup_metadata_path_for prefix mf := None))"
    and "recoverable J prefix mf (snd (run (persist_metadata_for J prefix mf m) s)) = Some m"
    and "metadata_regular prefix mf (snd (run (persist_metadata_for J prefix mf m) s))"
proof -
  note distinct = metadata_paths_distinct [OF assms(2), of prefix]
  have parent: "parent_exists s' (prefix @ [n])"
    if "prefix = [] \<or> s' prefix = Some Directory" for s' n
    using that by (auto simp: parent_exists_def parent_def follow_def)
  have no_prefix: "prefix \<notin> metadata_files prefix mf"
    using assms(2) by (auto simp: metadata_files_def metadata_paths)
  have parse: "meta_parse J (b @ [10]) = Inr m" using assms(1,5) by (simp add: json_laws_def)
  let ?s = "s(temporary_metadata_path_for prefix mf := None, metadata_path_for prefix mf \<mapsto> Regular (b @ [10]),
         backup_metadata_path_for prefix mf := None)"
  have run: "run (persist_metadata_for J prefix mf m) s = (Ok (), ?s)"
    using assms(3-5) distinct parent no_prefix
    unfolding persist_metadata_for_def write_temporary_metadata_def Let_def
    by (auto simp: run_simps steady_intros run_remove_regular ensure_def create_new_def append_bytes_def sync_def rename_def
        metadata_paths [OF assms(2)] metadata_regular_def metadata_files_def fun_upd_twist split: sum.splits)
  have "recoverable J prefix mf ?s = Some m" using distinct by (simp add: recoverable_def parse)
  moreover have "metadata_regular prefix mf ?s" using assms(2,3) by simp
  ultimately show "run (persist_metadata_for J prefix mf m) s = (Ok (), ?s)"
    "recoverable J prefix mf (snd (run (persist_metadata_for J prefix mf m) s)) = Some m"
    "metadata_regular prefix mf (snd (run (persist_metadata_for J prefix mf m) s))"
    using run by simp_all
qed

section \<open>Properties\<close>

text \<open>C10. Replacing the metadata is atomic: whatever fault interrupts \<open>persist_metadata_for\<close> (any
  operation failing, any write being cut short, the process stopping anywhere, the atomic rename
  being refused so that the old file is moved aside), a later fault-free \<open>read_metadata_for\<close>
  returns the old or the new metadata, the new one if the write reported success, and no other
  file has changed.\<close>

theorem metadata_write_atomic:
  assumes "json_laws J" "metadata_file_ok mf" "metadata_regular prefix mf s" "metadata_settled J prefix mf s"
    and old: "recoverable J prefix mf s = Some m0"
    and run: "persist_metadata_for J prefix mf m \<lparr>w_fs = s, w_schedule = schedule\<rparr> = (r, w')"
  shows "\<exists>m'. fst (run (read_metadata_for J prefix mf) (w_fs w')) = Ok m' \<and> m' \<in> {m0, m} \<and> (r = Ok () \<longrightarrow> m' = m)
     \<and> unchanged_outside (metadata_files prefix mf) s (w_fs w')"
proof -
  have laws: "json_laws J \<and> metadata_file_ok mf" using assms by blast
  note final = wpD [OF wp_conj [OF metadata.write_safe [OF laws assms(4) old] wp_persist_regular [OF assms(2,3)]] run]
  then obtain m' where m': "recoverable J prefix mf (w_fs w') = Some m'" "m' \<in> {m0, m}" "r = Ok () \<longrightarrow> m' = m"
    by (cases r) auto
  from final have "metadata_regular prefix mf (w_fs w')" "unchanged_outside (metadata_files prefix mf) s (w_fs w')"
    by (cases r; simp)+
  with m' run_read_metadata_for [OF assms(2) _ m'(1)] show ?thesis by blast
qed

text \<open>C11. Reading recovers and never loses: under every fault \<open>read_metadata_for\<close> leaves the
  metadata a later read finds as it was, touches only the three metadata files, and when it
  returns, it returns that metadata and has put it in its final place.\<close>

theorem metadata_read_preserves:
  assumes "json_laws J" "metadata_file_ok mf"
    and run: "read_metadata_for J prefix mf \<lparr>w_fs = s, w_schedule = schedule\<rparr> = (r, w')"
  shows "recoverable J prefix mf (w_fs w') = recoverable J prefix mf s
     \<and> unchanged_outside (metadata_files prefix mf) s (w_fs w')
     \<and> (\<forall>m. r = Ok m \<longrightarrow> recoverable J prefix mf s = Some m \<and> metadata_settled J prefix mf (w_fs w'))"
  using wpD [OF metadata.read_safe [of J mf prefix s] run] assms(1,2) by (cases r) auto

text \<open>Without faults \<open>persist_metadata_for\<close> succeeds exactly when the record names its own file and
  can be rendered; it then leaves the rendered record with a final newline as the only one of
  the three metadata files, and the next read returns it.\<close>

theorem metadata_write_completes:
  assumes "json_laws J" "metadata_file_ok mf" "metadata_regular prefix mf s"
    and "pm_metadata_file m = mf" "meta_render J m = (b, True)"
  shows "run (persist_metadata_for J prefix mf m) s =
      (Ok (), s(temporary_metadata_path_for prefix mf := None, metadata_path_for prefix mf \<mapsto> Regular (b @ [10]),
         backup_metadata_path_for prefix mf := None))
     \<and> fst (run (read_metadata_for J prefix mf) (snd (run (persist_metadata_for J prefix mf m) s))) = Ok m"
  using run_persist_metadata_for [OF assms] run_read_metadata_for [OF assms(2)] by metis

section \<open>Instances\<close>

definition sample_identity :: metadata_identity where
  "sample_identity = \<lparr>mi_display_name = ''demo'', mi_install_name = ''demo'', mi_metadata_file = ''.demo.json'',
     mi_version = ''1.0.0'', mi_delegate_executable = Some ''conda'', mi_lock_sha256 = None, mi_update = None\<rparr>"

definition sample_metadata :: "string list \<Rightarrow> prefix_metadata" where
  "sample_metadata packages = metadata_for_identity sample_identity [''conda-forge''] packages"

definition sample_json :: json_ext where
  "sample_json = \<lparr>meta_render = (\<lambda>m. if m = sample_metadata [] then ([1], True)
       else if m = sample_metadata [''python''] then ([2], True) else ([], False)),
     meta_parse = (\<lambda>b. if b = [1, 10] then Inr (sample_metadata [])
       else if b = [2, 10] then Inr (sample_metadata [''python'']) else Inl Io_Failed)\<rparr>"

definition sample_prefix :: fs where
  "sample_prefix = [[''opt''] \<mapsto> Directory, [''opt'', ''.demo.json''] \<mapsto> Regular [1, 10]]"

lemma sample_json_laws [simp]: "json_laws sample_json"
  by (auto simp: json_laws_def sample_json_def split: if_splits)

lemma sample_metadata_file_ok [simp]: "metadata_file_ok ''.demo.json''"
  by (simp add: metadata_file_ok_def plain_component_def ends_with_def)

lemma sample_metadata_paths [simp]:
  "metadata_path_for [''opt''] ''.demo.json'' = [''opt'', ''.demo.json'']"
  "temporary_metadata_path_for [''opt''] ''.demo.json'' = [''opt'', ''.demo.tmp'']"
  "backup_metadata_path_for [''opt''] ''.demo.json'' = [''opt'', ''.demo.bak'']"
  by (simp_all add: metadata_paths name_stem_def)

lemma sample_prefix_facts [simp]:
  "metadata_regular [''opt''] ''.demo.json'' sample_prefix"
  "metadata_settled sample_json [''opt''] ''.demo.json'' sample_prefix"
  "recoverable sample_json [''opt''] ''.demo.json'' sample_prefix = Some (sample_metadata [])"
  by (auto simp: metadata_regular_def metadata_files_def metadata_settled_def recoverable_def sample_prefix_def
      node_metadata_def sample_json_def)

text \<open>The atomic rename is refused, the old file has been moved aside, and the process stops.\<close>

lemma metadata_write_atomic_witness:
  "\<exists>m'. fst (run (read_metadata_for sample_json [''opt''] ''.demo.json'')
       (w_fs (snd (persist_metadata_for sample_json [''opt''] ''.demo.json'' (sample_metadata [''python''])
          \<lparr>w_fs = sample_prefix, w_schedule = [Go, Go, Go, Go, Go, Fail 0, Go, Go, Go, Halt 0]\<rparr>)))) = Ok m'
     \<and> m' \<in> {sample_metadata [], sample_metadata [''python'']}"
  using metadata_write_atomic [OF sample_json_laws sample_metadata_file_ok sample_prefix_facts prod.collapse [symmetric],
      of "sample_metadata [''python'']" "[Go, Go, Go, Go, Go, Fail 0, Go, Go, Go, Halt 0]"]
  by blast

lemma metadata_read_preserves_witness:
  "recoverable sample_json [''opt''] ''.demo.json''
     (w_fs (snd (read_metadata_for sample_json [''opt''] ''.demo.json'' \<lparr>w_fs = sample_prefix, w_schedule = [Go, Fail 0]\<rparr>)))
   = Some (sample_metadata [])"
  using metadata_read_preserves [OF sample_json_laws sample_metadata_file_ok prod.collapse [symmetric],
      of "[''opt'']" sample_prefix "[Go, Fail 0]"]
  by simp

lemma metadata_write_completes_witness:
  "fst (run (read_metadata_for sample_json [''opt''] ''.demo.json'')
      (snd (run (persist_metadata_for sample_json [''opt''] ''.demo.json'' (sample_metadata [])) sample_prefix)))
   = Ok (sample_metadata [])"
proof -
  have "pm_metadata_file (sample_metadata []) = ''.demo.json''" "meta_render sample_json (sample_metadata []) = ([1], True)"
    by (simp_all add: sample_json_def) (simp add: sample_metadata_def metadata_for_identity_def sample_identity_def)
  then show ?thesis
    using metadata_write_completes [OF sample_json_laws sample_metadata_file_ok sample_prefix_facts(1)] by blast
qed

end
