(* ===== verification/Bootstrap_State.thy ===== *)
theory Bootstrap_State
  imports Prefix_Metadata
begin

text \<open>
  The ownership marker of an unfinished bootstrap (\<open>src/bootstrap_state.rs\<close>) and the path of the
  bootstrap lock (\<open>src/bootstrap_lock.rs\<close>). \<open>state_ext\<close> is what the file takes from \<open>serde_json\<close>;
  rendering a marker cannot fail, since it holds only strings and numbers.
\<close>

definition BOOTSTRAP_STATE_SCHEMA_VERSION :: nat where
  "BOOTSTRAP_STATE_SCHEMA_VERSION = 1"

definition BOOTSTRAP_STATE_FILE :: string where
  "BOOTSTRAP_STATE_FILE = ''.conda-ship-bootstrap.json''"

definition BOOTSTRAP_STATE_TEMP_FILE :: string where
  "BOOTSTRAP_STATE_TEMP_FILE = ''.conda-ship-bootstrap.json.tmp''"

record bootstrap_state =
  bs_schema_version :: nat
  bs_state :: bootstrap_phase
  bs_display_name :: string
  bs_install_name :: string
  bs_metadata_file :: string

record bootstrap_identity =
  bi_display_name :: string
  bi_install_name :: string
  bi_metadata_file :: string

definition bootstrap_state_current :: "bootstrap_phase \<Rightarrow> bootstrap_identity \<Rightarrow> bootstrap_state" where
  "bootstrap_state_current state identity =
     \<lparr>bs_schema_version = BOOTSTRAP_STATE_SCHEMA_VERSION, bs_state = state,
      bs_display_name = bi_display_name identity, bs_install_name = bi_install_name identity,
      bs_metadata_file = bi_metadata_file identity\<rparr>"

record state_ext =
  state_render :: "bootstrap_state \<Rightarrow> bytes"
  state_parse :: "bytes \<Rightarrow> bootstrap_state result"

text \<open>A rendered marker parses back, and a proper prefix of one is not a complete JSON object.\<close>

definition state_laws :: "state_ext \<Rightarrow> bootstrap_state \<Rightarrow> bool" where
  "state_laws B x \<longleftrightarrow> state_parse B (state_render B x @ [10]) = Inr x
     \<and> (\<forall>k. k < length (state_render B x) \<longrightarrow> \<not> is_ok (state_parse B (take k (state_render B x))))"

definition bootstrap_path :: "path \<Rightarrow> path" where
  "bootstrap_path prefix = join prefix BOOTSTRAP_STATE_FILE"

definition bootstrap_temporary_path :: "path \<Rightarrow> path" where
  "bootstrap_temporary_path prefix = join prefix BOOTSTRAP_STATE_TEMP_FILE"

definition remove_regular_state_if_present :: "path \<Rightarrow> unit io" where
  "remove_regular_state_if_present p =
     bindio (tryio (symlink_metadata p)) (\<lambda>r. case r of
       Inr kind \<Rightarrow> if kind \<noteq> Is_File then fail (Invalid ''bootstrap state is not a regular file'')
                   else remove_file p
     | Inl e \<Rightarrow> if e = Not_Found then ret () else fail e)"

definition read_state_file :: "path \<Rightarrow> bytes option io" where
  "read_state_file p =
     bindio (tryio (symlink_metadata p)) (\<lambda>r. case r of
       Inl e \<Rightarrow> if e = Not_Found then ret None else fail e
     | Inr kind \<Rightarrow> if kind \<noteq> Is_File then fail (Invalid ''bootstrap state is not a regular file'')
                   else bindio (read_file p) (\<lambda>b. ret (Some b)))"

definition read_state :: "state_ext \<Rightarrow> path \<Rightarrow> bootstrap_state option io" where
  "read_state B prefix =
     bindio (read_state_file (bootstrap_path prefix)) (\<lambda>d.
     bindio (case d of Some data \<Rightarrow> ret (Some data)
             | None \<Rightarrow> read_state_file (bootstrap_temporary_path prefix)) (\<lambda>d.
     case d of None \<Rightarrow> ret None
     | Some data \<Rightarrow> bindio (lift_result (state_parse B data)) (\<lambda>state. ret (Some state))))"

definition write_installing_for :: "state_ext \<Rightarrow> path \<Rightarrow> bootstrap_identity \<Rightarrow> unit io" where
  "write_installing_for B prefix identity =
     (let path = bootstrap_path prefix; temporary_path = bootstrap_temporary_path prefix in
      bindio (create_dir_all prefix) (\<lambda>_.
      bindio (remove_regular_state_if_present temporary_path) (\<lambda>_.
      bindio (create_truncate temporary_path) (\<lambda>_.
      bindio (write_all temporary_path (state_render B (bootstrap_state_current Installing identity))) (\<lambda>_.
      bindio (write_all temporary_path [10]) (\<lambda>_.
      bindio sync (\<lambda>_.
      bindio (remove_regular_state_if_present path) (\<lambda>_.
      rename temporary_path path))))))))"

definition remove_state :: "path \<Rightarrow> unit io" where
  "remove_state prefix =
     bindio (remove_regular_state_if_present (bootstrap_path prefix)) (\<lambda>_.
     remove_regular_state_if_present (bootstrap_temporary_path prefix))"

definition validate_identity_for :: "bootstrap_state \<Rightarrow> bootstrap_identity \<Rightarrow> unit result" where
  "validate_identity_for state identity =
     (if bs_schema_version state \<noteq> BOOTSTRAP_STATE_SCHEMA_VERSION
      then Inl (Invalid ''unsupported bootstrap state schema version'')
      else if bs_display_name state \<noteq> bi_display_name identity
      then Inl (Invalid ''bootstrap state belongs to another runtime'')
      else if bs_install_name state \<noteq> bi_install_name identity
      then Inl (Invalid ''bootstrap state install name differs'')
      else if bs_metadata_file state \<noteq> bi_metadata_file identity
      then Inl (Invalid ''bootstrap state metadata file differs'')
      else if bs_state state \<noteq> Installing
      then Inl (Invalid ''bootstrap ownership marker has invalid state'')
      else Inr ())"

text \<open>\<open>bootstrap_lock::path\<close>: beside the prefix, so that it exists before the prefix does.\<close>

definition bootstrap_lock_path :: "path \<Rightarrow> path result" where
  "bootstrap_lock_path prefix =
     rbind (ok_or ''install path has no parent directory'' (parent prefix)) (\<lambda>d.
     rbind (ok_or ''install path has no final component'' (file_name prefix)) (\<lambda>name.
     Inr (join d (''.'' @ name @ ''.conda-ship.lock''))))"

section \<open>The marker\<close>

definition state_files :: "path \<Rightarrow> path set" where
  "state_files prefix = {bootstrap_path prefix, bootstrap_temporary_path prefix}"

definition node_state :: "state_ext \<Rightarrow> node \<Rightarrow> bootstrap_state option" where
  "node_state B n = (case n of
     Regular b \<Rightarrow> (case state_parse B b of Inr x \<Rightarrow> Some x | Inl _ \<Rightarrow> None) | _ \<Rightarrow> None)"

text \<open>The file the reader looks at.\<close>

definition marker_node :: "path \<Rightarrow> fs \<Rightarrow> node option" where
  "marker_node prefix s =
     (case s (bootstrap_path prefix) of Some n \<Rightarrow> Some n | None \<Rightarrow> s (bootstrap_temporary_path prefix))"

lemma state_paths [simp]:
  "bootstrap_path prefix = prefix @ [''.conda-ship-bootstrap.json'']"
  "bootstrap_temporary_path prefix = prefix @ [''.conda-ship-bootstrap.json.tmp'']"
  by (simp_all add: bootstrap_path_def bootstrap_temporary_path_def BOOTSTRAP_STATE_FILE_def
      BOOTSTRAP_STATE_TEMP_FILE_def plain_component_def)

lemma steady_state [steady_intros]:
  "steady (remove_regular_state_if_present p)" "steady (read_state_file p)" "steady (read_state B prefix)"
  "steady (write_installing_for B prefix identity)" "steady (remove_state prefix)"
proof -
  show *: "steady (remove_regular_state_if_present p)" "steady (read_state_file p)" for p
    by (simp_all add: remove_regular_state_if_present_def read_state_file_def steady_intros)
  show "steady (read_state B prefix)" "steady (write_installing_for B prefix identity)" "steady (remove_state prefix)"
    by (simp_all add: read_state_def write_installing_for_def remove_state_def Let_def steady_intros *)
qed

lemma wp_remove_regular_state_if_present [wp_intros]:
  assumes "s p = None \<or> (\<exists>b. s p = Some (Regular b)) \<Longrightarrow> Q () (s(p := None)) \<and> C (s(p := None))"
    and "\<And>e. E e s" "C s"
  shows "wp (remove_regular_state_if_present p) Q E C s"
proof -
  have id: "s p = None \<Longrightarrow> s(p := None) = s" by (simp add: fun_upd_idem)
  show ?thesis
    unfolding remove_regular_state_if_present_def
    by (rule wp_bindio, rule wp_tryio, rule wp_symlink_metadata)
      (use assms id in \<open>auto intro!: wp_intros simp: node_kind_def split: node.splits\<close>)
qed

lemma run_read_state:
  "run (read_state B prefix) s = (case marker_node prefix s of None \<Rightarrow> (Ok None, s)
     | Some n \<Rightarrow> (case n of Regular b \<Rightarrow> (case state_parse B b of Inr x \<Rightarrow> (Ok (Some x), s) | Inl e \<Rightarrow> (Err e, s))
        | _ \<Rightarrow> (Err (Invalid ''bootstrap state is not a regular file''), s)))"
  by (auto simp: read_state_def read_state_file_def marker_node_def run_simps steady_intros symlink_metadata_def
      read_file_def follow_def node_kind_def lift_result_def split: option.splits node.splits sum.splits)

lemma run_remove_state:
  assumes "\<And>p. p \<in> state_files prefix \<Longrightarrow> s p = None \<or> (\<exists>b. s p = Some (Regular b))"
  shows "run (remove_state prefix) s = (Ok (), s(bootstrap_path prefix := None, bootstrap_temporary_path prefix := None))"
proof -
  have remove: "s' p = None \<or> (\<exists>b. s' p = Some (Regular b)) \<Longrightarrow>
      run (remove_regular_state_if_present p) s' = (Ok (), s'(p := None))" for s' p
    by (auto simp: remove_regular_state_if_present_def run_simps steady_intros symlink_metadata_def remove_file_def
        node_kind_def fun_upd_idem)
  show ?thesis
    using assms by (simp add: remove_state_def run_simps steady_intros remove state_files_def)
qed

end
