(* ===== verification/Delegate.thy ===== *)
theory Delegate
  imports File_System
begin

text \<open>
  The delegate executable of \<open>src/exec.rs\<close>: its name, where it is looked for and the command
  built for it. \<open>windows\<close> is \<open>cfg!(windows)\<close>. The \<open>PATH\<close> list is the one of Unix
  (\<open>split_paths\<close> and \<open>join_paths\<close> with a colon and no quoting).
\<close>

definition to_ascii_lowercase :: "char \<Rightarrow> char" where
  "to_ascii_lowercase c = (if is_ascii_uppercase c then char_of (code c + 32) else c)"

definition executable_filename :: "bool \<Rightarrow> string \<Rightarrow> string" where
  "executable_filename windows executable =
     (if windows \<and> \<not> ends_with ''.exe'' (map to_ascii_lowercase executable) then executable @ ''.exe'' else executable)"

definition validate_executable_name :: "string \<Rightarrow> unit result" where
  "validate_executable_name executable =
     (if executable = [] \<or> executable = ''.'' \<or> executable = ''..'' \<or> CHR ''/'' \<in> set executable
         \<or> CHR 0x5C \<in> set executable \<or> has_control executable
      then Inl (Invalid ''invalid delegate executable name'') else Inr ())"

definition prefix_path_entries :: "bool \<Rightarrow> path \<Rightarrow> path list" where
  "prefix_path_entries windows prefix =
     (if windows
      then [prefix, prefix @ [''Library'', ''mingw-w64'', ''bin''], prefix @ [''Library'', ''usr'', ''bin''],
            prefix @ [''Library'', ''bin''], prefix @ [''Scripts''], prefix @ [''bin''], prefix @ [''condabin'']]
      else [prefix @ [''bin''], prefix @ [''condabin'']])"

fun first_existing :: "path list \<Rightarrow> path \<Rightarrow> path io" where
  "first_existing [] fallback = ret fallback"
| "first_existing (p # ps) fallback =
     bindio (path_exists p) (\<lambda>present. if present then ret p else first_existing ps fallback)"

definition executable_in_prefix :: "bool \<Rightarrow> path \<Rightarrow> string \<Rightarrow> path io" where
  "executable_in_prefix windows prefix name =
     (let executable = executable_filename windows name in
      if windows then
        first_existing (map (\<lambda>d. join d executable) (prefix_path_entries windows prefix))
          (if map to_ascii_lowercase executable = ''conda.exe''
           then join (prefix @ [''Scripts'']) executable else join prefix executable)
      else ret (join (prefix @ [''bin'']) executable))"

definition validate_delegate :: "bool \<Rightarrow> path \<Rightarrow> string \<Rightarrow> unit io" where
  "validate_delegate windows prefix delegate =
     bindio (lift_result (validate_executable_name delegate)) (\<lambda>_.
     bindio (executable_in_prefix windows prefix delegate) (\<lambda>delegate_bin.
     bindio (path_is_file delegate_bin) (\<lambda>found.
     ensure found ''delegate executable not found'')))"

definition render_path :: "path \<Rightarrow> string" where
  "render_path p = (if p = [] then ''/'' else concat (map (\<lambda>c. CHR ''/'' # c) p))"

fun join_with :: "char \<Rightarrow> string list \<Rightarrow> string" where
  "join_with c [] = []"
| "join_with c [x] = x"
| "join_with c (x # y # ys) = x @ c # join_with c (y # ys)"

definition delegate_path_env :: "path \<Rightarrow> string option \<Rightarrow> string result" where
  "delegate_path_env prefix existing =
     (let paths = map render_path (prefix_path_entries False prefix)
        @ (case existing of None \<Rightarrow> [] | Some e \<Rightarrow> split_on CHR '':'' e) in
      if \<exists>p \<in> set paths. CHR '':'' \<in> set p then Inl (Invalid ''failed to construct delegate PATH'')
      else Inr (join_with CHR '':'' paths))"

record delegate_command =
  dc_program :: path
  dc_args :: "string list"
  dc_path :: string

definition build_delegate_command ::
    "path \<Rightarrow> string \<Rightarrow> string list \<Rightarrow> string option \<Rightarrow> delegate_command io" where
  "build_delegate_command prefix delegate args existing =
     bindio (validate_delegate False prefix delegate) (\<lambda>_.
     bindio (executable_in_prefix False prefix delegate) (\<lambda>delegate_bin.
     bindio (lift_result (delegate_path_env prefix existing)) (\<lambda>path_env.
     ret \<lparr>dc_program = delegate_bin, dc_args = args, dc_path = path_env\<rparr>)))"

section \<open>Names\<close>

interpretation executable_name: component_validator "\<lambda>s. validate_executable_name s = Inr ()"
  by unfold_locales (auto simp: validate_executable_name_def plain_component_def split: if_splits)

lemma executable_in_prefix_unix:
  "validate_executable_name d = Inr () \<Longrightarrow> executable_in_prefix False prefix d = ret (prefix @ [''bin'', d])"
  using executable_name.valid_plain [of d] by (simp add: executable_in_prefix_def executable_filename_def)

lemma steady_delegate [steady_intros]:
  "steady (executable_in_prefix windows prefix d)" "steady (validate_delegate windows prefix d)"
proof -
  have "steady (first_existing ps p)" for ps p
    by (induction ps) (simp_all add: steady_intros)
  then show *: "steady (executable_in_prefix windows prefix d)"
    by (simp add: executable_in_prefix_def Let_def steady_intros)
  show "steady (validate_delegate windows prefix d)"
    by (simp add: validate_delegate_def steady_intros *)
qed

text \<open>Looking for the delegate changes nothing, whatever fails.\<close>

lemma wp_validate_delegate [wp_intros]:
  assumes "Q () s" "\<And>e. E e s" "C s"
  shows "wp (validate_delegate windows prefix d) Q E C s"
proof -
  have first: "wp (first_existing ps p) (\<lambda>_ s'. s' = s) (\<lambda>_ s'. s' = s) (\<lambda>s'. s' = s) s" for ps p
    by (induction ps) (auto intro!: wp_intros)
  have "wp (executable_in_prefix windows prefix d) (\<lambda>_ s'. s' = s) (\<lambda>_ s'. s' = s) (\<lambda>s'. s' = s) s"
    by (auto simp: executable_in_prefix_def Let_def intro!: wp_ret first)
  then have "wp (validate_delegate windows prefix d) (\<lambda>_ s'. s' = s) (\<lambda>_ s'. s' = s) (\<lambda>s'. s' = s) s"
    unfolding validate_delegate_def by (auto intro!: wp_intros elim!: wp_mono)
  then show ?thesis using assms by (auto elim!: wp_mono)
qed

lemma run_validate_delegate_unix:
  "run (validate_delegate False prefix d) s =
     (if validate_executable_name d \<noteq> Inr () then (Err (Invalid ''invalid delegate executable name''), s)
      else if map_option node_kind (follow s (prefix @ [''bin'', d])) = Some Is_File then (Ok (), s)
      else (Err (Invalid ''delegate executable not found''), s))"
proof (cases "validate_executable_name d = Inr ()")
  case True
  then show ?thesis
    by (simp add: validate_delegate_def run_simps steady_intros executable_in_prefix_unix lift_result_def ensure_def)
next
  case False
  then have "validate_executable_name d = Inl (Invalid ''invalid delegate executable name'')"
    by (simp add: validate_executable_name_def split: if_splits)
  with False show ?thesis by (simp add: validate_delegate_def run_simps steady_intros lift_result_def)
qed

lemma split_on_append:
  "c \<notin> set x \<Longrightarrow> split_on c (x @ c # y) = x # split_on c y"
  by (induction x) auto

lemma split_join_with:
  assumes "xs \<noteq> []" "\<And>x. x \<in> set xs \<Longrightarrow> c \<notin> set x"
  shows "split_on c (join_with c xs) = xs"
  using assms by (induction c xs rule: join_with.induct) (simp_all add: split_on_absent split_on_append)

section \<open>Properties\<close>

text \<open>The command of the delegate runs the executable of the prefix and nothing else: on Unix it is
  a regular file (behind at most a link) directly in \<open>bin\<close>, the arguments are passed on unchanged, and the
  \<open>PATH\<close> the delegate splits again starts with the two directories of the prefix, before everything the
  caller had.\<close>

theorem delegate_command_sound:
  assumes "run (build_delegate_command prefix delegate args existing) s = (Ok cmd, s')"
  shows "s' = s \<and> dc_program cmd = prefix @ [''bin'', delegate] \<and> plain_component delegate
     \<and> map_option node_kind (follow s (dc_program cmd)) = Some Is_File \<and> dc_args cmd = args
     \<and> split_on CHR '':'' (dc_path cmd) =
         [render_path (prefix @ [''bin'']), render_path (prefix @ [''condabin''])]
         @ (case existing of None \<Rightarrow> [] | Some e \<Rightarrow> split_on CHR '':'' e)"
proof -
  have run: "run (build_delegate_command prefix delegate args existing) s =
    (case run (validate_delegate False prefix delegate) s of
       (Ok x, s') \<Rightarrow> run (bindio (executable_in_prefix False prefix delegate) (\<lambda>delegate_bin.
          bindio (lift_result (delegate_path_env prefix existing)) (\<lambda>path_env.
          ret \<lparr>dc_program = delegate_bin, dc_args = args, dc_path = path_env\<rparr>))) s'
     | (Err e, s') \<Rightarrow> (Err e, s') | (Crash, s') \<Rightarrow> (Crash, s'))"
    by (simp add: build_delegate_command_def run_bindio steady_intros)
  then have valid: "validate_executable_name delegate = Inr ()"
    and found: "map_option node_kind (follow s (prefix @ [''bin'', delegate])) = Some Is_File"
    using assms by (auto simp: run_validate_delegate_unix split: if_splits)
  obtain env where env: "delegate_path_env prefix existing = Inr env"
    and cmd: "cmd = \<lparr>dc_program = prefix @ [''bin'', delegate], dc_args = args, dc_path = env\<rparr>" and s': "s' = s"
    using assms valid found unfolding run
    by (auto simp: run_validate_delegate_unix executable_in_prefix_unix run_simps steady_intros lift_result_def
        split: sum.splits)
  let ?paths = "map render_path (prefix_path_entries False prefix)
    @ (case existing of None \<Rightarrow> [] | Some e \<Rightarrow> split_on CHR '':'' e)"
  have env_eq: "env = join_with CHR '':'' ?paths" and no_colon: "\<forall>p \<in> set ?paths. CHR '':'' \<notin> set p"
    using env by (auto simp: delegate_path_env_def Let_def split: if_splits)
  have "split_on CHR '':'' env = ?paths"
    unfolding env_eq by (rule split_join_with) (use no_colon in \<open>auto simp: prefix_path_entries_def\<close>)
  then show ?thesis
    using valid found cmd s' executable_name.valid_plain by (simp add: prefix_path_entries_def)
qed

lemma delegate_command_sound_witness:
  "let s = [[''opt'', ''bin'', ''conda''] \<mapsto> Regular []] :: fs;
       env = join_with CHR '':'' [''/opt/bin'', ''/opt/condabin'', ''/usr/bin'']
   in run (build_delegate_command [''opt''] ''conda'' [''info''] (Some ''/usr/bin'')) s
        = (Ok \<lparr>dc_program = [''opt'', ''bin'', ''conda''], dc_args = [''info''], dc_path = env\<rparr>, s)
      \<and> split_on CHR '':'' env = [''/opt/bin'', ''/opt/condabin'', ''/usr/bin'']"
proof -
  let ?s = "[[''opt'', ''bin'', ''conda''] \<mapsto> Regular []] :: fs"
  have run: "run (build_delegate_command [''opt''] ''conda'' [''info''] (Some ''/usr/bin'')) ?s
      = (Ok \<lparr>dc_program = [''opt'', ''bin'', ''conda''], dc_args = [''info''],
             dc_path = join_with CHR '':'' [''/opt/bin'', ''/opt/condabin'', ''/usr/bin'']\<rparr>, ?s)"
    by (simp add: build_delegate_command_def run_bindio steady_intros run_validate_delegate_unix
        executable_in_prefix_unix validate_executable_name_def follow_def node_kind_def delegate_path_env_def
        prefix_path_entries_def render_path_def lift_result_def run_simps)
  show ?thesis using delegate_command_sound [OF run] run by (simp add: render_path_def Let_def)
qed

end
