(* ===== verification/Bootstrap.thy ===== *)
theory Bootstrap
  imports Bootstrap_State Delegate
begin

text \<open>
  Automatic bootstrap of the managed prefix (\<open>src/commands.rs\<close>): what the runtime decides about
  a prefix it finds (\<open>prefix_disposition_for\<close>) and the installation (\<open>bootstrap\<close>). The
  runtime data of the executable (\<open>policy\<close>, \<open>embedded_config\<close>, \<open>embedded_lock\<close>) is the header \<open>h\<close>.
  \<open>installer_ext\<close> stands for the package installation of \<open>src/install.rs\<close> (rattler), the
  constructor metadata and the byte compilation; \<open>installer_laws\<close> states what the bootstrap relies on.
  The property: the prefix never counts as ready unless the packages were installed completely.
\<close>

section \<open>Policy files\<close>

text \<open>\<open>std::fs::write\<close>.\<close>

definition write_file :: "path \<Rightarrow> bytes \<Rightarrow> unit io" where
  "write_file p b = bindio (create_truncate p) (\<lambda>_. write_all p b)"

definition bytes_of_string :: "string \<Rightarrow> bytes" where
  "bytes_of_string s = map (\<lambda>c. of_nat (code c)) s"

definition frozen_message :: "string \<Rightarrow> string" where
  "frozen_message display = ''This base environment is managed by '' @ display @ ''.'' @ [CHR 10]
     @ ''Create a new environment instead: conda create -n myenv'' @ [CHR 10]
     @ ''To override: pass --override-frozen''"

text \<open>\<open>render_message\<close> is \<open>serde_json::to_string_pretty\<close> of the object with that message.\<close>

definition write_frozen_with_message :: "(string \<Rightarrow> bytes) \<Rightarrow> path \<Rightarrow> string \<Rightarrow> unit io" where
  "write_frozen_with_message render_message prefix message =
     bindio (create_dir_all (prefix @ [''conda-meta''])) (\<lambda>_.
     write_file (prefix @ [''conda-meta'', ''frozen'']) (render_message message))"

definition write_condarc :: "path \<Rightarrow> string \<Rightarrow> unit io" where
  "write_condarc prefix contents =
     bindio (create_dir_all prefix) (\<lambda>_.
     write_file (prefix @ [''.condarc'']) (bytes_of_string contents))"

definition write_configured_policy :: "(string \<Rightarrow> bytes) \<Rightarrow> path \<Rightarrow> string \<Rightarrow> runtime_config \<Rightarrow> unit io" where
  "write_configured_policy render_message prefix display config =
     bindio (case rc_condarc config of Some contents \<Rightarrow> write_condarc prefix contents | None \<Rightarrow> ret ()) (\<lambda>_.
     if rc_freeze_base config then write_frozen_with_message render_message prefix (frozen_message display)
     else ret ())"

section \<open>Disposition of a prefix\<close>

record managed_prefix_identity =
  pi_display_name :: string
  pi_install_name :: string
  pi_metadata_file :: string
  pi_expected_delegate :: "string option"

definition bootstrap_identity_of :: "managed_prefix_identity \<Rightarrow> bootstrap_identity" where
  "bootstrap_identity_of identity =
     \<lparr>bi_display_name = pi_display_name identity, bi_install_name = pi_install_name identity,
      bi_metadata_file = pi_metadata_file identity\<rparr>"

definition embedded_prefix_identity :: "runtime_header \<Rightarrow> managed_prefix_identity" where
  "embedded_prefix_identity h =
     \<lparr>pi_display_name = h_runtime_name h, pi_install_name = h_install_name h,
      pi_metadata_file = h_metadata_file h, pi_expected_delegate = Some (h_delegate_executable h)\<rparr>"

datatype prefix_disposition = Prefix_Ready | Prefix_Bootstrap (pd_reinstall: bool)

text \<open>\<open>read_dir(prefix).next().is_none()\<close>: the directory, or the one a link leads to, has no entry.\<close>

definition read_dir_is_empty :: "path \<Rightarrow> bool io" where
  "read_dir_is_empty p = atomic_op (\<lambda>s.
     let d = (case s p of Some (Symlink q) \<Rightarrow> q | _ \<Rightarrow> p) in Inr ((\<forall>n. s (d @ [n]) = None), s))"

definition is_empty_dir :: "path \<Rightarrow> bool io" where
  "is_empty_dir prefix =
     bindio (path_is_dir prefix) (\<lambda>d. if \<not> d then ret False else read_dir_is_empty prefix)"

definition read_managed_metadata_for :: "json_ext \<Rightarrow> path \<Rightarrow> managed_prefix_identity \<Rightarrow> prefix_metadata io" where
  "read_managed_metadata_for J prefix identity =
     bindio (tryio (symlink_metadata (metadata_path_for prefix (pi_metadata_file identity)))) (\<lambda>r.
     bindio (case r of
         Inr kind \<Rightarrow> ensure (kind = Is_File) ''runtime metadata is not a regular file''
       | Inl e \<Rightarrow> if e = Not_Found then ret () else fail e) (\<lambda>_.
     bindio (map_err ''refusing to use unmanaged install path'' (read_metadata_for J prefix (pi_metadata_file identity))) (\<lambda>meta.
     bindio (map_err ''refusing to use install path owned by a different runtime''
       (lift_result (validate_metadata_ready_for meta (pi_display_name identity) (pi_install_name identity)
          (pi_metadata_file identity)))) (\<lambda>_.
     ret meta))))"

definition recorded_delegate :: "prefix_metadata \<Rightarrow> string option \<Rightarrow> string result" where
  "recorded_delegate meta fallback =
     (case (fallback, pm_delegate_executable meta) of
        (Some expected, Some recorded) \<Rightarrow>
          if recorded \<noteq> expected then Inl (Invalid ''runtime metadata records another delegate'') else Inr expected
      | (Some expected, None) \<Rightarrow> Inr expected
      | (None, Some recorded) \<Rightarrow> Inr recorded
      | (None, None) \<Rightarrow> Inl (Invalid ''runtime metadata has no delegate executable''))"

definition validate_recorded_delegate :: "bool \<Rightarrow> path \<Rightarrow> prefix_metadata \<Rightarrow> string option \<Rightarrow> unit io" where
  "validate_recorded_delegate windows prefix meta fallback =
     bindio (lift_result (recorded_delegate meta fallback)) (\<lambda>delegate.
     validate_delegate windows prefix delegate)"

definition validate_ready_prefix_for :: "bool \<Rightarrow> json_ext \<Rightarrow> path \<Rightarrow> managed_prefix_identity \<Rightarrow> unit io" where
  "validate_ready_prefix_for windows J prefix identity =
     bindio (read_managed_metadata_for J prefix identity) (\<lambda>meta.
     validate_recorded_delegate windows prefix meta (pi_expected_delegate identity))"

definition validate_prefix_path :: "path \<Rightarrow> unit io" where
  "validate_prefix_path prefix =
     bindio (tryio (symlink_metadata prefix)) (\<lambda>r. case r of
       Inr kind \<Rightarrow> ensure (kind = Is_Directory) ''refusing to use install path that is not a directory''
     | Inl e \<Rightarrow> if e = Not_Found then ret () else fail e)"

text \<open>A marker was found: the prefix is this runtime's, and its bootstrap did not finish, unless the
  metadata says it did and the delegate is there.\<close>

definition recover_marked_prefix ::
    "bool \<Rightarrow> json_ext \<Rightarrow> path \<Rightarrow> managed_prefix_identity \<Rightarrow> bool \<Rightarrow> prefix_disposition io" where
  "recover_marked_prefix windows J prefix identity require_healthy_delegate =
     bindio (tryio (symlink_metadata (metadata_path_for prefix (pi_metadata_file identity)))) (\<lambda>r. case r of
       Inr kind \<Rightarrow>
         if kind \<noteq> Is_File then fail (Invalid ''refusing to recover install path with invalid runtime metadata'')
         else bindio (tryio (read_metadata_for J prefix (pi_metadata_file identity))) (\<lambda>r. case r of
           Inl _ \<Rightarrow> ret (Prefix_Bootstrap True)
         | Inr meta \<Rightarrow>
             bindio (map_err ''refusing to recover install path owned by a different runtime''
               (lift_result (validate_metadata_identity_for meta (pi_display_name identity) (pi_install_name identity)
                  (pi_metadata_file identity)))) (\<lambda>_.
             if pm_bootstrap_state meta \<noteq> Bootstrap_Ready then ret (Prefix_Bootstrap True)
             else bindio (if require_healthy_delegate
                   then bindio (tryio (validate_recorded_delegate windows prefix meta (pi_expected_delegate identity)))
                          (\<lambda>r. ret (is_ok r))
                   else ret True) (\<lambda>healthy.
               if healthy then bindio (remove_state prefix) (\<lambda>_. ret Prefix_Ready)
               else ret (Prefix_Bootstrap True))))
     | Inl e \<Rightarrow> if e = Not_Found then ret (Prefix_Bootstrap True) else fail e)"

definition prefix_disposition_for ::
    "bool \<Rightarrow> json_ext \<Rightarrow> state_ext \<Rightarrow> path \<Rightarrow> managed_prefix_identity \<Rightarrow> bool \<Rightarrow> prefix_disposition io" where
  "prefix_disposition_for windows J B prefix identity require_healthy_delegate =
     bindio (validate_prefix_path prefix) (\<lambda>_.
     bindio (map_err ''refusing to use install path with invalid bootstrap state'' (read_state B prefix)) (\<lambda>state.
     case state of
       Some state \<Rightarrow>
         bindio (map_err ''refusing to use install path owned by a different runtime''
           (lift_result (validate_identity_for state (bootstrap_identity_of identity)))) (\<lambda>_.
         bindio (ensure (bs_state state = Installing) ''refusing to use install path with invalid bootstrap state'') (\<lambda>_.
         recover_marked_prefix windows J prefix identity require_healthy_delegate))
     | None \<Rightarrow>
         bindio (path_exists prefix) (\<lambda>present.
         bindio (if \<not> present then ret True else is_empty_dir prefix) (\<lambda>fresh.
         if fresh then ret (Prefix_Bootstrap False)
         else bindio (map_err ''refusing to bootstrap into existing non-empty path''
             (if require_healthy_delegate then validate_ready_prefix_for windows J prefix identity
              else bindio (read_managed_metadata_for J prefix identity) (\<lambda>_. ret ()))) (\<lambda>_.
           ret Prefix_Ready)))))"

section \<open>Bootstrap\<close>

record installer_ext =
  ix_bundle :: "path \<Rightarrow> string \<Rightarrow> path \<Rightarrow> bool \<Rightarrow> bool \<Rightarrow> unit io"
  ix_extract_embedded :: "path option io"
  ix_remove_dir_all :: "path \<Rightarrow> unit io"
  ix_offline :: "path \<Rightarrow> string \<Rightarrow> bool \<Rightarrow> unit io"
  ix_online :: "path \<Rightarrow> string \<Rightarrow> bool \<Rightarrow> unit io"
  ix_prefix_metadata :: "path \<Rightarrow> string \<Rightarrow> string list \<Rightarrow> unit io"
  ix_bytecode :: "path \<Rightarrow> unit io"
  ix_render_message :: "string \<Rightarrow> bytes"

definition embedded_config :: "runtime_header \<Rightarrow> runtime_config" where
  "embedded_config h =
     (if \<not> runtime_config_is_empty (h_runtime_config h) then h_runtime_config h else runtime_config_default)"

definition embedded_lock :: "runtime_header \<Rightarrow> string option" where
  "embedded_lock h = (if h_runtime_lock h = [] then None else Some (h_runtime_lock h))"

definition header_metadata_identity :: "runtime_header \<Rightarrow> metadata_identity" where
  "header_metadata_identity h =
     \<lparr>mi_display_name = h_runtime_name h, mi_install_name = h_install_name h, mi_metadata_file = h_metadata_file h,
      mi_version = h_runtime_version h, mi_delegate_executable = Some (h_delegate_executable h),
      mi_lock_sha256 = None, mi_update = h_update h\<rparr>"

definition write_metadata :: "json_ext \<Rightarrow> runtime_header \<Rightarrow> path \<Rightarrow> string list \<Rightarrow> string list \<Rightarrow> unit io" where
  "write_metadata J h prefix channels packages =
     write_metadata_for_identity J prefix (header_metadata_identity h) channels packages"

text \<open>Environment variables; \<open>bundle\<close> is the value as a path.\<close>

definition configured_bundle :: "path option \<Rightarrow> path option io" where
  "configured_bundle bundle_value =
     (case bundle_value of None \<Rightarrow> ret None
      | Some p \<Rightarrow> bindio (path_is_dir p) (\<lambda>d.
          if d then ret (Some p) else fail (Invalid ''configured bundle path is not a directory'')))"

definition configured_offline :: "string option \<Rightarrow> bool" where
  "configured_offline offline_value =
     (case offline_value of None \<Rightarrow> False
      | Some v \<Rightarrow> v \<noteq> [] \<and> v \<noteq> ''0'' \<and> map to_ascii_lowercase v \<noteq> ''false'')"

definition install_packages ::
    "installer_ext \<Rightarrow> path \<Rightarrow> string \<Rightarrow> path option \<Rightarrow> bool \<Rightarrow> bool \<Rightarrow> unit io" where
  "install_packages I prefix content bundle offline reinstall =
     (case bundle of
        Some bundle_dir \<Rightarrow> ix_bundle I prefix content bundle_dir offline reinstall
      | None \<Rightarrow> bindio (ix_extract_embedded I) (\<lambda>embedded. case embedded of
          Some embedded_dir \<Rightarrow>
            bindio (tryio (ix_bundle I prefix content embedded_dir True reinstall)) (\<lambda>result.
            bindio (tryio (ix_remove_dir_all I embedded_dir)) (\<lambda>_.
            lift_result result))
        | None \<Rightarrow> if offline then ix_offline I prefix content reinstall
                   else ix_online I prefix content reinstall))"

definition bootstrap ::
    "bool \<Rightarrow> json_ext \<Rightarrow> state_ext \<Rightarrow> installer_ext \<Rightarrow> runtime_header \<Rightarrow> path \<Rightarrow> path option \<Rightarrow> bool \<Rightarrow> bool \<Rightarrow> unit io" where
  "bootstrap windows J B I h prefix bundle offline reinstall =
     (let cfg = embedded_config h in
      bindio (if reinstall then ret True
              else bindio (path_exists prefix) (\<lambda>present. if present then is_empty_dir prefix else ret True)) (\<lambda>allowed.
      bindio (ensure allowed ''refusing to bootstrap into existing non-empty path'') (\<lambda>_.
      bindio (lift_result (ok_or ''runtime has no stamped lockfile'' (embedded_lock h))) (\<lambda>content.
      bindio (write_installing_for B prefix (bootstrap_identity_of (embedded_prefix_identity h))) (\<lambda>_.
      bindio (invalidate_metadata_for prefix (h_metadata_file h)) (\<lambda>_.
      bindio (install_packages I prefix content bundle offline reinstall) (\<lambda>_.
      bindio (ix_prefix_metadata I prefix content (rc_packages cfg)) (\<lambda>_.
      bindio (write_configured_policy (ix_render_message I) prefix (h_runtime_name h) cfg) (\<lambda>_.
      bindio (tryio (ix_bytecode I prefix)) (\<lambda>_.
      bindio (validate_delegate windows prefix (h_delegate_executable h)) (\<lambda>_.
      bindio (write_metadata J h prefix (rc_channels cfg) (rc_packages cfg)) (\<lambda>_.
      remove_state prefix))))))))))))"

text \<open>The lock is taken first; the operating system lets one process hold it.\<close>

definition acquire_lock :: "path \<Rightarrow> unit io" where
  "acquire_lock prefix =
     bindio (lift_result (bootstrap_lock_path prefix)) (\<lambda>p.
     bindio (create_dir_all (butlast p)) (\<lambda>_.
     bindio (tryio (create_new p)) (\<lambda>r. case r of
       Inr _ \<Rightarrow> ret ()
     | Inl e \<Rightarrow> if e = Already_Exists then bindio (path_is_file p) (\<lambda>present. ensure present ''failed to open bootstrap lock'')
                else fail e)))"

definition ensure_bootstrapped ::
    "bool \<Rightarrow> json_ext \<Rightarrow> state_ext \<Rightarrow> installer_ext \<Rightarrow> runtime_header \<Rightarrow> path option \<Rightarrow> string option \<Rightarrow> path \<Rightarrow> unit io" where
  "ensure_bootstrapped windows J B I h bundle_value offline_value prefix =
     bindio (acquire_lock prefix) (\<lambda>_.
     bindio (prefix_disposition_for windows J B prefix (embedded_prefix_identity h) True) (\<lambda>disposition.
     case disposition of
       Prefix_Ready \<Rightarrow> ret ()
     | Prefix_Bootstrap reinstall \<Rightarrow>
         bindio (configured_bundle bundle_value) (\<lambda>bundle.
         bootstrap windows J B I h prefix bundle (configured_offline offline_value) reinstall)))"

section \<open>The lock\<close>

text \<open>The directory of the lock exists and the lock is absent or a file.\<close>

definition lock_open :: "path \<Rightarrow> fs \<Rightarrow> bool" where
  "lock_open prefix s \<longleftrightarrow> (\<exists>p. bootstrap_lock_path prefix = Inr p \<and> p \<noteq> []
     \<and> (\<forall>n. 0 < n \<longrightarrow> n \<le> length (butlast p) \<longrightarrow> s (take n (butlast p)) = Some Directory)
     \<and> (s p = None \<or> (\<exists>b. s p = Some (Regular b))))"

lemma run_create_dirs:
  assumes "\<forall>q \<in> set qs. s q = Some Directory"
  shows "run (create_dirs qs) s = (Ok (), s)" and "steady (create_dirs qs)"
proof -
  show "steady (create_dirs qs)" by (induction qs) (simp_all add: steady_intros)
  show "run (create_dirs qs) s = (Ok (), s)"
    using assms by (induction qs) (simp_all add: run_simps steady_intros create_dir_def follow_def)
qed

lemma wp_create_dirs:
  assumes "\<forall>q \<in> set qs. s q = Some Directory" and "Q () s" "\<And>e. E e s" "C s"
  shows "wp (create_dirs qs) Q E C s"
  using assms
proof (induction qs)
  case Nil
  then show ?case by (simp add: wp_ret)
next
  case (Cons q qs)
  then have "wp (create_dir q) (\<lambda>_ s'. s' = s) (\<lambda>_ s'. s' = s) (\<lambda>s'. s' = s) s"
    unfolding create_dir_def by (intro wp_atomic_op) (auto simp: follow_def)
  moreover have "wp (create_dirs qs) Q E C s" using Cons by simp
  ultimately show ?case unfolding create_dirs.simps
    by (intro wp_bindio, elim wp_mono) (use Cons.prems in auto)
qed

lemma lock_dirs:
  assumes "\<forall>n. 0 < n \<longrightarrow> n \<le> length d \<longrightarrow> s (take n d) = Some Directory"
  shows "\<forall>q \<in> set (map (\<lambda>n. take n d) [1 ..< Suc (length d)]). s q = Some Directory"
proof
  fix q assume "q \<in> set (map (\<lambda>n. take n d) [1 ..< Suc (length d)])"
  then obtain n where q: "q = take n d" and "n \<in> set [1 ..< Suc (length d)]" unfolding set_map by blast
  then have "0 < n" "n \<le> length d" by auto
  with q assms show "s q = Some Directory" by blast
qed

lemma lock_parent:
  assumes "p \<noteq> []" "\<forall>n. 0 < n \<longrightarrow> n \<le> length (butlast p) \<longrightarrow> s (take n (butlast p)) = Some Directory"
  shows "parent_exists s p"
proof (cases "butlast p = []")
  case False
  then have "0 < length (butlast p)" by blast
  then have "s (butlast p) = Some Directory" using assms(2) [rule_format, of "length (butlast p)"] by simp
  with assms(1) show ?thesis by (simp add: parent_exists_def parent_def follow_def)
qed (use assms(1) in \<open>simp add: parent_exists_def parent_def\<close>)

lemma wp_lock:
  assumes "lock_open prefix s" and Q: "\<And>p s'. bootstrap_lock_path prefix = Inr p \<Longrightarrow> s' = s \<or> s p = None \<and> s' = s(p \<mapsto> Regular []) \<Longrightarrow>
      Q () s' \<and> (\<forall>e. E e s') \<and> C s'"
  shows "wp (acquire_lock prefix) Q E C s"
proof -
  from assms(1) obtain p where p: "bootstrap_lock_path prefix = Inr p"
    and dirs: "\<forall>n. 0 < n \<longrightarrow> n \<le> length (butlast p) \<longrightarrow> s (take n (butlast p)) = Some Directory"
    unfolding lock_open_def by blast
  have same: "Q () s \<and> (\<forall>e. E e s) \<and> C s" by (rule Q [OF p]) simp
  have made: "s p = None \<Longrightarrow> Q () (s(p \<mapsto> Regular [])) \<and> C (s(p \<mapsto> Regular []))" using Q [OF p, of "s(p \<mapsto> Regular [])"] by simp
  show ?thesis
    unfolding acquire_lock_def p lift_result_simps bindio_ret create_dir_all_def
    by (rule wp_bindio, rule wp_create_dirs [OF lock_dirs [OF dirs]])
      (use same made in \<open>auto intro!: wp_bindio wp_tryio wp_create_new wp_ret wp_fail wp_queries wp_ensure\<close>)
qed

lemma run_lock:
  assumes "lock_open prefix s"
  shows "\<exists>p s'. bootstrap_lock_path prefix = Inr p \<and> run (acquire_lock prefix) s = (Ok (), s')
     \<and> (s' = s \<or> s p = None \<and> s' = s(p \<mapsto> Regular []))"
proof -
  from assms obtain p where p: "bootstrap_lock_path prefix = Inr p" "p \<noteq> []" "s p = None \<or> (\<exists>b. s p = Some (Regular b))"
    and dirs: "\<forall>n. 0 < n \<longrightarrow> n \<le> length (butlast p) \<longrightarrow> s (take n (butlast p)) = Some Directory"
    unfolding lock_open_def by blast
  note d = run_create_dirs [OF lock_dirs [OF dirs]]
  from lock_parent [OF p(2) dirs] have "parent_exists s p" .
  then have "run (acquire_lock prefix) s = (Ok (), if s p = None then s(p \<mapsto> Regular []) else s)"
    using p(3) d
    by (auto simp: acquire_lock_def p(1) create_dir_all_def run_simps steady_intros create_new_def ensure_def follow_def
        node_kind_def simp del: upt_Suc)
  then show ?thesis using p(1) by auto
qed

lemma steady_lock [steady_intros]: "steady (acquire_lock prefix)"
  unfolding acquire_lock_def by (intro steady_intros)

section \<open>What the bootstrap touches\<close>

text \<open>The metadata files do not collide with the marker; see \<open>marker_name_collision\<close>.\<close>

definition marker_free :: "string \<Rightarrow> bool" where
  "marker_free mf \<longleftrightarrow> mf \<noteq> BOOTSTRAP_STATE_FILE \<and> name_stem mf \<noteq> BOOTSTRAP_STATE_FILE"

definition side_files :: "path \<Rightarrow> path set" where
  "side_files prefix =
     state_files prefix \<union> {prefix @ [''.condarc''], prefix @ [''conda-meta''], prefix @ [''conda-meta'', ''frozen'']}
     \<union> {p. \<exists>n \<le> length prefix. p = take n prefix} \<union> {p. bootstrap_lock_path prefix = Inr p}"

lemma stays_state [stays_intros]:
  "p \<in> P \<Longrightarrow> stays (remove_regular_state_if_present p) P" "p \<in> P \<Longrightarrow> stays (remove_regular_file_if_present p) P"
  "stays (read_state_file q) P" "stays (read_state B prefix) P"
proof -
  show *: "stays (read_state_file q) P" for q
    unfolding read_state_file_def by (intro stays_intros)
  show "p \<in> P \<Longrightarrow> stays (remove_regular_state_if_present p) P"
    unfolding remove_regular_state_if_present_def by (intro stays_intros)
  show "p \<in> P \<Longrightarrow> stays (remove_regular_file_if_present p) P"
    unfolding remove_regular_file_if_present_def by (intro stays_intros)
  show "stays (read_state B prefix) P"
    unfolding read_state_def by (intro stays_intros *)
qed

lemma stays_delegate [stays_intros]: "stays (validate_delegate windows prefix d) P"
  unfolding stays_def by (auto intro!: wp_validate_delegate)

lemma stays_setup:
  "stays (write_installing_for B prefix identity) (side_files prefix)"
  "stays (write_configured_policy R prefix display config) (side_files prefix)"
  "stays (remove_state prefix) (side_files prefix)"
proof -
  have dirs: "take n prefix \<in> side_files prefix" if "n \<le> length prefix" for n
    using that by (auto simp: side_files_def)
  have deeper: "take n (prefix @ [''conda-meta'']) \<in> side_files prefix" if "n \<le> Suc (length prefix)" for n
  proof (cases "n = Suc (length prefix)")
    case True
    then show ?thesis by (simp add: side_files_def)
  next
    case False
    with that dirs [of n] show ?thesis by simp
  qed
  have files: "bootstrap_path prefix \<in> side_files prefix" "bootstrap_temporary_path prefix \<in> side_files prefix"
    "prefix @ [''.condarc''] \<in> side_files prefix" "prefix @ [''conda-meta'', ''frozen''] \<in> side_files prefix"
    by (simp_all add: side_files_def state_files_def)
  note stay = stays_intros dirs deeper files
  show "stays (write_installing_for B prefix identity) (side_files prefix)"
    unfolding write_installing_for_def Let_def by (intro stay)
  show "stays (write_configured_policy R prefix display config) (side_files prefix)"
    unfolding write_configured_policy_def write_condarc_def write_frozen_with_message_def write_file_def
    by (intro stay) auto
  show "stays (remove_state prefix) (side_files prefix)"
    unfolding remove_state_def by (intro stay)
qed

lemma bootstrap_lock_beside:
  assumes "bootstrap_lock_path prefix = Inr p" "CHR ''/'' \<notin> set (last prefix)"
  shows "p = butlast prefix @ [''.'' @ last prefix @ ''.conda-ship.lock'']" and "prefix \<noteq> []"
proof -
  from assms(1) have ne: "prefix \<noteq> []" "last prefix \<noteq> ''..''"
    and p: "p = join (butlast prefix) (''.'' @ last prefix @ ''.conda-ship.lock'')"
    by (auto simp: bootstrap_lock_path_def parent_def file_name_def success_simps split: if_splits)
  have "components (''.'' @ last prefix @ ''.conda-ship.lock'') = [''.'' @ last prefix @ ''.conda-ship.lock'']"
    using assms(2) by (subst components_def, subst split_on_absent) auto
  then show "p = butlast prefix @ [''.'' @ last prefix @ ''.conda-ship.lock'']"
    by (simp add: p join_def starts_with_def)
  show "prefix \<noteq> []" by (rule ne)
qed

lemma stays_acquire_lock:
  assumes slash: "CHR ''/'' \<notin> set (last prefix)"
  shows "stays (acquire_lock prefix) (side_files prefix)"
proof (cases "bootstrap_lock_path prefix")
  case (Inl e)
  then show ?thesis by (simp add: acquire_lock_def stays_intros)
next
  case (Inr p)
  then have p: "p \<in> side_files prefix" by (simp add: side_files_def)
  have "take n (butlast p) \<in> side_files prefix" if "n \<le> length (butlast p)" for n
  proof -
    have "0 < length prefix" "n \<le> length prefix - 1" using that bootstrap_lock_beside [OF Inr slash] by auto
    then have "n < length prefix" by linarith
    then have "take n (butlast p) = take n prefix"
      using bootstrap_lock_beside [OF Inr slash] by (simp add: take_butlast)
    with \<open>n < length prefix\<close> show ?thesis unfolding side_files_def by (intro UnI1 UnI2 CollectI exI [of _ n]) auto
  qed
  then show ?thesis
    unfolding acquire_lock_def Inr lift_result_simps bindio_ret by (intro stays_intros p)
qed

lemma side_files_disjoint:
  assumes ok: "metadata_file_ok mf" "marker_free mf" and slash: "CHR ''/'' \<notin> set (last prefix)"
  shows "side_files prefix \<inter> metadata_files prefix mf = {}"
proof -
  obtain x where mf: "mf = x @ ''.json''" using metadata_file_okE [OF ok(1)] by blast
  have marker: "mf \<noteq> BOOTSTRAP_STATE_FILE" "name_stem mf @ ''.tmp'' \<noteq> BOOTSTRAP_STATE_FILE @ ''.tmp''"
    "name_stem mf @ ''.tmp'' \<noteq> BOOTSTRAP_STATE_FILE" "name_stem mf @ ''.bak'' \<noteq> BOOTSTRAP_STATE_FILE"
    "name_stem mf @ ''.bak'' \<noteq> BOOTSTRAP_STATE_FILE @ ''.tmp''" "mf \<noteq> BOOTSTRAP_STATE_FILE @ ''.tmp''"
    using ok(2) by (auto simp: marker_free_def mf BOOTSTRAP_STATE_FILE_def dest: arg_cong [where f = last])
  have policy: "mf \<notin> {''.condarc'', ''conda-meta''}" "name_stem mf @ ''.tmp'' \<notin> {''.condarc'', ''conda-meta''}"
    "name_stem mf @ ''.bak'' \<notin> {''.condarc'', ''conda-meta''}"
    by (auto simp: mf dest: arg_cong [where f = last])
  have long: "p \<in> metadata_files prefix mf \<Longrightarrow> length p = Suc (length prefix) \<and> butlast p = prefix" for p
    using ok(1) by (auto simp: metadata_files_def metadata_paths)
  have "p \<in> state_files prefix \<Longrightarrow> p \<notin> metadata_files prefix mf" for p
    using marker ok(1) by (auto simp: state_files_def metadata_files_def metadata_paths BOOTSTRAP_STATE_FILE_def)
  moreover have "p \<in> {prefix @ [''.condarc''], prefix @ [''conda-meta'']} \<Longrightarrow> p \<notin> metadata_files prefix mf" for p
    using policy ok(1) by (auto simp: metadata_files_def metadata_paths)
  moreover have "prefix @ [''conda-meta'', ''frozen''] \<notin> metadata_files prefix mf"
    using long [of "prefix @ [''conda-meta'', ''frozen'']"] by auto
  moreover have "take n prefix \<notin> metadata_files prefix mf" for n
    using long [of "take n prefix"] by (cases "n \<le> length prefix") auto
  moreover have "bootstrap_lock_path prefix = Inr p \<Longrightarrow> p \<notin> metadata_files prefix mf" for p
    using long [of p] bootstrap_lock_beside [OF _ slash, of p] by auto
  ultimately show ?thesis unfolding side_files_def by blast
qed

section \<open>Ready means installed\<close>

lemma stays_metadata [stays_intros]:
  "stays (persist_metadata_for J prefix mf m) (metadata_files prefix mf)"
  "stays (read_metadata_for J prefix mf) (metadata_files prefix mf)"
  "stays (invalidate_metadata_for prefix mf) (metadata_files prefix mf)"
proof -
  have read: "stays (read_regular_metadata_if_present J p) P" for p P
    unfolding read_regular_metadata_if_present_def read_metadata_from_path_def by (intro stays_intros)
  show "stays (persist_metadata_for J prefix mf m) (metadata_files prefix mf)"
    unfolding persist_metadata_for_def replace_via_backup_def write_temporary_metadata_def Let_def
    by (intro stays_intros metadata_files_memb)
  show "stays (read_metadata_for J prefix mf) (metadata_files prefix mf)"
    unfolding read_metadata_for_def restore_metadata_path_def read_metadata_from_path_def Let_def
    by (intro stays_intros metadata_files_memb read)
  show "stays (invalidate_metadata_for prefix mf) (metadata_files prefix mf)"
    unfolding invalidate_metadata_for_def by (intro stays_intros metadata_files_memb)
qed

lemma stays_read_dir [stays_intros]: "stays (read_dir_is_empty p) P"
  unfolding stays_def read_dir_is_empty_def by (auto intro!: wp_atomic_op simp: Let_def)

lemma stays_is_empty_dir [stays_intros]: "stays (is_empty_dir p) P"
  unfolding is_empty_dir_def by (intro stays_intros)

definition no_metadata :: "path \<Rightarrow> string \<Rightarrow> fs \<Rightarrow> bool" where
  "no_metadata prefix mf s \<longleftrightarrow> (\<forall>p \<in> metadata_files prefix mf. s p = None)"

text \<open>The invariant: metadata is only there when the packages are.\<close>

definition bootstrap_inv :: "path \<Rightarrow> string \<Rightarrow> (fs \<Rightarrow> bool) \<Rightarrow> fs \<Rightarrow> bool" where
  "bootstrap_inv prefix mf installed s \<longleftrightarrow> no_metadata prefix mf s \<or> installed s"

text \<open>
  The installation steps leave the metadata files alone; an installation that returns has
  installed the packages (\<open>installed\<close>); the later steps do not undo it; and it does not depend
  on the files the bootstrap itself writes.
\<close>

definition leaves_metadata :: "path \<Rightarrow> string \<Rightarrow> 'a io \<Rightarrow> bool" where
  "leaves_metadata prefix mf m \<longleftrightarrow> stays m (- metadata_files prefix mf)"

definition keeps_installed :: "(fs \<Rightarrow> bool) \<Rightarrow> 'a io \<Rightarrow> bool" where
  "keeps_installed installed m \<longleftrightarrow>
     (\<forall>s. installed s \<longrightarrow> wp m (\<lambda>_. installed) (\<lambda>_. installed) (\<lambda>_. True) s)"

definition establishes :: "(fs \<Rightarrow> bool) \<Rightarrow> 'a io \<Rightarrow> bool" where
  "establishes installed m \<longleftrightarrow> (\<forall>s. wp m (\<lambda>_. installed) (\<lambda>_ _. True) (\<lambda>_. True) s)"

definition installer_laws :: "installer_ext \<Rightarrow> path \<Rightarrow> string \<Rightarrow> (fs \<Rightarrow> bool) \<Rightarrow> bool" where
  "installer_laws I prefix mf installed \<longleftrightarrow>
     (\<forall>c d off re. leaves_metadata prefix mf (ix_bundle I prefix c d off re) \<and> establishes installed (ix_bundle I prefix c d off re))
     \<and> (\<forall>c re. leaves_metadata prefix mf (ix_offline I prefix c re) \<and> establishes installed (ix_offline I prefix c re))
     \<and> (\<forall>c re. leaves_metadata prefix mf (ix_online I prefix c re) \<and> establishes installed (ix_online I prefix c re))
     \<and> leaves_metadata prefix mf (ix_extract_embedded I)
     \<and> (\<forall>d. leaves_metadata prefix mf (ix_remove_dir_all I d) \<and> keeps_installed installed (ix_remove_dir_all I d))
     \<and> (\<forall>c ps. leaves_metadata prefix mf (ix_prefix_metadata I prefix c ps) \<and> keeps_installed installed (ix_prefix_metadata I prefix c ps))
     \<and> leaves_metadata prefix mf (ix_bytecode I prefix) \<and> keeps_installed installed (ix_bytecode I prefix)
     \<and> (\<forall>s s'. unchanged_outside (side_files prefix \<union> metadata_files prefix mf) s s' \<longrightarrow> installed s \<longrightarrow> installed s')"

lemma no_metadata_outside:
  "no_metadata prefix mf s \<Longrightarrow> unchanged_outside P s s' \<Longrightarrow> P \<inter> metadata_files prefix mf = {} \<Longrightarrow> no_metadata prefix mf s'"
  by (auto simp: no_metadata_def unchanged_outside_def)

lemma wp_leaves_metadata:
  assumes "leaves_metadata prefix mf m" "no_metadata prefix mf s"
  shows "wp m (\<lambda>_. no_metadata prefix mf) (\<lambda>_. no_metadata prefix mf) (no_metadata prefix mf) s"
  using assms unfolding leaves_metadata_def by (auto elim!: stays_wp intro: no_metadata_outside)

lemma wp_install_packages:
  assumes I: "installer_laws I prefix mf installed" and s: "no_metadata prefix mf s"
  shows "wp (install_packages I prefix content bundle offline reinstall)
    (\<lambda>_ s'. installed s' \<and> no_metadata prefix mf s') (\<lambda>_. no_metadata prefix mf) (no_metadata prefix mf) s"
proof -
  let ?N = "no_metadata prefix mf"
  have inst: "wp m (\<lambda>_ s'. installed s' \<and> ?N s') (\<lambda>_. ?N) ?N s'"
    if "leaves_metadata prefix mf m" "establishes installed m" "?N s'" for m :: "unit io" and s'
    using wp_conj [OF that(2) [unfolded establishes_def, rule_format, of s'] wp_leaves_metadata [OF that(1,3)]]
    by (auto elim!: wp_mono)
  have cleanup: "wp (bindio (tryio (ix_remove_dir_all I d)) (\<lambda>_. lift_result r))
      (\<lambda>_ s'. installed s' \<and> ?N s') (\<lambda>_. ?N) ?N s'" if "?N s'" "is_ok r \<Longrightarrow> installed s'" for d r s'
  proof (cases r)
    case (Inl e)
    have "wp (ix_remove_dir_all I d) (\<lambda>_. ?N) (\<lambda>_. ?N) ?N s'"
      using I that(1) by (intro wp_leaves_metadata) (simp_all add: installer_laws_def)
    with Inl show ?thesis by (auto intro!: wp_bindio wp_tryio wp_fail elim!: wp_mono)
  next
    case (Inr x)
    have "wp (ix_remove_dir_all I d) (\<lambda>_ s'. installed s' \<and> ?N s') (\<lambda>_ s'. installed s' \<and> ?N s') (\<lambda>s'. True \<and> ?N s') s'"
      using I that Inr by (intro wp_conj wp_leaves_metadata) (auto simp: installer_laws_def keeps_installed_def)
    with Inr show ?thesis by (auto intro!: wp_bindio wp_tryio wp_ret elim!: wp_mono)
  qed
  have extr: "wp (ix_extract_embedded I) (\<lambda>_. ?N) (\<lambda>_. ?N) ?N s"
    using I s by (intro wp_leaves_metadata) (simp_all add: installer_laws_def)
  have emb: "wp (bindio (tryio (ix_bundle I prefix content d True reinstall)) (\<lambda>result.
      bindio (tryio (ix_remove_dir_all I d)) (\<lambda>_. lift_result result)))
      (\<lambda>_ s'. installed s' \<and> ?N s') (\<lambda>_. ?N) ?N s'" if "?N s'" for d s'
  proof (rule wp_bindio, rule wp_tryio, rule wp_mono [OF inst [OF _ _ that]], goal_cases)
    case (3 x s')
    then show ?case by (intro cleanup) simp_all
  next
    case (4 e s')
    then show ?case by (intro cleanup) simp_all
  qed (insert I, simp_all add: installer_laws_def)
  show ?thesis
  proof (cases "bundle")
    case None
    show ?thesis
      unfolding install_packages_def None option.case
      by (rule wp_bindio, rule wp_mono [OF extr])
        (use I in \<open>auto split: option.split intro!: emb inst simp: installer_laws_def\<close>)
  next
    case (Some d)
    with I s show ?thesis by (simp add: install_packages_def installer_laws_def inst)
  qed
qed

lemma no_metadata_upd [simp]: "no_metadata prefix mf s \<Longrightarrow> no_metadata prefix mf (s(p := None))"
  by (simp add: no_metadata_def)

lemma wp_invalidate:
  assumes I: "installer_laws I prefix mf installed" and s: "bootstrap_inv prefix mf installed s"
  shows "wp (invalidate_metadata_for prefix mf) (\<lambda>_. no_metadata prefix mf)
    (\<lambda>_. bootstrap_inv prefix mf installed) (bootstrap_inv prefix mf installed) s"
proof -
  have stable: "unchanged_outside (side_files prefix \<union> metadata_files prefix mf) t t' \<Longrightarrow> installed t \<Longrightarrow> installed t'" for t t'
    using I by (simp add: installer_laws_def)
  have upd: "bootstrap_inv prefix mf installed (t(p := None))"
    if "bootstrap_inv prefix mf installed t" "p \<in> metadata_files prefix mf" for t p
    using that stable [of t "t(p := None)"] by (auto simp: bootstrap_inv_def)
  show ?thesis
    unfolding invalidate_metadata_for_def
    using s by (auto intro!: wp_bindio wp_remove_regular_file_if_present upd) (auto simp: no_metadata_def metadata_files_def)
qed

lemma wp_bootstrap:
  assumes I: "installer_laws I prefix (h_metadata_file h) installed"
    and mf: "metadata_file_ok (h_metadata_file h)" "marker_free (h_metadata_file h)"
    and slash: "CHR ''/'' \<notin> set (last prefix)" and s: "bootstrap_inv prefix (h_metadata_file h) installed s"
  shows "wp (bootstrap windows J B I h prefix bundle offline reinstall) (\<lambda>_. installed)
    (\<lambda>_. bootstrap_inv prefix (h_metadata_file h) installed) (bootstrap_inv prefix (h_metadata_file h) installed) s"
proof -
  let ?mf = "h_metadata_file h"
  let ?N = "no_metadata prefix ?mf" and ?Inv = "bootstrap_inv prefix ?mf installed"
  note laws = I [unfolded installer_laws_def]
  note apart = side_files_disjoint [OF mf slash]
  have stable: "installed t \<Longrightarrow> unchanged_outside P t t' \<Longrightarrow> P \<subseteq> side_files prefix \<union> metadata_files prefix ?mf \<Longrightarrow> installed t'"
    for t t' P using laws unchanged_outside_mono by metis
  have side: "?Inv t'" "?N t \<Longrightarrow> ?N t'" if "?Inv t" "unchanged_outside (side_files prefix) t t'" for t t'
    using that apart stable [OF _ that(2)] no_metadata_outside [OF _ that(2)] unfolding bootstrap_inv_def by blast+
  have NInv: "?N t \<Longrightarrow> ?Inv t" "installed t \<Longrightarrow> ?Inv t" for t by (simp_all add: bootstrap_inv_def)
  have finish: "wp (bindio (write_metadata J h prefix channels packages) (\<lambda>_. remove_state prefix)) (\<lambda>_. installed) (\<lambda>_. ?Inv) ?Inv t"
    if "installed t" for t channels packages
  proof (rule wp_bindio_stays)
    show "stays (write_metadata J h prefix channels packages) (metadata_files prefix ?mf)"
      unfolding write_metadata_def write_metadata_for_identity_def
      using stays_metadata(1) by (simp add: header_metadata_identity_def)
  next
    fix x t' assume t': "unchanged_outside (metadata_files prefix ?mf) t t'"
    show "wp (remove_state prefix) (\<lambda>_. installed) (\<lambda>_. ?Inv) ?Inv t'"
      by (rule stays_wp [OF stays_setup(3)]) (use stable [OF stable [OF that t']] NInv in blast)+
  next
    fix t' assume "unchanged_outside (metadata_files prefix ?mf) t t'"
    from stable [OF that this] NInv show "(\<forall>e. ?Inv t') \<and> ?Inv t'" by blast
  qed
  have after: "wp (bindio (tryio (ix_bytecode I prefix)) (\<lambda>_. bindio (validate_delegate windows prefix d) (\<lambda>_.
       bindio (write_metadata J h prefix channels packages) (\<lambda>_. remove_state prefix)))) (\<lambda>_. installed) (\<lambda>_. ?Inv) ?Inv t"
    if "installed t" "?N t" for t d channels packages
  proof -
    have "wp (ix_bytecode I prefix) (\<lambda>_ t. installed t \<and> ?N t) (\<lambda>_ t. installed t \<and> ?N t) (\<lambda>t. True \<and> ?N t) t"
      using laws that by (intro wp_conj wp_leaves_metadata) (auto simp: keeps_installed_def)
    then show ?thesis
      by (auto intro!: wp_bindio wp_tryio wp_validate_delegate finish elim!: wp_mono intro: NInv)
  qed
  have policy: "wp (bindio (write_configured_policy R prefix display config) (\<lambda>_. bindio (tryio (ix_bytecode I prefix)) (\<lambda>_.
       bindio (validate_delegate windows prefix d) (\<lambda>_. bindio (write_metadata J h prefix channels packages) (\<lambda>_. remove_state prefix)))))
       (\<lambda>_. installed) (\<lambda>_. ?Inv) ?Inv t"
    if "installed t" "?N t" for t d channels packages R display config
    by (rule wp_bindio_stays [OF stays_setup(2)]) (use that side stable after NInv in blast)+
  have packages: "wp (ix_prefix_metadata I prefix c ps) (\<lambda>_ t. installed t \<and> ?N t) (\<lambda>_ t. installed t \<and> ?N t) (\<lambda>t. True \<and> ?N t) t"
    if "installed t" "?N t" for t c ps
    using laws that by (intro wp_conj wp_leaves_metadata) (auto simp: keeps_installed_def)
  have prefix_metadata: "wp (bindio (ix_prefix_metadata I prefix c ps) (\<lambda>_.
      bindio (write_configured_policy R prefix display config) (\<lambda>_. bindio (tryio (ix_bytecode I prefix)) (\<lambda>_.
       bindio (validate_delegate windows prefix d) (\<lambda>_. bindio (write_metadata J h prefix channels packages) (\<lambda>_. remove_state prefix))))))
       (\<lambda>_. installed) (\<lambda>_. ?Inv) ?Inv t"
    if "installed t" "?N t" for t c ps d channels packages R display config
    by (rule wp_bindio, rule wp_mono [OF packages [OF that]]) (use policy NInv in blast)+
  have install: "wp (bindio (invalidate_metadata_for prefix ?mf) (\<lambda>_.
      bindio (install_packages I prefix content bundle offline reinstall) (\<lambda>_.
      bindio (ix_prefix_metadata I prefix content ps) (\<lambda>_.
      bindio (write_configured_policy R prefix display config) (\<lambda>_. bindio (tryio (ix_bytecode I prefix)) (\<lambda>_.
       bindio (validate_delegate windows prefix d) (\<lambda>_. bindio (write_metadata J h prefix channels packages) (\<lambda>_. remove_state prefix))))))))
       (\<lambda>_. installed) (\<lambda>_. ?Inv) ?Inv t"
    if "?Inv t" for t content ps R display config d channels packages
    by (rule wp_bindio, rule wp_mono [OF wp_invalidate [OF I that]], rule wp_bindio,
        rule wp_mono [OF wp_install_packages [OF I]]) (use prefix_metadata NInv in blast)+
  have body: "wp (bindio (write_installing_for B prefix identity) (\<lambda>_. bindio (invalidate_metadata_for prefix ?mf) (\<lambda>_.
      bindio (install_packages I prefix content bundle offline reinstall) (\<lambda>_.
      bindio (ix_prefix_metadata I prefix content ps) (\<lambda>_.
      bindio (write_configured_policy R prefix display config) (\<lambda>_. bindio (tryio (ix_bytecode I prefix)) (\<lambda>_.
       bindio (validate_delegate windows prefix d) (\<lambda>_. bindio (write_metadata J h prefix channels packages) (\<lambda>_. remove_state prefix)))))))))
       (\<lambda>_. installed) (\<lambda>_. ?Inv) ?Inv s"
    for identity content ps R display config d channels packages
    by (rule wp_bindio_stays [OF stays_setup(1)]) (use install side(1) [OF s] in blast)+
  show ?thesis
    unfolding bootstrap_def Let_def
    by (rule wp_bindio_stays [where P = "{}"], (intro stays_intros) [1],
        rule wp_bindio_stays [where P = "{}", OF stays_checks(1)],
        rule wp_bindio_stays [where P = "{}", OF stays_checks(2)])
      (use s body in simp_all)
qed

lemma stays_managed [stays_intros]:
  "stays (read_managed_metadata_for J prefix identity) (metadata_files prefix (pi_metadata_file identity))"
  "stays (validate_prefix_path prefix) P"
  "stays (validate_recorded_delegate windows prefix meta fallback) P"
proof -
  show "stays (read_managed_metadata_for J prefix identity) (metadata_files prefix (pi_metadata_file identity))"
    unfolding read_managed_metadata_for_def by (intro stays_intros)
  show "stays (validate_prefix_path prefix) P" unfolding validate_prefix_path_def by (intro stays_intros)
  show "stays (validate_recorded_delegate windows prefix meta fallback) P"
    unfolding validate_recorded_delegate_def by (intro stays_intros)
qed

lemma stays_disposition:
  "stays (prefix_disposition_for windows J B prefix identity healthy)
     (side_files prefix \<union> metadata_files prefix (pi_metadata_file identity))"
proof -
  let ?P = "side_files prefix \<union> metadata_files prefix (pi_metadata_file identity)"
  have "stays (read_managed_metadata_for J prefix identity) ?P" "stays (read_metadata_for J prefix (pi_metadata_file identity)) ?P"
    "stays (remove_state prefix) ?P"
    by (rule stays_mono [OF stays_managed(1)] stays_mono [OF stays_metadata(2)] stays_mono [OF stays_setup(3)], blast)+
  then show ?thesis
    unfolding prefix_disposition_for_def recover_marked_prefix_def validate_ready_prefix_for_def
    by (intro stays_intros)
qed

lemma wp_read_metadata_absent:
  assumes "no_metadata prefix mf s" "\<And>e. E e s" "C s"
  shows "wp (read_metadata_for J prefix mf) Q E C s"
  unfolding read_metadata_for_def Let_def
  using assms
  by (auto simp: no_metadata_def metadata_files_def read_metadata_from_path_def follow_def
      intro!: wp_bindio wp_read_regular_metadata_if_present wp_read_file)

lemma wp_disposition_absent:
  assumes s: "no_metadata prefix (pi_metadata_file identity) s"
  shows "wp (prefix_disposition_for windows J B prefix identity healthy)
    (\<lambda>d s'. d \<noteq> Prefix_Ready \<and> s' = s) (\<lambda>_ s'. s' = s) (\<lambda>s'. s' = s) s"
proof -
  have absent: "s (metadata_path_for prefix (pi_metadata_file identity)) = None"
    using s by (simp add: no_metadata_def)
  have managed: "wp (read_managed_metadata_for J prefix identity) Q (\<lambda>_ s'. s' = s) (\<lambda>s'. s' = s) s" for Q
    unfolding read_managed_metadata_for_def
    by (rule wp_bindio, rule wp_tryio, rule wp_symlink_metadata)
      (use absent s in \<open>auto intro!: wp_bindio wp_map_err wp_fail wp_read_metadata_absent\<close>)
  have unmarked: "wp (map_err msg (if healthy then validate_ready_prefix_for windows J prefix identity
      else bindio (read_managed_metadata_for J prefix identity) (\<lambda>_. ret ()))) Q (\<lambda>_ s'. s' = s) (\<lambda>s'. s' = s) s" for msg Q
    unfolding validate_ready_prefix_for_def by (auto intro!: wp_map_err wp_bindio managed)
  have marked: "wp (recover_marked_prefix windows J prefix identity healthy)
      (\<lambda>d s'. d \<noteq> Prefix_Ready \<and> s' = s) (\<lambda>_ s'. s' = s) (\<lambda>s'. s' = s) s"
    unfolding recover_marked_prefix_def
    by (rule wp_bindio, rule wp_tryio, rule wp_symlink_metadata) (use absent in \<open>auto intro!: wp_ret wp_fail\<close>)
  have empty: "stays (validate_prefix_path prefix) {}" "stays (read_state B prefix) {}" "stays (path_exists prefix) {}"
      "stays (if b then ret True else is_empty_dir prefix) {}" for b
    by (intro stays_intros)+
  have step: "wp (bindio m f) Q (\<lambda>_ s'. s' = s) (\<lambda>s'. s' = s) s"
    if "stays m {}" "\<And>x. wp (f x) Q (\<lambda>_ s'. s' = s) (\<lambda>s'. s' = s) s" for m :: "'a io" and f :: "'a \<Rightarrow> prefix_disposition io" and Q
    by (rule wp_bindio_stays [OF that(1)]) (use that(2) in simp_all)
  show ?thesis
    unfolding prefix_disposition_for_def
  proof (rule step [OF empty(1)], rule step, goal_cases)
    case 1
    show ?case by (intro stays_intros)
  next
    case (2 _ state)
    show ?case
    proof (cases state)
      case (Some x)
      have "stays (map_err msg (lift_result r)) {}" for msg and r :: "unit result" by (intro stays_intros)
      from step [OF this step [OF stays_checks(1) marked]] show ?thesis by (simp add: Some)
    next
      case None
      have "wp (if fresh then ret (Prefix_Bootstrap False) else bindio (map_err msg
         (if healthy then validate_ready_prefix_for windows J prefix identity
          else bindio (read_managed_metadata_for J prefix identity) (\<lambda>_. ret ()))) (\<lambda>_. ret Prefix_Ready))
        (\<lambda>d s'. d \<noteq> Prefix_Ready \<and> s' = s) (\<lambda>_ s'. s' = s) (\<lambda>s'. s' = s) s" for fresh msg
        by (cases fresh, simp add: wp_ret, simp only: if_False, rule wp_bindio, rule unmarked)
      from step [OF empty(3) step [OF empty(4) this]] show ?thesis by (simp add: None)
    qed
  qed
qed

lemma wp_disposition:
  assumes I: "installer_laws I prefix (pi_metadata_file identity) installed"
    and s: "bootstrap_inv prefix (pi_metadata_file identity) installed s"
  shows "wp (prefix_disposition_for windows J B prefix identity healthy)
    (\<lambda>d s'. bootstrap_inv prefix (pi_metadata_file identity) installed s' \<and> (d = Prefix_Ready \<longrightarrow> installed s'))
    (\<lambda>_. bootstrap_inv prefix (pi_metadata_file identity) installed)
    (bootstrap_inv prefix (pi_metadata_file identity) installed) s"
proof (cases "installed s")
  case True
  then have "installed s'"
    if "unchanged_outside (side_files prefix \<union> metadata_files prefix (pi_metadata_file identity)) s s'" for s'
    using that I by (simp add: installer_laws_def)
  then show ?thesis by (intro stays_wp [OF stays_disposition]) (simp_all add: bootstrap_inv_def)
next
  case False
  with s have "no_metadata prefix (pi_metadata_file identity) s" by (simp add: bootstrap_inv_def)
  from s show ?thesis by (intro wp_mono [OF wp_disposition_absent [OF \<open>no_metadata _ _ s\<close>]]) auto
qed

lemma wp_ensure_bootstrapped:
  assumes I: "installer_laws I prefix (h_metadata_file h) installed"
    and mf: "metadata_file_ok (h_metadata_file h)" "marker_free (h_metadata_file h)"
    and slash: "CHR ''/'' \<notin> set (last prefix)" and s: "bootstrap_inv prefix (h_metadata_file h) installed s"
  shows "wp (ensure_bootstrapped windows J B I h bundle_value offline_value prefix) (\<lambda>_. installed)
    (\<lambda>_. bootstrap_inv prefix (h_metadata_file h) installed) (bootstrap_inv prefix (h_metadata_file h) installed) s"
proof -
  let ?Inv = "bootstrap_inv prefix (h_metadata_file h) installed"
  have id: "pi_metadata_file (embedded_prefix_identity h) = h_metadata_file h"
    by (simp add: embedded_prefix_identity_def)
  have lock: "?Inv t" if "unchanged_outside (side_files prefix) s t" for t
  proof -
    have "unchanged_outside (side_files prefix \<union> metadata_files prefix (h_metadata_file h)) s t"
      by (rule unchanged_outside_mono [OF that]) simp
    then have "installed s \<Longrightarrow> installed t" using I by (simp add: installer_laws_def)
    moreover have "no_metadata prefix (h_metadata_file h) s \<Longrightarrow> no_metadata prefix (h_metadata_file h) t"
      by (rule no_metadata_outside [OF _ that side_files_disjoint [OF mf slash]])
    ultimately show ?thesis using s unfolding bootstrap_inv_def by blast
  qed
  have boot: "wp (bindio (configured_bundle bundle_value) (\<lambda>b. bootstrap windows J B I h prefix b off re))
      (\<lambda>_. installed) (\<lambda>_. ?Inv) ?Inv t" if "?Inv t" for t off re
  proof (rule wp_bindio_stays [where P = "{}"], goal_cases)
    case 1
    show ?case unfolding configured_bundle_def by (intro stays_intros)
  qed (use wp_bootstrap [OF I mf slash that] that in simp_all)
  show ?thesis
    unfolding ensure_bootstrapped_def
  proof (rule wp_bindio_stays [OF stays_acquire_lock [OF slash]], rule wp_bindio, goal_cases)
    case (1 x t)
    note disposition = wp_disposition [of I prefix "embedded_prefix_identity h" installed t windows J B True, unfolded id, OF I lock [OF 1]]
    show ?case
      by (rule wp_mono [OF disposition]) (auto intro: wp_ret boot split: prefix_disposition.split)
  next
    case (2 t)
    then show ?case using lock by blast
  qed
qed

lemma steady_persist [steady_intros]: "steady (persist_metadata_for J prefix mf m)"
  by (simp add: persist_metadata_for_def replace_via_backup_def write_temporary_metadata_def Let_def steady_intros)

lemma steady_write_metadata: "steady (write_metadata J h prefix channels packages)"
  by (simp add: write_metadata_def write_metadata_for_identity_def steady_persist)

section \<open>Properties\<close>

text \<open>Any number of attempts, each under its own faults.\<close>

inductive attempts :: "unit io \<Rightarrow> fs \<Rightarrow> fs \<Rightarrow> bool" for m where
  start: "attempts m s s"
| again: "attempts m s t \<Longrightarrow> m \<lparr>w_fs = t, w_schedule = schedule\<rparr> = (r, w') \<Longrightarrow> attempts m s (w_fs w')"

inductive_cases attemptsE: "attempts m s t"


text \<open>The same holds for what the runtime says about a prefix later: whenever
  \<open>prefix_disposition_for\<close> answers that the prefix is ready, under any faults, with or without the
  check of the delegate, the packages are installed, provided metadata was only there when they were.\<close>

theorem disposition_ready_sound:
  assumes "installer_laws I prefix (pi_metadata_file identity) installed"
    and "no_metadata prefix (pi_metadata_file identity) s \<or> installed s"
    and run: "prefix_disposition_for windows J B prefix identity healthy \<lparr>w_fs = s, w_schedule = schedule\<rparr> = (Ok d, w')"
  shows "d = Prefix_Ready \<longrightarrow> installed (w_fs w')"
proof -
  have "bootstrap_inv prefix (pi_metadata_file identity) installed s"
    using assms(2) by (simp add: bootstrap_inv_def)
  from wpD [OF wp_disposition [OF assms(1) this] run] show ?thesis by simp
qed

text \<open>The first marker is written to its temporary name without protection: a stop in the middle of the
  write leaves a file that the next run reads, cannot parse, and takes for a foreign one.\<close>

lemma write_installing_torn:
  assumes s: "s [d] = Some Directory" "s [d, ''.conda-ship-bootstrap.json.tmp''] = None"
  shows "write_installing_for B [d] identity \<lparr>w_fs = s, w_schedule = [Go, Go, Go, Halt k]\<rparr> =
    (Crash, \<lparr>w_fs = s([d, ''.conda-ship-bootstrap.json.tmp''] \<mapsto>
       Regular (take k (state_render B (bootstrap_state_current Installing identity)))), w_schedule = []\<rparr>)"
  using s
  by (simp add: write_installing_for_def Let_def bindio_def create_dir_all_def create_dir_def atomic_op_def next_event_def
      follow_def remove_regular_state_if_present_def tryio_def symlink_metadata_def ret_def create_truncate_def
      parent_exists_def parent_def write_all_def append_bytes_def)

text \<open>C40. A process stopped while it writes the marker of a first bootstrap blocks the prefix: from an
  empty prefix, a stop before the end of the rendered marker leaves a state in which every later run is
  refused with an error until someone deletes the file, although nothing was installed.\<close>

theorem bootstrap_torn_marker_refused:
  assumes "state_laws B (bootstrap_state_current Installing identity)" and k: "k < length (state_render B (bootstrap_state_current Installing identity))"
    and s: "s [d] = Some Directory" "\<forall>n. s [d, n] = None"
  shows "\<exists>w'. write_installing_for B [d] identity \<lparr>w_fs = s, w_schedule = [Go, Go, Go, Halt k]\<rparr> = (Crash, w')
     \<and> run (prefix_disposition_for windows J B [d] identity' healthy) (w_fs w')
        = (Err (Invalid ''refusing to use install path with invalid bootstrap state''), w_fs w')"
proof -
  let ?b = "take k (state_render B (bootstrap_state_current Installing identity))"
  let ?s = "s([d, ''.conda-ship-bootstrap.json.tmp''] \<mapsto> Regular ?b)"
  from assms(1) k have "\<not> is_ok (state_parse B ?b)" by (simp add: state_laws_def)
  then obtain e where e: "state_parse B ?b = Inl e" by (cases "state_parse B ?b") auto
  have "run (read_state B [d]) ?s = (Err e, ?s)"
    using s(2) e by (simp add: run_read_state marker_node_def)
  then have "run (prefix_disposition_for windows J B [d] identity' healthy) ?s
        = (Err (Invalid ''refusing to use install path with invalid bootstrap state''), ?s)"
    using s(1)
    by (simp add: prefix_disposition_for_def validate_prefix_path_def run_simps steady_intros symlink_metadata_def
        node_kind_def ensure_def)
  then show ?thesis using write_installing_torn [of s d B identity k] s by (intro exI conjI) auto
qed

text \<open>A runtime named \<open>conda-ship-bootstrap\<close> loses its metadata: its metadata file is the file of the
  bootstrap marker, so that the step that ends a bootstrap by removing the marker removes the metadata
  that was just written.\<close>

theorem marker_name_collision:
  assumes "json_laws J"
    and renders: "snd (meta_render J (metadata_for_identity (header_metadata_identity h) channels packages))"
    and h: "h_metadata_file h = ''.conda-ship-bootstrap.json''"
    and s: "metadata_regular prefix (h_metadata_file h) s" "s (bootstrap_temporary_path prefix) = None"
  shows "\<exists>s'. run (bindio (write_metadata J h prefix channels packages) (\<lambda>_. remove_state prefix)) s = (Ok (), s')
     \<and> recoverable J prefix (h_metadata_file h) s' = None"
proof -
  let ?mf = "''.conda-ship-bootstrap.json''"
  let ?m = "metadata_for_identity (header_metadata_identity h) channels packages"
  have mf: "metadata_file_ok ?mf" by (simp add: metadata_file_ok_def plain_component_def ends_with_def)
  have paths: "metadata_path_for prefix ?mf = bootstrap_path prefix"
    "temporary_metadata_path_for prefix ?mf = prefix @ [''.conda-ship-bootstrap.tmp'']"
    "backup_metadata_path_for prefix ?mf = prefix @ [''.conda-ship-bootstrap.bak'']"
    by (simp_all add: metadata_paths [OF mf] name_stem_def)
  obtain b where b: "meta_render J ?m = (b, True)" using renders by (cases "meta_render J ?m") auto
  let ?s = "s(temporary_metadata_path_for prefix ?mf := None, metadata_path_for prefix ?mf \<mapsto> Regular (b @ [10]),
         backup_metadata_path_for prefix ?mf := None)"
  have written: "run (write_metadata J h prefix channels packages) s = (Ok (), ?s)"
    using metadata_write_completes [OF assms(1) mf s(1) [unfolded h] _ b] h
    by (simp add: write_metadata_def write_metadata_for_identity_def metadata_for_identity_def header_metadata_identity_def)
  have "run (remove_state prefix) ?s = (Ok (), ?s(bootstrap_path prefix := None, bootstrap_temporary_path prefix := None))"
    by (rule run_remove_state) (use s(2) paths in \<open>auto simp: state_files_def\<close>)
  then have "run (bindio (write_metadata J h prefix channels packages) (\<lambda>_. remove_state prefix)) s =
      (Ok (), ?s(bootstrap_path prefix := None, bootstrap_temporary_path prefix := None))"
    by (simp add: run_bindio steady_write_metadata written)
  moreover have "recoverable J prefix ?mf (?s(bootstrap_path prefix := None, bootstrap_temporary_path prefix := None)) = None"
    by (simp add: recoverable_def paths)
  ultimately show ?thesis using h by auto
qed

section \<open>Instances\<close>

definition sample_installed :: "fs \<Rightarrow> bool" where
  "sample_installed s \<longleftrightarrow> s [''opt'', ''bin'', ''conda''] = Some (Regular [7])"

definition sample_install :: "unit io" where
  "sample_install = atomic_op (\<lambda>s. Inr ((), s([''opt'', ''bin'', ''conda''] \<mapsto> Regular [7])))"

definition sample_installer :: installer_ext where
  "sample_installer = \<lparr>ix_bundle = (\<lambda>_ _ _ _ _. sample_install), ix_extract_embedded = ret None, ix_remove_dir_all = (\<lambda>_. ret ()),
     ix_offline = (\<lambda>_ _ _. sample_install), ix_online = (\<lambda>_ _ _. sample_install), ix_prefix_metadata = (\<lambda>_ _ _. ret ()),
     ix_bytecode = (\<lambda>_. ret ()), ix_render_message = (\<lambda>_. [])\<rparr>"

lemma leaves_metadata_ret [simp]: "leaves_metadata prefix mf (ret x)"
  by (simp add: leaves_metadata_def stays_intros)

lemma keeps_installed_ret [simp]: "keeps_installed installed (ret x)"
  by (simp add: keeps_installed_def wp_ret)

lemma sample_installer_laws: "installer_laws sample_installer [''opt''] ''.demo.json'' sample_installed"
proof -
  have install: "leaves_metadata [''opt''] ''.demo.json'' sample_install" "establishes sample_installed sample_install"
    unfolding leaves_metadata_def stays_def establishes_def sample_install_def
    by (auto intro!: wp_atomic_op simp: sample_installed_def metadata_files_def)
  have "bootstrap_lock_path [''opt''] = Inr [''.opt.conda-ship.lock'']"
    by (simp add: bootstrap_lock_path_def parent_def file_name_def plain_component_def)
  then have "[''opt'', ''bin'', ''conda''] \<notin> side_files [''opt''] \<union> metadata_files [''opt''] ''.demo.json''"
    by (auto simp: side_files_def state_files_def metadata_files_def dest: arg_cong [where f = length])
  then show ?thesis
    by (auto simp: installer_laws_def sample_installer_def install sample_installed_def unchanged_outside_def)
qed

lemma sample_marker_free [simp]: "marker_free ''.demo.json''"
  by (simp add: marker_free_def BOOTSTRAP_STATE_FILE_def name_stem_def)

definition sample_marker :: bootstrap_state where
  "sample_marker = bootstrap_state_current Installing
     \<lparr>bi_display_name = ''demo'', bi_install_name = ''demo'', bi_metadata_file = ''.demo.json''\<rparr>"

definition sample_state :: state_ext where
  "sample_state = \<lparr>state_render = (\<lambda>x. if x = sample_marker then [1, 2, 3] else []),
     state_parse = (\<lambda>b. if b = [1, 2, 3, 10] then Inr sample_marker else Inl Io_Failed)\<rparr>"


lemma disposition_ready_sound_witness:
  "let s = [[''opt''] \<mapsto> Directory, [''opt'', ''.demo.json''] \<mapsto> Regular [1, 10], [''opt'', ''bin'', ''conda''] \<mapsto> Regular [7]];
       (r, w') = prefix_disposition_for False sample_json sample_state [''opt''] (embedded_prefix_identity sample_header) True
         \<lparr>w_fs = s, w_schedule = []\<rparr>
   in r = Ok Prefix_Ready \<and> sample_installed (w_fs w')"
proof -
  let ?s = "[[''opt''] \<mapsto> Directory, [''opt'', ''.demo.json''] \<mapsto> Regular [1, 10], [''opt'', ''bin'', ''conda''] \<mapsto> Regular [7]] :: fs"
  let ?id = "embedded_prefix_identity sample_header"
  let ?m = "prefix_disposition_for False sample_json sample_state [''opt''] ?id True"
  have id: "?id = \<lparr>pi_display_name = ''demo'', pi_install_name = ''demo'', pi_metadata_file = ''.demo.json'',
      pi_expected_delegate = Some ''conda''\<rparr>"
    by (simp add: embedded_prefix_identity_def sample_header_def header_for_name_def)
  have meta: "meta_parse sample_json [1, 10] = Inr (sample_metadata [])" by (simp add: sample_json_def)
  have nonempty: "\<not> (\<forall>n. ?s [''opt'', n] = None)"
  proof
    assume "\<forall>n. ?s [''opt'', n] = None"
    then have "?s [''opt'', ''.demo.json''] = None" by blast
    then show False by simp
  qed
  have valid: "validate_executable_name ''conda'' = Inr ()" by (simp add: validate_executable_name_def)
  have run: "?m \<lparr>w_fs = ?s, w_schedule = []\<rparr> = (Ok Prefix_Ready, \<lparr>w_fs = ?s, w_schedule = []\<rparr>)"
    using nonempty
    by (simp add: prefix_disposition_for_def validate_prefix_path_def bindio_def tryio_def symlink_metadata_def atomic_op_def
        next_event_def node_kind_def ensure_def ret_def map_err_def read_state_def read_state_file_def path_exists_def
        metadata_follow_def follow_def is_empty_dir_def path_is_dir_def read_dir_is_empty_def validate_ready_prefix_for_def
        read_managed_metadata_for_def read_metadata_for_def read_regular_metadata_if_present_def read_metadata_from_path_def
        read_file_def lift_result_def meta id sample_metadata_def metadata_for_identity_def sample_identity_def
        validate_metadata_ready_for_def validate_metadata_identity_for_def validate_ready_phase_def
        PREFIX_METADATA_SCHEMA_VERSION_def validate_recorded_delegate_def recorded_delegate_def validate_delegate_def
        valid executable_in_prefix_unix [OF valid] path_is_file_def Let_def)
  have "sample_installed ?s" by (simp add: sample_installed_def)
  then have "no_metadata [''opt''] (pi_metadata_file ?id) ?s \<or> sample_installed ?s" ..
  from disposition_ready_sound [where installed = sample_installed, OF _ this run] sample_installer_laws run
  show ?thesis by (simp add: id)
qed

lemma bootstrap_torn_marker_refused_witness:
  "\<exists>w'. write_installing_for sample_state [''opt''] (bootstrap_identity_of (embedded_prefix_identity sample_header))
       \<lparr>w_fs = [[''opt''] \<mapsto> Directory], w_schedule = [Go, Go, Go, Halt 2]\<rparr> = (Crash, w')
     \<and> run (prefix_disposition_for False sample_json sample_state [''opt''] (embedded_prefix_identity sample_header) True) (w_fs w')
        = (Err (Invalid ''refusing to use install path with invalid bootstrap state''), w_fs w')"
proof -
  have id: "bootstrap_state_current Installing (bootstrap_identity_of (embedded_prefix_identity sample_header)) = sample_marker"
    by (simp add: sample_marker_def bootstrap_identity_of_def embedded_prefix_identity_def sample_header_def header_for_name_def)
  have laws: "state_laws sample_state sample_marker" "length (state_render sample_state sample_marker) = 3"
    by (auto simp: state_laws_def sample_state_def less_Suc_eq numeral_3_eq_3)
  show ?thesis
    by (rule bootstrap_torn_marker_refused) (simp_all add: id laws)
qed

lemma marker_name_collision_witness:
  "let h = header_for_name ''1.0.0'' ''conda-ship-bootstrap'';
       m = metadata_for_identity (header_metadata_identity h) [] [];
       J = \<lparr>meta_render = \<lambda>x. ([1], x = m), meta_parse = \<lambda>_. Inr m\<rparr>
   in \<exists>s'. run (bindio (write_metadata J h [''opt''] [] []) (\<lambda>_. remove_state [''opt''])) [[''opt''] \<mapsto> Directory] = (Ok (), s')
        \<and> recoverable J [''opt''] (h_metadata_file h) s' = None"
  unfolding Let_def
  by (rule marker_name_collision)
    (auto simp: json_laws_def header_for_name_def metadata_regular_def metadata_files_def
       metadata_path_for_def temporary_metadata_path_for_def backup_metadata_path_for_def with_extension_def
       file_name_def plain_component_def)

end
