(* ===== verification/Bundle_Install.thy ===== *)
theory Bundle_Install
  imports Http_Urls Runtime_Footer Bootstrap
begin

text \<open>
  Package installation from lockfiles and bundles (\<open>src/install.rs\<close>): the records of the lockfile, the archives of
  a bundle directory and their verification, the extraction of the embedded bundle, and the three ways to
  install. \<open>install_ext\<close> holds what the file takes from rattler, tar, zstd and tempfile; progress output is not modelled.
\<close>

section \<open>Records\<close>

record package_record =
  pk_name :: string
  pk_version :: string
  pk_build :: string
  pk_build_number :: nat
  pk_subdir :: string
  pk_depends :: "string list"
  pk_md5 :: "bytes option"
  pk_sha256 :: "bytes option"
  pk_size :: "nat option"

record repodata_record =
  rr_package :: package_record
  rr_identifier :: string
  rr_dist :: string
  rr_url :: url
  rr_channel :: "string option"

text \<open>The default environment of a lockfile: its platforms, and what \<open>conda_repodata_records\<close> answers.\<close>

record lock_environment =
  le_platforms :: "string list"
  le_records :: "string \<Rightarrow> repodata_record list option result"

datatype entry_kind = Regular_Entry | Symlink_Entry | Hard_Link_Entry | Other_Entry

record tar_entry =
  te_path :: string
  te_kind :: entry_kind
  te_content :: bytes

record post_link_result =
  pl_failed :: "string list"
  pl_messages :: "(string \<times> string) list"

record install_config =
  ic_platform :: string
  ic_installed :: "repodata_record list"
  ic_reinstall :: "string set"
  ic_specs :: "string list"
  ic_cached :: bool
  ic_online :: bool

record install_ext =
  in_sha256 :: "bytes \<Rightarrow> bytes"
  in_platform :: string
  in_parse_lock :: "string \<Rightarrow> lock_environment option result"
  in_parse_spec :: "string \<Rightarrow> string result"
  in_installed :: "path \<Rightarrow> repodata_record list io"
  in_cache_dir :: "path result"
  in_ensure_cache_dir :: "path \<Rightarrow> unit io"
  in_cache :: "path \<Rightarrow> bytes \<Rightarrow> package_record \<Rightarrow> unit io"
  in_client :: "unit result"
  in_install :: "install_config \<Rightarrow> path \<Rightarrow> repodata_record list \<Rightarrow> (err + post_link_result) option io"
  in_read_dir :: "path \<Rightarrow> string list io"
  in_tempdir :: "string \<Rightarrow> path io"
  in_tar_entries :: "bytes \<Rightarrow> tar_entry result list result"
  in_unpack :: "tar_entry \<Rightarrow> path \<Rightarrow> unit io"

section \<open>Lockfile records\<close>

fun missing_sha256 :: "repodata_record list \<Rightarrow> bool" where
  "missing_sha256 [] = False"
| "missing_sha256 (r # rs) = (pk_sha256 (rr_package r) = None \<or> missing_sha256 rs)"

definition lockfile_records_for_current_platform ::
    "install_ext \<Rightarrow> string \<Rightarrow> (string \<times> repodata_record list) result" where
  "lockfile_records_for_current_platform N lock_content =
     rbind (in_parse_lock N lock_content) (\<lambda>lock.
     rbind (ok_or ''lockfile has no default environment'' lock) (\<lambda>env.
     let platform = in_platform N in
     rbind (ok_or ''lockfile has no records for this platform'' (find (\<lambda>p. p = platform) (le_platforms env))) (\<lambda>lock_platform.
     rbind (le_records env lock_platform) (\<lambda>records.
     rbind (ok_or ''lockfile has no records for this platform'' records) (\<lambda>records.
     if missing_sha256 records then Inl (Invalid ''no SHA256 in the lockfile, refusing installation'')
     else Inr (platform, records))))))"

fun parse_specs :: "install_ext \<Rightarrow> string list \<Rightarrow> string list result" where
  "parse_specs N [] = Inr []"
| "parse_specs N (s # ss) = rbind (in_parse_spec N s) (\<lambda>m. rbind (parse_specs N ss) (\<lambda>ms. Inr (m # ms)))"

definition reinstall_package_names :: "repodata_record list \<Rightarrow> bool \<Rightarrow> string set" where
  "reinstall_package_names packages reinstall =
     (if \<not> reinstall then {} else set (map (\<lambda>r. pk_name (rr_package r)) packages))"

section \<open>Bundle archives\<close>

definition validate_bundle_archive_name :: "string \<Rightarrow> unit result" where
  "validate_bundle_archive_name name =
     (if name = [] \<or> name = ''.'' \<or> name = ''..'' \<or> CHR ''/'' \<in> set name \<or> CHR 0x5C \<in> set name \<or> has_control name
      then Inl (Invalid ''invalid bundle package archive name'')
      else if \<not> (ends_with ''.conda'' name \<or> ends_with ''.tar.bz2'' name)
      then Inl (Invalid ''bundle package archive name must end with .conda or .tar.bz2'')
      else Inr ())"

interpretation bundle_archive: component_validator "\<lambda>name. validate_bundle_archive_name name = Inr ()"
  by unfold_locales (auto simp: validate_bundle_archive_name_def plain_component_def split: if_splits)

text \<open>\<open>Path::components\<close> on Unix, with the kinds of components: \<open>.\<close> is kept at the start only.\<close>

datatype component = Root_Dir | Cur_Dir | Parent_Dir | Normal_Component string

definition path_components :: "string \<Rightarrow> component list" where
  "path_components s =
     (if starts_with ''/'' s then [Root_Dir] else if s = ''.'' \<or> starts_with ''./'' s then [Cur_Dir] else [])
     @ map (\<lambda>c. if c = ''..'' then Parent_Dir else Normal_Component c) (components s)"

definition bundle_archive_name_from_path :: "string \<Rightarrow> string result" where
  "bundle_archive_name_from_path p =
     (case path_components p of
        [Normal_Component name] \<Rightarrow> rbind (validate_bundle_archive_name name) (\<lambda>_. Inr name)
      | _ \<Rightarrow> Inl (Invalid ''embedded bundle entries must be flat package archive names''))"

definition extract_entry :: "install_ext \<Rightarrow> path \<Rightarrow> tar_entry \<Rightarrow> unit io" where
  "extract_entry N tmp_dir entry =
     bindio (lift_result (bundle_archive_name_from_path (te_path entry))) (\<lambda>archive_name.
     bindio (ensure (te_kind entry \<noteq> Symlink_Entry \<and> te_kind entry \<noteq> Hard_Link_Entry) ''embedded bundle contains a link entry'') (\<lambda>_.
     bindio (ensure (te_kind entry = Regular_Entry) ''unsupported entry type in embedded bundle'') (\<lambda>_.
     in_unpack N entry (join tmp_dir archive_name))))"

fun extract_entries :: "install_ext \<Rightarrow> path \<Rightarrow> tar_entry result list \<Rightarrow> unit io" where
  "extract_entries N tmp_dir [] = ret ()"
| "extract_entries N tmp_dir (e # es) =
     bindio (lift_result e) (\<lambda>entry.
     bindio (extract_entry N tmp_dir entry) (\<lambda>_.
     extract_entries N tmp_dir es))"

text \<open>An error after the directory was made drops it; the parameter \<open>remove_tempdir\<close> is the destructor.\<close>

definition extract_embedded_bundle ::
    "install_ext \<Rightarrow> codec_ext \<Rightarrow> (path \<Rightarrow> unit io) \<Rightarrow> runtime_data \<Rightarrow> path option io" where
  "extract_embedded_bundle N X remove_tempdir current =
     (case rd_bundle current of
        None \<Rightarrow> ret None
      | Some e \<Rightarrow>
          bindio (in_tempdir N (h_embedded_artifact_name (rd_header current) @ ''-bundle-'')) (\<lambda>tmp_dir.
          bindio (tryio
            (bindio (read_file (eb_executable e)) (\<lambda>executable_bytes.
             bindio (lift_result (open_verified X executable_bytes e)) (\<lambda>verified_bundle.
             bindio (lift_result (in_tar_entries N verified_bundle)) (\<lambda>entries.
             extract_entries N tmp_dir entries))))) (\<lambda>r. case r of
            Inr _ \<Rightarrow> ret (Some tmp_dir)
          | Inl e \<Rightarrow> bindio (tryio (remove_tempdir tmp_dir)) (\<lambda>_. fail e))))"

text \<open>The later of two entries of the same name wins.\<close>

fun index_entries :: "path \<Rightarrow> string list \<Rightarrow> (string \<rightharpoonup> path) io" where
  "index_entries dir [] = ret Map.empty"
| "index_entries dir (name # names) =
     bindio (symlink_metadata (dir @ [name])) (\<lambda>kind.
     bindio (index_entries dir names) (\<lambda>index.
     ret (if kind = Is_File \<and> validate_bundle_archive_name name = Inr () \<and> name \<notin> dom index
          then index(name \<mapsto> dir @ [name]) else index)))"

definition index_bundle_dir :: "install_ext \<Rightarrow> path \<Rightarrow> (string \<rightharpoonup> path) io" where
  "index_bundle_dir N dir = bindio (in_read_dir N dir) (\<lambda>names. index_entries dir names)"

text \<open>The snapshot is a private copy, so its content is a value.\<close>

record bundle_package =
  bp_snapshot :: bytes
  bp_record :: repodata_record

definition verify_bundle_package :: "install_ext \<Rightarrow> repodata_record \<Rightarrow> bytes \<Rightarrow> unit result" where
  "verify_bundle_package N r snapshot =
     rbind (ok_or ''no SHA256 in the lockfile, refusing bundle install'' (pk_sha256 (rr_package r))) (\<lambda>expected.
     if in_sha256 N snapshot \<noteq> expected then Inl (Invalid ''SHA256 mismatch for bundled package'') else Inr ())"

definition archive_filename :: "repodata_record \<Rightarrow> string" where
  "archive_filename r = (case url_segments (rr_url r) of
     None \<Rightarrow> [] | Some segments \<Rightarrow> (if segments = [] then [] else last segments))"

fun match_records_to_bundle ::
    "install_ext \<Rightarrow> (string \<rightharpoonup> path) \<Rightarrow> repodata_record list \<Rightarrow> (bundle_package list \<times> string list) io" where
  "match_records_to_bundle N index [] = ret ([], [])"
| "match_records_to_bundle N index (r # rs) =
     (case index (archive_filename r) of
        Some p \<Rightarrow>
          bindio (read_file p) (\<lambda>snapshot.
          bindio (lift_result (verify_bundle_package N r snapshot)) (\<lambda>_.
          bindio (match_records_to_bundle N index rs) (\<lambda>(matched, missing).
          ret (\<lparr>bp_snapshot = snapshot, bp_record = r\<rparr> # matched, missing))))
      | None \<Rightarrow>
          bindio (match_records_to_bundle N index rs) (\<lambda>(matched, missing).
          ret (matched, archive_filename r # missing)))"

section \<open>Installation\<close>

text \<open>\<open>lines()\<close> and \<open>trim\<close> of ASCII text.\<close>

definition trim_text :: "string \<Rightarrow> string" where
  "trim_text s = rev (dropWhile (\<lambda>c. all_whitespace [c]) (rev (dropWhile (\<lambda>c. all_whitespace [c]) s)))"

fun join_texts :: "string \<Rightarrow> string list \<Rightarrow> string" where
  "join_texts sep [] = []"
| "join_texts sep [s] = s"
| "join_texts sep (s # t # ss) = s @ sep @ join_texts sep (t # ss)"

definition post_link_failure_lines :: "(nat \<Rightarrow> string) \<Rightarrow> post_link_result \<Rightarrow> string list" where
  "post_link_failure_lines show_nat result =
     (if pl_failed result = [] then []
      else (''post-link scripts failed for '' @ show_nat (length (pl_failed result)) @ '' package(s): ''
             @ join_texts '', '' (pl_failed result))
        # concat (map (\<lambda>package. case map_of (pl_messages result) package of
             None \<Rightarrow> []
           | Some message \<Rightarrow> map (\<lambda>line. package @ '': '' @ line)
               (filter (\<lambda>line. line \<noteq> []) (map trim_text (split_on (CHR 0x0A) (trim_text message)))))
           (pl_failed result)))"

definition validate_post_link_script_result :: "(err + post_link_result) option \<Rightarrow> unit result" where
  "validate_post_link_script_result result =
     (case result of
        Some (Inr r) \<Rightarrow> if pl_failed r \<noteq> [] then Inl (Invalid ''post-link scripts failed'') else Inr ()
      | Some (Inl e) \<Rightarrow> Inl (Invalid ''failed to inspect post-link script results'')
      | None \<Rightarrow> Inr ())"

definition run_install :: "install_ext \<Rightarrow> install_config \<Rightarrow> path \<Rightarrow> repodata_record list \<Rightarrow> unit io" where
  "run_install N config prefix packages =
     bindio (in_install N config prefix packages) (\<lambda>post_link_script_result.
     lift_result (validate_post_link_script_result post_link_script_result))"

definition from_lockfile_with_specs ::
    "install_ext \<Rightarrow> path \<Rightarrow> string \<Rightarrow> string list \<Rightarrow> bool \<Rightarrow> unit io" where
  "from_lockfile_with_specs N prefix lock_content requested_specs reinstall =
     bindio (lift_result (lockfile_records_for_current_platform N lock_content)) (\<lambda>(platform, required_packages).
     bindio (lift_result (parse_specs N requested_specs)) (\<lambda>match_specs.
     bindio (in_installed N prefix) (\<lambda>installed.
     bindio (lift_result (in_client N)) (\<lambda>_.
     run_install N \<lparr>ic_platform = platform, ic_installed = installed,
        ic_reinstall = reinstall_package_names required_packages reinstall, ic_specs = match_specs,
        ic_cached = False, ic_online = True\<rparr> prefix required_packages))))"

text \<open>The packages are cached one after the other; the code runs these calls concurrently and returns the first error.\<close>

fun cache_packages :: "install_ext \<Rightarrow> path \<Rightarrow> bundle_package list \<Rightarrow> unit io" where
  "cache_packages N cache_dir [] = ret ()"
| "cache_packages N cache_dir (p # ps) =
     bindio (in_cache N cache_dir (bp_snapshot p) (rr_package (bp_record p))) (\<lambda>_. cache_packages N cache_dir ps)"

definition from_lockfile_with_bundle_and_specs ::
    "install_ext \<Rightarrow> path \<Rightarrow> string \<Rightarrow> string list \<Rightarrow> path \<Rightarrow> bool \<Rightarrow> bool \<Rightarrow> unit io" where
  "from_lockfile_with_bundle_and_specs N prefix lock_content requested_specs bundle_dir offline reinstall =
     bindio (lift_result (lockfile_records_for_current_platform N lock_content)) (\<lambda>(platform, required_packages).
     bindio (index_bundle_dir N bundle_dir) (\<lambda>bundle_index.
     bindio (match_records_to_bundle N bundle_index required_packages) (\<lambda>(matched, missing).
     bindio (ensure (\<not> (offline \<and> missing \<noteq> [])) ''offline mode: packages not found in bundle'') (\<lambda>_.
     bindio (lift_result (in_cache_dir N)) (\<lambda>cache_dir.
     bindio (in_ensure_cache_dir N cache_dir) (\<lambda>_.
     bindio (cache_packages N (cache_dir @ [''pkgs'']) matched) (\<lambda>_.
     bindio (lift_result (parse_specs N requested_specs)) (\<lambda>match_specs.
     bindio (in_installed N prefix) (\<lambda>installed.
     bindio (if \<not> offline then lift_result (in_client N) else ret ()) (\<lambda>_.
     run_install N \<lparr>ic_platform = platform, ic_installed = installed,
        ic_reinstall = reinstall_package_names required_packages reinstall, ic_specs = match_specs,
        ic_cached = True, ic_online = \<not> offline\<rparr> prefix required_packages))))))))))"

definition from_lockfile_offline_with_specs ::
    "install_ext \<Rightarrow> path \<Rightarrow> string \<Rightarrow> string list \<Rightarrow> bool \<Rightarrow> unit io" where
  "from_lockfile_offline_with_specs N prefix lock_content requested_specs reinstall =
     bindio (lift_result (lockfile_records_for_current_platform N lock_content)) (\<lambda>(platform, required_packages).
     bindio (lift_result (in_cache_dir N)) (\<lambda>cache_dir.
     bindio (lift_result (parse_specs N requested_specs)) (\<lambda>match_specs.
     bindio (in_installed N prefix) (\<lambda>installed.
     run_install N \<lparr>ic_platform = platform, ic_installed = installed,
        ic_reinstall = reinstall_package_names required_packages reinstall, ic_specs = match_specs,
        ic_cached = True, ic_online = False\<rparr> prefix required_packages))))"

text \<open>With the packages of the embedded configuration.\<close>

definition from_lockfile :: "install_ext \<Rightarrow> runtime_config \<Rightarrow> path \<Rightarrow> string \<Rightarrow> bool \<Rightarrow> unit io" where
  "from_lockfile N config prefix lock_content reinstall =
     from_lockfile_with_specs N prefix lock_content (rc_packages config) reinstall"

definition from_lockfile_with_bundle ::
    "install_ext \<Rightarrow> runtime_config \<Rightarrow> path \<Rightarrow> string \<Rightarrow> path \<Rightarrow> bool \<Rightarrow> bool \<Rightarrow> unit io" where
  "from_lockfile_with_bundle N config prefix lock_content bundle_dir offline reinstall =
     from_lockfile_with_bundle_and_specs N prefix lock_content (rc_packages config) bundle_dir offline reinstall"

definition from_lockfile_offline :: "install_ext \<Rightarrow> runtime_config \<Rightarrow> path \<Rightarrow> string \<Rightarrow> bool \<Rightarrow> unit io" where
  "from_lockfile_offline N config prefix lock_content reinstall =
     from_lockfile_offline_with_specs N prefix lock_content (rc_packages config) reinstall"

end
