(* ===== verification/Constructor_Metadata.thy ===== *)
theory Constructor_Metadata
  imports Bundle_Install "HOL-Library.List_Lexorder" "HOL-Library.Char_ord"
begin

text \<open>
  Constructor-compatible prefix metadata (\<open>src/constructor_metadata.rs\<close>): the history, the explicit list of
  packages and the installer record. \<open>metadata_ext\<close> is the clock, the host's JSON rendering and the installer's name.
\<close>

record installer_metadata =
  im_name :: string
  im_version :: string
  im_installer_type :: string

record metadata_ext =
  cm_timestamp :: string
  cm_json_specs :: "string list \<Rightarrow> string result"
  cm_json_info :: "installer_metadata \<Rightarrow> string \<Rightarrow> string result"

definition newline :: char where
  "newline = CHR 0x0A"

definition trim_end_slashes :: "string \<Rightarrow> string" where
  "trim_end_slashes s = rev (dropWhile (\<lambda>c. c = CHR ''/'') (rev s))"

definition channel_root :: "string \<Rightarrow> string \<Rightarrow> string" where
  "channel_root channel subdir =
     (let channel = trim_end_slashes channel in
      case strip_suffix (''/'' @ subdir) channel of Some root \<Rightarrow> root | None \<Rightarrow> channel)"

text \<open>\<open>rsplit_once('/')\<close>, the part before.\<close>

definition before_last_slash :: "string \<Rightarrow> string" where
  "before_last_slash s =
     (if CHR ''/'' \<in> set s then rev (tl (dropWhile (\<lambda>c. c \<noteq> CHR ''/'') (rev s))) else s)"

definition channel_root_from_url :: "repodata_record \<Rightarrow> string \<Rightarrow> string" where
  "channel_root_from_url r subdir = channel_root (before_last_slash (trim_end_slashes (url_text (rr_url r)))) subdir"

text \<open>The identifier without its archive extension.\<close>

definition history_dist :: "repodata_record \<Rightarrow> string" where
  "history_dist r =
     (let subdir = pk_subdir (rr_package r);
          channel = (case rr_channel r of
            Some c \<Rightarrow> if c \<noteq> [] then channel_root c subdir else channel_root_from_url r subdir
          | None \<Rightarrow> channel_root_from_url r subdir) in
      channel @ ''/'' @ subdir @ ''::'' @ rr_dist r)"

text \<open>\<open>set_fragment(None)\<close> on the serialised URL.\<close>

definition explicit_url :: "repodata_record \<Rightarrow> string" where
  "explicit_url r =
     takeWhile (\<lambda>c. c \<noteq> CHR ''#'') (url_text (rr_url r))
     @ (case pk_sha256 (rr_package r) of
          Some h \<Rightarrow> ''#sha256:'' @ hex h
        | None \<Rightarrow> (case pk_md5 (rr_package r) of Some h \<Rightarrow> ''#'' @ hex h | None \<Rightarrow> []))"

definition render_history ::
    "metadata_ext \<Rightarrow> repodata_record list \<Rightarrow> string list \<Rightarrow> string \<Rightarrow> string \<Rightarrow> string result" where
  "render_history T records requested_specs timestamp command_name =
     (let content = ''==> '' @ timestamp @ '' <=='' @ [newline] @ ''# cmd: '' @ command_name @ '' [automatic bootstrap]'' @ [newline]
            @ concat (map (\<lambda>dist. ''+'' @ dist @ [newline]) (sort (map history_dist records))) in
      if requested_specs = [] then Inr (content @ [newline])
      else rbind (cm_json_specs T requested_specs) (\<lambda>specs.
        Inr (content @ ''# update specs: '' @ specs @ [newline] @ [newline])))"

definition render_initial_state_explicit :: "string \<Rightarrow> repodata_record list \<Rightarrow> string" where
  "render_initial_state_explicit platform records =
     ''# This file may be used to create an environment using:'' @ [newline]
     @ ''# $ conda create --name <env> --file <this file>'' @ [newline]
     @ ''# platform: '' @ platform @ [newline] @ ''@EXPLICIT'' @ [newline]
     @ concat (map (\<lambda>line. line @ [newline]) (sort (map explicit_url records)))"

definition write_installer_info :: "metadata_ext \<Rightarrow> path \<Rightarrow> string \<Rightarrow> installer_metadata \<Rightarrow> unit io" where
  "write_installer_info T prefix platform installer =
     bindio (lift_result (cm_json_info T installer platform)) (\<lambda>contents.
     write_file (prefix @ [''.installer.info'']) (bytes_of_string contents))"

definition write_prefix_metadata_from_records ::
    "metadata_ext \<Rightarrow> path \<Rightarrow> string \<Rightarrow> repodata_record list \<Rightarrow> string list \<Rightarrow> string \<Rightarrow> installer_metadata option \<Rightarrow> unit io" where
  "write_prefix_metadata_from_records T prefix platform records requested_specs command_name installer =
     (let conda_meta = prefix @ [''conda-meta''] in
      bindio (create_dir_all conda_meta) (\<lambda>_.
      bindio (lift_result (render_history T records requested_specs (cm_timestamp T) command_name)) (\<lambda>history.
      bindio (write_file (conda_meta @ [''history'']) (bytes_of_string history)) (\<lambda>_.
      bindio (write_file (conda_meta @ [''initial-state.explicit.txt''])
        (bytes_of_string (render_initial_state_explicit platform records))) (\<lambda>_.
      case installer of None \<Rightarrow> ret () | Some i \<Rightarrow> write_installer_info T prefix platform i)))))"

definition write_prefix_metadata_for ::
    "install_ext \<Rightarrow> metadata_ext \<Rightarrow> path \<Rightarrow> string \<Rightarrow> string list \<Rightarrow> string \<Rightarrow> installer_metadata option \<Rightarrow> unit io" where
  "write_prefix_metadata_for N T prefix lock_content requested_specs command_name installer =
     bindio (lift_result (lockfile_records_for_current_platform N lock_content)) (\<lambda>(platform, records).
     write_prefix_metadata_from_records T prefix platform records requested_specs command_name installer)"

text \<open>\<open>policy::command_name\<close> is the artifact's name.\<close>

definition write_prefix_metadata ::
    "install_ext \<Rightarrow> metadata_ext \<Rightarrow> runtime_header \<Rightarrow> path \<Rightarrow> string \<Rightarrow> string list \<Rightarrow> unit io" where
  "write_prefix_metadata N T h prefix lock_content requested_specs =
     write_prefix_metadata_for N T prefix lock_content requested_specs (h_artifact_name h)
       (map_option (\<lambda>installer_type. \<lparr>im_name = h_runtime_name h, im_version = h_runtime_version h,
          im_installer_type = installer_type\<rparr>) (h_installer h))"

end
