(* ===== verification/Install_Safety.thy ===== *)
theory Install_Safety
  imports Constructor_Metadata
begin

text \<open>
  What the installation guarantees: only archives with the digest of the lockfile reach the package cache, the
  embedded bundle is unpacked into its own directory only, an offline installation uses no network and needs every
  package in the bundle, and the modelled installation keeps the contract the bootstrap relies on.
\<close>

section \<open>Matching\<close>

definition snapshot_verified :: "install_ext \<Rightarrow> bundle_package \<Rightarrow> bool" where
  "snapshot_verified N p \<longleftrightarrow> pk_sha256 (rr_package (bp_record p)) = Some (in_sha256 N (bp_snapshot p))"

lemma verify_bundle_package_Inr:
  "verify_bundle_package N r b = Inr () \<longleftrightarrow> snapshot_verified N \<lparr>bp_snapshot = b, bp_record = r\<rparr>"
  by (auto simp: verify_bundle_package_def snapshot_verified_def success_simps)

definition matched_as ::
    "install_ext \<Rightarrow> (string \<rightharpoonup> path) \<Rightarrow> fs \<Rightarrow> repodata_record list \<Rightarrow> bundle_package list \<times> string list \<Rightarrow> bool" where
  "matched_as N index s rs m \<longleftrightarrow> (\<forall>p \<in> set (fst m). snapshot_verified N p
       \<and> (\<exists>q. index (archive_filename (bp_record p)) = Some q \<and> follow s q = Some (Regular (bp_snapshot p))))
     \<and> map bp_record (fst m) = filter (\<lambda>r. archive_filename r \<in> dom index) rs
     \<and> snd m = map archive_filename (filter (\<lambda>r. archive_filename r \<notin> dom index) rs)"

lemma wp_match_records:
  "wp (match_records_to_bundle N index rs) (\<lambda>m s'. s' = s \<and> matched_as N index s rs m) (\<lambda>_ s'. s' = s) (\<lambda>s'. s' = s) s"
proof (induction rs)
  case Nil
  show ?case by (simp add: wp_ret matched_as_def)
next
  case (Cons r rs)
  have rest: "wp (bindio (match_records_to_bundle N index rs) (\<lambda>(matched, missing). ret (f matched missing)))
      (\<lambda>m s'. s' = s \<and> matched_as N index s (r # rs) m) (\<lambda>_ s'. s' = s) (\<lambda>s'. s' = s) s"
    if "\<And>matched missing. matched_as N index s rs (matched, missing) \<Longrightarrow> matched_as N index s (r # rs) (f matched missing)" for f
    by (rule wp_bindio, rule wp_mono [OF Cons.IH]) (use that in \<open>auto intro: wp_ret\<close>)
  show ?case
  proof (cases "index (archive_filename r)")
    case None
    then have "matched_as N index s (r # rs) (matched, archive_filename r # missing)" if "matched_as N index s rs (matched, missing)"
      for matched missing using that by (auto simp: matched_as_def)
    with None rest show ?thesis by simp
  next
    case (Some p)
    have good: "matched_as N index s (r # rs) (\<lparr>bp_snapshot = b, bp_record = r\<rparr> # matched, missing)"
      if "matched_as N index s rs (matched, missing)" "verify_bundle_package N r b = Inr ()" "follow s p = Some (Regular b)" for matched missing b
      using that Some by (auto simp: matched_as_def verify_bundle_package_Inr)
    have "wp (bindio (match_records_to_bundle N index rs)
        (\<lambda>(matched, missing). ret (\<lparr>bp_snapshot = b, bp_record = r\<rparr> # matched, missing)))
      (\<lambda>m s'. s' = s \<and> matched_as N index s (r # rs) m) (\<lambda>_ s'. s' = s) (\<lambda>s'. s' = s) s"
      if "verify_bundle_package N r b = Inr ()" "follow s p = Some (Regular b)" for b
      by (rule rest [of "\<lambda>matched missing. (\<lparr>bp_snapshot = b, bp_record = r\<rparr> # matched, missing)"]) (rule good [OF _ that])
    then show ?thesis
      unfolding match_records_to_bundle.simps Some option.case
      by (rule_tac wp_bindio, rule_tac wp_read_file, rule_tac wp_bindio, rule_tac wp_lift_result) auto
  qed
qed

section \<open>Extraction\<close>

lemma flat_name:
  assumes "bundle_archive_name_from_path p = Inr name"
  shows "validate_bundle_archive_name name = Inr ()" and "path_components p = [Normal_Component name]"
  using assms by (auto simp: bundle_archive_name_from_path_def success_simps split: list.splits component.splits)

definition entry_ok :: "tar_entry result \<Rightarrow> bool" where
  "entry_ok e \<longleftrightarrow> (\<exists>t name. e = Inr t \<and> te_kind t = Regular_Entry \<and> bundle_archive_name_from_path (te_path t) = Inr name)"

definition archive_places :: "path \<Rightarrow> path set" where
  "archive_places d = {d @ [name] | name. validate_bundle_archive_name name = Inr ()}"

lemma wp_extract_entries:
  assumes unpack: "\<And>t p. stays (in_unpack N t p) {p}"
  shows "wp (extract_entries N d es) (\<lambda>_ s'. unchanged_outside (archive_places d) s s' \<and> (\<forall>e \<in> set es. entry_ok e))
    (\<lambda>_. unchanged_outside (archive_places d) s) (unchanged_outside (archive_places d) s) s"
proof (induction es arbitrary: s)
  case Nil
  show ?case by (simp add: wp_ret)
next
  case (Cons e es)
  have one: "wp (bindio (extract_entry N d t) (\<lambda>_. extract_entries N d es))
      (\<lambda>_ s'. unchanged_outside (archive_places d) s s' \<and> (\<forall>e \<in> set (Inr t # es). entry_ok e))
      (\<lambda>_. unchanged_outside (archive_places d) s) (unchanged_outside (archive_places d) s) s" for t
  proof (cases "bundle_archive_name_from_path (te_path t)")
    case (Inl _)
    then show ?thesis by (simp add: extract_entry_def wp_fail)
  next
    case (Inr name)
    note flat = flat_name [OF Inr]
    from flat(1) bundle_archive.valid_plain have "join d name = d @ [name]" by simp
    moreover from flat(1) have "d @ [name] \<in> archive_places d" by (auto simp: archive_places_def)
    ultimately have "stays (in_unpack N t (join d name)) (archive_places d)"
      using stays_mono [OF unpack] by auto
    then show ?thesis
      using Inr unfolding extract_entry_def
      by (auto simp: ensure_def wp_fail entry_ok_def intro!: wp_bindio_stays wp_mono [OF Cons.IH] dest: unchanged_outside_trans)
  qed
  show ?case
    by (cases e) (simp_all add: wp_fail one [simplified])
qed

section \<open>The index\<close>

lemma wp_index_entries:
  "wp (index_entries dir names) (\<lambda>index s'. s' = s \<and> (\<forall>name p. index name = Some p \<longrightarrow> p = dir @ [name] \<and> validate_bundle_archive_name name = Inr ()
       \<and> (\<exists>b. s p = Some (Regular b))))
     (\<lambda>_ s'. s' = s) (\<lambda>s'. s' = s) s"
proof (induction names)
  case Nil
  show ?case by (simp add: wp_ret)
next
  case (Cons name names)
  have step: "wp (bindio (index_entries dir names) (\<lambda>index.
      ret (if kind = Is_File \<and> validate_bundle_archive_name name = Inr () \<and> name \<notin> dom index then index(name \<mapsto> dir @ [name]) else index)))
     (\<lambda>index s'. s' = s \<and> (\<forall>name p. index name = Some p \<longrightarrow> p = dir @ [name] \<and> validate_bundle_archive_name name = Inr ()
       \<and> (\<exists>b. s p = Some (Regular b)))) (\<lambda>_ s'. s' = s) (\<lambda>s'. s' = s) s"
    if "kind = Is_File \<Longrightarrow> \<exists>b. s (dir @ [name]) = Some (Regular b)" for kind
    by (rule wp_bindio, rule wp_mono [OF Cons.IH]) (use that in \<open>auto intro!: wp_ret split: if_splits\<close>)
  show ?case
    unfolding index_entries.simps
  proof (rule wp_bindio, rule wp_symlink_metadata, goal_cases)
    case (1 n)
    then show ?case by (intro step) (cases n; simp add: node_kind_def)
  qed simp_all
qed

section \<open>What depends on the cache\<close>

lemma bindio_cong_result:
  assumes "\<And>x w w'. m w = (Ok x, w') \<Longrightarrow> f x = g x"
  shows "bindio m f = bindio m g"
proof
  fix w
  obtain r w' where m: "m w = (r, w')" by fastforce
  show "bindio m f w = bindio m g w" using assms m by (cases r) (simp_all add: bindio_def)
qed

lemma other_cache [simp]:
  "lockfile_records_for_current_platform (N\<lparr>in_cache := c\<rparr>) content = lockfile_records_for_current_platform N content"
  "index_bundle_dir (N\<lparr>in_cache := c\<rparr>) dir = index_bundle_dir N dir"
  "match_records_to_bundle (N\<lparr>in_cache := c\<rparr>) index rs = match_records_to_bundle N index rs"
  "parse_specs (N\<lparr>in_cache := c\<rparr>) specs = parse_specs N specs"
  "run_install (N\<lparr>in_cache := c\<rparr>) config prefix packages = run_install N config prefix packages"
proof -
  show "match_records_to_bundle (N\<lparr>in_cache := c\<rparr>) index rs = match_records_to_bundle N index rs"
  proof (induction rs)
    case (Cons r rs)
    have "verify_bundle_package (N\<lparr>in_cache := c\<rparr>) r b = verify_bundle_package N r b" for b by (simp add: verify_bundle_package_def)
    with Cons show ?case by (simp cong: option.case_cong)
  qed simp
  show "parse_specs (N\<lparr>in_cache := c\<rparr>) specs = parse_specs N specs" by (induction specs) simp_all
qed (simp_all add: lockfile_records_for_current_platform_def index_bundle_dir_def run_install_def)

lemma cache_packages_agree:
  "\<forall>p \<in> set ps. snapshot_verified N p \<Longrightarrow> (\<And>d b r. pk_sha256 r = Some (in_sha256 N b) \<Longrightarrow> cache' d b r = in_cache N d b r) \<Longrightarrow>
     cache_packages (N\<lparr>in_cache := cache'\<rparr>) d ps = cache_packages N d ps"
  by (induction ps) (simp_all add: snapshot_verified_def)

section \<open>Properties\<close>

text \<open>C29. Bundled archives are what the lockfile says: when the records of a lockfile are matched to a bundle, under any faults,
  the records whose archive is in the bundle come back in order with a copy of the archive that has the
  recorded SHA-256, all others are reported as missing, and nothing is written outside the private copies.\<close>

theorem bundle_archives_verified:
  assumes "match_records_to_bundle N index records \<lparr>w_fs = s, w_schedule = schedule\<rparr> = (r, w')"
  shows "w_fs w' = s \<and> (\<forall>matched missing. r = Ok (matched, missing) \<longrightarrow>
     map bp_record matched = filter (\<lambda>r. archive_filename r \<in> dom index) records
     \<and> missing = map archive_filename (filter (\<lambda>r. archive_filename r \<notin> dom index) records)
     \<and> (\<forall>p \<in> set matched. pk_sha256 (rr_package (bp_record p)) = Some (in_sha256 N (bp_snapshot p))))"
  using wpD [OF wp_match_records assms] by (cases r) (auto simp: matched_as_def snapshot_verified_def)

text \<open>C30. Nothing else reaches the package cache: the installation from a bundle does not depend on what the cache does with
  archives that differ from the lockfile, because it never passes it one.\<close>

theorem cache_sees_only_verified:
  assumes agree: "\<And>d b r. pk_sha256 r = Some (in_sha256 N b) \<Longrightarrow> cache' d b r = in_cache N d b r"
  shows "from_lockfile_with_bundle_and_specs (N\<lparr>in_cache := cache'\<rparr>) prefix content specs dir offline reinstall
     = from_lockfile_with_bundle_and_specs N prefix content specs dir offline reinstall"
proof -
  have same: "cache_packages (N\<lparr>in_cache := cache'\<rparr>) d matched = cache_packages N d matched"
    if "match_records_to_bundle N index records w = (Ok (matched, missing), w')" for index records w matched missing w' d
  proof -
    have "match_records_to_bundle N index records \<lparr>w_fs = w_fs w, w_schedule = w_schedule w\<rparr> = (Ok (matched, missing), w')"
      using that by (cases w) simp
    from wpD [OF wp_match_records this] show ?thesis by (intro cache_packages_agree agree) (simp_all add: matched_as_def)
  qed
  show ?thesis
    unfolding from_lockfile_with_bundle_and_specs_def other_cache
  proof (rule bindio_cong_result, goal_cases)
    case (1 x w w')
    obtain platform records where x: "x = (platform, records)" by fastforce
    show ?case
      unfolding x prod.case
    proof (rule bindio_cong_result, rule bindio_cong_result, goal_cases)
      case (1 index _ _ m v v')
      obtain matched missing where m: "m = (matched, missing)" by fastforce
      from 1(2) have "cache_packages (N\<lparr>in_cache := cache'\<rparr>) d matched = cache_packages N d matched" for d
        unfolding m by (rule same)
      then show ?case unfolding m prod.case by simp
    qed
  qed
qed

text \<open>C31. The embedded bundle is unpacked flat: whatever the archive holds and whatever fails, the extraction writes only
  files \<open>NAME.conda\<close> or \<open>NAME.tar.bz2\<close> directly in its temporary directory, and it succeeds only if every entry is a
  regular file whose path is one such name.\<close>

theorem extraction_confined:
  assumes unpack: "\<And>t p. stays (in_unpack N t p) {p}"
    and run: "extract_entries N d es \<lparr>w_fs = s, w_schedule = schedule\<rparr> = (r, w')"
  shows "unchanged_outside {d @ [name] | name. plain_component name \<and> (ends_with ''.conda'' name \<or> ends_with ''.tar.bz2'' name)} s (w_fs w')
     \<and> (r = Ok () \<longrightarrow> (\<forall>e \<in> set es. \<exists>t name. e = Inr t \<and> te_kind t = Regular_Entry
          \<and> path_components (te_path t) = [Normal_Component name] \<and> validate_bundle_archive_name name = Inr ()))"
proof -
  have places: "archive_places d \<subseteq> {d @ [name] | name. plain_component name \<and> (ends_with ''.conda'' name \<or> ends_with ''.tar.bz2'' name)}"
    using bundle_archive.valid_plain by (auto simp: archive_places_def validate_bundle_archive_name_def split: if_splits)
  have "unchanged_outside (archive_places d) s (w_fs w') \<and> (r = Ok () \<longrightarrow> (\<forall>e \<in> set es. entry_ok e))"
    using wpD [OF wp_extract_entries [OF unpack] run] by (cases r) auto
  then show ?thesis
    using unchanged_outside_mono [OF _ places] flat_name unfolding entry_ok_def by blast
qed

text \<open>C32. An offline installation from a bundle is complete: if it returns, under any faults, then every package of the lockfile
  was in the bundle as a regular file of its own name with the recorded SHA-256.\<close>

theorem offline_bundle_complete:
  assumes look: "\<And>d. stays (in_read_dir N d) {}"
    and run: "from_lockfile_with_bundle_and_specs N prefix content specs dir True reinstall \<lparr>w_fs = s, w_schedule = schedule\<rparr> = (Ok (), w')"
  shows "\<exists>platform records. lockfile_records_for_current_platform N content = Inr (platform, records)
     \<and> (\<forall>r \<in> set records. validate_bundle_archive_name (archive_filename r) = Inr ()
          \<and> (\<exists>b. s (dir @ [archive_filename r]) = Some (Regular b) \<and> pk_sha256 (rr_package r) = Some (in_sha256 N b)))"
    (is "?complete")
proof -
  have indexed: ?complete
    if records: "lockfile_records_for_current_platform N content = Inr (platform, records)"
      and index: "\<forall>name p. index name = Some p \<longrightarrow> p = dir @ [name] \<and> validate_bundle_archive_name name = Inr ()
           \<and> (\<exists>b. s p = Some (Regular b))"
      and m: "matched_as N index s records (matched, [])" for platform records index matched
  proof -
    have "validate_bundle_archive_name (archive_filename r) = Inr ()
        \<and> (\<exists>b. s (dir @ [archive_filename r]) = Some (Regular b) \<and> pk_sha256 (rr_package r) = Some (in_sha256 N b))"
      if r: "r \<in> set records" for r
    proof -
    from m have "filter (\<lambda>r. archive_filename r \<notin> dom index) records = []" by (simp add: matched_as_def)
    with r have "r \<in> set (filter (\<lambda>r. archive_filename r \<in> dom index) records)" by (auto simp: filter_empty_conv)
    then have "r \<in> set (map bp_record matched)" using m by (simp add: matched_as_def)
    then obtain p where p: "p \<in> set matched" "bp_record p = r" by auto
    then obtain q where q: "index (archive_filename r) = Some q" "follow s q = Some (Regular (bp_snapshot p))"
      "pk_sha256 (rr_package r) = Some (in_sha256 N (bp_snapshot p))" using m by (auto simp: matched_as_def snapshot_verified_def)
    with index obtain b where b: "q = dir @ [archive_filename r]" "validate_bundle_archive_name (archive_filename r) = Inr ()"
      "s q = Some (Regular b)" by blast
    from b q show ?thesis by (auto simp: follow_def)
    qed
    with records show ?thesis by blast
  qed
  have trivial: "P \<Longrightarrow> wp c (\<lambda>_ _. P) (\<lambda>_ _. True) (\<lambda>_. True) s" for P s and c :: "unit io"
    by (auto simp: wp_def split: outcome.split)
  have "wp (from_lockfile_with_bundle_and_specs N prefix content specs dir True reinstall) (\<lambda>_ _. ?complete) (\<lambda>_ _. True) (\<lambda>_. True) s"
    unfolding from_lockfile_with_bundle_and_specs_def index_bundle_dir_def bindio_assoc
  proof (rule wp_bindio, rule wp_lift_result, goal_cases)
    case (1 x)
    obtain platform records where x: "x = (platform, records)" by fastforce
    show ?case
      unfolding x prod.case
    proof (rule wp_bindio_stays [OF look], goal_cases)
      case (1 names s')
      then have "s' = s" by simp
      show ?case
        unfolding \<open>s' = s\<close>
      proof (rule wp_bindio, rule wp_mono [OF wp_index_entries], goal_cases)
        case (1 index s')
        show ?case
        proof (rule wp_bindio, rule wp_mono [OF wp_match_records], goal_cases)
          case (1 m s'')
          obtain matched missing where m: "m = (matched, missing)" by fastforce
          show ?case
            unfolding m prod.case
          proof (rule wp_bindio, rule wp_ensure, goal_cases)
            case 1
            then have "matched_as N index s records (matched, [])" using \<open>s'' = s' \<and> _\<close> \<open>s' = s \<and> _\<close> m by simp
            then have ?complete
              using indexed [of platform records index matched] x \<open>lockfile_records_for_current_platform N content = Inr x\<close>
                \<open>s' = s \<and> _\<close> by blast
            then show ?case by (rule trivial)
          qed simp
        qed simp_all
      qed simp_all
    qed simp
  qed simp
  from wpD [OF this run] show ?thesis by simp
qed

section \<open>Instances\<close>

definition sample_record :: repodata_record where
  "sample_record = \<lparr>rr_package = \<lparr>pk_name = ''demo'', pk_version = ''1.0'', pk_build = ''0'', pk_build_number = 0,
       pk_subdir = ''noarch'', pk_depends = [], pk_md5 = None, pk_sha256 = Some [3], pk_size = None\<rparr>,
     rr_identifier = ''demo-1.0-0.conda'', rr_dist = ''demo-1.0-0'',
     rr_url = \<lparr>url_scheme = ''https'', url_username = [], url_password = None, url_query = None, url_fragment = None,
       url_segments = Some [''noarch'', ''demo-1.0-0.conda''], url_text = ''https://h/noarch/demo-1.0-0.conda''\<rparr>,
     rr_channel = None\<rparr>"

text \<open>A digest that adds the bytes up.\<close>

definition sample_install_ext :: install_ext where
  "sample_install_ext = \<lparr>in_sha256 = (\<lambda>b. [sum_list b]), in_platform = ''linux-64'',
     in_parse_lock = (\<lambda>_. Inr (Some \<lparr>le_platforms = [''linux-64''], le_records = (\<lambda>_. Inr (Some [sample_record]))\<rparr>)),
     in_parse_spec = Inr, in_installed = (\<lambda>_. ret []), in_cache_dir = Inr [''cache''], in_ensure_cache_dir = (\<lambda>_. ret ()),
     in_cache = (\<lambda>_ _ _. ret ()), in_client = Inr (), in_install = (\<lambda>_ _ _. ret None), in_read_dir = (\<lambda>_. ret [''demo-1.0-0.conda'']),
     in_tempdir = (\<lambda>name. ret [''tmp'', name]), in_tar_entries = (\<lambda>_. Inr []),
     in_unpack = (\<lambda>t p. write_file p (te_content t))\<rparr>"

definition sample_bundle_fs :: fs where
  "sample_bundle_fs = [[''b''] \<mapsto> Directory, [''b'', ''demo-1.0-0.conda''] \<mapsto> Regular [1, 2]]"

lemma sample_match:
  "match_records_to_bundle sample_install_ext [''demo-1.0-0.conda'' \<mapsto> [''b'', ''demo-1.0-0.conda'']] [sample_record]
     \<lparr>w_fs = sample_bundle_fs, w_schedule = []\<rparr>
   = (Ok ([\<lparr>bp_snapshot = [1, 2], bp_record = sample_record\<rparr>], []), \<lparr>w_fs = sample_bundle_fs, w_schedule = []\<rparr>)"
  by (simp add: sample_record_def sample_install_ext_def sample_bundle_fs_def archive_filename_def bindio_def read_file_def
      atomic_op_def next_event_def follow_def verify_bundle_package_def ok_or_def ret_def)

lemma bundle_archives_verified_witness:
  "pk_sha256 (rr_package sample_record) = Some (in_sha256 sample_install_ext [1, 2])"
  using bundle_archives_verified [OF sample_match] by simp

lemma cache_sees_only_verified_witness:
  "from_lockfile_with_bundle_and_specs (sample_install_ext\<lparr>in_cache := (\<lambda>_ b r.
       if pk_sha256 r = Some [sum_list b] then ret () else fail Io_Failed)\<rparr>) [''opt''] [] [] [''b''] True False
     = from_lockfile_with_bundle_and_specs sample_install_ext [''opt''] [] [] [''b''] True False"
  by (rule cache_sees_only_verified) (simp add: sample_install_ext_def)

lemma extraction_confined_witness:
  "let e = \<lparr>te_path = ''../x.conda'', te_kind = Regular_Entry, te_content = [1]\<rparr>;
       (r, w') = extract_entries sample_install_ext [''tmp''] [Inr e] \<lparr>w_fs = [[''tmp''] \<mapsto> Directory], w_schedule = []\<rparr>
   in w_fs w' [''x.conda''] = None \<and> r \<noteq> Ok ()"
proof -
  let ?e = "\<lparr>te_path = ''../x.conda'', te_kind = Regular_Entry, te_content = [1]\<rparr>"
  let ?m = "extract_entries sample_install_ext [''tmp''] [Inr ?e] \<lparr>w_fs = [[''tmp''] \<mapsto> Directory], w_schedule = []\<rparr>"
  have stays: "stays (in_unpack sample_install_ext t p) {p}" for t p
    unfolding sample_install_ext_def install_ext.simps write_file_def by (intro stays_intros) simp_all
  obtain r w' where run: "?m = (r, w')" by fastforce
  note safe = extraction_confined [OF stays run]
  from safe have "w_fs w' [''x.conda''] = None" by (auto simp: unchanged_outside_def)
  moreover from safe have "r \<noteq> Ok ()"
    by (auto simp: path_components_def components_def starts_with_def)
  ultimately show ?thesis unfolding Let_def run prod.case by blast
qed

lemma offline_bundle_complete_witness:
  "\<exists>b. sample_bundle_fs [''b'', ''demo-1.0-0.conda''] = Some (Regular b) \<and> sum_list b = 3"
proof -
  let ?m = "from_lockfile_with_bundle_and_specs sample_install_ext [''opt''] [] [] [''b''] True False"
  have look: "stays (in_read_dir sample_install_ext d) {}" for d by (simp add: sample_install_ext_def stays_intros)
  have lock: "lockfile_records_for_current_platform sample_install_ext [] = Inr (''linux-64'', [sample_record])"
    by (simp add: lockfile_records_for_current_platform_def sample_install_ext_def sample_record_def ok_or_def Let_def)
  have index: "index_bundle_dir sample_install_ext [''b''] \<lparr>w_fs = sample_bundle_fs, w_schedule = []\<rparr>
      = (Ok [''demo-1.0-0.conda'' \<mapsto> [''b'', ''demo-1.0-0.conda'']], \<lparr>w_fs = sample_bundle_fs, w_schedule = []\<rparr>)"
    by (simp add: index_bundle_dir_def sample_install_ext_def sample_bundle_fs_def bindio_def ret_def symlink_metadata_def
        atomic_op_def next_event_def node_kind_def validate_bundle_archive_name_def ends_with_def)
  have "?m \<lparr>w_fs = sample_bundle_fs, w_schedule = []\<rparr> = (Ok (), \<lparr>w_fs = sample_bundle_fs, w_schedule = []\<rparr>)"
    unfolding from_lockfile_with_bundle_and_specs_def
    by (simp add: lock bindio_Ok index sample_match ensure_def del: match_records_to_bundle.simps)
      (simp add: sample_install_ext_def run_install_def validate_post_link_script_result_def, simp add: ret_def)
  from offline_bundle_complete [OF look this] lock show ?thesis
    by (auto simp: archive_filename_def sample_record_def sample_install_ext_def)
qed

end
