(* ===== verification/Install_Contract.thy ===== *)
theory Install_Contract
  imports Install_Safety "HOL-Library.Multiset"
begin

text \<open>
  The bootstrap and the package installation put together: \<open>runtime_installer\<close> gives the bootstrap of
  \<open>Bootstrap\<close> the operations of \<open>Bundle_Install\<close> and \<open>Constructor_Metadata\<close>, and the contract the bootstrap relies on
  follows from laws about rattler alone (\<open>rattler_laws\<close>).
\<close>

definition runtime_installer ::
    "install_ext \<Rightarrow> codec_ext \<Rightarrow> metadata_ext \<Rightarrow> (path \<Rightarrow> unit io) \<Rightarrow> (path \<Rightarrow> unit io) \<Rightarrow> (string \<Rightarrow> bytes) \<Rightarrow> runtime_data \<Rightarrow> installer_ext" where
  "runtime_installer N X T remove_dir_all compile_python_bytecode render_message current =
     (let h = rd_header current; config = embedded_config h in
      \<lparr>ix_bundle = from_lockfile_with_bundle N config,
       ix_extract_embedded = extract_embedded_bundle N X remove_dir_all current,
       ix_remove_dir_all = remove_dir_all,
       ix_offline = from_lockfile_offline N config,
       ix_online = from_lockfile N config,
       ix_prefix_metadata = write_prefix_metadata N T h,
       ix_bytecode = compile_python_bytecode,
       ix_render_message = render_message\<rparr>)"

definition constructor_files :: "path \<Rightarrow> path set" where
  "constructor_files prefix =
     {prefix @ [''conda-meta'', ''history''], prefix @ [''conda-meta'', ''initial-state.explicit.txt''], prefix @ [''.installer.info'']}"

text \<open>
  What the installation takes from rattler: nothing but the runtime itself touches its metadata file; when the
  installer returns and no post-link script failed, the packages are there; and being installed does not depend on the
  files the runtime writes beside them. The unpacking of an archive entry writes its destination only.
\<close>

definition rattler_laws ::
    "install_ext \<Rightarrow> (path \<Rightarrow> unit io) \<Rightarrow> (path \<Rightarrow> unit io) \<Rightarrow> path \<Rightarrow> string \<Rightarrow> (fs \<Rightarrow> bool) \<Rightarrow> bool" where
  "rattler_laws N remove_dir_all bytecode prefix mf installed \<longleftrightarrow>
     (\<forall>config ps. leaves_metadata prefix mf (in_install N config prefix ps)
        \<and> (\<forall>s. wp (in_install N config prefix ps) (\<lambda>r s'. validate_post_link_script_result r = Inr () \<longrightarrow> installed s')
             (\<lambda>_ _. True) (\<lambda>_. True) s))
     \<and> leaves_metadata prefix mf (in_installed N prefix)
     \<and> (\<forall>d. leaves_metadata prefix mf (in_ensure_cache_dir N d))
     \<and> (\<forall>d b r. leaves_metadata prefix mf (in_cache N d b r))
     \<and> (\<forall>d. leaves_metadata prefix mf (in_read_dir N d))
     \<and> (\<forall>name. leaves_metadata prefix mf (in_tempdir N name))
     \<and> (\<forall>t p. stays (in_unpack N t p) {p})
     \<and> (\<forall>d. leaves_metadata prefix mf (remove_dir_all d) \<and> keeps_installed installed (remove_dir_all d))
     \<and> leaves_metadata prefix mf (bytecode prefix) \<and> keeps_installed installed (bytecode prefix)
     \<and> (\<forall>s s'. unchanged_outside (side_files prefix \<union> metadata_files prefix mf \<union> constructor_files prefix) s s' \<longrightarrow>
          installed s \<longrightarrow> installed s')"

section \<open>Frames\<close>

lemma wp_bindio_any:
  assumes "\<And>x s. wp (f x) Q (\<lambda>_ _. True) (\<lambda>_. True) s"
  shows "wp (bindio m f) Q (\<lambda>_ _. True) (\<lambda>_. True) s"
  by (rule wp_bindio, subst wp_def) (simp add: assms split: outcome.split)

lemma establishes_bindio: "(\<And>x. establishes P (f x)) \<Longrightarrow> establishes P (bindio m f)"
  unfolding establishes_def by (intro allI wp_bindio_any) blast

lemma establishes_fail: "establishes P (fail e)"
  by (simp add: establishes_def wp_fail)

lemma ends_withD: "ends_with p s \<Longrightarrow> \<exists>y. s = y @ p"
  by (metis append_take_drop_id ends_with_def)

text \<open>Package archives are never metadata files.\<close>

lemma archive_places_no_metadata:
  assumes "metadata_file_ok mf"
  shows "archive_places d \<inter> metadata_files prefix mf = {}"
proof -
  obtain x where mf: "mf = x @ ''.json''" using assms by (rule metadata_file_okE)
  have "name \<notin> {mf, name_stem mf @ ''.tmp'', name_stem mf @ ''.bak''}" if "validate_bundle_archive_name name = Inr ()" for name
  proof -
    from that obtain y where "name = y @ ''.conda'' \<or> name = y @ ''.tar.bz2''"
      by (auto simp: validate_bundle_archive_name_def split: if_splits dest!: ends_withD)
    then show ?thesis by (auto simp: mf dest: arg_cong [where f = last])
  qed
  then show ?thesis using assms by (auto simp: archive_places_def metadata_files_def metadata_paths)
qed

lemma stays_cache_packages: "(\<And>d b r. stays (in_cache N d b r) P) \<Longrightarrow> stays (cache_packages N d ps) P"
  by (induction ps) (auto intro: stays_intros)

lemma stays_match_records: "stays (match_records_to_bundle N index rs) P"
proof (induction rs)
  case (Cons r rs)
  then show ?case
    by (cases "index (archive_filename r)") (auto intro!: stays_intros split: prod.split)
qed (simp add: stays_intros)

lemma stays_index_bundle_dir:
  assumes "stays (in_read_dir N d) P"
  shows "stays (index_bundle_dir N d) P"
proof -
  have "stays (index_entries d names) P" for names
    by (induction names) (auto intro!: stays_intros)
  then show ?thesis unfolding index_bundle_dir_def by (intro stays_intros assms)
qed

lemma stays_extract_entries:
  assumes "\<And>t p. stays (in_unpack N t p) {p}"
  shows "stays (extract_entries N d es) (archive_places d)"
  unfolding stays_def by (auto intro: wp_mono [OF wp_extract_entries [OF assms]])

lemma stays_run_install: "stays (in_install N config prefix ps) P \<Longrightarrow> stays (run_install N config prefix ps) P"
  unfolding run_install_def by (intro stays_intros)

lemma stays_write_prefix_metadata_for:
  "stays (write_prefix_metadata_for N T prefix content specs command i) (side_files prefix \<union> constructor_files prefix)"
proof -
  have dirs: "take n prefix @ take (n - length prefix) [''conda-meta''] \<in> side_files prefix" if "n \<le> Suc (length prefix)" for n
  proof (cases "n = Suc (length prefix)")
    case False
    with that have "n \<le> length prefix" by simp
    then show ?thesis by (auto simp: side_files_def)
  qed (simp add: side_files_def)
  show ?thesis
    unfolding write_prefix_metadata_for_def
  proof (rule stays_bindio [OF stays_checks(2)], goal_cases)
    case (1 x)
    show ?case
      by (cases x) (auto simp: write_prefix_metadata_from_records_def write_installer_info_def write_file_def Let_def constructor_files_def
          intro!: stays_intros dirs)
  qed
qed

section \<open>The contract\<close>

text \<open>What follows from the laws about rattler, for the functions that \<open>runtime_installer\<close> and the fleet share.\<close>

lemma rattler_lawsD:
  assumes "rattler_laws N remove bytecode prefix mf installed"
  shows "stays (in_install N config prefix ps) (- metadata_files prefix mf)"
    and "wp (in_install N config prefix ps) (\<lambda>r s'. validate_post_link_script_result r = Inr () \<longrightarrow> installed s') (\<lambda>_ _. True) (\<lambda>_. True) s"
    and "stays (in_installed N prefix) (- metadata_files prefix mf)" "stays (in_ensure_cache_dir N d) (- metadata_files prefix mf)"
    and "stays (in_cache N d b r) (- metadata_files prefix mf)" "stays (in_read_dir N d) (- metadata_files prefix mf)"
    and "stays (in_tempdir N name) (- metadata_files prefix mf)" "stays (remove d) (- metadata_files prefix mf)"
    and "stays (bytecode prefix) (- metadata_files prefix mf)" "stays (in_unpack N t p) {p}"
    and "keeps_installed installed (remove d)" "keeps_installed installed (bytecode prefix)"
    and "unchanged_outside (side_files prefix \<union> metadata_files prefix mf \<union> constructor_files prefix) s s' \<Longrightarrow> installed s \<Longrightarrow> installed s'"
  using assms by (simp_all add: rattler_laws_def leaves_metadata_def)

text \<open>Where the installer and the package cache write bounds where the three installations write.\<close>

definition installer_confined :: "install_ext \<Rightarrow> path \<Rightarrow> path set \<Rightarrow> bool" where
  "installer_confined N prefix P \<longleftrightarrow>
     (\<forall>config ps. stays (in_install N config prefix ps) P) \<and> stays (in_installed N prefix) P
     \<and> (\<forall>d. stays (in_ensure_cache_dir N d) P) \<and> (\<forall>d b r. stays (in_cache N d b r) P) \<and> (\<forall>d. stays (in_read_dir N d) P)"

lemma stays_installations:
  assumes "installer_confined N prefix P"
  shows "stays (from_lockfile_with_bundle_and_specs N prefix content specs d off re) P"
    and "stays (from_lockfile_offline_with_specs N prefix content specs re) P"
    and "stays (from_lockfile_with_specs N prefix content specs re) P"
proof -
  from assms have ext: "stays (in_install N config prefix ps) P" "stays (in_installed N prefix) P"
    "stays (in_ensure_cache_dir N d) P" "stays (in_cache N d b r) P" "stays (in_read_dir N d) P" for config ps d b r
    by (simp_all add: installer_confined_def)
  note stay = stays_intros ext stays_run_install [OF ext(1)] stays_cache_packages [OF ext(4)] stays_match_records
    stays_index_bundle_dir [OF ext(5)]
  show "stays (from_lockfile_with_bundle_and_specs N prefix content specs d off re) P"
    unfolding from_lockfile_with_bundle_and_specs_def by (auto simp only: split: prod.split intro!: stay)
  show "stays (from_lockfile_offline_with_specs N prefix content specs re) P"
    unfolding from_lockfile_offline_with_specs_def by (auto simp only: split: prod.split intro!: stay)
  show "stays (from_lockfile_with_specs N prefix content specs re) P"
    unfolding from_lockfile_with_specs_def by (auto simp only: split: prod.split intro!: stay)
qed

lemma rattler_installs:
  assumes laws: "rattler_laws N remove bytecode prefix mf installed"
  shows "installer_confined N prefix (- metadata_files prefix mf)"
    and "establishes installed (from_lockfile_with_bundle_and_specs N prefix content specs d off re)"
    and "establishes installed (from_lockfile_offline_with_specs N prefix content specs re)"
    and "establishes installed (from_lockfile_with_specs N prefix content specs re)"
proof -
  note ext = rattler_lawsD [OF laws]
  show "installer_confined N prefix (- metadata_files prefix mf)" unfolding installer_confined_def using ext(1,3-6) by blast
  have run: "establishes installed (run_install N config prefix ps)" for config ps
    unfolding establishes_def run_install_def
    by (intro allI wp_bindio wp_mono [OF ext(2)] wp_lift_result) simp_all
  show "establishes installed (from_lockfile_with_bundle_and_specs N prefix content specs d off re)"
    unfolding from_lockfile_with_bundle_and_specs_def by (auto simp only: split: prod.split intro!: establishes_bindio run)
  show "establishes installed (from_lockfile_offline_with_specs N prefix content specs re)"
    unfolding from_lockfile_offline_with_specs_def by (auto simp only: split: prod.split intro!: establishes_bindio run)
  show "establishes installed (from_lockfile_with_specs N prefix content specs re)"
    unfolding from_lockfile_with_specs_def by (auto simp only: split: prod.split intro!: establishes_bindio run)
qed

lemma constructor_files_disjoint:
  assumes "metadata_file_ok mf"
  shows "constructor_files prefix \<inter> metadata_files prefix mf = {}"
  using assms
  by (auto simp: constructor_files_def metadata_files_def metadata_paths metadata_file_ok_def ends_with_def dest: arg_cong [where f = last])

lemma rattler_prefix_metadata:
  assumes laws: "rattler_laws N remove bytecode prefix mf installed" and mf: "metadata_file_ok mf" "marker_free mf"
    and slash: "CHR ''/'' \<notin> set (last prefix)"
  shows "stays (write_prefix_metadata_for N T prefix content specs command i) (- metadata_files prefix mf)"
    and "keeps_installed installed (write_prefix_metadata_for N T prefix content specs command i)"
proof -
  note stays = stays_write_prefix_metadata_for [of N T prefix content specs command i]
  show "stays (write_prefix_metadata_for N T prefix content specs command i) (- metadata_files prefix mf)"
    by (rule stays_mono [OF stays]) (use side_files_disjoint [OF mf slash] constructor_files_disjoint [OF mf(1)] in blast)
  show "keeps_installed installed (write_prefix_metadata_for N T prefix content specs command i)"
    unfolding keeps_installed_def
    by (auto intro!: stays_wp [OF stays] elim!: rattler_lawsD(13) [OF laws unchanged_outside_mono])
qed

lemma installer_contract_lemma:
  assumes laws: "rattler_laws N remove bytecode prefix mf installed" and mf: "metadata_file_ok mf" "marker_free mf"
    and slash: "CHR ''/'' \<notin> set (last prefix)"
  shows "installer_laws (runtime_installer N X T remove bytecode render current) prefix mf installed"
proof -
  let ?P = "- metadata_files prefix mf"
  note ext = rattler_lawsD [OF laws]
  have "stays (extract_entries N d es) ?P" for d es
    by (rule stays_mono [OF stays_extract_entries [OF ext(10)]]) (use archive_places_no_metadata [OF mf(1)] in blast)
  then have extracted: "stays (extract_embedded_bundle N X remove current) ?P"
    unfolding extract_embedded_bundle_def by (intro stays_intros ext(1-12))
  have frame': "unchanged_outside (side_files prefix \<union> metadata_files prefix mf) s s' \<Longrightarrow> installed s \<Longrightarrow> installed s'" for s s'
    by (rule ext(13), erule unchanged_outside_mono, rule Un_upper1)
  show ?thesis
    unfolding installer_laws_def runtime_installer_def Let_def leaves_metadata_def installer_ext.simps
      from_lockfile_with_bundle_def from_lockfile_offline_def from_lockfile_def write_prefix_metadata_def
    by (intro conjI allI impI)
      (rule stays_installations [OF rattler_installs(1) [OF laws]] rattler_installs(2-4) [OF laws] rattler_prefix_metadata [OF laws mf slash] extracted ext(1-12) | erule (1) frame')+
qed


section \<open>Offline\<close>

lemma other_client [simp]:
  "lockfile_records_for_current_platform (N\<lparr>in_client := c, in_install := i\<rparr>) content = lockfile_records_for_current_platform N content"
  "index_bundle_dir (N\<lparr>in_client := c, in_install := i\<rparr>) dir = index_bundle_dir N dir"
  "match_records_to_bundle (N\<lparr>in_client := c, in_install := i\<rparr>) index rs = match_records_to_bundle N index rs"
  "parse_specs (N\<lparr>in_client := c, in_install := i\<rparr>) specs = parse_specs N specs"
  "cache_packages (N\<lparr>in_client := c, in_install := i\<rparr>) d ps = cache_packages N d ps"
  "extract_embedded_bundle (N\<lparr>in_client := c, in_install := i\<rparr>) X remove current = extract_embedded_bundle N X remove current"
proof -
  show "match_records_to_bundle (N\<lparr>in_client := c, in_install := i\<rparr>) index rs = match_records_to_bundle N index rs"
  proof (induction rs)
    case (Cons r rs)
    have "verify_bundle_package (N\<lparr>in_client := c, in_install := i\<rparr>) r b = verify_bundle_package N r b" for b
      by (simp add: verify_bundle_package_def)
    with Cons show ?case by (simp cong: option.case_cong)
  qed simp
  show "parse_specs (N\<lparr>in_client := c, in_install := i\<rparr>) specs = parse_specs N specs" by (induction specs) simp_all
  show "cache_packages (N\<lparr>in_client := c, in_install := i\<rparr>) d ps = cache_packages N d ps" by (induction ps) simp_all
  have "extract_entries (N\<lparr>in_client := c, in_install := i\<rparr>) d es = extract_entries N d es" for d es
    by (induction es) (simp_all add: extract_entry_def)
  then show "extract_embedded_bundle (N\<lparr>in_client := c, in_install := i\<rparr>) X remove current = extract_embedded_bundle N X remove current"
    by (simp add: extract_embedded_bundle_def cong: option.case_cong)
qed (simp_all add: lockfile_records_for_current_platform_def index_bundle_dir_def)

lemma offline_runs_agree:
  assumes "\<And>config p ps. \<not> ic_online config \<Longrightarrow> i config p ps = in_install N config p ps"
  shows "from_lockfile_with_bundle (N\<lparr>in_client := c, in_install := i\<rparr>) cfg prefix content d True re
       = from_lockfile_with_bundle N cfg prefix content d True re"
    and "from_lockfile_offline (N\<lparr>in_client := c, in_install := i\<rparr>) cfg prefix content re = from_lockfile_offline N cfg prefix content re"
  by (simp_all add: from_lockfile_with_bundle_def from_lockfile_with_bundle_and_specs_def from_lockfile_offline_def
      from_lockfile_offline_with_specs_def run_install_def assms)

lemma extract_returns_directory:
  assumes "rd_bundle current \<noteq> None" "extract_embedded_bundle N X remove current w = (Ok x, w')"
  shows "x \<noteq> None"
proof -
  have handled: "wp (case r of Inr _ \<Rightarrow> ret (Some d) | Inl e \<Rightarrow> bindio k (\<lambda>_. fail e)) (\<lambda>x _. x \<noteq> None) (\<lambda>_ _. True) (\<lambda>_. True) s"
    for r :: "unit result" and k :: "unit result io" and d :: path and s
    by (cases r) (auto intro!: wp_ret wp_bindio_any wp_fail)
  obtain e where e: "rd_bundle current = Some e" using assms(1) by auto
  have "wp (extract_embedded_bundle N X remove current) (\<lambda>x _. x \<noteq> None) (\<lambda>_ _. True) (\<lambda>_. True) (w_fs w)"
    unfolding extract_embedded_bundle_def e option.case
    by (intro wp_bindio_any handled)
  from wpD [OF this] assms(2) show ?thesis by (cases w) fastforce
qed

text \<open>C34. Offline means offline: if the user asked for it, or the packages come from the bundle embedded in the executable,
  the installation does not depend on the network: it neither builds a download client nor runs the installer with
  one, so that replacing both by anything else changes nothing.\<close>

theorem offline_stays_offline:
  assumes agree: "\<And>config p ps. \<not> ic_online config \<Longrightarrow> install' config p ps = in_install N config p ps"
    and how: "offline \<or> bundle_dir = None \<and> rd_bundle current \<noteq> None"
  shows "install_packages (runtime_installer (N\<lparr>in_client := client', in_install := install'\<rparr>) X T remove_dir_all bytecode render_message current)
       prefix content bundle_dir offline reinstall
     = install_packages (runtime_installer N X T remove_dir_all bytecode render_message current) prefix content bundle_dir offline reinstall"
proof -
  note agree' = offline_runs_agree [where i = install', OF agree]
  show ?thesis
  proof (cases bundle_dir)
    case (Some d)
    with how show ?thesis by (simp add: install_packages_def runtime_installer_def Let_def agree')
  next
    case None
    show ?thesis
      unfolding None install_packages_def runtime_installer_def Let_def option.case installer_ext.simps other_client
    proof (rule bindio_cong_result, goal_cases)
      case (1 x w w')
      show ?case
      proof (cases x)
        case None
        with extract_returns_directory [of current, OF _ 1] how \<open>bundle_dir = None\<close> have offline by blast
        then show ?thesis by (simp add: None agree')
      qed (simp add: agree')
    qed
  qed
qed

section \<open>Instances\<close>

definition sample_rattler :: install_ext where
  "sample_rattler = sample_install_ext\<lparr>in_install := (\<lambda>_ _ _. bindio sample_install (\<lambda>_. ret None))\<rparr>"

definition sample_clock :: metadata_ext where
  "sample_clock = \<lparr>cm_timestamp = ''2026-01-01 00:00:00'', cm_json_specs = (\<lambda>_. Inr ''[]''), cm_json_info = (\<lambda>_ _. Inr ''{}'')\<rparr>"

definition sample_current :: runtime_data where
  "sample_current = \<lparr>rd_header = sample_header, rd_bundle = None, rd_stamped = True\<rparr>"

lemma sample_rattler_laws:
  assumes "metadata_file_ok mf"
  shows "rattler_laws (sample_rattler\<lparr>in_read_dir := \<lambda>_. ret names\<rparr>) (\<lambda>_. ret ()) (\<lambda>_. ret ()) [''opt''] mf sample_installed"
proof -
  let ?N = "sample_rattler\<lparr>in_read_dir := \<lambda>_. ret names\<rparr>"
  have away: "[''opt'', ''bin'', ''conda''] \<notin> metadata_files [''opt''] mf"
    by (simp add: metadata_files_def metadata_paths [OF assms])
  then have install: "leaves_metadata [''opt''] mf (in_install ?N config p ps)"
    "wp (in_install ?N config p ps) (\<lambda>r s'. validate_post_link_script_result r = Inr () \<longrightarrow> sample_installed s')
             (\<lambda>_ _. True) (\<lambda>_. True) s" for config p ps s
    unfolding leaves_metadata_def stays_def sample_install_def
    by (auto intro!: wp_atomic_op wp_bindio wp_ret simp: sample_rattler_def sample_install_def sample_installed_def)
  have unpack: "stays (in_unpack ?N t p) {p}" for t p
    unfolding sample_rattler_def sample_install_ext_def install_ext.simps write_file_def by (intro stays_intros) simp_all
  have "bootstrap_lock_path [''opt''] = Inr [''.opt.conda-ship.lock'']"
    by (simp add: bootstrap_lock_path_def parent_def file_name_def plain_component_def)
  with away have "[''opt'', ''bin'', ''conda''] \<notin> side_files [''opt''] \<union> metadata_files [''opt''] mf \<union> constructor_files [''opt'']"
    by (auto simp: side_files_def state_files_def constructor_files_def dest: arg_cong [where f = length])
  then show ?thesis
    unfolding rattler_laws_def using install unpack
    by (simp add: sample_rattler_def sample_install_ext_def leaves_metadata_def stays_intros)
      (auto simp: sample_installed_def unchanged_outside_def)
qed


lemma offline_stays_offline_witness:
  "install_packages (runtime_installer (sample_rattler\<lparr>in_client := Inl Io_Failed, in_install := (\<lambda>config p ps.
       if ic_online config then fail Io_Failed else in_install sample_rattler config p ps)\<rparr>) sample_codec sample_clock
       (\<lambda>_. ret ()) (\<lambda>_. ret ()) (\<lambda>_. []) sample_current) [''opt''] [] None True False
   = install_packages (runtime_installer sample_rattler sample_codec sample_clock (\<lambda>_. ret ()) (\<lambda>_. ret ()) (\<lambda>_. []) sample_current)
       [''opt''] [] None True False"
  by (rule offline_stays_offline) simp_all

section \<open>The explicit list\<close>

lemma split_on_lines: "\<forall>l \<in> set ls. c \<notin> set l \<Longrightarrow> split_on c (concat (map (\<lambda>l. l @ [c]) ls)) = ls @ [[]]"
  by (induction ls) (simp_all add: split_on_append)

lemma hex_no_newline: "newline \<notin> set (hex b)"
  using set_hex [of b] by (auto simp: hex_digits_def newline_def)

text \<open>The explicit list of a prefix is complete: read line by line, the file holds after its four header lines one line for
  each installed record, its URL with the recorded digest, in sorted order and nothing else.\<close>

theorem explicit_list_complete:
  assumes "newline \<notin> set platform" and "\<forall>r \<in> set records. newline \<notin> set (url_text (rr_url r))"
  shows "\<exists>urls. drop 3 (split_on newline (render_initial_state_explicit platform records)) = ''@EXPLICIT'' # urls @ [[]]
     \<and> mset urls = image_mset explicit_url (mset records) \<and> sorted urls"
proof (intro exI conjI)
  have "newline \<notin> set (explicit_url r)" if "r \<in> set records" for r
    using assms(2) that by (auto simp: explicit_url_def hex_no_newline [unfolded newline_def] newline_def dest!: set_takeWhileD split: option.splits)
  then have "\<forall>l \<in> set (sort (map explicit_url records)). newline \<notin> set l" by simp
  note lines = split_on_lines [OF this]
  show "drop 3 (split_on newline (render_initial_state_explicit platform records)) = ''@EXPLICIT'' # sort (map explicit_url records) @ [[]]"
    using assms(1) lines by (simp add: render_initial_state_explicit_def newline_def split_on_append)
qed simp_all

lemma explicit_list_complete_witness:
  "\<exists>urls. drop 3 (split_on newline (render_initial_state_explicit ''linux-64'' [sample_record])) = ''@EXPLICIT'' # urls @ [[]]
     \<and> urls = [explicit_url sample_record]"
  using explicit_list_complete [of "''linux-64''" "[sample_record]"]
  by (auto simp: newline_def sample_record_def)

end
