(* ===== verification/Fleet.thy ===== *)
theory Fleet
  imports Install_Contract
begin

text \<open>
  Several runtimes side by side (\<open>src/fleet.rs\<close>): their validated identifiers, the installation of one
  into its directory below the install root, listing, looking up, removing, and the plan of a shim.
  \<open>fleet_ext\<close> holds what the file takes from elsewhere: the parsers, the installer, the host's
  directories. The TLS provider is a global of a library and has no counterpart.
\<close>

section \<open>Data\<close>

record runtime_spec =
  sp_id :: string
  sp_version :: string
  sp_delegate_executable :: string
  sp_lock_content :: string
  sp_requested_specs :: "string list"
  sp_condarc :: "string option"
  sp_freeze_base :: bool
  sp_installer :: "string option"

record install_options =
  opt_force :: bool
  opt_offline :: bool
  opt_bundle_dir :: "path option"

record installed_runtime =
  ir_id :: string
  ir_version :: string
  ir_prefix :: path
  ir_delegate_executable :: string
  ir_channels :: "string list"
  ir_lock_sha256 :: "string option"
  ir_requested_specs :: "string list"

record runtime_command =
  cmd_executable :: path
  cmd_path_entries :: "path list"

record shim_plan =
  shim_name :: string
  shim_target_command :: string
  shim_destination :: path_buf
  shim_command :: runtime_command

text \<open>
  \<open>fl_channels\<close> is the lockfile parser asked for the channels of the default environment, \<open>fl_condarc\<close>
  the YAML parser asked whether the document is a mapping, \<open>fl_interrupted k p\<close> the entries an interrupted
  \<open>remove_dir_all\<close> got to.
\<close>

record fleet_ext =
  fl_windows :: bool
  fl_json :: json_ext
  fl_state :: state_ext
  fl_install :: install_ext
  fl_clock :: metadata_ext
  fl_render_message :: "string \<Rightarrow> bytes"
  fl_bytecode :: "path \<Rightarrow> unit io"
  fl_channels :: "string \<Rightarrow> string list option result"
  fl_condarc :: "string \<Rightarrow> bool result"
  fl_home :: "path option"
  fl_current_dir :: path
  fl_interrupted :: "nat \<Rightarrow> path \<Rightarrow> path set"

section \<open>Names\<close>

definition safe_name_char :: "char \<Rightarrow> bool" where
  "safe_name_char c = (is_ascii_alphanumeric c \<or> c \<in> {CHR ''-'', CHR ''_'', CHR ''.''})"

definition validate_safe_name :: "string \<Rightarrow> string \<Rightarrow> unit result" where
  "validate_safe_name s kind =
     (case s of
        [] \<Rightarrow> Inl (Invalid (kind @ '' must not be empty''))
      | first # chars \<Rightarrow>
          if \<not> is_ascii_alphanumeric first then Inl (Invalid (kind @ '' must start with an ASCII letter or digit''))
          else if \<not> list_all safe_name_char chars
          then Inl (Invalid (kind @ '' may only contain ASCII letters, digits, dots, dashes and underscores''))
          else if s = ''.'' \<or> s = ''..'' then Inl (Invalid (kind @ '' must not be a dot name''))
          else Inr ())"

definition validate_runtime_id :: "string \<Rightarrow> unit result" where
  "validate_runtime_id rid = validate_safe_name rid ''runtime id''"

definition validate_command_name :: "string \<Rightarrow> unit result" where
  "validate_command_name name = validate_safe_name name ''command name''"

definition validate_shim_name :: "string \<Rightarrow> unit result" where
  "validate_shim_name name = validate_safe_name name ''shim name''"

definition fleet_metadata_file_for :: "string \<Rightarrow> string" where
  "fleet_metadata_file_for rid = ''.'' @ rid @ ''.json''"

definition managed_identity :: "string \<Rightarrow> managed_prefix_identity" where
  "managed_identity rid =
     \<lparr>pi_display_name = rid, pi_install_name = rid, pi_metadata_file = fleet_metadata_file_for rid, pi_expected_delegate = None\<rparr>"

definition fleet_prefix_for :: "path \<Rightarrow> string \<Rightarrow> path result" where
  "fleet_prefix_for install_root rid = rbind (validate_runtime_id rid) (\<lambda>_. Inr (join install_root rid))"

definition fleet_frozen_message :: "string \<Rightarrow> string" where
  "fleet_frozen_message rid = ''This base environment is managed by Fleet runtime '' @ rid @ ''.'' @ [newline]
     @ ''Create a new environment instead: conda create -n myenv'' @ [newline]
     @ ''To reinstall: use the fleet caller that installed this runtime'' @ [newline]
     @ ''To override: pass --override-frozen''"

section \<open>Specifications\<close>

definition validate_condarc :: "fleet_ext \<Rightarrow> string \<Rightarrow> unit result" where
  "validate_condarc F contents =
     rbind (fl_condarc F contents) (\<lambda>is_mapping.
     if \<not> is_mapping then Inl (Invalid ''RuntimeSpec condarc must be a YAML mapping'') else Inr ())"

definition spec_validate :: "fleet_ext \<Rightarrow> runtime_spec \<Rightarrow> unit result" where
  "spec_validate F spec =
     rbind (validate_runtime_id (sp_id spec)) (\<lambda>_.
     rbind (validate_command_name (sp_delegate_executable spec)) (\<lambda>_.
     if all_whitespace (sp_version spec) then Inl (Invalid ''runtime version must not be empty'')
     else if all_whitespace (sp_lock_content spec) then Inl (Invalid ''runtime lock_content must not be empty'')
     else
       rbind (lockfile_records_for_current_platform (fl_install F) (sp_lock_content spec)) (\<lambda>_.
       rbind (parse_specs (fl_install F) (sp_requested_specs spec)) (\<lambda>_.
       rbind (case sp_condarc spec of Some contents \<Rightarrow> validate_condarc F contents | None \<Rightarrow> Inr ()) (\<lambda>_.
       if (case sp_installer spec of Some installer \<Rightarrow> all_whitespace installer | None \<Rightarrow> False)
       then Inl (Invalid ''installer type must not be empty'') else Inr ())))))"

definition spec_of_header :: "runtime_header \<Rightarrow> runtime_spec" where
  "spec_of_header h =
     \<lparr>sp_id = h_runtime_name h, sp_version = h_runtime_version h, sp_delegate_executable = h_delegate_executable h,
      sp_lock_content = h_runtime_lock h, sp_requested_specs = rc_packages (h_runtime_config h),
      sp_condarc = rc_condarc (h_runtime_config h), sp_freeze_base = rc_freeze_base (h_runtime_config h),
      sp_installer = h_installer h\<rparr>"

text \<open>\<open>read_artifact\<close> is \<open>runtime_data::read_from_path\<close>.\<close>

definition from_stamped_artifact :: "fleet_ext \<Rightarrow> (path \<Rightarrow> runtime_data option io) \<Rightarrow> path \<Rightarrow> runtime_spec io" where
  "from_stamped_artifact F read_artifact p =
     bindio (read_artifact p) (\<lambda>data.
     bindio (lift_result (ok_or ''artifact is not stamped with conda-ship runtime data'' data)) (\<lambda>data.
     let spec = spec_of_header (rd_header data) in
     bindio (map_err ''invalid runtime spec in stamped artifact'' (lift_result (spec_validate F spec))) (\<lambda>_.
     ret spec)))"

definition lock_sha256 :: "fleet_ext \<Rightarrow> string \<Rightarrow> string" where
  "lock_sha256 F lock_content = hex (in_sha256 (fl_install F) (bytes_of_string lock_content))"

definition channels_from_lock_content :: "fleet_ext \<Rightarrow> string \<Rightarrow> string list result" where
  "channels_from_lock_content F lock_content =
     rbind (fl_channels F lock_content) (\<lambda>env. ok_or ''lockfile has no default environment'' env)"

definition validate_bundle_options :: "path option \<Rightarrow> unit io" where
  "validate_bundle_options bundle =
     (case bundle of None \<Rightarrow> ret ()
      | Some p \<Rightarrow> bindio (path_is_dir p) (\<lambda>d. ensure d ''bundle path is not a directory''))"

section \<open>Managed files\<close>

definition managed_policy_output_paths :: "path \<Rightarrow> path list" where
  "managed_policy_output_paths prefix =
     [prefix @ [''.condarc''], prefix @ [''conda-meta'', ''frozen''], prefix @ [''.installer.info'']]"

definition validate_managed_policy_output :: "path \<Rightarrow> unit io" where
  "validate_managed_policy_output p =
     bindio (tryio (symlink_metadata p)) (\<lambda>r. case r of
       Inr kind \<Rightarrow> ensure (kind = Is_File) ''refusing to replace Fleet-managed output that is not a regular file''
     | Inl e \<Rightarrow> if e = Not_Found then ret () else fail e)"

definition remove_managed_policy_output :: "path \<Rightarrow> unit io" where
  "remove_managed_policy_output p =
     bindio (validate_managed_policy_output p) (\<lambda>_.
     bindio (tryio (symlink_metadata p)) (\<lambda>r. case r of
       Inr kind \<Rightarrow> if kind \<noteq> Is_File then fail (Invalid ''refusing to replace Fleet-managed output that is not a regular file'')
                   else remove_file p
     | Inl e \<Rightarrow> if e = Not_Found then ret () else fail e))"

fun each_path :: "(path \<Rightarrow> unit io) \<Rightarrow> path list \<Rightarrow> unit io" where
  "each_path f [] = ret ()"
| "each_path f (p # ps) = bindio (f p) (\<lambda>_. each_path f ps)"

definition validate_managed_policy_outputs :: "path \<Rightarrow> unit io" where
  "validate_managed_policy_outputs prefix = each_path validate_managed_policy_output (managed_policy_output_paths prefix)"

definition reset_managed_policy_outputs :: "path \<Rightarrow> unit io" where
  "reset_managed_policy_outputs prefix = each_path remove_managed_policy_output (managed_policy_output_paths prefix)"

definition write_spec_policy :: "fleet_ext \<Rightarrow> path \<Rightarrow> runtime_spec \<Rightarrow> unit io" where
  "write_spec_policy F prefix spec =
     bindio (case sp_condarc spec of Some contents \<Rightarrow> write_condarc prefix contents | None \<Rightarrow> ret ()) (\<lambda>_.
     if sp_freeze_base spec then write_frozen_with_message (fl_render_message F) prefix (fleet_frozen_message (sp_id spec))
     else ret ())"

section \<open>Installing\<close>

definition runtime_from_metadata :: "path \<Rightarrow> prefix_metadata \<Rightarrow> installed_runtime result" where
  "runtime_from_metadata prefix meta =
     rbind (ok_or ''fleet runtime metadata has no explicit delegate executable'' (pm_delegate_executable meta)) (\<lambda>delegate.
     Inr \<lparr>ir_id = pm_install_name meta, ir_version = pm_version meta, ir_prefix = prefix, ir_delegate_executable = delegate,
          ir_channels = pm_channels meta, ir_lock_sha256 = pm_lock_sha256 meta, ir_requested_specs = pm_packages meta\<rparr>)"

definition read_installed_runtime :: "fleet_ext \<Rightarrow> path \<Rightarrow> string \<Rightarrow> installed_runtime io" where
  "read_installed_runtime F prefix rid =
     bindio (read_managed_metadata_for (fl_json F) prefix (managed_identity rid)) (\<lambda>meta.
     bindio (lift_result (ok_or ''refusing fleet prefix without an explicit delegate'' (pm_delegate_executable meta))) (\<lambda>delegate.
     bindio (validate_delegate (fl_windows F) prefix delegate) (\<lambda>_.
     lift_result (runtime_from_metadata prefix meta))))"

definition install_spec_packages :: "fleet_ext \<Rightarrow> path \<Rightarrow> runtime_spec \<Rightarrow> install_options \<Rightarrow> bool \<Rightarrow> unit io" where
  "install_spec_packages F prefix spec options reinstall =
     (case opt_bundle_dir options of
        Some bundle_dir \<Rightarrow> from_lockfile_with_bundle_and_specs (fl_install F) prefix (sp_lock_content spec)
          (sp_requested_specs spec) bundle_dir (opt_offline options) reinstall
      | None \<Rightarrow>
          if opt_offline options
          then from_lockfile_offline_with_specs (fl_install F) prefix (sp_lock_content spec) (sp_requested_specs spec) reinstall
          else from_lockfile_with_specs (fl_install F) prefix (sp_lock_content spec) (sp_requested_specs spec) reinstall)"

definition spec_metadata_identity :: "fleet_ext \<Rightarrow> runtime_spec \<Rightarrow> metadata_identity" where
  "spec_metadata_identity F spec =
     \<lparr>mi_display_name = sp_id spec, mi_install_name = sp_id spec, mi_metadata_file = fleet_metadata_file_for (sp_id spec),
      mi_version = sp_version spec, mi_delegate_executable = Some (sp_delegate_executable spec),
      mi_lock_sha256 = Some (lock_sha256 F (sp_lock_content spec)), mi_update = None\<rparr>"

text \<open>The part of the installation that writes, from the marker to its removal.\<close>

definition populate_prefix ::
    "fleet_ext \<Rightarrow> path \<Rightarrow> runtime_spec \<Rightarrow> install_options \<Rightarrow> string list \<Rightarrow> bool \<Rightarrow> unit io" where
  "populate_prefix F prefix spec options channels reinstall =
     bindio (validate_managed_policy_outputs prefix) (\<lambda>_.
     bindio (write_installing_for (fl_state F) prefix (bootstrap_identity_of (managed_identity (sp_id spec)))) (\<lambda>_.
     bindio (invalidate_metadata_for prefix (fleet_metadata_file_for (sp_id spec))) (\<lambda>_.
     bindio (reset_managed_policy_outputs prefix) (\<lambda>_.
     bindio (install_spec_packages F prefix spec options reinstall) (\<lambda>_.
     bindio (reset_managed_policy_outputs prefix) (\<lambda>_.
     bindio (write_prefix_metadata_for (fl_install F) (fl_clock F) prefix (sp_lock_content spec) (sp_requested_specs spec)
       (sp_delegate_executable spec)
       (map_option (\<lambda>installer_type. \<lparr>im_name = sp_id spec, im_version = sp_version spec, im_installer_type = installer_type\<rparr>)
          (sp_installer spec))) (\<lambda>_.
     bindio (write_spec_policy F prefix spec) (\<lambda>_.
     bindio (tryio (fl_bytecode F prefix)) (\<lambda>_.
     bindio (validate_delegate (fl_windows F) prefix (sp_delegate_executable spec)) (\<lambda>_.
     bindio (write_metadata_for_identity (fl_json F) prefix (spec_metadata_identity F spec) channels (sp_requested_specs spec)) (\<lambda>_.
     remove_state prefix)))))))))))"

definition fleet_install :: "fleet_ext \<Rightarrow> path \<Rightarrow> runtime_spec \<Rightarrow> install_options \<Rightarrow> installed_runtime io" where
  "fleet_install F install_root spec options =
     bindio (lift_result (spec_validate F spec)) (\<lambda>_.
     bindio (validate_bundle_options (opt_bundle_dir options)) (\<lambda>_.
     bindio (lift_result (channels_from_lock_content F (sp_lock_content spec))) (\<lambda>channels.
     bindio (lift_result (fleet_prefix_for install_root (sp_id spec))) (\<lambda>prefix.
     bindio (create_dir_all install_root) (\<lambda>_.
     bindio (acquire_lock prefix) (\<lambda>_.
     bindio (prefix_disposition_for (fl_windows F) (fl_json F) (fl_state F) prefix (managed_identity (sp_id spec)) (\<not> opt_force options)) (\<lambda>disposition.
     if disposition = Prefix_Ready \<and> \<not> opt_force options then read_installed_runtime F prefix (sp_id spec)
     else
       bindio (populate_prefix F prefix spec options channels
         (case disposition of Prefix_Ready \<Rightarrow> True | Prefix_Bootstrap reinstall \<Rightarrow> reinstall)) (\<lambda>_.
       read_installed_runtime F prefix (sp_id spec)))))))))"

section \<open>Listing and looking up\<close>

definition fleet_get :: "fleet_ext \<Rightarrow> path \<Rightarrow> string \<Rightarrow> installed_runtime option io" where
  "fleet_get F install_root rid =
     bindio (lift_result (validate_runtime_id rid)) (\<lambda>_.
     bindio (lift_result (fleet_prefix_for install_root rid)) (\<lambda>prefix.
     bindio (acquire_lock prefix) (\<lambda>_.
     bindio (validate_prefix_path prefix) (\<lambda>_.
     bindio (tryio (symlink_metadata (metadata_path_for prefix (fleet_metadata_file_for rid)))) (\<lambda>r. case r of
       Inr _ \<Rightarrow> bindio (read_installed_runtime F prefix rid) (\<lambda>runtime. ret (Some runtime))
     | Inl e \<Rightarrow> if e = Not_Found then ret None else fail e)))))"

fun collect_runtimes :: "fleet_ext \<Rightarrow> path \<Rightarrow> string list \<Rightarrow> installed_runtime list io" where
  "collect_runtimes F install_root [] = ret []"
| "collect_runtimes F install_root (name # names) =
     bindio (path_is_dir (install_root @ [name])) (\<lambda>is_dir.
     if \<not> is_dir \<or> \<not> is_ok (validate_runtime_id name) then collect_runtimes F install_root names
     else
       bindio (tryio (fleet_get F install_root name)) (\<lambda>found.
       bindio (collect_runtimes F install_root names) (\<lambda>runtimes.
       ret (case found of Inr (Some runtime) \<Rightarrow> runtime # runtimes | _ \<Rightarrow> runtimes))))"

definition fleet_list :: "fleet_ext \<Rightarrow> path \<Rightarrow> installed_runtime list io" where
  "fleet_list F install_root =
     bindio (path_is_dir install_root) (\<lambda>is_dir.
     if \<not> is_dir then ret []
     else
       bindio (in_read_dir (fl_install F) install_root) (\<lambda>names.
       bindio (collect_runtimes F install_root names) (\<lambda>runtimes.
       ret (sort_key ir_id runtimes))))"

section \<open>Removing\<close>

definition tree_below :: "path \<Rightarrow> path set" where
  "tree_below p = {q. take (length p) q = p}"

definition drop_paths :: "path set \<Rightarrow> fs \<Rightarrow> fs" where
  "drop_paths P s = (\<lambda>q. if q \<in> P then None else s q)"

text \<open>\<open>std::fs::remove_dir_all\<close>: a fault stops it after some of the entries below the directory.\<close>

definition remove_dir_all :: "(nat \<Rightarrow> path \<Rightarrow> path set) \<Rightarrow> path \<Rightarrow> unit io" where
  "remove_dir_all interrupted p = (\<lambda>w.
     let (e, w') = next_event w; s = w_fs w;
         partial = (\<lambda>k. if s p = Some Directory then drop_paths (interrupted k p \<inter> tree_below p) s else s) in
     case e of
       Go \<Rightarrow> (case s p of
           None \<Rightarrow> (Err Not_Found, w')
         | Some (Regular _) \<Rightarrow> (Err Io_Failed, w')
         | Some (Symlink _) \<Rightarrow> (Ok (), w'\<lparr>w_fs := s(p := None)\<rparr>)
         | Some Directory \<Rightarrow> (Ok (), w'\<lparr>w_fs := drop_paths (tree_below p) s\<rparr>))
     | Fail k \<Rightarrow> (Err Io_Failed, w'\<lparr>w_fs := partial k\<rparr>)
     | Halt k \<Rightarrow> (Crash, w'\<lparr>w_fs := partial k\<rparr>))"

definition reject_dangerous_prefix :: "fleet_ext \<Rightarrow> path \<Rightarrow> unit io" where
  "reject_dangerous_prefix F prefix =
     bindio (tryio (symlink_metadata prefix)) (\<lambda>kind.
     bindio (ensure (kind \<noteq> Inr Is_Symlink) ''refusing to remove symbolic-link install path'') (\<lambda>_.
     bindio (tryio (canonicalize prefix)) (\<lambda>c.
     let canon = (case c of Inr p \<Rightarrow> p | Inl _ \<Rightarrow> prefix) in
     ensure (\<not> (parent canon = None \<or> canon = [] \<or> fl_home F = Some canon \<or> canon = fl_current_dir F))
       ''refusing to remove dangerous path'')))"

text \<open>The variant of Unix; on Windows a failure is followed by clearing read-only attributes, which the model does not have.\<close>

definition remove_install_path :: "fleet_ext \<Rightarrow> path \<Rightarrow> unit io" where
  "remove_install_path F prefix = remove_dir_all (fl_interrupted F) prefix"

definition fleet_remove :: "fleet_ext \<Rightarrow> path \<Rightarrow> string \<Rightarrow> unit io" where
  "fleet_remove F install_root rid =
     bindio (lift_result (validate_runtime_id rid)) (\<lambda>_.
     bindio (lift_result (fleet_prefix_for install_root rid)) (\<lambda>prefix.
     bindio (tryio (symlink_metadata prefix)) (\<lambda>r. case r of
       Inl e \<Rightarrow> if e = Not_Found then ret () else fail e
     | Inr _ \<Rightarrow>
         bindio (acquire_lock prefix) (\<lambda>_.
         bindio (reject_dangerous_prefix F prefix) (\<lambda>_.
         bindio (read_state (fl_state F) prefix) (\<lambda>state.
         bindio (case state of
             Some state \<Rightarrow> lift_result (validate_identity_for state (bootstrap_identity_of (managed_identity rid)))
           | None \<Rightarrow> bindio (is_empty_dir prefix) (\<lambda>e.
               if e then ret ()
               else bindio (read_managed_metadata_for (fl_json F) prefix (managed_identity rid)) (\<lambda>_. ret ()))) (\<lambda>_.
         remove_install_path F prefix)))))))"

section \<open>Commands and shims\<close>

definition runtime_executable_path :: "fleet_ext \<Rightarrow> installed_runtime \<Rightarrow> string \<Rightarrow> path io" where
  "runtime_executable_path F runtime command_name = executable_in_prefix (fl_windows F) (ir_prefix runtime) command_name"

definition runtime_path_entries :: "fleet_ext \<Rightarrow> installed_runtime \<Rightarrow> path list" where
  "runtime_path_entries F runtime = prefix_path_entries (fl_windows F) (ir_prefix runtime)"

definition runtime_command_for :: "fleet_ext \<Rightarrow> installed_runtime \<Rightarrow> string \<Rightarrow> runtime_command io" where
  "runtime_command_for F runtime command_name =
     bindio (lift_result (validate_command_name command_name)) (\<lambda>_.
     bindio (runtime_executable_path F runtime command_name) (\<lambda>executable.
     bindio (path_exists executable) (\<lambda>present.
     bindio (ensure present ''executable not found'') (\<lambda>_.
     ret \<lparr>cmd_executable = executable, cmd_path_entries = runtime_path_entries F runtime\<rparr>))))"

definition shim_plan_for ::
    "fleet_ext \<Rightarrow> installed_runtime \<Rightarrow> string \<Rightarrow> string \<Rightarrow> path_buf option \<Rightarrow> shim_plan io" where
  "shim_plan_for F runtime command_name name shim_dir =
     bindio (lift_result (validate_command_name command_name)) (\<lambda>_.
     bindio (lift_result (validate_shim_name name)) (\<lambda>_.
     bindio (runtime_command_for F runtime command_name) (\<lambda>command.
     ret \<lparr>shim_name = name, shim_target_command = command_name,
          shim_destination = (case shim_dir of Some (absolute, d) \<Rightarrow> (absolute, join d name) | None \<Rightarrow> (False, components name)),
          shim_command = command\<rparr>)))"

section \<open>Names and places\<close>

lemma safe_name_facts:
  assumes "validate_safe_name s kind = Inr ()"
  shows "s \<noteq> []" "is_ascii_alphanumeric (hd s)" "list_all safe_name_char s"
  using assms by (auto simp: validate_safe_name_def safe_name_char_def split: list.splits if_splits)

lemma safe_name_no_separator:
  assumes "list_all safe_name_char s"
  shows "CHR ''/'' \<notin> set s" "CHR 0x5C \<notin> set s"
  using assms by (auto simp: list_all_iff safe_name_char_def ascii_class_defs)

lemma safe_name_plain: "validate_safe_name s kind = Inr () \<Longrightarrow> plain_component s"
  using safe_name_facts [of s kind] safe_name_no_separator [of s]
  by (auto simp: plain_component_def ascii_class_defs)

interpretation runtime_id: component_validator "\<lambda>s. validate_runtime_id s = Inr ()"
  by unfold_locales (simp add: validate_runtime_id_def safe_name_plain)

interpretation command_name: component_validator "\<lambda>s. validate_command_name s = Inr ()"
  by unfold_locales (simp add: validate_command_name_def safe_name_plain)

interpretation shim_name: component_validator "\<lambda>s. validate_shim_name s = Inr ()"
  by unfold_locales (simp add: validate_shim_name_def safe_name_plain)

lemma validated_id:
  assumes "validate_runtime_id rid = Inr ()"
  shows "fleet_prefix_for root rid = Inr (root @ [rid])" "CHR ''/'' \<notin> set rid" "hd rid \<noteq> CHR ''.''" "rid \<noteq> []" "rid \<noteq> ''..''"
proof -
  from assms have v: "validate_safe_name rid ''runtime id'' = Inr ()" by (simp add: validate_runtime_id_def)
  show "CHR ''/'' \<notin> set rid" "hd rid \<noteq> CHR ''.''" "rid \<noteq> []" "rid \<noteq> ''..''"
    using safe_name_facts [OF v] safe_name_no_separator(1) by (auto simp: ascii_class_defs)
  show "fleet_prefix_for root rid = Inr (root @ [rid])"
    using runtime_id.valid_plain [OF assms] assms by (simp add: fleet_prefix_for_def)
qed

lemma fleet_metadata_file_ok:
  assumes "validate_runtime_id rid = Inr ()"
  shows "metadata_file_ok (fleet_metadata_file_for rid)"
proof -
  have "validate_safe_name rid ''runtime id'' = Inr ()" using assms by (simp add: validate_runtime_id_def)
  from safe_name_facts(3) [OF this] have "CHR ''/'' \<notin> set rid" "CHR 0x5C \<notin> set rid" by (rule safe_name_no_separator)+
  then have "plain_component (fleet_metadata_file_for rid)" by (auto simp: plain_component_def fleet_metadata_file_for_def)
  moreover have "fleet_metadata_file_for rid = (''.'' @ rid) @ ''.json''" by (simp add: fleet_metadata_file_for_def)
  ultimately show ?thesis unfolding metadata_file_ok_def by (metis ends_with_append)
qed

text \<open>Two names are taken: their metadata files collide with the bootstrap marker.\<close>

lemma fleet_marker_free:
  assumes "rid \<noteq> ''conda-ship-bootstrap''" "rid \<noteq> ''conda-ship-bootstrap.json''"
  shows "marker_free (fleet_metadata_file_for rid)"
proof -
  have eq: "fleet_metadata_file_for rid = (CHR ''.'' # rid) @ ''.'' @ ''json''" by (simp add: fleet_metadata_file_for_def)
  have "name_stem (fleet_metadata_file_for rid) = CHR ''.'' # rid" unfolding eq by (rule name_stem_dot) simp_all
  moreover have "rid @ ''.json'' \<noteq> ''conda-ship-bootstrap.json''"
  proof
    assume "rid @ ''.json'' = ''conda-ship-bootstrap.json''"
    also have "\<dots> = ''conda-ship-bootstrap'' @ ''.json''" by simp
    finally show False using assms(1) by (simp only: append_same_eq)
  qed
  ultimately show ?thesis
    using assms by (simp add: marker_free_def BOOTSTRAP_STATE_FILE_def fleet_metadata_file_for_def)
qed

lemma fleet_id_takes_marker_file:
  "validate_runtime_id ''conda-ship-bootstrap'' = Inr () \<and> fleet_metadata_file_for ''conda-ship-bootstrap'' = BOOTSTRAP_STATE_FILE"
  by (simp add: validate_runtime_id_def validate_safe_name_def safe_name_char_def ascii_class_defs fleet_metadata_file_for_def BOOTSTRAP_STATE_FILE_def)

definition fleet_lock :: "path \<Rightarrow> string \<Rightarrow> path" where
  "fleet_lock root rid = root @ [''.'' @ rid @ ''.conda-ship.lock'']"

text \<open>What belongs to a runtime, and what its operations may touch: that, and the directories on the way.\<close>

definition runtime_area :: "path \<Rightarrow> string \<Rightarrow> path set" where
  "runtime_area root rid = insert (fleet_lock root rid) (tree_below (root @ [rid]))"

definition root_dirs :: "path \<Rightarrow> path set" where
  "root_dirs root = {take n root | n. n \<le> length root}"

lemma tree_belowI: "(p @ q) \<in> tree_below p"
  by (simp add: tree_below_def)

lemma fleet_lock_path:
  assumes "validate_runtime_id rid = Inr ()"
  shows "bootstrap_lock_path (root @ [rid]) = Inr (fleet_lock root rid)"
proof -
  have slash: "CHR ''/'' \<notin> set rid" and ne: "rid \<noteq> ''..''" using validated_id [OF assms] by simp_all
  have "bootstrap_lock_path (root @ [rid]) = Inr (join root (''.'' @ rid @ ''.conda-ship.lock''))"
    using ne by (simp add: bootstrap_lock_path_def parent_def file_name_def)
  with bootstrap_lock_beside(1) [OF this] slash show ?thesis by (simp add: fleet_lock_def)
qed

lemma runtime_places:
  assumes "validate_runtime_id rid = Inr ()"
  shows "side_files (root @ [rid]) \<subseteq> runtime_area root rid \<union> root_dirs root"
    and "metadata_files (root @ [rid]) (fleet_metadata_file_for rid) \<subseteq> tree_below (root @ [rid])"
    and "constructor_files (root @ [rid]) \<subseteq> tree_below (root @ [rid])"
    and "managed_policy_output_paths (root @ [rid]) = map (\<lambda>q. root @ rid # q) [[''.condarc''], [''conda-meta'', ''frozen''], [''.installer.info'']]"
proof -
  have "take n (root @ [rid]) \<in> tree_below (root @ [rid]) \<union> root_dirs root" if "n \<le> Suc (length root)" for n
  proof (cases "n \<le> length root")
    case True
    then show ?thesis by (auto simp: root_dirs_def)
  next
    case False
    with that have "n = Suc (length root)" by simp
    then show ?thesis by (simp add: tree_below_def)
  qed
  then show "side_files (root @ [rid]) \<subseteq> runtime_area root rid \<union> root_dirs root"
    by (auto simp: side_files_def state_files_def runtime_area_def fleet_lock_path [OF assms]) (auto simp: tree_below_def)
  show "metadata_files (root @ [rid]) (fleet_metadata_file_for rid) \<subseteq> tree_below (root @ [rid])"
    by (auto simp: metadata_files_def metadata_paths [OF fleet_metadata_file_ok [OF assms]] tree_below_def)
  show "constructor_files (root @ [rid]) \<subseteq> tree_below (root @ [rid])"
    by (auto simp: constructor_files_def tree_below_def)
qed (simp add: managed_policy_output_paths_def)

lemma runtime_areas_apart:
  assumes "validate_runtime_id a = Inr ()" "validate_runtime_id b = Inr ()" "a \<noteq> b"
  shows "(runtime_area root a \<union> root_dirs root) \<inter> runtime_area root b = {}"
proof -
  have other: "take (Suc (length root)) q = root @ [b] \<Longrightarrow> take (Suc (length root)) q \<noteq> root @ [a]" for q
    using assms(3) by simp
  have locks: "fleet_lock root x \<notin> tree_below (root @ [y])" if "validate_runtime_id y = Inr ()" for x y
    using validated_id(3,4) [OF that] by (cases y) (auto simp: fleet_lock_def tree_below_def)
  have dirs: "root_dirs root \<inter> runtime_area root b = {}"
    by (auto simp: runtime_area_def root_dirs_def fleet_lock_def tree_below_def dest: arg_cong [where f = length])
  have "fleet_lock root a \<noteq> fleet_lock root b" using assms(3) by (simp add: fleet_lock_def)
  then have "runtime_area root a \<inter> runtime_area root b = {}"
    using locks [OF assms(1), of b] locks [OF assms(2), of a]
    by (auto simp: runtime_area_def tree_below_def dest!: other)
  with dirs show ?thesis by blast
qed

section \<open>What the operations touch\<close>

lemma stays_managed_outputs [stays_intros]:
  "stays (validate_managed_policy_outputs prefix) P"
  "set (managed_policy_output_paths prefix) \<subseteq> P \<Longrightarrow> stays (reset_managed_policy_outputs prefix) P"
proof -
  have validate: "stays (validate_managed_policy_output p) P" for p
    unfolding validate_managed_policy_output_def by (intro stays_intros)
  have each: "(\<And>p. p \<in> set ps \<Longrightarrow> stays (f p) P) \<Longrightarrow> stays (each_path f ps) P" for f ps
    by (induction ps) (simp_all add: stays_intros)
  show "stays (validate_managed_policy_outputs prefix) P"
    unfolding validate_managed_policy_outputs_def by (intro each validate)
  have "stays (remove_managed_policy_output p) P" if "p \<in> P" for p
    unfolding remove_managed_policy_output_def using that by (intro stays_intros validate)
  then show "set (managed_policy_output_paths prefix) \<subseteq> P \<Longrightarrow> stays (reset_managed_policy_outputs prefix) P"
    unfolding reset_managed_policy_outputs_def by (intro each) auto
qed

lemma stays_write_spec_policy: "stays (write_spec_policy F prefix spec) (side_files prefix)"
proof -
  have dirs: "take n prefix \<in> side_files prefix" if "n \<le> length prefix" for n
    using that by (auto simp: side_files_def)
  have deeper: "take n (prefix @ [''conda-meta'']) \<in> side_files prefix" if "n \<le> Suc (length prefix)" for n
    using that dirs [of n] by (cases "n = Suc (length prefix)") (simp_all add: side_files_def)
  have files: "prefix @ [''.condarc''] \<in> side_files prefix" "prefix @ [''conda-meta'', ''frozen''] \<in> side_files prefix"
    by (simp_all add: side_files_def)
  show ?thesis
    unfolding write_spec_policy_def write_condarc_def write_frozen_with_message_def write_file_def
    by (intro stays_intros dirs deeper files) auto
qed

lemma stays_read_installed:
  "stays (read_installed_runtime F prefix rid) (metadata_files prefix (fleet_metadata_file_for rid))"
  unfolding read_installed_runtime_def
  using stays_managed(1) [of "fl_json F" prefix "managed_identity rid"] by (intro stays_intros) (simp add: managed_identity_def)

lemma stays_remove_dir_all [stays_intros]: "tree_below p \<subseteq> P \<Longrightarrow> stays (remove_dir_all interrupted p) P"
proof -
  assume P: "tree_below p \<subseteq> P"
  then have p: "p \<in> P" using tree_belowI [of p "[]"] by auto
  have drop: "unchanged_outside P s (drop_paths Q s)" if "Q \<subseteq> tree_below p" for Q s
    using that P by (auto simp: unchanged_outside_def drop_paths_def)
  show ?thesis
    unfolding stays_def wp_def
  proof (intro allI impI)
    fix s schedule r w' assume run: "remove_dir_all interrupted p \<lparr>w_fs = s, w_schedule = schedule\<rparr> = (r, w')"
    obtain e w1 where n: "next_event \<lparr>w_fs = s, w_schedule = schedule\<rparr> = (e, w1)" by fastforce
    then have w1: "w_fs w1 = s" by (auto simp: next_event_def split: list.splits)
    have "unchanged_outside P s (drop_paths (interrupted k p \<inter> tree_below p) s)" for k by (rule drop) simp
    with w1 run n p drop [of "tree_below p" s] have "unchanged_outside P s (w_fs w')"
      by (cases e) (auto simp: remove_dir_all_def split: option.splits node.splits if_splits)
    then show "case r of Ok x \<Rightarrow> unchanged_outside P s (w_fs w') | Err e \<Rightarrow> unchanged_outside P s (w_fs w')
        | Crash \<Rightarrow> unchanged_outside P s (w_fs w')" by (cases r) simp_all
  qed
qed

lemma stays_canonicalize [stays_intros]: "stays (canonicalize p) P"
  unfolding stays_def canonicalize_def by (auto intro!: wp_atomic_op split: if_splits)

text \<open>Installing, looking up and removing one runtime stay in its area, provided the package installer does.\<close>

lemma stays_fleet:
  assumes rid: "validate_runtime_id rid = Inr ()" and P: "runtime_area root rid \<union> root_dirs root \<subseteq> P"
  shows "sp_id spec = rid \<Longrightarrow> installer_confined (fl_install F) (root @ [rid]) P \<Longrightarrow> stays (fl_bytecode F (root @ [rid])) P \<Longrightarrow>
      stays (fleet_install F root spec options) P"
    and "stays (fleet_get F root rid) P" and "stays (fleet_remove F root rid) P"
proof -
  let ?prefix = "root @ [rid]" and ?mf = "fleet_metadata_file_for rid"
  note places = runtime_places [OF rid, of root]
  have side: "side_files ?prefix \<subseteq> P" and meta: "metadata_files ?prefix ?mf \<subseteq> P" and cons: "constructor_files ?prefix \<subseteq> P"
      and tree: "tree_below ?prefix \<subseteq> P"
    using places P by (auto simp: runtime_area_def)
  have managed: "set (managed_policy_output_paths ?prefix) \<subseteq> P"
    using tree by (auto simp: managed_policy_output_paths_def tree_below_def)
  have dirs: "n \<le> length root \<Longrightarrow> take n root \<in> P" for n using P by (auto simp: root_dirs_def)
  have slash: "CHR ''/'' \<notin> set (last ?prefix)" using validated_id(2) [OF rid] by simp
  have mf: "pi_metadata_file (managed_identity rid) = ?mf" by (simp add: managed_identity_def)
  have lock: "stays (acquire_lock ?prefix) P" by (rule stays_mono [OF stays_acquire_lock [OF slash] side])
  have read: "stays (read_installed_runtime F ?prefix rid) P" by (rule stays_mono [OF stays_read_installed meta])
  have steps: "stays (write_installing_for B ?prefix i) P" "stays (remove_state ?prefix) P"
      "stays (write_spec_policy F ?prefix spec) P" "stays (invalidate_metadata_for ?prefix ?mf) P"
      "stays (read_managed_metadata_for (fl_json F) ?prefix (managed_identity rid)) P" for B i spec
    using stays_mono [OF stays_setup(1) side] stays_mono [OF stays_setup(3) side] stays_mono [OF stays_write_spec_policy side]
      stays_mono [OF stays_metadata(3) meta] stays_mono [OF stays_managed(1) [of "fl_json F" ?prefix "managed_identity rid", unfolded mf] meta]
    by blast+
  have disposition: "stays (prefix_disposition_for windows J B ?prefix (managed_identity rid) healthy) P" for windows J B healthy
    by (rule stays_mono [OF stays_disposition]) (use side meta mf in simp)
  have written: "stays (write_prefix_metadata_for N T ?prefix c ps cmd i) P" for N T c ps cmd i
    by (rule stays_mono [OF stays_write_prefix_metadata_for]) (use side cons in blast)
  have identity: "stays (write_metadata_for_identity J ?prefix (spec_metadata_identity F spec) ch ps) P" if "sp_id spec = rid" for J spec ch ps
    unfolding write_metadata_for_identity_def
    by (rule stays_mono [OF stays_metadata(1)]) (use meta that in \<open>simp add: spec_metadata_identity_def\<close>)
  note stay = stays_intros lock read steps disposition written managed
  show "stays (fleet_get F root rid) P"
    unfolding fleet_get_def validated_id(1) [OF rid] lift_result_simps bindio_ret rid by (intro stay)
  have danger: "stays (reject_dangerous_prefix F ?prefix) P"
    unfolding reject_dangerous_prefix_def Let_def by (intro stay)
  show "stays (fleet_remove F root rid) P"
    unfolding fleet_remove_def validated_id(1) [OF rid] lift_result_simps bindio_ret rid remove_install_path_def
    by (intro stay danger tree)
  assume spec: "sp_id spec = rid" and N: "installer_confined (fl_install F) ?prefix P" "stays (fl_bytecode F ?prefix) P"
  have packages: "stays (install_spec_packages F ?prefix spec options re) P" for re
    unfolding install_spec_packages_def by (intro stay stays_installations [OF N(1)])
  have "stays (populate_prefix F ?prefix spec options channels re) P" for channels re
    unfolding populate_prefix_def by (intro stay packages N(2) identity spec) (use steps(4) spec in simp)
  then show "stays (fleet_install F root spec options) P"
    unfolding fleet_install_def validate_bundle_options_def spec validated_id(1) [OF rid] lift_result_simps bindio_ret
    by (intro stay dirs) auto
qed

section \<open>Ready means installed\<close>

lemma wp_read_installed:
  "wp (read_installed_runtime F prefix rid)
     (\<lambda>x t. ir_id x = rid \<and> ir_prefix x = prefix \<and> unchanged_outside (metadata_files prefix (fleet_metadata_file_for rid)) s t)
     (\<lambda>_ t. unchanged_outside (metadata_files prefix (fleet_metadata_file_for rid)) s t)
     (\<lambda>t. unchanged_outside (metadata_files prefix (fleet_metadata_file_for rid)) s t) s"
proof -
  have valid: "validate_metadata_ready_for m d n f = Inr () \<Longrightarrow> pm_install_name m = n" for m d n f
    by (auto simp: validate_metadata_ready_for_def validate_metadata_identity_for_def success_simps split: if_splits)
  have managed: "wp (read_managed_metadata_for J prefix i) (\<lambda>m _. pm_install_name m = pi_install_name i) (\<lambda>_ _. True) (\<lambda>_. True) t" for J i t
    unfolding read_managed_metadata_for_def
    by (rule wp_bindio_any, rule wp_bindio_any, rule wp_bindio_any)
      (auto intro!: wp_bindio wp_map_err wp_lift_result wp_ret dest: valid)
  have "wp (read_installed_runtime F prefix rid) (\<lambda>x _. ir_id x = rid \<and> ir_prefix x = prefix) (\<lambda>_ _. True) (\<lambda>_. True) s"
    unfolding read_installed_runtime_def
    by (rule wp_bindio, rule wp_mono [OF managed])
      (auto simp: managed_identity_def runtime_from_metadata_def success_simps intro!: wp_bindio_any wp_lift_result)
  from wp_conj [OF this stays_read_installed [unfolded stays_def, rule_format]] show ?thesis by (auto elim!: wp_mono)
qed

lemma wp_installed_packages:
  assumes laws: "rattler_laws (fl_install F) remove bytecode prefix mf installed" and s: "no_metadata prefix mf s"
  shows "wp (install_spec_packages F prefix spec options reinstall)
    (\<lambda>_ t. installed t \<and> no_metadata prefix mf t) (\<lambda>_. no_metadata prefix mf) (no_metadata prefix mf) s"
proof -
  note installs = rattler_installs [OF laws]
  have "stays (install_spec_packages F prefix spec options reinstall) (- metadata_files prefix mf)"
    unfolding install_spec_packages_def by (intro stays_intros stays_installations [OF installs(1)])
  then have leaves: "leaves_metadata prefix mf (install_spec_packages F prefix spec options reinstall)"
    by (simp add: leaves_metadata_def)
  have "establishes installed (install_spec_packages F prefix spec options reinstall)"
    using installs(2-4) by (simp add: install_spec_packages_def split: option.split)
  from wp_conj [OF this [unfolded establishes_def, rule_format] wp_leaves_metadata [OF leaves s]]
  show ?thesis by (auto elim!: wp_mono)
qed

lemma wp_populate:
  assumes laws: "rattler_laws (fl_install F) remove (fl_bytecode F) prefix (fleet_metadata_file_for (sp_id spec)) installed"
    and mf: "metadata_file_ok (fleet_metadata_file_for (sp_id spec))" "marker_free (fleet_metadata_file_for (sp_id spec))"
    and slash: "CHR ''/'' \<notin> set (last prefix)"
    and s: "bootstrap_inv prefix (fleet_metadata_file_for (sp_id spec)) installed s"
  shows "wp (populate_prefix F prefix spec options channels reinstall) (\<lambda>_. installed)
    (\<lambda>_. bootstrap_inv prefix (fleet_metadata_file_for (sp_id spec)) installed)
    (bootstrap_inv prefix (fleet_metadata_file_for (sp_id spec)) installed) s"
proof -
  let ?mf = "fleet_metadata_file_for (sp_id spec)"
  let ?N = "no_metadata prefix ?mf" and ?Inv = "bootstrap_inv prefix ?mf installed"
  let ?Full = "\<lambda>t. installed t \<and> no_metadata prefix ?mf t"
  note I = installer_contract_lemma [OF laws mf slash]
  have NInv: "?N t \<Longrightarrow> ?Inv t" "installed t \<Longrightarrow> ?Inv t" for t by (simp_all add: bootstrap_inv_def)
  have frame: "installed t \<Longrightarrow> unchanged_outside Q t t' \<Longrightarrow> Q \<subseteq> side_files prefix \<union> metadata_files prefix ?mf \<union> constructor_files prefix \<Longrightarrow> installed t'"
    for t t' Q using rattler_lawsD(13) [OF laws unchanged_outside_mono] by blast
  have quiet: "?N t \<Longrightarrow> ?N t'" "?Inv t \<Longrightarrow> ?Inv t'"
    if "unchanged_outside (side_files prefix \<union> constructor_files prefix) t t'" for t t'
    using no_metadata_outside [OF _ that] side_files_disjoint [OF mf slash] constructor_files_disjoint [OF mf(1)] frame [OF _ that]
    unfolding bootstrap_inv_def by blast+
  have managed: "set (managed_policy_output_paths prefix) \<subseteq> side_files prefix \<union> constructor_files prefix"
    by (auto simp: managed_policy_output_paths_def side_files_def constructor_files_def)
  note reset = stays_managed_outputs(2) [OF managed]
  have step: "wp (bindio m f) (\<lambda>_. installed) (\<lambda>_. ?Inv) ?Inv t"
    if "stays m (side_files prefix \<union> constructor_files prefix) \<or> keeps_installed installed m \<and> leaves_metadata prefix ?mf m"
      "?Full t" "\<And>x t'. ?Full t' \<Longrightarrow> wp (f x) (\<lambda>_. installed) (\<lambda>_. ?Inv) ?Inv t'" for m :: "unit io" and f t
  proof -
    have "wp m (\<lambda>_. ?Full) (\<lambda>_. ?Full) ?N t" using that(1)
    proof
      assume "stays m (side_files prefix \<union> constructor_files prefix)"
      then show ?thesis by (rule stays_wp) (use that(2) quiet(1) frame in blast)+
    next
      assume "keeps_installed installed m \<and> leaves_metadata prefix ?mf m"
      with that(2) have "wp m (\<lambda>_. ?Full) (\<lambda>_. ?Full) (\<lambda>t. True \<and> ?N t) t"
        by (intro wp_conj wp_leaves_metadata) (auto simp: keeps_installed_def)
      then show ?thesis by (auto elim!: wp_mono)
    qed
    then show ?thesis by (intro wp_bindio) (auto elim!: wp_mono intro: that(3) NInv)
  qed
  have finish: "wp (bindio (write_metadata_for_identity J prefix (spec_metadata_identity F spec) ch ps) (\<lambda>_. remove_state prefix))
      (\<lambda>_. installed) (\<lambda>_. ?Inv) ?Inv t" if "?Full t" for J ch ps t
  proof (rule wp_bindio_stays [where P = "metadata_files prefix ?mf"])
    show "stays (write_metadata_for_identity J prefix (spec_metadata_identity F spec) ch ps) (metadata_files prefix ?mf)"
      using stays_metadata(1) by (simp add: write_metadata_for_identity_def spec_metadata_identity_def)
  next
    fix x t' assume t': "unchanged_outside (metadata_files prefix ?mf) t t'"
    show "wp (remove_state prefix) (\<lambda>_. installed) (\<lambda>_. ?Inv) ?Inv t'"
      by (rule stays_wp [OF stays_setup(3)]) (use that frame [OF frame [OF _ t']] NInv in blast)+
  next
    fix t' assume "unchanged_outside (metadata_files prefix ?mf) t t'"
    with that frame NInv show "(\<forall>e. ?Inv t') \<and> ?Inv t'" by blast
  qed
  have delegate: "wp (bindio (validate_delegate win prefix d) f) (\<lambda>_. installed) (\<lambda>_. ?Inv) ?Inv t"
    if "?Full t" "\<And>x t'. ?Full t' \<Longrightarrow> wp (f x) (\<lambda>_. installed) (\<lambda>_. ?Inv) ?Inv t'" for win d f t
    using that by (auto intro!: wp_bindio wp_validate_delegate NInv)
  have bytecode: "wp (bindio (tryio (fl_bytecode F prefix)) f) (\<lambda>_. installed) (\<lambda>_. ?Inv) ?Inv t"
    if "?Full t" "\<And>x t'. ?Full t' \<Longrightarrow> wp (f x) (\<lambda>_. installed) (\<lambda>_. ?Inv) ?Inv t'" for f t
  proof -
    have "wp (fl_bytecode F prefix) (\<lambda>_. ?Full) (\<lambda>_. ?Full) (\<lambda>t. True \<and> ?N t) t"
      using rattler_lawsD(9,12) [OF laws] that(1)
      by (intro wp_conj wp_leaves_metadata) (auto simp: keeps_installed_def leaves_metadata_def)
    then show ?thesis by (auto intro!: wp_bindio wp_tryio elim!: wp_mono intro: that(2) NInv)
  qed
  have written: "keeps_installed installed (write_prefix_metadata_for N T prefix c ps cmd i) \<and> leaves_metadata prefix ?mf (write_prefix_metadata_for N T prefix c ps cmd i)"
    if "N = fl_install F" for N T c ps cmd i
    using rattler_prefix_metadata [OF laws mf slash] that by (simp add: leaves_metadata_def)
  have policy: "stays (write_spec_policy F prefix spec) (side_files prefix \<union> constructor_files prefix)"
    "stays (write_installing_for B prefix i) (side_files prefix \<union> constructor_files prefix)" for B i
    by (rule stays_mono [OF stays_write_spec_policy] stays_mono [OF stays_setup(1)], blast)+
  show ?thesis
    unfolding populate_prefix_def
  proof (rule wp_bindio_stays [OF stays_managed_outputs(1) [where P = "{}"]], rule wp_bindio_stays [OF policy(2)], goal_cases)
    case (1 x s1 y s2)
    then have s2: "?Inv s2" using quiet(2) s by simp
    show ?case
    proof (rule wp_bindio, rule wp_mono [OF wp_invalidate [OF I s2]], goal_cases)
      case (1 z s3)
      show ?case
      proof (rule wp_bindio_stays [OF reset], rule wp_bindio, rule wp_mono [OF wp_installed_packages [OF laws]], goal_cases)
        case (2 x t y t')
        then show ?case
          by (intro step [OF disjI1 [OF reset]] step [OF disjI2 [OF written [OF refl]]] step [OF disjI1 [OF policy(1)]] bytecode delegate finish)
      qed (use 1 quiet NInv in blast)+
    qed
  qed (use s quiet NInv in auto)
qed

lemma wp_fleet_install:
  assumes laws: "rattler_laws (fl_install F) remove (fl_bytecode F) (root @ [rid]) (fleet_metadata_file_for rid) installed"
    and rid: "sp_id spec = rid" "rid \<noteq> ''conda-ship-bootstrap''" "rid \<noteq> ''conda-ship-bootstrap.json''"
    and s: "bootstrap_inv (root @ [rid]) (fleet_metadata_file_for rid) installed s"
  shows "wp (fleet_install F root spec options) (\<lambda>x t. installed t \<and> ir_id x = rid \<and> ir_prefix x = root @ [rid])
    (\<lambda>_. bootstrap_inv (root @ [rid]) (fleet_metadata_file_for rid) installed)
    (bootstrap_inv (root @ [rid]) (fleet_metadata_file_for rid) installed) s"
proof (cases "validate_runtime_id rid = Inr ()")
  case False
  then obtain e where "validate_runtime_id rid = Inl e" by (cases "validate_runtime_id rid") auto
  then show ?thesis using s rid(1) by (simp add: fleet_install_def spec_validate_def wp_fail)
next
  case True
  let ?prefix = "root @ [rid]" and ?mf = "fleet_metadata_file_for rid"
  let ?Inv = "bootstrap_inv ?prefix ?mf installed"
  note mf = fleet_metadata_file_ok [OF True] fleet_marker_free [OF rid(2,3)]
  have slash: "CHR ''/'' \<notin> set (last ?prefix)" using validated_id(2) [OF True] by simp
  have id: "pi_metadata_file (managed_identity rid) = ?mf" by (simp add: managed_identity_def)
  have frame: "installed t \<Longrightarrow> unchanged_outside Q t t' \<Longrightarrow> Q \<subseteq> side_files ?prefix \<union> metadata_files ?prefix ?mf \<union> constructor_files ?prefix \<Longrightarrow> installed t'"
    for t t' Q using rattler_lawsD(13) [OF laws unchanged_outside_mono] by blast
  have side: "?Inv t'" if "?Inv t" "unchanged_outside (side_files ?prefix) t t'" for t t'
    using that no_metadata_outside [OF _ that(2) side_files_disjoint [OF mf slash]] frame [OF _ that(2)] unfolding bootstrap_inv_def by blast
  have read: "wp (read_installed_runtime F ?prefix rid) (\<lambda>x t. installed t \<and> ir_id x = rid \<and> ir_prefix x = ?prefix) (\<lambda>_. ?Inv) ?Inv t"
    if "installed t" for t
    by (rule wp_mono [OF wp_read_installed]) (use that frame in \<open>auto simp: bootstrap_inv_def\<close>)
  have populate: "wp (bindio (populate_prefix F ?prefix spec options channels re) (\<lambda>_. read_installed_runtime F ?prefix rid))
      (\<lambda>x t. installed t \<and> ir_id x = rid \<and> ir_prefix x = ?prefix) (\<lambda>_. ?Inv) ?Inv t" if "?Inv t" for channels re t
    using wp_populate [of F remove ?prefix spec installed t options channels re, unfolded rid(1), OF laws mf slash that]
    by (auto intro!: wp_bindio read elim!: wp_mono)
  have root: "stays (create_dir_all root) (side_files ?prefix)"
  proof (intro stays_intros)
    fix n assume "n \<le> length root"
    then have "take n root = take n ?prefix" "n \<le> length ?prefix" by simp_all
    then show "take n root \<in> side_files ?prefix" unfolding side_files_def by blast
  qed
  have checked: "stays (validate_bundle_options b) {}" for b
    unfolding validate_bundle_options_def by (intro stays_intros)
  have main: "wp (bindio (prefix_disposition_for (fl_windows F) (fl_json F) (fl_state F) ?prefix (managed_identity rid) (\<not> opt_force options)) (\<lambda>disposition.
       if disposition = Prefix_Ready \<and> \<not> opt_force options then read_installed_runtime F ?prefix rid
       else bindio (populate_prefix F ?prefix spec options channels
         (case disposition of Prefix_Ready \<Rightarrow> True | Prefix_Bootstrap reinstall \<Rightarrow> reinstall)) (\<lambda>_. read_installed_runtime F ?prefix rid)))
      (\<lambda>x t. installed t \<and> ir_id x = rid \<and> ir_prefix x = ?prefix) (\<lambda>_. ?Inv) ?Inv t" if "?Inv t" for channels t
    by (rule wp_bindio, rule wp_mono [OF wp_disposition [where identity = "managed_identity rid", unfolded id, OF installer_contract_lemma [OF laws mf slash] that]])
      (auto intro: read populate)
  have locked: "wp (bindio (create_dir_all root) (\<lambda>_. bindio (acquire_lock ?prefix) (\<lambda>_. k)))
      (\<lambda>x t. installed t \<and> ir_id x = rid \<and> ir_prefix x = ?prefix) (\<lambda>_. ?Inv) ?Inv s"
    if "\<And>t. ?Inv t \<Longrightarrow> wp k (\<lambda>x t. installed t \<and> ir_id x = rid \<and> ir_prefix x = ?prefix) (\<lambda>_. ?Inv) ?Inv t" for k :: "installed_runtime io"
    by (rule wp_bindio_stays [OF root], rule wp_bindio_stays [OF stays_acquire_lock [OF slash]])
      (use side [OF s] that side in blast)+
  show ?thesis
    unfolding fleet_install_def rid(1) validated_id(1) [OF True] lift_result_simps bindio_ret
    by (rule wp_bindio_stays [OF stays_checks(2) [where P = "{}"]], rule wp_bindio_stays [OF checked],
        rule wp_bindio_stays [OF stays_checks(2) [where P = "{}"]])
      (use s locked [OF main] in simp_all)
qed

lemma wp_fleet_get:
  assumes laws: "rattler_laws (fl_install F) remove (fl_bytecode F) (root @ [rid]) (fleet_metadata_file_for rid) installed"
    and rid: "rid \<noteq> ''conda-ship-bootstrap''" "rid \<noteq> ''conda-ship-bootstrap.json''"
    and s: "bootstrap_inv (root @ [rid]) (fleet_metadata_file_for rid) installed s"
  shows "wp (fleet_get F root rid) (\<lambda>_. bootstrap_inv (root @ [rid]) (fleet_metadata_file_for rid) installed)
    (\<lambda>_. bootstrap_inv (root @ [rid]) (fleet_metadata_file_for rid) installed)
    (bootstrap_inv (root @ [rid]) (fleet_metadata_file_for rid) installed) s"
proof (cases "validate_runtime_id rid = Inr ()")
  case False
  then obtain e where "validate_runtime_id rid = Inl e" by (cases "validate_runtime_id rid") auto
  then show ?thesis using s by (simp add: fleet_get_def wp_fail)
next
  case True
  let ?prefix = "root @ [rid]" and ?mf = "fleet_metadata_file_for rid"
  let ?Inv = "bootstrap_inv ?prefix ?mf installed"
  note mf = fleet_metadata_file_ok [OF True] fleet_marker_free [OF rid]
  have slash: "CHR ''/'' \<notin> set (last ?prefix)" using validated_id(2) [OF True] by simp
  have read: "stays (read_installed_runtime F ?prefix rid) (side_files ?prefix \<union> metadata_files ?prefix ?mf)"
    by (rule stays_mono [OF stays_read_installed]) simp
  have lock: "stays (acquire_lock ?prefix) (side_files ?prefix \<union> metadata_files ?prefix ?mf)"
    by (rule stays_mono [OF stays_acquire_lock [OF slash]]) simp
  have stays: "stays (fleet_get F root rid) (side_files ?prefix \<union> metadata_files ?prefix ?mf)"
    unfolding fleet_get_def validated_id(1) [OF True] lift_result_simps bindio_ret by (intro stays_intros read lock)
  show ?thesis
  proof (cases "installed s")
    case True
    have "installed t" if "unchanged_outside (side_files ?prefix \<union> metadata_files ?prefix ?mf) s t" for t
      by (rule rattler_lawsD(13) [OF laws unchanged_outside_mono [OF that]]) (use True in auto)
    then show ?thesis by (intro stays_wp [OF stays]) (simp_all add: bootstrap_inv_def)
  next
    case False
    with s have none: "no_metadata ?prefix ?mf s" by (simp add: bootstrap_inv_def)
    have later: "no_metadata ?prefix ?mf t" if "unchanged_outside (side_files ?prefix) s t" for t
      by (rule no_metadata_outside [OF none that side_files_disjoint [OF mf slash]])
    have look: "wp (bindio (tryio (symlink_metadata (metadata_path_for ?prefix ?mf))) (\<lambda>r. case r of
         Inr _ \<Rightarrow> bindio (read_installed_runtime F ?prefix rid) (\<lambda>runtime. ret (Some runtime))
       | Inl e \<Rightarrow> if e = Not_Found then ret None else fail e)) (\<lambda>_. ?Inv) (\<lambda>_. ?Inv) ?Inv t" if "no_metadata ?prefix ?mf t" for t
      by (rule wp_bindio, rule wp_tryio, rule wp_symlink_metadata)
        (use that in \<open>auto simp: bootstrap_inv_def no_metadata_def metadata_files_def intro!: wp_ret wp_fail\<close>)
    show ?thesis
      unfolding fleet_get_def validated_id(1) [OF \<open>validate_runtime_id rid = Inr ()\<close>] lift_result_simps bindio_ret
        \<open>validate_runtime_id rid = Inr ()\<close>
      by (rule wp_bindio_stays [OF stays_acquire_lock [OF slash]], rule wp_bindio_stays [OF stays_managed(2) [where P = "{}"]])
        (use look later in \<open>auto simp: bootstrap_inv_def\<close>)
  qed
qed

text \<open>Any number of calls about one runtime, each under its own faults.\<close>

inductive fleet_history :: "fleet_ext \<Rightarrow> path \<Rightarrow> string \<Rightarrow> fs \<Rightarrow> fs \<Rightarrow> bool" for F root rid where
  fresh: "fleet_history F root rid s s"
| install: "fleet_history F root rid s t \<Longrightarrow> sp_id spec = rid \<Longrightarrow>
    fleet_install F root spec options \<lparr>w_fs = t, w_schedule = schedule\<rparr> = (r, w') \<Longrightarrow> fleet_history F root rid s (w_fs w')"
| look: "fleet_history F root rid s t \<Longrightarrow>
    fleet_get F root rid \<lparr>w_fs = t, w_schedule = schedule\<rparr> = (r', w') \<Longrightarrow> fleet_history F root rid s (w_fs w')"

inductive_cases fleet_historyE: "fleet_history F root rid s t"

section \<open>Properties\<close>

text \<open>C16. Runtimes of a fleet are isolated: whatever the installation, the lookup or the removal of one runtime does
  and wherever it fails or is stopped, nothing in the directory of another runtime nor its lock file changes, if the
  package installer and the byte compilation of the first leave them alone.\<close>

theorem fleet_runtimes_isolated:
  assumes ids: "validate_runtime_id a = Inr ()" "validate_runtime_id b = Inr ()" "a \<noteq> b" "sp_id spec = a"
    and ext: "installer_confined (fl_install F) (root @ [a]) (- runtime_area root b)" "stays (fl_bytecode F (root @ [a])) (- runtime_area root b)"
    and m: "m \<in> {bindio (fleet_install F root spec options) (\<lambda>_. ret ()), bindio (fleet_get F root a) (\<lambda>_. ret ()), fleet_remove F root a}"
    and run: "m \<lparr>w_fs = s, w_schedule = schedule\<rparr> = (r, w')"
  shows "\<forall>p \<in> runtime_area root b. w_fs w' p = s p"
proof -
  have "runtime_area root a \<union> root_dirs root \<subseteq> - runtime_area root b" using runtime_areas_apart [OF ids(1-3)] by blast
  note stays = stays_fleet [OF ids(1) this]
  from m have "stays m (- runtime_area root b)"
    using stays(1) [OF ids(4) ext] stays(2,3) by (auto intro: stays_intros)
  from stays_run [OF this run] show ?thesis by (simp add: unchanged_outside_def)
qed


section \<open>Removing\<close>


lemma wp_read_state:
  "wp (read_state B prefix) (\<lambda>r t. t = s \<and> (case r of None \<Rightarrow> marker_node prefix s = None
       | Some x \<Rightarrow> \<exists>n. marker_node prefix s = Some n \<and> node_state B n = Some x)) (\<lambda>_ t. t = s) (\<lambda>t. t = s) s"
proof -
  have look: "wp (read_state_file p) (\<lambda>r t. t = s \<and> (case r of None \<Rightarrow> s p = None | Some b \<Rightarrow> s p = Some (Regular b))) (\<lambda>_ t. t = s) (\<lambda>t. t = s) s" for p
    unfolding read_state_file_def
    by (rule wp_bindio, rule wp_tryio, rule wp_symlink_metadata)
      (auto intro!: wp_bindio wp_read_file wp_ret wp_fail simp: node_kind_def follow_def split: node.splits)
  show ?thesis
    unfolding read_state_def
  proof (rule wp_bindio, rule wp_mono [OF look], goal_cases)
    case (1 r t)
    show ?case
    proof (cases r)
      case (Some b)
      with 1 show ?thesis
        by (auto simp: marker_node_def node_state_def split: sum.splits intro!: wp_bindio wp_lift_result wp_ret)
    next
      case None
      with 1 have "wp (bindio (read_state_file (bootstrap_temporary_path prefix)) (\<lambda>d. case d of None \<Rightarrow> ret None
          | Some b \<Rightarrow> bindio (lift_result (state_parse B b)) (\<lambda>x. ret (Some x))))
        (\<lambda>r t. t = s \<and> (case r of None \<Rightarrow> marker_node prefix s = None
       | Some x \<Rightarrow> \<exists>n. marker_node prefix s = Some n \<and> node_state B n = Some x)) (\<lambda>_ t. t = s) (\<lambda>t. t = s) s"
        by (intro wp_bindio wp_mono [OF look])
          (auto simp: marker_node_def node_state_def split: sum.splits option.splits intro!: wp_bindio wp_lift_result wp_ret)
      with 1 None show ?thesis by simp
    qed
  qed auto
qed

lemma wp_is_empty_dir:
  assumes "s p = Some Directory"
  shows "wp (is_empty_dir p) (\<lambda>e t. t = s \<and> (e \<longrightarrow> (\<forall>n. s (p @ [n]) = None))) (\<lambda>_ t. t = s) (\<lambda>t. t = s) s"
  unfolding is_empty_dir_def read_dir_is_empty_def path_is_dir_def
  using assms by (auto intro!: wp_bindio wp_tryio wp_metadata_follow wp_ret wp_atomic_op simp: Let_def)

text \<open>Whose a directory is: its marker or its metadata name the runtime, or it is empty.\<close>

definition fleet_owned :: "fleet_ext \<Rightarrow> path \<Rightarrow> string \<Rightarrow> fs \<Rightarrow> bool" where
  "fleet_owned F prefix rid s \<longleftrightarrow>
     (case marker_node prefix s of
        Some n \<Rightarrow> (\<exists>x. node_state (fl_state F) n = Some x
          \<and> validate_identity_for x (bootstrap_identity_of (managed_identity rid)) = Inr ())
      | None \<Rightarrow> (\<forall>n. s (prefix @ [n]) = None)
          \<or> (\<exists>m. recoverable (fl_json F) prefix (fleet_metadata_file_for rid) s = Some m
               \<and> validate_metadata_ready_for m rid rid (fleet_metadata_file_for rid) = Inr ()))"

lemma fleet_owned_local:
  assumes "validate_runtime_id rid = Inr ()" "\<And>p. p \<in> tree_below (root @ [rid]) \<Longrightarrow> t p = s p"
  shows "fleet_owned F (root @ [rid]) rid t \<longleftrightarrow> fleet_owned F (root @ [rid]) rid s"
proof -
  let ?prefix = "root @ [rid]"
  have "t (?prefix @ [n]) = s (?prefix @ [n])" for n using assms(2) tree_belowI by blast
  moreover have "t (bootstrap_path ?prefix) = s (bootstrap_path ?prefix)"
      "t (bootstrap_temporary_path ?prefix) = s (bootstrap_temporary_path ?prefix)"
    by (rule assms(2), simp add: tree_below_def)+
  then have "marker_node ?prefix t = marker_node ?prefix s" unfolding marker_node_def by (simp only:)
  moreover have "recoverable J ?prefix (fleet_metadata_file_for rid) t = recoverable J ?prefix (fleet_metadata_file_for rid) s" for J
    by (rule metadata.value_local) (use runtime_places(2) [OF assms(1)] assms(2) in blast)
  ultimately show ?thesis unfolding fleet_owned_def by (simp only:)
qed

lemma stays_lock_only:
  assumes "validate_runtime_id rid = Inr ()"
  shows "stays (acquire_lock (root @ [rid])) (insert (fleet_lock root rid) (root_dirs root))"
  unfolding acquire_lock_def fleet_lock_path [OF assms] lift_result_simps bindio_ret
  by (intro stays_intros) (auto simp: fleet_lock_def root_dirs_def)

lemma wp_read_managed_owned:
  assumes "json_laws J" "metadata_file_ok (pi_metadata_file i)"
  shows "wp (read_managed_metadata_for J prefix i)
     (\<lambda>m _. recoverable J prefix (pi_metadata_file i) s = Some m
        \<and> validate_metadata_ready_for m (pi_display_name i) (pi_install_name i) (pi_metadata_file i) = Inr ())
     (\<lambda>_ _. True) (\<lambda>_. True) s"
  unfolding read_managed_metadata_for_def
  using assms
  by (auto intro!: wp_bindio wp_tryio wp_symlink_metadata wp_ensure wp_map_err wp_lift_result wp_ret wp_fail wp_mono [OF metadata.read_safe])

text \<open>C17. The fleet removes nothing it does not own: for a directory that is neither empty nor claimed by the marker or the
  metadata of this very runtime, \<open>remove\<close> never reports success, and whatever fails it changes nothing in the
  directory but the three metadata files that a read may put in order, and outside it nothing but the lock.\<close>

theorem fleet_remove_needs_ownership:
  assumes "json_laws (fl_json F)" and rid: "validate_runtime_id rid = Inr ()"
    and s: "s (root @ [rid]) = Some Directory" "\<not> fleet_owned F (root @ [rid]) rid s"
    and run: "fleet_remove F root rid \<lparr>w_fs = s, w_schedule = schedule\<rparr> = (r, w')"
  shows "r \<noteq> Ok () \<and> unchanged_outside (insert (fleet_lock root rid) (root_dirs root)
     \<union> metadata_files (root @ [rid]) (fleet_metadata_file_for rid)) s (w_fs w')"
proof -
  let ?prefix = "root @ [rid]" and ?mf = "fleet_metadata_file_for rid"
  let ?L = "insert (fleet_lock root rid) (root_dirs root)"
  define U where "U = unchanged_outside (?L \<union> metadata_files ?prefix ?mf) s"
  have apart: "?L \<inter> tree_below ?prefix = {}"
    using validated_id(3,4) [OF rid] by (cases rid) (auto simp: fleet_lock_def root_dirs_def tree_below_def dest: arg_cong [where f = length])
  have managed: "wp (read_managed_metadata_for (fl_json F) ?prefix (managed_identity rid)) Q
      (\<lambda>_ t'. unchanged_outside (metadata_files ?prefix ?mf) t t') (\<lambda>t'. unchanged_outside (metadata_files ?prefix ?mf) t t') t"
    if "\<nexists>m. recoverable (fl_json F) ?prefix ?mf t = Some m \<and> validate_metadata_ready_for m rid rid ?mf = Inr ()" for t Q
    using wp_conj [OF wp_read_managed_owned [OF assms(1), of "managed_identity rid"] stays_managed(1) [unfolded stays_def, rule_format], of ?prefix t]
      fleet_metadata_file_ok [OF rid] that
    by (auto simp: managed_identity_def elim!: wp_mono)
  have locked: "wp (bindio (reject_dangerous_prefix F ?prefix) (\<lambda>_.
         bindio (read_state (fl_state F) ?prefix) (\<lambda>state.
         bindio (case state of
             Some state \<Rightarrow> lift_result (validate_identity_for state (bootstrap_identity_of (managed_identity rid)))
           | None \<Rightarrow> bindio (is_empty_dir ?prefix) (\<lambda>e.
               if e then ret ()
               else bindio (read_managed_metadata_for (fl_json F) ?prefix (managed_identity rid)) (\<lambda>_. ret ()))) (\<lambda>_.
         remove_install_path F ?prefix)))) (\<lambda>_ _. False) (\<lambda>_. U) U t"
    if t: "unchanged_outside ?L s t" for t
  proof -
    have same: "t p = s p" if "p \<in> tree_below ?prefix" for p using t that apart unfolding unchanged_outside_def by blast
    have owned: "\<not> fleet_owned F ?prefix rid t" using s(2) fleet_owned_local [OF rid, of root t s F] same by blast
    have dir: "t ?prefix = Some Directory" using same [of ?prefix] s(1) by (simp add: tree_below_def)
    have U: "unchanged_outside (metadata_files ?prefix ?mf) t t' \<Longrightarrow> U t'" for t'
      using t by (auto simp: U_def unchanged_outside_def)
    have here: "U t" unfolding U_def using t by (rule unchanged_outside_mono) blast
    have danger: "stays (reject_dangerous_prefix F ?prefix) {}"
      unfolding reject_dangerous_prefix_def Let_def by (intro stays_intros)
    show ?thesis
    proof (rule wp_bindio_stays [OF danger], rule wp_bindio, rule wp_mono [OF wp_read_state], goal_cases)
      case (1 _ t1 state t2)
      then have t2: "t2 = t" by simp
      show ?case
      proof (cases state)
        case (Some x)
        with 1 t2 owned show ?thesis
          by (auto simp: fleet_owned_def here intro!: wp_bindio wp_lift_result)
      next
        case None
        with 1 t2 have marker: "marker_node ?prefix t = None" by simp
        show ?thesis
          unfolding None option.case bindio_assoc t2
          by (rule wp_bindio, rule wp_mono [OF wp_is_empty_dir [where s = t and p = "root @ [rid]", OF dir]])
            (use owned marker here U in \<open>auto simp: fleet_owned_def intro!: wp_bindio wp_mono [OF managed]\<close>)
      qed
    qed (use here in auto)
  qed
  have stop: "U t" if "unchanged_outside ?L s t" for t unfolding U_def using that by (rule unchanged_outside_mono) blast
  then have here: "U s" by (simp add: unchanged_outside_def)
  have "wp (fleet_remove F root rid) (\<lambda>_ _. False) (\<lambda>_. U) U s"
    unfolding fleet_remove_def validated_id(1) [OF rid] rid lift_result_simps bindio_ret
    by (rule wp_bindio, rule wp_tryio, rule wp_symlink_metadata)
      (use s(1) locked stop here in \<open>auto intro!: wp_bindio_stays [OF stays_lock_only [OF rid]] wp_fail\<close>)
  from wpD [OF this run] show ?thesis by (cases r) (simp_all add: U_def)
qed

section \<open>Listing\<close>

definition listed_under :: "path \<Rightarrow> string list \<Rightarrow> installed_runtime list \<Rightarrow> bool" where
  "listed_under root names rs \<longleftrightarrow>
     (\<forall>x \<in> set rs. ir_id x \<in> set names \<and> validate_runtime_id (ir_id x) = Inr () \<and> ir_prefix x = root @ [ir_id x])
     \<and> (distinct names \<longrightarrow> distinct (map ir_id rs))"

lemma wp_get_result:
  assumes "validate_runtime_id rid = Inr ()"
  shows "wp (fleet_get F root rid) (\<lambda>r _. \<forall>x. r = Some x \<longrightarrow> ir_id x = rid \<and> ir_prefix x = root @ [rid]) (\<lambda>_ _. True) (\<lambda>_. True) s"
proof -
  have read: "wp (bindio (read_installed_runtime F (root @ [rid]) rid) (\<lambda>runtime. ret (Some runtime)))
      (\<lambda>r _. \<forall>x. r = Some x \<longrightarrow> ir_id x = rid \<and> ir_prefix x = root @ [rid]) (\<lambda>_ _. True) (\<lambda>_. True) t" for t
    by (rule wp_bindio, rule wp_mono [OF wp_read_installed]) (auto intro: wp_ret)
  show ?thesis
    unfolding fleet_get_def validated_id(1) [OF assms] assms lift_result_simps bindio_ret
    by (rule wp_bindio_any, rule wp_bindio_any, rule wp_bindio_any) (auto intro: read wp_ret wp_fail split: sum.split)
qed

lemma wp_collect_runtimes:
  "wp (collect_runtimes F root names) (\<lambda>rs _. listed_under root names rs) (\<lambda>_ _. True) (\<lambda>_. True) s"
proof (induction names arbitrary: s)
  case Nil
  show ?case by (simp add: listed_under_def wp_ret)
next
  case (Cons name names)
  have more: "listed_under root (name # names) rs" if "listed_under root names rs" for rs
    using that by (auto simp: listed_under_def)
  have found: "wp (bindio (collect_runtimes F root names) (\<lambda>rs. ret (case r of Inr (Some x) \<Rightarrow> x # rs | _ \<Rightarrow> rs)))
      (\<lambda>rs _. listed_under root (name # names) rs) (\<lambda>_ _. True) (\<lambda>_. True) t"
    if "validate_runtime_id name = Inr ()" "\<And>x. r = Inr (Some x) \<Longrightarrow> ir_id x = name \<and> ir_prefix x = root @ [name]" for r t
  proof -
    have "listed_under root (name # names) (case r of Inr (Some x) \<Rightarrow> x # rs | _ \<Rightarrow> rs)" if "listed_under root names rs" for rs
    proof (cases "\<exists>x. r = Inr (Some x)")
      case True
      with that \<open>validate_runtime_id name = Inr ()\<close> \<open>\<And>x. r = Inr (Some x) \<Longrightarrow> _\<close> show ?thesis
        by (auto simp: listed_under_def)
    next
      case False
      with more [OF that] show ?thesis by (auto split: sum.split option.split)
    qed
    then show ?thesis by (intro wp_bindio wp_mono [OF Cons.IH]) (auto intro: wp_ret)
  qed
  show ?case
    unfolding collect_runtimes.simps
  proof (rule wp_bindio_any)
    fix is_dir t
    show "wp (if \<not> is_dir \<or> \<not> is_ok (validate_runtime_id name) then collect_runtimes F root names
       else bindio (tryio (fleet_get F root name)) (\<lambda>found. bindio (collect_runtimes F root names) (\<lambda>runtimes.
         ret (case found of Inr (Some runtime) \<Rightarrow> runtime # runtimes | _ \<Rightarrow> runtimes))))
      (\<lambda>rs _. listed_under root (name # names) rs) (\<lambda>_ _. True) (\<lambda>_. True) t"
    proof (cases "is_dir \<and> is_ok (validate_runtime_id name)")
      case True
      then have valid: "validate_runtime_id name = Inr ()" by (cases "validate_runtime_id name") auto
      show ?thesis
        using True by (auto intro!: wp_bindio [of "tryio _"] wp_tryio wp_mono [OF wp_get_result [OF valid]] found valid)
    next
      case False
      then show ?thesis by (auto intro!: wp_mono [OF Cons.IH] more)
    qed
  qed
qed

text \<open>The listing of a fleet is sound under any faults: what it returns is sorted by identifier, and every entry is the
  runtime of a directory of the install root whose name is its valid identifier, at most one for each.\<close>

theorem fleet_list_sound:
  assumes names: "wp (in_read_dir (fl_install F) root) (\<lambda>names _. distinct names) (\<lambda>_ _. True) (\<lambda>_. True) s"
    and run: "fleet_list F root \<lparr>w_fs = s, w_schedule = schedule\<rparr> = (Ok rs, w')"
  shows "sorted (map ir_id rs) \<and> distinct (map ir_id rs)
     \<and> (\<forall>x \<in> set rs. validate_runtime_id (ir_id x) = Inr () \<and> ir_prefix x = root @ [ir_id x])"
proof -
  let ?Q = "\<lambda>rs. sorted (map ir_id rs) \<and> distinct (map ir_id rs)
     \<and> (\<forall>x \<in> set rs. validate_runtime_id (ir_id x) = Inr () \<and> ir_prefix x = root @ [ir_id x])"
  have sorted: "?Q (sort_key ir_id rs)" if "listed_under root names rs" "distinct names" for names rs
    using that by (auto simp: listed_under_def distinct_map)
  have "wp (fleet_list F root) (\<lambda>rs _. ?Q rs) (\<lambda>_ _. True) (\<lambda>_. True) s"
    unfolding fleet_list_def
  proof (rule wp_bindio_stays [OF stays_queries(2) [where P = "{}"]])
    fix is_dir t assume "unchanged_outside {} s t"
    then have t: "t = s" by simp
    have collect: "wp (bindio (collect_runtimes F root names) (\<lambda>rs. ret (sort_key ir_id rs))) (\<lambda>rs _. ?Q rs) (\<lambda>_ _. True) (\<lambda>_. True) t'"
      if "distinct names" for names t'
      by (rule wp_bindio, rule wp_mono [OF wp_collect_runtimes]) (use sorted that in \<open>auto intro!: wp_ret\<close>)
    show "wp (if \<not> is_dir then ret [] else bindio (in_read_dir (fl_install F) root) (\<lambda>names.
        bindio (collect_runtimes F root names) (\<lambda>rs. ret (sort_key ir_id rs)))) (\<lambda>rs _. ?Q rs) (\<lambda>_ _. True) (\<lambda>_. True) t"
      unfolding t by (auto intro!: wp_ret wp_bindio wp_mono [OF names] collect)
  qed simp
  from wpD [OF this run] show ?thesis by simp
qed

section \<open>An interrupted removal\<close>

definition listed_as :: "fleet_ext \<Rightarrow> path \<Rightarrow> string \<Rightarrow> prefix_metadata \<Rightarrow> string \<Rightarrow> fs \<Rightarrow> bool" where
  "listed_as F root rid m d s \<longleftrightarrow> lock_open (root @ [rid]) s \<and> s (root @ [rid]) = Some Directory
     \<and> (\<exists>b. s (metadata_path_for (root @ [rid]) (fleet_metadata_file_for rid)) = Some (Regular b) \<and> meta_parse (fl_json F) b = Inr m)
     \<and> validate_metadata_ready_for m rid rid (fleet_metadata_file_for rid) = Inr ()
     \<and> pm_delegate_executable m = Some d \<and> validate_executable_name d = Inr ()
     \<and> (\<exists>e. s (root @ [rid, ''bin'', d]) = Some (Regular e))"

lemma run_get_listed:
  assumes rid: "validate_runtime_id rid = Inr ()" and unix: "\<not> fl_windows F" and s: "listed_as F root rid m d s"
  shows "\<exists>x. fst (run (fleet_get F root rid) s) = Ok (Some x) \<and> runtime_from_metadata (root @ [rid]) m = Inr x"
proof -
  let ?prefix = "root @ [rid]" and ?path = "metadata_path_for (root @ [rid]) (fleet_metadata_file_for rid)"
  note s' = s [unfolded listed_as_def]
  have path: "?path = root @ [rid, fleet_metadata_file_for rid]" by (simp add: metadata_paths [OF fleet_metadata_file_ok [OF rid]])
  from s' have "lock_open ?prefix s" by simp
  from run_lock [OF this] obtain t where lock: "run (acquire_lock ?prefix) s = (Ok (), t)" "t = s \<or> t = s(fleet_lock root rid \<mapsto> Regular [])"
    unfolding fleet_lock_path [OF rid] by auto
  have t: "t q = s q" if "q \<noteq> fleet_lock root rid" for q using lock(2) that by auto
  have other: "root @ [rid] \<noteq> fleet_lock root rid" "?path \<noteq> fleet_lock root rid" "root @ [rid, ''bin'', d] \<noteq> fleet_lock root rid"
    using validated_id(3,4) [OF rid] unfolding path fleet_lock_def by (cases rid; simp)+
  from s' obtain b e where "s ?prefix = Some Directory" "s ?path = Some (Regular b)" "meta_parse (fl_json F) b = Inr m"
      "s (root @ [rid, ''bin'', d]) = Some (Regular e)" by blast
  then have here: "t ?prefix = Some Directory" "t ?path = Some (Regular b)" "meta_parse (fl_json F) b = Inr m"
      "t (root @ [rid, ''bin'', d]) = Some (Regular e)"
    by (simp_all only: t [OF other(1)] t [OF other(2)] t [OF other(3)])
  have meta: "run (read_metadata_for J ?prefix (fleet_metadata_file_for rid)) t = (Ok m, t)" if "J = fl_json F" for J
    using here(2,3) that by (simp add: read_metadata_for_def Let_def run_simps steady_intros run_read_regular)
  have steady: "steady (read_metadata_for J ?prefix mf)" for J mf
    unfolding read_metadata_for_def read_regular_metadata_if_present_def read_metadata_from_path_def restore_metadata_path_def Let_def
      remove_regular_file_if_present_def
    by (intro steady_intros)
  have managed: "run (read_managed_metadata_for (fl_json F) ?prefix (managed_identity rid)) t = (Ok m, t)"
    using s' here(2) meta
    by (simp add: read_managed_metadata_for_def managed_identity_def run_simps steady_intros steady symlink_metadata_def node_kind_def
        ensure_def map_err_def)
  have steady_managed: "steady (read_managed_metadata_for (fl_json F) ?prefix (managed_identity rid))"
    unfolding read_managed_metadata_for_def by (intro steady_intros steady)
  obtain x where x: "runtime_from_metadata ?prefix m = Inr x" using s' by (auto simp: runtime_from_metadata_def)
  have "run (read_installed_runtime F ?prefix rid) t = (Ok x, t)"
    using s' here(4) x unix
    by (simp add: read_installed_runtime_def run_simps steady_intros steady_managed managed run_validate_delegate_unix follow_def node_kind_def)
  moreover have "steady (read_installed_runtime F ?prefix rid)"
    unfolding read_installed_runtime_def by (intro steady_intros steady_managed)
  moreover have "run (validate_prefix_path ?prefix) t = (Ok (), t)" "steady (validate_prefix_path ?prefix)"
    using here(1) unfolding validate_prefix_path_def
    by (simp_all add: run_simps steady_intros symlink_metadata_def node_kind_def ensure_def)
  ultimately have "run (fleet_get F root rid) s = (Ok (Some x), t)"
    using here(2) lock(1)
    by (simp add: fleet_get_def rid validated_id(1) [OF rid] run_simps steady_intros symlink_metadata_def)
  with x show ?thesis by simp
qed

text \<open>C18. Removing a runtime is not atomic and leaves no mark: if the process stops within \<open>remove_dir_all\<close> when the
  metadata file and the delegate are still there, the directory has lost the entries removed so far, and the
  next lookup, without any fault, still hands it out as an installed runtime.\<close>

theorem fleet_remove_interrupted_still_listed:
  assumes rid: "validate_runtime_id rid = Inr ()" and unix: "\<not> fl_windows F" and s: "listed_as F root rid m d s"
    and lost: "{root @ [rid], metadata_path_for (root @ [rid]) (fleet_metadata_file_for rid), root @ [rid, ''bin'', d]}
      \<inter> fl_interrupted F k (root @ [rid]) = {}"
    and run: "remove_install_path F (root @ [rid]) \<lparr>w_fs = s, w_schedule = [Halt k]\<rparr> = (r, w')"
  shows "(\<forall>p \<in> fl_interrupted F k (root @ [rid]) \<inter> tree_below (root @ [rid]). w_fs w' p = None)
     \<and> (\<exists>x. fst (run (fleet_get F root rid) (w_fs w')) = Ok (Some x) \<and> runtime_from_metadata (root @ [rid]) m = Inr x)"
proof -
  let ?D = "fl_interrupted F k (root @ [rid]) \<inter> tree_below (root @ [rid])"
  have w': "w_fs w' = drop_paths ?D s"
    using run s by (auto simp: remove_install_path_def remove_dir_all_def next_event_def listed_as_def)
  have outside: "q \<notin> tree_below (root @ [rid]) \<Longrightarrow> drop_paths ?D s q = s q" for q by (simp add: drop_paths_def)
  have "lock_open (root @ [rid]) (drop_paths ?D s)"
  proof -
    have "take n root \<notin> tree_below (root @ [rid])" "fleet_lock root rid \<notin> tree_below (root @ [rid])" for n
      using validated_id(3,4) [OF rid] by (cases rid; auto simp: fleet_lock_def tree_below_def dest: arg_cong [where f = length])+
    with s show ?thesis
      by (auto simp: listed_as_def lock_open_def fleet_lock_path [OF rid] outside fleet_lock_def [symmetric]) (simp_all add: fleet_lock_def outside)
  qed
  with s lost have "listed_as F root rid m d (drop_paths ?D s)" by (auto simp: listed_as_def drop_paths_def)
  from run_get_listed [OF rid unix this] show ?thesis unfolding w' by (auto simp: drop_paths_def)
qed

section \<open>Instances\<close>

definition sample_fleet :: fleet_ext where
  "sample_fleet = \<lparr>fl_windows = False, fl_json = sample_json, fl_state = sample_state,
     fl_install = sample_rattler\<lparr>in_read_dir := \<lambda>_. ret [''demo'']\<rparr>, fl_clock = sample_clock,
     fl_render_message = (\<lambda>_. []), fl_bytecode = (\<lambda>_. ret ()), fl_channels = (\<lambda>_. Inr (Some [''conda-forge''])),
     fl_condarc = (\<lambda>_. Inr True), fl_home = None, fl_current_dir = [],
     fl_interrupted = (\<lambda>k p. {p @ [''lib'', ''library.so'']})\<rparr>"

definition sample_spec :: "string \<Rightarrow> runtime_spec" where
  "sample_spec name = \<lparr>sp_id = name, sp_version = ''1.0.0'', sp_delegate_executable = ''conda'', sp_lock_content = ''lock'',
     sp_requested_specs = [], sp_condarc = None, sp_freeze_base = True, sp_installer = None\<rparr>"

definition sample_options :: install_options where
  "sample_options = \<lparr>opt_force = False, opt_offline = True, opt_bundle_dir = None\<rparr>"

definition sample_fleet_fs :: fs where
  "sample_fleet_fs = [[''fleet''] \<mapsto> Directory, [''fleet'', ''demo''] \<mapsto> Directory, [''fleet'', ''demo'', ''.demo.json''] \<mapsto> Regular [1, 10],
     [''fleet'', ''demo'', ''bin'', ''conda''] \<mapsto> Regular [7], [''fleet'', ''demo'', ''lib'', ''library.so''] \<mapsto> Regular [8]]"

lemma sample_ids [simp]: "validate_runtime_id ''demo'' = Inr ()" "validate_runtime_id ''opt'' = Inr ()"
  by (simp_all add: validate_runtime_id_def validate_safe_name_def safe_name_char_def ascii_class_defs)

lemma fleet_runtimes_isolated_witness:
  "w_fs (snd (fleet_remove sample_fleet [] ''opt''
     \<lparr>w_fs = [[''opt''] \<mapsto> Directory, [''demo''] \<mapsto> Directory], w_schedule = []\<rparr>)) [''demo''] = Some Directory"
proof -
  have away: "[''opt'', ''bin'', ''conda''] \<notin> runtime_area [] ''demo''"
    by (simp add: runtime_area_def fleet_lock_def tree_below_def)
  have "stays sample_install (- runtime_area [] ''demo'')"
    unfolding stays_def sample_install_def using away by (auto intro!: wp_atomic_op)
  then have "installer_confined (fl_install sample_fleet) [''opt''] (- runtime_area [] ''demo'')"
    by (simp add: installer_confined_def sample_fleet_def sample_rattler_def sample_install_ext_def stays_intros)
  moreover have "stays (fl_bytecode sample_fleet [''opt'']) (- runtime_area [] ''demo'')"
    by (simp add: sample_fleet_def stays_intros)
  ultimately show ?thesis
    using fleet_runtimes_isolated [of "''opt''" "''demo''" "sample_spec ''opt''" sample_fleet "[]" "fleet_remove sample_fleet [] ''opt''" sample_options
        "[[''opt''] \<mapsto> Directory, [''demo''] \<mapsto> Directory]" "[]", OF _ _ _ _ _ _ _ prod.collapse [symmetric]]
    by (auto simp: sample_spec_def runtime_area_def tree_below_def)
qed


lemma sample_listed: "listed_as sample_fleet [''fleet''] ''demo'' (sample_metadata []) ''conda'' sample_fleet_fs"
proof -
  have "lock_open [''fleet'', ''demo''] sample_fleet_fs"
    using fleet_lock_path [OF sample_ids(1), of "[''fleet'']"]
    by (auto simp: lock_open_def fleet_lock_def sample_fleet_fs_def take_Cons split: nat.split)
  moreover have "metadata_path_for [''fleet'', ''demo''] (fleet_metadata_file_for ''demo'') = [''fleet'', ''demo'', ''.demo.json'']"
    using fleet_metadata_file_ok [OF sample_ids(1)] by (simp add: metadata_paths) (simp add: fleet_metadata_file_for_def)
  ultimately show ?thesis
    by (auto simp: listed_as_def sample_fleet_fs_def sample_fleet_def sample_json_def sample_metadata_def metadata_for_identity_def
        sample_identity_def validate_metadata_ready_for_def validate_metadata_identity_for_def validate_ready_phase_def
        validate_executable_name_def fleet_metadata_file_for_def)
qed

lemma fleet_list_sound_witness:
  "\<exists>x w'. fleet_list sample_fleet [''fleet''] \<lparr>w_fs = sample_fleet_fs, w_schedule = []\<rparr> = (Ok [x], w')
     \<and> ir_prefix x = [''fleet'', ir_id x]"
proof -
  let ?w = "\<lparr>w_fs = sample_fleet_fs, w_schedule = []\<rparr>"
  obtain x w' where get: "fleet_get sample_fleet [''fleet''] ''demo'' ?w = (Ok (Some x), w')"
    using run_get_listed [OF sample_ids(1) _ sample_listed] by (cases "fleet_get sample_fleet [''fleet''] ''demo'' ?w") (auto simp: run_def sample_fleet_def)
  have dir: "path_is_dir [''fleet''] ?w = (Ok True, ?w)" "path_is_dir [''fleet'', ''demo''] ?w = (Ok True, ?w)"
    by (simp_all add: path_is_dir_def bindio_def tryio_def metadata_follow_def atomic_op_def next_event_def follow_def sample_fleet_fs_def
        node_kind_def ret_def)
  have names: "in_read_dir (fl_install sample_fleet) d = ret [''demo'']" for d by (simp add: sample_fleet_def)
  have collect: "collect_runtimes sample_fleet [''fleet''] [''demo''] ?w = (Ok [x], w')"
    by (simp add: bindio_def dir tryio_def get ret_def)
  have run: "fleet_list sample_fleet [''fleet''] ?w = (Ok [x], w')"
    by (simp add: fleet_list_def bindio_def dir names collect ret_def del: collect_runtimes.simps)
  have "wp (in_read_dir (fl_install sample_fleet) [''fleet'']) (\<lambda>names _. distinct names) (\<lambda>_ _. True) (\<lambda>_. True) sample_fleet_fs"
    by (simp add: names wp_ret)
  from fleet_list_sound [OF this run] run show ?thesis by auto
qed

lemma fleet_remove_needs_ownership_witness:
  "let s = [[''fleet''] \<mapsto> Directory, [''fleet'', ''demo''] \<mapsto> Directory, [''fleet'', ''demo'', ''notes.txt''] \<mapsto> Regular [1]];
       (r, w') = fleet_remove sample_fleet [''fleet''] ''demo'' \<lparr>w_fs = s, w_schedule = []\<rparr>
   in r \<noteq> Ok () \<and> w_fs w' [''fleet'', ''demo'', ''notes.txt''] = Some (Regular [1])"
proof -
  let ?s = "[[''fleet''] \<mapsto> Directory, [''fleet'', ''demo''] \<mapsto> Directory, [''fleet'', ''demo'', ''notes.txt''] \<mapsto> Regular [1]] :: fs"
  have paths: "metadata_files [''fleet'', ''demo''] (fleet_metadata_file_for ''demo'') =
      {[''fleet'', ''demo'', ''.demo.json''], [''fleet'', ''demo'', ''.demo.tmp''], [''fleet'', ''demo'', ''.demo.bak'']}"
    using fleet_metadata_file_ok [OF sample_ids(1)]
    by (simp add: metadata_files_def metadata_paths) (simp add: fleet_metadata_file_for_def name_stem_def)
  have "\<not> (\<forall>n. ?s [''fleet'', ''demo'', n] = None)"
  proof
    assume "\<forall>n. ?s [''fleet'', ''demo'', n] = None"
    then have "?s [''fleet'', ''demo'', ''notes.txt''] = None" by blast
    then show False by simp
  qed
  moreover have "recoverable J [''fleet'', ''demo''] (fleet_metadata_file_for ''demo'') ?s = None" for J
    using fleet_metadata_file_ok [OF sample_ids(1)]
    by (simp add: recoverable_def metadata_paths) (simp add: fleet_metadata_file_for_def name_stem_def)
  ultimately have owned: "\<not> fleet_owned sample_fleet ([''fleet''] @ [''demo'']) ''demo'' ?s"
    by (simp add: fleet_owned_def marker_node_def)
  have "json_laws (fl_json sample_fleet)" by (simp add: sample_fleet_def)
  from fleet_remove_needs_ownership [OF this sample_ids(1) _ owned prod.collapse [symmetric], of "[]"]
  show ?thesis
    by (auto simp: split_beta Let_def unchanged_outside_def paths fleet_lock_def root_dirs_def take_Cons split: nat.splits)
qed

lemma fleet_remove_interrupted_still_listed_witness:
  "let w' = snd (remove_install_path sample_fleet [''fleet'', ''demo''] \<lparr>w_fs = sample_fleet_fs, w_schedule = [Halt 0]\<rparr>)
   in w_fs w' [''fleet'', ''demo'', ''lib'', ''library.so''] = None
     \<and> (\<exists>x. fst (run (fleet_get sample_fleet [''fleet''] ''demo'') (w_fs w')) = Ok (Some x))"
proof -
  have path: "metadata_path_for [''fleet'', ''demo''] (fleet_metadata_file_for ''demo'') = [''fleet'', ''demo'', ''.demo.json'']"
    using fleet_metadata_file_ok [OF sample_ids(1)] by (simp add: metadata_paths) (simp add: fleet_metadata_file_for_def)
  have cut: "fl_interrupted sample_fleet 0 [''fleet'', ''demo''] = {[''fleet'', ''demo'', ''lib'', ''library.so'']}"
    by (simp add: sample_fleet_def)
  have "\<not> fl_windows sample_fleet" by (simp add: sample_fleet_def)
  from fleet_remove_interrupted_still_listed [OF sample_ids(1) this sample_listed _ prod.collapse [symmetric], of 0]
  show ?thesis by (auto simp: cut path tree_below_def Let_def)
qed

end
