(* ===== verification/Package_Exclusion.thy ===== *)
theory Package_Exclusion
  imports Bundle_Install "HOL-Library.List_Lexorder" "HOL-Library.Char_ord"
begin

text \<open>
  Leaving packages out of a runtime (\<open>filter_excluded\<close> of \<open>src/bin/cs/project.rs\<close>): the excluded
  packages go, and with them every dependency that no remaining package requires. The code keeps a work list;
  \<open>dropped\<close> is the rule it computes, and \<open>exclusion_exact\<close> states that it does, for any dependencies, cyclic ones
  included. \<open>dep_name\<close> is rattler's reading of the name in a match specification.
\<close>

datatype package_location = Package_Url url | Package_Path path_buf

text \<open>\<open>CondaPackageData\<close>, as far as it is looked at.\<close>

record conda_package =
  cp_record :: "package_record option"
  cp_location :: package_location
  cp_binary :: bool

definition package_record_of :: "conda_package \<Rightarrow> package_record result" where
  "package_record_of package = ok_or ''conda package in lockfile is missing its package record'' (cp_record package)"

fun package_records :: "conda_package list \<Rightarrow> package_record list result" where
  "package_records [] = Inr []"
| "package_records (p # ps) = rbind (package_record_of p) (\<lambda>r. rbind (package_records ps) (\<lambda>rs. Inr (r # rs)))"

text \<open>A later package of the same name replaces an earlier one in the index.\<close>

definition name_to_idx :: "string list \<Rightarrow> string \<Rightarrow> nat option" where
  "name_to_idx names = map_of (rev (zip names [0 ..< length names]))"

fun dep_indices :: "(string \<Rightarrow> string) \<Rightarrow> (string \<Rightarrow> nat option) \<Rightarrow> string list \<Rightarrow> nat list" where
  "dep_indices dep_name index [] = []"
| "dep_indices dep_name index (dep # deps) =
     (case index (dep_name dep) of Some i \<Rightarrow> i # dep_indices dep_name index deps | None \<Rightarrow> dep_indices dep_name index deps)"

definition deps_of :: "nat list list \<Rightarrow> nat \<Rightarrow> nat list" where
  "deps_of deps i = (if i < length deps then deps ! i else [])"

definition reverse_deps :: "nat list list \<Rightarrow> nat \<Rightarrow> nat list" where
  "reverse_deps deps d = filter (\<lambda>i. d \<in> set (deps_of deps i)) [0 ..< length deps]"

text \<open>The dependencies of one removed package: those with no dependent left are removed and queued.\<close>

fun visit_deps :: "nat list list \<Rightarrow> nat list \<Rightarrow> nat set \<Rightarrow> nat list \<Rightarrow> nat set \<times> nat list" where
  "visit_deps deps [] removed queue = (removed, queue)"
| "visit_deps deps (d # ds) removed queue =
     (if d \<in> removed then visit_deps deps ds removed queue
      else if list_all (\<lambda>i. i \<in> removed) (reverse_deps deps d) then visit_deps deps ds (insert d removed) (queue @ [d])
      else visit_deps deps ds removed queue)"

definition left :: "nat list list \<Rightarrow> nat set \<Rightarrow> nat set" where
  "left deps removed = \<Union> (set ` set deps) - removed"

lemma visit_deps_measure:
  assumes "set ds \<subseteq> \<Union> (set ` set deps)" "visit_deps deps ds removed queue = (removed', queue')"
  shows "card (left deps removed') + length queue' \<le> card (left deps removed) + length queue"
  using assms
proof (induction ds arbitrary: removed queue)
  case (Cons d ds)
  have "finite (left deps removed)" by (simp add: left_def)
  moreover have "left deps (insert d removed) = left deps removed - {d}" by (auto simp: left_def)
  moreover have "d \<notin> removed \<Longrightarrow> d \<in> left deps removed" using Cons.prems(1) by (simp add: left_def)
  ultimately have "d \<notin> removed \<Longrightarrow> Suc (card (left deps (insert d removed))) = card (left deps removed)"
    by (metis card_Suc_Diff1)
  with Cons show ?case by (fastforce split: if_splits)
qed simp

function propagate :: "nat list list \<Rightarrow> nat set \<Rightarrow> nat list \<Rightarrow> nat set" where
  "propagate deps removed queue =
     (if queue = [] then removed
      else let (removed', queue') = visit_deps deps (deps_of deps (last queue)) removed (butlast queue)
           in propagate deps removed' queue')"
  by pat_completeness auto

termination
proof (relation "measure (\<lambda>(deps, removed, queue). card (left deps removed) + length queue)")
  fix deps removed and queue :: "nat list" and st removed' queue'
  assume queue: "queue \<noteq> []" and st: "st = visit_deps deps (deps_of deps (last queue)) removed (butlast queue)"
    "(removed', queue') = st"
  have "set (deps_of deps (last queue)) \<subseteq> \<Union> (set ` set deps)" by (auto simp: deps_of_def intro: nth_mem)
  from visit_deps_measure [OF this, of removed "butlast queue" removed' queue'] st
  have "card (left deps removed') + length queue' \<le> card (left deps removed) + length (butlast queue)" by simp
  moreover have "0 < length queue" using queue by simp
  ultimately have "card (left deps removed') + length queue' < card (left deps removed) + length queue"
    unfolding length_butlast by linarith
  then show "((deps, removed', queue'), deps, removed, queue) \<in> measure (\<lambda>(deps, removed, queue). card (left deps removed) + length queue)"
    by simp
qed simp

declare propagate.simps [simp del]

text \<open>The indices of the packages named in \<open>excludes\<close>.\<close>

definition excluded_indices :: "string list \<Rightarrow> string list \<Rightarrow> nat list" where
  "excluded_indices names excludes = filter (\<lambda>i. names ! i \<in> set excludes) [0 ..< length names]"

definition package_deps :: "(string \<Rightarrow> string) \<Rightarrow> package_record list \<Rightarrow> nat list list" where
  "package_deps dep_name records = map (\<lambda>r. dep_indices dep_name (name_to_idx (map pk_name records)) (pk_depends r)) records"

definition removed_indices :: "(string \<Rightarrow> string) \<Rightarrow> package_record list \<Rightarrow> string list \<Rightarrow> nat set" where
  "removed_indices dep_name records excludes =
     (let start = excluded_indices (map pk_name records) excludes in
      propagate (package_deps dep_name records) (set start) start)"

definition filter_excluded ::
    "(string \<Rightarrow> string) \<Rightarrow> conda_package list \<Rightarrow> string list \<Rightarrow> (conda_package list \<times> string list) result" where
  "filter_excluded dep_name packages excludes =
     rbind (package_records packages) (\<lambda>records.
     let removed = removed_indices dep_name records excludes;
         removed_names = sort (map (\<lambda>i. pk_name (records ! i)) (filter (\<lambda>i. i \<in> removed) [0 ..< length records])) in
     Inr (map snd (filter (\<lambda>(i, p). i \<notin> removed) (zip [0 ..< length packages] packages)), removed_names))"

section \<open>The rule\<close>

inductive_set dropped :: "nat list list \<Rightarrow> nat set \<Rightarrow> nat set" for deps excluded where
  excluded: "i \<in> excluded \<Longrightarrow> i \<in> dropped deps excluded"
| unneeded: "j \<in> dropped deps excluded \<Longrightarrow> d \<in> set (deps_of deps j) \<Longrightarrow>
    (\<And>i. i \<in> set (reverse_deps deps d) \<Longrightarrow> i \<in> dropped deps excluded) \<Longrightarrow> d \<in> dropped deps excluded"

lemma visit_deps_grow:
  "visit_deps deps ds removed queue = (removed', queue') \<Longrightarrow>
     removed \<subseteq> removed' \<and> set queue \<subseteq> set queue' \<and> removed' \<subseteq> removed \<union> set queue' \<and> set queue' \<subseteq> set queue \<union> removed'"
proof (induction ds arbitrary: removed queue)
  case (Cons d ds)
  show ?case
  proof (cases "d \<in> removed \<or> \<not> list_all (\<lambda>i. i \<in> removed) (reverse_deps deps d)")
    case True
    with Cons show ?thesis by (auto split: if_splits)
  next
    case False
    with Cons.prems have "visit_deps deps ds (insert d removed) (queue @ [d]) = (removed', queue')" by simp
    from Cons.IH [OF this] show ?thesis by auto
  qed
qed simp

lemma visit_deps_props:
  assumes "visit_deps deps ds removed queue = (removed', queue')"
  shows "removed \<subseteq> removed'" "set queue \<subseteq> set queue'" "removed' - removed \<subseteq> set queue'" "set queue' \<subseteq> set queue \<union> removed'"
    and "d \<in> set ds \<Longrightarrow> d \<in> removed' \<or> (\<exists>x \<in> set (reverse_deps deps d). x \<notin> removed)"
    and "removed \<subseteq> dropped deps E \<Longrightarrow> (\<And>d. d \<in> set ds \<Longrightarrow> \<exists>j \<in> dropped deps E. d \<in> set (deps_of deps j)) \<Longrightarrow> removed' \<subseteq> dropped deps E"
proof -
  show "removed \<subseteq> removed'" "set queue \<subseteq> set queue'" "removed' - removed \<subseteq> set queue'" "set queue' \<subseteq> set queue \<union> removed'"
    using visit_deps_grow [OF assms] by auto
  show "d \<in> set ds \<Longrightarrow> d \<in> removed' \<or> (\<exists>x \<in> set (reverse_deps deps d). x \<notin> removed)"
    using assms
  proof (induction deps ds removed queue rule: visit_deps.induct)
    case (2 deps e ds removed queue)
    have grow: "visit_deps deps ds r q = (removed', queue') \<Longrightarrow> r \<subseteq> removed'" for r q
      using visit_deps_grow by blast
    from 2 show ?case
      by (auto simp: list_all_iff split: if_splits dest: grow)
  qed simp
  show "removed \<subseteq> dropped deps E \<Longrightarrow> (\<And>d. d \<in> set ds \<Longrightarrow> \<exists>j \<in> dropped deps E. d \<in> set (deps_of deps j)) \<Longrightarrow> removed' \<subseteq> dropped deps E"
    using assms
  proof (induction deps ds removed queue rule: visit_deps.induct)
    case (2 deps d ds removed queue)
    have "d \<in> dropped deps E" if "list_all (\<lambda>i. i \<in> removed) (reverse_deps deps d)"
    proof -
      from "2.prems"(2) obtain j where "j \<in> dropped deps E" "d \<in> set (deps_of deps j)" by force
      then show ?thesis by (rule dropped.unneeded) (use that "2.prems"(1) in \<open>auto simp: list_all_iff\<close>)
    qed
    with 2 show ?case by (auto split: if_splits)
  qed simp
qed

text \<open>Once all dependents of a dependency have been removed and processed, it has been removed.\<close>

definition settled_deps :: "nat list list \<Rightarrow> nat set \<Rightarrow> nat list \<Rightarrow> bool" where
  "settled_deps deps removed queue \<longleftrightarrow> set queue \<subseteq> removed \<and>
     (\<forall>d. (\<exists>j. j \<in> set (reverse_deps deps d)) \<longrightarrow> (\<forall>i \<in> set (reverse_deps deps d). i \<in> removed - set queue) \<longrightarrow> d \<in> removed)"

lemma propagate_settled:
  assumes "settled_deps deps removed queue" "removed \<subseteq> dropped deps E"
  shows "removed \<subseteq> propagate deps removed queue \<and> propagate deps removed queue \<subseteq> dropped deps E
     \<and> settled_deps deps (propagate deps removed queue) []"
  using assms
proof (induction deps removed queue rule: propagate.induct)
  case (1 deps removed queue)
  show ?case
  proof (cases "queue = []")
    case True
    with "1.prems" show ?thesis by (subst (1 2 3) propagate.simps) simp
  next
    case False
    obtain removed' queue' where visit: "visit_deps deps (deps_of deps (last queue)) removed (butlast queue) = (removed', queue')" by fastforce
    note props = visit_deps_props [OF visit]
    have split: "set queue = insert (last queue) (set (butlast queue))"
      using False by (metis append_butlast_last_id list.simps(15) rotate1.simps(2) set_rotate1)
    have "last queue \<in> removed" using "1.prems"(1) False by (auto simp: settled_deps_def)
    have "settled_deps deps removed' queue'"
      unfolding settled_deps_def
    proof (intro conjI allI impI)
      show "set queue' \<subseteq> removed'" using props(1,4) "1.prems"(1) split by (auto simp: settled_deps_def)
    next
      fix d assume some: "\<exists>j. j \<in> set (reverse_deps deps d)" and all: "\<forall>i \<in> set (reverse_deps deps d). i \<in> removed' - set queue'"
      have old: "i \<in> removed" if "i \<in> set (reverse_deps deps d)" for i using all that props(3) by blast
      show "d \<in> removed'"
      proof (cases "last queue \<in> set (reverse_deps deps d)")
        case True
        then have "d \<in> set (deps_of deps (last queue))" by (simp add: reverse_deps_def)
        from props(5) [OF this] old show ?thesis by blast
      next
        case False
        have "\<forall>i \<in> set (reverse_deps deps d). i \<in> removed - set queue"
        proof
          fix i assume i: "i \<in> set (reverse_deps deps d)"
          with False all props(2) have "i \<noteq> last queue" "i \<notin> set (butlast queue)" by auto
          with old [OF i] split show "i \<in> removed - set queue" by simp
        qed
        with some "1.prems"(1) props(1) show ?thesis by (auto simp: settled_deps_def)
      qed
    qed
    moreover have "removed' \<subseteq> dropped deps E"
      by (rule props(6)) (use "1.prems"(2) \<open>last queue \<in> removed\<close> in auto)
    ultimately have "removed' \<subseteq> propagate deps removed' queue' \<and> propagate deps removed' queue' \<subseteq> dropped deps E
       \<and> settled_deps deps (propagate deps removed' queue') []"
      using "1.IH" [OF False visit [symmetric] refl] by simp
    moreover have "propagate deps removed queue = propagate deps removed' queue'"
      by (subst propagate.simps) (simp add: False visit)
    ultimately show ?thesis using props(1) by auto
  qed
qed

lemma propagate_dropped:
  assumes "set start = E"
  shows "propagate deps E start = dropped deps E"
proof
  have "settled_deps deps E start" using assms by (auto simp: settled_deps_def)
  from propagate_settled [OF this, of E]
  have result: "E \<subseteq> propagate deps E start" "propagate deps E start \<subseteq> dropped deps E" "settled_deps deps (propagate deps E start) []"
    by (auto intro: dropped.excluded)
  then show "propagate deps E start \<subseteq> dropped deps E" by simp
  show "dropped deps E \<subseteq> propagate deps E start"
  proof
    fix i assume "i \<in> dropped deps E"
    then show "i \<in> propagate deps E start"
    proof induction
      case (unneeded j d)
      then have "j \<in> set (reverse_deps deps d)" by (auto simp: reverse_deps_def deps_of_def split: if_splits)
      with unneeded result(3) show ?case by (auto simp: settled_deps_def)
    qed (use result(1) in auto)
  qed
qed

section \<open>Properties\<close>

lemma length_package_records: "package_records ps = Inr rs \<Longrightarrow> length rs = length ps"
  by (induction ps arbitrary: rs) (auto simp: success_simps)

lemma filter_zip_nths:
  "map snd (filter (\<lambda>(i, p). i \<notin> D) (zip [n ..< n + length ps] ps)) = nths ps {i. n + i \<notin> D}"
proof (induction ps arbitrary: n)
  case (Cons p ps)
  have "[n ..< n + length (p # ps)] = n # [Suc n ..< n + length (p # ps)]" by (rule upt_conv_Cons) simp
  then have "[n ..< n + length (p # ps)] = n # [Suc n ..< Suc n + length ps]" by simp
  then show ?case unfolding nths_Cons using Cons [of "Suc n"] by simp
qed simp

lemma set_excluded_indices: "set (excluded_indices (map pk_name rs) excludes) = {i. i < length rs \<and> pk_name (rs ! i) \<in> set excludes}"
  by (auto simp: excluded_indices_def)

lemma removed_indices_dropped:
  "removed_indices dep_name rs excludes =
     dropped (package_deps dep_name rs) {i. i < length rs \<and> pk_name (rs ! i) \<in> set excludes}"
  unfolding removed_indices_def Let_def propagate_dropped [OF refl] set_excluded_indices by (rule refl)

text \<open>C19. Excluding packages computes exactly the rule: whatever the dependencies, cyclic or not, the work list ends, and the
  packages kept are those, in their order, that the rule does not drop, where the rule drops the excluded packages
  and every dependency of a dropped package all of whose dependents are dropped. It fails exactly if a package has
  no record.\<close>

theorem exclusion_exact:
  "filter_excluded dep_name packages excludes =
     (case package_records packages of
        Inl e \<Rightarrow> Inl e
      | Inr records \<Rightarrow>
          let D = dropped (package_deps dep_name records) {i. i < length records \<and> pk_name (records ! i) \<in> set excludes} in
          Inr (nths packages (- D), sort (map (\<lambda>i. pk_name (records ! i)) (filter (\<lambda>i. i \<in> D) [0 ..< length records]))))"
proof (cases "package_records packages")
  case (Inr rs)
  have complement: "{i. i \<notin> D} = - D" for D :: "nat set" by blast
  from Inr show ?thesis
    using filter_zip_nths [of _ 0 packages]
    by (simp add: filter_excluded_def removed_indices_dropped Let_def complement)
qed (simp add: filter_excluded_def)

text \<open>Exclusion never breaks what remains by accident: the removed packages include every excluded one; a dependency
  of a kept package is only missing if it was excluded by name; and whatever else was removed is a dependency of a
  removed package that no kept package depends on.\<close>

theorem exclusion_keeps_required:
  assumes "package_records packages = Inr records" "i < length records"
  shows "(pk_name (records ! i) \<in> set excludes \<longrightarrow> i \<in> removed_indices dep_name records excludes)
     \<and> (\<forall>d \<in> set (deps_of (package_deps dep_name records) i). i \<notin> removed_indices dep_name records excludes \<longrightarrow>
          d \<in> removed_indices dep_name records excludes \<longrightarrow> pk_name (records ! d) \<in> set excludes)
     \<and> (i \<in> removed_indices dep_name records excludes \<longrightarrow> pk_name (records ! i) \<notin> set excludes \<longrightarrow>
          (\<exists>j \<in> removed_indices dep_name records excludes. i \<in> set (deps_of (package_deps dep_name records) j)))"
proof -
  let ?deps = "package_deps dep_name records"
  let ?E = "{i. i < length records \<and> pk_name (records ! i) \<in> set excludes}"
  have missing: "pk_name (records ! d) \<in> set excludes"
    if "d \<in> set (deps_of ?deps i)" "i \<notin> dropped ?deps ?E" "d \<in> dropped ?deps ?E" for d
    using that(3)
  proof cases
    case (unneeded j)
    from that(1) have "i \<in> set (reverse_deps ?deps d)" by (auto simp: reverse_deps_def deps_of_def split: if_splits)
    with unneeded(3) that(2) show ?thesis by blast
  qed simp
  have cause: "\<exists>j \<in> dropped ?deps ?E. i \<in> set (deps_of ?deps j)"
    if "i \<in> dropped ?deps ?E" "pk_name (records ! i) \<notin> set excludes"
    using that by cases auto
  show ?thesis
    unfolding removed_indices_dropped using assms(2) missing cause by (auto intro: dropped.excluded)
qed

section \<open>Instances\<close>

definition sample_package :: "string \<Rightarrow> string list \<Rightarrow> package_record" where
  "sample_package name deps = \<lparr>pk_name = name, pk_version = ''1'', pk_build = ''0'', pk_build_number = 0, pk_subdir = ''noarch'',
     pk_depends = deps, pk_md5 = None, pk_sha256 = Some [1], pk_size = None\<rparr>"

definition sample_packages :: "conda_package list" where
  "sample_packages = map (\<lambda>r. \<lparr>cp_record = Some r, cp_location = Package_Path (True, [pk_name r]), cp_binary = True\<rparr>)
     [sample_package ''a'' [''b''], sample_package ''b'' [''c''], sample_package ''c'' [], sample_package ''d'' [''c'']]"

lemma sample_removed:
  "removed_indices (\<lambda>s. s) (map (\<lambda>p. the (cp_record p)) sample_packages) [''a''] = {0, 1}"
  by (simp add: removed_indices_def Let_def excluded_indices_def package_deps_def sample_packages_def sample_package_def name_to_idx_def
      upt_rec propagate.simps deps_of_def reverse_deps_def) auto

lemma exclusion_keeps_required_witness:
  "\<exists>j \<in> {0, 1}. 1 \<in> set (deps_of (package_deps (\<lambda>s. s) (map (\<lambda>p. the (cp_record p)) sample_packages)) j)"
proof -
  have "package_records sample_packages = Inr (map (\<lambda>p. the (cp_record p)) sample_packages)"
    by (simp add: sample_packages_def package_record_of_def)
  from exclusion_keeps_required [OF this, of 1 "[''a'']" "\<lambda>s. s"] show ?thesis
    unfolding sample_removed by (simp add: sample_packages_def sample_package_def)
qed

end
