(* ===== verification/Ship_Project.thy ===== *)
theory Ship_Project
  imports Package_Exclusion
begin

text \<open>
  The builder's input (\<open>src/bin/cs/project.rs\<close>, with the configuration types of \<open>src/bin/cs.rs\<close>): finding the
  manifest, reading the source lockfile, and deriving the lockfile of the runtime from one of its environments.
  \<open>project_ext\<close> holds the TOML, YAML and lockfile libraries and the current directory; a relative path is read
  against it at once, where the code keeps it relative until it is used.
\<close>

section \<open>Configuration\<close>

datatype runtime_version_source = Project_Metadata

datatype runtime_version_config = Version_Value string | Version_Source runtime_version_source

datatype install_name_source = Runtime_Lock

datatype install_name_config = Install_Name_Value string | Install_Name_Source install_name_source "string option"

datatype bundle_layout = Online | External_Bundle | Embedded

record ship_config =
  sc_runtime_name :: "string option"
  sc_artifact_name :: "string option"
  sc_runtime_version :: "runtime_version_config option"
  sc_delegate_executable :: "string option"
  sc_artifact_layout :: "bundle_layout option"
  sc_exclude_packages :: "string list"
  sc_source_environment :: "string option"
  sc_docs_url :: "string option"
  sc_install_scheme :: "install_scheme option"
  sc_install_name :: "install_name_config option"
  sc_installer :: "string option"
  sc_condarc_file :: "path_buf option"
  sc_freeze_base :: bool
  sc_update :: "runtime_update_config option"

record project_manifest =
  mn_version :: "string option"
  mn_dynamic :: "string list"
  mn_conda_ship :: ship_config

record runtime_stamp_config =
  rs_channels :: "string list"
  rs_packages :: "string list"
  rs_exclude_packages :: "string list"
  rs_delegate_executable :: "string option"
  rs_runtime_version :: "string option"
  rs_runtime_version_source :: "runtime_version_source option"
  rs_project_dynamic_version :: bool
  rs_docs_url :: "string option"
  rs_install_scheme :: "install_scheme option"
  rs_install_name :: "string option"
  rs_installer :: "string option"
  rs_condarc :: "string option"
  rs_freeze_base :: bool
  rs_update :: "runtime_update_config option"

record source_input =
  si_manifest :: "path_buf option"
  si_source_lock :: "path_buf option"
  si_source_environment :: "string option"

datatype manifest_kind = Conda_Toml | Pixi_Toml | Conda_Pyproject | Pixi_Pyproject

fun lockfile_name :: "manifest_kind \<Rightarrow> string" where
  "lockfile_name Conda_Toml = ''conda.lock''"
| "lockfile_name Conda_Pyproject = ''conda.lock''"
| "lockfile_name Pixi_Toml = ''pixi.lock''"
| "lockfile_name Pixi_Pyproject = ''pixi.lock''"

record project_input =
  pj_manifest_path :: path
  pj_manifest_kind :: manifest_kind
  pj_lock_path :: path
  pj_config :: ship_config
  pj_runtime_version :: "string option"
  pj_runtime_version_source :: "runtime_version_source option"
  pj_project_dynamic_version :: bool

section \<open>Libraries\<close>

datatype toml_value = Toml_Table "(string \<times> toml_value) list" | Toml_Other

datatype yaml_value = Yaml_Mapping "(yaml_value \<times> yaml_value) list" | Yaml_String string | Yaml_U64 nat | Yaml_Other

record lock_platform =
  lp_name :: string
  lp_subdir :: string

record source_environment =
  se_platforms :: "lock_platform list"
  se_channels :: "string list"
  se_has_pypi :: bool
  se_conda :: "(lock_platform \<times> conda_package list) list"

record runtime_lock =
  rl_platforms :: "lock_platform list"
  rl_channels :: "string list"
  rl_packages :: "(string \<times> conda_package) list"

text \<open>\<open>px_platforms\<close> and \<open>px_add_package\<close> are the checks of the lockfile builder.\<close>

record project_ext =
  px_current_dir :: path
  px_toml :: "bytes \<Rightarrow> toml_value result"
  px_manifest :: "bytes \<Rightarrow> project_manifest result"
  px_utf8 :: "bytes \<Rightarrow> string result"
  px_yaml :: "string \<Rightarrow> yaml_value result"
  px_yaml_render :: "yaml_value \<Rightarrow> string result"
  px_lock :: "string \<Rightarrow> path option \<Rightarrow> (string \<rightharpoonup> source_environment) result"
  px_url :: "string \<Rightarrow> url result"
  px_platforms :: "lock_platform list \<Rightarrow> unit result"
  px_add_package :: "string \<Rightarrow> conda_package \<Rightarrow> unit result"
  px_render :: "runtime_lock \<Rightarrow> string result"
  px_dep_name :: "string \<Rightarrow> string"

definition absolute_path :: "project_ext \<Rightarrow> path_buf \<Rightarrow> path" where
  "absolute_path X p = (if fst p then snd p else px_current_dir X @ snd p)"

section \<open>Manifests\<close>

fun toml_get :: "(string \<times> toml_value) list \<Rightarrow> string \<Rightarrow> toml_value option" where
  "toml_get table key = map_of table key"

fun has_nonempty_toml_table :: "toml_value \<Rightarrow> string list \<Rightarrow> bool" where
  "has_nonempty_toml_table v [] = (case v of Toml_Table t \<Rightarrow> t \<noteq> [] | Toml_Other \<Rightarrow> False)"
| "has_nonempty_toml_table v (head # tail) =
     (case v of Toml_Other \<Rightarrow> False
      | Toml_Table t \<Rightarrow> (case toml_get t head of None \<Rightarrow> False | Some nested \<Rightarrow> has_nonempty_toml_table nested tail))"

text \<open>Errors while looking count as an unsupported file.\<close>

definition pyproject_manifest_kind :: "project_ext \<Rightarrow> path \<Rightarrow> manifest_kind option io" where
  "pyproject_manifest_kind X p =
     bindio (path_exists p) (\<lambda>present.
     if \<not> present then ret None
     else bindio (tryio (read_file p)) (\<lambda>content.
       ret (case content of Inl _ \<Rightarrow> None
         | Inr content \<Rightarrow> (case px_toml X content of Inl _ \<Rightarrow> None
           | Inr v \<Rightarrow>
               if has_nonempty_toml_table v [''tool'', ''conda'', ''workspace''] then Some Conda_Pyproject
               else if has_nonempty_toml_table v [''tool'', ''pixi'', ''workspace''] then Some Pixi_Pyproject
               else None))))"

definition is_supported_pyproject_manifest :: "project_ext \<Rightarrow> path \<Rightarrow> bool io" where
  "is_supported_pyproject_manifest X p = bindio (pyproject_manifest_kind X p) (\<lambda>kind. ret (kind \<noteq> None))"

definition manifest_kind_of :: "project_ext \<Rightarrow> path \<Rightarrow> manifest_kind io" where
  "manifest_kind_of X manifest_path =
     (case file_name manifest_path of
        Some name \<Rightarrow>
          if name = ''conda.toml'' then ret Conda_Toml
          else if name = ''pixi.toml'' then ret Pixi_Toml
          else if name = ''pyproject.toml'' then
            bindio (pyproject_manifest_kind X manifest_path) (\<lambda>kind. lift_result (ok_or ''unsupported pyproject.toml'' kind))
          else fail (Invalid ''unsupported manifest path'')
      | None \<Rightarrow> fail (Invalid ''unsupported manifest path''))"

definition has_supported_manifest :: "project_ext \<Rightarrow> path \<Rightarrow> bool io" where
  "has_supported_manifest X root =
     bindio (path_exists (root @ [''conda.toml''])) (\<lambda>conda. if conda then ret True
     else bindio (path_exists (root @ [''pixi.toml''])) (\<lambda>pixi. if pixi then ret True
     else is_supported_pyproject_manifest X (root @ [''pyproject.toml''])))"

definition discover_manifest_path :: "project_ext \<Rightarrow> path \<Rightarrow> path io" where
  "discover_manifest_path X root =
     bindio (path_exists (root @ [''conda.toml''])) (\<lambda>conda. if conda then ret (root @ [''conda.toml''])
     else bindio (path_exists (root @ [''pixi.toml''])) (\<lambda>pixi. if pixi then ret (root @ [''pixi.toml''])
     else bindio (is_supported_pyproject_manifest X (root @ [''pyproject.toml''])) (\<lambda>pyproject.
       if pyproject then ret (root @ [''pyproject.toml''])
       else fail (Invalid ''could not find conda.toml, pixi.toml, or supported pyproject.toml''))))"

text \<open>The directory and its ancestors, from the bottom up.\<close>

function find_project_root :: "project_ext \<Rightarrow> path \<Rightarrow> path option io" where
  "find_project_root X start =
     bindio (has_supported_manifest X start) (\<lambda>found.
     if found then ret (Some start)
     else if start = [] then ret None
     else find_project_root X (butlast start))"
  by pat_completeness auto

termination
  by (relation "measure (\<lambda>(X, start). length start)") simp_all

declare find_project_root.simps [simp del]

definition project_root :: "project_ext \<Rightarrow> path_buf option \<Rightarrow> path_buf option \<Rightarrow> path io" where
  "project_root X override_root manifest =
     (case manifest of
        Some m \<Rightarrow> ret (case parent (absolute_path X m) of Some d \<Rightarrow> d | None \<Rightarrow> px_current_dir X)
      | None \<Rightarrow> (case override_root of
          Some root \<Rightarrow> ret (absolute_path X root)
        | None \<Rightarrow> bindio (find_project_root X (px_current_dir X)) (\<lambda>root.
            lift_result (ok_or ''could not find project root'' root))))"

definition resolve_manifest_runtime_version ::
    "runtime_version_config option \<Rightarrow> string option \<Rightarrow> string option \<times> runtime_version_source option" where
  "resolve_manifest_runtime_version configured project_version =
     (case configured of
        Some (Version_Value version) \<Rightarrow> (Some version, None)
      | Some (Version_Source source) \<Rightarrow> (None, Some source)
      | None \<Rightarrow> (project_version, None))"

definition discover_project_input :: "project_ext \<Rightarrow> path \<Rightarrow> source_input \<Rightarrow> project_input io" where
  "discover_project_input X root source =
     bindio (case si_manifest source of Some p \<Rightarrow> ret (absolute_path X p) | None \<Rightarrow> discover_manifest_path X root) (\<lambda>manifest_path.
     bindio (manifest_kind_of X manifest_path) (\<lambda>kind.
     let lock_path = (case si_source_lock source of Some p \<Rightarrow> absolute_path X p | None \<Rightarrow> root @ [lockfile_name kind]) in
     bindio (path_exists lock_path) (\<lambda>present.
     bindio (ensure present ''lockfile not found'') (\<lambda>_.
     bindio (read_file manifest_path) (\<lambda>content.
     bindio (lift_result (px_manifest X content)) (\<lambda>manifest.
     let config = mn_conda_ship manifest;
         config = (case si_source_environment source of
           Some environment \<Rightarrow> config\<lparr>sc_source_environment := Some environment\<rparr> | None \<Rightarrow> config);
         (version, version_source) = resolve_manifest_runtime_version (sc_runtime_version config) (mn_version manifest) in
     ret \<lparr>pj_manifest_path = manifest_path, pj_manifest_kind = kind, pj_lock_path = lock_path,
          pj_config = config\<lparr>sc_runtime_version := None\<rparr>, pj_runtime_version = version, pj_runtime_version_source = version_source,
          pj_project_dynamic_version = (''version'' \<in> set (mn_dynamic manifest))\<rparr>))))))"

section \<open>The condarc file\<close>

definition strip_prefix :: "path \<Rightarrow> path \<Rightarrow> path option" where
  "strip_prefix d p = (if take (length d) p = d then Some (drop (length d) p) else None)"

text \<open>\<open>canonicalize\<close> also resolves parent components.\<close>

fun resolve_dots :: "path \<Rightarrow> path \<Rightarrow> path" where
  "resolve_dots upper [] = rev upper"
| "resolve_dots upper (c # cs) = resolve_dots (if c = ''..'' then tl upper else c # upper) cs"

definition canonical_path :: "path \<Rightarrow> path io" where
  "canonical_path p = bindio (canonicalize (resolve_dots [] p)) (\<lambda>q. ret (resolve_dots [] q))"

text \<open>\<open>Dir::read_to_string\<close> resolves \<open>relative\<close> below the directory that was opened.\<close>

definition read_condarc_at :: "project_ext \<Rightarrow> path \<Rightarrow> string option io" where
  "read_condarc_at X p =
     bindio (read_file p) (\<lambda>content.
     bindio (lift_result (px_utf8 X content)) (\<lambda>contents.
     bindio (lift_result (px_yaml X contents)) (\<lambda>document.
     bindio (ensure (case document of Yaml_Mapping _ \<Rightarrow> True | _ \<Rightarrow> False) ''condarc-file must contain a YAML mapping'') (\<lambda>_.
     ret (Some contents)))))"

definition read_condarc_below :: "project_ext \<Rightarrow> path \<Rightarrow> path_buf \<Rightarrow> string option io" where
  "read_condarc_below X project_dir configured =
     bindio (canonical_path (if fst configured then snd configured else project_dir @ snd configured)) (\<lambda>p.
     bindio (lift_result (ok_or ''condarc-file must resolve inside the selected manifest directory'' (strip_prefix project_dir p))) (\<lambda>relative.
     read_condarc_at X (project_dir @ relative)))"

definition read_condarc_file :: "project_ext \<Rightarrow> path \<Rightarrow> path_buf option \<Rightarrow> string option io" where
  "read_condarc_file X manifest_path configured_path =
     (case configured_path of
        None \<Rightarrow> ret None
      | Some configured \<Rightarrow>
          let manifest_dir = (case parent manifest_path of Some d \<Rightarrow> d | None \<Rightarrow> px_current_dir X) in
          bindio (canonical_path manifest_dir) (\<lambda>project_dir.
          bindio (path_is_dir project_dir) (\<lambda>is_dir.
          bindio (ensure is_dir ''failed to open manifest directory for condarc-file'') (\<lambda>_.
          read_condarc_below X project_dir configured))))"

section \<open>The source lockfile\<close>

definition mapping_get :: "(yaml_value \<times> yaml_value) list \<Rightarrow> string \<Rightarrow> yaml_value option" where
  "mapping_get mapping key = map_of mapping (Yaml_String key)"

text \<open>\<open>Mapping::insert\<close> of a key that is there keeps its place.\<close>

definition mapping_replace :: "(yaml_value \<times> yaml_value) list \<Rightarrow> string \<Rightarrow> yaml_value \<Rightarrow> (yaml_value \<times> yaml_value) list" where
  "mapping_replace mapping key v = map (\<lambda>(k, old). (k, if k = Yaml_String key then v else old)) mapping"

definition conda_workspaces_lock_v1_as_rattler_v6 :: "project_ext \<Rightarrow> string \<Rightarrow> string option result" where
  "conda_workspaces_lock_v1_as_rattler_v6 X lock_content =
     rbind (px_yaml X lock_content) (\<lambda>document.
     case document of
       Yaml_Mapping mapping \<Rightarrow>
         if mapping_get mapping ''version'' \<noteq> Some (Yaml_U64 1) \<or> mapping_get mapping ''environments'' = None
            \<or> mapping_get mapping ''packages'' = None
         then Inr None
         else rbind (px_yaml_render X (Yaml_Mapping (mapping_replace mapping ''version'' (Yaml_U64 6)))) (\<lambda>s. Inr (Some s))
     | _ \<Rightarrow> Inr None)"

definition parse_lock :: "project_ext \<Rightarrow> string \<Rightarrow> path \<Rightarrow> (string \<rightharpoonup> source_environment) result" where
  "parse_lock X lock_content lock_path =
     rbind (conda_workspaces_lock_v1_as_rattler_v6 X lock_content) (\<lambda>rewritten.
     px_lock X (case rewritten of Some content \<Rightarrow> content | None \<Rightarrow> lock_content) (parent lock_path))"

text \<open>The names of the packages without a digest, sorted and without duplicates.\<close>

definition missing_hashes :: "package_record list \<Rightarrow> string list" where
  "missing_hashes records = remdups_adj (sort (map pk_name (filter (\<lambda>r. pk_sha256 r = None) records)))"

definition validate_package_hashes :: "conda_package list \<Rightarrow> unit result" where
  "validate_package_hashes packages =
     rbind (package_records packages) (\<lambda>records.
     if missing_hashes records \<noteq> [] then Inl (Invalid ''cannot ship packages without SHA256 hashes in the source lockfile'')
     else Inr ())"

section \<open>The runtime lockfile\<close>

fun validate_channels :: "project_ext \<Rightarrow> string list \<Rightarrow> unit result" where
  "validate_channels X [] = Inr ()"
| "validate_channels X (channel # channels) =
     rbind (validate_artifact_url (px_url X) channel) (\<lambda>_. validate_channels X channels)"

text \<open>What the loop over the platforms accumulates.\<close>

record derivation =
  dv_packages :: "(string \<times> conda_package) list"
  dv_names :: "string list"
  dv_total_packages :: nat
  dv_total_excluded :: nat
  dv_removed :: "string list"

text \<open>A local package is found from the lockfile's directory.\<close>

definition locate_package :: "project_ext \<Rightarrow> path \<Rightarrow> conda_package \<Rightarrow> conda_package result" where
  "locate_package X lock_dir package =
     (case cp_location package of
        Package_Url url \<Rightarrow> rbind (validate_artifact_url (px_url X) (url_text url)) (\<lambda>_. Inr package)
      | Package_Path p \<Rightarrow>
          Inr (if cp_binary package \<and> \<not> fst p then package\<lparr>cp_location := Package_Path (True, lock_dir @ snd p)\<rparr> else package))"

fun add_packages :: "project_ext \<Rightarrow> path \<Rightarrow> lock_platform \<Rightarrow> conda_package list \<Rightarrow> derivation \<Rightarrow> derivation result" where
  "add_packages X lock_dir platform [] dv = Inr dv"
| "add_packages X lock_dir platform (package # packages) dv =
     rbind (locate_package X lock_dir package) (\<lambda>package.
     rbind (package_record_of package) (\<lambda>r.
     rbind (px_add_package X (lp_name platform) package) (\<lambda>_.
     add_packages X lock_dir platform packages
       (dv\<lparr>dv_packages := dv_packages dv @ [(lp_name platform, package)], dv_names := dv_names dv @ [pk_name r]\<rparr>))))"

definition exclude_from :: "project_ext \<Rightarrow> string list \<Rightarrow> conda_package list \<Rightarrow> (conda_package list \<times> string list) result" where
  "exclude_from X excludes packages =
     (if excludes = [] then Inr (packages, []) else filter_excluded (px_dep_name X) packages excludes)"

fun derive_platforms ::
    "project_ext \<Rightarrow> string list \<Rightarrow> path \<Rightarrow> (lock_platform \<times> conda_package list) list \<Rightarrow> derivation \<Rightarrow> derivation result" where
  "derive_platforms X excludes lock_dir [] dv = Inr dv"
| "derive_platforms X excludes lock_dir ((platform, packages) # rest) dv =
     rbind (exclude_from X excludes packages) (\<lambda>(filtered, removed).
     rbind (validate_package_hashes filtered) (\<lambda>_.
     rbind (add_packages X lock_dir platform filtered
       (dv\<lparr>dv_total_packages := dv_total_packages dv + length filtered, dv_total_excluded := dv_total_excluded dv + length removed,
           dv_removed := dv_removed dv @ removed\<rparr>)) (\<lambda>dv.
     derive_platforms X excludes lock_dir rest dv)))"

record derived_runtime_lock =
  dr_input :: project_input
  dr_lock_file :: runtime_lock
  dr_content :: string
  dr_source_environment :: string
  dr_runtime_config :: runtime_stamp_config
  dr_platforms :: "string list"
  dr_total_packages :: nat
  dr_total_excluded :: nat
  dr_removed_excludes :: "string list"

definition derive_lock_file :: "project_ext \<Rightarrow> project_input \<Rightarrow> source_environment \<Rightarrow> (runtime_lock \<times> derivation) result" where
  "derive_lock_file X input env =
     (if se_has_pypi env then Inl (Invalid ''source environment contains unsupported PyPI packages'')
      else
        rbind (px_platforms X (se_platforms env)) (\<lambda>_.
        rbind (validate_channels X (se_channels env)) (\<lambda>_.
        rbind (derive_platforms X (sc_exclude_packages (pj_config input)) (butlast (pj_lock_path input)) (se_conda env)
          \<lparr>dv_packages = [], dv_names = [], dv_total_packages = 0, dv_total_excluded = 0, dv_removed = []\<rparr>) (\<lambda>dv.
        Inr (\<lparr>rl_platforms = se_platforms env, rl_channels = se_channels env, rl_packages = dv_packages dv\<rparr>, dv)))))"

definition stamp_config_of :: "project_input \<Rightarrow> string option \<Rightarrow> string list \<Rightarrow> string list \<Rightarrow> runtime_stamp_config" where
  "stamp_config_of input condarc channels packages =
     (let config = pj_config input in
      \<lparr>rs_channels = channels, rs_packages = packages, rs_exclude_packages = sc_exclude_packages config,
       rs_delegate_executable = sc_delegate_executable config, rs_runtime_version = pj_runtime_version input,
       rs_runtime_version_source = pj_runtime_version_source input, rs_project_dynamic_version = pj_project_dynamic_version input,
       rs_docs_url = sc_docs_url config, rs_install_scheme = sc_install_scheme config, rs_install_name = None,
       rs_installer = sc_installer config, rs_condarc = condarc, rs_freeze_base = sc_freeze_base config,
       rs_update = sc_update config\<rparr>)"

definition derive_runtime_lock :: "project_ext \<Rightarrow> path \<Rightarrow> source_input \<Rightarrow> derived_runtime_lock io" where
  "derive_runtime_lock X root source =
     bindio (discover_project_input X root source) (\<lambda>input.
     bindio (read_condarc_file X (pj_manifest_path input) (sc_condarc_file (pj_config input))) (\<lambda>condarc.
     bindio (read_file (pj_lock_path input)) (\<lambda>content.
     bindio (lift_result (px_utf8 X content)) (\<lambda>lock_content.
     bindio (lift_result (parse_lock X lock_content (pj_lock_path input))) (\<lambda>lock_file.
     bindio (lift_result (ok_or ''source environment is required'' (sc_source_environment (pj_config input)))) (\<lambda>environment.
     bindio (lift_result (ok_or ''source environment not found'' (lock_file environment))) (\<lambda>env.
     bindio (lift_result (derive_lock_file X input env)) (\<lambda>(new_lock, dv).
     bindio (lift_result (px_render X new_lock)) (\<lambda>new_content.
     ret \<lparr>dr_input = input, dr_lock_file = new_lock, dr_content = new_content, dr_source_environment = environment,
          dr_runtime_config = stamp_config_of input condarc (se_channels env) (sort (remdups (dv_names dv))),
          dr_platforms = map lp_subdir (se_platforms env), dr_total_packages = dv_total_packages dv,
          dr_total_excluded = dv_total_excluded dv, dr_removed_excludes = sort (remdups (dv_removed dv))\<rparr>)))))))))"

definition write_generated_runtime_lock :: "path \<Rightarrow> string \<Rightarrow> unit io" where
  "write_generated_runtime_lock p content =
     bindio (case parent p of Some d \<Rightarrow> create_dir_all d | None \<Rightarrow> ret ()) (\<lambda>_.
     write_file p (bytes_of_string content))"

section \<open>The derived lockfile\<close>

lemma records_of_packages: "package_records ps = Inr rs \<Longrightarrow> list_all2 (\<lambda>p r. cp_record p = Some r) ps rs"
  by (induction ps arbitrary: rs) (auto simp: success_simps package_record_of_def)

lemma validated_hashes:
  assumes "validate_package_hashes ps = Inr ()" "p \<in> set ps"
  shows "\<exists>r. cp_record p = Some r \<and> pk_sha256 r \<noteq> None"
proof -
  from assms(1) obtain rs where rs: "package_records ps = Inr rs" "missing_hashes rs = []"
    by (auto simp: validate_package_hashes_def success_simps split: if_splits)
  from rs(2) have "filter (\<lambda>r. pk_sha256 r = None) rs = []"
    by (simp add: missing_hashes_def flip: set_empty)
  then have "\<forall>r \<in> set rs. pk_sha256 r \<noteq> None" by (simp add: filter_empty_conv)
  moreover obtain r where "cp_record p = Some r" "r \<in> set rs"
    using list_all2_conv_all_nth [THEN iffD1, OF records_of_packages [OF rs(1)]] assms(2) by (metis in_set_conv_nth)
  ultimately show ?thesis by blast
qed

text \<open>A package as it is put into the runtime lockfile.\<close>

definition located :: "project_ext \<Rightarrow> path \<Rightarrow> conda_package \<Rightarrow> conda_package" where
  "located X lock_dir p = (case locate_package X lock_dir p of Inr q \<Rightarrow> q | Inl _ \<Rightarrow> p)"

definition shippable :: "project_ext \<Rightarrow> conda_package \<Rightarrow> bool" where
  "shippable X p \<longleftrightarrow> (\<exists>r. cp_record p = Some r \<and> pk_sha256 r \<noteq> None)
     \<and> (case cp_location p of Package_Url url \<Rightarrow> validate_artifact_url (px_url X) (url_text url) = Inr ()
        | Package_Path q \<Rightarrow> cp_binary p \<longrightarrow> fst q)"

lemma locate_package_props:
  assumes "locate_package X dir p = Inr q"
  shows "cp_record q = cp_record p" "located X dir p = q"
    and "\<exists>r. cp_record p = Some r \<and> pk_sha256 r \<noteq> None \<Longrightarrow> shippable X q"
  using assms by (auto simp: locate_package_def located_def shippable_def success_simps split: package_location.splits if_splits)

lemma add_packages_props:
  assumes "add_packages X dir platform ps dv = Inr dv'"
  shows "dv_packages dv' = dv_packages dv @ map (\<lambda>p. (lp_name platform, located X dir p)) ps
     \<and> dv_total_packages dv' = dv_total_packages dv \<and> dv_total_excluded dv' = dv_total_excluded dv \<and> dv_removed dv' = dv_removed dv
     \<and> ((\<forall>p \<in> set ps. \<exists>r. cp_record p = Some r \<and> pk_sha256 r \<noteq> None) \<longrightarrow> (\<forall>p \<in> set ps. shippable X (located X dir p)))"
  using assms
proof (induction ps arbitrary: dv)
  case (Cons p ps)
  then obtain q r where q: "locate_package X dir p = Inr q" and r: "package_record_of q = Inr r" and rest:
    "add_packages X dir platform ps (dv\<lparr>dv_packages := dv_packages dv @ [(lp_name platform, q)], dv_names := dv_names dv @ [pk_name r]\<rparr>) = Inr dv'"
    by (auto simp: success_simps)
  from Cons.IH [OF rest] locate_package_props [OF q] show ?case by auto
qed simp

text \<open>What each platform contributes.\<close>

definition kept_of :: "project_ext \<Rightarrow> string list \<Rightarrow> conda_package list \<Rightarrow> conda_package list" where
  "kept_of X excludes ps = (case exclude_from X excludes ps of Inr (kept, _) \<Rightarrow> kept | Inl _ \<Rightarrow> [])"

lemma derive_platforms_props:
  assumes "derive_platforms X excludes dir ps dv = Inr dv'"
  shows "dv_packages dv' = dv_packages dv @ concat (map (\<lambda>(platform, packages). map (\<lambda>p. (lp_name platform, located X dir p)) (kept_of X excludes packages)) ps)
     \<and> dv_total_packages dv' = dv_total_packages dv + length (concat (map (\<lambda>(platform, packages). kept_of X excludes packages) ps))
     \<and> (\<forall>(platform, packages) \<in> set ps. \<forall>p \<in> set (kept_of X excludes packages). shippable X (located X dir p))"
  using assms
proof (induction ps arbitrary: dv)
  case (Cons pp ps)
  obtain platform packages where pp: "pp = (platform, packages)" by fastforce
  from Cons.prems obtain kept removed dv1 where kept: "exclude_from X excludes packages = Inr (kept, removed)"
    and hashes: "validate_package_hashes kept = Inr ()"
    and add: "add_packages X dir platform kept (dv\<lparr>dv_total_packages := dv_total_packages dv + length kept,
        dv_total_excluded := dv_total_excluded dv + length removed, dv_removed := dv_removed dv @ removed\<rparr>) = Inr dv1"
    and rest: "derive_platforms X excludes dir ps dv1 = Inr dv'"
    unfolding pp by (auto simp: success_simps)
  have "kept_of X excludes packages = kept" by (simp add: kept_of_def kept)
  with Cons.IH [OF rest] add_packages_props [OF add] validated_hashes [OF hashes] show ?case unfolding pp by auto
qed simp

section \<open>Properties\<close>

text \<open>C20. The runtime lockfile ships exactly what was solved: it holds, platform by platform and in order, the packages of the
  source environment that exclusion keeps, each with a recorded SHA-256, and with a location that is a clean artifact
  URL or, for a local archive, an absolute path; its channels are clean artifact URLs, and an environment with PyPI
  packages is refused.\<close>

theorem derived_lock_exact:
  assumes "derive_lock_file X input env = Inr (lock, dv)"
  shows "rl_packages lock = concat (map (\<lambda>(platform, packages). map (\<lambda>p. (lp_name platform, located X (butlast (pj_lock_path input)) p))
         (kept_of X (sc_exclude_packages (pj_config input)) packages)) (se_conda env))
     \<and> (\<forall>(platform, p) \<in> set (rl_packages lock). shippable X p)
     \<and> (\<forall>channel \<in> set (rl_channels lock). validate_artifact_url (px_url X) channel = Inr ())
     \<and> rl_channels lock = se_channels env \<and> dv_total_packages dv = length (rl_packages lock) \<and> \<not> se_has_pypi env"
proof -
  let ?dv = "\<lparr>dv_packages = [], dv_names = [], dv_total_packages = 0, dv_total_excluded = 0, dv_removed = []\<rparr>"
  from assms have parts: "\<not> se_has_pypi env" "validate_channels X (se_channels env) = Inr ()"
    "derive_platforms X (sc_exclude_packages (pj_config input)) (butlast (pj_lock_path input)) (se_conda env) ?dv = Inr dv"
    "lock = \<lparr>rl_platforms = se_platforms env, rl_channels = se_channels env, rl_packages = dv_packages dv\<rparr>"
    by (auto simp: derive_lock_file_def success_simps split: if_splits)
  have channels: "validate_channels X cs = Inr () \<Longrightarrow> \<forall>c \<in> set cs. validate_artifact_url (px_url X) c = Inr ()" for cs
    by (induction cs) (auto simp: success_simps)
  have len: "length (concat (map (\<lambda>(platform, packages). map (g platform) (f packages)) ps)) = length (concat (map (\<lambda>(platform, packages). f packages) ps))"
    for f :: "conda_package list \<Rightarrow> conda_package list" and g :: "lock_platform \<Rightarrow> conda_package \<Rightarrow> string \<times> conda_package" and ps
    by (induction ps) auto
  note props = derive_platforms_props [OF parts(3)]
  from props have "\<forall>(platform, p) \<in> set (dv_packages dv). shippable X p" by fastforce
  with props parts channels [OF parts(2)] show ?thesis by (simp add: len)
qed

lemma resolve_dots_clean: "''..'' \<notin> set upper \<Longrightarrow> ''..'' \<notin> set (resolve_dots upper p)"
proof (induction upper p rule: resolve_dots.induct)
  case (2 upper c cs)
  then show ?case by (cases upper) auto
qed simp

lemma wp_canonical_path [wp_intros]:
  assumes "\<And>q. ''..'' \<notin> set q \<Longrightarrow> Q q s" "\<And>e. E e s" "C s"
  shows "wp (canonical_path p) Q E C s"
  unfolding canonical_path_def canonicalize_def
  by (auto intro!: wp_bindio wp_atomic_op wp_ret assms simp: resolve_dots_clean split: if_splits)

text \<open>What reading the condarc file below \<open>d\<close> gives.\<close>

definition confined_condarc :: "project_ext \<Rightarrow> fs \<Rightarrow> string option \<Rightarrow> bool" where
  "confined_condarc X s result \<longleftrightarrow> (\<exists>project_dir relative content contents mapping. result = Some contents
        \<and> ''..'' \<notin> set (project_dir @ relative) \<and> follow s project_dir = Some Directory
        \<and> follow s (project_dir @ relative) = Some (Regular content) \<and> px_utf8 X content = Inr contents
        \<and> px_yaml X contents = Inr (Yaml_Mapping mapping))"

lemma confined_condarcI:
  "''..'' \<notin> set (d @ relative) \<Longrightarrow> follow s d = Some Directory \<Longrightarrow> follow s (d @ relative) = Some (Regular content) \<Longrightarrow>
     px_utf8 X content = Inr contents \<Longrightarrow> px_yaml X contents = Inr (Yaml_Mapping mapping) \<Longrightarrow> confined_condarc X s (Some contents)"
  unfolding confined_condarc_def by blast

lemma wp_read_condarc_at:
  assumes "''..'' \<notin> set (d @ relative)" "follow s d = Some Directory"
  shows "wp (read_condarc_at X (d @ relative)) (\<lambda>result t. confined_condarc X s result \<and> t = s) (\<lambda>_ t. t = s) (\<lambda>t. t = s) s"
  unfolding read_condarc_at_def
  using assms by (intro wp_bindio wp_read_file wp_lift_result wp_ensure wp_ret) (auto intro: confined_condarcI split: yaml_value.splits)

lemma wp_read_condarc_below:
  assumes "''..'' \<notin> set d" "follow s d = Some Directory"
  shows "wp (read_condarc_below X d configured) (\<lambda>result t. confined_condarc X s result \<and> t = s) (\<lambda>_ t. t = s) (\<lambda>t. t = s) s"
  unfolding read_condarc_below_def
proof (intro wp_bindio wp_canonical_path wp_lift_result)
  fix p relative
  assume p: "''..'' \<notin> set p"
    and "ok_or ''condarc-file must resolve inside the selected manifest directory'' (strip_prefix d p) = Inr relative"
  then have "p = d @ relative" by (auto simp: success_simps strip_prefix_def split: if_splits) (metis append_take_drop_id)
  with p show "wp (read_condarc_at X (d @ relative)) (\<lambda>result t. confined_condarc X s result \<and> t = s) (\<lambda>_ t. t = s) (\<lambda>t. t = s) s"
    by (intro wp_read_condarc_at) (simp_all add: assms)
qed simp_all


section \<open>Instances\<close>

definition sample_project :: project_ext where
  "sample_project = \<lparr>px_current_dir = [''p''], px_toml = (\<lambda>_. Inr Toml_Other), px_manifest = (\<lambda>_. Inl Io_Failed),
     px_utf8 = (\<lambda>b. Inr (if b = [] then [] else ''{}'')), px_yaml = (\<lambda>_. Inr (Yaml_Mapping [])), px_yaml_render = (\<lambda>_. Inr []),
     px_lock = (\<lambda>_ _. Inr (\<lambda>_. None)), px_url = (\<lambda>_. Inl Io_Failed), px_platforms = (\<lambda>_. Inr ()),
     px_add_package = (\<lambda>_ _. Inr ()), px_render = (\<lambda>_. Inr []), px_dep_name = (\<lambda>s. s)\<rparr>"

definition sample_ship_config :: ship_config where
  "sample_ship_config = \<lparr>sc_runtime_name = None, sc_artifact_name = None, sc_runtime_version = None, sc_delegate_executable = None,
     sc_artifact_layout = None, sc_exclude_packages = [''a''], sc_source_environment = Some ''default'', sc_docs_url = None,
     sc_install_scheme = None, sc_install_name = None, sc_installer = None, sc_condarc_file = None, sc_freeze_base = False,
     sc_update = None\<rparr>"

definition sample_input :: project_input where
  "sample_input = \<lparr>pj_manifest_path = [''p'', ''conda.toml''], pj_manifest_kind = Conda_Toml, pj_lock_path = [''p'', ''conda.lock''],
     pj_config = sample_ship_config, pj_runtime_version = None, pj_runtime_version_source = None, pj_project_dynamic_version = False\<rparr>"

definition sample_environment :: source_environment where
  "sample_environment = \<lparr>se_platforms = [\<lparr>lp_name = ''linux-64'', lp_subdir = ''linux-64''\<rparr>], se_channels = [], se_has_pypi = False,
     se_conda = [(\<lparr>lp_name = ''linux-64'', lp_subdir = ''linux-64''\<rparr>, sample_packages)]\<rparr>"

lemma sample_kept: "filter_excluded (\<lambda>s. s) sample_packages [''a''] = Inr (drop 2 sample_packages, [''a'', ''b''])"
proof -
  have records: "package_records sample_packages = Inr (map (\<lambda>p. the (cp_record p)) sample_packages)"
    by (simp add: sample_packages_def package_record_of_def)
  show ?thesis
    unfolding filter_excluded_def records
    by (simp add: sample_removed) (simp add: sample_packages_def sample_package_def upt_rec)
qed

lemma derived_lock_exact_witness:
  "\<exists>lock dv. derive_lock_file sample_project sample_input sample_environment = Inr (lock, dv)
     \<and> map fst (rl_packages lock) = [''linux-64'', ''linux-64''] \<and> dv_total_packages dv = 2"
proof -
  have "\<exists>lock dv. derive_lock_file sample_project sample_input sample_environment = Inr (lock, dv)"
    by (simp add: derive_lock_file_def sample_project_def sample_input_def sample_environment_def sample_ship_config_def
        exclude_from_def sample_kept)
      (simp add: sample_packages_def sample_package_def validate_package_hashes_def package_record_of_def missing_hashes_def
        locate_package_def)
  then obtain lock dv where run: "derive_lock_file sample_project sample_input sample_environment = Inr (lock, dv)" by blast
  have "kept_of sample_project [''a''] sample_packages = drop 2 sample_packages"
    by (simp add: kept_of_def exclude_from_def sample_project_def sample_kept)
  with derived_lock_exact [OF run] run show ?thesis
    by (simp add: sample_environment_def sample_input_def sample_ship_config_def) (simp add: sample_packages_def)
qed


end
