(* ===== verification/Exec_Update.thy ===== *)
theory Exec_Update
  imports Runtime_Stamp Bootstrap
begin

text \<open>
  Replacement of the stamped executable (\<open>src/executable_update.rs\<close>): staging a candidate beside
  the executable, approving it, replacing the executable and recovering from interruptions, on
  Unix (one atomic rename) and on Windows (a worker copied to the backup path does the rename).
  \<open>update_ext\<close> holds what the functions take from outside: the parameters of the runtime data
  reader, the runtime data and path of the running executable, \<open>CreateProcessW\<close> and the advisory lock
  that tells whether an update helper is still running. Permissions are not modelled.
\<close>

section \<open>Environment\<close>

record update_ext =
  ue_json :: json_ext
  ue_codec :: codec_ext
  ue_pe :: pe_ext
  ue_macho :: macho_ext
  ue_current :: runtime_data
  ue_current_exe :: path
  ue_spawn :: "path \<Rightarrow> path \<Rightarrow> unit io"
  ue_lock_held :: bool

datatype update_outcome =
    Update_None | Update_Staged | Update_Ready | Update_Applied | Update_Replacement_Pending
  | Update_Cleanup_Pending | Update_Discarded_Staged | Update_Restored_Previous | Update_Reconciled

section \<open>Paths and digests\<close>

definition validate_sha256 :: "string \<Rightarrow> unit result" where
  "validate_sha256 value =
     (if length value \<noteq> 64 \<or> \<not> list_all is_ascii_hexdigit value \<or> list_ex is_ascii_uppercase value
      then Inl (Invalid ''invalid SHA-256 digest'') else Inr ())"

definition adjacent_update_path :: "path \<Rightarrow> string \<Rightarrow> string \<Rightarrow> path result" where
  "adjacent_update_path target digest suffix =
     rbind (validate_sha256 digest) (\<lambda>_.
     rbind (ok_or ''runtime executable has no parent directory'' (parent target)) (\<lambda>d.
     rbind (ok_or ''runtime executable name is not valid UTF-8'' (file_name target)) (\<lambda>name.
     Inr (d @ [''.'' @ name @ ''.conda-ship-'' @ take 16 digest @ ''.'' @ suffix]))))"

definition candidate_path :: "path \<Rightarrow> string \<Rightarrow> path result" where
  "candidate_path target digest = adjacent_update_path target digest ''new''"

definition backup_path :: "bool \<Rightarrow> path \<Rightarrow> string \<Rightarrow> path result" where
  "backup_path windows target digest = adjacent_update_path target digest (if windows then ''old.exe'' else ''old'')"

definition validate_pending_paths :: "bool \<Rightarrow> update_metadata \<Rightarrow> pending_update \<Rightarrow> unit result" where
  "validate_pending_paths windows update pending =
     rbind (validate_sha256 (xu_sha256 update)) (\<lambda>_.
     rbind (validate_sha256 (pe_executable_sha256 pending)) (\<lambda>_.
     rbind (candidate_path (snd (xu_executable update)) (pe_executable_sha256 pending)) (\<lambda>_.
     rbind (backup_path windows (snd (xu_executable update)) (xu_sha256 update)) (\<lambda>_. Inr ()))))"

definition pending_candidate_path :: "update_metadata \<Rightarrow> pending_update \<Rightarrow> path result" where
  "pending_candidate_path update pending = candidate_path (snd (xu_executable update)) (pe_executable_sha256 pending)"

definition pending_backup_path :: "bool \<Rightarrow> update_metadata \<Rightarrow> path result" where
  "pending_backup_path windows update = backup_path windows (snd (xu_executable update)) (xu_sha256 update)"

section \<open>Checks on files\<close>

definition require_regular_file :: "path \<Rightarrow> unit io" where
  "require_regular_file p = bindio (symlink_metadata p) (\<lambda>kind. ensure (kind = Is_File) ''not a regular file'')"

definition regular_file_present :: "path \<Rightarrow> bool io" where
  "regular_file_present p =
     bindio (tryio (symlink_metadata p)) (\<lambda>r. case r of
       Inr kind \<Rightarrow> if kind \<noteq> Is_File then fail (Invalid ''not a regular file'') else ret True
     | Inl e \<Rightarrow> if e = Not_Found then ret False else fail e)"

definition sha256_hex :: "update_ext \<Rightarrow> path \<Rightarrow> string io" where
  "sha256_hex E p = bindio (read_file p) (\<lambda>b. ret (hex (sha256 (ue_codec E) b)))"

text \<open>The stamp names the managed runtime, in the version asked for.\<close>

definition header_matches :: "prefix_metadata \<Rightarrow> update_metadata \<Rightarrow> string \<Rightarrow> runtime_header \<Rightarrow> bool" where
  "header_matches meta update version header =
     (h_artifact_name header = xu_artifact_name update \<and> h_runtime_name header = pm_display_name meta
      \<and> h_install_name header = pm_install_name meta \<and> h_metadata_file header = pm_metadata_file meta
      \<and> h_runtime_version header = version
      \<and> (case h_update header of None \<Rightarrow> False
         | Some hu \<Rightarrow> u_channel hu = xu_channel update \<and> u_package hu = xu_package update)
      \<and> (case pm_delegate_executable meta of None \<Rightarrow> True
         | Some delegate \<Rightarrow> h_delegate_executable header = delegate))"

definition verify_stamped_file ::
    "update_ext \<Rightarrow> prefix_metadata \<Rightarrow> update_metadata \<Rightarrow> path \<Rightarrow> string \<Rightarrow> string \<Rightarrow> unit io" where
  "verify_stamped_file E meta update p version expected_sha256 =
     bindio (lift_result (validate_sha256 expected_sha256)) (\<lambda>_.
     bindio (sha256_hex E p) (\<lambda>actual_sha256.
     bindio (ensure (actual_sha256 = expected_sha256) ''runtime executable digest mismatch'') (\<lambda>_.
     bindio (read_file p) (\<lambda>b.
     bindio (lift_result (read_from_file (ue_codec E) (ue_pe E) (ue_macho E) p b)) (\<lambda>data.
     bindio (lift_result (ok_or ''runtime executable is not stamped'' data)) (\<lambda>data.
     bindio (ensure (header_matches meta update version (rd_header data))
       ''runtime executable stamp does not match the managed runtime'') (\<lambda>_.
     case rd_bundle data of
       None \<Rightarrow> ret ()
     | Some e \<Rightarrow> bindio (read_file p) (\<lambda>b. lift_result (verify_bundle (ue_codec E) b e)))))))))"

datatype file_version = Missing_File | Old_File | New_File

record file_state =
  fv_target :: file_version
  fv_candidate :: file_version
  fv_backup :: file_version

definition staged_state :: file_state where
  "staged_state = \<lparr>fv_target = Old_File, fv_candidate = New_File, fv_backup = Missing_File\<rparr>"

definition classify_target ::
    "update_ext \<Rightarrow> prefix_metadata \<Rightarrow> update_metadata \<Rightarrow> pending_update \<Rightarrow> file_version io" where
  "classify_target E meta update pending =
     (let target = snd (xu_executable update) in
      bindio (regular_file_present target) (\<lambda>present.
      if \<not> present then ret Missing_File
      else bindio (sha256_hex E target) (\<lambda>digest.
        if digest = xu_sha256 update
        then bindio (verify_stamped_file E meta update target (pm_version meta) (xu_sha256 update)) (\<lambda>_. ret Old_File)
        else if digest = pe_executable_sha256 pending
        then bindio (verify_stamped_file E meta update target (pe_version pending) (pe_executable_sha256 pending))
               (\<lambda>_. ret New_File)
        else fail (Invalid ''installed runtime executable matches neither recorded update digest''))))"

definition classify_role_file ::
    "update_ext \<Rightarrow> prefix_metadata \<Rightarrow> update_metadata \<Rightarrow> path \<Rightarrow> string \<Rightarrow> string \<Rightarrow> file_version \<Rightarrow> file_version io" where
  "classify_role_file E meta update p version digest found =
     bindio (regular_file_present p) (\<lambda>present.
     if \<not> present then ret Missing_File
     else bindio (verify_stamped_file E meta update p version digest) (\<lambda>_. ret found))"

definition classify_files ::
    "bool \<Rightarrow> update_ext \<Rightarrow> prefix_metadata \<Rightarrow> update_metadata \<Rightarrow> pending_update \<Rightarrow> file_state io" where
  "classify_files windows E meta update pending =
     bindio (classify_target E meta update pending) (\<lambda>target.
     bindio (lift_result (pending_candidate_path update pending)) (\<lambda>cp.
     bindio (classify_role_file E meta update cp (pe_version pending) (pe_executable_sha256 pending) New_File) (\<lambda>candidate.
     bindio (lift_result (pending_backup_path windows update)) (\<lambda>bp.
     bindio (classify_role_file E meta update bp (pm_version meta) (xu_sha256 update) Old_File) (\<lambda>backup.
     ret \<lparr>fv_target = target, fv_candidate = candidate, fv_backup = backup\<rparr>)))))"

definition invalid_recovery_state :: "'a io" where
  "invalid_recovery_state = fail (Invalid ''cannot recover runtime executable update'')"

section \<open>Metadata\<close>

definition validate_current_metadata :: "update_ext \<Rightarrow> prefix_metadata \<Rightarrow> string \<Rightarrow> unit result" where
  "validate_current_metadata E meta metadata_file =
     (if rd_stamped (ue_current E)
      then validate_metadata_ready_for meta (h_runtime_name (rd_header (ue_current E)))
             (h_install_name (rd_header (ue_current E))) metadata_file
      else validate_metadata_ready_for meta (pm_display_name meta) (pm_install_name meta) metadata_file)"

definition read_owned_metadata :: "update_ext \<Rightarrow> path \<Rightarrow> string \<Rightarrow> prefix_metadata io" where
  "read_owned_metadata E prefix metadata_file =
     bindio (read_metadata_for (ue_json E) prefix metadata_file) (\<lambda>meta.
     bindio (lift_result (validate_current_metadata E meta metadata_file)) (\<lambda>_.
     bindio (ensure (pm_update meta \<noteq> None) ''runtime metadata does not configure executable updates'') (\<lambda>_.
     ret meta)))"

definition direct_update :: "prefix_metadata \<Rightarrow> update_metadata result" where
  "direct_update meta =
     rbind (ok_or ''runtime executable updates are not configured'' (pm_update meta)) (\<lambda>update.
     if xu_ownership update \<noteq> Direct
     then Inl (Invalid ''runtime executable is managed by an external package manager'')
     else if \<not> is_absolute (xu_executable update)
     then Inl (Invalid ''recorded runtime executable path is not absolute'')
     else if xu_artifact_name update = [] \<or> xu_channel update = [] \<or> xu_package update = []
     then Inl (Invalid ''runtime executable update metadata is incomplete'')
     else rbind (validate_sha256 (xu_sha256 update)) (\<lambda>_. Inr update))"

definition map_update :: "(update_metadata \<Rightarrow> update_metadata) \<Rightarrow> prefix_metadata \<Rightarrow> prefix_metadata" where
  "map_update f meta = meta\<lparr>pm_update := map_option f (pm_update meta)\<rparr>"

definition commit_new_version :: "prefix_metadata \<Rightarrow> prefix_metadata" where
  "commit_new_version meta =
     (case pm_update meta of None \<Rightarrow> meta
      | Some update \<Rightarrow> (case xu_pending update of None \<Rightarrow> meta
        | Some pending \<Rightarrow>
            meta\<lparr>pm_update := Some (update\<lparr>xu_build_number := pe_build_number pending,
                                           xu_sha256 := pe_executable_sha256 pending\<rparr>),
                 pm_version := pe_version pending\<rparr>))"

definition set_phase :: "pending_phase \<Rightarrow> prefix_metadata \<Rightarrow> prefix_metadata" where
  "set_phase phase = map_update (\<lambda>u. u\<lparr>xu_pending := map_option (\<lambda>p. p\<lparr>pe_phase := phase\<rparr>) (xu_pending u)\<rparr>)"

definition clear_pending :: "prefix_metadata \<Rightarrow> prefix_metadata" where
  "clear_pending = map_update (\<lambda>u. u\<lparr>xu_pending := None\<rparr>)"

definition set_pending :: "pending_update \<Rightarrow> prefix_metadata \<Rightarrow> prefix_metadata" where
  "set_pending p = map_update (\<lambda>u. u\<lparr>xu_pending := Some p\<rparr>)"

section \<open>Staging\<close>

text \<open>\<open>set_permissions\<close> and \<open>sync_parent\<close> only look at what is there.\<close>

definition set_permissions :: "path \<Rightarrow> unit io" where
  "set_permissions p = atomic_op (\<lambda>s. if follow s p = None then Inl Not_Found else Inr ((), s))"

definition sync_parent :: "bool \<Rightarrow> path \<Rightarrow> unit io" where
  "sync_parent windows p =
     (if windows then ret ()
      else atomic_op (\<lambda>s. if parent_exists s p then Inr ((), s) else Inl Not_Found))"

definition stage_file :: "bool \<Rightarrow> path \<Rightarrow> path \<Rightarrow> path \<Rightarrow> bool io" where
  "stage_file windows source candidate target =
     bindio (ensure (source \<noteq> candidate) ''update candidate source is already the staging path'') (\<lambda>_.
     bindio (regular_file_present candidate) (\<lambda>present.
     if present then ret False
     else
       let temporary = with_extension candidate ''new.tmp'' in
       bindio (regular_file_present temporary) (\<lambda>incomplete.
       bindio (if incomplete then remove_file temporary else ret ()) (\<lambda>_.
       bindio (metadata_follow target) (\<lambda>_.
       bindio (read_file source) (\<lambda>input.
       bindio (tryio
         (bindio (create_new temporary) (\<lambda>_.
          bindio (write_all temporary input) (\<lambda>_.
          bindio (set_permissions temporary) (\<lambda>_.
          bindio sync (\<lambda>_.
          bindio (rename temporary candidate) (\<lambda>_.
          sync_parent windows candidate))))))) (\<lambda>result. case result of
         Inr _ \<Rightarrow> ret True
       | Inl e \<Rightarrow> bindio (tryio (remove_file temporary)) (\<lambda>_. fail e))))))))"

definition stage_candidate ::
    "bool \<Rightarrow> update_ext \<Rightarrow> path \<Rightarrow> string \<Rightarrow> path \<Rightarrow> string \<Rightarrow> nat \<Rightarrow> update_outcome io" where
  "stage_candidate windows E prefix metadata_file source version build_number =
     bindio (acquire_lock prefix) (\<lambda>_.
     bindio (read_owned_metadata E prefix metadata_file) (\<lambda>meta.
     bindio (lift_result (direct_update meta)) (\<lambda>update.
     let executable = snd (xu_executable update) in
     bindio (ensure (xu_pending update = None) ''a runtime executable update is already pending'') (\<lambda>_.
     bindio (require_regular_file source) (\<lambda>_.
     bindio (require_regular_file executable) (\<lambda>_.
     bindio (verify_stamped_file E meta update executable (pm_version meta) (xu_sha256 update)) (\<lambda>_.
     bindio (sha256_hex E source) (\<lambda>new_sha256.
     bindio (verify_stamped_file E meta update source version new_sha256) (\<lambda>_.
     bindio (ensure (new_sha256 \<noteq> xu_sha256 update)
       ''selected runtime executable is identical to the installed executable'') (\<lambda>_.
     bindio (lift_result (candidate_path executable new_sha256)) (\<lambda>candidate.
     bindio (lift_result (backup_path windows executable (xu_sha256 update))) (\<lambda>backup.
     bindio (regular_file_present backup) (\<lambda>backup_present.
     bindio (ensure (\<not> backup_present) ''refusing to stage an update while a previous executable backup exists'') (\<lambda>_.
     bindio (regular_file_present candidate) (\<lambda>candidate_present.
     bindio (if candidate_present
             then bindio (tryio (verify_stamped_file E meta update candidate version new_sha256)) (\<lambda>verified.
               case verified of
                 Inr _ \<Rightarrow> ret False
               | Inl _ \<Rightarrow> bindio (remove_file candidate) (\<lambda>_. stage_file windows source candidate executable))
             else stage_file windows source candidate executable) (\<lambda>created.
     bindio (tryio (verify_stamped_file E meta update candidate version new_sha256)) (\<lambda>staged_result.
     case staged_result of
       Inl e \<Rightarrow> bindio (if created then bindio (tryio (remove_file candidate)) (\<lambda>_. ret ()) else ret ()) (\<lambda>_. fail e)
     | Inr _ \<Rightarrow>
         bindio (tryio (persist_metadata_for (ue_json E) prefix metadata_file
           (set_pending \<lparr>pe_phase = Staged, pe_version = version, pe_build_number = build_number,
                         pe_executable_sha256 = new_sha256\<rparr> meta))) (\<lambda>persisted. case persisted of
           Inl e \<Rightarrow> bindio (if created then bindio (tryio (remove_file candidate)) (\<lambda>_. ret ()) else ret ()) (\<lambda>_. fail e)
         | Inr _ \<Rightarrow> ret Update_Staged))))))))))))))))))"

section \<open>Approval\<close>

definition mark_pending_ready :: "bool \<Rightarrow> update_ext \<Rightarrow> path \<Rightarrow> string \<Rightarrow> update_outcome io" where
  "mark_pending_ready windows E prefix metadata_file =
     bindio (acquire_lock prefix) (\<lambda>_.
     bindio (read_owned_metadata E prefix metadata_file) (\<lambda>meta.
     bindio (lift_result (direct_update meta)) (\<lambda>update.
     case xu_pending update of
       None \<Rightarrow> ret Update_None
     | Some pending \<Rightarrow>
         bindio (lift_result (validate_pending_paths windows update pending)) (\<lambda>_.
         if pe_phase pending = Staged then
           bindio (classify_files windows E meta update pending) (\<lambda>files.
           if files \<noteq> staged_state then invalid_recovery_state
           else bindio (persist_metadata_for (ue_json E) prefix metadata_file (set_phase Ready meta)) (\<lambda>_.
                ret Update_Ready))
         else if pe_phase pending = Ready then ret Update_Ready
         else fail (Invalid ''cannot approve a runtime executable update in this phase'')))))"

section \<open>Replacement and recovery on Unix\<close>

definition replace_candidate :: "update_ext \<Rightarrow> path \<Rightarrow> string \<Rightarrow> prefix_metadata \<Rightarrow> update_outcome io" where
  "replace_candidate E prefix metadata_file meta =
     bindio (lift_result (direct_update meta)) (\<lambda>update. case xu_pending update of
       None \<Rightarrow> fail (Invalid ''replacement requires pending metadata'')
     | Some pending \<Rightarrow>
         bindio (lift_result (candidate_path (snd (xu_executable update)) (pe_executable_sha256 pending))) (\<lambda>candidate.
         bindio (rename candidate (snd (xu_executable update))) (\<lambda>_.
         bindio (persist_metadata_for (ue_json E) prefix metadata_file (clear_pending (commit_new_version meta))) (\<lambda>_.
         ret Update_Applied))))"

definition apply_or_recover_locked :: "update_ext \<Rightarrow> path \<Rightarrow> string \<Rightarrow> prefix_metadata \<Rightarrow> update_outcome io" where
  "apply_or_recover_locked E prefix metadata_file meta =
     bindio (lift_result (direct_update meta)) (\<lambda>update.
     bindio (lift_result (ok_or ''no runtime executable update is pending'' (xu_pending update))) (\<lambda>pending.
     bindio (lift_result (validate_pending_paths False update pending)) (\<lambda>_.
     bindio (classify_files False E meta update pending) (\<lambda>files.
     if pe_phase pending = Ready \<and> files = staged_state then
       bindio (persist_metadata_for (ue_json E) prefix metadata_file (set_phase Replacing meta)) (\<lambda>_.
       replace_candidate E prefix metadata_file (set_phase Replacing meta))
     else if pe_phase pending = Replacing \<and> files = staged_state then
       replace_candidate E prefix metadata_file meta
     else if pe_phase pending = Replacing
       \<and> files = \<lparr>fv_target = New_File, fv_candidate = Missing_File, fv_backup = Missing_File\<rparr> then
       bindio (persist_metadata_for (ue_json E) prefix metadata_file (clear_pending (commit_new_version meta))) (\<lambda>_.
       ret Update_Applied)
     else if (pe_phase pending = Ready \<or> pe_phase pending = Replacing)
       \<and> files = \<lparr>fv_target = Old_File, fv_candidate = Missing_File, fv_backup = Missing_File\<rparr> then
       bindio (persist_metadata_for (ue_json E) prefix metadata_file (clear_pending meta)) (\<lambda>_.
       ret Update_Restored_Previous)
     else invalid_recovery_state))))"

definition finish_cleanup_locked :: "bool \<Rightarrow> update_ext \<Rightarrow> path \<Rightarrow> string \<Rightarrow> prefix_metadata \<Rightarrow> update_outcome io" where
  "finish_cleanup_locked windows E prefix metadata_file meta =
     bindio (lift_result (direct_update meta)) (\<lambda>update.
     bindio (lift_result (ok_or ''no runtime executable cleanup is pending'' (xu_pending update))) (\<lambda>pending.
     bindio (lift_result (validate_pending_paths windows update pending)) (\<lambda>_.
     bindio (classify_files windows E meta update pending) (\<lambda>files.
     if files = \<lparr>fv_target = New_File, fv_candidate = Missing_File, fv_backup = Old_File\<rparr> then
       bindio (lift_result (pending_backup_path windows update)) (\<lambda>backup.
       bindio (tryio (remove_file backup)) (\<lambda>removed.
       if removed = Inr () \<or> removed = Inl Not_Found then
         bindio (persist_metadata_for (ue_json E) prefix metadata_file (clear_pending (commit_new_version meta))) (\<lambda>_.
         ret Update_Applied)
       else ret Update_Cleanup_Pending))
     else if files = \<lparr>fv_target = New_File, fv_candidate = Missing_File, fv_backup = Missing_File\<rparr> then
       bindio (persist_metadata_for (ue_json E) prefix metadata_file (clear_pending (commit_new_version meta))) (\<lambda>_.
       ret Update_Applied)
     else invalid_recovery_state))))"

section \<open>Replacement and recovery on Windows\<close>

definition remove_update_file_if_present :: "path \<Rightarrow> unit io" where
  "remove_update_file_if_present p =
     bindio (regular_file_present p) (\<lambda>present. if present then remove_file p else ret ())"

text \<open>The worker runs from a copy of the old executable at the backup path.\<close>

definition stage_windows_worker_backup :: "update_ext \<Rightarrow> prefix_metadata \<Rightarrow> update_metadata \<Rightarrow> unit io" where
  "stage_windows_worker_backup E meta update =
     bindio (lift_result (pending_backup_path True update)) (\<lambda>backup.
     let temporary = with_extension backup ''tmp.exe''; executable = snd (xu_executable update) in
     bindio (regular_file_present backup) (\<lambda>present.
     if present then
       bindio (verify_stamped_file E meta update backup (pm_version meta) (xu_sha256 update)) (\<lambda>_.
       remove_update_file_if_present temporary)
     else
       bindio (regular_file_present temporary) (\<lambda>incomplete.
       bindio (if \<not> incomplete then ret ()
               else bindio (tryio (verify_stamped_file E meta update temporary (pm_version meta) (xu_sha256 update)))
                      (\<lambda>verified. if is_ok verified then ret () else remove_file temporary)) (\<lambda>_.
       bindio (stage_file True executable temporary executable) (\<lambda>_.
       bindio (verify_stamped_file E meta update temporary (pm_version meta) (xu_sha256 update)) (\<lambda>_.
       bindio (rename temporary backup) (\<lambda>_.
       verify_stamped_file E meta update backup (pm_version meta) (xu_sha256 update))))))))"

definition prepare_windows_worker_locked ::
    "update_ext \<Rightarrow> path \<Rightarrow> string \<Rightarrow> prefix_metadata \<Rightarrow> path io" where
  "prepare_windows_worker_locked E prefix metadata_file meta =
     bindio (lift_result (direct_update meta)) (\<lambda>update.
     bindio (stage_windows_worker_backup E meta update) (\<lambda>_.
     bindio (persist_metadata_for (ue_json E) prefix metadata_file (set_phase Replacing meta)) (\<lambda>_.
     lift_result (pending_backup_path True update))))"

definition prepare_and_spawn_windows_worker_locked ::
    "update_ext \<Rightarrow> path \<Rightarrow> string \<Rightarrow> prefix_metadata \<Rightarrow> update_outcome io" where
  "prepare_and_spawn_windows_worker_locked E prefix metadata_file meta =
     bindio (prepare_windows_worker_locked E prefix metadata_file meta) (\<lambda>worker.
     bindio (require_regular_file worker) (\<lambda>_.
     bindio (ue_spawn E prefix worker) (\<lambda>_.
     ret Update_Replacement_Pending)))"

definition abandon_missing_candidate ::
    "update_ext \<Rightarrow> path \<Rightarrow> string \<Rightarrow> prefix_metadata \<Rightarrow> file_version \<Rightarrow> update_outcome io" where
  "abandon_missing_candidate E prefix metadata_file meta backup =
     bindio (if backup = Old_File then
               bindio (lift_result (direct_update meta)) (\<lambda>update.
               bindio (lift_result (pending_backup_path True update)) (\<lambda>p.
               bindio (tryio (remove_file p)) (\<lambda>removed.
               ret (removed = Inr () \<or> removed = Inl Not_Found))))
             else ret True) (\<lambda>gone.
     if \<not> gone then ret Update_Cleanup_Pending
     else bindio (persist_metadata_for (ue_json E) prefix metadata_file (clear_pending meta)) (\<lambda>_.
          ret Update_Restored_Previous))"

definition recover_or_schedule_windows_locked ::
    "update_ext \<Rightarrow> path \<Rightarrow> string \<Rightarrow> prefix_metadata \<Rightarrow> update_outcome io" where
  "recover_or_schedule_windows_locked E prefix metadata_file meta =
     bindio (lift_result (direct_update meta)) (\<lambda>update.
     bindio (lift_result (ok_or ''no runtime executable update is pending'' (xu_pending update))) (\<lambda>pending.
     bindio (lift_result (validate_pending_paths True update pending)) (\<lambda>_.
     bindio (classify_files True E meta update pending) (\<lambda>files.
     bindio (lift_result (pending_backup_path True update)) (\<lambda>backup.
     let executable = snd (xu_executable update); phase = pe_phase pending in
     if (phase = Ready \<or> phase = Replacing) \<and> fv_target files = Old_File \<and> fv_candidate files = New_File
        \<and> fv_backup files \<noteq> New_File then
       prepare_and_spawn_windows_worker_locked E prefix metadata_file meta
     else if (phase = Ready \<or> phase = Replacing) \<and> fv_target files = Old_File \<and> fv_candidate files = Missing_File
        \<and> fv_backup files \<noteq> New_File then
       abandon_missing_candidate E prefix metadata_file meta (fv_backup files)
     else if phase = Replacing
        \<and> files = \<lparr>fv_target = Missing_File, fv_candidate = New_File, fv_backup = Old_File\<rparr> then
       bindio (rename backup executable) (\<lambda>_.
       prepare_and_spawn_windows_worker_locked E prefix metadata_file meta)
     else if phase = Replacing
        \<and> files = \<lparr>fv_target = New_File, fv_candidate = Missing_File, fv_backup = Old_File\<rparr> then
       bindio (persist_metadata_for (ue_json E) prefix metadata_file (set_phase Cleanup meta)) (\<lambda>_.
       finish_cleanup_locked True E prefix metadata_file (set_phase Cleanup meta))
     else if phase = Replacing
        \<and> files = \<lparr>fv_target = New_File, fv_candidate = Missing_File, fv_backup = Missing_File\<rparr> then
       bindio (persist_metadata_for (ue_json E) prefix metadata_file (clear_pending (commit_new_version meta))) (\<lambda>_.
       ret Update_Applied)
     else if phase = Replacing
        \<and> files = \<lparr>fv_target = Missing_File, fv_candidate = Missing_File, fv_backup = Old_File\<rparr> then
       bindio (rename backup executable) (\<lambda>_.
       bindio (persist_metadata_for (ue_json E) prefix metadata_file (clear_pending meta)) (\<lambda>_.
       ret Update_Restored_Previous))
     else invalid_recovery_state)))))"

definition validate_windows_worker_path :: "update_ext \<Rightarrow> path \<Rightarrow> unit io" where
  "validate_windows_worker_path E p =
     bindio (canonicalize (ue_current_exe E)) (\<lambda>current.
     bindio (canonicalize p) (\<lambda>expected.
     ensure (current = expected) ''runtime replacement can only run from the recorded update worker''))"

datatype windows_worker_attempt = Worker_Complete | Worker_Retry err

definition run_windows_worker_once :: "update_ext \<Rightarrow> path \<Rightarrow> string \<Rightarrow> windows_worker_attempt io" where
  "run_windows_worker_once E prefix metadata_file =
     bindio (acquire_lock prefix) (\<lambda>_.
     bindio (read_owned_metadata E prefix metadata_file) (\<lambda>meta.
     bindio (lift_result (direct_update meta)) (\<lambda>update.
     case xu_pending update of
       None \<Rightarrow> ret Worker_Complete
     | Some pending \<Rightarrow>
         bindio (lift_result (validate_pending_paths True update pending)) (\<lambda>_.
         bindio (lift_result (pending_candidate_path update pending)) (\<lambda>candidate.
         bindio (lift_result (pending_backup_path True update)) (\<lambda>backup.
         bindio (validate_windows_worker_path E backup) (\<lambda>_.
         bindio (classify_files True E meta update pending) (\<lambda>files.
         if pe_phase pending = Replacing
            \<and> files = \<lparr>fv_target = Old_File, fv_candidate = New_File, fv_backup = Old_File\<rparr> then
           bindio (tryio (rename candidate (snd (xu_executable update)))) (\<lambda>r. case r of
             Inl e \<Rightarrow> ret (Worker_Retry e)
           | Inr _ \<Rightarrow>
               bindio (classify_target E meta update pending) (\<lambda>target.
               bindio (ensure (target = New_File) ''runtime update worker did not install the selected executable'') (\<lambda>_.
               bindio (persist_metadata_for (ue_json E) prefix metadata_file (set_phase Cleanup meta)) (\<lambda>_.
               ret Worker_Complete))))
         else if (pe_phase pending = Replacing \<or> pe_phase pending = Cleanup)
            \<and> files = \<lparr>fv_target = New_File, fv_candidate = Missing_File, fv_backup = Old_File\<rparr> then
           bindio (persist_metadata_for (ue_json E) prefix metadata_file (set_phase Cleanup meta)) (\<lambda>_.
           ret Worker_Complete)
         else invalid_recovery_state))))))))"

text \<open>The loop with its deadline: \<open>n\<close> is the number of attempts that fit before it.\<close>

fun run_windows_worker :: "nat \<Rightarrow> update_ext \<Rightarrow> path \<Rightarrow> string \<Rightarrow> unit io" where
  "run_windows_worker n E prefix metadata_file =
     bindio (run_windows_worker_once E prefix metadata_file) (\<lambda>attempt. case attempt of
       Worker_Complete \<Rightarrow> ret ()
     | Worker_Retry e \<Rightarrow> (case n of 0 \<Rightarrow> fail e | Suc m \<Rightarrow> run_windows_worker m E prefix metadata_file))"

section \<open>Entry points\<close>

definition apply_pending :: "bool \<Rightarrow> update_ext \<Rightarrow> path \<Rightarrow> string \<Rightarrow> update_outcome io" where
  "apply_pending windows E prefix metadata_file =
     bindio (acquire_lock prefix) (\<lambda>_.
     bindio (read_owned_metadata E prefix metadata_file) (\<lambda>meta.
     bindio (lift_result (direct_update meta)) (\<lambda>update.
     case map_option pe_phase (xu_pending update) of
       None \<Rightarrow> ret Update_None
     | Some Staged \<Rightarrow> fail (Invalid ''runtime executable update has not been approved'')
     | Some Cleanup \<Rightarrow> finish_cleanup_locked windows E prefix metadata_file meta
     | Some _ \<Rightarrow> if windows then recover_or_schedule_windows_locked E prefix metadata_file meta
                 else apply_or_recover_locked E prefix metadata_file meta)))"

definition update_lock_path :: "path \<Rightarrow> string \<Rightarrow> path result" where
  "update_lock_path prefix metadata_file =
     (case strip_suffix ''.json'' metadata_file of
        Some stem \<Rightarrow> if starts_with ''.'' stem \<and> length stem > 1 then Inr (join prefix (stem @ ''.update.lock''))
                     else Inl (Invalid ''invalid runtime metadata filename'')
      | None \<Rightarrow> Inl (Invalid ''invalid runtime metadata filename''))"

definition update_lock_is_held :: "update_ext \<Rightarrow> path \<Rightarrow> string \<Rightarrow> bool io" where
  "update_lock_is_held E prefix metadata_file =
     bindio (lift_result (update_lock_path prefix metadata_file)) (\<lambda>p.
     bindio (read_file p) (\<lambda>_.
     ret (ue_lock_held E)))"

definition ensure_update_lock :: "path \<Rightarrow> string \<Rightarrow> unit io" where
  "ensure_update_lock prefix metadata_file =
     bindio (lift_result (update_lock_path prefix metadata_file)) (\<lambda>p.
     bindio (tryio (symlink_metadata p)) (\<lambda>r. case r of
       Inr kind \<Rightarrow> ensure (kind = Is_File) ''runtime update coordination lock is not a regular file''
     | Inl e \<Rightarrow> if e \<noteq> Not_Found then fail e
         else bindio (create_new p) (\<lambda>_. bindio (write_all p [0]) (\<lambda>_. sync))))"

text \<open>The arm of \<open>recover_pending_with\<close> for a candidate that was never approved: \<open>discard_candidate\<close> removes it,
  unless the helper that staged it still runs.\<close>

definition discard_candidate :: "update_ext \<Rightarrow> path \<Rightarrow> string \<Rightarrow> bool \<Rightarrow> path \<Rightarrow> file_state \<Rightarrow> bool io" where
  "discard_candidate E prefix metadata_file discard_staged candidate files =
     (if files = staged_state then
        bindio (if discard_staged then ret False else update_lock_is_held E prefix metadata_file) (\<lambda>held.
        if held then ret False else bindio (remove_file candidate) (\<lambda>_. ret True))
      else if files = \<lparr>fv_target = Old_File, fv_candidate = Missing_File, fv_backup = Missing_File\<rparr>
      then ret True
      else invalid_recovery_state)"

definition recover_staged_locked :: "bool \<Rightarrow> update_ext \<Rightarrow> path \<Rightarrow> string \<Rightarrow> prefix_metadata \<Rightarrow> bool \<Rightarrow> update_outcome io" where
  "recover_staged_locked windows E prefix metadata_file meta discard_staged =
     bindio (lift_result (direct_update meta)) (\<lambda>update.
     bindio (lift_result (ok_or ''no runtime executable update is pending'' (xu_pending update))) (\<lambda>pending.
     bindio (lift_result (validate_pending_paths windows update pending)) (\<lambda>_.
     bindio (classify_files windows E meta update pending) (\<lambda>files.
     bindio (lift_result (pending_candidate_path update pending)) (\<lambda>candidate.
     bindio (discard_candidate E prefix metadata_file discard_staged candidate files) (\<lambda>discard.
     if \<not> discard then ret Update_Staged
     else bindio (persist_metadata_for (ue_json E) prefix metadata_file (clear_pending meta)) (\<lambda>_.
          ret Update_Discarded_Staged)))))))"

definition recover_pending_with :: "bool \<Rightarrow> update_ext \<Rightarrow> path \<Rightarrow> string \<Rightarrow> bool \<Rightarrow> update_outcome io" where
  "recover_pending_with windows E prefix metadata_file discard_staged =
     bindio (acquire_lock prefix) (\<lambda>_.
     bindio (read_metadata_for (ue_json E) prefix metadata_file) (\<lambda>meta.
     bindio (lift_result (validate_current_metadata E meta metadata_file)) (\<lambda>_.
     case (case pm_update meta of None \<Rightarrow> None | Some update \<Rightarrow> map_option pe_phase (xu_pending update)) of
       None \<Rightarrow> ret Update_None
     | Some Staged \<Rightarrow> recover_staged_locked windows E prefix metadata_file meta discard_staged
     | Some Cleanup \<Rightarrow> finish_cleanup_locked windows E prefix metadata_file meta
     | Some _ \<Rightarrow> if windows then recover_or_schedule_windows_locked E prefix metadata_file meta
                 else apply_or_recover_locked E prefix metadata_file meta)))"

definition recover_pending :: "bool \<Rightarrow> update_ext \<Rightarrow> path \<Rightarrow> string \<Rightarrow> update_outcome io" where
  "recover_pending windows E prefix metadata_file = recover_pending_with windows E prefix metadata_file False"

definition discard_unapproved :: "bool \<Rightarrow> update_ext \<Rightarrow> path \<Rightarrow> string \<Rightarrow> update_outcome io" where
  "discard_unapproved windows E prefix metadata_file = recover_pending_with windows E prefix metadata_file True"

section \<open>Recording what the executable is\<close>

definition update_source_changed :: "update_metadata \<Rightarrow> string \<Rightarrow> string \<Rightarrow> string \<Rightarrow> bool" where
  "update_source_changed previous artifact_name channel package =
     ((xu_artifact_name previous \<noteq> [] \<and> xu_artifact_name previous \<noteq> artifact_name)
      \<or> (xu_channel previous \<noteq> [] \<and> xu_channel previous \<noteq> channel)
      \<or> (xu_package previous \<noteq> [] \<and> xu_package previous \<noteq> package))"

definition update_initialized :: "update_metadata \<Rightarrow> bool" where
  "update_initialized previous =
     (snd (xu_executable previous) \<noteq> [] \<or> fst (xu_executable previous) \<or> xu_artifact_name previous \<noteq> []
      \<or> xu_sha256 previous \<noteq> [])"

text \<open>Everything but the digest, the package source and the pending update is as recorded.\<close>

definition same_installation :: "update_metadata \<Rightarrow> update_metadata \<Rightarrow> bool" where
  "same_installation previous wanted =
     (xu_executable previous = xu_executable wanted \<and> xu_ownership previous = xu_ownership wanted
      \<and> xu_installation previous = xu_installation wanted \<and> xu_artifact_name previous = xu_artifact_name wanted
      \<and> xu_channel previous = xu_channel wanted \<and> xu_package previous = xu_package wanted
      \<and> xu_build_number previous = xu_build_number wanted \<and> xu_instruction previous = xu_instruction wanted
      \<and> xu_sha256 previous = xu_sha256 wanted)"

definition reconcile_current_executable ::
    "update_ext \<Rightarrow> path \<Rightarrow> string \<Rightarrow> update_metadata \<Rightarrow> string \<Rightarrow> update_outcome io" where
  "reconcile_current_executable E prefix metadata_file wanted runtime_version =
     (let executable = snd (xu_executable wanted); runtime_digest = xu_sha256 wanted;
          replacement = wanted\<lparr>xu_pending := None\<rparr> in
      bindio (acquire_lock prefix) (\<lambda>_.
      bindio (read_metadata_for (ue_json E) prefix metadata_file) (\<lambda>meta.
      bindio (lift_result (validate_current_metadata E meta metadata_file)) (\<lambda>_.
      bindio (lift_result (validate_sha256 runtime_digest)) (\<lambda>_.
      bindio (sha256_hex E executable) (\<lambda>actual_digest.
      bindio (ensure (actual_digest = runtime_digest) ''runtime executable digest does not match the recorded digest'') (\<lambda>_.
      let unchanged = (\<lambda>previous. same_installation previous wanted \<and> pm_version meta = runtime_version) in
      case pm_update meta of
        Some previous \<Rightarrow>
          (case xu_pending previous of
             Some pending \<Rightarrow>
               bindio (ensure ((pe_phase pending = Staged \<or> pe_phase pending = Cleanup) \<and> unchanged previous)
                 ''cannot reconcile a runtime executable while replacement is pending'') (\<lambda>_.
               bindio (verify_stamped_file E meta previous executable runtime_version runtime_digest) (\<lambda>_.
               ret Update_None))
           | None \<Rightarrow>
               bindio (ensure (\<not> update_source_changed previous (xu_artifact_name wanted) (xu_channel wanted) (xu_package wanted))
                 ''runtime executable update source changed outside its coordinated update'') (\<lambda>_.
               bindio (ensure (\<not> (update_initialized previous \<and> xu_ownership previous = Direct
                     \<and> xu_installation previous \<noteq> None \<and> \<not> unchanged previous))
                 ''directly managed runtime executable changed outside its coordinated update'') (\<lambda>_.
               bindio (verify_stamped_file E meta replacement executable runtime_version runtime_digest) (\<lambda>_.
               if previous = replacement \<and> pm_version meta = runtime_version then ret Update_None
               else bindio (persist_metadata_for (ue_json E) prefix metadata_file
                      (meta\<lparr>pm_version := runtime_version, pm_update := Some replacement\<rparr>)) (\<lambda>_.
                    ret Update_Reconciled)))))
      | None \<Rightarrow>
          bindio (verify_stamped_file E meta replacement executable runtime_version runtime_digest) (\<lambda>_.
          bindio (persist_metadata_for (ue_json E) prefix metadata_file
            (meta\<lparr>pm_version := runtime_version, pm_update := Some replacement\<rparr>)) (\<lambda>_.
          ret Update_Reconciled)))))))))"

definition validate_installation :: "string \<Rightarrow> unit result" where
  "validate_installation installation =
     (if all_whitespace installation then Inl (Invalid ''runtime installation must not be empty'') else Inr ())"

definition verify_running_executable :: "update_ext \<Rightarrow> path_buf \<Rightarrow> unit io" where
  "verify_running_executable E recorded =
     bindio (ensure (is_absolute recorded) ''recorded runtime executable path is not absolute'') (\<lambda>_.
     bindio (canonicalize (ue_current_exe E)) (\<lambda>current.
     bindio (canonicalize (snd recorded)) (\<lambda>resolved.
     ensure (current = resolved) ''runtime installation executable does not resolve to the running executable'')))"

text \<open>The checks of \<open>record_installation\<close> on what is recorded, before the executable is looked at.\<close>

definition installation_change_allowed ::
    "update_metadata \<Rightarrow> runtime_header \<Rightarrow> runtime_update_config \<Rightarrow> update_ownership \<Rightarrow> string \<Rightarrow> unit result" where
  "installation_change_allowed previous header update ownership installation =
     (if xu_pending previous \<noteq> None
      then Inl (Invalid ''cannot record runtime installation ownership while replacement is pending'')
      else if update_source_changed previous (h_artifact_name header) (u_channel update) (u_package update)
      then Inl (Invalid ''runtime executable update source changed outside its coordinated update'')
      else if xu_ownership previous = External \<and> ownership = Direct
      then Inl (Invalid ''an externally managed runtime installation cannot become directly managed'')
      else if (case xu_installation previous of None \<Rightarrow> False | Some recorded \<Rightarrow> recorded \<noteq> installation)
        \<and> \<not> (xu_ownership previous = Direct \<and> ownership = External)
      then Inl (Invalid ''runtime installation changed'')
      else Inr ())"

definition resolve_owned_executable :: "update_ownership \<Rightarrow> path_buf \<Rightarrow> path_buf io" where
  "resolve_owned_executable ownership executable =
     (if ownership = Direct then
        bindio (symlink_metadata (snd executable)) (\<lambda>kind.
        if kind = Is_Symlink then bindio (canonicalize (snd executable)) (\<lambda>p. ret (True, p)) else ret executable)
      else ret executable)"

definition installation_instruction ::
    "update_metadata \<Rightarrow> update_ownership \<Rightarrow> string option \<Rightarrow> string option" where
  "installation_instruction previous ownership instruction =
     (case ownership of
        Direct \<Rightarrow> None
      | External \<Rightarrow> (case instruction of Some i \<Rightarrow> Some i
          | None \<Rightarrow> if xu_ownership previous = External then xu_instruction previous else None))"

definition record_installation ::
    "update_ext \<Rightarrow> path \<Rightarrow> string \<Rightarrow> path_buf \<Rightarrow> update_ownership \<Rightarrow> string \<Rightarrow> string option \<Rightarrow> update_outcome io" where
  "record_installation E prefix metadata_file executable ownership installation instruction =
     bindio (lift_result (validate_installation installation)) (\<lambda>_.
     bindio (ensure (\<not> (ownership = Direct \<and> instruction \<noteq> None))
       ''a directly managed runtime installation cannot have an external update instruction'') (\<lambda>_.
     bindio (ensure (\<not> (ownership = External \<and> (case instruction of None \<Rightarrow> False | Some i \<Rightarrow> all_whitespace i)))
       ''an external runtime installation instruction must not be empty'') (\<lambda>_.
     bindio (acquire_lock prefix) (\<lambda>_.
     bindio (read_metadata_for (ue_json E) prefix metadata_file) (\<lambda>meta.
     bindio (lift_result (validate_current_metadata E meta metadata_file)) (\<lambda>_.
     bindio (lift_result (ok_or ''runtime executable updates are not configured'' (pm_update meta))) (\<lambda>previous.
     let header = rd_header (ue_current E) in
     bindio (lift_result (ok_or ''runtime executable updates are not configured'' (h_update header))) (\<lambda>update.
     bindio (lift_result (installation_change_allowed previous header update ownership installation)) (\<lambda>_.
     bindio (resolve_owned_executable ownership executable) (\<lambda>executable.
     bindio (ensure (\<not> (xu_ownership previous = External \<and> xu_installation previous \<noteq> None
         \<and> xu_executable previous \<noteq> executable)) ''runtime installation executable path cannot be changed'') (\<lambda>_.
     bindio (verify_running_executable E executable) (\<lambda>_.
     bindio (sha256_hex E (snd executable)) (\<lambda>runtime_digest.
     bindio (ensure (\<not> (update_initialized previous \<and> xu_ownership previous = Direct \<and> ownership = Direct
         \<and> (xu_executable previous \<noteq> executable \<or> xu_artifact_name previous \<noteq> h_artifact_name header
            \<or> xu_channel previous \<noteq> u_channel update \<or> xu_package previous \<noteq> u_package update
            \<or> xu_build_number previous \<noteq> u_build_number update \<or> xu_sha256 previous \<noteq> runtime_digest
            \<or> pm_version meta \<noteq> h_runtime_version header)))
       ''directly managed runtime executable changed outside its coordinated update'') (\<lambda>_.
     let new_instruction = installation_instruction previous ownership instruction in
     bindio (ensure (\<not> (xu_ownership previous = External \<and> xu_installation previous \<noteq> None
         \<and> xu_instruction previous \<noteq> new_instruction)) ''runtime installation update instruction cannot be changed'') (\<lambda>_.
     let replacement = \<lparr>xu_executable = executable, xu_ownership = ownership, xu_installation = Some installation,
           xu_artifact_name = h_artifact_name header, xu_channel = u_channel update, xu_package = u_package update,
           xu_build_number = u_build_number update, xu_sha256 = runtime_digest, xu_instruction = new_instruction,
           xu_pending = None\<rparr> in
     bindio (verify_stamped_file E meta replacement (snd executable) (h_runtime_version header) runtime_digest) (\<lambda>_.
     if previous = replacement \<and> pm_version meta = h_runtime_version header then ret Update_None
     else bindio (persist_metadata_for (ue_json E) prefix metadata_file
            (meta\<lparr>pm_version := h_runtime_version header, pm_update := Some replacement\<rparr>)) (\<lambda>_.
          ret Update_Reconciled)))))))))))))))))"

end
