(* ===== verification/Update_Safety.thy ===== *)
theory Update_Safety
  imports Exec_Update
begin

text \<open>
  The replacement of the executable is safe: whatever interrupts it, the executable's path holds a
  complete stamped executable whose version and digest the prefix metadata records, and on
  Unix a recovery without faults finishes the update or withdraws it.
\<close>

section \<open>Reading a stamp does not depend on the path\<close>

definition at_path :: "path \<Rightarrow> runtime_data option result \<Rightarrow> runtime_data option result" where
  "at_path q r = (case r of Inl e \<Rightarrow> Inl e | Inr None \<Rightarrow> Inr None
     | Inr (Some d) \<Rightarrow> Inr (Some (d\<lparr>rd_bundle := map_option (\<lambda>e. e\<lparr>eb_executable := q\<rparr>) (rd_bundle d)\<rparr>)))"

lemma at_path_simps [simp]:
  "at_path q (Inl e) = Inl e" "at_path q (Inr None) = Inr None"
  "at_path q (Inr (Some d)) = Inr (Some (d\<lparr>rd_bundle := map_option (\<lambda>e. e\<lparr>eb_executable := q\<rparr>) (rd_bundle d)\<rparr>))"
  by (simp_all add: at_path_def)

lemma at_path_rbind: "at_path q (rbind m f) = rbind m (\<lambda>x. at_path q (f x))"
  by (cases m) simp_all

lemma payload_at_path:
  "read_runtime_data_payload X q f st d = at_path q (read_runtime_data_payload X p f st d)"
  by (simp add: read_runtime_data_payload_def at_path_rbind if_distrib [where f = "at_path q"] cong: if_cong rbind_cong)

lemma at_footer_at_path:
  "read_runtime_data_at_footer X q f fs mp ft = at_path q (read_runtime_data_at_footer X p f fs mp ft)"
  unfolding read_runtime_data_at_footer_def at_path_rbind
  by (intro rbind_cong refl) (auto simp: Let_def at_path_rbind payload_at_path [of X q _ _ _ p]
      split: option.split intro!: rbind_cong)

lemma search_at_path:
  "search_paddings X q f spec ps = at_path q (search_paddings X p f spec ps)"
proof (induction ps)
  case (Cons a ps)
  then show ?case
    by (auto simp: Let_def at_path_rbind at_footer_at_path [of X q _ _ _ _ p] split: option.split intro!: rbind_cong)
qed simp

lemma reader_at_path:
  "read_runtime_data_with_search_spec X q f spec = at_path q (read_runtime_data_with_search_spec X p f spec)"
  unfolding read_runtime_data_with_search_spec_def by (rule search_at_path)

lemma platform_check_at_path:
  "rbind (at_path q r) (\<lambda>data. rbind (case data of None \<Rightarrow> Inr () | Some d \<Rightarrow> check (h_platform (rd_header d))) (\<lambda>_. Inr data))
   = at_path q (rbind r (\<lambda>data. rbind (case data of None \<Rightarrow> Inr () | Some d \<Rightarrow> check (h_platform (rd_header d))) (\<lambda>_. Inr data)))"
proof (cases r)
  case (Inr data)
  then show ?thesis by (cases data) (simp_all add: at_path_rbind)
qed simp

lemma pe_at_path: "read_pe_runtime_data X P q f = at_path q (read_pe_runtime_data X P p f)"
proof -
  have unanchored: "read_pe_unanchored X q f l = at_path q (read_pe_unanchored X p f l)" for l
    unfolding read_pe_unanchored_def reader_at_path [of X q f _ p] platform_check_at_path
    by (auto simp: at_path_rbind split: option.split intro!: rbind_cong)
  have anchored: "read_pe_anchored X q f l a = at_path q (read_pe_anchored X p f l a)" for l a
    unfolding read_pe_anchored_def payload_at_path [of X q f _ _ p] platform_check_at_path Let_def
    by (auto simp: at_path_rbind if_distrib [where f = "at_path q"] split_beta split: if_split intro!: rbind_cong)
  show ?thesis
    unfolding read_pe_runtime_data_def unanchored anchored
    by (auto simp: at_path_rbind split: option.split intro!: rbind_cong)
qed

lemma macho_at_path: "read_macho_runtime_data X M q f = at_path q (read_macho_runtime_data X M p f)"
  unfolding read_macho_runtime_data_def reader_at_path [of X q f _ p]
  by (auto simp: at_path_rbind platform_check_at_path [unfolded at_path_rbind] split: prod.split intro!: rbind_cong)

lemma read_from_file_at_path: "read_from_file X P M q f = at_path q (read_from_file X P M p f)"
  unfolding read_from_file_def
  unfolding pe_at_path [of X P q f p] macho_at_path [of X M q f p] reader_at_path [of X q f _ p]
  by (auto simp: at_path_rbind split: binary_format.split intro!: rbind_cong)

section \<open>Verified executables\<close>

text \<open>The content \<open>b\<close> passes \<open>verify_stamped_file\<close> for that version and digest.\<close>

definition verified :: "update_ext \<Rightarrow> prefix_metadata \<Rightarrow> update_metadata \<Rightarrow> bytes \<Rightarrow> string \<Rightarrow> string \<Rightarrow> bool" where
  "verified E meta update b version digest \<longleftrightarrow>
     validate_sha256 digest = Inr () \<and> hex (sha256 (ue_codec E) b) = digest
     \<and> (case read_from_file (ue_codec E) (ue_pe E) (ue_macho E) [] b of
          Inr (Some data) \<Rightarrow> header_matches meta update version (rd_header data)
            \<and> (case rd_bundle data of None \<Rightarrow> True | Some e \<Rightarrow> verify_bundle (ue_codec E) b e = Inr ())
        | _ \<Rightarrow> False)"

lemma verify_bundle_path [simp]: "verify_bundle X b (e\<lparr>eb_executable := q\<rparr>) = verify_bundle X b e"
  by (simp add: verify_bundle_def)

lemma verified_at:
  assumes "hex (sha256 (ue_codec E) b) = digest" "validate_sha256 digest = Inr ()"
    and "read_from_file (ue_codec E) (ue_pe E) (ue_macho E) p b = Inr (Some data)"
    and "header_matches meta update version (rd_header data)"
    and "\<And>e. rd_bundle data = Some e \<Longrightarrow> verify_bundle (ue_codec E) b e = Inr ()"
  shows "verified E meta update b version digest"
  using assms read_from_file_at_path [of "ue_codec E" "ue_pe E" "ue_macho E" "[]" b p]
  by (auto simp: verified_def split: option.split)

lemma verifiedE:
  assumes "verified E meta update b version digest"
  obtains data where "read_from_file (ue_codec E) (ue_pe E) (ue_macho E) p b = Inr (Some data)"
    "header_matches meta update version (rd_header data)"
    "\<forall>e. rd_bundle data = Some e \<longrightarrow> verify_bundle (ue_codec E) b e = Inr ()"
proof -
  from assms obtain data where "read_from_file (ue_codec E) (ue_pe E) (ue_macho E) [] b = Inr (Some data)"
    "header_matches meta update version (rd_header data)"
    "\<forall>e. rd_bundle data = Some e \<longrightarrow> verify_bundle (ue_codec E) b e = Inr ()"
    by (auto simp: verified_def split: sum.splits option.splits)
  then show thesis
    using read_from_file_at_path [of "ue_codec E" "ue_pe E" "ue_macho E" p b "[]"]
    by (intro that [of "data\<lparr>rd_bundle := map_option (\<lambda>e. e\<lparr>eb_executable := p\<rparr>) (rd_bundle data)\<rparr>"]) auto
qed

lemma verified_digest: "verified E meta update b version digest \<Longrightarrow> hex (sha256 (ue_codec E) b) = digest \<and> validate_sha256 digest = Inr ()"
  by (simp add: verified_def)

lemma wp_sha256_hex [wp_intros]:
  assumes "\<And>b. follow s p = Some (Regular b) \<Longrightarrow> Q (hex (sha256 (ue_codec E) b)) s" "\<And>e. E' e s" "C s"
  shows "wp (sha256_hex E p) Q E' C s"
  unfolding sha256_hex_def using assms by (auto intro!: wp_intros)

lemma wp_verify_stamped_file [wp_intros]:
  assumes "\<And>b. follow s p = Some (Regular b) \<Longrightarrow> verified E meta update b version digest \<Longrightarrow> Q () s"
    and "\<And>e. E' e s" "C s"
  shows "wp (verify_stamped_file E meta update p version digest) Q E' C s"
proof -
  have key: "Q () s"
    if "follow s p = Some (Regular b)" "digest = hex (sha256 (ue_codec E) b)"
      "validate_sha256 (hex (sha256 (ue_codec E) b)) = Inr ()"
      "read_from_file (ue_codec E) (ue_pe E) (ue_macho E) p b = Inr (Some data)"
      "header_matches meta update version (rd_header data)"
      "rd_bundle data = None \<or> (\<exists>e. rd_bundle data = Some e \<and> verify_bundle (ue_codec E) b e = Inr ())" for b data
    by (rule assms(1) [OF that(1)], rule verified_at [OF _ _ that(4,5)]) (use that(2,3,6) in auto)
  show ?thesis
    unfolding verify_stamped_file_def
    using assms(2,3)
    by (auto intro!: wp_bindio wp_lift_result wp_sha256_hex wp_ensure wp_read_file wp_ret
        simp: success_simps split: option.split) (rule key, assumption, assumption, assumption, assumption, assumption, simp)+
qed

lemma wp_regular_file_present [wp_intros]:
  assumes "\<And>b. s p = Some (Regular b) \<Longrightarrow> Q True s" "s p = None \<Longrightarrow> Q False s" "\<And>e. E e s" "C s"
  shows "wp (regular_file_present p) Q E C s"
  unfolding regular_file_present_def
  by (rule wp_bindio, rule wp_tryio, rule wp_symlink_metadata)
    (use assms in \<open>auto intro!: wp_intros simp: node_kind_def split: node.splits\<close>)

section \<open>The invariant\<close>

text \<open>The executable and the files beside it that the update creates.\<close>

definition update_files :: "path \<Rightarrow> path set" where
  "update_files exe = {exe} \<union> {p. p \<noteq> [] \<and> butlast p = butlast exe \<and> starts_with (''.'' @ last exe @ ''.conda-ship-'') (last p)}"

definition apart :: "path \<Rightarrow> string \<Rightarrow> path \<Rightarrow> bool" where
  "apart prefix mf exe \<longleftrightarrow> update_files exe \<inter> (side_files prefix \<union> metadata_files prefix mf) = {}"

text \<open>The content at the executable's path is a verified executable: the recorded one or, while it is being
  replaced, the pending one.\<close>

definition target_recorded :: "update_ext \<Rightarrow> prefix_metadata \<Rightarrow> update_metadata \<Rightarrow> node option \<Rightarrow> bool" where
  "target_recorded E m u n \<longleftrightarrow> (\<exists>b. n = Some (Regular b) \<and>
     (verified E m u b (pm_version m) (xu_sha256 u)
      \<or> (\<exists>p. xu_pending u = Some p \<and> (pe_phase p = Replacing \<or> pe_phase p = Cleanup)
           \<and> verified E m u b (pe_version p) (pe_executable_sha256 p))))"

definition metadata_describes :: "update_ext \<Rightarrow> path \<Rightarrow> prefix_metadata \<Rightarrow> fs \<Rightarrow> bool" where
  "metadata_describes E exe m s \<longleftrightarrow>
     (\<exists>u. direct_update m = Inr u \<and> snd (xu_executable u) = exe \<and> target_recorded E m u (s exe))"

definition update_inv :: "update_ext \<Rightarrow> path \<Rightarrow> string \<Rightarrow> path \<Rightarrow> fs \<Rightarrow> bool" where
  "update_inv E prefix mf exe s \<longleftrightarrow>
     (\<exists>m. recoverable (ue_json E) prefix mf s = Some m \<and> metadata_describes E exe m s)"

text \<open>The state between the reading of the metadata and the next write.\<close>

definition update_open :: "update_ext \<Rightarrow> path \<Rightarrow> string \<Rightarrow> path \<Rightarrow> prefix_metadata \<Rightarrow> fs \<Rightarrow> bool" where
  "update_open E prefix mf exe m s \<longleftrightarrow>
     recoverable (ue_json E) prefix mf s = Some m \<and> metadata_settled (ue_json E) prefix mf s
     \<and> metadata_describes E exe m s"

lemma update_open_inv: "update_open E prefix mf exe m s \<Longrightarrow> update_inv E prefix mf exe s"
  by (auto simp: update_open_def update_inv_def)

lemma exe_in_update_files [simp]: "exe \<in> update_files exe"
  by (simp add: update_files_def)

lemma apartD:
  "apart prefix mf exe \<Longrightarrow> p \<in> update_files exe \<Longrightarrow> p \<notin> metadata_files prefix mf"
  "apart prefix mf exe \<Longrightarrow> p \<in> update_files exe \<Longrightarrow> p \<notin> side_files prefix"
  by (auto simp: apart_def)

lemma header_matches_cong:
  "pm_display_name m' = pm_display_name m \<Longrightarrow> pm_install_name m' = pm_install_name m \<Longrightarrow>
   pm_metadata_file m' = pm_metadata_file m \<Longrightarrow> pm_delegate_executable m' = pm_delegate_executable m \<Longrightarrow>
   xu_artifact_name u' = xu_artifact_name u \<Longrightarrow> xu_channel u' = xu_channel u \<Longrightarrow> xu_package u' = xu_package u \<Longrightarrow>
   verified E m' u' b v d = verified E m u b v d"
proof -
  assume "pm_display_name m' = pm_display_name m" "pm_install_name m' = pm_install_name m"
    "pm_metadata_file m' = pm_metadata_file m" "pm_delegate_executable m' = pm_delegate_executable m"
    "xu_artifact_name u' = xu_artifact_name u" "xu_channel u' = xu_channel u" "xu_package u' = xu_package u"
  then have "header_matches m' u' = header_matches m u" by (simp add: fun_eq_iff header_matches_def cong: option.case_cong)
  then show ?thesis by (simp only: verified_def)
qed

lemma direct_update_Inr:
  "direct_update m = Inr u \<longleftrightarrow> pm_update m = Some u \<and> xu_ownership u = Direct \<and> is_absolute (xu_executable u)
     \<and> xu_artifact_name u \<noteq> [] \<and> xu_channel u \<noteq> [] \<and> xu_package u \<noteq> [] \<and> validate_sha256 (xu_sha256 u) = Inr ()"
  by (auto simp: direct_update_def success_simps)

lemma metadata_changes [simp]:
  "pm_update m = Some u \<Longrightarrow> pm_update (set_phase ph m) = Some (u\<lparr>xu_pending := map_option (\<lambda>p. p\<lparr>pe_phase := ph\<rparr>) (xu_pending u)\<rparr>)"
  "pm_update m = Some u \<Longrightarrow> pm_update (clear_pending m) = Some (u\<lparr>xu_pending := None\<rparr>)"
  "pm_update m = Some u \<Longrightarrow> pm_update (set_pending p m) = Some (u\<lparr>xu_pending := Some p\<rparr>)"
  "pm_update m = Some u \<Longrightarrow> xu_pending u = Some p \<Longrightarrow> pm_update (commit_new_version m) =
     Some (u\<lparr>xu_build_number := pe_build_number p, xu_sha256 := pe_executable_sha256 p\<rparr>)"
  "pm_update m = Some u \<Longrightarrow> xu_pending u = Some p \<Longrightarrow> pm_version (commit_new_version m) = pe_version p"
  "pm_version (set_phase ph m) = pm_version m" "pm_version (clear_pending m) = pm_version m" "pm_version (set_pending p m) = pm_version m"
  by (simp_all add: set_phase_def clear_pending_def set_pending_def map_update_def commit_new_version_def)

lemma metadata_changes_keep [simp]:
  "pm_display_name (set_phase ph m) = pm_display_name m" "pm_install_name (set_phase ph m) = pm_install_name m"
  "pm_metadata_file (set_phase ph m) = pm_metadata_file m" "pm_delegate_executable (set_phase ph m) = pm_delegate_executable m"
  "pm_display_name (clear_pending m) = pm_display_name m" "pm_install_name (clear_pending m) = pm_install_name m"
  "pm_metadata_file (clear_pending m) = pm_metadata_file m" "pm_delegate_executable (clear_pending m) = pm_delegate_executable m"
  "pm_display_name (set_pending p m) = pm_display_name m" "pm_install_name (set_pending p m) = pm_install_name m"
  "pm_metadata_file (set_pending p m) = pm_metadata_file m" "pm_delegate_executable (set_pending p m) = pm_delegate_executable m"
  "pm_display_name (commit_new_version m) = pm_display_name m" "pm_install_name (commit_new_version m) = pm_install_name m"
  "pm_metadata_file (commit_new_version m) = pm_metadata_file m"
  "pm_delegate_executable (commit_new_version m) = pm_delegate_executable m"
  by (simp_all add: set_phase_def clear_pending_def set_pending_def map_update_def commit_new_version_def
      split: option.split)

lemma verified_changes [simp]:
  "verified E (set_phase ph m) u b v d = verified E m u b v d" "verified E (clear_pending m) u b v d = verified E m u b v d"
  "verified E (set_pending p m) u b v d = verified E m u b v d" "verified E (commit_new_version m) u b v d = verified E m u b v d"
  "verified E m (u\<lparr>xu_pending := x\<rparr>) b v d = verified E m u b v d"
  "verified E m (u\<lparr>xu_build_number := n, xu_sha256 := h\<rparr>) b v d = verified E m u b v d"
  "verified E m (u\<lparr>xu_build_number := n, xu_sha256 := h, xu_pending := x\<rparr>) b v d = verified E m u b v d"
  by (rule header_matches_cong; simp)+

text \<open>What the changes of the metadata say about the executable.\<close>

lemma describes_pending:
  assumes "direct_update m = Inr u" "snd (xu_executable u) = exe" "s exe = Some (Regular b)"
  shows "verified E m u b (pm_version m) (xu_sha256 u) \<Longrightarrow> metadata_describes E exe (set_phase ph m) s"
    and "verified E m u b (pm_version m) (xu_sha256 u) \<Longrightarrow> metadata_describes E exe (clear_pending m) s"
    and "verified E m u b (pm_version m) (xu_sha256 u) \<Longrightarrow> metadata_describes E exe (set_pending p m) s"
    and "xu_pending u = Some p \<Longrightarrow> verified E m u b (pe_version p) (pe_executable_sha256 p) \<Longrightarrow>
      metadata_describes E exe (clear_pending (commit_new_version m)) s"
    and "xu_pending u = Some p \<Longrightarrow> verified E m u b (pe_version p) (pe_executable_sha256 p) \<Longrightarrow>
      ph = Replacing \<or> ph = Cleanup \<Longrightarrow> metadata_describes E exe (set_phase ph m) s"
    and "xu_pending u = Some p \<Longrightarrow> verified E m u b (pe_version p) (pe_executable_sha256 p) \<Longrightarrow>
      pe_phase p = Replacing \<or> pe_phase p = Cleanup \<Longrightarrow> metadata_describes E exe m s"
  using assms unfolding metadata_describes_def target_recorded_def direct_update_Inr
  by (auto dest: verified_digest)

section \<open>Classification\<close>

text \<open>What a successful classification says about the files.\<close>

definition role_is :: "update_ext \<Rightarrow> prefix_metadata \<Rightarrow> update_metadata \<Rightarrow> node option \<Rightarrow> string \<Rightarrow> string \<Rightarrow> bool \<Rightarrow> bool" where
  "role_is E m u n version digest present \<longleftrightarrow>
     (if present then \<exists>b. n = Some (Regular b) \<and> verified E m u b version digest else n = None)"

definition files_are ::
    "bool \<Rightarrow> update_ext \<Rightarrow> prefix_metadata \<Rightarrow> update_metadata \<Rightarrow> pending_update \<Rightarrow> file_state \<Rightarrow> fs \<Rightarrow> bool" where
  "files_are windows E m u p st s \<longleftrightarrow>
     (case fv_target st of
        Missing_File \<Rightarrow> s (snd (xu_executable u)) = None
      | Old_File \<Rightarrow> role_is E m u (s (snd (xu_executable u))) (pm_version m) (xu_sha256 u) True
      | New_File \<Rightarrow> role_is E m u (s (snd (xu_executable u))) (pe_version p) (pe_executable_sha256 p) True)
     \<and> fv_candidate st \<noteq> Old_File \<and> fv_backup st \<noteq> New_File
     \<and> (\<exists>cp. pending_candidate_path u p = Inr cp
          \<and> role_is E m u (s cp) (pe_version p) (pe_executable_sha256 p) (fv_candidate st = New_File))
     \<and> (\<exists>bp. pending_backup_path windows u = Inr bp
          \<and> role_is E m u (s bp) (pm_version m) (xu_sha256 u) (fv_backup st = Old_File))"

lemma wp_classify_target [wp_intros]:
  assumes "s (snd (xu_executable u)) = None \<Longrightarrow> Q Missing_File s"
    and "role_is E m u (s (snd (xu_executable u))) (pm_version m) (xu_sha256 u) True \<Longrightarrow> Q Old_File s"
    and "role_is E m u (s (snd (xu_executable u))) (pe_version p) (pe_executable_sha256 p) True \<Longrightarrow> Q New_File s"
    and "\<And>e. E' e s" "C s"
  shows "wp (classify_target E m u p) Q E' C s"
  unfolding classify_target_def Let_def
  using assms
  by (auto intro!: wp_bindio wp_regular_file_present wp_sha256_hex wp_verify_stamped_file wp_ret wp_fail
      simp: role_is_def follow_def)

lemma wp_classify_role_file [wp_intros]:
  assumes "s q = None \<Longrightarrow> Q Missing_File s" "role_is E m u (s q) v d True \<Longrightarrow> Q found s" and "\<And>e. E' e s" "C s"
  shows "wp (classify_role_file E m u q v d found) Q E' C s"
  unfolding classify_role_file_def
  using assms
  by (auto intro!: wp_bindio wp_regular_file_present wp_verify_stamped_file wp_ret simp: role_is_def follow_def)

lemma wp_classify_files [wp_intros]:
  assumes "\<And>st. files_are windows E m u p st s \<Longrightarrow> Q st s" "\<And>e. E' e s" "C s"
  shows "wp (classify_files windows E m u p) Q E' C s"
proof -
  have "wp (classify_files windows E m u p) (\<lambda>st s'. s' = s \<and> files_are windows E m u p st s) (\<lambda>_ s'. s' = s) (\<lambda>s'. s' = s) s"
    unfolding classify_files_def
    by (auto intro!: wp_bindio wp_classify_target wp_lift_result wp_classify_role_file wp_ret
        simp: files_are_def role_is_def)
  then show ?thesis by (rule wp_mono) (use assms in auto)
qed

section \<open>Steps\<close>

lemma recoverable_outside:
  "unchanged_outside P s s' \<Longrightarrow> P \<inter> metadata_files prefix mf = {} \<Longrightarrow>
     recoverable J prefix mf s' = recoverable J prefix mf s \<and> (metadata_settled J prefix mf s' \<longleftrightarrow> metadata_settled J prefix mf s)"
  using metadata.value_local [of prefix mf s' s J] metadata.settled_local [of prefix mf s' s J]
  by (auto simp: unchanged_outside_def disjoint_iff)

lemma metadata_describes_same: "s' exe = s exe \<Longrightarrow> metadata_describes E exe m s' = metadata_describes E exe m s"
  by (simp add: metadata_describes_def)

text \<open>Files of the update other than the executable may change.\<close>

lemma update_open_outside:
  assumes "update_open E prefix mf exe m s" "unchanged_outside P s s'" "P \<inter> metadata_files prefix mf = {}" "exe \<notin> P"
  shows "update_open E prefix mf exe m s'"
  using assms(1) recoverable_outside [OF assms(2,3), of "ue_json E"]
    metadata_describes_same [where s' = s' and s = s and exe = exe, OF unchanged_outsideD [OF assms(2,4)]]
  by (simp add: update_open_def)

lemma update_inv_outside:
  assumes "update_inv E prefix mf exe s" "unchanged_outside P s s'" "P \<inter> metadata_files prefix mf = {}" "exe \<notin> P"
  shows "update_inv E prefix mf exe s'"
  using assms(1) recoverable_outside [OF assms(2,3), of "ue_json E"]
    metadata_describes_same [where s' = s' and s = s and exe = exe, OF unchanged_outsideD [OF assms(2,4)]]
  by (simp add: update_inv_def)

lemma wp_persist_update:
  assumes J: "json_laws (ue_json E)" and mf: "metadata_file_ok mf" and apart: "apart prefix mf exe"
    and s: "update_open E prefix mf exe m s" and new: "metadata_describes E exe m' s"
    and Q: "\<And>s'. update_open E prefix mf exe m' s' \<Longrightarrow> unchanged_outside (metadata_files prefix mf) s s' \<Longrightarrow> Q () s'"
    and I: "\<And>s'. update_inv E prefix mf exe s' \<Longrightarrow> (\<forall>e. E' e s') \<and> C s'"
  shows "wp (persist_metadata_for (ue_json E) prefix mf m') Q E' C s"
proof -
  have exe: "exe \<notin> metadata_files prefix mf" using apartD(1) [OF apart exe_in_update_files] .
  have same: "metadata_describes E exe x s' = metadata_describes E exe x s"
    if "unchanged_outside (metadata_files prefix mf) s s'" for s' x
    using that exe by (intro metadata_describes_same) (rule unchanged_outsideD)
  from s have old: "recoverable (ue_json E) prefix mf s = Some m" "metadata_settled (ue_json E) prefix mf s"
    "metadata_describes E exe m s" by (simp_all add: update_open_def)
  have laws: "json_laws (ue_json E) \<and> metadata_file_ok mf" using J mf ..
  show ?thesis
  proof (rule wp_mono [OF metadata.write_safe [OF laws old(2,1)]], goal_cases)
    case (1 x s')
    then have "update_open E prefix mf exe m' s'" using same [of s' m'] new by (simp add: update_open_def)
    then show ?case using Q 1 by simp
  next
    case (2 e s')
    then have "update_inv E prefix mf exe s'" using same [of s'] new old by (auto simp: update_inv_def)
    then show ?case using I by blast
  next
    case (3 s')
    then have "update_inv E prefix mf exe s'" using same [of s'] new old by (auto simp: update_inv_def)
    then show ?case using I by blast
  qed
qed

lemma wp_read_update:
  assumes J: "json_laws (ue_json E)" and mf: "metadata_file_ok mf" and apart: "apart prefix mf exe"
    and s: "update_inv E prefix mf exe s"
    and Q: "\<And>m s'. update_open E prefix mf exe m s' \<Longrightarrow> Q m s'"
    and I: "\<And>s'. update_inv E prefix mf exe s' \<Longrightarrow> (\<forall>e. E' e s') \<and> C s'"
  shows "wp (read_metadata_for (ue_json E) prefix mf) Q E' C s"
proof -
  have exe: "exe \<notin> metadata_files prefix mf" using apartD(1) [OF apart exe_in_update_files] .
  have same: "metadata_describes E exe x s' = metadata_describes E exe x s"
    if "unchanged_outside (metadata_files prefix mf) s s'" for s' x
    using that exe by (intro metadata_describes_same) (rule unchanged_outsideD)
  have laws: "json_laws (ue_json E) \<and> metadata_file_ok mf" using J mf ..
  from s obtain m where m: "recoverable (ue_json E) prefix mf s = Some m" "metadata_describes E exe m s"
    by (auto simp: update_inv_def)
  show ?thesis
  proof (rule wp_mono [OF metadata.read_safe [OF laws]], goal_cases)
    case (1 x s')
    then have "update_open E prefix mf exe x s'" using same [of s' m] m by (auto simp: update_open_def)
    then show ?case by (rule Q)
  next
    case (2 e s')
    then have "update_inv E prefix mf exe s'" using same [of s' m] m by (auto simp: update_inv_def)
    then show ?case using I by blast
  next
    case (3 s')
    then have "update_inv E prefix mf exe s'" using same [of s' m] m by (auto simp: update_inv_def)
    then show ?case using I by blast
  qed
qed

lemma wp_acquire_update:
  assumes mf: "metadata_file_ok mf" "marker_free mf" "CHR ''/'' \<notin> set (last prefix)" and apart: "apart prefix mf exe"
    and s: "update_inv E prefix mf exe s"
    and Q: "\<And>s'. update_inv E prefix mf exe s' \<Longrightarrow> Q () s' \<and> (\<forall>e. E' e s') \<and> C s'"
  shows "wp (acquire_lock prefix) Q E' C s"
proof -
  have "update_inv E prefix mf exe s'" if "unchanged_outside (side_files prefix) s s'" for s'
    using update_inv_outside [OF s that side_files_disjoint [OF mf]] apartD(2) [OF apart exe_in_update_files] by simp
  with Q have "Q () s' \<and> (\<forall>e. E' e s') \<and> C s'" if "unchanged_outside (side_files prefix) s s'" for s'
    using that by blast
  then show ?thesis by (intro stays_wp [OF stays_acquire_lock [OF mf(3)]]) simp_all
qed

section \<open>Operations on Unix\<close>

definition update_setting :: "update_ext \<Rightarrow> path \<Rightarrow> string \<Rightarrow> path \<Rightarrow> bool" where
  "update_setting E prefix mf exe \<longleftrightarrow>
     json_laws (ue_json E) \<and> metadata_file_ok mf \<and> marker_free mf \<and> CHR ''/'' \<notin> set (last prefix) \<and> apart prefix mf exe"

lemma adjacent_update_path_in:
  assumes "adjacent_update_path exe digest suffix = Inr p"
  shows "p \<in> update_files exe" and "p \<noteq> exe"
proof -
  from assms have p: "p = butlast exe @ [''.'' @ last exe @ ''.conda-ship-'' @ take 16 digest @ ''.'' @ suffix]"
    and ne: "exe \<noteq> []"
    by (auto simp: adjacent_update_path_def success_simps parent_def file_name_def split: if_splits)
  show "p \<in> update_files exe" by (simp add: p update_files_def starts_with_def)
  have "length (last p) > length (last exe)" by (simp add: p)
  then show "p \<noteq> exe" by auto
qed

lemma update_path_in:
  "pending_candidate_path u p = Inr cp \<Longrightarrow> cp \<in> update_files (snd (xu_executable u)) \<and> cp \<noteq> snd (xu_executable u)"
  "candidate_path exe d = Inr cp \<Longrightarrow> cp \<in> update_files exe \<and> cp \<noteq> exe"
  "pending_backup_path windows u = Inr cp \<Longrightarrow> cp \<in> update_files (snd (xu_executable u)) \<and> cp \<noteq> snd (xu_executable u)"
  by (simp_all add: pending_candidate_path_def candidate_path_def pending_backup_path_def backup_path_def adjacent_update_path_in)

lemma files_areD:
  assumes "files_are windows E m u p st s"
  shows "fv_target st = Old_File \<Longrightarrow> \<exists>b. s (snd (xu_executable u)) = Some (Regular b) \<and> verified E m u b (pm_version m) (xu_sha256 u)"
    and "fv_target st = New_File \<Longrightarrow>
      \<exists>b. s (snd (xu_executable u)) = Some (Regular b) \<and> verified E m u b (pe_version p) (pe_executable_sha256 p)"
    and "fv_candidate st = New_File \<Longrightarrow> \<exists>cp b. pending_candidate_path u p = Inr cp \<and> s cp = Some (Regular b)
      \<and> verified E m u b (pe_version p) (pe_executable_sha256 p)"
  using assms by (auto simp: files_are_def role_is_def)

lemma update_openE:
  assumes "update_open E prefix mf exe m s"
  obtains u where "direct_update m = Inr u" "snd (xu_executable u) = exe" "target_recorded E m u (s exe)" "pm_update m = Some u"
  using assms by (auto simp: update_open_def metadata_describes_def direct_update_Inr)

text \<open>A step of an operation on the metadata that was read: it starts in an open state and keeps the invariant.\<close>

definition safe_from :: "update_ext \<Rightarrow> path \<Rightarrow> string \<Rightarrow> path \<Rightarrow> prefix_metadata \<Rightarrow> 'a io \<Rightarrow> bool" where
  "safe_from E prefix mf exe m c \<longleftrightarrow> (\<forall>s. update_open E prefix mf exe m s \<longrightarrow>
     wp c (\<lambda>_. update_inv E prefix mf exe) (\<lambda>_. update_inv E prefix mf exe) (update_inv E prefix mf exe) s)"

lemma persist_then:
  assumes setting: "update_setting E prefix mf exe" and "update_open E prefix mf exe m s" "metadata_describes E exe m' s"
    and "\<And>s'. update_open E prefix mf exe m' s' \<Longrightarrow> unchanged_outside (metadata_files prefix mf) s s' \<Longrightarrow>
      wp c (\<lambda>_. update_inv E prefix mf exe) (\<lambda>_. update_inv E prefix mf exe) (update_inv E prefix mf exe) s'"
  shows "wp (bindio (persist_metadata_for (ue_json E) prefix mf m') (\<lambda>_. c))
    (\<lambda>_. update_inv E prefix mf exe) (\<lambda>_. update_inv E prefix mf exe) (update_inv E prefix mf exe) s"
proof (rule wp_bindio, rule wp_persist_update [of E mf prefix exe m s m'])
  show "json_laws (ue_json E)" "metadata_file_ok mf" "apart prefix mf exe"
    using setting by (simp_all add: update_setting_def)
qed (use assms in auto)

lemma persist_finish:
  assumes "update_setting E prefix mf exe" "update_open E prefix mf exe m s" "metadata_describes E exe m' s"
  shows "wp (bindio (persist_metadata_for (ue_json E) prefix mf m') (\<lambda>_. ret x))
    (\<lambda>_. update_inv E prefix mf exe) (\<lambda>_. update_inv E prefix mf exe) (update_inv E prefix mf exe) s"
  by (rule persist_then [OF assms]) (rule wp_ret, rule update_open_inv)

lemma wp_replace_candidate:
  assumes setting: "update_setting E prefix mf exe" and s: "update_open E prefix mf exe m s"
    and u: "direct_update m = Inr u" "snd (xu_executable u) = exe" "xu_pending u = Some p"
    and phase: "pe_phase p = Replacing"
    and candidate: "pending_candidate_path u p = Inr cp" "s cp = Some (Regular b)"
      "verified E m u b (pe_version p) (pe_executable_sha256 p)"
  shows "wp (replace_candidate E prefix mf m)
    (\<lambda>_. update_inv E prefix mf exe) (\<lambda>_. update_inv E prefix mf exe) (update_inv E prefix mf exe) s"
proof -
  let ?I = "update_inv E prefix mf exe"
  let ?s = "s(cp := None, exe \<mapsto> Regular b)"
  have cp: "candidate_path exe (pe_executable_sha256 p) = Inr cp" using candidate(1) u(2) by (simp add: pending_candidate_path_def)
  have files: "cp \<in> update_files exe" "exe \<in> update_files exe" using update_path_in(2) [OF cp] by simp_all
  from setting have apart: "apart prefix mf exe" by (simp add: update_setting_def)
  have "{cp, exe} \<inter> metadata_files prefix mf = {}" using apartD(1) [OF apart] files by blast
  moreover have "unchanged_outside {cp, exe} s ?s" by (simp add: unchanged_outside_def)
  ultimately have same: "recoverable (ue_json E) prefix mf ?s = recoverable (ue_json E) prefix mf s"
    "metadata_settled (ue_json E) prefix mf ?s \<longleftrightarrow> metadata_settled (ue_json E) prefix mf s"
    using recoverable_outside [of "{cp, exe}" s ?s prefix mf "ue_json E"] by blast+
  have opened: "update_open E prefix mf exe m ?s"
    using s same describes_pending(6) [OF u(1,2) _ u(3) candidate(3), of ?s] phase by (simp add: update_open_def)
  have committed: "metadata_describes E exe (clear_pending (commit_new_version m)) ?s"
    using describes_pending(4) [OF u(1,2) _ u(3) candidate(3), of ?s] by simp
  have after: "wp (bindio (persist_metadata_for (ue_json E) prefix mf (clear_pending (commit_new_version m))) (\<lambda>_. ret Update_Applied))
      (\<lambda>_. ?I) (\<lambda>_. ?I) ?I ?s" by (rule persist_finish [OF setting opened committed])
  show ?thesis
    unfolding replace_candidate_def u lift_result_simps bindio_ret option.case cp
    by (rule wp_bindio, rule wp_rename)
      (use after update_open_inv [OF opened] update_open_inv [OF s] candidate(2) in auto)
qed

lemma safe_apply_or_recover:
  assumes setting: "update_setting E prefix mf exe"
  shows "safe_from E prefix mf exe m (apply_or_recover_locked E prefix mf m)"
  unfolding safe_from_def
proof (intro allI impI)
  fix s assume s: "update_open E prefix mf exe m s"
  let ?I = "update_inv E prefix mf exe"
  note I = update_open_inv [OF s]
  obtain u where u: "direct_update m = Inr u" "snd (xu_executable u) = exe" "pm_update m = Some u"
    using update_openE [OF s] by metis
  show "wp (apply_or_recover_locked E prefix mf m) (\<lambda>_. ?I) (\<lambda>_. ?I) ?I s"
  proof (cases "xu_pending u")
    case None
    with I u show ?thesis by (simp add: apply_or_recover_locked_def wp_fail)
  next
    case (Some p)
    have describe: "fv_target st = Old_File \<Longrightarrow> metadata_describes E exe (set_phase ph m) s \<and> metadata_describes E exe (clear_pending m) s"
      "fv_target st = New_File \<Longrightarrow> metadata_describes E exe (clear_pending (commit_new_version m)) s"
      if "files_are False E m u p st s" for st ph
      using files_areD(1,2) [OF that] describes_pending(1,2,4) [OF u(1,2), of s] Some u(2) by blast+
    have again: "wp (replace_candidate E prefix mf (set_phase Replacing m)) (\<lambda>_. ?I) (\<lambda>_. ?I) ?I s'"
      if st: "files_are False E m u p st s" "fv_candidate st = New_File"
        and s': "update_open E prefix mf exe (set_phase Replacing m) s'" "unchanged_outside (metadata_files prefix mf) s s'"
      for st s'
    proof -
      obtain cp b where cp: "pending_candidate_path u p = Inr cp" "s cp = Some (Regular b)"
        "verified E m u b (pe_version p) (pe_executable_sha256 p)" using files_areD(3) [OF st] by blast
      have "cp \<notin> metadata_files prefix mf"
        using update_path_in(1) [OF cp(1)] u(2) setting apartD(1) by (auto simp: update_setting_def)
      then have "s' cp = Some (Regular b)" using s'(2) cp(2) by (simp add: unchanged_outsideD)
      then show ?thesis
        using u Some cp setting s'(1)
        by (intro wp_replace_candidate [of E prefix mf exe "set_phase Replacing m" s'
              "u\<lparr>xu_pending := Some (p\<lparr>pe_phase := Replacing\<rparr>)\<rparr>" "p\<lparr>pe_phase := Replacing\<rparr>" cp b])
          (auto simp: direct_update_Inr pending_candidate_path_def)
    qed
    have now: "wp (replace_candidate E prefix mf m) (\<lambda>_. ?I) (\<lambda>_. ?I) ?I s"
      if "files_are False E m u p st s" "fv_candidate st = New_File" "pe_phase p = Replacing" for st
      using files_areD(3) [OF that(1,2)] wp_replace_candidate [OF setting s u(1,2) Some that(3)] by blast
    show ?thesis
      unfolding apply_or_recover_locked_def u(1) Some lift_result_simps bindio_ret ok_or_simps
    proof (rule wp_bindio, rule wp_lift_result, rule wp_bindio, rule wp_classify_files, goal_cases)
      case (1 x st)
      then show ?case
        using describe(1) [of st] describe(2) [of st] again [of st] now [of st] setting s I
        by (auto simp: staged_state_def invalid_recovery_state_def intro!: persist_then [OF setting s] persist_finish [OF setting s] wp_fail)
    qed (rule I)+
  qed
qed

lemma safe_fail [simp]: "safe_from E prefix mf exe m (fail e)"
  by (auto simp: safe_from_def intro: wp_fail update_open_inv)

lemma safe_ret [simp]: "safe_from E prefix mf exe m (ret x)"
  by (auto simp: safe_from_def intro: wp_ret update_open_inv)

lemma safe_lift:
  assumes "\<And>x. r = Inr x \<Longrightarrow> safe_from E prefix mf exe m (c x)"
  shows "safe_from E prefix mf exe m (bindio (lift_result r) c)"
  using assms by (cases r) simp_all

lemma safe_ensure:
  assumes "b \<Longrightarrow> safe_from E prefix mf exe m c"
  shows "safe_from E prefix mf exe m (bindio (ensure b msg) (\<lambda>_. c))"
  using assms by (cases b) (simp_all add: ensure_def)

lemma safe_if:
  "(b \<Longrightarrow> safe_from E prefix mf exe m c) \<Longrightarrow> (\<not> b \<Longrightarrow> safe_from E prefix mf exe m c') \<Longrightarrow>
     safe_from E prefix mf exe m (if b then c else c')"
  by simp

text \<open>A step that touches neither the metadata nor the executable.\<close>

lemma safe_stays:
  assumes "stays c P" "P \<inter> metadata_files prefix mf = {}" "exe \<notin> P" and k: "\<And>x. safe_from E prefix mf exe m (k x)"
  shows "safe_from E prefix mf exe m (bindio c k)"
  unfolding safe_from_def
proof (intro allI impI)
  fix s assume s: "update_open E prefix mf exe m s"
  have kept: "update_open E prefix mf exe m s'" if "unchanged_outside P s s'" for s'
    by (rule update_open_outside [OF s that assms(2,3)])
  show "wp (bindio c k) (\<lambda>_. update_inv E prefix mf exe) (\<lambda>_. update_inv E prefix mf exe) (update_inv E prefix mf exe) s"
    by (rule wp_bindio_stays [OF assms(1)])
      (use kept k update_open_inv [OF kept] in \<open>auto simp: safe_from_def\<close>)
qed

lemma safe_operation:
  assumes setting: "update_setting E prefix mf exe" and s: "update_inv E prefix mf exe s"
    and c: "\<And>m. safe_from E prefix mf exe m (c m)"
  shows "wp (bindio (acquire_lock prefix) (\<lambda>_. bindio (read_metadata_for (ue_json E) prefix mf) c))
    (\<lambda>_. update_inv E prefix mf exe) (\<lambda>_. update_inv E prefix mf exe) (update_inv E prefix mf exe) s"
proof (rule wp_bindio, rule wp_acquire_update [OF _ _ _ _ s], goal_cases)
  case (5 s')
  have "wp (bindio (read_metadata_for (ue_json E) prefix mf) c)
      (\<lambda>_. update_inv E prefix mf exe) (\<lambda>_. update_inv E prefix mf exe) (update_inv E prefix mf exe) s'"
    by (rule wp_bindio, rule wp_read_update [OF _ _ _ 5])
      (use setting c in \<open>auto simp: update_setting_def safe_from_def\<close>)
  with 5 show ?case by blast
qed (use setting in \<open>simp_all add: update_setting_def\<close>)

lemma read_owned_then:
  "bindio (read_owned_metadata E prefix mf) c =
     bindio (read_metadata_for (ue_json E) prefix mf) (\<lambda>meta.
     bindio (lift_result (validate_current_metadata E meta mf)) (\<lambda>_.
     bindio (ensure (pm_update meta \<noteq> None) ''runtime metadata does not configure executable updates'') (\<lambda>_. c meta)))"
  by (rule ext) (auto simp: read_owned_metadata_def bindio_def lift_result_def ensure_def ret_def fail_def
      split: outcome.splits prod.splits sum.splits)

lemma safe_finish_cleanup:
  assumes setting: "update_setting E prefix mf exe"
  shows "safe_from E prefix mf exe m (finish_cleanup_locked windows E prefix mf m)"
  unfolding safe_from_def
proof (intro allI impI)
  fix s assume s: "update_open E prefix mf exe m s"
  let ?I = "update_inv E prefix mf exe"
  note I = update_open_inv [OF s]
  obtain u where u: "direct_update m = Inr u" "snd (xu_executable u) = exe" "pm_update m = Some u"
    using update_openE [OF s] by metis
  show "wp (finish_cleanup_locked windows E prefix mf m) (\<lambda>_. ?I) (\<lambda>_. ?I) ?I s"
  proof (cases "xu_pending u")
    case None
    with I u show ?thesis by (simp add: finish_cleanup_locked_def wp_fail)
  next
    case (Some p)
    have committed: "metadata_describes E exe (clear_pending (commit_new_version m)) s"
      if "files_are windows E m u p st s" "fv_target st = New_File" for st
      using files_areD(2) [OF that] describes_pending(4) [OF u(1,2), of s] Some u(2) by blast
    have finish: "wp (bindio (persist_metadata_for (ue_json E) prefix mf (clear_pending (commit_new_version m))) (\<lambda>_. ret Update_Applied))
        (\<lambda>_. ?I) (\<lambda>_. ?I) ?I s'"
      if "files_are windows E m u p st s" "fv_target st = New_File" "unchanged_outside {bp} s s'"
        "pending_backup_path windows u = Inr bp" for st s' bp
    proof -
      have "bp \<notin> metadata_files prefix mf" "bp \<noteq> exe"
        using update_path_in(3) [OF that(4)] u(2) setting apartD(1) by (auto simp: update_setting_def)
      then have "update_open E prefix mf exe m s'" "s' exe = s exe"
        using update_open_outside [OF s that(3)] unchanged_outsideD [OF that(3), of exe] by auto
      with committed [OF that(1,2)] show ?thesis
        by (intro persist_finish [OF setting]) (auto cong: metadata_describes_same)
    qed
    have removed: "wp (bindio (tryio (remove_file bp)) (\<lambda>r. if r = Inr () \<or> r = Inl Not_Found
         then bindio (persist_metadata_for (ue_json E) prefix mf (clear_pending (commit_new_version m))) (\<lambda>_. ret Update_Applied)
         else ret Update_Cleanup_Pending)) (\<lambda>_. ?I) (\<lambda>_. ?I) ?I s"
      if "files_are windows E m u p st s" "fv_target st = New_File" "pending_backup_path windows u = Inr bp" for st bp
    proof -
      have "bp \<notin> metadata_files prefix mf" "bp \<noteq> exe"
        using update_path_in(3) [OF that(3)] u(2) setting apartD(1) by (auto simp: update_setting_def)
      then have gone: "?I (s(bp := None))"
        using update_open_inv [OF update_open_outside [OF s, of "{bp}" "s(bp := None)"]] by (simp add: unchanged_outside_def)
      show ?thesis
        by (rule wp_bindio, rule wp_tryio, rule wp_remove_file)
          (use gone I finish [OF that(1,2) _ that(3)] in \<open>auto simp: unchanged_outside_def intro: wp_ret\<close>)
    qed
    show ?thesis
      unfolding finish_cleanup_locked_def u(1) Some lift_result_simps bindio_ret ok_or_simps
    proof (rule wp_bindio, rule wp_lift_result, rule wp_bindio, rule wp_classify_files, goal_cases)
      case (1 x st)
      then obtain bp where bp: "pending_backup_path windows u = Inr bp" by (auto simp: files_are_def)
      show ?case
        using removed [OF 1(2) _ bp] finish [OF 1(2) _ unchanged_outside_refl bp] I
        by (auto simp: bp invalid_recovery_state_def intro: wp_fail)
    qed (rule I)+
  qed
qed

lemma safe_classify:
  assumes "\<And>s st. update_open E prefix mf exe m s \<Longrightarrow> files_are windows E m u p st s \<Longrightarrow>
    wp (k st) (\<lambda>_. update_inv E prefix mf exe) (\<lambda>_. update_inv E prefix mf exe) (update_inv E prefix mf exe) s"
  shows "safe_from E prefix mf exe m (bindio (classify_files windows E m u p) k)"
  unfolding safe_from_def
proof (intro allI impI)
  fix s assume s: "update_open E prefix mf exe m s"
  show "wp (bindio (classify_files windows E m u p) k)
    (\<lambda>_. update_inv E prefix mf exe) (\<lambda>_. update_inv E prefix mf exe) (update_inv E prefix mf exe) s"
    by (rule wp_bindio, rule wp_classify_files) (use assms s update_open_inv [OF s] in auto)
qed

lemma safe_known_update:
  assumes "\<And>u. direct_update m = Inr u \<Longrightarrow> snd (xu_executable u) = exe \<Longrightarrow> safe_from E prefix mf exe m (k u)"
  shows "safe_from E prefix mf exe m (bindio (lift_result (direct_update m)) k)"
  unfolding safe_from_def
proof (intro allI impI)
  fix s assume s: "update_open E prefix mf exe m s"
  obtain u where "direct_update m = Inr u" "snd (xu_executable u) = exe" using update_openE [OF s] by metis
  with assms s show "wp (bindio (lift_result (direct_update m)) k)
    (\<lambda>_. update_inv E prefix mf exe) (\<lambda>_. update_inv E prefix mf exe) (update_inv E prefix mf exe) s"
    by (simp add: safe_from_def)
qed

lemma wp_mark_pending_ready:
  assumes setting: "update_setting E prefix mf exe" and s: "update_inv E prefix mf exe s"
  shows "wp (mark_pending_ready windows E prefix mf)
    (\<lambda>_. update_inv E prefix mf exe) (\<lambda>_. update_inv E prefix mf exe) (update_inv E prefix mf exe) s"
  unfolding mark_pending_ready_def read_owned_then
proof (rule safe_operation [OF setting s], rule safe_lift, rule safe_ensure, rule safe_known_update, goal_cases)
  case (1 m x u)
  show ?case
  proof (cases "xu_pending u")
    case (Some p)
    have "safe_from E prefix mf exe m (bindio (classify_files windows E m u p) (\<lambda>files.
        if files \<noteq> staged_state then invalid_recovery_state
        else bindio (persist_metadata_for (ue_json E) prefix mf (set_phase Ready m)) (\<lambda>_. ret Update_Ready)))"
    proof (rule safe_classify)
      fix s st assume st: "update_open E prefix mf exe m s" "files_are windows E m u p st s"
      have "metadata_describes E exe (set_phase Ready m) s" if "fv_target st = Old_File"
        using files_areD(1) [OF st(2) that] describes_pending(1) [OF 1(3,4)] 1(4) by blast
      then show "wp (if st \<noteq> staged_state then invalid_recovery_state
          else bindio (persist_metadata_for (ue_json E) prefix mf (set_phase Ready m)) (\<lambda>_. ret Update_Ready))
          (\<lambda>_. update_inv E prefix mf exe) (\<lambda>_. update_inv E prefix mf exe) (update_inv E prefix mf exe) s"
        using persist_finish [OF setting st(1)] update_open_inv [OF st(1)]
        by (auto simp: staged_state_def invalid_recovery_state_def intro: wp_fail)
    qed
    then show ?thesis by (auto simp: Some intro!: safe_lift safe_if)
  qed simp
qed

section \<open>What the helpers touch\<close>

lemma stays_update_checks [stays_intros]:
  "stays (require_regular_file p) P" "stays (regular_file_present p) P" "stays (sha256_hex E p) P" "stays (canonicalize p) P"
  "stays (set_permissions p) P" "stays (sync_parent windows p) P"
proof -
  show "stays (require_regular_file p) P" unfolding require_regular_file_def by (intro stays_intros)
  show "stays (regular_file_present p) P" unfolding regular_file_present_def by (intro stays_intros)
  show "stays (sha256_hex E p) P" unfolding sha256_hex_def by (intro stays_intros)
  show "stays (canonicalize p) P" "stays (set_permissions p) P"
    unfolding canonicalize_def set_permissions_def stays_def by (auto intro!: wp_atomic_op split: if_splits)
  have "stays (atomic_op (\<lambda>s. if parent_exists s p then Inr ((), s) else Inl Not_Found)) P"
    unfolding stays_def by (auto intro!: wp_atomic_op split: if_splits)
  then show "stays (sync_parent windows p) P" by (simp add: sync_parent_def stays_intros)
qed

lemma stays_verify [stays_intros]: "stays (verify_stamped_file E m u p v d) P"
  unfolding verify_stamped_file_def by (intro stays_intros)

lemma stays_classify_target [stays_intros]: "stays (classify_target E m u p) P"
  unfolding classify_target_def Let_def by (intro stays_intros)

lemma stays_stage_file [stays_intros]:
  "candidate \<in> P \<Longrightarrow> with_extension candidate ''new.tmp'' \<in> P \<Longrightarrow> stays (stage_file windows source candidate target) P"
  unfolding stage_file_def Let_def by (intro stays_intros)

text \<open>The temporary names stay in the family of the executable.\<close>

lemma starts_with_append: "starts_with p s \<Longrightarrow> starts_with p (s @ t)"
proof -
  assume p: "starts_with p s"
  then have "length (take (length p) s) = length p" by (simp add: starts_with_def)
  then have "length p \<le> length s" by simp
  with p show "starts_with p (s @ t)" by (simp add: starts_with_def)
qed

lemma update_files_extension:
  assumes p: "p \<in> update_files exe" "p \<noteq> exe" and name: "last p = x @ ''.'' @ e" "CHR ''.'' \<notin> set e"
    and x: "starts_with (''.'' @ last exe @ ''.conda-ship-'') x" and e': "e' \<noteq> []"
  shows "with_extension p e' \<in> update_files exe - {exe}" and "with_extension p e' = butlast p @ [x @ ''.'' @ e']"
proof -
  from p have "p \<noteq> []" "butlast p = butlast exe" by (auto simp: update_files_def)
  from x have ne: "x \<noteq> []" by (auto simp: starts_with_def)
  have "x @ ''.'' @ e \<noteq> ''..''"
    using x by (cases x; cases "tl x") (auto simp: starts_with_def split: if_splits)
  then have "file_name p = Some (last p)" using \<open>p \<noteq> []\<close> name by (simp add: file_name_def)
  then show eq: "with_extension p e' = butlast p @ [x @ ''.'' @ e']"
    by (simp add: with_extension_def name(1) name_stem_dot [OF ne name(2), unfolded append_Cons append_Nil])
  have "length x > length (last exe)"
    using x by (auto simp: starts_with_def dest!: arg_cong [where f = length])
  then have "last exe \<noteq> x @ ''.'' @ e'" by auto
  then have "with_extension p e' \<noteq> exe" unfolding eq by auto
  moreover have "with_extension p e' \<in> update_files exe"
    unfolding eq update_files_def using starts_with_append [OF x, of "''.'' @ e'"] \<open>butlast p = butlast exe\<close> by simp
  ultimately show "with_extension p e' \<in> update_files exe - {exe}" by simp
qed

lemma adjacent_update_pathE:
  assumes "adjacent_update_path exe digest suffix = Inr p"
  shows "last p = (''.'' @ last exe @ ''.conda-ship-'' @ take 16 digest) @ ''.'' @ suffix" and "butlast p = butlast exe"
  using assms by (auto simp: adjacent_update_path_def success_simps parent_def file_name_def split: if_splits)

lemma candidate_temporary:
  assumes "candidate_path exe d = Inr cp"
  shows "with_extension cp ''new.tmp'' \<in> update_files exe - {exe}"
  using update_path_in(2) [OF assms]
  by (intro update_files_extension(1) [OF _ _ adjacent_update_pathE(1) [OF assms [unfolded candidate_path_def]]])
    (auto simp: starts_with_def)

lemma backup_temporaries:
  assumes "pending_backup_path True u = Inr bp"
  defines "exe \<equiv> snd (xu_executable u)"
  shows "with_extension bp ''tmp.exe'' \<in> update_files exe - {exe}"
    and "with_extension (with_extension bp ''tmp.exe'') ''new.tmp'' \<in> update_files exe - {exe}"
proof -
  let ?x = "(''.'' @ last exe @ ''.conda-ship-'' @ take 16 (xu_sha256 u)) @ ''.old''"
  have bp: "bp \<in> update_files exe" "bp \<noteq> exe" using update_path_in(3) [OF assms(1)] by (simp_all add: exe_def)
  have last: "last bp = ?x @ ''.'' @ ''exe''"
    using adjacent_update_pathE(1) [of exe "xu_sha256 u" "''old.exe''" bp] assms(1)
    by (simp add: exe_def pending_backup_path_def backup_path_def)
  have x: "starts_with (''.'' @ last exe @ ''.conda-ship-'') (?x @ y)" for y
    by (simp add: starts_with_def)
  have first: "with_extension bp ''tmp.exe'' = butlast bp @ [?x @ ''.'' @ ''tmp.exe'']"
    by (rule update_files_extension(2) [OF bp last]) (use x [of "[]"] in simp_all)
  show one: "with_extension bp ''tmp.exe'' \<in> update_files exe - {exe}"
    by (rule update_files_extension(1) [OF bp last]) (use x [of "[]"] in simp_all)
  have "last (with_extension bp ''tmp.exe'') = (?x @ ''.tmp'') @ ''.'' @ ''exe''"
    by (simp add: first)
  then show "with_extension (with_extension bp ''tmp.exe'') ''new.tmp'' \<in> update_files exe - {exe}"
    using one x [of "''.tmp''"] by (intro update_files_extension(1)) auto
qed

lemma stays_windows_worker:
  assumes "snd (xu_executable u) = exe"
  shows "stays (stage_windows_worker_backup E m u) (update_files exe - {exe})"
proof (cases "pending_backup_path True u")
  case (Inl e)
  then show ?thesis by (simp add: stage_windows_worker_backup_def stays_intros)
next
  case (Inr bp)
  note files = backup_temporaries [OF Inr, unfolded assms] update_path_in(3) [OF Inr, unfolded assms]
  then have "bp \<in> update_files exe - {exe}" by simp
  with files(1,2) show ?thesis
    unfolding stage_windows_worker_backup_def Inr lift_result_simps bindio_ret Let_def remove_update_file_if_present_def
    by (intro stays_intros)
qed

lemma update_family_apart:
  assumes "update_setting E prefix mf exe"
  shows "(update_files exe - {exe}) \<inter> metadata_files prefix mf = {}"
  using assms by (auto simp: update_setting_def apart_def)

section \<open>Operations on Windows\<close>

lemma safe_prepare_and_spawn:
  assumes setting: "update_setting E prefix mf exe" and spawn: "\<And>w. stays (ue_spawn E prefix w) {}"
    and s: "update_open E prefix mf exe m s" and u: "direct_update m = Inr u" "snd (xu_executable u) = exe"
    and old: "s exe = Some (Regular b)" "verified E m u b (pm_version m) (xu_sha256 u)"
  shows "wp (prepare_and_spawn_windows_worker_locked E prefix mf m)
    (\<lambda>_. update_inv E prefix mf exe) (\<lambda>_. update_inv E prefix mf exe) (update_inv E prefix mf exe) s"
proof -
  let ?I = "update_inv E prefix mf exe"
  let ?m = "set_phase Replacing m"
  have spawned: "safe_from E prefix mf exe ?m (bindio (lift_result (pending_backup_path True u)) (\<lambda>worker.
      bindio (require_regular_file worker) (\<lambda>_. bindio (ue_spawn E prefix worker) (\<lambda>_. ret Update_Replacement_Pending))))"
    by (intro safe_lift safe_stays [where P = "{}"] stays_intros spawn safe_ret) simp_all
  have assoc: "prepare_and_spawn_windows_worker_locked E prefix mf m =
     bindio (stage_windows_worker_backup E m u) (\<lambda>_. bindio (persist_metadata_for (ue_json E) prefix mf ?m) (\<lambda>_.
       bindio (lift_result (pending_backup_path True u)) (\<lambda>worker.
       bindio (require_regular_file worker) (\<lambda>_. bindio (ue_spawn E prefix worker) (\<lambda>_. ret Update_Replacement_Pending)))))"
    by (simp add: prepare_and_spawn_windows_worker_locked_def prepare_windows_worker_locked_def u bindio_assoc)
  show ?thesis
    unfolding assoc
  proof (rule wp_bindio_stays [OF stays_windows_worker [OF u(2)]], goal_cases)
    case (1 x s')
    have "update_open E prefix mf exe m s'"
      by (rule update_open_outside [OF s 1 update_family_apart [OF setting]]) simp
    moreover have "s' exe = s exe" by (rule unchanged_outsideD [OF 1]) simp
    ultimately show ?case
      using old describes_pending(1) [OF u, of s'] spawned unfolding safe_from_def
      by (intro persist_then [OF setting]) auto
  next
    case (2 s')
    show ?case using update_open_inv [OF update_open_outside [OF s 2 update_family_apart [OF setting]]] by simp
  qed
qed

lemma safe_abandon:
  assumes setting: "update_setting E prefix mf exe"
    and s: "update_open E prefix mf exe m s" and u: "direct_update m = Inr u" "snd (xu_executable u) = exe"
    and old: "s exe = Some (Regular b)" "verified E m u b (pm_version m) (xu_sha256 u)"
  shows "wp (abandon_missing_candidate E prefix mf m bv)
    (\<lambda>_. update_inv E prefix mf exe) (\<lambda>_. update_inv E prefix mf exe) (update_inv E prefix mf exe) s"
proof -
  have "stays (if bv = Old_File then bindio (lift_result (direct_update m)) (\<lambda>update.
      bindio (lift_result (pending_backup_path True update)) (\<lambda>p. bindio (tryio (remove_file p)) (\<lambda>removed.
      ret (removed = Inr () \<or> removed = Inl Not_Found)))) else ret True) (update_files exe - {exe})"
  proof (cases "pending_backup_path True u")
    case (Inr bp)
    then have "bp \<in> update_files exe - {exe}" using update_path_in(3) [OF Inr] u(2) by simp
    then show ?thesis unfolding u(1) lift_result_simps bindio_ret Inr by (intro stays_intros)
  qed (simp add: u stays_intros)
  then show ?thesis
    unfolding abandon_missing_candidate_def
  proof (rule wp_bindio_stays, goal_cases)
    case (1 gone s')
    have opened: "update_open E prefix mf exe m s'"
      by (rule update_open_outside [OF s 1 update_family_apart [OF setting]]) simp
    have "s' exe = s exe" by (rule unchanged_outsideD [OF 1]) simp
    then have "metadata_describes E exe (clear_pending m) s'" using old describes_pending(2) [OF u, of s'] by simp
    then show ?case
      using persist_finish [OF setting opened] update_open_inv [OF opened] by (auto intro: wp_ret)
  next
    case (2 s')
    show ?case using update_open_inv [OF update_open_outside [OF s 2 update_family_apart [OF setting]]] by simp
  qed
qed

lemma safe_recover_windows:
  assumes setting: "update_setting E prefix mf exe" and spawn: "\<And>w. stays (ue_spawn E prefix w) {}"
  shows "safe_from E prefix mf exe m (recover_or_schedule_windows_locked E prefix mf m)"
proof -
  let ?I = "update_inv E prefix mf exe"
  have body: "safe_from E prefix mf exe m (bindio (classify_files True E m u p) (\<lambda>files.
      bindio (lift_result (pending_backup_path True u)) (k files)))"
    if "\<And>s st bp. update_open E prefix mf exe m s \<Longrightarrow> files_are True E m u p st s \<Longrightarrow> wp (k st bp) (\<lambda>_. ?I) (\<lambda>_. ?I) ?I s"
    for u p and k :: "file_state \<Rightarrow> path \<Rightarrow> update_outcome io"
  proof (rule safe_classify)
    fix s st assume "update_open E prefix mf exe m s" "files_are True E m u p st s"
    then show "wp (bindio (lift_result (pending_backup_path True u)) (k st)) (\<lambda>_. ?I) (\<lambda>_. ?I) ?I s"
      using that by (cases "pending_backup_path True u") (auto intro: wp_fail update_open_inv)
  qed
  have branches: "wp (let executable = snd (xu_executable u); phase = pe_phase p in
     if (phase = Ready \<or> phase = Replacing) \<and> fv_target st = Old_File \<and> fv_candidate st = New_File \<and> fv_backup st \<noteq> New_File then
       prepare_and_spawn_windows_worker_locked E prefix mf m
     else if (phase = Ready \<or> phase = Replacing) \<and> fv_target st = Old_File \<and> fv_candidate st = Missing_File \<and> fv_backup st \<noteq> New_File then
       abandon_missing_candidate E prefix mf m (fv_backup st)
     else if phase = Replacing \<and> st = \<lparr>fv_target = Missing_File, fv_candidate = New_File, fv_backup = Old_File\<rparr> then
       bindio (rename bp executable) (\<lambda>_. prepare_and_spawn_windows_worker_locked E prefix mf m)
     else if phase = Replacing \<and> st = \<lparr>fv_target = New_File, fv_candidate = Missing_File, fv_backup = Old_File\<rparr> then
       bindio (persist_metadata_for (ue_json E) prefix mf (set_phase Cleanup m)) (\<lambda>_.
       finish_cleanup_locked True E prefix mf (set_phase Cleanup m))
     else if phase = Replacing \<and> st = \<lparr>fv_target = New_File, fv_candidate = Missing_File, fv_backup = Missing_File\<rparr> then
       bindio (persist_metadata_for (ue_json E) prefix mf (clear_pending (commit_new_version m))) (\<lambda>_. ret Update_Applied)
     else if phase = Replacing \<and> st = \<lparr>fv_target = Missing_File, fv_candidate = Missing_File, fv_backup = Old_File\<rparr> then
       bindio (rename bp executable) (\<lambda>_.
       bindio (persist_metadata_for (ue_json E) prefix mf (clear_pending m)) (\<lambda>_. ret Update_Restored_Previous))
     else invalid_recovery_state) (\<lambda>_. ?I) (\<lambda>_. ?I) ?I s"
    if u: "direct_update m = Inr u" "snd (xu_executable u) = exe" "xu_pending u = Some p"
      and s: "update_open E prefix mf exe m s" and st: "files_are True E m u p st s" for u p st s bp
  proof -
    have present: "fv_target st \<noteq> Missing_File"
      using s st u by (auto simp: update_open_def metadata_describes_def target_recorded_def files_are_def)
    have old: "wp (prepare_and_spawn_windows_worker_locked E prefix mf m) (\<lambda>_. ?I) (\<lambda>_. ?I) ?I s"
        "wp (abandon_missing_candidate E prefix mf m bv) (\<lambda>_. ?I) (\<lambda>_. ?I) ?I s" if "fv_target st = Old_File" for bv
      using files_areD(1) [OF st that] safe_prepare_and_spawn [OF setting spawn s u(1,2)] safe_abandon [OF setting s u(1,2)] u(2)
      by blast+
    have new: "metadata_describes E exe (set_phase Cleanup m) s" "metadata_describes E exe (clear_pending (commit_new_version m)) s"
      if "fv_target st = New_File"
      using files_areD(2) [OF st that] describes_pending(4,5) [OF u(1,2), of s] u by blast+
    have cleanup: "fv_target st = New_File \<Longrightarrow> wp (bindio (persist_metadata_for (ue_json E) prefix mf (set_phase Cleanup m)) (\<lambda>_.
       finish_cleanup_locked True E prefix mf (set_phase Cleanup m))) (\<lambda>_. ?I) (\<lambda>_. ?I) ?I s"
      using safe_finish_cleanup [OF setting] unfolding safe_from_def
      by (intro persist_then [OF setting s new(1)]) simp_all
    have finish: "fv_target st = New_File \<Longrightarrow> wp (bindio (persist_metadata_for (ue_json E) prefix mf
        (clear_pending (commit_new_version m))) (\<lambda>_. ret Update_Applied)) (\<lambda>_. ?I) (\<lambda>_. ?I) ?I s"
      by (rule persist_finish [OF setting s new(2)])
    show ?thesis
      using present old cleanup finish update_open_inv [OF s]
      by (auto simp: Let_def invalid_recovery_state_def intro: wp_fail)
  qed
  show ?thesis
    unfolding recover_or_schedule_windows_locked_def
  proof (rule safe_known_update, rule safe_lift, rule safe_lift, goal_cases)
    case (1 u p x)
    then show ?case by (intro body branches) (simp_all add: success_simps)
  qed
qed

lemma wp_apply_pending:
  assumes setting: "update_setting E prefix mf exe" and spawn: "\<And>w. stays (ue_spawn E prefix w) {}"
    and s: "update_inv E prefix mf exe s"
  shows "wp (apply_pending windows E prefix mf)
    (\<lambda>_. update_inv E prefix mf exe) (\<lambda>_. update_inv E prefix mf exe) (update_inv E prefix mf exe) s"
  unfolding apply_pending_def read_owned_then
proof (rule safe_operation [OF setting s], rule safe_lift, rule safe_ensure, rule safe_known_update, goal_cases)
  case (1 m x u)
  show ?case
    by (auto intro!: safe_if safe_finish_cleanup [OF setting] safe_apply_or_recover [OF setting]
        safe_recover_windows [OF setting spawn] split: option.split pending_phase.split)
qed

lemma safe_recover_staged:
  assumes setting: "update_setting E prefix mf exe"
  shows "safe_from E prefix mf exe m (recover_staged_locked windows E prefix mf m discard)"
  unfolding recover_staged_locked_def
proof (rule safe_known_update, rule safe_lift, rule safe_lift, rule safe_classify, goal_cases)
  case (1 u p x s files)
  let ?I = "update_inv E prefix mf exe"
  let ?k = "\<lambda>d. if \<not> d then ret Update_Staged
    else bindio (persist_metadata_for (ue_json E) prefix mf (clear_pending m)) (\<lambda>_. ret Update_Discarded_Staged)"
  from 1(6) obtain cp where cp: "pending_candidate_path u p = Inr cp" by (auto simp: files_are_def)
  have in_family: "cp \<in> update_files exe - {exe}" using update_path_in(1) [OF cp] 1(2) by simp
  have "wp (bindio (discard_candidate E prefix mf discard cp files) ?k) (\<lambda>_. ?I) (\<lambda>_. ?I) ?I s"
  proof (cases "fv_target files = Old_File")
    case True
    then obtain b where old: "s exe = Some (Regular b)" "verified E m u b (pm_version m) (xu_sha256 u)"
      using files_areD(1) [OF 1(6)] 1(2) by blast
    have "stays (discard_candidate E prefix mf discard cp files) (update_files exe - {exe})"
      unfolding discard_candidate_def invalid_recovery_state_def update_lock_is_held_def by (intro stays_intros in_family)
    then show ?thesis
    proof (rule wp_bindio_stays)
      fix d s' assume s': "unchanged_outside (update_files exe - {exe}) s s'"
      have opened: "update_open E prefix mf exe m s'"
        by (rule update_open_outside [OF 1(5) s' update_family_apart [OF setting]]) simp
      have "s' exe = s exe" by (rule unchanged_outsideD [OF s']) simp
      then have "metadata_describes E exe (clear_pending m) s'" using old describes_pending(2) [OF 1(1,2), of s'] by simp
      then show "wp (?k d) (\<lambda>_. ?I) (\<lambda>_. ?I) ?I s'"
        using persist_finish [OF setting opened] update_open_inv [OF opened] by (auto intro: wp_ret)
      show "(\<forall>e. ?I s') \<and> ?I s'" using update_open_inv [OF opened] by simp
    qed
  next
    case False
    then show ?thesis
      using update_open_inv [OF 1(5)] by (auto simp: discard_candidate_def staged_state_def invalid_recovery_state_def intro: wp_fail)
  qed
  then show ?case by (simp add: cp)
qed

lemma wp_recover_pending_with:
  assumes setting: "update_setting E prefix mf exe" and spawn: "\<And>w. stays (ue_spawn E prefix w) {}"
    and s: "update_inv E prefix mf exe s"
  shows "wp (recover_pending_with windows E prefix mf discard)
    (\<lambda>_. update_inv E prefix mf exe) (\<lambda>_. update_inv E prefix mf exe) (update_inv E prefix mf exe) s"
  unfolding recover_pending_with_def
proof (rule safe_operation [OF setting s], rule safe_lift, goal_cases)
  case (1 m x)
  show ?case
    by (auto intro!: safe_if safe_finish_cleanup [OF setting] safe_apply_or_recover [OF setting]
        safe_recover_windows [OF setting spawn] safe_recover_staged [OF setting]
        split: option.split pending_phase.split)
qed

section \<open>Staging and the Windows worker\<close>

lemma safe_record_staged:
  assumes setting: "update_setting E prefix mf exe" and u: "direct_update m = Inr u" "snd (xu_executable u) = exe"
    and none: "xu_pending u = None" and cp: "cp \<in> update_files exe - {exe}"
  shows "safe_from E prefix mf exe m (bindio (tryio (persist_metadata_for (ue_json E) prefix mf (set_pending p m)))
    (\<lambda>persisted. case persisted of
       Inl e \<Rightarrow> bindio (if created then bindio (tryio (remove_file cp)) (\<lambda>_. ret ()) else ret ()) (\<lambda>_. fail e)
     | Inr _ \<Rightarrow> ret Update_Staged))"
  unfolding safe_from_def
proof (intro allI impI)
  fix s assume s: "update_open E prefix mf exe m s"
  let ?I = "update_inv E prefix mf exe"
  obtain b where "s exe = Some (Regular b)" "verified E m u b (pm_version m) (xu_sha256 u)"
    using s u none by (auto simp: update_open_def metadata_describes_def target_recorded_def)
  then have described: "metadata_describes E exe (set_pending p m) s" using describes_pending(3) [OF u, of s] by blast
  have undo: "wp (bindio (if created then bindio (tryio (remove_file cp)) (\<lambda>_. ret ()) else ret ()) (\<lambda>_. fail e)) Q (\<lambda>_. ?I) ?I s'"
    if "?I s'" for s' e and Q :: "update_outcome \<Rightarrow> fs \<Rightarrow> bool"
  proof (rule wp_bindio_stays [where P = "update_files exe - {exe}"], goal_cases)
    case 1
    show ?case by (intro stays_intros cp)
  next
    case (2 x t)
    show ?case using update_inv_outside [OF that 2 update_family_apart [OF setting]] by (simp add: wp_fail)
  next
    case (3 t)
    show ?case using update_inv_outside [OF that 3 update_family_apart [OF setting]] by simp
  qed
  show "wp (bindio (tryio (persist_metadata_for (ue_json E) prefix mf (set_pending p m)))
    (\<lambda>persisted. case persisted of
       Inl e \<Rightarrow> bindio (if created then bindio (tryio (remove_file cp)) (\<lambda>_. ret ()) else ret ()) (\<lambda>_. fail e)
     | Inr _ \<Rightarrow> ret Update_Staged)) (\<lambda>_. ?I) (\<lambda>_. ?I) ?I s"
  proof (rule wp_bindio, rule wp_tryio, rule wp_persist_update [OF _ _ _ s described])
    show "json_laws (ue_json E)" "metadata_file_ok mf" "apart prefix mf exe"
      using setting by (simp_all add: update_setting_def)
  qed (use undo update_open_inv in \<open>auto intro: wp_ret\<close>)
qed

lemma safe_look:
  assumes "stays c {}" "\<And>x. safe_from E prefix mf exe m (k x)"
  shows "safe_from E prefix mf exe m (bindio c k)"
  by (rule safe_stays [OF assms(1) _ _ assms(2)]) simp_all

lemma wp_stage_candidate:
  assumes setting: "update_setting E prefix mf exe" and s: "update_inv E prefix mf exe s"
  shows "wp (stage_candidate windows E prefix mf source version build_number)
    (\<lambda>_. update_inv E prefix mf exe) (\<lambda>_. update_inv E prefix mf exe) (update_inv E prefix mf exe) s"
  unfolding stage_candidate_def read_owned_then Let_def
proof (rule safe_operation [OF setting s], rule safe_lift, rule safe_ensure, rule safe_known_update, rule safe_ensure,
    rule safe_look, (intro stays_intros) [1], rule safe_look, (intro stays_intros) [1], rule safe_look, (intro stays_intros) [1],
    rule safe_look, (intro stays_intros) [1], rule safe_look, (intro stays_intros) [1], rule safe_ensure, rule safe_lift,
    rule safe_lift, rule safe_look, (intro stays_intros) [1], rule safe_ensure, rule safe_look, (intro stays_intros) [1], goal_cases)
  case (1 m x u _ _ _ new_sha256 _ cp bp backup_present candidate_present)
  have cp: "cp \<in> update_files exe - {exe}" "with_extension cp ''new.tmp'' \<in> update_files exe - {exe}"
  proof -
    have "candidate_path exe new_sha256 = Inr cp" using 1 by simp
    from update_path_in(2) [OF this] candidate_temporary [OF this]
    show "cp \<in> update_files exe - {exe}" "with_extension cp ''new.tmp'' \<in> update_files exe - {exe}" by simp_all
  qed
  show ?case
  proof (rule safe_stays [OF _ update_family_apart [OF setting]], goal_cases)
    case 1
    show ?case by (intro stays_intros cp)
  next
    case (3 created)
    show ?case
    proof (rule safe_look, (intro stays_intros) [1], goal_cases)
      case (1 staged_result)
      have undo: "safe_from E prefix mf exe m (bindio (if created then bindio (tryio (remove_file cp)) (\<lambda>_. ret ()) else ret ()) (\<lambda>_. fail e))" for e
        by (rule safe_stays [OF _ update_family_apart [OF setting]]) (intro stays_intros cp, simp_all)
      show ?case
      proof (cases staged_result)
        case (Inl e)
        show ?thesis unfolding Inl sum.case by (rule undo)
      next
        case (Inr x)
        show ?thesis unfolding Inr sum.case
          by (rule safe_record_staged [OF setting \<open>direct_update m = Inr u\<close> \<open>snd (xu_executable u) = exe\<close>
                \<open>xu_pending u = None\<close> cp(1)])
      qed
    qed
  qed simp
qed

lemma wp_windows_worker_once:
  assumes setting: "update_setting E prefix mf exe" and s: "update_inv E prefix mf exe s"
  shows "wp (run_windows_worker_once E prefix mf)
    (\<lambda>_. update_inv E prefix mf exe) (\<lambda>_. update_inv E prefix mf exe) (update_inv E prefix mf exe) s"
  unfolding run_windows_worker_once_def read_owned_then
proof (rule safe_operation [OF setting s], rule safe_lift, rule safe_ensure, rule safe_known_update, goal_cases)
  case (1 m x u)
  let ?I = "update_inv E prefix mf exe"
  have look: "stays (validate_windows_worker_path E bp) {}" for bp
    unfolding validate_windows_worker_path_def by (intro stays_intros)
  show ?case
  proof (cases "xu_pending u")
    case (Some p)
    have recorded: "wp (bindio (persist_metadata_for (ue_json E) prefix mf (set_phase Cleanup m)) (\<lambda>_. ret Worker_Complete)) (\<lambda>_. ?I) (\<lambda>_. ?I) ?I s"
      if "update_open E prefix mf exe m s" "s exe = Some (Regular b)" "verified E m u b (pe_version p) (pe_executable_sha256 p)" for s b
      by (rule persist_finish [OF setting that(1)], rule describes_pending(5) [where s = s and exe = exe, OF 1(3,4) that(2) Some that(3)]) simp
    have replace: "wp (bindio (tryio (rename cp exe)) (\<lambda>r. case r of Inl e \<Rightarrow> ret (Worker_Retry e)
         | Inr _ \<Rightarrow> bindio (classify_target E m u p) (\<lambda>target.
             bindio (ensure (target = New_File) msg) (\<lambda>_.
             bindio (persist_metadata_for (ue_json E) prefix mf (set_phase Cleanup m)) (\<lambda>_. ret Worker_Complete)))))
         (\<lambda>_. ?I) (\<lambda>_. ?I) ?I s"
      if s: "update_open E prefix mf exe m s" and cp: "pending_candidate_path u p = Inr cp"
        and new: "s cp = Some (Regular b)" "verified E m u b (pe_version p) (pe_executable_sha256 p)"
        and phase: "pe_phase p = Replacing" for s cp b msg
    proof -
      let ?s = "s(cp := None, exe \<mapsto> Regular b)"
      have "{cp, exe} \<inter> metadata_files prefix mf = {}"
        using update_path_in(1) [OF cp] 1(4) setting apartD(1) [of prefix mf exe] by (auto simp: update_setting_def)
      moreover have "unchanged_outside {cp, exe} s ?s" by (simp add: unchanged_outside_def)
      ultimately have "recoverable (ue_json E) prefix mf ?s = recoverable (ue_json E) prefix mf s"
        "metadata_settled (ue_json E) prefix mf ?s \<longleftrightarrow> metadata_settled (ue_json E) prefix mf s"
        using recoverable_outside [of "{cp, exe}" s ?s prefix mf "ue_json E"] by blast+
      then have opened: "update_open E prefix mf exe m ?s"
        using s describes_pending(6) [OF 1(3,4) _ Some new(2), of ?s] phase by (simp add: update_open_def)
      have after: "wp (bindio (classify_target E m u p) (\<lambda>target. bindio (ensure (target = New_File) msg) (\<lambda>_.
             bindio (persist_metadata_for (ue_json E) prefix mf (set_phase Cleanup m)) (\<lambda>_. ret Worker_Complete))))
           (\<lambda>_. ?I) (\<lambda>_. ?I) ?I ?s"
        by (rule wp_bindio, rule wp_classify_target; (rule update_open_inv [OF opened])?)
          (use recorded [OF opened _ new(2)] update_open_inv [OF opened] in \<open>auto simp: ensure_def intro: wp_fail\<close>)
      show ?thesis
        by (rule wp_bindio, rule wp_tryio, rule wp_rename)
          (use new after update_open_inv [OF opened] update_open_inv [OF s] in \<open>auto intro: wp_ret\<close>)
    qed
    show ?thesis
      unfolding Some option.case 1(4)
    proof (rule safe_lift, rule safe_lift, rule safe_lift, rule safe_look [OF look], rule safe_classify, goal_cases)
      case (1 _ cp bp _ s st)
      then show ?case
        using replace [of s cp] recorded [of s] files_areD [OF 1(5)] update_open_inv [OF 1(4)] \<open>snd (xu_executable u) = exe\<close>
        by (auto simp: invalid_recovery_state_def intro: wp_fail)
    qed
  qed simp
qed

end
