(* ===== verification/Update_Steps.thy ===== *)
theory Update_Steps
  imports Update_Safety
begin

text \<open>
  The operations on the executable as steps of one transition system, in any order, by processes
  that read executables the same way, each interrupted by any fault; between them other
  programs may change any file but the metadata and the executable itself.
\<close>

section \<open>Operations as steps\<close>

datatype update_operation =
    Stage_Update bool path string nat
  | Approve_Update bool
  | Apply_Update bool
  | Recover_Update bool bool
  | Run_Update_Worker nat

definition perform :: "update_operation \<Rightarrow> update_ext \<Rightarrow> path \<Rightarrow> string \<Rightarrow> unit io" where
  "perform op E prefix mf = (case op of
     Stage_Update windows source version build \<Rightarrow> bindio (stage_candidate windows E prefix mf source version build) (\<lambda>_. ret ())
   | Approve_Update windows \<Rightarrow> bindio (mark_pending_ready windows E prefix mf) (\<lambda>_. ret ())
   | Apply_Update windows \<Rightarrow> bindio (apply_pending windows E prefix mf) (\<lambda>_. ret ())
   | Recover_Update windows discard \<Rightarrow>
       bindio (if discard then discard_unapproved windows E prefix mf else recover_pending windows E prefix mf) (\<lambda>_. ret ())
   | Run_Update_Worker n \<Rightarrow> run_windows_worker n E prefix mf)"

text \<open>Two processes that parse executables and metadata in the same way.\<close>

definition same_readers :: "update_ext \<Rightarrow> update_ext \<Rightarrow> bool" where
  "same_readers E E' \<longleftrightarrow> ue_json E' = ue_json E \<and> ue_codec E' = ue_codec E \<and> ue_pe E' = ue_pe E \<and> ue_macho E' = ue_macho E"

inductive update_step :: "update_ext \<Rightarrow> path \<Rightarrow> string \<Rightarrow> path \<Rightarrow> fs \<Rightarrow> fs \<Rightarrow> bool"
  for E prefix mf exe where
  operation: "same_readers E E' \<Longrightarrow> (\<And>w. stays (ue_spawn E' prefix w) {}) \<Longrightarrow>
    perform op E' prefix mf \<lparr>w_fs = s, w_schedule = schedule\<rparr> = (r, w') \<Longrightarrow> update_step E prefix mf exe s (w_fs w')"
| other_program: "unchanged_outside P s s' \<Longrightarrow> P \<inter> metadata_files prefix mf = {} \<Longrightarrow> exe \<notin> P \<Longrightarrow>
    update_step E prefix mf exe s s'"

lemma same_readers_refl [simp]: "same_readers E E"
  by (simp add: same_readers_def)

lemma same_readers_verified: "same_readers E E' \<Longrightarrow> verified E' = verified E"
  by (simp add: same_readers_def verified_def fun_eq_iff cong: option.case_cong sum.case_cong)

lemma same_readers_inv:
  assumes "same_readers E E'"
  shows "update_inv E' prefix mf exe = update_inv E prefix mf exe" and "update_setting E' prefix mf exe = update_setting E prefix mf exe"
  using assms same_readers_verified [OF assms]
  by (simp_all add: update_inv_def update_setting_def metadata_describes_def target_recorded_def same_readers_def fun_eq_iff)

lemma wp_then_unit: "wp m (\<lambda>_. I) (\<lambda>_. I) I s \<Longrightarrow> wp (bindio m (\<lambda>_. ret ())) (\<lambda>_. I) (\<lambda>_. I) I s"
  by (rule wp_bindio, erule wp_mono) (auto intro: wp_ret)

lemma wp_run_windows_worker:
  assumes setting: "update_setting E prefix mf exe" and "update_inv E prefix mf exe s"
  shows "wp (run_windows_worker n E prefix mf)
    (\<lambda>_. update_inv E prefix mf exe) (\<lambda>_. update_inv E prefix mf exe) (update_inv E prefix mf exe) s"
  using assms(2)
proof (induction n arbitrary: s)
  case 0
  show ?case
    by (subst run_windows_worker.simps, rule wp_bindio, rule wp_mono [OF wp_windows_worker_once [OF setting 0]])
      (auto intro: wp_ret wp_fail split: windows_worker_attempt.split)
next
  case (Suc n)
  show ?case
    by (subst run_windows_worker.simps, rule wp_bindio, rule wp_mono [OF wp_windows_worker_once [OF setting Suc.prems]])
      (auto intro: wp_ret Suc.IH split: windows_worker_attempt.split simp del: run_windows_worker.simps)
qed

lemma wp_perform:
  assumes "update_setting E prefix mf exe" "\<And>w. stays (ue_spawn E prefix w) {}" "update_inv E prefix mf exe s"
  shows "wp (perform op E prefix mf)
    (\<lambda>_. update_inv E prefix mf exe) (\<lambda>_. update_inv E prefix mf exe) (update_inv E prefix mf exe) s"
  unfolding perform_def recover_pending_def discard_unapproved_def
  using wp_run_windows_worker [OF assms(1,3)] wp_stage_candidate [OF assms(1,3)] wp_mark_pending_ready [OF assms(1,3)]
    wp_apply_pending [OF assms] wp_recover_pending_with [OF assms]
  by (auto intro!: wp_then_unit split: update_operation.split)

lemma update_step_inv:
  assumes "update_step E prefix mf exe s s'" "update_setting E prefix mf exe" "update_inv E prefix mf exe s"
  shows "update_inv E prefix mf exe s'"
  using assms(1)
proof cases
  case (operation E' op schedule r w')
  note same = same_readers_inv [OF operation(2)]
  have "wp (perform op E' prefix mf) (\<lambda>_. update_inv E prefix mf exe) (\<lambda>_. update_inv E prefix mf exe) (update_inv E prefix mf exe) s"
    using wp_perform [of E' prefix mf exe s op] operation(3) assms(2,3) by (simp add: same)
  from wpD [OF this operation(4)] show ?thesis unfolding operation(1) by (cases r) simp_all
next
  case (other_program P)
  show ?thesis by (rule update_inv_outside [OF assms(3) other_program])
qed

section \<open>Instances\<close>

definition update_header :: "string \<Rightarrow> runtime_header" where
  "update_header v = (header_for_name v ''demo'')\<lparr>h_update := Some (runtime_update_config_new ''conda-forge'' ''demo'' 1)\<rparr>"

definition update_codec :: codec_ext where
  "update_codec =
     \<lparr>sha256 = (\<lambda>b. take 32 (b @ replicate 32 0)),
      header_to_vec = (\<lambda>h. if h = update_header ''1.0.0'' then Inr [1]
        else if h = update_header ''2.0.0'' then Inr [2] else Inl Io_Failed),
      header_from_slice = (\<lambda>b. if b = [1] then Inr (update_header ''1.0.0'')
        else if b = [2] then Inr (update_header ''2.0.0'') else Inl Io_Failed)\<rparr>"

definition sample_executable :: "byte \<Rightarrow> bytes" where
  "sample_executable n = replicate 32 n @ stamp_payload update_codec [n] []"

definition sample_digest :: "byte \<Rightarrow> string" where
  "sample_digest n = hex (replicate 32 n)"

definition sample_update :: "pending_update option \<Rightarrow> update_metadata" where
  "sample_update p = \<lparr>xu_executable = (True, [''bin'', ''demo'']), xu_ownership = Direct, xu_installation = Some ''demo'',
     xu_artifact_name = ''demo'', xu_channel = ''conda-forge'', xu_package = ''demo'', xu_build_number = 0,
     xu_sha256 = sample_digest 1, xu_instruction = None, xu_pending = p\<rparr>"

definition sample_managed :: "pending_update option \<Rightarrow> prefix_metadata" where
  "sample_managed p = (sample_metadata [])\<lparr>pm_update := Some (sample_update p)\<rparr>"

definition sample_pending :: "pending_phase \<Rightarrow> pending_update" where
  "sample_pending phase = \<lparr>pe_phase = phase, pe_version = ''2.0.0'', pe_build_number = 1, pe_executable_sha256 = sample_digest 2\<rparr>"

text \<open>The records of the update from version 1.0.0 to 2.0.0, rendered as one byte each.\<close>

definition sample_records :: "(byte \<times> prefix_metadata) list" where
  "sample_records =
     [(1, sample_managed None), (2, sample_managed (Some (sample_pending Staged))), (3, sample_managed (Some (sample_pending Ready))),
      (4, sample_managed (Some (sample_pending Replacing))),
      (5, clear_pending (commit_new_version (sample_managed (Some (sample_pending Replacing)))))]"

definition update_json :: json_ext where
  "update_json = \<lparr>meta_render = (\<lambda>m. case find (\<lambda>(n, m'). m' = m) sample_records of
       Some (n, _) \<Rightarrow> ([n], True) | None \<Rightarrow> ([], False)),
     meta_parse = (\<lambda>b. case find (\<lambda>(n, _). b = [n, 10]) sample_records of Some (_, m) \<Rightarrow> Inr m | None \<Rightarrow> Inl Io_Failed)\<rparr>"

definition sample_env :: update_ext where
  "sample_env = \<lparr>ue_json = update_json, ue_codec = update_codec, ue_pe = sample_pe, ue_macho = sample_macho,
     ue_current = \<lparr>rd_header = update_header ''1.0.0'', rd_bundle = None, rd_stamped = True\<rparr>,
     ue_current_exe = [''bin'', ''demo''], ue_spawn = (\<lambda>_ _. ret ()), ue_lock_held = False\<rparr>"

definition sample_machine :: "byte \<Rightarrow> fs" where
  "sample_machine n = [[''opt''] \<mapsto> Directory, [''bin''] \<mapsto> Directory, [''opt'', ''.demo.json''] \<mapsto> Regular [n, 10],
     [''bin'', ''demo''] \<mapsto> Regular (sample_executable 1), [''tmp''] \<mapsto> Directory, [''tmp'', ''demo-2''] \<mapsto> Regular (sample_executable 2)]"

lemma sample_stamps:
  assumes "n \<in> {1, 2}"
  shows "read_from_file update_codec sample_pe sample_macho p (sample_executable n)
    = Inr (Some (stamped_data update_codec p 32 (update_header (if n = 1 then ''1.0.0'' else ''2.0.0'')) [n] []))"
proof -
  let ?h = "update_header (if n = 1 then ''1.0.0'' else ''2.0.0'')"
  have "update_header ''1.0.0'' \<noteq> update_header ''2.0.0''"
    by (simp add: update_header_def header_for_name_def)
  then have ok: "stampable update_codec ?h [n] []"
    using assms
    by (auto simp: stampable_def codec_laws_def update_codec_def FORMAT_VERSION_def MAX_HEADER_LEN_def min_def
        update_header_def header_for_name_def)
  have "sample_executable n = replicate 32 n @ stamp_payload update_codec [n] [] @ replicate 0 0 @ []"
    by (simp add: sample_executable_def)
  from search_finds_stamp [OF ok this, of "\<lparr>fs_data_end = length (sample_executable n), fs_alignment = 1, fs_minimum_payload_offset = 0\<rparr>" p]
  have "read_runtime_data_with_search_spec update_codec p (sample_executable n)
      \<lparr>fs_data_end = length (sample_executable n), fs_alignment = 1, fs_minimum_payload_offset = 0\<rparr>
    = Inr (Some (stamped_data update_codec p 32 ?h [n] []))"
    by (simp add: sample_executable_def)
  moreover have "detect_binary_format sample_pe (sample_executable n) = Inr Other"
  proof -
    have "detect_binary_format sample_pe (replicate 32 n) = Inr Other"
      using assms by auto (code_simp, code_simp)
    from detect_Other_append [OF this] show ?thesis by (simp add: sample_executable_def)
  qed
  ultimately show ?thesis by (simp add: read_from_file_def)
qed


lemma sample_digest_ok: "n \<in> {1, 2} \<Longrightarrow> validate_sha256 (sample_digest n) = Inr ()"
  by auto code_simp+

lemma sample_verified:
  "verified sample_env (sample_managed p) (sample_update p) (sample_executable 1) ''1.0.0'' (sample_digest 1)"
  "verified sample_env (sample_managed p) (sample_update p) (sample_executable 2) ''2.0.0'' (sample_digest 2)"
proof -
  have "sha256 update_codec (sample_executable n) = replicate 32 n" for n
    by (simp add: update_codec_def sample_executable_def)
  then show "verified sample_env (sample_managed p) (sample_update p) (sample_executable 1) ''1.0.0'' (sample_digest 1)"
    "verified sample_env (sample_managed p) (sample_update p) (sample_executable 2) ''2.0.0'' (sample_digest 2)"
    using sample_digest_ok [of 1] sample_digest_ok [of 2]
    by (simp_all add: verified_def sample_env_def sample_stamps stamped_data_def sample_digest_def header_matches_def
        update_header_def header_for_name_def sample_managed_def sample_metadata_def metadata_for_identity_def sample_identity_def
        sample_update_def runtime_update_config_new_def)
qed

lemma sample_records_distinct:
  "sample_managed None \<noteq> sample_managed (Some p)"
  "sample_managed (Some (sample_pending ph)) = sample_managed (Some (sample_pending ph')) \<longleftrightarrow> ph = ph'"
  "clear_pending (commit_new_version (sample_managed (Some (sample_pending ph)))) \<noteq> sample_managed q"
  by (auto simp: sample_managed_def sample_update_def sample_pending_def clear_pending_def commit_new_version_def map_update_def
      sample_metadata_def metadata_for_identity_def sample_identity_def dest: arg_cong [where f = pm_version] arg_cong [where f = pm_update])

lemma update_json_laws [simp]: "json_laws update_json"
  by (auto simp: json_laws_def update_json_def sample_records_def split: if_splits)

lemma update_json_records:
  "meta_parse update_json [1, 10] = Inr (sample_managed None)"
  "meta_parse update_json [3, 10] = Inr (sample_managed (Some (sample_pending Ready)))"
  by (simp_all add: update_json_def sample_records_def)

lemma sample_apart [simp]: "update_setting sample_env [''opt''] ''.demo.json'' [''bin'', ''demo'']"
proof -
  have "bootstrap_lock_path [''opt''] = Inr p \<Longrightarrow> p = [''.opt.conda-ship.lock'']" for p
    using bootstrap_lock_beside [of "[''opt'']" p] by simp
  moreover have "[''bin'', ''demo''] \<noteq> take n [''opt'']" "p \<noteq> [] \<Longrightarrow> butlast p = [''bin''] \<Longrightarrow> p \<noteq> take n [''opt'']" for n p
    by (cases n; auto)+
  ultimately have "apart [''opt''] ''.demo.json'' [''bin'', ''demo'']"
    unfolding apart_def update_files_def side_files_def state_files_def metadata_files_def
    by (auto simp: bootstrap_path_def bootstrap_temporary_path_def)
  then show ?thesis
    by (simp add: update_setting_def sample_env_def marker_free_def BOOTSTRAP_STATE_FILE_def name_stem_def)
qed

lemma sample_direct [simp]:
  "direct_update (sample_managed p) = Inr (sample_update p)" "snd (xu_executable (sample_update p)) = [''bin'', ''demo'']"
  "pm_version (sample_managed p) = ''1.0.0''" "xu_sha256 (sample_update p) = sample_digest 1"
  "xu_pending (sample_update p) = p" "ue_json sample_env = update_json" "pm_update (sample_managed p) = Some (sample_update p)"
  using sample_digest_ok [of 1]
  by (simp_all add: direct_update_Inr sample_managed_def sample_update_def is_absolute_def sample_env_def
      sample_metadata_def metadata_for_identity_def sample_identity_def)

lemma sample_machine_inv: "update_inv sample_env [''opt''] ''.demo.json'' [''bin'', ''demo''] (sample_machine 1)"
proof -
  have "recoverable update_json [''opt''] ''.demo.json'' (sample_machine 1) = Some (sample_managed None)"
    by (simp add: recoverable_def sample_machine_def node_metadata_def update_json_records)
  moreover have "sample_machine 1 [''bin'', ''demo''] = Some (Regular (sample_executable 1))"
    by (simp add: sample_machine_def)
  ultimately show ?thesis
    using sample_verified(1) [of None] by (simp add: update_inv_def metadata_describes_def target_recorded_def)
qed

section \<open>Properties\<close>

text \<open>C12. The executable is never lost or torn. Start where the metadata records the executable that is in place; then let
  the update be staged, approved, applied, recovered, discarded or continued by the Windows worker any number of
  times, in any order, each run failing or being stopped anywhere, while other programs change
  any other file. At every moment the path of the executable holds a complete stamped file of this runtime whose digest
  and version are those the metadata records, or those of the pending update if it is in phase
  \<open>Replacing\<close> or \<open>Cleanup\<close>.\<close>

theorem executable_always_complete:
  assumes setting: "update_setting E prefix mf exe" and start: "update_inv E prefix mf exe s"
    and steps: "(update_step E prefix mf exe)\<^sup>*\<^sup>* s s'"
  shows "\<exists>m u b. recoverable (ue_json E) prefix mf s' = Some m \<and> direct_update m = Inr u \<and> snd (xu_executable u) = exe
     \<and> s' exe = Some (Regular b)
     \<and> (verified E m u b (pm_version m) (xu_sha256 u)
        \<or> (\<exists>p. xu_pending u = Some p \<and> pe_phase p \<in> {Replacing, Cleanup}
             \<and> verified E m u b (pe_version p) (pe_executable_sha256 p)))"
proof -
  from steps have "update_inv E prefix mf exe s'"
    by (induction rule: rtranclp_induct) (use start update_step_inv [OF _ setting] in blast)+
  then show ?thesis
    unfolding update_inv_def metadata_describes_def target_recorded_def by blast
qed


text \<open>The process stops while it stages version 2.0.0.\<close>

lemma executable_always_complete_witness:
  "let s' = w_fs (snd (perform (Stage_Update False [''tmp'', ''demo-2''] ''2.0.0'' 1) sample_env [''opt''] ''.demo.json''
       \<lparr>w_fs = sample_machine 1, w_schedule = replicate 20 Go @ [Halt 1]\<rparr>)) in
   \<exists>m u b. recoverable update_json [''opt''] ''.demo.json'' s' = Some m \<and> direct_update m = Inr u
     \<and> s' [''bin'', ''demo''] = Some (Regular b)"
proof -
  let ?c = "perform (Stage_Update False [''tmp'', ''demo-2''] ''2.0.0'' 1) sample_env [''opt''] ''.demo.json''
       \<lparr>w_fs = sample_machine 1, w_schedule = replicate 20 Go @ [Halt 1]\<rparr>"
  have "update_step sample_env [''opt''] ''.demo.json'' [''bin'', ''demo''] (sample_machine 1) (w_fs (snd ?c))"
    by (rule update_step.operation [OF same_readers_refl _ prod.collapse [symmetric]]) (simp add: sample_env_def stays_ret)
  from executable_always_complete [OF sample_apart sample_machine_inv r_into_rtranclp [of "update_step _ _ _ _", OF this]]
  show ?thesis unfolding Let_def sample_direct by blast
qed

end
