(* ===== verification/Update_Recovery.thy ===== *)
theory Update_Recovery
  imports Update_Steps
begin

text \<open>
  On Unix an approved update always finishes: wherever \<open>apply_pending\<close> is interrupted, one run of
  \<open>recover_pending\<close> without faults completes the replacement or withdraws it.
\<close>

section \<open>States that recover\<close>

text \<open>Every record that finishing the update may have to write can be rendered.\<close>

definition renders :: "update_ext \<Rightarrow> prefix_metadata \<Rightarrow> bool" where
  "renders E m \<longleftrightarrow> (\<forall>m' \<in> {set_phase Replacing m, clear_pending m, clear_pending (commit_new_version m)}.
     snd (meta_render (ue_json E) m'))"

text \<open>The files of an approved update: not replaced yet (the candidate may have been lost), or replaced.\<close>

definition approved_files :: "update_ext \<Rightarrow> prefix_metadata \<Rightarrow> update_metadata \<Rightarrow> pending_update \<Rightarrow> fs \<Rightarrow> bool" where
  "approved_files E m u p s \<longleftrightarrow> (pe_phase p = Ready \<or> pe_phase p = Replacing) \<and> xu_sha256 u \<noteq> pe_executable_sha256 p
     \<and> (\<exists>cp bp. pending_candidate_path u p = Inr cp \<and> pending_backup_path False u = Inr bp \<and> s bp = None
       \<and> (role_is E m u (s (snd (xu_executable u))) (pm_version m) (xu_sha256 u) True
            \<and> (s cp = None \<or> role_is E m u (s cp) (pe_version p) (pe_executable_sha256 p) True)
          \<or> pe_phase p = Replacing \<and> s cp = None
            \<and> role_is E m u (s (snd (xu_executable u))) (pe_version p) (pe_executable_sha256 p) True))"

definition update_done :: "update_ext \<Rightarrow> prefix_metadata \<Rightarrow> update_metadata \<Rightarrow> fs \<Rightarrow> bool" where
  "update_done E m u s \<longleftrightarrow> xu_pending u = None \<and> role_is E m u (s (snd (xu_executable u))) (pm_version m) (xu_sha256 u) True"

definition recovers_as :: "update_ext \<Rightarrow> string \<Rightarrow> path \<Rightarrow> prefix_metadata \<Rightarrow> fs \<Rightarrow> bool" where
  "recovers_as E mf exe m s \<longleftrightarrow> (\<exists>u. direct_update m = Inr u \<and> snd (xu_executable u) = exe
     \<and> validate_current_metadata E m mf = Inr ()
     \<and> (update_done E m u s \<or> (\<exists>p. xu_pending u = Some p \<and> approved_files E m u p s \<and> renders E m)))"

definition update_place :: "path \<Rightarrow> string \<Rightarrow> path \<Rightarrow> fs \<Rightarrow> bool" where
  "update_place prefix mf exe s \<longleftrightarrow> lock_open prefix s \<and> metadata_regular prefix mf s \<and> exe \<noteq> []
     \<and> (butlast exe = [] \<or> s (butlast exe) = Some Directory)"

definition unix_recoverable :: "update_ext \<Rightarrow> path \<Rightarrow> string \<Rightarrow> path \<Rightarrow> fs \<Rightarrow> bool" where
  "unix_recoverable E prefix mf exe s \<longleftrightarrow> update_place prefix mf exe s
     \<and> (\<exists>m. recoverable (ue_json E) prefix mf s = Some m \<and> recovers_as E mf exe m s)"

section \<open>Frames\<close>

lemma lock_in_side_files:
  assumes "bootstrap_lock_path prefix = Inr p" "CHR ''/'' \<notin> set (last prefix)"
  shows "p \<in> side_files prefix" and "take n (butlast p) \<in> side_files prefix"
proof -
  show "p \<in> side_files prefix" using assms(1) by (simp add: side_files_def)
  have "butlast p = butlast prefix" using bootstrap_lock_beside [OF assms] by simp
  then have "take n (butlast p) = take (min n (length prefix - 1)) prefix"
    by (simp add: butlast_conv_take min.commute)
  moreover have "min n (length prefix - 1) \<le> length prefix" by simp
  ultimately show "take n (butlast p) \<in> side_files prefix" unfolding side_files_def by blast
qed

lemma lock_open_outside:
  assumes "lock_open prefix s" "unchanged_outside P s s'" "P \<inter> side_files prefix = {}" "CHR ''/'' \<notin> set (last prefix)"
  shows "lock_open prefix s'"
proof -
  have same: "s' q = s q" if "q \<in> side_files prefix" for q
    using unchanged_outsideD [OF assms(2)] assms(3) that by blast
  from assms(1) obtain p where p: "bootstrap_lock_path prefix = Inr p" unfolding lock_open_def by blast
  with assms(1) show ?thesis
    using same lock_in_side_files [OF p assms(4)] by (simp add: lock_open_def)
qed

text \<open>Directories stay where only the metadata, the update's files and the lock change.\<close>

lemma update_place_files:
  assumes setting: "update_setting E prefix mf exe" and s: "update_place prefix mf exe s"
    and P: "unchanged_outside P s s'" "P \<subseteq> update_files exe"
  shows "update_place prefix mf exe s'"
proof -
  from setting have apart: "apart prefix mf exe" "CHR ''/'' \<notin> set (last prefix)" "metadata_file_ok mf" by (simp_all add: update_setting_def)
  have none: "P \<inter> side_files prefix = {}" "P \<inter> metadata_files prefix mf = {}"
    using apartD [OF apart(1)] P(2) by blast+
  have "prefix = take (length prefix) prefix" by simp
  then have "prefix \<in> side_files prefix" unfolding side_files_def by blast
  then have "prefix \<notin> P" using none(1) by blast
  moreover have "butlast exe = [] \<or> butlast exe \<notin> update_files exe"
  proof -
    have fixed: "butlast xs = xs \<Longrightarrow> xs = []" for xs :: path
      using length_butlast [of xs] by (cases xs) simp_all
    then have "butlast exe = butlast (butlast exe) \<Longrightarrow> butlast exe = []" "butlast exe = exe \<Longrightarrow> exe = []" by metis+
    then show ?thesis by (auto simp: update_files_def)
  qed
  ultimately show ?thesis
    using s lock_open_outside [OF _ P(1) none(1) apart(2), of] unchanged_outsideD [OF P(1)] none(2) P(2)
    unfolding update_place_def metadata_regular_def by (metis disjoint_iff subset_iff)
qed

lemma update_place_metadata:
  assumes setting: "update_setting E prefix mf exe" and s: "update_place prefix mf exe s"
    and s': "unchanged_outside (metadata_files prefix mf) s s'" "metadata_regular prefix mf s'"
  shows "update_place prefix mf exe s'"
proof -
  from setting have ok: "CHR ''/'' \<notin> set (last prefix)" "metadata_file_ok mf" "marker_free mf" by (simp_all add: update_setting_def)
  have "lock_open prefix s'"
    using s lock_open_outside [OF _ s'(1) _ ok(1)] side_files_disjoint [OF ok(2,3,1)] by (auto simp: update_place_def)
  moreover have "s' (butlast exe) = Some Directory" if "s (butlast exe) = Some Directory"
  proof -
    have "butlast exe \<notin> metadata_files prefix mf" using s that metadata_regularD by (fastforce simp: update_place_def)
    then show ?thesis using unchanged_outsideD [OF s'(1)] that by simp
  qed
  ultimately show ?thesis using s s'(2) by (auto simp: update_place_def)
qed

section \<open>Interrupted replacement\<close>

lemma approved_files_same:
  assumes "unchanged_outside P s s'" "P \<inter> update_files (snd (xu_executable u)) = {}"
  shows "approved_files E m u p s' \<longleftrightarrow> approved_files E m u p s" and "update_done E m u s' \<longleftrightarrow> update_done E m u s"
proof -
  have same: "s' q = s q" if "q \<in> update_files (snd (xu_executable u))" for q
    using unchanged_outsideD [OF assms(1)] assms(2) that by blast
  show "approved_files E m u p s' \<longleftrightarrow> approved_files E m u p s"
    unfolding approved_files_def using same update_path_in(1,3) by (metis exe_in_update_files)
  show "update_done E m u s' \<longleftrightarrow> update_done E m u s" using same by (simp add: update_done_def)
qed

lemma recovers_as_same:
  assumes "unchanged_outside P s s'" "P \<inter> update_files exe = {}"
  shows "recovers_as E mf exe m s' \<longleftrightarrow> recovers_as E mf exe m s"
  unfolding recovers_as_def using approved_files_same [OF assms(1)] assms(2) by blast

definition place_open :: "update_ext \<Rightarrow> path \<Rightarrow> string \<Rightarrow> path \<Rightarrow> prefix_metadata \<Rightarrow> fs \<Rightarrow> bool" where
  "place_open E prefix mf exe m s \<longleftrightarrow> update_place prefix mf exe s \<and> recoverable (ue_json E) prefix mf s = Some m
     \<and> metadata_settled (ue_json E) prefix mf s"

lemma apart_metadata: "update_setting E prefix mf exe \<Longrightarrow> metadata_files prefix mf \<inter> update_files exe = {}"
  by (auto simp: update_setting_def apart_def)

lemma wp_persist_place:
  assumes setting: "update_setting E prefix mf exe" and s: "place_open E prefix mf exe m s"
    and old: "recovers_as E mf exe m s" and new: "recovers_as E mf exe m' s"
    and Q: "\<And>s'. place_open E prefix mf exe m' s' \<Longrightarrow> unchanged_outside (metadata_files prefix mf) s s' \<Longrightarrow> recovers_as E mf exe m' s' \<Longrightarrow>
      wp c (\<lambda>_. unix_recoverable E prefix mf exe) (\<lambda>_. unix_recoverable E prefix mf exe) (unix_recoverable E prefix mf exe) s'"
  shows "wp (bindio (persist_metadata_for (ue_json E) prefix mf m') (\<lambda>_. c))
    (\<lambda>_. unix_recoverable E prefix mf exe) (\<lambda>_. unix_recoverable E prefix mf exe) (unix_recoverable E prefix mf exe) s"
proof -
  from setting have laws: "json_laws (ue_json E) \<and> metadata_file_ok mf" by (simp add: update_setting_def)
  from s have at: "metadata_settled (ue_json E) prefix mf s" "recoverable (ue_json E) prefix mf s = Some m"
    "metadata_regular prefix mf s" "update_place prefix mf exe s" by (simp_all add: place_open_def update_place_def)
  have kept: "update_place prefix mf exe s' \<and> (recovers_as E mf exe x s' \<longleftrightarrow> recovers_as E mf exe x s)"
    if "unchanged_outside (metadata_files prefix mf) s s'" "metadata_regular prefix mf s'" for s' x
    using update_place_metadata [OF setting at(4) that] recovers_as_same [OF that(1) apart_metadata [OF setting]] by simp
  have safe: "unix_recoverable E prefix mf exe s'"
    if "recoverable (ue_json E) prefix mf s' \<in> {Some m, Some m'}" "unchanged_outside (metadata_files prefix mf) s s'"
      "metadata_regular prefix mf s'" for s'
    using that(1) kept [OF that(2,3)] old new by (auto simp: unix_recoverable_def)
  from laws have ok: "metadata_file_ok mf" by simp
  show ?thesis
  proof (rule wp_bindio, rule wp_mono [OF wp_conj [OF metadata.write_safe [OF laws at(1,2)] wp_persist_regular [OF ok at(3)]]], goal_cases)
    case (1 x s')
    then have "place_open E prefix mf exe m' s'" "recovers_as E mf exe m' s'"
      using kept [of s'] new by (simp_all add: place_open_def)
    with Q 1 show ?case by blast
  qed (use safe in blast)+
qed

lemma validate_current_metadata_cong:
  "pm_schema_version m' = pm_schema_version m \<Longrightarrow> pm_display_name m' = pm_display_name m \<Longrightarrow> pm_install_name m' = pm_install_name m \<Longrightarrow>
   pm_metadata_file m' = pm_metadata_file m \<Longrightarrow> pm_bootstrap_state m' = pm_bootstrap_state m \<Longrightarrow>
   validate_current_metadata E m' mf = validate_current_metadata E m mf"
  by (simp add: validate_current_metadata_def validate_metadata_ready_for_def validate_metadata_identity_for_def validate_ready_phase_def)

lemma validate_current_changes [simp]:
  "validate_current_metadata E (clear_pending m) mf = validate_current_metadata E m mf"
  "validate_current_metadata E (set_phase ph m) mf = validate_current_metadata E m mf"
  "validate_current_metadata E (commit_new_version m) mf = validate_current_metadata E m mf"
  by (rule validate_current_metadata_cong;
      simp add: clear_pending_def set_phase_def map_update_def commit_new_version_def split: option.split)+

lemma recovers_finish:
  assumes u: "direct_update m = Inr u" "snd (xu_executable u) = exe" and valid: "validate_current_metadata E m mf = Inr ()"
    and p: "xu_pending u = Some p" and sha: "validate_sha256 (pe_executable_sha256 p) = Inr ()"
  shows "role_is E m u (s exe) (pm_version m) (xu_sha256 u) True \<Longrightarrow> recovers_as E mf exe (clear_pending m) s"
    and "role_is E m u (s exe) (pe_version p) (pe_executable_sha256 p) True \<Longrightarrow>
      recovers_as E mf exe (clear_pending (commit_new_version m)) s"
proof -
  from u have pm: "pm_update m = Some u" by (simp add: direct_update_Inr)
  show "recovers_as E mf exe (clear_pending m) s" if "role_is E m u (s exe) (pm_version m) (xu_sha256 u) True"
    using that u valid pm by (auto simp: recovers_as_def direct_update_Inr update_done_def role_is_def)
  show "recovers_as E mf exe (clear_pending (commit_new_version m)) s"
    if "role_is E m u (s exe) (pe_version p) (pe_executable_sha256 p) True"
    using that u valid pm p sha by (auto simp: recovers_as_def direct_update_Inr update_done_def role_is_def)
qed

lemma approved_setting:
  assumes "approved_files E m u p s" "pm_update m = Some u" "xu_pending u = Some p"
  obtains cp bp where "pending_candidate_path u p = Inr cp" "pending_backup_path False u = Inr bp" "s bp = None"
    "validate_pending_paths False u p = Inr ()" "validate_sha256 (pe_executable_sha256 p) = Inr ()"
    "candidate_path (snd (xu_executable u)) (pe_executable_sha256 p) = Inr cp"
proof -
  from assms obtain cp bp where *: "pending_candidate_path u p = Inr cp" "pending_backup_path False u = Inr bp" "s bp = None"
    unfolding approved_files_def by blast
  from *(1,2) have "validate_pending_paths False u p = Inr ()" "validate_sha256 (pe_executable_sha256 p) = Inr ()"
    by (auto simp: validate_pending_paths_def pending_candidate_path_def candidate_path_def pending_backup_path_def backup_path_def
        adjacent_update_path_def success_simps)
  with * that show thesis by (simp add: pending_candidate_path_def)
qed

lemma set_phase_again [simp]:
  "set_phase ph (set_phase ph' m) = set_phase ph m" "clear_pending (set_phase ph m) = clear_pending m"
  by (simp_all add: set_phase_def clear_pending_def map_update_def option.map_comp comp_def)

lemma clear_commit_set_phase [simp]: "clear_pending (commit_new_version (set_phase ph m)) = clear_pending (commit_new_version m)"
  by (cases "pm_update m"; cases "xu_pending (the (pm_update m))")
    (simp_all add: set_phase_def clear_pending_def map_update_def commit_new_version_def)

lemma renders_set_phase: "renders E m \<Longrightarrow> renders E (set_phase Replacing m)"
  by (simp add: renders_def)

lemma approved_replacing:
  assumes "approved_files E m u p s"
  shows "approved_files E (set_phase Replacing m) (u\<lparr>xu_pending := Some (p\<lparr>pe_phase := Replacing\<rparr>)\<rparr>) (p\<lparr>pe_phase := Replacing\<rparr>) s"
proof -
  have role: "role_is E (set_phase Replacing m) (u\<lparr>xu_pending := x\<rparr>) n v d pr = role_is E m u n v d pr" for x n v d pr
    by (simp add: role_is_def)
  have paths: "pending_candidate_path (u\<lparr>xu_pending := x\<rparr>) (p\<lparr>pe_phase := ph\<rparr>) = pending_candidate_path u p"
    "pending_backup_path False (u\<lparr>xu_pending := x\<rparr>) = pending_backup_path False u" for x ph
    by (simp_all add: pending_candidate_path_def pending_backup_path_def)
  from assms show ?thesis
    unfolding approved_files_def role paths by auto
qed

lemma recovers_replacing:
  assumes "direct_update m = Inr u" "snd (xu_executable u) = exe" "validate_current_metadata E m mf = Inr ()"
    "xu_pending u = Some p" "approved_files E m u p s" "renders E m"
  shows "recovers_as E mf exe (set_phase Replacing m) s"
proof -
  let ?u = "u\<lparr>xu_pending := Some (p\<lparr>pe_phase := Replacing\<rparr>)\<rparr>"
  from assms have "direct_update (set_phase Replacing m) = Inr ?u" by (simp add: direct_update_Inr)
  moreover have "approved_files E (set_phase Replacing m) ?u (p\<lparr>pe_phase := Replacing\<rparr>) s"
    by (rule approved_replacing [OF assms(5)])
  ultimately show ?thesis
    using assms renders_set_phase [OF assms(6)] unfolding recovers_as_def validate_current_changes
    by (intro exI [of _ ?u]) simp
qed

text \<open>The rename, then the record of the new version.\<close>

lemma wp_replace_place:
  assumes setting: "update_setting E prefix mf exe" and s: "place_open E prefix mf exe m s"
    and u: "direct_update m = Inr u" "snd (xu_executable u) = exe" and valid: "validate_current_metadata E m mf = Inr ()"
    and p: "xu_pending u = Some p" "pe_phase p = Replacing" and files: "approved_files E m u p s"
    and cp: "pending_candidate_path u p = Inr cp" "role_is E m u (s cp) (pe_version p) (pe_executable_sha256 p) True"
    and renders: "renders E m"
  shows "wp (replace_candidate E prefix mf m)
    (\<lambda>_. unix_recoverable E prefix mf exe) (\<lambda>_. unix_recoverable E prefix mf exe) (unix_recoverable E prefix mf exe) s"
proof -
  let ?I = "unix_recoverable E prefix mf exe"
  from u have pm: "pm_update m = Some u" by (simp add: direct_update_Inr)
  obtain cp' bp where a: "pending_candidate_path u p = Inr cp'" "pending_backup_path False u = Inr bp" "s bp = None"
    "validate_sha256 (pe_executable_sha256 p) = Inr ()" "candidate_path exe (pe_executable_sha256 p) = Inr cp'"
    using approved_setting [OF files pm p(1)] u(2) by metis
  from a(1) cp(1) have same: "cp' = cp" by simp
  from cp(2) obtain b where b: "s cp = Some (Regular b)" by (auto simp: role_is_def)
  let ?s = "s(cp := None, exe \<mapsto> Regular b)"
  have in_family: "{cp, exe} \<subseteq> update_files exe" "cp \<noteq> exe" "bp \<noteq> exe"
    using update_path_in(1) [OF cp(1)] update_path_in(3) [OF a(2)] u(2) by auto
  have frame: "unchanged_outside {cp, exe} s ?s" by (simp add: unchanged_outside_def)
  have now: "recovers_as E mf exe m s" using u valid p files renders by (auto simp: recovers_as_def)
  have "approved_files E m u p ?s"
    using files cp a u(2) p(2) b in_family by (auto simp: approved_files_def role_is_def)
  then have later: "recovers_as E mf exe m ?s" using u valid p renders by (auto simp: recovers_as_def)
  have "{cp, exe} \<inter> metadata_files prefix mf = {}" using in_family(1) apart_metadata [OF setting] by blast
  then have opened: "place_open E prefix mf exe m ?s"
    using s update_place_files [OF setting _ frame in_family(1)] recoverable_outside [OF frame, of prefix mf "ue_json E"]
    by (simp add: place_open_def)
  have "role_is E m u (?s exe) (pe_version p) (pe_executable_sha256 p) True" using cp(2) b by (simp add: role_is_def)
  then have committed: "recovers_as E mf exe (clear_pending (commit_new_version m)) ?s"
    by (rule recovers_finish(2) [OF u valid p(1) a(4)])
  have I: "?I s" "?I ?s" using s opened now later by (auto simp: unix_recoverable_def place_open_def)
  have after: "wp (bindio (persist_metadata_for (ue_json E) prefix mf (clear_pending (commit_new_version m))) (\<lambda>_. ret Update_Applied))
      (\<lambda>_. ?I) (\<lambda>_. ?I) ?I ?s"
    by (rule wp_persist_place [OF setting opened later committed]) (auto simp: unix_recoverable_def place_open_def intro: wp_ret)
  show ?thesis
    unfolding replace_candidate_def u lift_result_simps bindio_ret p option.case a(5) same
    by (rule wp_bindio, rule wp_rename) (use after I b in auto)
qed

lemma wp_apply_place:
  assumes setting: "update_setting E prefix mf exe" and s: "place_open E prefix mf exe m s"
    and u: "direct_update m = Inr u" "snd (xu_executable u) = exe" and valid: "validate_current_metadata E m mf = Inr ()"
    and p: "xu_pending u = Some p" and files: "approved_files E m u p s" and renders: "renders E m"
  shows "wp (apply_or_recover_locked E prefix mf m)
    (\<lambda>_. unix_recoverable E prefix mf exe) (\<lambda>_. unix_recoverable E prefix mf exe) (unix_recoverable E prefix mf exe) s"
proof -
  let ?I = "unix_recoverable E prefix mf exe"
  from u have pm: "pm_update m = Some u" by (simp add: direct_update_Inr)
  obtain cp bp where a: "pending_candidate_path u p = Inr cp" "validate_pending_paths False u p = Inr ()"
    "validate_sha256 (pe_executable_sha256 p) = Inr ()"
    using approved_setting [OF files pm p] by metis
  have now: "recovers_as E mf exe m s" using u valid p files renders by (auto simp: recovers_as_def)
  then have I: "?I s" using s by (auto simp: unix_recoverable_def place_open_def)
  have stop: "wp (bindio (persist_metadata_for (ue_json E) prefix mf m') (\<lambda>_. ret x)) (\<lambda>_. ?I) (\<lambda>_. ?I) ?I s"
    if "recovers_as E mf exe m' s" for m' and x :: update_outcome
    by (rule wp_persist_place [OF setting s now that]) (auto simp: unix_recoverable_def place_open_def intro: wp_ret)
  have replacing: "wp (bindio (persist_metadata_for (ue_json E) prefix mf (set_phase Replacing m)) (\<lambda>_.
      replace_candidate E prefix mf (set_phase Replacing m))) (\<lambda>_. ?I) (\<lambda>_. ?I) ?I s"
    if candidate: "role_is E m u (s cp) (pe_version p) (pe_executable_sha256 p) True"
  proof (rule wp_persist_place [OF setting s now recovers_replacing [OF u valid p files renders]])
    fix s' assume s': "place_open E prefix mf exe (set_phase Replacing m) s'" "unchanged_outside (metadata_files prefix mf) s s'"
    let ?p = "p\<lparr>pe_phase := Replacing\<rparr>"
    let ?u = "u\<lparr>xu_pending := Some ?p\<rparr>"
    have "approved_files E m u p s'" using approved_files_same(1) [OF s'(2)] apart_metadata [OF setting] u(2) files by simp
    then have "approved_files E (set_phase Replacing m) ?u ?p s'"
      by (rule approved_replacing)
    moreover have "cp \<in> update_files exe" using update_path_in(1) [OF a(1)] u(2) by simp
    then have "s' cp = s cp" using unchanged_outsideD [OF s'(2)] apart_metadata [OF setting] by blast
    ultimately show "wp (replace_candidate E prefix mf (set_phase Replacing m)) (\<lambda>_. ?I) (\<lambda>_. ?I) ?I s'"
      using u a(1) candidate renders_set_phase [OF renders] valid
      by (intro wp_replace_place [OF setting s'(1), of ?u ?p cp])
        (simp_all add: direct_update_Inr role_is_def pending_candidate_path_def p cong: if_cong)
  qed
  show ?thesis
    unfolding apply_or_recover_locked_def u(1) p lift_result_simps bindio_ret ok_or_simps a(2)
  proof (rule wp_bindio, rule wp_classify_files, goal_cases)
    case (1 st)
    have st: "fv_target st = Old_File \<Longrightarrow> role_is E m u (s exe) (pm_version m) (xu_sha256 u) True"
      "fv_target st = New_File \<Longrightarrow> role_is E m u (s exe) (pe_version p) (pe_executable_sha256 p) True"
      "fv_candidate st = New_File \<Longrightarrow> role_is E m u (s cp) (pe_version p) (pe_executable_sha256 p) True"
      using 1 u(2) a(1) by (auto simp: files_are_def)
    note finish = recovers_finish [OF u valid p a(3)]
    have again: "wp (replace_candidate E prefix mf m) (\<lambda>_. ?I) (\<lambda>_. ?I) ?I s" if "pe_phase p = Replacing" "fv_candidate st = New_File"
      by (rule wp_replace_place [OF setting s u valid p that(1) files a(1) st(3) [OF that(2)] renders])
    show ?case
      using st finish stop replacing again I
      by (auto simp: staged_state_def invalid_recovery_state_def intro: wp_fail)
  qed (rule I)+
qed

section \<open>From the lock to the metadata\<close>

lemma lock_step:
  assumes setting: "update_setting E prefix mf exe" and s: "unix_recoverable E prefix mf exe s"
    and p: "bootstrap_lock_path prefix = Inr p" and s': "s' = s \<or> s p = None \<and> s' = s(p \<mapsto> Regular [])"
  shows "unix_recoverable E prefix mf exe s'"
proof (cases "s' = s")
  case False
  with s' have new: "s p = None" "s' = s(p \<mapsto> Regular [])" by simp_all
  from setting have ok: "CHR ''/'' \<notin> set (last prefix)" "metadata_file_ok mf" "marker_free mf" "apart prefix mf exe"
    by (simp_all add: update_setting_def)
  have frame: "unchanged_outside {p} s s'" by (simp add: new(2) unchanged_outside_def)
  have "p \<in> side_files prefix" using lock_in_side_files [OF p ok(1)] by simp
  then have other: "p \<notin> metadata_files prefix mf" "{p} \<inter> metadata_files prefix mf = {}" "{p} \<inter> update_files exe = {}"
    using side_files_disjoint [OF ok(2,3,1)] apartD(2) [OF ok(4)] by blast+
  from s obtain m where m: "recoverable (ue_json E) prefix mf s = Some m" "recovers_as E mf exe m s"
    and place: "update_place prefix mf exe s" by (auto simp: unix_recoverable_def)
  have keep: "s q = Some Directory \<Longrightarrow> s' q = Some Directory" for q using new by auto
  have "lock_open prefix s'"
  proof -
    from place obtain p' where "bootstrap_lock_path prefix = Inr p'" "p' \<noteq> []"
      "\<forall>n. 0 < n \<longrightarrow> n \<le> length (butlast p') \<longrightarrow> s (take n (butlast p')) = Some Directory"
      by (auto simp: update_place_def lock_open_def)
    with p keep new(2) show ?thesis by (auto simp: lock_open_def)
  qed
  moreover have "metadata_regular prefix mf s'"
  proof -
    have "prefix = [] \<or> s' prefix = Some Directory" using place keep by (auto simp: update_place_def metadata_regular_def)
    moreover have "s' q = s q" if "q \<in> metadata_files prefix mf" for q using that other(1) new(2) by auto
    ultimately show ?thesis using place by (simp add: update_place_def metadata_regular_def)
  qed
  ultimately have "update_place prefix mf exe s'" using place keep by (auto simp: update_place_def)
  then show ?thesis
    using m recoverable_outside [OF frame other(2), of "ue_json E"] recovers_as_same [OF frame other(3), of E mf m]
    by (auto simp: unix_recoverable_def)
qed (use s in simp)

lemma read_step:
  assumes setting: "update_setting E prefix mf exe" and s: "unix_recoverable E prefix mf exe s"
  shows "wp (read_metadata_for (ue_json E) prefix mf)
    (\<lambda>m s'. recoverable (ue_json E) prefix mf s = Some m \<and> place_open E prefix mf exe m s' \<and> recovers_as E mf exe m s')
    (\<lambda>_. unix_recoverable E prefix mf exe) (unix_recoverable E prefix mf exe) s"
proof -
  from setting have laws: "json_laws (ue_json E) \<and> metadata_file_ok mf" by (simp add: update_setting_def)
  from s obtain m where m: "recoverable (ue_json E) prefix mf s = Some m" "recovers_as E mf exe m s"
    and place: "update_place prefix mf exe s" by (auto simp: unix_recoverable_def)
  have regular: "metadata_regular prefix mf s" using place by (simp add: update_place_def)
  have kept: "update_place prefix mf exe s' \<and> recovers_as E mf exe m s'"
    if "unchanged_outside (metadata_files prefix mf) s s'" "metadata_regular prefix mf s'" for s'
    using update_place_metadata [OF setting place that] recovers_as_same [OF that(1) apart_metadata [OF setting]] m by simp
  show ?thesis
  proof (rule wp_mono [OF wp_conj [OF metadata.read_safe [OF laws] wp_read_regular [OF _ regular]]], goal_cases)
    case (2 x s')
    then show ?case using m kept [of s'] by (auto simp: place_open_def)
  next
    case (3 e s')
    then show ?case using m kept [of s'] by (auto simp: unix_recoverable_def)
  next
    case (4 s')
    then show ?case using m kept [of s'] by (auto simp: unix_recoverable_def)
  qed (use laws in simp)
qed

lemma wp_apply_pending_place:
  assumes setting: "update_setting E prefix mf exe" and s: "unix_recoverable E prefix mf exe s"
  shows "wp (apply_pending False E prefix mf)
    (\<lambda>_. unix_recoverable E prefix mf exe) (\<lambda>_. unix_recoverable E prefix mf exe) (unix_recoverable E prefix mf exe) s"
proof -
  let ?I = "unix_recoverable E prefix mf exe"
  have locked: "lock_open prefix s" using s by (simp add: unix_recoverable_def update_place_def)
  have known: "wp (bindio (lift_result (validate_current_metadata E m mf)) (\<lambda>_.
      bindio (ensure (pm_update m \<noteq> None) ''runtime metadata does not configure executable updates'') (\<lambda>_.
      bindio (lift_result (direct_update m)) (\<lambda>update.
     case map_option pe_phase (xu_pending update) of
       None \<Rightarrow> ret Update_None
     | Some Staged \<Rightarrow> fail (Invalid ''runtime executable update has not been approved'')
     | Some Cleanup \<Rightarrow> finish_cleanup_locked False E prefix mf m
     | Some _ \<Rightarrow> if False then recover_or_schedule_windows_locked E prefix mf m
                 else apply_or_recover_locked E prefix mf m)))) (\<lambda>_. ?I) (\<lambda>_. ?I) ?I s'"
    if place: "place_open E prefix mf exe m s'" and as: "recovers_as E mf exe m s'" for m s'
  proof -
    have I: "?I s'" using that by (auto simp: unix_recoverable_def place_open_def)
    from as obtain u where u: "direct_update m = Inr u" "snd (xu_executable u) = exe" "validate_current_metadata E m mf = Inr ()"
      and cases: "update_done E m u s' \<or> (\<exists>p. xu_pending u = Some p \<and> approved_files E m u p s' \<and> renders E m)"
      unfolding recovers_as_def by blast
    from u(1) have pm: "pm_update m \<noteq> None" by (simp add: direct_update_Inr)
    from cases show ?thesis
    proof
      assume "update_done E m u s'"
      with u pm I show ?thesis by (simp add: update_done_def ensure_def wp_ret)
    next
      assume "\<exists>p. xu_pending u = Some p \<and> approved_files E m u p s' \<and> renders E m"
      then obtain p where p: "xu_pending u = Some p" "approved_files E m u p s'" "renders E m" by blast
      then have "pe_phase p = Ready \<or> pe_phase p = Replacing" by (simp add: approved_files_def)
      with wp_apply_place [OF setting place u p] u pm p(1) show ?thesis by (auto simp: ensure_def)
    qed
  qed
  show ?thesis
    unfolding apply_pending_def read_owned_then
  proof (rule wp_bindio, rule wp_lock [OF locked], goal_cases)
    case (1 p s')
    have I: "?I s'" by (rule lock_step [OF setting s 1])
    show ?case
    proof (intro conjI allI)
      show "wp (bindio (read_metadata_for (ue_json E) prefix mf) (\<lambda>m. bindio (lift_result (validate_current_metadata E m mf)) (\<lambda>_.
        bindio (ensure (pm_update m \<noteq> None) ''runtime metadata does not configure executable updates'') (\<lambda>_.
        bindio (lift_result (direct_update m)) (\<lambda>update.
       case map_option pe_phase (xu_pending update) of
         None \<Rightarrow> ret Update_None
       | Some Staged \<Rightarrow> fail (Invalid ''runtime executable update has not been approved'')
       | Some Cleanup \<Rightarrow> finish_cleanup_locked False E prefix mf m
       | Some _ \<Rightarrow> if False then recover_or_schedule_windows_locked E prefix mf m
                   else apply_or_recover_locked E prefix mf m))))) (\<lambda>_. ?I) (\<lambda>_. ?I) ?I s'"
        by (rule wp_bindio, rule wp_mono [OF read_step [OF setting I]]) (use known in blast)+
    qed (use I in simp_all)
  qed
qed

section \<open>Recovery without faults\<close>

lemma steady_update_checks [steady_intros]:
  "steady (regular_file_present p)" "steady (sha256_hex E p)" "steady (verify_stamped_file E m u p v d)"
  unfolding regular_file_present_def sha256_hex_def verify_stamped_file_def by (intro steady_intros)+

lemma steady_classify [steady_intros]:
  "steady (classify_target E m u p)" "steady (classify_role_file E m u q v d found)" "steady (classify_files windows E m u p)"
  unfolding classify_target_def classify_role_file_def classify_files_def Let_def by (intro steady_intros)+

lemma run_regular_file_present:
  "s p = None \<or> (\<exists>b. s p = Some (Regular b)) \<Longrightarrow> run (regular_file_present p) s = (Ok (s p \<noteq> None), s)"
  by (auto simp: regular_file_present_def run_simps steady_intros symlink_metadata_def node_kind_def)

lemma run_sha256_hex: "s p = Some (Regular b) \<Longrightarrow> run (sha256_hex E p) s = (Ok (hex (sha256 (ue_codec E) b)), s)"
  by (simp add: sha256_hex_def run_simps steady_intros read_file_def follow_def)

lemma run_verify_stamped_file:
  assumes "verified E m u b v d" "s p = Some (Regular b)"
  shows "run (verify_stamped_file E m u p v d) s = (Ok (), s)"
proof -
  obtain data where data: "read_from_file (ue_codec E) (ue_pe E) (ue_macho E) p b = Inr (Some data)"
    "header_matches m u v (rd_header data)" "\<forall>e. rd_bundle data = Some e \<longrightarrow> verify_bundle (ue_codec E) b e = Inr ()"
    using verifiedE [OF assms(1)] by metis
  have digest: "hex (sha256 (ue_codec E) b) = d" "validate_sha256 d = Inr ()" using verified_digest [OF assms(1)] by simp_all
  have hash: "run (sha256_hex E p) s = (Ok d, s)" using run_sha256_hex [where s = s and p = p, OF assms(2), of E] digest(1) by simp
  have read: "run (read_file p) s = (Ok b, s)" using assms(2) by (simp add: read_file_def run_simps follow_def)
  show ?thesis
    by (cases "rd_bundle data")
      (simp_all add: verify_stamped_file_def digest hash read data run_simps steady_intros ensure_def)
qed

lemma run_classify_target:
  assumes "xu_sha256 u \<noteq> pe_executable_sha256 p"
  shows "role_is E m u (s (snd (xu_executable u))) (pm_version m) (xu_sha256 u) True \<Longrightarrow> run (classify_target E m u p) s = (Ok Old_File, s)"
    and "role_is E m u (s (snd (xu_executable u))) (pe_version p) (pe_executable_sha256 p) True \<Longrightarrow>
      run (classify_target E m u p) s = (Ok New_File, s)"
proof -
  have *: "run (classify_target E m u p) s = (Ok v, s)"
    if "s (snd (xu_executable u)) = Some (Regular b)"
      "hex (sha256 (ue_codec E) b) = xu_sha256 u \<and> verified E m u b (pm_version m) (xu_sha256 u) \<and> v = Old_File
       \<or> hex (sha256 (ue_codec E) b) = pe_executable_sha256 p \<and> verified E m u b (pe_version p) (pe_executable_sha256 p) \<and> v = New_File"
    for v b
    using that assms
    by (auto simp: classify_target_def Let_def run_simps steady_intros run_regular_file_present run_sha256_hex run_verify_stamped_file)
  show "role_is E m u (s (snd (xu_executable u))) (pm_version m) (xu_sha256 u) True \<Longrightarrow> run (classify_target E m u p) s = (Ok Old_File, s)"
    and "role_is E m u (s (snd (xu_executable u))) (pe_version p) (pe_executable_sha256 p) True \<Longrightarrow>
      run (classify_target E m u p) s = (Ok New_File, s)"
    using verified_digest by (auto simp: role_is_def intro!: *)
qed

lemma run_classify_role:
  "s q = None \<Longrightarrow> run (classify_role_file E m u q v d found) s = (Ok Missing_File, s)"
  "role_is E m u (s q) v d True \<Longrightarrow> run (classify_role_file E m u q v d found) s = (Ok found, s)"
  by (auto simp: role_is_def classify_role_file_def run_simps steady_intros run_regular_file_present run_verify_stamped_file)

text \<open>The three situations of an approved update.\<close>

lemma run_classify_approved:
  assumes "approved_files E m u p s" "pending_candidate_path u p = Inr cp"
  obtains
    (staged) "run (classify_files False E m u p) s = (Ok staged_state, s)"
      "role_is E m u (s (snd (xu_executable u))) (pm_version m) (xu_sha256 u) True"
      "role_is E m u (s cp) (pe_version p) (pe_executable_sha256 p) True"
  | (lost) "run (classify_files False E m u p) s = (Ok \<lparr>fv_target = Old_File, fv_candidate = Missing_File, fv_backup = Missing_File\<rparr>, s)"
      "role_is E m u (s (snd (xu_executable u))) (pm_version m) (xu_sha256 u) True"
  | (replaced) "run (classify_files False E m u p) s = (Ok \<lparr>fv_target = New_File, fv_candidate = Missing_File, fv_backup = Missing_File\<rparr>, s)"
      "role_is E m u (s (snd (xu_executable u))) (pe_version p) (pe_executable_sha256 p) True" "pe_phase p = Replacing"
proof -
  from assms obtain bp where files: "pending_backup_path False u = Inr bp" "s bp = None" "xu_sha256 u \<noteq> pe_executable_sha256 p"
    and situation: "role_is E m u (s (snd (xu_executable u))) (pm_version m) (xu_sha256 u) True
            \<and> (s cp = None \<or> role_is E m u (s cp) (pe_version p) (pe_executable_sha256 p) True)
          \<or> pe_phase p = Replacing \<and> s cp = None
            \<and> role_is E m u (s (snd (xu_executable u))) (pe_version p) (pe_executable_sha256 p) True"
    unfolding approved_files_def by auto
  note eval = classify_files_def assms(2) files(1) run_simps steady_intros run_classify_target [OF files(3)] run_classify_role(1)
    run_classify_role(1) [where s = s and q = bp, OF files(2)]
  from situation consider
      "role_is E m u (s (snd (xu_executable u))) (pm_version m) (xu_sha256 u) True" "role_is E m u (s cp) (pe_version p) (pe_executable_sha256 p) True"
    | "role_is E m u (s (snd (xu_executable u))) (pm_version m) (xu_sha256 u) True" "s cp = None"
    | "pe_phase p = Replacing" "s cp = None" "role_is E m u (s (snd (xu_executable u))) (pe_version p) (pe_executable_sha256 p) True"
    by (elim disjE conjE) (assumption | rule)+
  then show thesis
  proof cases
    case 1
    then show ?thesis by (intro staged) (simp_all add: eval run_classify_role(2) staged_state_def)
  next
    case 2
    then show ?thesis by (intro lost) (simp_all add: eval)
  next
    case 3
    then show ?thesis by (intro replaced) (simp_all add: eval)
  qed
qed

lemma run_persist_place:
  assumes setting: "update_setting E prefix mf exe" and s: "place_open E prefix mf exe m s"
    and m': "pm_metadata_file m' = mf" "snd (meta_render (ue_json E) m')"
  shows "\<exists>s'. run (persist_metadata_for (ue_json E) prefix mf m') s = (Ok (), s') \<and> place_open E prefix mf exe m' s'
     \<and> unchanged_outside (metadata_files prefix mf) s s'"
proof -
  from setting have laws: "json_laws (ue_json E)" "metadata_file_ok mf" by (simp_all add: update_setting_def)
  from s have regular: "metadata_regular prefix mf s" and place: "update_place prefix mf exe s"
    by (simp_all add: place_open_def update_place_def)
  from m'(2) obtain b where b: "meta_render (ue_json E) m' = (b, True)" by (cases "meta_render (ue_json E) m'") simp
  note written = run_persist_metadata_for [OF laws regular m'(1) b]
  let ?s = "s(temporary_metadata_path_for prefix mf := None, metadata_path_for prefix mf \<mapsto> Regular (b @ [10]),
         backup_metadata_path_for prefix mf := None)"
  have frame: "unchanged_outside (metadata_files prefix mf) s ?s" by (simp add: unchanged_outside_def metadata_files_def)
  have "recoverable (ue_json E) prefix mf ?s = Some m'" "metadata_regular prefix mf ?s" using written by simp_all
  moreover have "metadata_settled (ue_json E) prefix mf ?s"
    using metadata_paths_distinct [OF laws(2), of prefix] laws(1) b by (simp add: metadata_settled_def json_laws_def)
  ultimately show ?thesis using written(1) frame update_place_metadata [OF setting place frame] by (simp add: place_open_def)
qed

lemma current_metadata_file: "validate_current_metadata E m mf = Inr () \<Longrightarrow> pm_metadata_file m = mf"
  by (auto simp: validate_current_metadata_def validate_metadata_ready_for_def validate_metadata_identity_for_def
      rbind_eq_Inr split: if_splits)

text \<open>The state in which nothing is left to do.\<close>

definition finished :: "update_ext \<Rightarrow> path \<Rightarrow> string \<Rightarrow> path \<Rightarrow> fs \<Rightarrow> bool" where
  "finished E prefix mf exe s \<longleftrightarrow> (\<exists>m u. recoverable (ue_json E) prefix mf s = Some m \<and> direct_update m = Inr u
     \<and> snd (xu_executable u) = exe \<and> update_done E m u s)"

lemma run_finish:
  assumes setting: "update_setting E prefix mf exe" and s: "place_open E prefix mf exe m s"
    and valid: "validate_current_metadata E m' mf = Inr ()" and renders: "snd (meta_render (ue_json E) m')"
    and as: "recovers_as E mf exe m' s" and none: "map_option xu_pending (pm_update m') = Some None"
  shows "\<exists>s'. run (bindio (persist_metadata_for (ue_json E) prefix mf m') (\<lambda>_. ret x)) s = (Ok x, s') \<and> finished E prefix mf exe s'"
proof -
  obtain s' where s': "run (persist_metadata_for (ue_json E) prefix mf m') s = (Ok (), s')" "place_open E prefix mf exe m' s'"
    "unchanged_outside (metadata_files prefix mf) s s'"
    using run_persist_place [OF setting s current_metadata_file [OF valid] renders] by blast
  have "recovers_as E mf exe m' s'" using recovers_as_same [OF s'(3) apart_metadata [OF setting]] as by simp
  then have "finished E prefix mf exe s'"
    using s'(2) none by (auto simp: recovers_as_def finished_def place_open_def direct_update_Inr)
  then show ?thesis using s'(1) by (simp add: run_simps steady_intros)
qed

lemma run_replace_place:
  assumes setting: "update_setting E prefix mf exe" and s: "place_open E prefix mf exe m s"
    and u: "direct_update m = Inr u" "snd (xu_executable u) = exe" and valid: "validate_current_metadata E m mf = Inr ()"
    and p: "xu_pending u = Some p" and files: "approved_files E m u p s"
    and cp: "pending_candidate_path u p = Inr cp" "role_is E m u (s cp) (pe_version p) (pe_executable_sha256 p) True"
    and target: "s exe \<noteq> Some Directory" and renders: "renders E m"
  shows "\<exists>s'. run (replace_candidate E prefix mf m) s = (Ok Update_Applied, s') \<and> finished E prefix mf exe s'"
proof -
  from u have pm: "pm_update m = Some u" by (simp add: direct_update_Inr)
  obtain a: "validate_sha256 (pe_executable_sha256 p) = Inr ()" "candidate_path exe (pe_executable_sha256 p) = Inr cp"
    using approved_setting [OF files pm p] u(2) cp(1) by (metis sum.inject(2))
  from cp(2) obtain b where b: "s cp = Some (Regular b)" by (auto simp: role_is_def)
  let ?s = "s(cp := None, exe \<mapsto> Regular b)"
  have in_family: "{cp, exe} \<subseteq> update_files exe" using update_path_in(1) [OF cp(1)] u(2) by auto
  have frame: "unchanged_outside {cp, exe} s ?s" by (simp add: unchanged_outside_def)
  have "{cp, exe} \<inter> metadata_files prefix mf = {}" using in_family apart_metadata [OF setting] by blast
  then have opened: "place_open E prefix mf exe m ?s"
    using s update_place_files [OF setting _ frame in_family] recoverable_outside [OF frame, of prefix mf "ue_json E"]
    by (simp add: place_open_def)
  have "role_is E m u (?s exe) (pe_version p) (pe_executable_sha256 p) True" using cp(2) b by (simp add: role_is_def)
  then have as: "recovers_as E mf exe (clear_pending (commit_new_version m)) ?s" by (rule recovers_finish(2) [OF u valid p a(1)])
  have "parent_exists s exe"
    using s by (auto simp: place_open_def update_place_def parent_exists_def parent_def follow_def)
  then have moved: "run (rename cp exe) s = (Ok (), ?s)" using b target by (simp add: rename_def run_simps)
  obtain s' where "run (bindio (persist_metadata_for (ue_json E) prefix mf (clear_pending (commit_new_version m))) (\<lambda>_. ret Update_Applied)) ?s
      = (Ok Update_Applied, s')" "finished E prefix mf exe s'"
    using run_finish [where x = Update_Applied, OF setting opened _ _ as] renders valid pm p by (auto simp: renders_def)
  then show ?thesis
    by (simp add: replace_candidate_def u p a(2) moved run_simps steady_intros)
qed

lemma run_apply_place:
  assumes setting: "update_setting E prefix mf exe" and s: "place_open E prefix mf exe m s"
    and u: "direct_update m = Inr u" "snd (xu_executable u) = exe" and valid: "validate_current_metadata E m mf = Inr ()"
    and p: "xu_pending u = Some p" and files: "approved_files E m u p s" and renders: "renders E m"
  shows "\<exists>outcome s'. run (apply_or_recover_locked E prefix mf m) s = (Ok outcome, s')
     \<and> outcome \<in> {Update_Applied, Update_Restored_Previous} \<and> finished E prefix mf exe s'"
proof -
  from u have pm: "pm_update m = Some u" by (simp add: direct_update_Inr)
  obtain cp where a: "pending_candidate_path u p = Inr cp" "validate_pending_paths False u p = Inr ()"
    "validate_sha256 (pe_executable_sha256 p) = Inr ()"
    using approved_setting [OF files pm p] by metis
  note body = apply_or_recover_locked_def u(1) p a(2) run_simps steady_intros
  have phase: "pe_phase p = Ready \<or> pe_phase p = Replacing" using files by (simp add: approved_files_def)
  note finish = recovers_finish [OF u valid p a(3)]
  show ?thesis
    using files a(1)
  proof (cases rule: run_classify_approved)
    case lost
    then obtain s' where "run (bindio (persist_metadata_for (ue_json E) prefix mf (clear_pending m)) (\<lambda>_. ret Update_Restored_Previous)) s
        = (Ok Update_Restored_Previous, s')" "finished E prefix mf exe s'"
      using run_finish [where x = Update_Restored_Previous, OF setting s _ _ finish(1)] renders valid pm u(2) by (auto simp: renders_def)
    then show ?thesis using lost(1) phase by (auto simp: body staged_state_def)
  next
    case replaced
    then obtain s' where "run (bindio (persist_metadata_for (ue_json E) prefix mf (clear_pending (commit_new_version m))) (\<lambda>_. ret Update_Applied)) s
        = (Ok Update_Applied, s')" "finished E prefix mf exe s'"
      using run_finish [where x = Update_Applied, OF setting s _ _ finish(2)] renders valid pm p u(2) by (auto simp: renders_def)
    then show ?thesis using replaced(1,3) by (auto simp: body staged_state_def)
  next
    case staged
    have target: "s exe \<noteq> Some Directory" using staged(2) u(2) by (auto simp: role_is_def)
    show ?thesis
    proof (cases "pe_phase p = Replacing")
      case True
      then show ?thesis
        using run_replace_place [OF setting s u valid p files a(1) staged(3) target renders] staged(1) by (auto simp: body)
    next
      case False
      let ?p = "p\<lparr>pe_phase := Replacing\<rparr>"
      let ?u = "u\<lparr>xu_pending := Some ?p\<rparr>"
      have "pm_metadata_file (set_phase Replacing m) = mf" using current_metadata_file [OF valid] by simp
      then obtain s' where s': "run (persist_metadata_for (ue_json E) prefix mf (set_phase Replacing m)) s = (Ok (), s')"
        "place_open E prefix mf exe (set_phase Replacing m) s'" "unchanged_outside (metadata_files prefix mf) s s'"
        using run_persist_place [where m' = "set_phase Replacing m", OF setting s] renders unfolding renders_def by blast
      have "approved_files E m u p s'" using approved_files_same(1) [OF s'(3)] apart_metadata [OF setting] u(2) files by simp
      then have "approved_files E (set_phase Replacing m) ?u ?p s'" by (rule approved_replacing)
      moreover have "cp \<in> update_files exe" "exe \<in> update_files exe" using update_path_in(1) [OF a(1)] u(2) by simp_all
      then have "s' cp = s cp" "s' exe = s exe" using unchanged_outsideD [OF s'(3)] apart_metadata [OF setting] by blast+
      ultimately have "\<exists>s''. run (replace_candidate E prefix mf (set_phase Replacing m)) s' = (Ok Update_Applied, s'') \<and> finished E prefix mf exe s''"
        using u a(1) staged(3) target renders_set_phase [OF renders] valid
        by (intro run_replace_place [OF setting s'(2), of ?u ?p cp])
          (simp_all add: direct_update_Inr role_is_def pending_candidate_path_def p cong: if_cong)
      then show ?thesis using staged(1) False phase s'(1) by (auto simp: body)
    qed
  qed
qed

lemma wp_run:
  assumes "wp m Q E C s" "run m s = (Ok x, s')"
  shows "Q x s'"
proof -
  obtain r w where m: "m \<lparr>w_fs = s, w_schedule = []\<rparr> = (r, w)" by fastforce
  with assms(2) have "r = Ok x" "s' = w_fs w" by (simp_all add: run_def)
  with wpD [OF assms(1) m] show ?thesis by simp
qed

lemma run_recover_place:
  assumes setting: "update_setting E prefix mf exe" and s: "unix_recoverable E prefix mf exe s"
  shows "\<exists>outcome s'. run (recover_pending False E prefix mf) s = (Ok outcome, s')
     \<and> outcome \<in> {Update_None, Update_Applied, Update_Restored_Previous} \<and> finished E prefix mf exe s'"
proof -
  have locked: "lock_open prefix s" using s by (simp add: unix_recoverable_def update_place_def)
  obtain p s1 where s1: "bootstrap_lock_path prefix = Inr p" "run (acquire_lock prefix) s = (Ok (), s1)"
    "s1 = s \<or> s p = None \<and> s1 = s(p \<mapsto> Regular [])"
    using run_lock [OF locked] by blast
  have again: "unix_recoverable E prefix mf exe s1" by (rule lock_step [OF setting s s1(1,3)])
  then obtain m where m: "recoverable (ue_json E) prefix mf s1 = Some m" and regular: "metadata_regular prefix mf s1"
    by (auto simp: unix_recoverable_def update_place_def)
  from setting have "metadata_file_ok mf" by (simp add: update_setting_def)
  from run_read_metadata_for [OF this regular m] obtain s2 where s2: "run (read_metadata_for (ue_json E) prefix mf) s1 = (Ok m, s2)"
    by (cases "run (read_metadata_for (ue_json E) prefix mf) s1") simp
  have place: "place_open E prefix mf exe m s2" and as: "recovers_as E mf exe m s2"
    using wp_run [OF read_step [OF setting again] s2] by simp_all
  from as obtain u where u: "direct_update m = Inr u" "snd (xu_executable u) = exe" "validate_current_metadata E m mf = Inr ()"
    and cases: "update_done E m u s2 \<or> (\<exists>p. xu_pending u = Some p \<and> approved_files E m u p s2 \<and> renders E m)"
    unfolding recovers_as_def by blast
  from u(1) have pm: "pm_update m = Some u" by (simp add: direct_update_Inr)
  note body = recover_pending_def recover_pending_with_def run_simps steady_intros s1(2) s2 u(3) pm
  from cases show ?thesis
  proof
    assume complete: "update_done E m u s2"
    then have "finished E prefix mf exe s2" using place u by (auto simp: finished_def place_open_def)
    moreover have "xu_pending u = None" using complete by (simp add: update_done_def)
    ultimately show ?thesis by (simp add: body)
  next
    assume "\<exists>p. xu_pending u = Some p \<and> approved_files E m u p s2 \<and> renders E m"
    then obtain p where p: "xu_pending u = Some p" "approved_files E m u p s2" "renders E m" by blast
    then have "pe_phase p = Ready \<or> pe_phase p = Replacing" by (simp add: approved_files_def)
    then show ?thesis using run_apply_place [OF setting place u p] p(1) by (auto simp: body)
  qed
qed

section \<open>Properties\<close>

text \<open>C13. On Unix an interrupted replacement can always be finished. Let \<open>apply_pending\<close> start with an approved update (phase
  \<open>Ready\<close> or \<open>Replacing\<close>, the recorded executable in place, its successor staged beside it or lost) and stop it
  anywhere, or let any of its operations fail. Then one run of \<open>recover_pending\<close> without faults succeeds, no update is pending
  any more, and the executable in place is the verified one whose version and digest the metadata records.\<close>

theorem interrupted_update_recovers:
  assumes setting: "update_setting E prefix mf exe" and approved: "unix_recoverable E prefix mf exe s"
    and interrupted: "apply_pending False E prefix mf \<lparr>w_fs = s, w_schedule = schedule\<rparr> = (r, w')"
  shows "\<exists>outcome s'' m u b. run (recover_pending False E prefix mf) (w_fs w') = (Ok outcome, s'')
     \<and> outcome \<in> {Update_None, Update_Applied, Update_Restored_Previous}
     \<and> recoverable (ue_json E) prefix mf s'' = Some m \<and> direct_update m = Inr u \<and> xu_pending u = None
     \<and> s'' exe = Some (Regular b) \<and> verified E m u b (pm_version m) (xu_sha256 u)"
proof -
  have "unix_recoverable E prefix mf exe (w_fs w')"
    using wpD [OF wp_apply_pending_place [OF setting approved] interrupted] by (cases r) simp_all
  from run_recover_place [OF setting this] show ?thesis
    unfolding finished_def update_done_def role_is_def by auto
qed

text \<open>The approved update of the sample, stopped after the rename and before the new version is recorded.\<close>

lemma sample_approved:
  "unix_recoverable sample_env [''opt''] ''.demo.json'' [''bin'', ''demo''] ((sample_machine 3)
     ([''bin'', ''.demo.conda-ship-0202020202020202.new''] \<mapsto> Regular (sample_executable 2)))"
proof -
  let ?s = "(sample_machine 3)([''bin'', ''.demo.conda-ship-0202020202020202.new''] \<mapsto> Regular (sample_executable 2))"
  let ?m = "sample_managed (Some (sample_pending Ready))" and ?u = "sample_update (Some (sample_pending Ready))"
  have lock: "bootstrap_lock_path [''opt''] = Inr [''.opt.conda-ship.lock'']" by code_simp
  have place: "update_place [''opt''] ''.demo.json'' [''bin'', ''demo''] ?s"
    by (auto simp: update_place_def lock_open_def lock metadata_regular_def metadata_files_def sample_machine_def)
  have found: "recoverable update_json [''opt''] ''.demo.json'' ?s = Some ?m"
    by (simp add: recoverable_def sample_machine_def node_metadata_def update_json_records)
  have paths: "pending_candidate_path ?u (sample_pending Ready) = Inr [''bin'', ''.demo.conda-ship-0202020202020202.new'']"
    "pending_backup_path False ?u = Inr [''bin'', ''.demo.conda-ship-0101010101010101.old'']" by code_simp+
  have digests: "sample_digest 1 \<noteq> sample_digest 2" by code_simp
  have "approved_files sample_env ?m ?u (sample_pending Ready) ?s"
    unfolding approved_files_def paths
    using digests sample_verified [of "Some (sample_pending Ready)"]
    by (auto simp: role_is_def sample_pending_def sample_machine_def)
  moreover have "validate_current_metadata sample_env ?m ''.demo.json'' = Inr ()"
    by (simp add: validate_current_metadata_def validate_metadata_ready_for_def validate_metadata_identity_for_def validate_ready_phase_def
        sample_env_def sample_managed_def sample_metadata_def metadata_for_identity_def sample_identity_def update_header_def header_for_name_def)
  moreover have "renders sample_env ?m"
  proof -
    have "set_phase Replacing ?m = sample_managed (Some (sample_pending Replacing))" "clear_pending ?m = sample_managed None"
      by (simp_all add: sample_managed_def set_phase_def clear_pending_def map_update_def sample_pending_def sample_update_def)
    moreover from this(1) have "clear_pending (commit_new_version ?m)
        = clear_pending (commit_new_version (sample_managed (Some (sample_pending Replacing))))"
      using clear_commit_set_phase [of Replacing ?m] by simp
    ultimately show ?thesis
      unfolding renders_def sample_direct update_json_def sample_records_def by (simp add: find_dropWhile)
  qed
  ultimately show ?thesis using place found by (auto simp: unix_recoverable_def recovers_as_def)
qed

lemma interrupted_update_recovers_witness:
  "\<exists>outcome s'' m u b. run (recover_pending False sample_env [''opt''] ''.demo.json'')
       (w_fs (snd (apply_pending False sample_env [''opt''] ''.demo.json''
          \<lparr>w_fs = (sample_machine 3)([''bin'', ''.demo.conda-ship-0202020202020202.new''] \<mapsto> Regular (sample_executable 2)),
           w_schedule = replicate 25 Go @ [Halt 1]\<rparr>))) = (Ok outcome, s'')
     \<and> recoverable update_json [''opt''] ''.demo.json'' s'' = Some m \<and> direct_update m = Inr u \<and> xu_pending u = None
     \<and> s'' [''bin'', ''demo''] = Some (Regular b)"
  using interrupted_update_recovers [OF sample_apart sample_approved prod.collapse [symmetric], of "replicate 25 Go @ [Halt 1]"]
  unfolding sample_direct by blast

end
