(* ===== verification/Update_Ownership.thy ===== *)
theory Update_Ownership
  imports Update_Recovery
begin

text \<open>
  Who manages the executable: \<open>record_installation\<close> may hand a directly managed executable to an external package
  manager, never the other way round. And what the update metadata may name a digest: exactly the
  hexadecimal forms of 32 bytes.
\<close>

section \<open>Digests\<close>

lemma hex_digit_iff: "c \<in> set hex_digits \<longleftrightarrow> is_ascii_hexdigit c \<and> \<not> is_ascii_uppercase c"
proof
  show "c \<in> set hex_digits \<Longrightarrow> is_ascii_hexdigit c \<and> \<not> is_ascii_uppercase c"
    by (auto simp: hex_digits_def) code_simp+
  assume "is_ascii_hexdigit c \<and> \<not> is_ascii_uppercase c"
  then have "code c \<in> set ([48 ..< 58] @ [97 ..< 103])"
    unfolding set_append set_upt by (auto simp: is_ascii_hexdigit_def is_ascii_uppercase_def is_ascii_digit_def)
  moreover have "c = char_of (code c)" by simp
  moreover have "\<forall>n \<in> set ([48 ..< 58] @ [97 ..< 103]). char_of n \<in> set hex_digits" by code_simp
  ultimately show "c \<in> set hex_digits" by metis
qed

lemma hex_digit_index:
  assumes "c \<in> set hex_digits"
  obtains n where "n < 16" "c = hex_digits ! n"
proof -
  from assms obtain n where "n < length hex_digits" "hex_digits ! n = c" unfolding in_set_conv_nth by blast
  moreover have "length hex_digits = 16" by (simp add: hex_digits_def)
  ultimately show thesis using that by metis
qed

lemma hex_pair:
  assumes "c \<in> set hex_digits" "d \<in> set hex_digits"
  obtains b where "hex_byte b = [c, d]"
proof -
  obtain i j where ij: "i < 16" "c = hex_digits ! i" "j < 16" "d = hex_digits ! j"
    using assms by (metis hex_digit_index)
  have exact: "unat (word_of_nat n :: byte) = n" if "n < 256" for n
    using that by (simp add: unat_of_nat)
  have "16 * i + j < 256" using ij by simp
  from exact [OF this] ij have "hex_byte (word_of_nat (16 * i + j)) = [c, d]" unfolding hex_byte_def by simp
  then show thesis by (rule that)
qed

lemma hex_surjective:
  "length d = 2 * n \<Longrightarrow> set d \<subseteq> set hex_digits \<Longrightarrow> \<exists>bs. length bs = n \<and> d = hex bs"
proof (induction n arbitrary: d)
  case (Suc n)
  then obtain x y d' where d: "d = x # y # d'" "length d' = 2 * n"
    by (cases d; cases "tl d") auto
  obtain bs where "length bs = n" "d' = hex bs" using Suc.IH [OF d(2)] Suc.prems(2) d(1) by auto
  moreover obtain b where "hex_byte b = [x, y]" using hex_pair [of x y] Suc.prems(2) d(1) by auto
  ultimately show ?case using d(1) by (intro exI [of _ "b # bs"]) (simp add: hex_def)
qed (simp add: hex_def)

section \<open>Properties of digests\<close>

text \<open>A recorded digest is accepted exactly if it is the lower-case hexadecimal form of 32 bytes, so that comparing
  it with a computed digest as text compares the bytes.\<close>

theorem digest_check_exact:
  "validate_sha256 d = Inr () \<longleftrightarrow> (\<exists>bs. length bs = 32 \<and> d = hex bs)"
proof
  assume "validate_sha256 d = Inr ()"
  then have "length d = 2 * 32" "set d \<subseteq> set hex_digits"
    by (auto simp: validate_sha256_def hex_digit_iff list_all_iff list_ex_iff split: if_splits)
  then show "\<exists>bs. length bs = 32 \<and> d = hex bs" by (rule hex_surjective)
next
  assume "\<exists>bs. length bs = 32 \<and> d = hex bs"
  then show "validate_sha256 d = Inr ()"
    using set_hex by (fastforce simp: validate_sha256_def hex_digit_iff list_all_iff list_ex_iff subset_iff)
qed

section \<open>Ownership\<close>

text \<open>What \<open>record_installation\<close> may turn the metadata \<open>m0\<close> into.\<close>

definition installation_of ::
    "update_ext \<Rightarrow> prefix_metadata \<Rightarrow> update_ownership \<Rightarrow> string \<Rightarrow> prefix_metadata \<Rightarrow> bool" where
  "installation_of E m0 ownership installation m \<longleftrightarrow> (\<exists>u0 u b. pm_update m0 = Some u0 \<and> xu_pending u0 = None \<and> pm_update m = Some u
     \<and> xu_ownership u = ownership \<and> xu_installation u = Some installation \<and> xu_pending u = None
     \<and> (xu_ownership u0 = External \<longrightarrow> ownership = External)
     \<and> (xu_ownership u0 = External \<and> xu_installation u0 \<noteq> None \<longrightarrow>
          xu_executable u = xu_executable u0 \<and> xu_installation u = xu_installation u0 \<and> xu_instruction u = xu_instruction u0)
     \<and> pm_version m = h_runtime_version (rd_header (ue_current E))
     \<and> verified E m u b (pm_version m) (xu_sha256 u))"

lemma wp_locked_read:
  assumes J: "json_laws J" and mf: "metadata_file_ok mf" "marker_free mf" "CHR ''/'' \<notin> set (last prefix)"
    and old: "recoverable J prefix mf s = Some m0"
    and step: "\<And>s'. metadata_settled J prefix mf s' \<Longrightarrow> recoverable J prefix mf s' = Some m0 \<Longrightarrow> wp (k m0) Q E' C s'"
    and I: "\<And>s'. recoverable J prefix mf s' = Some m0 \<Longrightarrow> (\<forall>e. E' e s') \<and> C s'"
  shows "wp (bindio (acquire_lock prefix) (\<lambda>_. bindio (read_metadata_for J prefix mf) k)) Q E' C s"
proof (rule wp_bindio_stays [OF stays_acquire_lock [OF mf(3)]], goal_cases)
  case (1 x s')
  have s': "recoverable J prefix mf s' = Some m0" using recoverable_outside [OF 1 side_files_disjoint [OF mf]] old by simp
  have laws: "json_laws J \<and> metadata_file_ok mf" using J mf by simp
  show ?case
    by (rule wp_bindio, rule wp_mono [OF metadata.read_safe [OF laws]]) (use s' step I in auto)
next
  case (2 s')
  show ?case using I recoverable_outside [OF 2 side_files_disjoint [OF mf]] old by simp
qed

lemma wp_record_installation:
  assumes J: "json_laws (ue_json E)" and mf: "metadata_file_ok mf" "marker_free mf" "CHR ''/'' \<notin> set (last prefix)"
    and old: "recoverable (ue_json E) prefix mf s = Some m0"
  defines "now \<equiv> recoverable (ue_json E) prefix mf"
  shows "wp (record_installation E prefix mf executable ownership installation instruction)
    (\<lambda>_ s'. \<exists>m. now s' = Some m \<and> installation_of E m0 ownership installation m)
    (\<lambda>_ s'. now s' = Some m0 \<or> (\<exists>m. now s' = Some m \<and> installation_of E m0 ownership installation m))
    (\<lambda>s'. now s' = Some m0 \<or> (\<exists>m. now s' = Some m \<and> installation_of E m0 ownership installation m)) s"
proof -
  let ?I = "\<lambda>s'. now s' = Some m0 \<or> (\<exists>m. now s' = Some m \<and> installation_of E m0 ownership installation m)"
  let ?Q = "\<lambda>s'. \<exists>m. now s' = Some m \<and> installation_of E m0 ownership installation m"
  let ?h = "rd_header (ue_current E)"
  have laws: "json_laws (ue_json E) \<and> metadata_file_ok mf" using J mf by simp
  have look: "stays (verify_running_executable E e) {}" "stays (resolve_owned_executable ownership e) {}" for e
    unfolding verify_running_executable_def resolve_owned_executable_def by (intro stays_intros)+
  have recording: "wp (if u0 = u \<and> pm_version m0 = h_runtime_version ?h then ret Update_None
     else bindio (persist_metadata_for (ue_json E) prefix mf (m0\<lparr>pm_version := h_runtime_version ?h, pm_update := Some u\<rparr>))
       (\<lambda>_. ret Update_Reconciled)) (\<lambda>_. ?Q) (\<lambda>_. ?I) ?I s'"
    if at: "metadata_settled (ue_json E) prefix mf s'" "now s' = Some m0" and u0: "pm_update m0 = Some u0"
      and good: "installation_of E m0 ownership installation (m0\<lparr>pm_version := h_runtime_version ?h, pm_update := Some u\<rparr>)"
    for s' u0 u
  proof (cases "u0 = u \<and> pm_version m0 = h_runtime_version ?h")
    case True
    then have "m0\<lparr>pm_version := h_runtime_version ?h, pm_update := Some u\<rparr> = m0" using u0 by simp
    with good at(2) True show ?thesis by (auto intro: wp_ret)
  next
    case False
    then show ?thesis
      unfolding if_not_P [OF False]
      by (intro wp_bindio, intro wp_mono [OF metadata.write_safe [OF laws at(1) at(2) [unfolded now_def]]])
        (use good in \<open>auto simp: now_def intro!: wp_ret\<close>)
  qed
  have chain: "wp (bindio c k) Q E' C s'" if "stays c {}" "\<And>x. wp (k x) Q E' C s'" "\<And>e. E' e s'" "C s'"
    for c :: "'c io" and k :: "'c \<Rightarrow> update_outcome io" and Q E' C s'
    by (rule wp_bindio_stays [OF that(1)]) (use that in auto)
  show ?thesis
    unfolding record_installation_def Let_def
  proof (rule wp_bindio, rule wp_lift_result, rule wp_bindio, rule wp_ensure, rule wp_bindio, rule wp_ensure,
      rule wp_locked_read [OF J mf old], goal_cases)
    case (1 _ s')
    then have I: "now s' = Some m0" by (simp add: now_def)
    show ?case
    proof (rule wp_bindio, rule wp_lift_result, rule wp_bindio, rule wp_lift_result, rule wp_bindio, rule wp_lift_result, rule wp_bindio,
        rule wp_lift_result, rule chain, (intro look) [1], rule wp_bindio, rule wp_ensure, rule chain, (intro look) [1],
        rule chain, (intro stays_intros) [1], rule wp_bindio, rule wp_ensure, rule wp_bindio, rule wp_ensure,
        rule wp_bindio, rule wp_verify_stamped_file, goal_cases)
      case (1 _ u0 hu _ e _ digest b)
      let ?u = "\<lparr>xu_executable = e, xu_ownership = ownership, xu_installation = Some installation,
        xu_artifact_name = h_artifact_name ?h, xu_channel = u_channel hu, xu_package = u_package hu,
        xu_build_number = u_build_number hu, xu_sha256 = digest,
        xu_instruction = installation_instruction u0 ownership instruction, xu_pending = None\<rparr>"
      have "verified E (m0\<lparr>pm_version := h_runtime_version ?h, pm_update := Some ?u\<rparr>) ?u b (h_runtime_version ?h) digest"
        using 1(9) by (simp add: header_matches_cong [of "m0\<lparr>pm_version := h_runtime_version ?h, pm_update := Some ?u\<rparr>" m0 ?u ?u])
      moreover have "pm_update m0 = Some u0" using 1(2) by (cases "pm_update m0") simp_all
      moreover have "xu_pending u0 = None" "xu_ownership u0 = External \<longrightarrow> ownership = External"
        "xu_ownership u0 = External \<longrightarrow> xu_installation u0 = None \<or> xu_installation u0 = Some installation"
        using 1(4) by (cases ownership; auto simp: installation_change_allowed_def split: if_splits option.splits)+
      ultimately have "installation_of E m0 ownership installation (m0\<lparr>pm_version := h_runtime_version ?h, pm_update := Some ?u\<rparr>)"
        using 1(5,7) by (auto simp: installation_of_def)
      with 1 \<open>pm_update m0 = Some u0\<close> show ?case by (intro recording) (use 1 I \<open>metadata_settled _ _ _ s'\<close> in simp_all)
    qed (use I in simp_all)
  qed (use old now_def in simp_all)
qed

section \<open>Properties of ownership\<close>

text \<open>C38. Recording an installation never reclaims an executable: under every fault, what a later read finds is
  the metadata as it was, or (and certainly if the call succeeds) the record asked for: no update was or is pending,
  an externally managed executable stays externally managed, one whose installation was recorded keeps its path,
  installation and instruction, and the version and digest are those of a verified executable of the running runtime.\<close>

theorem recording_never_reclaims:
  assumes "json_laws (ue_json E)" "metadata_file_ok mf" "marker_free mf" "CHR ''/'' \<notin> set (last prefix)"
    and old: "recoverable (ue_json E) prefix mf s = Some m0"
    and run: "record_installation E prefix mf executable ownership installation instruction \<lparr>w_fs = s, w_schedule = schedule\<rparr> = (r, w')"
  shows "recoverable (ue_json E) prefix mf (w_fs w') = Some m0 \<and> (\<forall>outcome. r \<noteq> Ok outcome)
     \<or> (\<exists>m u0 u b. recoverable (ue_json E) prefix mf (w_fs w') = Some m \<and> pm_update m0 = Some u0 \<and> xu_pending u0 = None
          \<and> pm_update m = Some u \<and> xu_ownership u = ownership \<and> xu_installation u = Some installation \<and> xu_pending u = None
          \<and> (xu_ownership u0 = External \<longrightarrow> ownership = External)
          \<and> (xu_ownership u0 = External \<and> xu_installation u0 \<noteq> None \<longrightarrow> xu_executable u = xu_executable u0
               \<and> xu_installation u = xu_installation u0 \<and> xu_instruction u = xu_instruction u0)
          \<and> pm_version m = h_runtime_version (rd_header (ue_current E)) \<and> verified E m u b (pm_version m) (xu_sha256 u))"
proof -
  have "recoverable (ue_json E) prefix mf (w_fs w') = Some m0 \<and> (\<forall>outcome. r \<noteq> Ok outcome)
     \<or> (\<exists>m. recoverable (ue_json E) prefix mf (w_fs w') = Some m \<and> installation_of E m0 ownership installation m)"
    using wpD [OF wp_record_installation [OF assms(1-5)] run] by (cases r) auto
  then show ?thesis
  proof
    assume "\<exists>m. recoverable (ue_json E) prefix mf (w_fs w') = Some m \<and> installation_of E m0 ownership installation m"
    then show ?thesis unfolding installation_of_def by (elim exE conjE) (rule disjI2, intro exI conjI; assumption)
  qed (rule disjI1)
qed

text \<open>The sample's executable is handed to an external manager; the process stops inside the write.\<close>

lemma recording_never_reclaims_witness:
  "\<exists>m. recoverable update_json [''opt''] ''.demo.json''
      (w_fs (snd (record_installation sample_env [''opt''] ''.demo.json'' (True, [''bin'', ''demo'']) External ''brew''
        (Some ''brew upgrade demo'') \<lparr>w_fs = sample_machine 1, w_schedule = replicate 12 Go @ [Halt 1]\<rparr>))) = Some m"
proof -
  have "recoverable update_json [''opt''] ''.demo.json'' (sample_machine 1) = Some (sample_managed None)"
    by (simp add: recoverable_def sample_machine_def node_metadata_def update_json_records)
  moreover have "marker_free ''.demo.json''" using sample_apart by (simp add: update_setting_def)
  ultimately show ?thesis
    using recording_never_reclaims [OF _ _ _ _ _ prod.collapse [symmetric], of sample_env "''.demo.json''" "[''opt'']" "sample_machine 1"
        "sample_managed None" "(True, [''bin'', ''demo''])" External "''brew''" "Some ''brew upgrade demo''"
        "replicate 12 Go @ [Halt 1]"]
    unfolding sample_direct by auto
qed

end
