(* ===== verification/Runtime_Update.thy ===== *)
theory Runtime_Update
  imports Bundle_Install Update_Ownership
begin

text \<open>
  Updates of the runtime executable from a channel (\<open>src/runtime_update.rs\<close>): the choice of a newer package, the cached
  repodata, the download and its verification, the probe for notifications, and the internal helper that the
  client calls with one of six actions. \<open>channel_ext\<close> holds what the file takes from elsewhere: URL, name, version and channel
  parsing, the repodata and package metadata parsers and the package cache of rattler, HTTP requests, environment
  variables and standard output. What the helper prints is a value of type \<open>helper_response\<close>.
\<close>

section \<open>Data\<close>

record selected_package =
  sp_record :: repodata_record
  sp_filename :: string
  sp_sha256 :: string
  sp_size :: nat

text \<open>\<open>'a\<close> is the type of the field \<open>available\<close>.\<close>

record 'a check_response =
  cr_available :: 'a
  cr_current_version :: string
  cr_current_build_number :: nat
  cr_version :: "string option"
  cr_build_number :: "nat option"
  cr_package :: "string option"
  cr_sha256 :: "string option"
  cr_ownership :: update_ownership
  cr_installation :: "string option"
  cr_instruction :: "string option"

definition check_response_new ::
    "'a \<Rightarrow> runtime_header \<Rightarrow> runtime_update_config \<Rightarrow> update_metadata \<Rightarrow> selected_package option \<Rightarrow> 'a check_response" where
  "check_response_new available header update recorded candidate =
     \<lparr>cr_available = available,
      cr_current_version = h_runtime_version header,
      cr_current_build_number = u_build_number update,
      cr_version = map_option (\<lambda>c. pk_version (rr_package (sp_record c))) candidate,
      cr_build_number = map_option (\<lambda>c. pk_build_number (rr_package (sp_record c))) candidate,
      cr_package = map_option (\<lambda>_. u_package update) candidate,
      cr_sha256 = map_option sp_sha256 candidate,
      cr_ownership = xu_ownership recorded,
      cr_installation = xu_installation recorded,
      cr_instruction = xu_instruction recorded\<rparr>"

datatype probe_source = Probe_Network | Probe_Cache | Probe_File

record probe_result =
  pb_candidate :: "selected_package option"
  pb_source :: probe_source
  pb_cache_age_seconds :: "nat option"

record probe_response =
  pr_check :: "bool option check_response"
  pr_source :: "probe_source option"
  pr_cache_age_seconds :: "nat option"

datatype helper_response =
    Checked "bool check_response" | Probed probe_response | Staged_Response | Applied_Response
  | Replacement_Pending_Response | Recorded_Response

datatype helper_action =
    Check_Action | Probe_Action | Stage_Action | Apply_Action | Record_Installation_Action | Windows_Replace_Action

text \<open>The strings of the actions; on Unix \<open>v1/windows-replace\<close> is not one.\<close>

definition parse_action :: "bool \<Rightarrow> string \<Rightarrow> helper_action option" where
  "parse_action windows action =
     (if action = ''v1/check'' then Some Check_Action
      else if action = ''v1/probe'' then Some Probe_Action
      else if action = ''v1/stage'' then Some Stage_Action
      else if action = ''v1/apply'' then Some Apply_Action
      else if action = ''v1/record-installation'' then Some Record_Installation_Action
      else if windows \<and> action = ''v1/windows-replace'' then Some Windows_Replace_Action
      else None)"

text \<open>The metadata inside a package; \<open>ij_version\<close> and names as the parsers normalise them.\<close>

record index_json =
  ij_name :: string
  ij_version :: string
  ij_build :: string
  ij_build_number :: nat
  ij_subdir :: "string option"
  ij_depends :: "string list"

datatype path_type = Hard_Link_Path | Soft_Link_Path | Directory_Path

record paths_entry =
  pt_relative_path :: string
  pt_type :: path_type
  pt_prefix_placeholder :: bool
  pt_sha256 :: "bytes option"
  pt_size_in_bytes :: "nat option"

record paths_json =
  pj_version :: nat
  pj_paths :: "paths_entry list"

section \<open>Environment\<close>

datatype env_value = Env_Absent | Env_Invalid | Env_Text string

record channel_ext =
  ch_update :: update_ext
  ch_platform :: string
  ch_version :: "string \<Rightarrow> string result"
  ch_version_le :: "string \<Rightarrow> string \<Rightarrow> bool"
  ch_package_name :: "string \<Rightarrow> string result"
  ch_url :: "string \<Rightarrow> url result"
  ch_url_with_base :: "string \<Rightarrow> url result"
  ch_channel :: "string \<Rightarrow> url result"
  ch_join_url :: "url \<Rightarrow> string \<Rightarrow> url result"
  ch_to_file_path :: "url \<Rightarrow> path option"
  ch_repodata :: "url \<Rightarrow> bytes \<Rightarrow> repodata_record list result"
  ch_has_package_map :: "bytes \<Rightarrow> bool result"
  ch_client :: "unit result"
  ch_get :: "url \<Rightarrow> (url \<times> bytes) io"
  ch_probe_get :: "url \<Rightarrow> (url \<times> bytes) io"
  ch_extract_file :: "path \<Rightarrow> path \<Rightarrow> (nat \<times> bytes) io"
  ch_extract_url :: "url \<Rightarrow> path \<Rightarrow> bytes \<Rightarrow> (nat \<times> bytes) io"
  ch_get_or_fetch :: "path \<Rightarrow> package_record \<Rightarrow> url \<Rightarrow> (path \<Rightarrow> unit io) \<Rightarrow> path io"
  ch_index_json :: "path \<Rightarrow> index_json io"
  ch_paths_json :: "path \<Rightarrow> paths_json io"
  ch_cache_dir :: "path option"
  ch_cache_age :: "path \<Rightarrow> nat option io"
  ch_temp_name :: string
  ch_lock :: "path \<Rightarrow> unit io"
  ch_try_lock :: "path \<Rightarrow> unit io"
  ch_invocation_path :: "path_buf result"
  ch_env :: "string \<Rightarrow> env_value"
  ch_env_path :: "string \<Rightarrow> path_buf option"
  ch_respond :: "helper_response \<Rightarrow> unit io"

abbreviation ch_header :: "channel_ext \<Rightarrow> runtime_header" where
  "ch_header R \<equiv> rd_header (ue_current (ch_update R))"

abbreviation ch_sha256 :: "channel_ext \<Rightarrow> bytes \<Rightarrow> bytes" where
  "ch_sha256 R \<equiv> sha256 (ue_codec (ch_update R))"

text \<open>\<open>environment_flag\<close>: a variable that is not valid UTF-8 is neither \<open>0\<close> nor \<open>false\<close>.\<close>

definition environment_flag :: "channel_ext \<Rightarrow> string \<Rightarrow> bool" where
  "environment_flag R name =
     (case ch_env R name of
        Env_Absent \<Rightarrow> False
      | Env_Invalid \<Rightarrow> True
      | Env_Text v \<Rightarrow> v \<noteq> [] \<and> v \<noteq> ''0'' \<and> map to_ascii_lowercase v \<noteq> ''false'')"

definition required_environment :: "channel_ext \<Rightarrow> string \<Rightarrow> string result" where
  "required_environment R name =
     (case ch_env R name of
        Env_Text v \<Rightarrow> if v = [] then Inl (Invalid ''the variable must not be empty'') else Inr v
      | _ \<Rightarrow> Inl (Invalid ''the variable is required''))"

definition optional_environment :: "channel_ext \<Rightarrow> string \<Rightarrow> string option result" where
  "optional_environment R name =
     (case ch_env R name of
        Env_Text v \<Rightarrow> if v = [] then Inl (Invalid ''the variable must not be empty'') else Inr (Some v)
      | Env_Absent \<Rightarrow> Inr None
      | Env_Invalid \<Rightarrow> Inl (Invalid ''the variable is invalid''))"

definition requested_ownership :: "channel_ext \<Rightarrow> update_ownership result" where
  "requested_ownership R =
     rbind (required_environment R ''CONDA_SHIP_INTERNAL_UPDATE_OWNERSHIP'') (\<lambda>v.
     if v = ''direct'' then Inr Direct
     else if v = ''external'' then Inr External
     else Inl (Invalid ''invalid runtime installation ownership''))"

definition validate_sha256_digest :: "string \<Rightarrow> unit result" where
  "validate_sha256_digest value =
     (if length value \<noteq> 64 \<or> \<not> list_all is_ascii_hexdigit value \<or> list_ex is_ascii_uppercase value
      then Inl (Invalid ''invalid selected runtime update SHA-256 digest'') else Inr ())"

definition selected_candidate_digest :: "channel_ext \<Rightarrow> string result" where
  "selected_candidate_digest R =
     (case ch_env R ''CONDA_SHIP_INTERNAL_UPDATE_CANDIDATE'' of
        Env_Text digest \<Rightarrow> rbind (validate_sha256_digest digest) (\<lambda>_. Inr digest)
      | _ \<Rightarrow> Inl (Invalid ''runtime update candidate was not selected''))"

definition require_selected_candidate :: "selected_package option \<Rightarrow> string \<Rightarrow> selected_package result" where
  "require_selected_candidate candidate selected_sha256 =
     rbind (ok_or ''the selected runtime update is no longer available'' candidate) (\<lambda>candidate.
     if sp_sha256 candidate \<noteq> selected_sha256
     then Inl (Invalid ''the selected runtime update changed after confirmation'')
     else Inr candidate)"

section \<open>Selection\<close>

definition validate_update_config :: "channel_ext \<Rightarrow> runtime_update_config \<Rightarrow> unit result" where
  "validate_update_config R update =
     rbind (ch_url R (u_channel update)) (\<lambda>url.
     if url_scheme url \<noteq> ''https'' \<and> url_scheme url \<noteq> ''file''
     then Inl (Invalid ''runtime update channel must use https:// or file://'')
     else rbind (validate_artifact_url (ch_url_with_base R) (u_channel update)) (\<lambda>_.
       rbind (ch_package_name R (u_package update)) (\<lambda>_. Inr ())))"

definition candidate_channel :: "channel_ext \<Rightarrow> runtime_header \<Rightarrow> runtime_update_config \<Rightarrow> (url \<times> string) result" where
  "candidate_channel R header update =
     rbind (validate_update_config R update) (\<lambda>_.
     let platform = ch_platform R in
     if h_platform header \<noteq> [] \<and> h_platform header \<noteq> platform
     then Inl (Invalid ''runtime was built for another platform'')
     else rbind (ch_channel R (u_channel update)) (\<lambda>channel. Inr (channel, platform)))"

definition validate_package_filename :: "string \<Rightarrow> unit result" where
  "validate_package_filename filename =
     (if filename = [] \<or> \<not> ends_with ''.conda'' filename \<or> CHR ''/'' \<in> set filename \<or> CHR 0x5C \<in> set filename
        \<or> has_control filename
      then Inl (Invalid ''invalid runtime update package filename'') else Inr ())"

text \<open>Pairs of version and build number, ordered lexicographically.\<close>

definition release_le :: "channel_ext \<Rightarrow> string \<times> nat \<Rightarrow> string \<times> nat \<Rightarrow> bool" where
  "release_le R a b =
     (ch_version_le R (fst a) (fst b) \<and> (\<not> ch_version_le R (fst b) (fst a) \<or> snd a \<le> snd b))"

definition release_of :: "repodata_record \<Rightarrow> string \<times> nat" where
  "release_of r = (pk_version (rr_package r), pk_build_number (rr_package r))"

fun collect_candidates ::
    "channel_ext \<Rightarrow> string \<Rightarrow> string \<times> nat \<Rightarrow> string \<Rightarrow> repodata_record list \<Rightarrow> selected_package list result" where
  "collect_candidates R package_name current platform [] = Inr []"
| "collect_candidates R package_name current platform (r # rs) =
     (if pk_name (rr_package r) \<noteq> package_name \<or> \<not> ends_with ''.conda'' (rr_identifier r)
        \<or> pk_subdir (rr_package r) \<noteq> platform
      then collect_candidates R package_name current platform rs
      else if release_le R (release_of r) current
      then collect_candidates R package_name current platform rs
      else
        rbind (ok_or ''no size in repodata'' (pk_size (rr_package r))) (\<lambda>size.
        rbind (ok_or ''no SHA-256 in repodata'' (pk_sha256 (rr_package r))) (\<lambda>digest.
        rbind (validate_package_filename (rr_identifier r)) (\<lambda>_.
        rbind (collect_candidates R package_name current platform rs) (\<lambda>candidates.
        Inr (\<lparr>sp_record = r, sp_filename = rr_identifier r, sp_sha256 = hex digest, sp_size = size\<rparr> # candidates))))))"

text \<open>\<open>sort_by\<close>, a stable sort, and \<open>pop\<close>.\<close>

fun insert_release :: "(string \<times> nat \<Rightarrow> string \<times> nat \<Rightarrow> bool) \<Rightarrow> selected_package \<Rightarrow> selected_package list \<Rightarrow> selected_package list" where
  "insert_release le c [] = [c]"
| "insert_release le c (d # ds) =
     (if le (release_of (sp_record c)) (release_of (sp_record d)) then c # d # ds else d # insert_release le c ds)"

fun sort_releases :: "(string \<times> nat \<Rightarrow> string \<times> nat \<Rightarrow> bool) \<Rightarrow> selected_package list \<Rightarrow> selected_package list" where
  "sort_releases le [] = []"
| "sort_releases le (c # cs) = insert_release le c (sort_releases le cs)"

definition pop :: "'a list \<Rightarrow> 'a option" where
  "pop xs = (if xs = [] then None else Some (last xs))"

definition select_candidate ::
    "channel_ext \<Rightarrow> runtime_header \<Rightarrow> runtime_update_config \<Rightarrow> string \<Rightarrow> repodata_record list \<Rightarrow> selected_package option result" where
  "select_candidate R header update platform records =
     rbind (ch_package_name R (u_package update)) (\<lambda>package_name.
     rbind (ch_version R (h_runtime_version header)) (\<lambda>current_version.
     rbind (collect_candidates R package_name (current_version, u_build_number update) platform records) (\<lambda>candidates.
     Inr (pop (sort_releases (release_le R) candidates)))))"

section \<open>Caches\<close>

definition update_cache_dir :: "channel_ext \<Rightarrow> path \<Rightarrow> path result" where
  "update_cache_dir R prefix =
     (case ch_cache_dir R of
        Some cache \<Rightarrow> Inr (cache @ [''conda-ship'', ''updates''])
      | None \<Rightarrow> rbind (ok_or ''runtime prefix has no parent directory'' (parent prefix)) (\<lambda>d.
          Inr (d @ [''.conda-ship-update-cache''])))"

definition repodata_cache_path :: "channel_ext \<Rightarrow> path \<Rightarrow> string \<Rightarrow> path result" where
  "repodata_cache_path R prefix source =
     rbind (update_cache_dir R prefix) (\<lambda>d.
     Inr (d @ [''repodata'', hex (ch_sha256 R (bytes_of_string source)) @ ''.json'']))"

text \<open>\<open>OpenOptions\<close> with \<open>create(true).truncate(false)\<close>.\<close>

definition open_or_create :: "path \<Rightarrow> unit io" where
  "open_or_create p = atomic_op (\<lambda>s. case s p of
     None \<Rightarrow> if parent_exists s p then Inr ((), s(p \<mapsto> Regular [])) else Inl Not_Found
   | Some Directory \<Rightarrow> Inl Io_Failed
   | Some _ \<Rightarrow> if follow s p = Some Directory \<or> follow s p = None then Inl Io_Failed else Inr ((), s))"

text \<open>A \<open>NamedTempFile\<close>: dropped on an error.\<close>

definition with_temporary :: "path \<Rightarrow> unit io \<Rightarrow> unit io" where
  "with_temporary temporary m =
     bindio (create_new temporary) (\<lambda>_.
     bindio (tryio m) (\<lambda>r. case r of
       Inr _ \<Rightarrow> ret ()
     | Inl e \<Rightarrow> bindio (tryio (remove_file temporary)) (\<lambda>_. fail e)))"

definition try_write_cache_file :: "channel_ext \<Rightarrow> path \<Rightarrow> bytes \<Rightarrow> unit io" where
  "try_write_cache_file R p b =
     bindio (lift_result (ok_or ''cache path has no parent'' (parent p))) (\<lambda>d.
     bindio (create_dir_all d) (\<lambda>_.
     let lock = with_extension p ''lock''; temporary = d @ [ch_temp_name R] in
     bindio (open_or_create lock) (\<lambda>_.
     bindio (ch_try_lock R lock) (\<lambda>_.
     with_temporary temporary (bindio (write_all temporary b) (\<lambda>_. rename temporary p))))))"

definition lock_cache_file :: "channel_ext \<Rightarrow> path \<Rightarrow> unit io" where
  "lock_cache_file R p =
     bindio (lift_result (ok_or ''cache path has no parent'' (parent p))) (\<lambda>d.
     bindio (create_dir_all d) (\<lambda>_.
     bindio (open_or_create (with_extension p ''lock'')) (\<lambda>_.
     ch_lock R (with_extension p ''lock''))))"

definition write_cache_file :: "channel_ext \<Rightarrow> path \<Rightarrow> bytes \<Rightarrow> unit io" where
  "write_cache_file R p b =
     bindio (lock_cache_file R p) (\<lambda>_.
     bindio (lift_result (ok_or ''cache path has no parent'' (parent p))) (\<lambda>d.
     let temporary = d @ [ch_temp_name R] in
     with_temporary temporary
       (bindio (write_all temporary b) (\<lambda>_.
        bindio sync (\<lambda>_.
        bindio (path_exists p) (\<lambda>present.
        bindio (if present then remove_file p else ret ()) (\<lambda>_.
        rename temporary p)))))))"

section \<open>Repodata\<close>

definition load_repodata :: "channel_ext \<Rightarrow> path \<Rightarrow> url \<Rightarrow> string \<Rightarrow> bool \<Rightarrow> repodata_record list io" where
  "load_repodata R prefix channel platform offline =
     bindio (lift_result (ch_join_url R channel (platform @ ''/repodata.json''))) (\<lambda>url.
     bindio (lift_result (repodata_cache_path R prefix (url_text url))) (\<lambda>cache.
     bindio
       (if url_scheme url = ''file'' then
          bindio (lift_result (ok_or ''invalid file channel URL'' (ch_to_file_path R url))) read_file
        else if offline then read_file cache
        else
          bindio (lift_result (ch_client R)) (\<lambda>_.
          bindio (ch_get R url) (\<lambda>(final_url, b).
          bindio (lift_result (validate_response_url url final_url)) (\<lambda>_.
          ret b)))) (\<lambda>b.
     bindio (lift_result (ch_repodata R channel b)) (\<lambda>records.
     bindio (if url_scheme url \<noteq> ''file'' \<and> \<not> offline then write_cache_file R cache b else ret ()) (\<lambda>_.
     ret records)))))"

definition resolve_candidate ::
    "channel_ext \<Rightarrow> path \<Rightarrow> runtime_header \<Rightarrow> runtime_update_config \<Rightarrow> bool \<Rightarrow> selected_package option io" where
  "resolve_candidate R prefix header update offline =
     bindio (lift_result (candidate_channel R header update)) (\<lambda>(channel, platform).
     bindio (load_repodata R prefix channel platform offline) (\<lambda>records.
     lift_result (select_candidate R header update platform records)))"

section \<open>Probing\<close>

definition parse_probe_repodata :: "channel_ext \<Rightarrow> url \<Rightarrow> bytes \<Rightarrow> repodata_record list result" where
  "parse_probe_repodata R channel b =
     rbind (ch_has_package_map R b) (\<lambda>present.
     if \<not> present then Inl (Invalid ''runtime update repodata has no package map'')
     else ch_repodata R channel b)"

definition probe_select ::
    "channel_ext \<Rightarrow> runtime_header \<Rightarrow> runtime_update_config \<Rightarrow> url \<Rightarrow> string \<Rightarrow> bytes \<Rightarrow> selected_package option result" where
  "probe_select R header update channel platform b =
     rbind (parse_probe_repodata R channel b) (\<lambda>records. select_candidate R header update platform records)"

text \<open>Errors of a probe are answered by \<open>None\<close>.\<close>

definition probe_file :: "channel_ext \<Rightarrow> (bytes \<Rightarrow> selected_package option result) \<Rightarrow> url \<Rightarrow> probe_result io" where
  "probe_file R select url =
     bindio (lift_result (ok_or ''invalid file channel URL'' (ch_to_file_path R url))) (\<lambda>p.
     bindio (read_file p) (\<lambda>b.
     bindio (lift_result (select b)) (\<lambda>candidate.
     ret \<lparr>pb_candidate = candidate, pb_source = Probe_File, pb_cache_age_seconds = None\<rparr>)))"

definition probe_network :: "channel_ext \<Rightarrow> (bytes \<Rightarrow> selected_package option result) \<Rightarrow> url \<Rightarrow> (bytes \<times> selected_package option) io" where
  "probe_network R select url =
     bindio (lift_result (ch_client R)) (\<lambda>_.
     bindio (ch_probe_get R url) (\<lambda>(final_url, b).
     bindio (lift_result (validate_response_url url final_url)) (\<lambda>_.
     bindio (lift_result (select b)) (\<lambda>candidate.
     ret (b, candidate)))))"

definition probe_cache :: "channel_ext \<Rightarrow> (bytes \<Rightarrow> selected_package option result) \<Rightarrow> path \<Rightarrow> probe_result io" where
  "probe_cache R select cache =
     bindio (metadata_follow cache) (\<lambda>_.
     bindio (ch_cache_age R cache) (\<lambda>cache_age_seconds.
     bindio (read_file cache) (\<lambda>b.
     bindio (lift_result (select b)) (\<lambda>candidate.
     ret \<lparr>pb_candidate = candidate, pb_source = Probe_Cache, pb_cache_age_seconds = cache_age_seconds\<rparr>))))"

definition ok_io :: "'a io \<Rightarrow> 'a option io" where
  "ok_io m = bindio (tryio m) (\<lambda>r. ret (case r of Inr x \<Rightarrow> Some x | Inl _ \<Rightarrow> None))"

definition probe_channel ::
    "channel_ext \<Rightarrow> path \<Rightarrow> runtime_header \<Rightarrow> runtime_update_config \<Rightarrow> url \<Rightarrow> string \<Rightarrow> bool \<Rightarrow> probe_result option io" where
  "probe_channel R prefix header update channel platform offline =
     (let select = probe_select R header update channel platform in
      case ch_join_url R channel (platform @ ''/repodata.json'') of
        Inl _ \<Rightarrow> ret None
      | Inr url \<Rightarrow>
          if url_scheme url = ''file'' then ok_io (probe_file R select url)
          else case repodata_cache_path R prefix (url_text url) of
            Inl _ \<Rightarrow> ret None
          | Inr cache \<Rightarrow>
              bindio (if offline then ret None else ok_io (probe_network R select url)) (\<lambda>fetched. case fetched of
                Some (b, candidate) \<Rightarrow>
                  bindio (tryio (try_write_cache_file R cache b)) (\<lambda>_.
                  ret (Some \<lparr>pb_candidate = candidate, pb_source = Probe_Network, pb_cache_age_seconds = None\<rparr>))
              | None \<Rightarrow> ok_io (probe_cache R select cache)))"

definition probe_candidate ::
    "channel_ext \<Rightarrow> path \<Rightarrow> runtime_header \<Rightarrow> runtime_update_config \<Rightarrow> bool \<Rightarrow> probe_result option io" where
  "probe_candidate R prefix header update offline =
     (case candidate_channel R header update of
        Inl _ \<Rightarrow> ret None
      | Inr (channel, platform) \<Rightarrow> probe_channel R prefix header update channel platform offline)"

definition probe :: "channel_ext \<Rightarrow> path \<Rightarrow> runtime_header \<Rightarrow> runtime_update_config \<Rightarrow> probe_response io" where
  "probe R prefix header update =
     (let p = metadata_path_for prefix (h_metadata_file header) in
      bindio (symlink_metadata p) (\<lambda>file_type.
      bindio (ensure (file_type = Is_File) ''runtime metadata is not a regular file'') (\<lambda>_.
      bindio (read_file p) (\<lambda>b.
      bindio (lift_result (meta_parse (ue_json (ch_update R)) b)) (\<lambda>meta.
      bindio (lift_result (validate_metadata_ready_for meta (h_runtime_name header) (h_install_name header) (h_metadata_file header))) (\<lambda>_.
      bindio (lift_result (ok_or ''runtime metadata does not configure executable updates'' (pm_update meta))) (\<lambda>recorded.
      bindio
        (if pm_version meta = h_runtime_version header \<and> xu_build_number recorded = u_build_number update
            \<and> xu_artifact_name recorded = h_artifact_name header \<and> xu_channel recorded = u_channel update
            \<and> xu_package recorded = u_package update
         then probe_candidate R prefix header update (environment_flag R ''CONDA_SHIP_INTERNAL_UPDATE_OFFLINE'')
         else ret None) (\<lambda>result.
      ret \<lparr>pr_check = check_response_new (map_option (\<lambda>r. pb_candidate r \<noteq> None) result) header update recorded
              (Option.bind result pb_candidate),
           pr_source = map_option pb_source result,
           pr_cache_age_seconds = Option.bind result pb_cache_age_seconds\<rparr>))))))))"

section \<open>Download\<close>

fun decimal :: "nat \<Rightarrow> string" where
  "decimal n = (if n < 10 then [char_of (48 + n)] else decimal (n div 10) @ [char_of (48 + n mod 10)])"

declare decimal.simps [simp del]

text \<open>The closure that fills the cache.\<close>

definition fetch_archive :: "channel_ext \<Rightarrow> selected_package \<Rightarrow> bytes \<Rightarrow> bool \<Rightarrow> path \<Rightarrow> unit io" where
  "fetch_archive R candidate expected_sha256 with_client destination =
     (let url = rr_url (sp_record candidate) in
      bindio
        (if url_scheme url = ''file'' then
           bindio (lift_result (ok_or ''invalid file package URL'' (ch_to_file_path R url))) (\<lambda>p.
           ch_extract_file R p destination)
         else if \<not> with_client then fail (Invalid ''offline runtime update requires cached package'')
         else ch_extract_url R url destination expected_sha256) (\<lambda>(total_size, archive_sha256).
      bindio (ensure (total_size = sp_size candidate) ''runtime update package size mismatch'') (\<lambda>_.
      ensure (hex archive_sha256 = sp_sha256 candidate) ''runtime update package SHA-256 mismatch'')))"

definition fetch_package_into :: "channel_ext \<Rightarrow> path \<Rightarrow> selected_package \<Rightarrow> bool \<Rightarrow> path io" where
  "fetch_package_into R cache_root candidate offline =
     (let record = rr_package (sp_record candidate); url = rr_url (sp_record candidate) in
      bindio (lift_result (ok_or ''no SHA-256'' (pk_sha256 record))) (\<lambda>expected_sha256.
      let cache_identity = ch_sha256 R (bytes_of_string (sp_sha256 candidate @ '':'' @ decimal (sp_size candidate)));
          with_client = (\<not> offline \<and> url_scheme url \<noteq> ''file'') in
      bindio (if with_client then lift_result (ch_client R) else ret ()) (\<lambda>_.
      ch_get_or_fetch R (cache_root @ [hex cache_identity]) record url (fetch_archive R candidate expected_sha256 with_client))))"

definition fetch_package :: "channel_ext \<Rightarrow> path \<Rightarrow> selected_package \<Rightarrow> bool \<Rightarrow> path io" where
  "fetch_package R prefix candidate offline =
     bindio (lift_result (update_cache_dir R prefix)) (\<lambda>d.
     fetch_package_into R (d @ [''packages'']) candidate offline)"

definition verify_file :: "channel_ext \<Rightarrow> path \<Rightarrow> string \<Rightarrow> nat \<Rightarrow> unit io" where
  "verify_file R p digest expected_size =
     bindio (read_file p) (\<lambda>b.
     bindio (ensure (length b = expected_size) ''size mismatch'') (\<lambda>_.
     ensure (hex (ch_sha256 R b) = digest) ''SHA-256 mismatch''))"

section \<open>The extracted package\<close>

definition index_matches :: "channel_ext \<Rightarrow> string \<Rightarrow> index_json \<Rightarrow> package_record \<Rightarrow> bool" where
  "index_matches R expected_package index record =
     (ij_name index = expected_package \<and> ij_name index = pk_name record
      \<and> ch_version_le R (ij_version index) (pk_version record) \<and> ch_version_le R (pk_version record) (ij_version index)
      \<and> ij_build index = pk_build record \<and> ij_build_number index = pk_build_number record
      \<and> ij_subdir index = Some (ch_platform R) \<and> pk_subdir record = ch_platform R
      \<and> ij_depends index = [] \<and> pk_depends record = [])"

definition normal_component :: "component \<Rightarrow> bool" where
  "normal_component c = (case c of Normal_Component _ \<Rightarrow> True | _ \<Rightarrow> False)"

definition payload_entry_valid :: "paths_json \<Rightarrow> paths_entry \<Rightarrow> bool" where
  "payload_entry_valid paths entry =
     (pj_version paths = 1 \<and> pt_type entry = Hard_Link_Path \<and> \<not> pt_prefix_placeholder entry
      \<and> pt_relative_path entry \<noteq> [] \<and> list_all normal_component (path_components (pt_relative_path entry)))"

definition stamp_matches :: "channel_ext \<Rightarrow> runtime_header \<Rightarrow> index_json \<Rightarrow> runtime_header \<Rightarrow> bool" where
  "stamp_matches R current index stamped =
     (h_runtime_name stamped = h_runtime_name current \<and> h_artifact_name stamped = h_artifact_name current
      \<and> h_runtime_version stamped = ij_version index
      \<and> (h_artifact_layout stamped = ''online'' \<or> h_artifact_layout stamped = ''embedded'')
      \<and> h_platform stamped = ch_platform R)"

definition stamped_update_matches :: "runtime_update_config \<Rightarrow> index_json \<Rightarrow> runtime_update_config \<Rightarrow> bool" where
  "stamped_update_matches update index stamped_update =
     (u_channel stamped_update = u_channel update \<and> u_package stamped_update = u_package update
      \<and> supports_direct_update stamped_update \<and> u_build_number stamped_update = ij_build_number index)"

definition read_from_path :: "channel_ext \<Rightarrow> path \<Rightarrow> runtime_data option io" where
  "read_from_path R p =
     bindio (read_file p) (\<lambda>b.
     lift_result (read_from_file (ue_codec (ch_update R)) (ue_pe (ch_update R)) (ue_macho (ch_update R)) p b))"

definition validate_payload ::
    "channel_ext \<Rightarrow> path \<Rightarrow> runtime_header \<Rightarrow> runtime_update_config \<Rightarrow> index_json \<Rightarrow> paths_json \<Rightarrow> paths_entry \<Rightarrow> path io" where
  "validate_payload R extracted current update index paths payload_entry =
     bindio (ensure (payload_entry_valid paths payload_entry) ''runtime update package has invalid payload metadata'') (\<lambda>_.
     bindio (lift_result (ok_or ''runtime update payload has no SHA-256'' (pt_sha256 payload_entry))) (\<lambda>payload_sha256.
     bindio (lift_result (ok_or ''runtime update payload has no size'' (pt_size_in_bytes payload_entry))) (\<lambda>payload_size.
     let payload = join extracted (pt_relative_path payload_entry) in
     bindio (verify_file R payload (hex payload_sha256) payload_size) (\<lambda>_.
     bindio (read_from_path R payload) (\<lambda>data.
     bindio (lift_result (ok_or ''runtime update executable is not stamped'' data)) (\<lambda>stamped.
     bindio (ensure (stamp_matches R current index (rd_header stamped))
       ''runtime update executable stamp does not match its package'') (\<lambda>_.
     bindio (lift_result (ok_or ''runtime update executable has no update configuration'' (h_update (rd_header stamped)))) (\<lambda>stamped_update.
     bindio (lift_result (validate_update_config R stamped_update)) (\<lambda>_.
     bindio (ensure (stamped_update_matches update index stamped_update)
       ''runtime update executable configuration does not match its package'') (\<lambda>_.
     ret payload))))))))))"

definition validate_extracted_candidate ::
    "channel_ext \<Rightarrow> path \<Rightarrow> runtime_header \<Rightarrow> runtime_update_config \<Rightarrow> selected_package \<Rightarrow> path io" where
  "validate_extracted_candidate R extracted current update candidate =
     bindio (ch_index_json R extracted) (\<lambda>index.
     bindio (lift_result (ch_package_name R (u_package update))) (\<lambda>expected_package.
     bindio (ensure (index_matches R expected_package index (rr_package (sp_record candidate)))
       ''runtime update package identity does not match the installed runtime'') (\<lambda>_.
     bindio (ch_paths_json R extracted) (\<lambda>paths.
     case pj_paths paths of
       [payload_entry] \<Rightarrow> validate_payload R extracted current update index paths payload_entry
     | _ \<Rightarrow> fail (Invalid ''runtime update package must contain exactly one payload'')))))"

section \<open>The running executable\<close>

definition initial_executable_path :: "channel_ext \<Rightarrow> update_ownership \<Rightarrow> path_buf io" where
  "initial_executable_path R ownership =
     bindio (lift_result (ch_invocation_path R)) (\<lambda>invoked.
     if ownership \<noteq> Direct then ret invoked
     else bindio (symlink_metadata (snd invoked)) (\<lambda>kind.
       if kind \<noteq> Is_Symlink then ret invoked
       else bindio (canonicalize (snd invoked)) (\<lambda>p. ret (True, p))))"

definition recorded_installation :: "runtime_update_config \<Rightarrow> update_metadata option \<Rightarrow> update_ownership \<times> string option \<times> string option" where
  "recorded_installation update previous =
     ((case previous of Some p \<Rightarrow> xu_ownership p | None \<Rightarrow> initial_ownership update), None,
      (case Option.bind previous xu_instruction of Some i \<Rightarrow> Some i | None \<Rightarrow> initial_instruction update))"

definition has_recorded_executable :: "update_metadata \<Rightarrow> bool" where
  "has_recorded_executable previous = (xu_installation previous \<noteq> None \<and> xu_executable previous \<noteq> empty_path)"

definition reconcile_current :: "channel_ext \<Rightarrow> path \<Rightarrow> unit io" where
  "reconcile_current R prefix =
     (let E = ch_update R; header = ch_header R in
      case h_update header of
        None \<Rightarrow> ret ()
      | Some update \<Rightarrow>
          bindio (read_metadata_for (ue_json E) prefix (h_metadata_file header)) (\<lambda>meta.
          bindio
            (case pm_update meta of
               Some previous \<Rightarrow>
                 if has_recorded_executable previous
                 then ret (xu_executable previous, xu_ownership previous, xu_installation previous, xu_instruction previous)
                 else bindio (initial_executable_path R (fst (recorded_installation update (Some previous)))) (\<lambda>p.
                   ret (p, recorded_installation update (Some previous)))
             | None \<Rightarrow> bindio (initial_executable_path R (fst (recorded_installation update None))) (\<lambda>p.
                   ret (p, recorded_installation update None)))
            (\<lambda>(executable, ownership, installation, instruction).
          bindio (verify_running_executable E executable) (\<lambda>_.
          bindio (sha256_hex E (snd executable)) (\<lambda>digest.
          bindio (reconcile_current_executable E prefix (h_metadata_file header)
            \<lparr>xu_executable = executable, xu_ownership = ownership, xu_installation = installation,
             xu_artifact_name = h_artifact_name header, xu_channel = u_channel update, xu_package = u_package update,
             xu_build_number = u_build_number update, xu_sha256 = digest, xu_instruction = instruction, xu_pending = None\<rparr>
            (h_runtime_version header)) (\<lambda>_.
          ret ()))))))"

definition initialize_current :: "channel_ext \<Rightarrow> path \<Rightarrow> unit io" where
  "initialize_current R prefix =
     (let E = ch_update R; header = ch_header R in
      case h_update header of
        None \<Rightarrow> ret ()
      | Some update \<Rightarrow>
          bindio (ensure_update_lock prefix (h_metadata_file header)) (\<lambda>_.
          bindio (read_metadata_for (ue_json E) prefix (h_metadata_file header)) (\<lambda>meta.
          case pm_update meta of
            None \<Rightarrow> reconcile_current R prefix
          | Some previous \<Rightarrow>
              if xu_pending previous \<noteq> None then ret ()
              else if xu_artifact_name previous \<noteq> h_artifact_name header \<or> xu_channel previous \<noteq> u_channel update
                \<or> xu_package previous \<noteq> u_package update \<or> xu_build_number previous \<noteq> u_build_number update
                \<or> pm_version meta \<noteq> h_runtime_version header
              then reconcile_current R prefix
              else ret ())))"

text \<open>Named \<open>recover_pending\<close> in \<open>runtime_update.rs\<close>.\<close>

definition recover_pending_update :: "bool \<Rightarrow> channel_ext \<Rightarrow> path \<Rightarrow> bool io" where
  "recover_pending_update windows R prefix =
     (if h_update (ch_header R) = None then ret False
      else bindio (recover_pending windows (ch_update R) prefix (h_metadata_file (ch_header R))) (\<lambda>outcome.
        if outcome = Update_None then ret False
        else if windows \<and> outcome = Update_Replacement_Pending
        then fail (Invalid ''runtime executable update is waiting for running processes to exit, retry the command'')
        else ret True))"

section \<open>The helper\<close>

text \<open>What \<open>check\<close> and \<open>stage\<close> do before the metadata is read.\<close>

definition prepare_check :: "bool \<Rightarrow> channel_ext \<Rightarrow> path \<Rightarrow> unit io" where
  "prepare_check windows R prefix =
     bindio (discard_unapproved windows (ch_update R) prefix (h_metadata_file (ch_header R))) (\<lambda>outcome.
     bindio (ensure (outcome = Update_None) ''runtime executable update recovery completed, retry the command'') (\<lambda>_.
     initialize_current R prefix))"

definition prepare_stage :: "bool \<Rightarrow> channel_ext \<Rightarrow> path \<Rightarrow> unit io" where
  "prepare_stage windows R prefix =
     bindio (discard_unapproved windows (ch_update R) prefix (h_metadata_file (ch_header R))) (\<lambda>outcome.
     bindio (ensure (outcome = Update_None \<or> outcome = Update_Discarded_Staged)
       ''runtime executable update is pending or recovery completed, retry the command'') (\<lambda>_.
     initialize_current R prefix))"

definition run_check :: "channel_ext \<Rightarrow> path \<Rightarrow> runtime_update_config \<Rightarrow> prefix_metadata \<Rightarrow> bool \<Rightarrow> unit io" where
  "run_check R prefix update meta offline =
     bindio (lift_result (ok_or ''runtime metadata does not configure executable updates'' (pm_update meta))) (\<lambda>recorded.
     bindio (resolve_candidate R prefix (ch_header R) update offline) (\<lambda>candidate.
     ch_respond R (Checked (check_response_new (candidate \<noteq> None) (ch_header R) update recorded candidate))))"

definition run_stage :: "bool \<Rightarrow> channel_ext \<Rightarrow> path \<Rightarrow> runtime_update_config \<Rightarrow> prefix_metadata \<Rightarrow> bool \<Rightarrow> unit io" where
  "run_stage windows R prefix update meta offline =
     (let header = ch_header R in
      bindio (lift_result (ok_or ''runtime metadata does not configure executable updates'' (pm_update meta))) (\<lambda>recorded.
      bindio (ensure (xu_ownership recorded = Direct) ''this runtime executable is managed externally'') (\<lambda>_.
      bindio (lift_result (selected_candidate_digest R)) (\<lambda>selected_sha256.
      bindio (resolve_candidate R prefix header update offline) (\<lambda>resolved.
      bindio (lift_result (require_selected_candidate resolved selected_sha256)) (\<lambda>candidate.
      bindio (fetch_package R prefix candidate offline) (\<lambda>extracted.
      bindio (validate_extracted_candidate R extracted header update candidate) (\<lambda>payload.
      bindio (stage_candidate windows (ch_update R) prefix (h_metadata_file header) payload
        (pk_version (rr_package (sp_record candidate))) (pk_build_number (rr_package (sp_record candidate)))) (\<lambda>_.
      ch_respond R Staged_Response)))))))))"

definition run_apply :: "bool \<Rightarrow> channel_ext \<Rightarrow> path \<Rightarrow> unit io" where
  "run_apply windows R prefix =
     (let E = ch_update R; mf = h_metadata_file (ch_header R) in
      bindio (mark_pending_ready windows E prefix mf) (\<lambda>marked.
      bindio (ensure (marked \<noteq> Update_None) ''no staged runtime executable update is available to apply'') (\<lambda>_.
      bindio (apply_pending windows E prefix mf) (\<lambda>outcome.
      if outcome = Update_Applied \<or> outcome = Update_Cleanup_Pending then ch_respond R Applied_Response
      else if windows \<and> outcome = Update_Replacement_Pending then ch_respond R Replacement_Pending_Response
      else if outcome = Update_Restored_Previous
      then fail (Invalid ''the selected runtime executable could not be installed and the previous executable was restored'')
      else fail (Invalid ''unexpected runtime executable update outcome'')))))"

definition run_record_installation :: "channel_ext \<Rightarrow> path \<Rightarrow> unit io" where
  "run_record_installation R prefix =
     bindio (lift_result (requested_ownership R)) (\<lambda>ownership.
     bindio (lift_result (required_environment R ''CONDA_SHIP_INTERNAL_UPDATE_INSTALLATION'')) (\<lambda>installation.
     bindio (case ch_env_path R ''CONDA_SHIP_INTERNAL_UPDATE_EXECUTABLE'' of
         Some p \<Rightarrow> ret p | None \<Rightarrow> lift_result (ch_invocation_path R)) (\<lambda>executable.
     bindio (lift_result (optional_environment R ''CONDA_SHIP_INTERNAL_UPDATE_INSTRUCTION'')) (\<lambda>instruction.
     bindio (record_installation (ch_update R) prefix (h_metadata_file (ch_header R)) executable ownership installation instruction) (\<lambda>_.
     ch_respond R Recorded_Response)))))"

definition dispatch_action ::
    "nat \<Rightarrow> bool \<Rightarrow> channel_ext \<Rightarrow> helper_action option \<Rightarrow> path \<Rightarrow> runtime_update_config \<Rightarrow> prefix_metadata \<Rightarrow> unit io" where
  "dispatch_action n windows R action prefix update meta =
     (let offline = environment_flag R ''CONDA_SHIP_INTERNAL_UPDATE_OFFLINE'' in
      case action of
        Some Windows_Replace_Action \<Rightarrow> run_windows_worker n (ch_update R) prefix (h_metadata_file (ch_header R))
      | Some Check_Action \<Rightarrow> run_check R prefix update meta offline
      | Some Stage_Action \<Rightarrow> run_stage windows R prefix update meta offline
      | Some Apply_Action \<Rightarrow> run_apply windows R prefix
      | Some Record_Installation_Action \<Rightarrow> run_record_installation R prefix
      | _ \<Rightarrow> fail (Invalid ''unknown internal runtime update action''))"

text \<open>\<open>n\<close> bounds the attempts of the Windows worker.\<close>

definition run_internal_helper :: "nat \<Rightarrow> bool \<Rightarrow> channel_ext \<Rightarrow> string \<Rightarrow> path \<Rightarrow> unit io" where
  "run_internal_helper n windows R action_name prefix =
     (let E = ch_update R; header = ch_header R; mf = h_metadata_file header; action = parse_action windows action_name in
      bindio (lift_result (ok_or ''this runtime has no executable update configuration'' (h_update header))) (\<lambda>update.
      if action = Some Probe_Action then
        bindio (probe R prefix header update) (\<lambda>response. ch_respond R (Probed response))
      else
        bindio
          (if action = Some Check_Action \<or> action = Some Stage_Action \<or> action = Some Apply_Action
           then bindio (update_lock_is_held E prefix mf) (\<lambda>held.
             ensure held ''runtime update coordination lock is not held by the caller'')
           else ret ()) (\<lambda>_.
        bindio (if action = Some Check_Action then prepare_check windows R prefix else ret ()) (\<lambda>_.
        bindio (if action = Some Stage_Action then prepare_stage windows R prefix else ret ()) (\<lambda>_.
        bindio (read_metadata_for (ue_json E) prefix mf) (\<lambda>meta.
        bindio (lift_result (validate_metadata_ready_for meta (h_runtime_name header) (h_install_name header) mf)) (\<lambda>_.
        dispatch_action n windows R action prefix update meta)))))))"

text \<open>Opening a lock file touches that file only.\<close>

lemma stays_open_or_create [stays_intros]: "p \<in> P \<Longrightarrow> stays (open_or_create p) P"
  unfolding stays_def open_or_create_def by (auto intro!: wp_atomic_op split: option.splits node.splits if_splits)

end
