(* ===== verification/Artifact_Config.thy ===== *)
theory Artifact_Config
  imports Ship_Project Runtime_Update
begin

text \<open>
  The settings of a build (\<open>src/bin/cs/artifact.rs\<close>): the options of the command line over the manifest, their
  validation, the names of the artifacts, and the header that is stamped. Parsing URLs and package names is
  a parameter; a digest is \<open>digest\<close>.
\<close>

section \<open>Layouts and defaults\<close>

fun layout_str :: "bundle_layout \<Rightarrow> string" where
  "layout_str Online = ''online''"
| "layout_str External_Bundle = ''external''"
| "layout_str Embedded = ''embedded''"

definition needs_bundle :: "bundle_layout \<Rightarrow> bool" where
  "needs_bundle layout = (layout = External_Bundle \<or> layout = Embedded)"

text \<open>\<open>Option::or\<close>.\<close>

definition or_else :: "'a option \<Rightarrow> 'a option \<Rightarrow> 'a option" where
  "or_else a b = (case a of Some x \<Rightarrow> Some x | None \<Rightarrow> b)"

definition unwrap_or :: "'a option \<Rightarrow> 'a \<Rightarrow> 'a" where
  "unwrap_or a d = (case a of Some x \<Rightarrow> x | None \<Rightarrow> d)"

definition resolve_runtime_name :: "string option \<Rightarrow> ship_config \<Rightarrow> string result" where
  "resolve_runtime_name runtime_name config = ok_or ''runtime name is required'' (or_else runtime_name (sc_runtime_name config))"

definition resolve_delegate_executable :: "string option \<Rightarrow> ship_config \<Rightarrow> string result" where
  "resolve_delegate_executable delegate config =
     ok_or ''delegate executable is required'' (or_else delegate (sc_delegate_executable config))"

definition resolve_artifact_layout :: "bundle_layout option \<Rightarrow> ship_config \<Rightarrow> bundle_layout" where
  "resolve_artifact_layout layout config = unwrap_or (or_else layout (sc_artifact_layout config)) Online"

definition resolve_artifact_name :: "string \<Rightarrow> string option \<Rightarrow> ship_config \<Rightarrow> string" where
  "resolve_artifact_name runtime artifact_name config = unwrap_or (or_else artifact_name (sc_artifact_name config)) runtime"

definition default_docs_url :: string where
  "default_docs_url = ''https://conda-incubator.github.io/conda-ship/''"

section \<open>Validation\<close>

definition component_char :: "char \<Rightarrow> bool" where
  "component_char c = (is_ascii_alphanumeric c \<or> c = CHR ''.'' \<or> c = CHR ''_'' \<or> c = CHR ''-'')"

definition validate_artifact_component :: "string \<Rightarrow> unit result" where
  "validate_artifact_component value =
     (if value = [] then Inl (Invalid ''must not be empty'')
      else if value = ''.'' \<or> value = ''..'' then Inl (Invalid ''must not be . or ..'')
      else if \<not> is_ascii_alphanumeric (hd value) then Inl (Invalid ''must start with an ASCII letter or digit'')
      else if \<not> list_all component_char value
      then Inl (Invalid ''may only contain ASCII letters, digits, dots, dashes, and underscores'')
      else Inr ())"

lemma component_char_plain: "component_char c \<Longrightarrow> c \<noteq> CHR ''/'' \<and> c \<noteq> CHR 0x5C"
  using alphanumeric_not_separator by (auto simp: component_char_def)

interpretation artifact_component: component_validator "\<lambda>s. validate_artifact_component s = Inr ()"
  by unfold_locales
    (auto simp: validate_artifact_component_def plain_component_def list_all_iff dest: component_char_plain split: if_splits)

definition version_char :: "char \<Rightarrow> bool" where
  "version_char c = (is_ascii_alphanumeric c \<or> c \<in> {CHR ''.'', CHR ''_'', CHR ''-'', CHR ''+'', CHR ''!''})"

definition validate_runtime_version :: "string \<Rightarrow> unit result" where
  "validate_runtime_version version =
     (if version = [] then Inl (Invalid ''runtime version must not be empty'')
      else if \<not> is_ascii_alphanumeric (hd version) then Inl (Invalid ''runtime version must start with an ASCII letter or digit'')
      else if \<not> list_all version_char version then Inl (Invalid ''runtime version contains other characters'')
      else Inr ())"

text \<open>\<open>char::is_whitespace\<close>, on the UTF-8 encodings.\<close>

definition whitespace_at :: "string \<Rightarrow> bool" where
  "whitespace_at s = (s \<noteq> [] \<and> (let c = code (hd s); d = code (s ! 1); e = code (s ! 2) in
     (9 \<le> c \<and> c \<le> 13) \<or> c = 32
     \<or> (2 \<le> length s \<and> c = 194 \<and> (d = 133 \<or> d = 160))
     \<or> (3 \<le> length s \<and> ((c = 225 \<and> d = 154 \<and> e = 128)
          \<or> (c = 226 \<and> d = 128 \<and> ((128 \<le> e \<and> e \<le> 138) \<or> e = 168 \<or> e = 169 \<or> e = 175))
          \<or> (c = 226 \<and> d = 129 \<and> e = 159)
          \<or> (c = 227 \<and> d = 128 \<and> e = 128)))))"

fun has_whitespace :: "string \<Rightarrow> bool" where
  "has_whitespace [] = False"
| "has_whitespace (c # cs) = (whitespace_at (c # cs) \<or> has_whitespace cs)"

definition is_ascii_control :: "char \<Rightarrow> bool" where
  "is_ascii_control c = (code c < 32 \<or> code c = 127)"

definition validate_docs_url :: "string \<Rightarrow> unit result" where
  "validate_docs_url docs_url =
     (if docs_url = [] then Inl (Invalid ''docs URL must not be empty'')
      else if \<not> (starts_with ''https://'' docs_url \<or> starts_with ''http://'' docs_url)
      then Inl (Invalid ''docs URL must start with https:// or http://'')
      else if list_ex is_ascii_control docs_url \<or> has_whitespace docs_url
      then Inl (Invalid ''docs URL must not contain whitespace or control characters'')
      else Inr ())"

definition validate_installer_config :: "runtime_stamp_config \<Rightarrow> unit result" where
  "validate_installer_config config =
     (case rs_installer config of Some installer \<Rightarrow> validate_artifact_component installer | None \<Rightarrow> Inr ())"

text \<open>The label and the triple of the target are validated first of all.\<close>

definition validate_optional :: "(string \<Rightarrow> unit result) \<Rightarrow> string option \<Rightarrow> unit result" where
  "validate_optional validate v = (case v of Some x \<Rightarrow> validate x | None \<Rightarrow> Inr ())"

section \<open>Overrides\<close>

definition missing_runtime_version :: "bool \<Rightarrow> err" where
  "missing_runtime_version project_dynamic_version =
     Invalid (if project_dynamic_version
       then ''runtime version is required; [project] declares a dynamic version but project metadata resolution is not enabled''
       else ''runtime version is required'')"

definition apply_runtime_metadata_overrides ::
    "runtime_stamp_config \<Rightarrow> string option \<Rightarrow> string option \<Rightarrow> string option \<Rightarrow> runtime_stamp_config result" where
  "apply_runtime_metadata_overrides config runtime_version docs_url installer =
     rbind (case runtime_version of
         Some version \<Rightarrow> rbind (validate_runtime_version version) (\<lambda>_.
           Inr (config\<lparr>rs_runtime_version := Some version, rs_runtime_version_source := None\<rparr>))
       | None \<Rightarrow>
           if rs_runtime_version config = None
           then Inl (case rs_runtime_version_source config of
                Some Project_Metadata \<Rightarrow> Invalid ''runtime version from project metadata must be resolved before invoking cs''
              | None \<Rightarrow> missing_runtime_version (rs_project_dynamic_version config))
           else Inr config) (\<lambda>config.
     rbind (validate_optional validate_runtime_version (rs_runtime_version config)) (\<lambda>_.
     rbind (case docs_url of
         Some url \<Rightarrow> rbind (validate_docs_url url) (\<lambda>_. Inr (config\<lparr>rs_docs_url := Some url\<rparr>)) | None \<Rightarrow> Inr config) (\<lambda>config.
     rbind (validate_optional validate_docs_url (rs_docs_url config)) (\<lambda>_.
     rbind (case installer of
         Some i \<Rightarrow> rbind (validate_artifact_component i) (\<lambda>_. Inr (config\<lparr>rs_installer := Some i\<rparr>)) | None \<Rightarrow> Inr config) (\<lambda>config.
     rbind (validate_installer_config config) (\<lambda>_. Inr config))))))"

definition MAX_CONTENT_ADDRESSED_INSTALL_NAME_LEN :: nat where
  "MAX_CONTENT_ADDRESSED_INSTALL_NAME_LEN = 128"

definition content_addressed_name :: "(bytes \<Rightarrow> bytes) \<Rightarrow> string \<Rightarrow> string \<Rightarrow> string \<Rightarrow> string" where
  "content_addressed_name digest base version lock_content =
     base @ ''-'' @ version @ ''-'' @ hex (take 8 (digest (bytes_of_string lock_content)))"

definition apply_install_name_config ::
    "(bytes \<Rightarrow> bytes) \<Rightarrow> runtime_stamp_config \<Rightarrow> install_name_config option \<Rightarrow> string option \<Rightarrow> string \<Rightarrow> string
       \<Rightarrow> (runtime_stamp_config \<times> install_name_source option) result" where
  "apply_install_name_config digest config configured override_name runtime lock_content =
     rbind (case override_name of
         Some install_name \<Rightarrow> Inr (install_name, None)
       | None \<Rightarrow> (case configured of
           Some (Install_Name_Value install_name) \<Rightarrow> Inr (install_name, None)
         | None \<Rightarrow> Inr (runtime, None)
         | Some (Install_Name_Source source base) \<Rightarrow>
             (case rs_runtime_version config of
                None \<Rightarrow> Inl (missing_runtime_version (rs_project_dynamic_version config))
              | Some version \<Rightarrow>
                  let install_name = content_addressed_name digest (unwrap_or base runtime) version lock_content in
                  if length install_name > MAX_CONTENT_ADDRESSED_INSTALL_NAME_LEN
                  then Inl (Invalid ''content-addressed install name must be at most 128 characters'')
                  else Inr (install_name, Some source)))) (\<lambda>(install_name, source).
     rbind (validate_artifact_component install_name) (\<lambda>_.
     Inr (config\<lparr>rs_install_name := Some install_name\<rparr>, source)))"

definition validate_build_update_config ::
    "(string \<Rightarrow> url result) \<Rightarrow> (string \<Rightarrow> string result) \<Rightarrow> runtime_stamp_config \<Rightarrow> bundle_layout \<Rightarrow> install_name_source option
       \<Rightarrow> unit result" where
  "validate_build_update_config parse_url parse_package config layout install_name_source =
     (case rs_update config of
        None \<Rightarrow> Inr ()
      | Some update \<Rightarrow>
          if install_name_source \<noteq> None then Inl (Invalid ''runtime updates require a stable install name'')
          else if layout = External_Bundle
          then Inl (Invalid ''[tool.conda-ship.update] is supported only for online and embedded artifacts'')
          else if all_whitespace (u_channel update) then Inl (Invalid ''runtime update channel must not be empty'')
          else rbind (parse_url (u_channel update)) (\<lambda>channel.
            if url_scheme channel \<noteq> ''https'' \<and> url_scheme channel \<noteq> ''file''
            then Inl (Invalid ''runtime update channel must use https:// or file://'')
            else rbind (validate_artifact_url parse_url (u_channel update)) (\<lambda>_.
              if \<not> is_ok (parse_package (u_package update)) then Inl (Invalid ''invalid runtime update package name'')
              else if has_compatibility_policy update
              then Inl (Invalid ''runtime update ownership and instruction are installed state, not build settings'')
              else Inr ())))"

section \<open>The settings of a build\<close>

record build_options =
  bo_artifact_layout :: "bundle_layout option"
  bo_runtime_name :: "string option"
  bo_artifact_name :: "string option"
  bo_delegate_executable :: "string option"
  bo_runtime_version :: "string option"
  bo_target_label :: "string option"
  bo_platform :: "string option"
  bo_target :: "string option"
  bo_template :: "path_buf option"
  bo_docs_url :: "string option"
  bo_install_scheme :: "install_scheme option"
  bo_install_name :: "string option"
  bo_installer :: "string option"
  bo_out_dir :: path_buf
  bo_root :: "path_buf option"

record build_settings =
  bs_runtime :: string
  bs_artifact_name :: string
  bs_layout :: bundle_layout
  bs_config :: runtime_stamp_config

record settings_ext =
  st_digest :: "bytes \<Rightarrow> bytes"
  st_url :: "string \<Rightarrow> url result"
  st_package :: "string \<Rightarrow> string result"

definition resolve_settings ::
    "settings_ext \<Rightarrow> build_options \<Rightarrow> ship_config \<Rightarrow> runtime_stamp_config \<Rightarrow> string \<Rightarrow> build_settings result" where
  "resolve_settings S opts manifest config lock_content =
     rbind (resolve_runtime_name (bo_runtime_name opts) manifest) (\<lambda>runtime.
     rbind (resolve_delegate_executable (bo_delegate_executable opts) manifest) (\<lambda>delegate.
     let layout = resolve_artifact_layout (bo_artifact_layout opts) manifest;
         artifact_name = resolve_artifact_name runtime (bo_artifact_name opts) manifest in
     rbind (validate_artifact_component runtime) (\<lambda>_.
     rbind (validate_artifact_component artifact_name) (\<lambda>_.
     rbind (validate_artifact_component delegate) (\<lambda>_.
     rbind (apply_runtime_metadata_overrides (config\<lparr>rs_delegate_executable := Some delegate\<rparr>)
       (bo_runtime_version opts) (bo_docs_url opts) (bo_installer opts)) (\<lambda>config.
     rbind (apply_install_name_config (st_digest S) config (sc_install_name manifest) (bo_install_name opts) runtime lock_content)
       (\<lambda>(config, install_name_source).
     rbind (validate_build_update_config (st_url S) (st_package S) config layout install_name_source) (\<lambda>_.
     Inr \<lparr>bs_runtime = runtime, bs_artifact_name = artifact_name, bs_layout = layout,
          bs_config = config\<lparr>rs_install_scheme := or_else (bo_install_scheme opts) (rs_install_scheme config)\<rparr>\<rparr>))))))))"

text \<open>The header of \<open>stamp_runtime_data\<close>.\<close>

definition stamp_header :: "build_settings \<Rightarrow> string \<Rightarrow> string \<Rightarrow> runtime_header result" where
  "stamp_header settings platform lock_content =
     (let config = bs_config settings; runtime = bs_runtime settings in
      rbind (ok_or ''delegate executable has not been resolved before stamping'' (rs_delegate_executable config)) (\<lambda>delegate.
      case rs_runtime_version config of
        None \<Rightarrow> Inl (missing_runtime_version (rs_project_dynamic_version config))
      | Some version \<Rightarrow> Inr
         \<lparr>h_schema_version = 1, h_artifact_name = bs_artifact_name settings, h_runtime_name = runtime, h_runtime_version = version,
          h_artifact_layout = layout_str (bs_layout settings), h_platform = platform,
          h_embedded_artifact_name = bs_artifact_name settings, h_delegate_executable = delegate,
          h_install_scheme = unwrap_or (rs_install_scheme config) Conda_Home,
          h_install_name = unwrap_or (rs_install_name config) runtime, h_metadata_file = ''.'' @ runtime @ ''.json'',
          h_bundle_env_var = runtime_env_var runtime ''BUNDLE'', h_offline_env_var = runtime_env_var runtime ''OFFLINE'',
          h_docs_url = unwrap_or (rs_docs_url config) default_docs_url, h_installer = rs_installer config,
          h_update = rs_update config,
          h_runtime_config = \<lparr>rc_channels = rs_channels config, rc_packages = rs_packages config, rc_condarc = rs_condarc config,
            rc_freeze_base = rs_freeze_base config\<rparr>,
          h_runtime_lock = lock_content\<rparr>))"

section \<open>Artifact names\<close>

fun contains :: "string \<Rightarrow> string \<Rightarrow> bool" where
  "contains pat [] = (pat = [])"
| "contains pat (c # cs) = (starts_with pat (c # cs) \<or> contains pat cs)"

definition target_is_windows :: "bool \<Rightarrow> string option \<Rightarrow> bool" where
  "target_is_windows windows target = (case target of Some t \<Rightarrow> contains ''windows'' t | None \<Rightarrow> windows)"

definition artifact_stem :: "string \<Rightarrow> string option \<Rightarrow> string" where
  "artifact_stem name target_label = (case target_label of Some label \<Rightarrow> name @ ''-'' @ label | None \<Rightarrow> name)"

definition binary_filename :: "bool \<Rightarrow> string \<Rightarrow> string option \<Rightarrow> string" where
  "binary_filename windows stem target = (if target_is_windows windows target then stem @ ''.exe'' else stem)"

record planned_paths =
  pp_stem :: string
  pp_binary :: path
  pp_bundle :: "path option"
  pp_info :: path
  pp_checksums :: path
  pp_lock :: path
  pp_package_list :: path
  pp_sbom :: path

definition bundle_path :: "path \<Rightarrow> string \<Rightarrow> path" where
  "bundle_path out_dir stem = out_dir @ [stem @ ''.bundle.tar.zst'']"

definition planned_artifact_paths :: "bool \<Rightarrow> path \<Rightarrow> string \<Rightarrow> bundle_layout \<Rightarrow> string option \<Rightarrow> string option \<Rightarrow> planned_paths" where
  "planned_artifact_paths windows out_dir name layout target_label target =
     (let stem = artifact_stem name target_label in
      \<lparr>pp_stem = stem, pp_binary = out_dir @ [binary_filename windows stem target],
       pp_bundle = (if layout = External_Bundle then Some (bundle_path out_dir stem) else None),
       pp_info = out_dir @ [stem @ ''.info.json''], pp_checksums = out_dir @ [stem @ ''.sha256''],
       pp_lock = out_dir @ [stem @ ''.runtime.lock''], pp_package_list = out_dir @ [stem @ ''.packages.txt''],
       pp_sbom = out_dir @ [stem @ ''.cdx.json'']\<rparr>)"

definition resolve_out_dir :: "path \<Rightarrow> path_buf \<Rightarrow> path" where
  "resolve_out_dir root out_dir = (if fst out_dir then snd out_dir else root @ snd out_dir)"

definition generated_runtime_lock_path :: "path \<Rightarrow> path" where
  "generated_runtime_lock_path root = root @ [''target'', ''conda-ship'', ''runtime.lock'']"

definition generated_bundle_path :: "path \<Rightarrow> path" where
  "generated_bundle_path root = root @ [''target'', ''conda-ship'', ''bundle.tar.zst'']"

definition generated_bundle_dir :: "path \<Rightarrow> path" where
  "generated_bundle_dir root = root @ [''target'', ''conda-ship'', ''bundle'']"


section \<open>Hexadecimal digits\<close>

lemma hex_byte_inj: "hex_byte a = hex_byte b \<Longrightarrow> a = b"
proof -
  assume same: "hex_byte a = hex_byte b"
  have digits: "distinct hex_digits" "length hex_digits = 16" by code_simp+
  have less: "unat x div 16 < 16" "unat x mod 16 < 16" for x :: byte
    using unat_byte_less [of x] by (simp_all add: less_mult_imp_div_less)
  have "unat a div 16 = unat b div 16" "unat a mod 16 = unat b mod 16"
    using same less [of a] less [of b] by (simp_all add: hex_byte_def nth_eq_iff_index_eq [OF digits(1)] digits(2))
  then show "a = b" by (metis div_mult_mod_eq word_unat_eq_iff)
qed

lemma hex_inj: "hex a = hex b \<longleftrightarrow> a = b"
proof
  show "hex a = hex b \<Longrightarrow> a = b"
  proof (induction a arbitrary: b)
    case (Cons x a)
    then obtain y b' where b: "b = y # b'" by (cases b) (auto simp: hex_def hex_byte_def)
    with Cons.prems have "hex_byte x @ hex a = hex_byte y @ hex b'" by (simp add: hex_def)
    moreover have "length (hex_byte x) = length (hex_byte y)" by (simp add: hex_byte_def)
    ultimately have "hex_byte x = hex_byte y" "hex a = hex b'" by simp_all
    with Cons.IH b show ?case by (auto dest: hex_byte_inj)
  next
    case Nil
    then show ?case by (cases b) (auto simp: hex_def hex_byte_def)
  qed
qed simp

section \<open>What validated settings guarantee\<close>

text \<open>The test for \<open>.\<close> and \<open>..\<close> never decides: both fail the test of the first character.\<close>

definition safe_name :: "string \<Rightarrow> bool" where
  "safe_name s \<longleftrightarrow> s \<noteq> [] \<and> is_ascii_alphanumeric (hd s) \<and> list_all component_char s"

lemma validate_artifact_component_iff [success_simps]: "validate_artifact_component s = Inr () \<longleftrightarrow> safe_name s"
  by (auto simp: validate_artifact_component_def safe_name_def ascii_class_defs)

lemma component_char_range: "component_char c \<Longrightarrow> 45 \<le> code c \<and> code c \<le> 122"
  by (auto simp: component_char_def ascii_class_defs)

lemma no_control: "list_all (\<lambda>c. 45 \<le> code c \<and> code c \<le> 122) s \<Longrightarrow> \<not> has_control s"
  by (induction s rule: has_control.induct) auto

lemma safe_component_facts:
  assumes "safe_name s"
  shows "plain_component s" "validate_executable_name s = Inr ()" "metadata_file_ok (''.'' @ s @ ''.json'')"
proof -
  show plain: "plain_component s"
    using artifact_component.valid_plain assms by (simp add: success_simps)
  have "list_all (\<lambda>c. 45 \<le> code c \<and> code c \<le> 122) s"
    using assms component_char_range by (auto simp: safe_name_def list_all_iff)
  from no_control [OF this] plain show "validate_executable_name s = Inr ()"
    by (simp add: validate_executable_name_def plain_component_def)
  have "plain_component (''.'' @ s @ ''.json'')" using plain by (auto simp: plain_component_def)
  moreover have "''.'' @ s @ ''.json'' = (''.'' @ s) @ ''.json''" by simp
  ultimately show "metadata_file_ok (''.'' @ s @ ''.json'')"
    unfolding metadata_file_ok_def by (metis ends_with_append)
qed

lemma validated_version [success_simps]:
  "validate_runtime_version v = Inr () \<longleftrightarrow> v \<noteq> [] \<and> is_ascii_alphanumeric (hd v) \<and> list_all version_char v"
  by (auto simp: validate_runtime_version_def)

lemma validate_optional_Inr [success_simps]: "validate_optional f v = Inr () \<longleftrightarrow> (\<forall>x. v = Some x \<longrightarrow> f x = Inr ())"
  by (cases v) (auto simp: validate_optional_def)

lemma overrides_validated:
  assumes "apply_runtime_metadata_overrides config version docs_url installer = Inr config'"
  shows "\<exists>v. rs_runtime_version config' = Some v \<and> validate_runtime_version v = Inr ()"
    and "rs_docs_url config' = Some u \<Longrightarrow> validate_docs_url u = Inr ()"
    and "rs_installer config' = Some i \<Longrightarrow> safe_name i"
    and "rs_delegate_executable config' = rs_delegate_executable config" "rs_update config' = rs_update config"
proof -
  from assms obtain c1 c2 where
    c1: "(case version of
         Some version \<Rightarrow> rbind (validate_runtime_version version) (\<lambda>_.
           Inr (config\<lparr>rs_runtime_version := Some version, rs_runtime_version_source := None\<rparr>))
       | None \<Rightarrow>
           if rs_runtime_version config = None
           then Inl (case rs_runtime_version_source config of
                Some Project_Metadata \<Rightarrow> Invalid ''runtime version from project metadata must be resolved before invoking cs''
              | None \<Rightarrow> missing_runtime_version (rs_project_dynamic_version config))
           else Inr config) = Inr c1"
    and v1: "validate_optional validate_runtime_version (rs_runtime_version c1) = Inr ()"
    and c2: "(case docs_url of
         Some url \<Rightarrow> rbind (validate_docs_url url) (\<lambda>_. Inr (c1\<lparr>rs_docs_url := Some url\<rparr>)) | None \<Rightarrow> Inr c1) = Inr c2"
    and v2: "validate_optional validate_docs_url (rs_docs_url c2) = Inr ()"
    and c3: "(case installer of
         Some i \<Rightarrow> rbind (validate_artifact_component i) (\<lambda>_. Inr (c2\<lparr>rs_installer := Some i\<rparr>)) | None \<Rightarrow> Inr c2) = Inr config'"
    and v3: "validate_installer_config config' = Inr ()"
    unfolding apply_runtime_metadata_overrides_def by (auto simp: rbind_eq_Inr)
  have 1: "rs_runtime_version c1 \<noteq> None" "rs_delegate_executable c1 = rs_delegate_executable config" "rs_update c1 = rs_update config"
    using c1 by (auto simp: rbind_eq_Inr split: option.splits if_splits)
  have 2: "rs_runtime_version c2 = rs_runtime_version c1" "rs_delegate_executable c2 = rs_delegate_executable c1" "rs_update c2 = rs_update c1"
    using c2 by (auto simp: rbind_eq_Inr split: option.splits)
  have 3: "rs_runtime_version config' = rs_runtime_version c2" "rs_docs_url config' = rs_docs_url c2"
    "rs_delegate_executable config' = rs_delegate_executable c2" "rs_update config' = rs_update c2"
    using c3 by (auto simp: rbind_eq_Inr split: option.splits)
  show "\<exists>v. rs_runtime_version config' = Some v \<and> validate_runtime_version v = Inr ()"
    using 1(1) v1 2(1) 3(1) by (auto simp: validate_optional_Inr)
  show "rs_docs_url config' = Some u \<Longrightarrow> validate_docs_url u = Inr ()" using v2 3(2) by (auto simp: validate_optional_Inr)
  show "rs_installer config' = Some i \<Longrightarrow> safe_name i" using v3 by (auto simp: validate_installer_config_def success_simps)
  show "rs_delegate_executable config' = rs_delegate_executable config" "rs_update config' = rs_update config"
    using 1 2 3 by simp_all
qed

lemma install_name_validated:
  assumes "apply_install_name_config digest config configured override_name runtime lock = Inr (config', source)"
  shows "\<exists>n. rs_install_name config' = Some n \<and> safe_name n \<and> config' = config\<lparr>rs_install_name := Some n\<rparr>"
  using assms by (auto simp: apply_install_name_config_def success_simps)

lemma resolve_settings_props:
  assumes "resolve_settings S opts manifest config lock = Inr st"
  obtains delegate version install_name source where
    "rs_delegate_executable (bs_config st) = Some delegate" "safe_name delegate"
    "rs_runtime_version (bs_config st) = Some version" "validate_runtime_version version = Inr ()"
    "rs_install_name (bs_config st) = Some install_name" "safe_name install_name"
    "safe_name (bs_runtime st)" "safe_name (bs_artifact_name st)"
    "\<forall>u. rs_docs_url (bs_config st) = Some u \<longrightarrow> validate_docs_url u = Inr ()"
    "\<forall>i. rs_installer (bs_config st) = Some i \<longrightarrow> safe_name i"
    "validate_build_update_config (st_url S) (st_package S) (bs_config st) (bs_layout st) source = Inr ()"
proof -
  from assms obtain runtime delegate c1 c2 source where
    safe: "safe_name runtime" "safe_name (resolve_artifact_name runtime (bo_artifact_name opts) manifest)" "safe_name delegate"
    and c1: "apply_runtime_metadata_overrides (config\<lparr>rs_delegate_executable := Some delegate\<rparr>)
       (bo_runtime_version opts) (bo_docs_url opts) (bo_installer opts) = Inr c1"
    and c2: "apply_install_name_config (st_digest S) c1 (sc_install_name manifest) (bo_install_name opts) runtime lock = Inr (c2, source)"
    and update: "validate_build_update_config (st_url S) (st_package S) c2 (resolve_artifact_layout (bo_artifact_layout opts) manifest) source = Inr ()"
    and st: "st = \<lparr>bs_runtime = runtime, bs_artifact_name = resolve_artifact_name runtime (bo_artifact_name opts) manifest,
        bs_layout = resolve_artifact_layout (bo_artifact_layout opts) manifest,
        bs_config = c2\<lparr>rs_install_scheme := or_else (bo_install_scheme opts) (rs_install_scheme c2)\<rparr>\<rparr>"
    by (auto simp: resolve_settings_def success_simps Let_def)
  note o = overrides_validated [OF c1]
  obtain n where n: "safe_name n" "c2 = c1\<lparr>rs_install_name := Some n\<rparr>" using install_name_validated [OF c2] by blast
  obtain v where v: "rs_runtime_version c1 = Some v" "validate_runtime_version v = Inr ()" using o(1) by blast
  show ?thesis
  proof (rule that [of delegate v n source])
    show "validate_build_update_config (st_url S) (st_package S) (bs_config st) (bs_layout st) source = Inr ()"
      using update by (simp add: st validate_build_update_config_def)
  qed (use safe o n v in \<open>simp_all add: st\<close>)
qed

section \<open>Properties\<close>


text \<open>C23. A content-addressed install name is bounded and determined by its content: it is a safe name of at most 128 bytes, ends in
  sixteen hexadecimal digits of the digest of the runtime lockfile, and two lockfiles give the same base and version
  the same name exactly if the first eight bytes of their digests agree.\<close>

theorem install_name_content_addressed:
  assumes "apply_install_name_config digest config (Some (Install_Name_Source Runtime_Lock base)) None runtime lock = Inr (config', source)"
    and "apply_install_name_config digest config (Some (Install_Name_Source Runtime_Lock base)) None runtime lock2 = Inr (config2, source2)"
    and "length (digest (bytes_of_string lock)) = 32" "length (digest (bytes_of_string lock2)) = 32"
  shows "source = Some Runtime_Lock \<and> (case rs_install_name config' of None \<Rightarrow> False | Some n \<Rightarrow> safe_name n \<and> length n \<le> 128
      \<and> drop (length n - 16) n = hex (take 8 (digest (bytes_of_string lock))))
     \<and> (rs_install_name config' = rs_install_name config2
          \<longleftrightarrow> take 8 (digest (bytes_of_string lock)) = take 8 (digest (bytes_of_string lock2)))"
proof -
  from assms(1,2) obtain version where
    names: "rs_install_name config' = Some (content_addressed_name digest (unwrap_or base runtime) version lock)"
      "rs_install_name config2 = Some (content_addressed_name digest (unwrap_or base runtime) version lock2)"
    and bound: "length (content_addressed_name digest (unwrap_or base runtime) version lock) \<le> 128"
      "safe_name (content_addressed_name digest (unwrap_or base runtime) version lock)" "source = Some Runtime_Lock"
    by (auto simp: apply_install_name_config_def success_simps Let_def MAX_CONTENT_ADDRESSED_INSTALL_NAME_LEN_def
        split: option.splits if_splits)
  let ?d = "\<lambda>l. take 8 (digest (bytes_of_string l))"
  have lens: "length (hex (?d lock)) = 16" "length (hex (?d lock2)) = 16" using assms(3,4) by simp_all
  define x where "x = unwrap_or base runtime @ ''-'' @ version @ ''-''"
  have name: "content_addressed_name digest (unwrap_or base runtime) version l = x @ hex (?d l)" for l
    by (simp add: content_addressed_name_def x_def)
  have "drop (length (x @ hex (?d lock)) - 16) (x @ hex (?d lock)) = hex (?d lock)"
    using lens(1) by (simp del: length_hex)
  moreover have "hex (?d lock) = hex (?d lock2) \<longleftrightarrow> ?d lock = ?d lock2" by (rule hex_inj)
  ultimately show ?thesis using bound unfolding names name by simp
qed

section \<open>Instances\<close>

definition sample_build_options :: build_options where
  "sample_build_options = \<lparr>bo_artifact_layout = Some Online, bo_runtime_name = Some ''demo'', bo_artifact_name = None,
     bo_delegate_executable = Some ''conda'', bo_runtime_version = Some ''1.0'', bo_target_label = None, bo_platform = None,
     bo_target = Some ''x86_64-unknown-linux-gnu'', bo_template = Some (True, [''t'']), bo_docs_url = None, bo_install_scheme = None,
     bo_install_name = None, bo_installer = None, bo_out_dir = (True, [''dist'']), bo_root = Some (True, [''p''])\<rparr>"

definition sample_settings :: settings_ext where
  "sample_settings = \<lparr>st_digest = (\<lambda>b. replicate 32 (of_nat (length b))), st_url = (\<lambda>_. Inl Io_Failed), st_package = (\<lambda>n. Inr n)\<rparr>"

definition sample_stamp_config :: runtime_stamp_config where
  "sample_stamp_config = stamp_config_of sample_input None [] []"


lemma install_name_content_addressed_witness:
  "\<exists>c c2 source source2. apply_install_name_config (st_digest sample_settings) (sample_stamp_config\<lparr>rs_runtime_version := Some ''1''\<rparr>)
        (Some (Install_Name_Source Runtime_Lock None)) None ''demo'' ''a'' = Inr (c, source)
     \<and> apply_install_name_config (st_digest sample_settings) (sample_stamp_config\<lparr>rs_runtime_version := Some ''1''\<rparr>)
        (Some (Install_Name_Source Runtime_Lock None)) None ''demo'' ''ab'' = Inr (c2, source2)
     \<and> rs_install_name c \<noteq> rs_install_name c2"
proof -
  let ?c = "sample_stamp_config\<lparr>rs_runtime_version := Some ''1''\<rparr>"
  let ?run = "\<lambda>l. apply_install_name_config (st_digest sample_settings) ?c (Some (Install_Name_Source Runtime_Lock None)) None ''demo'' l"
  have hex: "hex (replicate 8 (1 :: byte)) = ''0101010101010101''" "hex (replicate 8 (2 :: byte)) = ''0202020202020202''" by code_simp+
  have safe: "validate_artifact_component ''demo-1-0101010101010101'' = Inr ()" "validate_artifact_component ''demo-1-0202020202020202'' = Inr ()"
    by code_simp+
  have "\<exists>c source. ?run ''a'' = Inr (c, source)" "\<exists>c source. ?run ''ab'' = Inr (c, source)"
    using safe hex
    by (simp_all add: apply_install_name_config_def content_addressed_name_def sample_settings_def unwrap_or_def bytes_of_string_def
        MAX_CONTENT_ADDRESSED_INSTALL_NAME_LEN_def Let_def)
  then obtain c source c2 source2 where run: "?run ''a'' = Inr (c, source)" "?run ''ab'' = Inr (c2, source2)" by blast
  have "rs_install_name c = rs_install_name c2 \<longleftrightarrow> take 8 (st_digest sample_settings (bytes_of_string ''a'')) = take 8 (st_digest sample_settings (bytes_of_string ''ab''))"
    using install_name_content_addressed [OF run] by (simp add: sample_settings_def)
  then have "rs_install_name c \<noteq> rs_install_name c2" by (simp add: sample_settings_def bytes_of_string_def)
  with run show ?thesis by blast
qed

end
