(* ===== verification/Sbom.thy ===== *)
theory Sbom
  imports Artifact_Config "HOL-Library.Multiset"
begin

text \<open>
  The software bill of materials (\<open>src/bin/cs/sbom.rs\<close>): one component per package, the dependency graph between them, and
  which parts of the graph are known to be incomplete. The document is a value; \<open>sbom_ext\<close> holds what rattler knows of a
  package, package URLs, match specifications, the clock and the JSON rendering.
\<close>

section \<open>The document\<close>

record sbom_component =
  cm_type :: string
  cm_bom_ref :: string
  cm_name :: string
  cm_version :: "string option"
  cm_scope :: "string option"
  cm_hashes :: "(string \<times> string) list"
  cm_licenses :: "string list"
  cm_purl :: "string option"
  cm_references :: "(string \<times> string) list"
  cm_properties :: "(string \<times> string) list"

record sbom_dependency =
  dy_ref :: string
  dy_depends_on :: "string list"

record sbom_composition =
  cn_aggregate :: string
  cn_assemblies :: "string list"
  cn_dependencies :: "string list"

record cyclonedx_bom =
  bm_timestamp :: string
  bm_tool :: sbom_component
  bm_root :: sbom_component
  bm_components :: "sbom_component list"
  bm_dependencies :: "sbom_dependency list"
  bm_compositions :: "sbom_composition list"

record package_component =
  pc_name :: string
  pc_component :: sbom_component
  pc_dependencies :: "string list"

text \<open>\<open>sx_spec\<close>: the exact name of a match specification and whether it has a condition. \<open>sx_url_with_path\<close> renders a URL
  without credentials, query and fragment.\<close>

record sbom_ext =
  sx_source_date_epoch :: env_value
  sx_parse_i64 :: "string \<Rightarrow> int result"
  sx_from_second :: "int \<Rightarrow> string result"
  sx_now :: string
  sx_license :: "conda_package \<Rightarrow> string option"
  sx_channel :: "conda_package \<Rightarrow> url option"
  sx_file_name :: "conda_package \<Rightarrow> string"
  sx_url_path :: "url \<Rightarrow> string"
  sx_url_with_path :: "url \<Rightarrow> string \<Rightarrow> string option"
  sx_package_url :: "string \<Rightarrow> string \<Rightarrow> (string \<times> string) list \<Rightarrow> string result"
  sx_spec :: "string \<Rightarrow> (string \<times> bool) option"
  sx_pkg_version :: string
  sx_json :: "cyclonedx_bom \<Rightarrow> string result"

definition creation_timestamp :: "sbom_ext \<Rightarrow> string result" where
  "creation_timestamp X =
     (case sx_source_date_epoch X of
        Env_Text v \<Rightarrow> rbind (sx_parse_i64 X v) (\<lambda>seconds. sx_from_second X seconds)
      | Env_Absent \<Rightarrow> Inr (sx_now X)
      | Env_Invalid \<Rightarrow> Inl (Invalid ''failed to read SOURCE_DATE_EPOCH''))"

section \<open>Components\<close>

text \<open>\<open>str::split_once\<close>.\<close>

fun split_once :: "string \<Rightarrow> string \<Rightarrow> (string \<times> string) option" where
  "split_once pat [] = (if pat = [] then Some ([], []) else None)"
| "split_once pat (c # cs) =
     (if starts_with pat (c # cs) then Some ([], drop (length pat) (c # cs))
      else map_option (\<lambda>(a, b). (c # a, b)) (split_once pat cs))"

definition without_token :: "string \<Rightarrow> string" where
  "without_token p =
     (case split_once ''/t/'' p of
        None \<Rightarrow> p
      | Some (prefix, remainder) \<Rightarrow> prefix @ ''/'' @ (case split_once ''/'' remainder of None \<Rightarrow> [] | Some (_, suffix) \<Rightarrow> suffix))"

definition sanitized_remote_url :: "sbom_ext \<Rightarrow> url \<Rightarrow> string option" where
  "sanitized_remote_url X url =
     (if url_scheme url = ''file'' then None else sx_url_with_path X url (without_token (sx_url_path X url)))"

definition package_type :: "string \<Rightarrow> string option" where
  "package_type filename =
     (if ends_with ''.conda'' filename then Some ''conda'' else if ends_with ''.tar.bz2'' filename then Some ''tar.bz2'' else None)"

text \<open>The list of an optional entry.\<close>

definition entries :: "string \<Rightarrow> string option \<Rightarrow> (string \<times> string) list" where
  "entries name v = (case v of None \<Rightarrow> [] | Some x \<Rightarrow> [(name, x)])"

definition package_component_of :: "sbom_ext \<Rightarrow> string \<Rightarrow> conda_package \<Rightarrow> package_component result" where
  "package_component_of X platform package =
     rbind (package_record_of package) (\<lambda>r.
     let subdir = (if pk_subdir r = [] then platform else pk_subdir r);
         channel = (if cp_binary package then case sx_channel X package of None \<Rightarrow> None | Some u \<Rightarrow> sanitized_remote_url X u else None);
         filename = (if cp_binary package then Some (sx_file_name X package) else None);
         kind = (case filename of None \<Rightarrow> None | Some f \<Rightarrow> package_type f) in
     rbind (sx_package_url X (pk_name r) (pk_version r)
       ([(''build'', pk_build r), (''subdir'', subdir)] @ entries ''channel'' channel @ entries ''type'' kind)) (\<lambda>purl.
     Inr \<lparr>pc_name = pk_name r,
       pc_component = \<lparr>cm_type = ''library'', cm_bom_ref = purl, cm_name = pk_name r, cm_version = Some (pk_version r),
         cm_scope = Some ''required'',
         cm_hashes = entries ''SHA-256'' (map_option hex (pk_sha256 r)) @ entries ''MD5'' (map_option hex (pk_md5 r)),
         cm_licenses = (case sx_license X package of None \<Rightarrow> [] | Some l \<Rightarrow> if l = [] then [] else [l]),
         cm_purl = Some purl,
         cm_references = entries ''distribution''
           (case cp_location package of Package_Url u \<Rightarrow> sanitized_remote_url X u | Package_Path _ \<Rightarrow> None),
         cm_properties = [(''conda:package:build'', pk_build r), (''conda:package:build-number'', decimal (pk_build_number r)),
             (''conda:package:subdir'', subdir)]
           @ entries ''conda:package:channel'' channel @ entries ''conda:package:filename'' filename
           @ entries ''conda:package:size'' (map_option decimal (pk_size r))\<rparr>,
       pc_dependencies = pk_depends r\<rparr>))"

fun package_components :: "sbom_ext \<Rightarrow> string \<Rightarrow> conda_package list \<Rightarrow> package_component list result" where
  "package_components X platform [] = Inr []"
| "package_components X platform (p # ps) =
     rbind (package_component_of X platform p) (\<lambda>c. rbind (package_components X platform ps) (\<lambda>cs. Inr (c # cs)))"

section \<open>The dependency graph\<close>

abbreviation pc_ref :: "package_component \<Rightarrow> string" where
  "pc_ref p \<equiv> cm_bom_ref (pc_component p)"

definition references_by_name :: "package_component list \<Rightarrow> string \<Rightarrow> string option" where
  "references_by_name cs = map_of (rev (map (\<lambda>p. (pc_name p, pc_ref p)) cs))"

datatype dependency_edge = Edge string | Unknown_Edge | Missing_Edge

definition edge_of :: "sbom_ext \<Rightarrow> (string \<Rightarrow> string option) \<Rightarrow> string \<Rightarrow> dependency_edge" where
  "edge_of X refs dependency =
     (case sx_spec X dependency of
        None \<Rightarrow> Unknown_Edge
      | Some (name, conditional) \<Rightarrow>
          if conditional then Unknown_Edge
          else case refs name of Some reference \<Rightarrow> Edge reference | None \<Rightarrow> Missing_Edge)"

definition edges_of :: "sbom_ext \<Rightarrow> package_component list \<Rightarrow> package_component \<Rightarrow> dependency_edge list" where
  "edges_of X cs p = map (edge_of X (references_by_name cs)) (pc_dependencies p)"

fun edge_targets :: "dependency_edge list \<Rightarrow> string list" where
  "edge_targets [] = []"
| "edge_targets (Edge r # es) = r # edge_targets es"
| "edge_targets (_ # es) = edge_targets es"

definition package_dependency :: "sbom_ext \<Rightarrow> package_component list \<Rightarrow> package_component \<Rightarrow> sbom_dependency" where
  "package_dependency X cs p = \<lparr>dy_ref = pc_ref p, dy_depends_on = remdups_adj (sort (edge_targets (edges_of X cs p)))\<rparr>"

text \<open>A sorted set of strings.\<close>

definition sorted_refs :: "string list \<Rightarrow> string list" where
  "sorted_refs refs = sort (remdups refs)"

definition refs_with_edge :: "sbom_ext \<Rightarrow> package_component list \<Rightarrow> dependency_edge \<Rightarrow> string list" where
  "refs_with_edge X cs e = sorted_refs (map pc_ref (filter (\<lambda>p. e \<in> set (edges_of X cs p)) cs))"

definition missing_edges :: "sbom_ext \<Rightarrow> package_component list \<Rightarrow> nat" where
  "missing_edges X cs = length (filter (\<lambda>e. e = Missing_Edge) (concat (map (edges_of X cs) cs)))"

definition dependency_edges :: "sbom_dependency list \<Rightarrow> string \<Rightarrow> string list option" where
  "dependency_edges deps = map_of (rev (map (\<lambda>d. (dy_ref d, dy_depends_on d)) deps))"

lemma dependency_edges_ref: "dependency_edges deps r = Some on' \<Longrightarrow> r \<in> dy_ref ` set deps"
  by (auto simp: dependency_edges_def dest!: map_of_SomeD)

function add_reachable :: "sbom_dependency list \<Rightarrow> string list \<Rightarrow> string set \<Rightarrow> string set" where
  "add_reachable deps pending reachable =
     (if pending = [] then reachable
      else let reference = last pending; pending = butlast pending in
        if reference \<in> reachable then add_reachable deps pending reachable
        else case dependency_edges deps reference of
          None \<Rightarrow> add_reachable deps pending (insert reference reachable)
        | Some depends_on \<Rightarrow> add_reachable deps (pending @ depends_on) (insert reference reachable))"
  by pat_completeness auto

termination
proof (relation "inv_image (less_than <*lex*> less_than) (\<lambda>(deps, pending, reachable). (card (dy_ref ` set deps - reachable), length pending))",
    goal_cases)
  case (3 deps pending reachable x xa)
  have "card (dy_ref ` set deps - insert x reachable) \<le> card (dy_ref ` set deps - reachable)" by (intro card_mono) auto
  with 3 show ?case by (cases "card (dy_ref ` set deps - insert x reachable) = card (dy_ref ` set deps - reachable)") auto
next
  case (4 deps pending reachable x xa depends_on)
  then have "x \<in> dy_ref ` set deps - reachable" using dependency_edges_ref by auto
  then have "dy_ref ` set deps - insert x reachable \<subset> dy_ref ` set deps - reachable" by blast
  then have "card (dy_ref ` set deps - insert x reachable) < card (dy_ref ` set deps - reachable)" by (intro psubset_card_mono) auto
  with 4 show ?case by simp
qed auto

declare add_reachable.simps [simp del]

fun close_roots :: "sbom_dependency list \<Rightarrow> string list \<Rightarrow> string list \<Rightarrow> string set \<Rightarrow> string list" where
  "close_roots deps [] roots reachable = roots"
| "close_roots deps (reference # refs) roots reachable =
     (if reference \<notin> reachable
      then close_roots deps refs (roots @ [reference]) (add_reachable deps [reference] reachable)
      else close_roots deps refs roots reachable)"

definition root_dependencies :: "package_component list \<Rightarrow> sbom_dependency list \<Rightarrow> string list" where
  "root_dependencies cs deps =
     (let depended_on = \<Union> (set ` dy_depends_on ` set deps);
          refs = map pc_ref cs;
          roots = filter (\<lambda>r. r \<notin> depended_on) refs in
      sort (if roots = [] then refs else close_roots deps refs roots (add_reachable deps roots {})))"

section \<open>The bill of materials\<close>

definition root_component :: "string \<Rightarrow> string \<Rightarrow> string \<Rightarrow> bundle_layout \<Rightarrow> string \<Rightarrow> string \<Rightarrow> nat \<Rightarrow> sbom_component" where
  "root_component runtime_name artifact_name version layout platform binary_name missing =
     \<lparr>cm_type = ''application'', cm_bom_ref = ''runtime:'' @ artifact_name @ ''@'' @ version @ ''?platform='' @ platform,
      cm_name = artifact_name, cm_version = Some version, cm_scope = Some ''required'', cm_hashes = [], cm_licenses = [], cm_purl = None,
      cm_references = [],
      cm_properties = [(''conda-ship:runtime:name'', runtime_name), (''conda-ship:artifact:filename'', binary_name),
        (''conda-ship:artifact:layout'', layout_str layout), (''conda-ship:target:platform'', platform),
        (''conda-ship:sbom:scope'', ''resolved-conda-packages'')]
        @ (if missing > 0 then [(''conda:environment:dependency-edges-omitted'', decimal missing)] else [])\<rparr>"

definition tool_component :: "sbom_ext \<Rightarrow> sbom_component" where
  "tool_component X =
     \<lparr>cm_type = ''application'', cm_bom_ref = ''tool:conda-ship@'' @ sx_pkg_version X, cm_name = ''conda-ship'',
      cm_version = Some (sx_pkg_version X), cm_scope = None, cm_hashes = [], cm_licenses = [], cm_purl = None, cm_references = [],
      cm_properties = []\<rparr>"

definition compositions_of :: "sbom_ext \<Rightarrow> string \<Rightarrow> package_component list \<Rightarrow> sbom_composition list" where
  "compositions_of X root_ref cs =
     (let incomplete = refs_with_edge X cs Missing_Edge;
          unknown = filter (\<lambda>r. r \<notin> set incomplete) (refs_with_edge X cs Unknown_Edge) in
      [\<lparr>cn_aggregate = ''incomplete'', cn_assemblies = [root_ref], cn_dependencies = [root_ref]\<rparr>]
      @ (if incomplete = [] then [] else [\<lparr>cn_aggregate = ''incomplete'', cn_assemblies = [], cn_dependencies = incomplete\<rparr>])
      @ (if unknown = [] then [] else [\<lparr>cn_aggregate = ''unknown'', cn_assemblies = [], cn_dependencies = unknown\<rparr>]))"

definition cyclonedx_document ::
    "sbom_ext \<Rightarrow> string \<Rightarrow> string \<Rightarrow> string \<Rightarrow> bundle_layout \<Rightarrow> string \<Rightarrow> string \<Rightarrow> conda_package list \<Rightarrow> string \<Rightarrow> cyclonedx_bom result" where
  "cyclonedx_document X runtime_name artifact_name version layout platform binary_name packages timestamp =
     rbind (package_components X platform packages) (\<lambda>cs.
     let cs = sort_key pc_ref cs;
         root = root_component runtime_name artifact_name version layout platform binary_name (missing_edges X cs);
         deps = map (package_dependency X cs) cs in
     Inr \<lparr>bm_timestamp = timestamp, bm_tool = tool_component X, bm_root = root, bm_components = map pc_component cs,
       bm_dependencies = sort_key dy_ref (deps @ [\<lparr>dy_ref = cm_bom_ref root, dy_depends_on = root_dependencies cs deps\<rparr>]),
       bm_compositions = compositions_of X (cm_bom_ref root) cs\<rparr>)"

definition render_cyclonedx_sbom ::
    "sbom_ext \<Rightarrow> string \<Rightarrow> string \<Rightarrow> string \<Rightarrow> bundle_layout \<Rightarrow> string \<Rightarrow> string \<Rightarrow> conda_package list \<Rightarrow> string \<Rightarrow> string result" where
  "render_cyclonedx_sbom X runtime_name artifact_name version layout platform binary_name packages timestamp =
     rbind (cyclonedx_document X runtime_name artifact_name version layout platform binary_name packages timestamp) (\<lambda>bom.
     rbind (sx_json X bom) (\<lambda>content. Inr (content @ [CHR 0x0A])))"

section \<open>Reachability\<close>

text \<open>The edges of a list of dependencies, and what the graph of a document connects.\<close>

definition depends :: "sbom_dependency list \<Rightarrow> (string \<times> string) set" where
  "depends deps = {(dy_ref d, r) | d r. d \<in> set deps \<and> r \<in> set (dy_depends_on d)}"

lemma dependency_edges_depends: "dependency_edges deps r = Some on' \<Longrightarrow> q \<in> set on' \<Longrightarrow> (r, q) \<in> depends deps"
  by (fastforce simp: dependency_edges_def depends_def dest!: map_of_SomeD)

lemma add_reachable_sound:
  assumes "reachable \<union> set pending \<subseteq> (depends deps)\<^sup>* `` R"
  shows "add_reachable deps pending reachable \<subseteq> (depends deps)\<^sup>* `` R"
  using assms
proof (induction deps pending reachable rule: add_reachable.induct)
  case (1 deps pending reachable)
  show ?case
  proof (cases "pending = []")
    case True
    with 1 show ?thesis by (simp add: add_reachable.simps)
  next
    case False
    then have split: "set pending = insert (last pending) (set (butlast pending))"
      by (metis append_butlast_last_id list.simps(15) rotate1.simps(2) set_rotate1)
    have targets: "set on' \<subseteq> (depends deps)\<^sup>* `` R" if "dependency_edges deps (last pending) = Some on'" for on'
    proof
      fix q assume "q \<in> set on'"
      with dependency_edges_depends [OF that] have "(last pending, q) \<in> depends deps" by blast
      moreover have "last pending \<in> (depends deps)\<^sup>* `` R" using 1(4) split by blast
      ultimately show "q \<in> (depends deps)\<^sup>* `` R" by (auto intro: rtrancl_into_rtrancl)
    qed
    show ?thesis
    proof (cases "last pending \<in> reachable")
      case True
      with 1(1) [OF False refl refl] 1(4) split False show ?thesis by (subst add_reachable.simps) (auto simp: Let_def)
    next
      case fresh: False
      show ?thesis
      proof (cases "dependency_edges deps (last pending)")
        case None
        with 1(2) [OF False refl refl fresh] 1(4) split False fresh show ?thesis by (subst add_reachable.simps) (auto simp: Let_def)
      next
        case (Some on')
        have "add_reachable deps (butlast pending @ on') (insert (last pending) reachable) \<subseteq> (depends deps)\<^sup>* `` R"
          by (rule 1(3) [OF False refl refl fresh Some]) (use 1(4) split targets [OF Some] in auto)
        with False fresh Some show ?thesis by (subst add_reachable.simps) (auto simp: Let_def)
      qed
    qed
  qed
qed

lemma add_reachable_grows: "reachable \<union> set pending \<subseteq> add_reachable deps pending reachable"
proof (induction deps pending reachable rule: add_reachable.induct)
  case (1 deps pending reachable)
  show ?case
  proof (cases "pending = []")
    case False
    then have split: "set pending = insert (last pending) (set (butlast pending))"
      by (metis append_butlast_last_id list.simps(15) rotate1.simps(2) set_rotate1)
    show ?thesis
      using 1 [OF False refl refl] split False
      by (subst add_reachable.simps) (auto simp: Let_def split: option.splits)
  qed (simp add: add_reachable.simps)
qed

lemma close_roots_covers:
  assumes "reachable \<subseteq> (depends deps)\<^sup>* `` set roots"
  shows "set roots \<subseteq> set (close_roots deps refs roots reachable) \<and> set (close_roots deps refs roots reachable) \<subseteq> set roots \<union> set refs
     \<and> reachable \<union> set refs \<subseteq> (depends deps)\<^sup>* `` set (close_roots deps refs roots reachable)"
  using assms
proof (induction deps refs roots reachable rule: close_roots.induct)
  case (2 deps r refs roots reachable)
  show ?case
  proof (cases "r \<in> reachable")
    case True
    with 2 show ?thesis by auto
  next
    case False
    have "add_reachable deps [r] reachable \<subseteq> (depends deps)\<^sup>* `` set (roots @ [r])"
      by (rule add_reachable_sound) (use "2.prems" in auto)
    from "2.IH"(1) [OF False this] add_reachable_grows [of reachable "[r]" deps] False show ?thesis by auto
  qed
qed auto

lemma root_dependencies_cover:
  "set (root_dependencies cs deps) \<subseteq> pc_ref ` set cs \<and> pc_ref ` set cs \<subseteq> (depends deps)\<^sup>* `` set (root_dependencies cs deps)"
proof -
  define roots where "roots = filter (\<lambda>r. r \<notin> \<Union> (set ` dy_depends_on ` set deps)) (map pc_ref cs)"
  have eq: "set (root_dependencies cs deps) =
      set (if roots = [] then map pc_ref cs else close_roots deps (map pc_ref cs) roots (add_reachable deps roots {}))"
    by (simp add: root_dependencies_def roots_def Let_def)
  have "add_reachable deps roots {} \<subseteq> (depends deps)\<^sup>* `` set roots" by (rule add_reachable_sound) auto
  from close_roots_covers [OF this, of "map pc_ref cs"] have "roots \<noteq> [] \<Longrightarrow> ?thesis"
    unfolding eq by (auto simp: roots_def)
  moreover have "roots = [] \<Longrightarrow> ?thesis" unfolding eq by auto
  ultimately show ?thesis by blast
qed


section \<open>Properties\<close>

lemma edge_targets_iff: "r \<in> set (edge_targets es) \<longleftrightarrow> Edge r \<in> set es"
  by (induction es rule: edge_targets.induct) auto

lemma package_targets: "r \<in> set (dy_depends_on (package_dependency X cs p)) \<Longrightarrow> r \<in> pc_ref ` set cs"
  by (auto simp: package_dependency_def edge_targets_iff edges_of_def edge_of_def references_by_name_def
      split: option.splits if_splits dest!: map_of_SomeD)

lemma depends_mono: "set deps \<subseteq> set deps' \<Longrightarrow> depends deps \<subseteq> depends deps'"
  by (auto simp: depends_def)

text \<open>C24. The bill of materials accounts for every package: it has one component per package, in the order of their references;
  every edge of the dependency graph leads to a component of the document, and every component is reachable from the
  runtime, whatever cycles the dependencies have; a package with a dependency outside the document is declared
  incomplete.\<close>

theorem sbom_connects_packages:
  assumes doc: "cyclonedx_document X runtime artifact version layout platform binary_name packages timestamp = Inr bom"
    and cs: "package_components X platform packages = Inr cs"
  shows "mset (bm_components bom) = mset (map pc_component cs)
     \<and> sorted (map cm_bom_ref (bm_components bom)) \<and> sorted (map dy_ref (bm_dependencies bom))
     \<and> (\<Union> (set ` dy_depends_on ` set (bm_dependencies bom))) \<subseteq> cm_bom_ref ` set (bm_components bom)
     \<and> cm_bom_ref ` set (bm_components bom) \<subseteq> (depends (bm_dependencies bom))\<^sup>+ `` {cm_bom_ref (bm_root bom)}
     \<and> pc_ref ` {p \<in> set cs. Missing_Edge \<in> set (edges_of X (sort_key pc_ref cs) p)}
         \<subseteq> \<Union> (set ` cn_dependencies ` {c \<in> set (bm_compositions bom). cn_aggregate c = ''incomplete''})"
proof -
  let ?cs = "sort_key pc_ref cs" and ?deps = "map (package_dependency X (sort_key pc_ref cs)) (sort_key pc_ref cs)"
  let ?root = "root_component runtime artifact version layout platform binary_name (missing_edges X ?cs)"
  let ?edge = "\<lparr>dy_ref = cm_bom_ref ?root, dy_depends_on = root_dependencies ?cs ?deps\<rparr>"
  from doc cs have bom: "bm_components bom = map pc_component ?cs" "bm_root bom = ?root"
    "bm_dependencies bom = sort_key dy_ref (?deps @ [?edge])" "bm_compositions bom = compositions_of X (cm_bom_ref ?root) ?cs"
    by (auto simp: cyclonedx_document_def Let_def)
  have refs: "cm_bom_ref ` set (bm_components bom) = pc_ref ` set ?cs" by (auto simp: bom(1))
  note cover = root_dependencies_cover [of ?cs ?deps]
  have direct: "(cm_bom_ref ?root, r) \<in> depends (bm_dependencies bom)" if "r \<in> set (root_dependencies ?cs ?deps)" for r
    using that by (auto simp: bom(3) depends_def intro!: exI [of _ ?edge])
  have mono: "depends ?deps \<subseteq> depends (bm_dependencies bom)" by (rule depends_mono) (auto simp: bom(3))
  have "mset (bm_components bom) = mset (map pc_component cs)" by (simp only: bom(1) mset_map mset_sort)
  moreover have "sorted (map cm_bom_ref (bm_components bom))" using sorted_sort_key [of pc_ref cs] by (simp add: bom(1) comp_def)
  moreover have "sorted (map dy_ref (bm_dependencies bom))" unfolding bom(3) by (rule sorted_sort_key)
  moreover have "\<Union> (set ` dy_depends_on ` set (bm_dependencies bom)) \<subseteq> pc_ref ` set ?cs"
    using cover package_targets [of _ X ?cs] by (auto simp: bom(3))
  moreover have "pc_ref ` set ?cs \<subseteq> (depends (bm_dependencies bom))\<^sup>+ `` {cm_bom_ref (bm_root bom)}"
  proof
    fix r assume "r \<in> pc_ref ` set ?cs"
    with cover obtain q where "q \<in> set (root_dependencies ?cs ?deps)" "(q, r) \<in> (depends ?deps)\<^sup>*" by blast
    with direct have "(cm_bom_ref ?root, q) \<in> depends (bm_dependencies bom)" "(q, r) \<in> (depends (bm_dependencies bom))\<^sup>*"
      using rtrancl_mono [OF mono] by auto
    then show "r \<in> (depends (bm_dependencies bom))\<^sup>+ `` {cm_bom_ref (bm_root bom)}" unfolding bom(2) by auto
  qed
  moreover have "pc_ref ` {p \<in> set cs. Missing_Edge \<in> set (edges_of X ?cs p)}
      \<subseteq> \<Union> (set ` cn_dependencies ` {c \<in> set (bm_compositions bom). cn_aggregate c = ''incomplete''})"
  proof
    fix r assume "r \<in> pc_ref ` {p \<in> set cs. Missing_Edge \<in> set (edges_of X ?cs p)}"
    then have "r \<in> set (refs_with_edge X ?cs Missing_Edge)" by (auto simp: refs_with_edge_def sorted_refs_def)
    moreover from this have "\<lparr>cn_aggregate = ''incomplete'', cn_assemblies = [], cn_dependencies = refs_with_edge X ?cs Missing_Edge\<rparr>
        \<in> {c \<in> set (bm_compositions bom). cn_aggregate c = ''incomplete''}"
      by (cases "refs_with_edge X ?cs Missing_Edge") (simp_all add: bom(4) compositions_of_def Let_def)
    ultimately show "r \<in> \<Union> (set ` cn_dependencies ` {c \<in> set (bm_compositions bom). cn_aggregate c = ''incomplete''})"
      by (intro UN_I [of _ "cn_dependencies ` _"]) force+
  qed
  ultimately show ?thesis unfolding refs by (intro conjI) assumption+
qed

section \<open>Instances\<close>

definition sample_sbom :: sbom_ext where
  "sample_sbom = \<lparr>sx_source_date_epoch = Env_Absent, sx_parse_i64 = (\<lambda>_. Inr 0), sx_from_second = (\<lambda>_. Inr []), sx_now = ''now'',
     sx_license = (\<lambda>_. None), sx_channel = (\<lambda>_. None), sx_file_name = (\<lambda>_. ''a.conda''), sx_url_path = url_text, sx_url_with_path = (\<lambda>_ p. Some p),
     sx_package_url = (\<lambda>name version _. Inr (name @ ''@'' @ version)), sx_spec = (\<lambda>s. Some (s, False)), sx_pkg_version = ''1'', sx_json = (\<lambda>_. Inr [])\<rparr>"

text \<open>Two packages that depend on each other, and one of them on a package that is not there.\<close>

definition cyclic_packages :: "conda_package list" where
  "cyclic_packages = map (\<lambda>r. \<lparr>cp_record = Some r, cp_location = Package_Path (True, [pk_name r]), cp_binary = True\<rparr>)
     [sample_package ''b'' [''a''], sample_package ''a'' [''b'', ''z'']]"

lemma sbom_connects_packages_witness:
  "\<exists>bom. cyclonedx_document sample_sbom ''demo'' ''demo'' ''1'' Online ''linux-64'' ''demo'' cyclic_packages ''now'' = Inr bom
     \<and> (''runtime:demo@1?platform=linux-64'', ''a@1'') \<in> (depends (bm_dependencies bom))\<^sup>+"
proof -
  obtain cs where cs: "package_components sample_sbom ''linux-64'' cyclic_packages = Inr cs" and names: "''a@1'' \<in> pc_ref ` set cs"
    by (auto simp: cyclic_packages_def sample_sbom_def sample_package_def package_component_of_def package_record_of_def entries_def)
  then obtain bom where doc: "cyclonedx_document sample_sbom ''demo'' ''demo'' ''1'' Online ''linux-64'' ''demo'' cyclic_packages ''now'' = Inr bom"
    by (simp add: cyclonedx_document_def Let_def)
  from doc cs have root: "cm_bom_ref (bm_root bom) = ''runtime:demo@1?platform=linux-64''" "bm_components bom = map pc_component (sort_key pc_ref cs)"
    by (auto simp: cyclonedx_document_def Let_def root_component_def)
  have "''a@1'' \<in> cm_bom_ref ` set (bm_components bom)" using names root(2) by force
  with sbom_connects_packages [OF doc cs] doc root(1) show ?thesis by auto
qed

end
