(* ===== verification/Artifact_Publish.thy ===== *)
theory Artifact_Publish
  imports Sbom Fleet
begin

text \<open>
  Staging and publishing a release (\<open>src/bin/cs/artifact.rs\<close>): the files are prepared in a temporary directory below the
  output directory and moved out one by one, the checksum file last, after the previous checksum file has been
  taken away. \<open>artifact_ext\<close> holds the temporary directory, the advisory lock, the JSON rendering and what the
  operating system answers while an executable is stamped.
\<close>

section \<open>Metadata files\<close>

record artifact_checksum =
  ac_path :: string
  ac_sha256 :: string
  ac_bytes :: nat

record artifact_info =
  ai_schema_version :: nat
  ai_name :: string
  ai_artifact_name :: string
  ai_runtime_name :: string
  ai_runtime_version :: string
  ai_layout :: string
  ai_platform :: string
  ai_update :: "runtime_update_config option"
  ai_binary :: string
  ai_bundle :: "string option"
  ai_lock :: string
  ai_package_list :: string
  ai_sbom :: "string option"
  ai_package_count :: nat
  ai_checksums :: "artifact_checksum list"

record package_info =
  pi_name :: string
  pi_version :: string
  pi_build :: string
  pi_url :: string
  pi_sha256 :: "string option"

record artifact_metadata_paths =
  am_info :: path
  am_checksums :: path
  am_lock :: path
  am_package_list :: path
  am_sbom :: path

record artifact_ext =
  ar_codec :: codec_ext
  ar_pe :: pe_ext
  ar_macho :: macho_ext
  ar_sbom :: sbom_ext
  ar_windows :: bool
  ar_macos :: bool
  ar_info_json :: "artifact_info \<Rightarrow> string result"
  ar_environment :: "runtime_lock \<Rightarrow> (lock_platform \<times> conda_package list) list option"
  ar_staging_dir :: "path \<Rightarrow> path io"
  ar_interrupted :: "nat \<Rightarrow> path \<Rightarrow> path set"
  ar_lock :: "path \<Rightarrow> unit io"
  ar_stamp_env :: "path \<Rightarrow> stamp_env"
  ar_bundle_reads :: "path \<Rightarrow> bytes \<Rightarrow> bundle_source \<times> bundle_reads"
  ar_codesign :: "string list \<Rightarrow> path \<Rightarrow> bool io"
  ar_is_osx :: "string \<Rightarrow> bool"

definition packages_for_platform ::
    "(lock_platform \<times> conda_package list) list option \<Rightarrow> string \<Rightarrow> conda_package list result" where
  "packages_for_platform env platform =
     rbind (ok_or ''no default environment'' env) (\<lambda>env.
     let packages = concat (map snd (filter (\<lambda>(p, _). lp_subdir p = platform) env)) in
     if packages = [] then Inl (Invalid ''no packages for platform'') else Inr packages)"

definition package_info_of :: "conda_package \<Rightarrow> package_info result" where
  "package_info_of package =
     rbind (package_record_of package) (\<lambda>r.
     Inr \<lparr>pi_name = pk_name r, pi_version = pk_version r, pi_build = pk_build r,
       pi_url = (case cp_location package of Package_Url u \<Rightarrow> url_text u | Package_Path _ \<Rightarrow> []),
       pi_sha256 = map_option hex (pk_sha256 r)\<rparr>)"

fun collect_infos :: "conda_package list \<Rightarrow> package_info list result" where
  "collect_infos [] = Inr []"
| "collect_infos (p # ps) = rbind (package_info_of p) (\<lambda>i. rbind (collect_infos ps) (\<lambda>is. Inr (i # is)))"

text \<open>By name, then version: the sorts are stable.\<close>

definition package_infos :: "conda_package list \<Rightarrow> package_info list result" where
  "package_infos packages =
     rbind (collect_infos packages) (\<lambda>infos. Inr (sort_key pi_name (sort_key pi_version infos)))"

abbreviation tab :: char where
  "tab \<equiv> CHR 0x09"

abbreviation lf :: char where
  "lf \<equiv> CHR 0x0A"

definition render_package_list :: "package_info list \<Rightarrow> string" where
  "render_package_list packages =
     ''name'' @ [tab] @ ''version'' @ [tab] @ ''build'' @ [tab] @ ''url'' @ [tab] @ ''sha256'' @ [lf]
     @ concat (map (\<lambda>p. pi_name p @ [tab] @ pi_version p @ [tab] @ pi_build p @ [tab] @ pi_url p @ [tab]
         @ unwrap_or (pi_sha256 p) [] @ [lf]) packages)"

definition checksum_for_path :: "artifact_ext \<Rightarrow> path \<Rightarrow> artifact_checksum io" where
  "checksum_for_path A p =
     bindio (read_file p) (\<lambda>b.
     bindio (lift_result (ok_or ''path has no file name'' (file_name p))) (\<lambda>name.
     ret \<lparr>ac_path = name, ac_sha256 = hex (sha256 (ar_codec A) b), ac_bytes = length b\<rparr>))"

definition render_checksums :: "artifact_checksum list \<Rightarrow> string" where
  "render_checksums cs = concat (map (\<lambda>c. ac_sha256 c @ ''  '' @ ac_path c @ [lf]) cs)"

definition write_checksums :: "path \<Rightarrow> artifact_checksum list \<Rightarrow> unit io" where
  "write_checksums p cs = write_file p (bytes_of_string (render_checksums cs))"

fun checksums_for :: "artifact_ext \<Rightarrow> path list \<Rightarrow> artifact_checksum list io" where
  "checksums_for A [] = ret []"
| "checksums_for A (p # ps) = bindio (checksum_for_path A p) (\<lambda>c. bindio (checksums_for A ps) (\<lambda>cs. ret (c # cs)))"

definition name_of :: "path \<Rightarrow> string result" where
  "name_of p = ok_or ''path has no file name'' (file_name p)"

text \<open>\<open>info\<close> is built from its checksums; \<open>write_artifact_metadata\<close> renders it.\<close>

definition artifact_info_of ::
    "build_settings \<Rightarrow> string \<Rightarrow> string \<Rightarrow> string \<Rightarrow> path \<Rightarrow> path option \<Rightarrow> path \<Rightarrow> path \<Rightarrow> path \<Rightarrow> nat \<Rightarrow> artifact_checksum list
       \<Rightarrow> artifact_info result" where
  "artifact_info_of settings stem version platform binary bundle lock package_list sbom package_count checksums =
     rbind (name_of binary) (\<lambda>binary.
     rbind (case bundle of None \<Rightarrow> Inr None | Some p \<Rightarrow> rbind (name_of p) (\<lambda>n. Inr (Some n))) (\<lambda>bundle.
     rbind (name_of lock) (\<lambda>lock.
     rbind (name_of package_list) (\<lambda>package_list.
     rbind (name_of sbom) (\<lambda>sbom.
     Inr \<lparr>ai_schema_version = 1, ai_name = stem, ai_artifact_name = bs_artifact_name settings, ai_runtime_name = bs_runtime settings,
       ai_runtime_version = version, ai_layout = layout_str (bs_layout settings), ai_platform = platform,
       ai_update = rs_update (bs_config settings), ai_binary = binary, ai_bundle = bundle, ai_lock = lock, ai_package_list = package_list,
       ai_sbom = Some sbom, ai_package_count = package_count, ai_checksums = checksums\<rparr>)))))"

definition write_info_and_checksums ::
    "artifact_ext \<Rightarrow> build_settings \<Rightarrow> string \<Rightarrow> string \<Rightarrow> string \<Rightarrow> path \<Rightarrow> path option \<Rightarrow> artifact_metadata_paths \<Rightarrow> nat
       \<Rightarrow> artifact_checksum list \<Rightarrow> artifact_metadata_paths io" where
  "write_info_and_checksums A settings stem version platform binary bundle M package_count checksums =
     bindio (lift_result (artifact_info_of settings stem version platform binary bundle (am_lock M) (am_package_list M) (am_sbom M)
         package_count checksums)) (\<lambda>doc.
     bindio (lift_result (ar_info_json A doc)) (\<lambda>info_json.
     bindio (write_file (am_info M) (bytes_of_string (info_json @ [lf]))) (\<lambda>_.
     bindio (checksum_for_path A (am_info M)) (\<lambda>info_checksum.
     bindio (write_checksums (am_checksums M) (sort_key ac_path (ai_checksums doc @ [info_checksum]))) (\<lambda>_.
     ret M)))))"

definition metadata_paths_in :: "path \<Rightarrow> string \<Rightarrow> artifact_metadata_paths" where
  "metadata_paths_in out_dir stem =
     \<lparr>am_info = out_dir @ [stem @ ''.info.json''], am_checksums = out_dir @ [stem @ ''.sha256''], am_lock = out_dir @ [stem @ ''.runtime.lock''],
      am_package_list = out_dir @ [stem @ ''.packages.txt''], am_sbom = out_dir @ [stem @ ''.cdx.json'']\<rparr>"

definition write_artifact_metadata ::
    "artifact_ext \<Rightarrow> path \<Rightarrow> string \<Rightarrow> build_settings \<Rightarrow> string \<Rightarrow> path \<Rightarrow> path option \<Rightarrow> runtime_lock \<Rightarrow> string
       \<Rightarrow> artifact_metadata_paths io" where
  "write_artifact_metadata A out_dir stem settings platform binary bundle lock_file content =
     bindio (lift_result (packages_for_platform (ar_environment A lock_file) platform)) (\<lambda>packages.
     bindio (lift_result (package_infos packages)) (\<lambda>infos.
     let M = metadata_paths_in out_dir stem in
     bindio (write_file (am_lock M) (bytes_of_string content)) (\<lambda>_.
     bindio (write_file (am_package_list M) (bytes_of_string (render_package_list infos))) (\<lambda>_.
     bindio (lift_result (case rs_runtime_version (bs_config settings) of Some v \<Rightarrow> Inr v
         | None \<Rightarrow> Inl (missing_runtime_version (rs_project_dynamic_version (bs_config settings))))) (\<lambda>version.
     bindio (checksum_for_path A binary) (\<lambda>binary_checksum.
     bindio (lift_result (name_of binary)) (\<lambda>binary_name.
     bindio (lift_result (creation_timestamp (ar_sbom A))) (\<lambda>timestamp.
     bindio (lift_result (render_cyclonedx_sbom (ar_sbom A) (bs_runtime settings) (bs_artifact_name settings) version (bs_layout settings)
         platform binary_name packages timestamp)) (\<lambda>sbom_content.
     bindio (write_file (am_sbom M) (bytes_of_string sbom_content)) (\<lambda>_.
     bindio (checksums_for A ([am_lock M, am_package_list M, am_sbom M] @ (case bundle of None \<Rightarrow> [] | Some p \<Rightarrow> [p]))) (\<lambda>rest.
     write_info_and_checksums A settings stem version platform binary bundle M (length infos) (binary_checksum # rest))))))))))))"

section \<open>Publication\<close>

text \<open>The common body of \<open>retire_completion_marker\<close> and \<open>retire_obsolete_bundle\<close>.\<close>

definition retire_regular :: "path \<Rightarrow> path \<Rightarrow> string \<Rightarrow> unit io" where
  "retire_regular p retired msg =
     bindio (tryio (symlink_metadata p)) (\<lambda>kind. case kind of
       Inl e \<Rightarrow> if e = Not_Found then ret () else fail e
     | Inr k \<Rightarrow>
         bindio (ensure (k = Is_File) msg) (\<lambda>_.
         bindio (tryio (rename p retired)) (\<lambda>r. case r of
           Inr _ \<Rightarrow> ret ()
         | Inl e \<Rightarrow> if e = Not_Found then ret () else fail e)))"

definition retire_completion_marker :: "path \<Rightarrow> path \<Rightarrow> unit io" where
  "retire_completion_marker checksums staging_dir =
     retire_regular checksums (staging_dir @ [''.previous-sha256'']) ''completion marker is not a regular file''"

definition retire_obsolete_bundle :: "path \<Rightarrow> path \<Rightarrow> unit io" where
  "retire_obsolete_bundle bundle staging_dir =
     retire_regular bundle (staging_dir @ [''.previous-bundle'']) ''obsolete external bundle is not a regular file''"

text \<open>\<open>TempPath::persist\<close>: a rename; if it fails, the path is dropped and with it the staged file.\<close>

definition publish_staged_file :: "path \<Rightarrow> path \<Rightarrow> unit io" where
  "publish_staged_file staged published =
     bindio (tryio (rename staged published)) (\<lambda>r. case r of
       Inr _ \<Rightarrow> ret ()
     | Inl e \<Rightarrow> bindio (tryio (remove_file staged)) (\<lambda>_. fail e))"

fun publish_files :: "(path \<times> path) list \<Rightarrow> unit io" where
  "publish_files [] = ret ()"
| "publish_files ((staged, published) # rest) = bindio (publish_staged_file staged published) (\<lambda>_. publish_files rest)"

text \<open>In the order of the moves; the checksums follow last.\<close>

definition published_pairs :: "planned_paths \<Rightarrow> path option \<Rightarrow> artifact_metadata_paths \<Rightarrow> planned_paths \<Rightarrow> (path \<times> path) list" where
  "published_pairs staged_paths staged_bundle metadata paths =
     (case (staged_bundle, pp_bundle paths) of (Some staged, Some published) \<Rightarrow> [(staged, published)] | _ \<Rightarrow> [])
     @ [(am_lock metadata, pp_lock paths), (am_package_list metadata, pp_package_list paths), (am_sbom metadata, pp_sbom paths),
        (pp_binary staged_paths, pp_binary paths), (am_info metadata, pp_info paths)]"

definition publication_lock_path :: "path \<Rightarrow> string \<Rightarrow> path" where
  "publication_lock_path out_dir stem = out_dir @ [''.'' @ stem @ ''.conda-ship.publish.lock'']"

definition acquire_publication_lock :: "artifact_ext \<Rightarrow> path \<Rightarrow> string \<Rightarrow> unit io" where
  "acquire_publication_lock A out_dir stem =
     bindio (open_or_create (publication_lock_path out_dir stem)) (\<lambda>_. ar_lock A (publication_lock_path out_dir stem))"

definition publish_staged_artifact_set ::
    "artifact_ext \<Rightarrow> path \<Rightarrow> path \<Rightarrow> planned_paths \<Rightarrow> path option \<Rightarrow> artifact_metadata_paths \<Rightarrow> planned_paths \<Rightarrow> unit io" where
  "publish_staged_artifact_set A out_dir staging_dir staged_paths staged_bundle metadata paths =
     bindio (acquire_publication_lock A out_dir (pp_stem paths)) (\<lambda>_.
     bindio (retire_completion_marker (pp_checksums paths) staging_dir) (\<lambda>_.
     bindio (if pp_bundle paths = None then retire_obsolete_bundle (bundle_path out_dir (pp_stem paths)) staging_dir else ret ()) (\<lambda>_.
     bindio (publish_files (published_pairs staged_paths staged_bundle metadata paths)) (\<lambda>_.
     publish_staged_file (am_checksums metadata) (pp_checksums paths)))))"

section \<open>Stamping\<close>

definition ensure_runtime_template_reader :: "artifact_ext \<Rightarrow> path \<Rightarrow> unit io" where
  "ensure_runtime_template_reader A template =
     bindio (read_file template) (\<lambda>b. lift_result (validate_runtime_template_reader (ar_pe A) (ar_macho A) b))"

text \<open>\<open>append_to_binary\<close> on the file at \<open>p\<close>: its temporary file is not seen by others, so only the final rename shows.\<close>

definition replace_content :: "path \<Rightarrow> bytes \<Rightarrow> unit io" where
  "replace_content p b = atomic_op (\<lambda>s. case s p of Some (Regular _) \<Rightarrow> Inr ((), s(p \<mapsto> Regular b)) | _ \<Rightarrow> Inl Io_Failed)"

definition append_to_file :: "artifact_ext \<Rightarrow> path \<Rightarrow> runtime_header \<Rightarrow> path option \<Rightarrow> unit io" where
  "append_to_file A p header bundle =
     bindio (read_file p) (\<lambda>input.
     bindio (case bundle of None \<Rightarrow> ret None | Some q \<Rightarrow> bindio (read_file q) (\<lambda>b. ret (Some (ar_bundle_reads A q b)))) (\<lambda>reads.
     case append_to_binary (ar_codec A) (ar_pe A) (ar_macho A) ((ar_stamp_env A p)\<lparr>se_input := input\<rparr>) p header reads of
       (r, None) \<Rightarrow> lift_result r
     | (r, Some output) \<Rightarrow> bindio (replace_content p output) (\<lambda>_. lift_result r)))"

definition stamp_runtime_data ::
    "artifact_ext \<Rightarrow> path \<Rightarrow> build_settings \<Rightarrow> string \<Rightarrow> string \<Rightarrow> path option \<Rightarrow> unit io" where
  "stamp_runtime_data A binary settings platform content generated_bundle =
     bindio (ensure_runtime_template_reader A binary) (\<lambda>_.
     bindio (lift_result (stamp_header settings platform content)) (\<lambda>header.
     bindio (if bs_layout settings = Embedded
         then bindio (lift_result (ok_or ''embedded builds require a generated bundle'' generated_bundle)) (\<lambda>p. ret (Some p))
         else ret None) (\<lambda>embedded.
     append_to_file A binary header embedded)))"

definition ad_hoc_sign_macos :: "artifact_ext \<Rightarrow> path \<Rightarrow> string \<Rightarrow> unit io" where
  "ad_hoc_sign_macos A binary platform =
     (if ar_macos A \<and> ar_is_osx A platform then
        bindio (ar_codesign A [''--force'', ''--sign'', ''-''] binary) (\<lambda>ok.
        bindio (ensure ok ''codesign failed'') (\<lambda>_.
        bindio (ar_codesign A [''--verify'', ''--strict''] binary) (\<lambda>ok.
        ensure ok ''codesign verification failed'')))
      else ret ())"

section \<open>Staging\<close>

text \<open>\<open>std::fs::copy\<close>.\<close>

definition copy_file :: "path \<Rightarrow> path \<Rightarrow> unit io" where
  "copy_file p q = bindio (read_file p) (\<lambda>b. write_file q b)"

definition stage_bundle :: "bundle_layout \<Rightarrow> path option \<Rightarrow> path option \<Rightarrow> path option io" where
  "stage_bundle layout generated_bundle staged_bundle =
     (if layout = External_Bundle then
        bindio (lift_result (ok_or ''external builds require a generated bundle'' generated_bundle)) (\<lambda>p.
        bindio (lift_result (ok_or ''external builds have a planned bundle path'' staged_bundle)) (\<lambda>q.
        bindio (copy_file p q) (\<lambda>_. ret (Some q))))
      else ret None)"

definition stage_files ::
    "artifact_ext \<Rightarrow> path \<Rightarrow> planned_paths \<Rightarrow> path \<Rightarrow> build_settings \<Rightarrow> string \<Rightarrow> runtime_lock \<Rightarrow> string \<Rightarrow> path option
       \<Rightarrow> (path option \<times> artifact_metadata_paths) io" where
  "stage_files A staging staged_paths source_binary settings platform lock_file content generated_bundle =
     bindio (copy_file source_binary (pp_binary staged_paths)) (\<lambda>_.
     bindio (stamp_runtime_data A (pp_binary staged_paths) settings platform content generated_bundle) (\<lambda>_.
     bindio (ad_hoc_sign_macos A (pp_binary staged_paths) platform) (\<lambda>_.
     bindio (stage_bundle (bs_layout settings) generated_bundle (pp_bundle staged_paths)) (\<lambda>staged_bundle.
     bindio (write_artifact_metadata A staging (pp_stem staged_paths) settings platform (pp_binary staged_paths) staged_bundle lock_file content)
       (\<lambda>metadata. ret (staged_bundle, metadata))))))"

text \<open>The directory is a \<open>TempDir\<close>: it is removed when the function returns.\<close>

definition stage_artifacts ::
    "artifact_ext \<Rightarrow> path \<Rightarrow> build_settings \<Rightarrow> string option \<Rightarrow> string \<Rightarrow> string option \<Rightarrow> path \<Rightarrow> runtime_lock \<Rightarrow> string \<Rightarrow> path option
       \<Rightarrow> planned_paths io" where
  "stage_artifacts A source_binary settings target_label platform target out_dir lock_file content generated_bundle =
     bindio (create_dir_all out_dir) (\<lambda>_.
     let plan = (\<lambda>d. planned_artifact_paths (ar_windows A) d (bs_artifact_name settings) (bs_layout settings) target_label target);
         paths = plan out_dir in
     bindio (ar_staging_dir A out_dir) (\<lambda>staging.
     bindio (tryio (
       bindio (stage_files A staging (plan staging) source_binary settings platform lock_file content generated_bundle)
         (\<lambda>(staged_bundle, metadata).
       publish_staged_artifact_set A out_dir staging (plan staging) staged_bundle metadata paths))) (\<lambda>r.
     bindio (tryio (remove_dir_all (ar_interrupted A) staging)) (\<lambda>_.
     bindio (lift_result r) (\<lambda>_. ret paths)))))"

end
