(* ===== verification/Artifact_Safety.thy ===== *)
theory Artifact_Safety
  imports Artifact_Publish
begin

text \<open>
  Publication under faults: whenever the process stops, a checksum file at its published name means that either nothing of
  the previous release has been touched or the whole new release is in place, and the checksums are those of the
  files beside it.
\<close>

section \<open>Single steps\<close>

lemma wp_write_file:
  assumes "Q () (s(p \<mapsto> Regular b))" and "\<And>e t. unchanged_outside {p} s t \<Longrightarrow> E e t" "\<And>t. unchanged_outside {p} s t \<Longrightarrow> C t"
  shows "wp (write_file p b) Q E C s"
  unfolding write_file_def
proof (intro wp_bindio wp_create_truncate conjI)
  show "wp (write_all p b) Q E C (s(p \<mapsto> Regular []))"
    by (rule wp_write_all) (simp_all add: append_bytes_def assms unchanged_outside_def)
qed (use assms(2,3) in \<open>simp_all add: unchanged_outside_def\<close>)

lemma wp_rename_present:
  assumes "s p = Some n" "n \<noteq> Directory" "parent_exists s q"
    and "Q () (s(p := None, q \<mapsto> n))" "C (s(p := None, q \<mapsto> n))" and "E Io_Failed s" "C s"
  shows "wp (rename p q) Q E C s"
  unfolding rename_def using assms by (intro wp_atomic_op) (auto split: if_splits option.splits node.splits)

lemma wp_retire_regular:
  assumes parent: "parent_exists s retired" and apart: "p \<noteq> retired"
    and gone: "\<And>t. t p = None \<Longrightarrow> unchanged_outside {p, retired} s t \<Longrightarrow> Q () t \<and> C t" and same: "\<And>e. E e s" "C s"
  shows "wp (retire_regular p retired msg) Q E C s"
  unfolding retire_regular_def
proof (intro wp_bindio wp_tryio wp_symlink_metadata)
  fix n assume n: "s p = Some n"
  have moved: "Q () (s(p := None, retired \<mapsto> m)) \<and> C (s(p := None, retired \<mapsto> m))" for m
    using apart by (intro gone) (simp_all add: unchanged_outside_def)
  have "wp (rename p retired) (\<lambda>x. wp (case Inr x of Inr _ \<Rightarrow> ret () | Inl e \<Rightarrow> if e = Not_Found then ret () else fail e) Q E C)
      (\<lambda>e. wp (case Inl e of Inr _ \<Rightarrow> ret () | Inl e \<Rightarrow> if e = Not_Found then ret () else fail e) Q E C) C s" if "node_kind n = Is_File"
    by (rule wp_rename_present [where s = s and p = p and n = n]) (use n that parent moved same in \<open>auto simp: node_kind_def intro!: wp_ret wp_fail split: node.splits\<close>)
  then show "wp (case Inr (node_kind n) of Inl e \<Rightarrow> if e = Not_Found then ret () else fail e
      | Inr k \<Rightarrow> bindio (ensure (k = Is_File) msg) (\<lambda>_. bindio (tryio (rename p retired)) (\<lambda>r. case r of
           Inr _ \<Rightarrow> ret () | Inl e \<Rightarrow> if e = Not_Found then ret () else fail e))) Q E C s"
    by (auto intro!: wp_bindio wp_tryio wp_ensure same)
next
  assume "s p = None"
  then show "wp (case Inl Not_Found of Inl e \<Rightarrow> if e = Not_Found then ret () else fail e
      | Inr k \<Rightarrow> bindio (ensure (k = Is_File) msg) (\<lambda>_. bindio (tryio (rename p retired)) (\<lambda>r. case r of
           Inr _ \<Rightarrow> ret () | Inl e \<Rightarrow> if e = Not_Found then ret () else fail e))) Q E C s"
    using gone [of s] by (simp add: wp_ret)
qed (auto intro!: wp_fail same)

lemma wp_publish_staged_file:
  assumes "\<And>n. s a = Some n \<Longrightarrow> Q () (s(a := None, b \<mapsto> n)) \<and> C (s(a := None, b \<mapsto> n))"
    and "\<And>e. E e s" "\<And>e. E e (s(a := None))" "C s" "C (s(a := None))"
  shows "wp (publish_staged_file a b) Q E C s"
  unfolding publish_staged_file_def
  by (auto intro!: wp_bindio wp_tryio wp_rename wp_ret wp_remove_file wp_fail assms(2-5) simp: assms(1))

text \<open>The staged files are where they should be, or the sequence has failed.\<close>

definition published_all :: "(path \<times> path) list \<Rightarrow> fs \<Rightarrow> fs \<Rightarrow> bool" where
  "published_all pairs s t \<longleftrightarrow> (\<forall>(a, b) \<in> set pairs. s a \<noteq> None \<and> t b = s a)"

definition pair_paths :: "(path \<times> path) list \<Rightarrow> path set" where
  "pair_paths pairs = set (map fst pairs) \<union> set (map snd pairs)"

lemma pair_paths_simps [simp]: "pair_paths [] = {}" "pair_paths ((a, b) # ps) = insert a (insert b (pair_paths ps))"
  by (auto simp: pair_paths_def)

lemma wp_publish_files:
  assumes "distinct (map fst pairs @ map snd pairs)"
    and "\<And>t. published_all pairs s t \<Longrightarrow> unchanged_outside (pair_paths pairs) s t \<Longrightarrow> Q () t"
    and "\<And>t. unchanged_outside (pair_paths pairs) s t \<Longrightarrow> (\<forall>e. E e t) \<and> C t"
  shows "wp (publish_files pairs) Q E C s"
  using assms
proof (induction pairs arbitrary: s)
  case Nil
  then show ?case by (simp add: wp_ret published_all_def)
next
  case (Cons pair rest)
  obtain a b where pair: "pair = (a, b)" by fastforce
  from Cons.prems(1) have apart: "a \<noteq> b" "a \<notin> pair_paths rest" "b \<notin> pair_paths rest" "distinct (map fst rest @ map snd rest)"
    by (auto simp: pair pair_paths_def)
  have stopped: "(\<forall>e. E e t) \<and> C t" if "unchanged_outside (insert a (insert b (pair_paths rest))) s t" for t
    using Cons.prems(3) that by (simp add: pair)
  have rest: "wp (publish_files rest) Q E C (s(a := None, b \<mapsto> n))" if n: "s a = Some n" for n
  proof (rule Cons.IH [OF apart(4)])
    fix t assume t: "published_all rest (s(a := None, b \<mapsto> n)) t" "unchanged_outside (pair_paths rest) (s(a := None, b \<mapsto> n)) t"
    have "t b = Some n" "t a = None" using unchanged_outsideD [OF t(2) apart(3)] unchanged_outsideD [OF t(2) apart(2)] apart(1) by simp_all
    moreover have "published_all rest s t"
      unfolding published_all_def
    proof (clarify)
      fix x y assume xy: "(x, y) \<in> set rest"
      then have "x \<noteq> a" "x \<noteq> b" using apart(2,3) by (force simp: pair_paths_def)+
      with t(1) xy show "s x \<noteq> None \<and> t y = s x" by (force simp: published_all_def)
    qed
    ultimately show "Q () t"
      using n t(2) by (intro Cons.prems(2)) (auto simp: pair published_all_def unchanged_outside_def)
  next
    fix t assume "unchanged_outside (pair_paths rest) (s(a := None, b \<mapsto> n)) t"
    then show "(\<forall>e. E e t) \<and> C t" by (intro stopped) (simp add: unchanged_outside_def)
  qed
  show ?case
    unfolding pair publish_files.simps
  proof (intro wp_bindio wp_publish_staged_file conjI)
    show "C (s(a := None, b \<mapsto> n))" "E e (s(a := None))" "C (s(a := None))" "E e s" "C s" for n e
      using stopped [of "s(a := None, b \<mapsto> n)"] stopped [of "s(a := None)"] stopped [of s] by (simp_all add: unchanged_outside_def)
  qed (rule rest)
qed


section \<open>Publishing a set\<close>

text \<open>
  What a reader can see: no checksum file, the previous release as it was, or the staged files in their places (and no
  bundle of an earlier release in another layout).
\<close>

definition release_complete :: "(path \<times> path) list \<Rightarrow> path option \<Rightarrow> fs \<Rightarrow> fs \<Rightarrow> bool" where
  "release_complete pairs obsolete s t \<longleftrightarrow> published_all pairs s t \<and> (case obsolete of None \<Rightarrow> True | Some b \<Rightarrow> t b = None)"

definition release_consistent :: "path \<Rightarrow> (path \<times> path) list \<Rightarrow> path option \<Rightarrow> fs \<Rightarrow> fs \<Rightarrow> bool" where
  "release_consistent c pairs obsolete s t \<longleftrightarrow>
     t c = None \<or> (\<forall>p \<in> set (map snd pairs) \<union> set_option obsolete. t p = s p) \<or> release_complete pairs obsolete s t"

lemma release_consistent_cases:
  "t c = None \<Longrightarrow> release_consistent c pairs obsolete s t"
  "release_complete pairs obsolete s t \<Longrightarrow> release_consistent c pairs obsolete s t"
  "unchanged_outside P s t \<Longrightarrow> P \<inter> (set (map snd pairs) \<union> set_option obsolete) = {} \<Longrightarrow> release_consistent c pairs obsolete s t"
  by (auto simp: release_consistent_def unchanged_outside_def disjoint_iff)

lemma stays_acquire: "stays (ar_lock A (publication_lock_path out stem)) {} \<Longrightarrow> stays (acquire_publication_lock A out stem) {publication_lock_path out stem}"
  unfolding acquire_publication_lock_def by (auto intro!: stays_intros elim: stays_mono)

lemma parent_exists_below: "s d = Some Directory \<Longrightarrow> parent_exists s (d @ [x])"
  by (simp add: parent_exists_def parent_def follow_def)

lemma wp_publish_set:
  fixes A out staging staged_paths staged_bundle metadata paths
  defines "pairs \<equiv> published_pairs staged_paths staged_bundle metadata paths"
    and "c \<equiv> pp_checksums paths" and "sc \<equiv> am_checksums metadata" and "lk \<equiv> publication_lock_path out (pp_stem paths)"
    and "rc \<equiv> staging @ [''.previous-sha256'']" and "rb \<equiv> staging @ [''.previous-bundle'']"
    and "obsolete \<equiv> (if pp_bundle paths = None then Some (bundle_path out (pp_stem paths)) else None)"
  defines "F \<equiv> pair_paths pairs \<union> set_option obsolete \<union> {sc, c, lk, rc, rb}"
  assumes apart: "distinct (map fst pairs @ map snd pairs @ [sc, c, lk, rc, rb, staging])"
    and bapart: "set_option obsolete \<inter> (pair_paths pairs \<union> {sc, c, lk, rc, rb, staging}) = {}"
    and dir: "s staging = Some Directory" and lock: "stays (ar_lock A lk) {}"
  shows "wp (publish_staged_artifact_set A out staging staged_paths staged_bundle metadata paths)
     (\<lambda>_ t. release_complete (pairs @ [(sc, c)]) obsolete s t \<and> unchanged_outside F s t)
     (\<lambda>_ t. release_consistent c (pairs @ [(sc, c)]) obsolete s t \<and> unchanged_outside F s t)
     (\<lambda>t. release_consistent c (pairs @ [(sc, c)]) obsolete s t \<and> unchanged_outside F s t) s"
    (is "wp _ ?Q ?E ?C s")
proof -
  have pair_sets: "sc \<notin> pair_paths pairs" "c \<notin> pair_paths pairs" "lk \<notin> pair_paths pairs" "rc \<notin> pair_paths pairs" "rb \<notin> pair_paths pairs"
    "staging \<notin> pair_paths pairs"
    and pairs_distinct: "distinct (map fst pairs @ map snd pairs)"
    and single: "sc \<noteq> c" "lk \<noteq> sc" "lk \<noteq> c" "rc \<noteq> sc" "rc \<noteq> c" "rb \<noteq> sc" "rb \<noteq> c" "lk \<noteq> staging" "c \<noteq> staging" "rc \<noteq> staging"
    using apart by (auto simp: pair_paths_def)
  have single': "sc \<notin> {lk, c, rc, rb}" using single by auto
  have bset: "x \<notin> set_option obsolete" if "x \<in> pair_paths pairs \<or> x = sc" for x using that bapart by auto
  have pset: "x \<notin> {lk, c, rc, rb}" if "x \<in> pair_paths pairs" for x using that pair_sets by auto
  have old: "{lk} \<inter> (set (map snd (pairs @ [(sc, c)])) \<union> set_option obsolete) = {}"
    using pair_sets(3) single(3) bapart by (auto simp: pair_paths_def)
  have early: "(\<forall>e. ?E e t) \<and> ?C t" if "unchanged_outside {lk} s t" for t
    using that release_consistent_cases(3) [OF that old] by (auto intro: unchanged_outside_mono simp: F_def)
  have gone: "(\<forall>e. ?E e t) \<and> ?C t" if "t c = None" "unchanged_outside F s t" for t
    using that by (simp add: release_consistent_cases(1))
  have files: "wp (bindio (publish_files pairs) (\<lambda>_. publish_staged_file sc c)) ?Q ?E ?C t"
    if t: "t c = None" "unchanged_outside ({lk, c, rc, rb} \<union> set_option obsolete) s t" "\<forall>b. obsolete = Some b \<longrightarrow> t b = None" for t
  proof (rule wp_bindio, rule wp_publish_files [OF pairs_distinct])
    fix u assume u: "published_all pairs t u" "unchanged_outside (pair_paths pairs) t u"
    have frame: "unchanged_outside F s u"
      by (rule unchanged_outside_trans [OF unchanged_outside_mono [OF t(2)] unchanged_outside_mono [OF u(2)]]) (auto simp: F_def)
    have src: "t a = s a" if "a \<in> insert sc (fst ` set pairs)" for a
    proof (rule unchanged_outsideD [OF t(2)])
      from that have "a \<in> pair_paths pairs \<or> a = sc" by (auto simp: pair_paths_def)
      with bset pset single' show "a \<notin> {lk, c, rc, rb} \<union> set_option obsolete" unfolding Un_iff by metis
    qed
    have u_sc: "u sc = s sc" and u_c: "u c = None"
      using unchanged_outsideD [OF u(2) pair_sets(1)] unchanged_outsideD [OF u(2) pair_sets(2)] src t(1) by simp_all
    have all: "published_all pairs s (u(sc := None, c \<mapsto> n))" for n
      unfolding published_all_def
    proof clarify
      fix a p assume ap: "(a, p) \<in> set pairs"
      then have "fst (a, p) \<in> fst ` set pairs" "snd (a, p) \<in> snd ` set pairs" by (blast intro: imageI)+
      then have "a \<in> insert sc (fst ` set pairs)" "p \<in> pair_paths pairs" by (simp_all add: pair_paths_def)
      then have "t a = s a" "p \<noteq> sc" "p \<noteq> c" using src pair_sets(1,2) by blast+
      moreover have "t a \<noteq> None \<and> u p = t a" using u(1) ap by (auto simp: published_all_def)
      ultimately show "s a \<noteq> None \<and> (u(sc := None, c \<mapsto> n)) p = s a" by simp
    qed
    have bundle_gone: "case obsolete of None \<Rightarrow> True | Some b \<Rightarrow> (u(sc := None, c \<mapsto> n)) b = None" for n
    proof (cases obsolete)
      case (Some b)
      with bapart have "b \<notin> pair_paths pairs" "b \<noteq> sc" "b \<noteq> c" by auto
      with Some t(3) unchanged_outsideD [OF u(2)] show ?thesis by simp
    qed simp
    show "wp (publish_staged_file sc c) ?Q ?E ?C u"
    proof (rule wp_publish_staged_file)
      fix n assume "u sc = Some n"
      then have "s sc = Some n" using u_sc by simp
      then have "release_complete (pairs @ [(sc, c)]) obsolete s (u(sc := None, c \<mapsto> n))"
        using all [of n] bundle_gone [of n] by (simp add: release_complete_def published_all_def)
      moreover have "unchanged_outside F s (u(sc := None, c \<mapsto> n))" using frame by (simp add: F_def)
      ultimately show "?Q () (u(sc := None, c \<mapsto> n)) \<and> ?C (u(sc := None, c \<mapsto> n))"
        by (simp add: release_consistent_cases(2))
    qed (use gone [of u] gone [of "u(sc := None)"] u_c frame single(1) in \<open>simp_all add: F_def\<close>)
  next
    fix u assume u: "unchanged_outside (pair_paths pairs) t u"
    have "unchanged_outside F s u"
      by (rule unchanged_outside_trans [OF unchanged_outside_mono [OF t(2)] unchanged_outside_mono [OF u]]) (auto simp: F_def)
    with unchanged_outsideD [OF u pair_sets(2)] t(1) show "(\<forall>e. ?E e u) \<and> ?C u" by (intro gone) simp_all
  qed
  have obsolete: "wp (bindio (if pp_bundle paths = None then retire_obsolete_bundle (bundle_path out (pp_stem paths)) staging else ret ())
      (\<lambda>_. bindio (publish_files pairs) (\<lambda>_. publish_staged_file sc c))) ?Q ?E ?C t"
    if t: "t c = None" "unchanged_outside {lk, c, rc} s t" for t
  proof (cases obsolete)
    case None
    then have external: "pp_bundle paths \<noteq> None" by (auto simp: obsolete_def split: if_splits)
    have "wp (bindio (publish_files pairs) (\<lambda>_. publish_staged_file sc c)) ?Q ?E ?C t"
      by (rule files) (use t None in \<open>auto elim: unchanged_outside_mono\<close>)
    then show ?thesis unfolding if_not_P [OF external] bindio_ret .
  next
    case (Some b)
    then have b: "pp_bundle paths = None" "b = bundle_path out (pp_stem paths)" by (auto simp: obsolete_def split: if_splits)
    from bapart Some have b_apart: "b \<notin> pair_paths pairs" "b \<noteq> c" "b \<noteq> rb" by auto
    have "t staging = Some Directory" using unchanged_outsideD [OF t(2), of staging] single dir by simp
    then have parent: "parent_exists t rb" unfolding rb_def by (rule parent_exists_below)
    have same: "(\<forall>e. ?E e t) \<and> ?C t" 
      using t(1) unchanged_outside_mono [OF t(2), of F] by (intro gone) (simp_all add: F_def)
    show ?thesis
      unfolding retire_obsolete_bundle_def b(1) rb_def [symmetric] b(2) [symmetric] if_P [OF refl]
    proof (rule wp_bindio, rule wp_retire_regular [OF parent b_apart(3)])
      fix u assume u: "u b = None" "unchanged_outside {b, rb} t u"
      have keep: "u c = None" using unchanged_outsideD [OF u(2), of c] b_apart single t(1) by simp
      have frame: "unchanged_outside ({lk, c, rc, rb} \<union> set_option obsolete) s u"
        by (rule unchanged_outside_trans [OF unchanged_outside_mono [OF t(2)] unchanged_outside_mono [OF u(2)]]) (auto simp: Some)
      then have "unchanged_outside F s u" by (rule unchanged_outside_mono) (auto simp: F_def)
      with keep have "(\<forall>e. ?E e u) \<and> ?C u" by (intro gone)
      moreover have "wp (bindio (publish_files pairs) (\<lambda>_. publish_staged_file sc c)) ?Q ?E ?C u"
        using keep frame u(1) Some by (intro files) simp_all
      ultimately
      show "wp (bindio (publish_files pairs) (\<lambda>_. publish_staged_file sc c)) ?Q ?E ?C u \<and> ?C u" by simp
    qed (use same in simp_all)
  qed
  show ?thesis
    unfolding publish_staged_artifact_set_def pairs_def [symmetric] sc_def [symmetric] c_def [symmetric]
  proof (rule wp_bindio_stays [OF stays_acquire [OF lock [unfolded lk_def]]])
    fix t assume t: "unchanged_outside {publication_lock_path out (pp_stem paths)} s t"
    then have t: "unchanged_outside {lk} s t" by (simp add: lk_def)
    have "t staging = Some Directory" using unchanged_outsideD [OF t, of staging] single dir by simp
    then have parent: "parent_exists t rc" unfolding rc_def by (rule parent_exists_below)
    show "wp (bindio (retire_completion_marker c staging)
        (\<lambda>_. bindio (if pp_bundle paths = None then retire_obsolete_bundle (bundle_path out (pp_stem paths)) staging else ret ())
        (\<lambda>_. bindio (publish_files pairs) (\<lambda>_. publish_staged_file sc c)))) ?Q ?E ?C t"
      unfolding retire_completion_marker_def rc_def [symmetric]
    proof (rule wp_bindio, rule wp_retire_regular [OF parent single(5) [symmetric]])
      fix u assume u: "u c = None" "unchanged_outside {c, rc} t u"
      have frame: "unchanged_outside {lk, c, rc} s u"
        by (rule unchanged_outside_trans [OF unchanged_outside_mono [OF t] unchanged_outside_mono [OF u(2)]]) auto
      then have "unchanged_outside F s u" by (rule unchanged_outside_mono) (auto simp: F_def)
      with u(1) have "(\<forall>e. ?E e u) \<and> ?C u" by (intro gone)
      moreover have "wp (bindio (if pp_bundle paths = None then retire_obsolete_bundle (bundle_path out (pp_stem paths)) staging else ret ())
          (\<lambda>_. bindio (publish_files pairs) (\<lambda>_. publish_staged_file sc c))) ?Q ?E ?C u"
        using u(1) frame by (intro obsolete)
      ultimately
      show "wp (bindio (if pp_bundle paths = None then retire_obsolete_bundle (bundle_path out (pp_stem paths)) staging else ret ())
          (\<lambda>_. bindio (publish_files pairs) (\<lambda>_. publish_staged_file sc c))) ?Q ?E ?C u \<and> ?C u" by simp
    qed (use early [OF t] in simp_all)
  next
    fix t assume "unchanged_outside {publication_lock_path out (pp_stem paths)} s t"
    then show "(\<forall>e. ?E e t) \<and> ?C t" by (intro early) (simp add: lk_def)
  qed
qed


section \<open>The checksum file\<close>

definition listed :: "artifact_ext \<Rightarrow> fs \<Rightarrow> path \<Rightarrow> artifact_checksum \<Rightarrow> bool" where
  "listed A s p c \<longleftrightarrow> (\<exists>b. s p = Some (Regular b) \<and> file_name p = Some (ac_path c)
     \<and> ac_sha256 c = hex (sha256 (ar_codec A) b) \<and> ac_bytes c = length b)"

lemma listed_frame: "listed A s p c \<Longrightarrow> t p = s p \<Longrightarrow> listed A t p c"
  by (simp add: listed_def)

lemma wp_checksum_for_path:
  assumes "s p = Some (Regular b)" "\<And>c. listed A s p c \<Longrightarrow> Q c s" "\<And>e. E e s" "C s"
  shows "wp (checksum_for_path A p) Q E C s"
  unfolding checksum_for_path_def
  using assms by (intro wp_bindio wp_read_file wp_lift_result wp_ret) (auto simp: follow_def listed_def success_simps)

lemma wp_checksums_for:
  assumes "\<forall>p \<in> set ps. \<exists>b. s p = Some (Regular b)" "\<And>cs. list_all2 (listed A s) ps cs \<Longrightarrow> Q cs s" "\<And>e. E e s" "C s"
  shows "wp (checksums_for A ps) Q E C s"
  using assms
proof (induction ps arbitrary: Q)
  case (Cons p ps)
  then obtain b where "s p = Some (Regular b)" by auto
  then show ?case
    unfolding checksums_for.simps
  proof (intro wp_bindio wp_checksum_for_path)
    fix c assume c: "listed A s p c"
    show "wp (checksums_for A ps) (\<lambda>cs. wp (ret (c # cs)) Q E C) E C s"
      by (rule Cons.IH) (use Cons.prems c in \<open>auto intro!: wp_ret\<close>)
  qed (use Cons.prems in auto)
qed (simp add: wp_ret)

text \<open>The checksum file at \<open>checks\<close> is exactly the sorted list of the digests of \<open>ps\<close>.\<close>

definition checksums_genuine :: "artifact_ext \<Rightarrow> path list \<Rightarrow> path \<Rightarrow> fs \<Rightarrow> bool" where
  "checksums_genuine A ps checks t \<longleftrightarrow> (\<exists>cs. list_all2 (listed A t) ps cs
     \<and> t checks = Some (Regular (bytes_of_string (render_checksums (sort_key ac_path cs)))))"

lemma artifact_info_checksums: "artifact_info_of st stem v platform b bd l pl sb n cs = Inr doc \<Longrightarrow> ai_checksums doc = cs"
  by (auto simp: artifact_info_of_def success_simps)

definition metadata_set :: "artifact_metadata_paths \<Rightarrow> path set" where
  "metadata_set M = {am_lock M, am_package_list M, am_sbom M, am_info M, am_checksums M}"

lemma metadata_apart: "distinct [am_lock (metadata_paths_in d x), am_package_list (metadata_paths_in d x), am_sbom (metadata_paths_in d x),
    am_info (metadata_paths_in d x), am_checksums (metadata_paths_in d x)]"
  by (simp add: metadata_paths_in_def)

lemma unchanged_outside_step:
  "unchanged_outside W s t \<Longrightarrow> unchanged_outside {p} t u \<Longrightarrow> p \<in> W \<Longrightarrow> unchanged_outside W s u"
  by (auto simp: unchanged_outside_def)

lemma wp_write_info_and_checksums:
  assumes cs: "list_all2 (listed A u) ps cs" and apart: "am_info M \<notin> set ps" "am_checksums M \<notin> set ps" "am_info M \<noteq> am_checksums M"
    and W: "am_info M \<in> W" "am_checksums M \<in> W" and u: "unchanged_outside W s u"
  shows "wp (write_info_and_checksums A settings stem version platform binary bd M n cs)
     (\<lambda>M' t. M' = M \<and> checksums_genuine A (ps @ [am_info M]) (am_checksums M) t \<and> unchanged_outside W s t)
     (\<lambda>_. unchanged_outside W s) (unchanged_outside W s) u"
    (is "wp _ ?Q ?E ?C u")
  unfolding write_info_and_checksums_def
proof (intro wp_bindio wp_lift_result wp_write_file)
  fix doc json
  assume "artifact_info_of settings stem version platform binary bd (am_lock M) (am_package_list M) (am_sbom M) n cs = Inr doc"
  then have doc: "ai_checksums doc = cs" by (rule artifact_info_checksums)
  let ?u = "u(am_info M \<mapsto> Regular (bytes_of_string (json @ [lf])))"
  show "wp (checksum_for_path A (am_info M)) (\<lambda>c. wp (bindio (write_checksums (am_checksums M) (sort_key ac_path (ai_checksums doc @ [c])))
      (\<lambda>_. ret M)) ?Q ?E ?C) ?E ?C ?u"
  proof (rule wp_checksum_for_path)
    fix c assume c: "listed A ?u (am_info M) c"
    show "wp (bindio (write_checksums (am_checksums M) (sort_key ac_path (ai_checksums doc @ [c]))) (\<lambda>_. ret M)) ?Q ?E ?C ?u"
      unfolding write_checksums_def doc
    proof (rule wp_bindio, rule wp_write_file)
      let ?t = "?u(am_checksums M \<mapsto> Regular (bytes_of_string (render_checksums (sort_key ac_path (cs @ [c])))))"
      have "list_all2 (listed A ?t) ps cs"
        using cs by (rule list.rel_mono_strong) (use apart in \<open>auto intro: listed_frame\<close>)
      moreover have "listed A ?t (am_info M) c" using c apart by (auto intro: listed_frame)
      ultimately have "list_all2 (listed A ?t) (ps @ [am_info M]) (cs @ [c])" by (intro list_all2_appendI) auto
      then show "wp (ret M) ?Q ?E ?C ?t"
        using u W by (intro wp_ret conjI) (auto simp: checksums_genuine_def)
    qed (use unchanged_outside_step [OF _ _ W(2), of s ?u] u W in simp_all)
  qed (use u W in simp_all)
qed (use u W in \<open>auto intro: unchanged_outside_step\<close>)

lemma wp_write_artifact_metadata:
  fixes out stem
  defines "M \<equiv> metadata_paths_in out stem"
  assumes binary: "s binary = Some (Regular b)" "binary \<notin> metadata_set M"
    and bd: "\<And>q. bd = Some q \<Longrightarrow> q \<notin> metadata_set M \<and> (\<exists>b. s q = Some (Regular b))"
  shows "wp (write_artifact_metadata A out stem settings platform binary bd lock_file content)
     (\<lambda>M' t. M' = M \<and> checksums_genuine A (([binary, am_lock M, am_package_list M, am_sbom M] @ (case bd of None \<Rightarrow> [] | Some q \<Rightarrow> [q])) @ [am_info M])
        (am_checksums M) t \<and> unchanged_outside (metadata_set M) s t)
     (\<lambda>_. unchanged_outside (metadata_set M) s) (unchanged_outside (metadata_set M) s) s"
    (is "wp _ ?Q ?E ?C s")
proof -
  note apart = metadata_apart [of out stem, folded M_def]
  let ?bundles = "case bd of None \<Rightarrow> [] | Some q \<Rightarrow> [q]"
  have bundles: "\<forall>q \<in> set ?bundles. q \<notin> metadata_set M \<and> (\<exists>b. s q = Some (Regular b))" using bd by (auto split: option.splits)
  have mem: "am_lock M \<in> metadata_set M" "am_package_list M \<in> metadata_set M" "am_sbom M \<in> metadata_set M" by (simp_all add: metadata_set_def)
  have zero: "unchanged_outside (metadata_set M) s (s(am_lock M \<mapsto> n))" for n using mem(1) by simp
  show ?thesis
    unfolding write_artifact_metadata_def Let_def M_def [symmetric]
  proof (intro wp_bindio wp_lift_result wp_write_file, goal_cases)
    case (1 packages infos version)
    let ?t = "s(am_lock M \<mapsto> Regular (bytes_of_string content), am_package_list M \<mapsto> Regular (bytes_of_string (render_package_list infos)))"
    have first: "unchanged_outside (metadata_set M) s ?t" by (simp add: metadata_set_def)
    show ?case
    proof (rule wp_checksum_for_path [where b = b], goal_cases)
      case 1
      then show ?case using binary by (simp add: metadata_set_def)
    next
      case (2 c)
      show ?case
      proof (intro wp_bindio wp_lift_result wp_write_file, goal_cases)
        case (1 binary_name timestamp sbom_content)
        let ?u = "?t(am_sbom M \<mapsto> Regular (bytes_of_string sbom_content))"
        have u: "unchanged_outside (metadata_set M) s ?u" by (simp add: metadata_set_def)
        show ?case
        proof (rule wp_checksums_for, goal_cases)
          case 1
          then show ?case using bundles apart by (auto simp: metadata_set_def)
        next
          case rest: (2 rest)
          have "listed A ?u binary c" using 2 binary(2) by (auto intro: listed_frame simp: metadata_set_def)
          with rest have "list_all2 (listed A ?u) ([binary, am_lock M, am_package_list M, am_sbom M] @ ?bundles) (c # rest)" by simp
          then show ?case
            by (rule wp_write_info_and_checksums) (use u apart binary(2) bundles in \<open>auto simp: metadata_set_def\<close>)
        qed (use u in auto)
      qed (use first unchanged_outside_step [OF first _ mem(3)] in simp_all)
    qed (simp_all add: metadata_set_def)
  qed (use mem unchanged_outside_step [OF zero _ mem(2)] unchanged_outside_step [OF unchanged_outside_refl _ mem(1)] in simp_all)
qed


section \<open>What the staging relies on\<close>

definition staging_names :: "path \<Rightarrow> path set" where
  "staging_names out = {out @ [''.conda-ship-'' @ x] | x. list_all is_ascii_alphanumeric x}"

text \<open>
  The lock changes no file; \<open>codesign\<close> rewrites the executable it is given; a temporary directory is new, and its name is the
  prefix with random letters and digits.
\<close>

definition artifact_laws :: "artifact_ext \<Rightarrow> bool" where
  "artifact_laws A \<longleftrightarrow> (\<forall>p. stays (ar_lock A p) {})
     \<and> (\<forall>args p s b. s p = Some (Regular b) \<longrightarrow> wp (ar_codesign A args p)
          (\<lambda>_ t. (\<exists>b. t p = Some (Regular b)) \<and> unchanged_outside {p} s t) (\<lambda>_. unchanged_outside {p} s) (unchanged_outside {p} s) s)
     \<and> (\<forall>out s. wp (ar_staging_dir A out) (\<lambda>p t. p \<in> staging_names out \<and> t p = Some Directory \<and> unchanged_outside {p} s t)
          (\<lambda>_. unchanged_outside (staging_names out) s) (unchanged_outside (staging_names out) s) s)"

lemma artifact_lawsD:
  assumes "artifact_laws A"
  shows "stays (ar_lock A p) {}"
    and "s p = Some (Regular b) \<Longrightarrow> wp (ar_codesign A args p)
          (\<lambda>_ t. (\<exists>b. t p = Some (Regular b)) \<and> unchanged_outside {p} s t) (\<lambda>_. unchanged_outside {p} s) (unchanged_outside {p} s) s"
    and "wp (ar_staging_dir A out) (\<lambda>p t. p \<in> staging_names out \<and> t p = Some Directory \<and> unchanged_outside {p} s t)
          (\<lambda>_. unchanged_outside (staging_names out) s) (unchanged_outside (staging_names out) s) s"
  using assms unfolding artifact_laws_def by blast+

section \<open>Staging the files\<close>

definition reads_back :: "artifact_ext \<Rightarrow> bytes \<Rightarrow> runtime_header \<Rightarrow> bool" where
  "reads_back A b h \<longleftrightarrow> (\<exists>p data. read_from_file (ar_codec A) (ar_pe A) (ar_macho A) p b = Inr (Some data) \<and> rd_header data = h
     \<and> (case rd_bundle data of None \<Rightarrow> True | Some e \<Rightarrow> verify_bundle (ar_codec A) b e = Inr ()))"

lemma append_reads_back:
  assumes "append_to_binary (ar_codec A) (ar_pe A) (ar_macho A) env p h bd = (Inr (), Some b)"
  shows "reads_back A b h"
proof -
  from assms have "stamp_temporary (ar_codec A) (ar_pe A) (ar_macho A) env p h bd = Inr b"
    by (auto simp: append_to_binary_def split: sum.splits if_splits)
  then obtain n where "check_stamp (ar_codec A) (ar_pe A) (ar_macho A) p b h n = Inr ()" by (rule stamp_temporary_Inr)
  then show ?thesis
    by (rule check_stamp_Inr) (auto simp: reads_back_def split: option.splits)
qed

lemma append_not_silent: "append_to_binary X P M env p h bd \<noteq> (Inr (), None)"
  by (auto simp: append_to_binary_def split: sum.splits)

lemma wp_append_to_file:
  assumes "s p = Some (Regular input)"
  shows "wp (append_to_file A p h bd) (\<lambda>_ t. \<exists>b. t = s(p \<mapsto> Regular b) \<and> reads_back A b h)
     (\<lambda>_. unchanged_outside {p} s) (unchanged_outside {p} s) s"
proof -
  have stamped: "wp (case append_to_binary (ar_codec A) (ar_pe A) (ar_macho A) env p h reads of
       (r, None) \<Rightarrow> lift_result r
     | (r, Some output) \<Rightarrow> bindio (replace_content p output) (\<lambda>_. lift_result r))
     (\<lambda>_ t. \<exists>b. t = s(p \<mapsto> Regular b) \<and> reads_back A b h) (\<lambda>_. unchanged_outside {p} s) (unchanged_outside {p} s) s" for env reads
    using append_not_silent [of "ar_codec A" "ar_pe A" "ar_macho A" env p h reads]
    unfolding replace_content_def
    by (auto intro!: wp_bindio wp_atomic_op wp_lift_result exI [where P = "\<lambda>b. s(p \<mapsto> Regular _) = s(p \<mapsto> Regular b) \<and> _ b"]
        append_reads_back simp: assms split: prod.split option.split)
  show ?thesis
    unfolding append_to_file_def
    by (cases bd) (auto intro!: wp_bindio wp_read_file wp_ret stamped simp: bindio_assoc)
qed

lemma wp_copy_file:
  assumes "\<And>b. Q () (s(q \<mapsto> Regular b))" "\<And>e t. unchanged_outside {q} s t \<Longrightarrow> E e t" "\<And>t. unchanged_outside {q} s t \<Longrightarrow> C t"
  shows "wp (copy_file p q) Q E C s"
  unfolding copy_file_def using assms by (auto intro!: wp_bindio wp_read_file wp_write_file)

text \<open>The stamp is the one of the settings, unless the executable has been signed since.\<close>

definition stamped_as :: "artifact_ext \<Rightarrow> build_settings \<Rightarrow> string \<Rightarrow> string \<Rightarrow> fs \<Rightarrow> path \<Rightarrow> bool" where
  "stamped_as A settings platform content t p \<longleftrightarrow> (\<exists>b. t p = Some (Regular b)
     \<and> (ar_macos A \<and> ar_is_osx A platform \<or> (\<exists>h. stamp_header settings platform content = Inr h \<and> reads_back A b h)))"

lemma wp_stamp_and_sign:
  assumes laws: "artifact_laws A" and binary: "s p = Some (Regular input)"
  shows "wp (bindio (stamp_runtime_data A p settings platform content bd) (\<lambda>_. ad_hoc_sign_macos A p platform))
     (\<lambda>_ t. stamped_as A settings platform content t p \<and> unchanged_outside {p} s t) (\<lambda>_. unchanged_outside {p} s) (unchanged_outside {p} s) s"
    (is "wp _ ?Q ?E ?C s")
proof -
  have sign: "wp (ad_hoc_sign_macos A p platform) ?Q ?E ?C (s(p \<mapsto> Regular b))"
    if "stamp_header settings platform content = Inr h" "reads_back A b h" for b h
  proof (cases "ar_macos A \<and> ar_is_osx A platform")
    case True
    have run: "wp (ar_codesign A args p) (\<lambda>_ u. (\<exists>b. u p = Some (Regular b)) \<and> unchanged_outside {p} s u)
        (\<lambda>_. unchanged_outside {p} s) (unchanged_outside {p} s) t"
      if "t p = Some (Regular c)" "unchanged_outside {p} s t" for t c args
      by (rule wp_mono [OF artifact_lawsD(2) [where s = t and p = p and b = c, OF laws that(1)]]) (use that(2) in \<open>auto intro: unchanged_outside_trans\<close>)
    have last_step: "wp (bindio (ar_codesign A args p) (\<lambda>ok. ensure ok msg)) ?Q ?E ?C t"
      if "t p = Some (Regular c)" "unchanged_outside {p} s t" for t c args msg
      by (rule wp_bindio, rule wp_mono [OF run [OF that]]) (auto intro!: wp_ensure simp: stamped_as_def True)
    have "unchanged_outside {p} s (s(p \<mapsto> Regular b))" by simp
    from run [OF _ this] have first: "wp (ar_codesign A args p) (\<lambda>_ u. (\<exists>b. u p = Some (Regular b)) \<and> unchanged_outside {p} s u)
        (\<lambda>_. unchanged_outside {p} s) (unchanged_outside {p} s) (s(p \<mapsto> Regular b))" for args by simp
    show ?thesis
      unfolding ad_hoc_sign_macos_def if_P [OF True]
      by (rule wp_bindio, rule wp_mono [OF first]) (auto intro!: wp_bindio [of "ensure _ _"] wp_ensure last_step)
  next
    case False
    have "stamped_as A settings platform content (s(p \<mapsto> Regular b)) p" using that by (auto simp: stamped_as_def)
    then show ?thesis unfolding ad_hoc_sign_macos_def if_not_P [OF False] by (auto intro!: wp_ret)
  qed
  show ?thesis
    unfolding stamp_runtime_data_def ensure_runtime_template_reader_def bindio_assoc
    by (auto intro!: wp_bindio wp_read_file wp_lift_result wp_ret sign wp_mono [OF wp_append_to_file [where s = s and p = p and input = input, OF binary]])
qed


text \<open>The files of a release, in the order of the checksums of \<open>write_artifact_metadata\<close>.\<close>

definition release_list :: "planned_paths \<Rightarrow> path list" where
  "release_list P = ([pp_binary P, pp_lock P, pp_package_list P, pp_sbom P] @ (case pp_bundle P of None \<Rightarrow> [] | Some q \<Rightarrow> [q])) @ [pp_info P]"

definition staged_set :: "planned_paths \<Rightarrow> path set" where
  "staged_set P = set (release_list P) \<union> {pp_checksums P}"

lemma binary_filename_cases: "binary_filename w x tgt = x \<or> binary_filename w x tgt = x @ ''.exe''"
  by (simp add: binary_filename_def)

lemma planned_facts:
  fixes w d name lay lab tgt
  defines "P \<equiv> planned_artifact_paths w d name lay lab tgt"
  shows "metadata_paths_in d (pp_stem P) = \<lparr>am_info = pp_info P, am_checksums = pp_checksums P, am_lock = pp_lock P,
      am_package_list = pp_package_list P, am_sbom = pp_sbom P\<rparr>"
    and "pp_binary P \<notin> metadata_set (metadata_paths_in d (pp_stem P))" "pp_bundle P = Some q \<Longrightarrow> q \<notin> metadata_set (metadata_paths_in d (pp_stem P))"
    and "pp_bundle P = Some q \<Longrightarrow> q \<noteq> pp_binary P" "pp_bundle P \<noteq> None \<longleftrightarrow> lay = External_Bundle"
    and "pp_stem P = artifact_stem name lab"
  using binary_filename_cases [of w "artifact_stem name lab" tgt]
  by (auto simp: P_def planned_artifact_paths_def Let_def metadata_paths_in_def metadata_set_def bundle_path_def split: if_splits)

lemma wp_stage_bundle:
  assumes "bo \<noteq> None \<longleftrightarrow> layout = External_Bundle"
  shows "wp (stage_bundle layout gb bo) (\<lambda>B t. B = bo \<and> (\<forall>q. bo = Some q \<longrightarrow> (\<exists>b. t q = Some (Regular b))) \<and> unchanged_outside (set_option bo) s t)
     (\<lambda>_. unchanged_outside (set_option bo) s) (unchanged_outside (set_option bo) s) s"
proof (cases bo)
  case None
  with assms show ?thesis by (simp add: stage_bundle_def wp_ret)
next
  case (Some q)
  with assms show ?thesis
    unfolding stage_bundle_def by (auto intro!: wp_bindio wp_lift_result wp_copy_file wp_ret simp: success_simps)
qed

lemma wp_stage_files:
  fixes A w d name lab tgt settings
  defines "P \<equiv> planned_artifact_paths w d name (bs_layout settings) lab tgt"
  assumes laws: "artifact_laws A"
  shows "wp (stage_files A d P source_binary settings platform lock_file content gb)
     (\<lambda>(B, M) t. B = pp_bundle P \<and> M = metadata_paths_in d (pp_stem P) \<and> checksums_genuine A (release_list P) (pp_checksums P) t
        \<and> stamped_as A settings platform content t (pp_binary P) \<and> unchanged_outside (staged_set P) s t)
     (\<lambda>_. unchanged_outside (staged_set P) s) (unchanged_outside (staged_set P) s) s"
    (is "wp _ ?Q ?E ?C s")
proof -
  let ?M = "metadata_paths_in d (pp_stem P)"
  note facts = planned_facts [where w = w and d = d and name = name and lay = "bs_layout settings" and lab = lab and tgt = tgt, folded P_def] 
  have sets: "metadata_set ?M \<subseteq> staged_set P" "pp_binary P \<in> staged_set P" "set_option (pp_bundle P) \<subseteq> staged_set P"
    by (auto simp: facts(1) metadata_set_def staged_set_def release_list_def split: option.splits)
  have frame: "unchanged_outside (staged_set P) s u" if "unchanged_outside (staged_set P) s t" "unchanged_outside X t u" "X \<subseteq> staged_set P" for t u X
    using that by (auto simp: unchanged_outside_def)
  have eq: "stage_files A d P source_binary settings platform lock_file content gb =
      bindio (copy_file source_binary (pp_binary P)) (\<lambda>_.
      bindio (bindio (stamp_runtime_data A (pp_binary P) settings platform content gb) (\<lambda>_. ad_hoc_sign_macos A (pp_binary P) platform)) (\<lambda>_.
      bindio (stage_bundle (bs_layout settings) gb (pp_bundle P)) (\<lambda>B.
      bindio (write_artifact_metadata A d (pp_stem P) settings platform (pp_binary P) B lock_file content) (\<lambda>M. ret (B, M)))))"
    by (simp add: stage_files_def bindio_assoc)
  have metadata: "wp (bindio (write_artifact_metadata A d (pp_stem P) settings platform (pp_binary P) (pp_bundle P) lock_file content) (\<lambda>M. ret (pp_bundle P, M)))
      ?Q ?E ?C u"
    if u: "unchanged_outside (staged_set P) s u" and stamped: "stamped_as A settings platform content u (pp_binary P)"
      and bd: "\<forall>q. pp_bundle P = Some q \<longrightarrow> (\<exists>b. u q = Some (Regular b))" for u
  proof -
    from stamped obtain b where b: "u (pp_binary P) = Some (Regular b)" by (auto simp: stamped_as_def)
    show ?thesis
    proof (rule wp_bindio, rule wp_mono [OF wp_write_artifact_metadata [where s = u and b = b, OF b facts(2)]], goal_cases)
      case (1 q)
      then show ?case using facts(3) bd by blast
    next
      case (2 M t)
      then have "stamped_as A settings platform content t (pp_binary P)"
        using stamped facts(2) by (auto simp: stamped_as_def unchanged_outside_def)
      with 2 frame [OF u _ sets(1)] show ?case by (intro wp_ret) (simp add: facts(1) release_list_def)
    qed (use frame [OF u _ sets(1)] in auto)
  qed
  have bundles: "wp (bindio (stage_bundle (bs_layout settings) gb (pp_bundle P)) (\<lambda>B.
      bindio (write_artifact_metadata A d (pp_stem P) settings platform (pp_binary P) B lock_file content) (\<lambda>M. ret (B, M)))) ?Q ?E ?C u"
    if u: "unchanged_outside (staged_set P) s u" and stamped: "stamped_as A settings platform content u (pp_binary P)" for u
  proof (rule wp_bindio, rule wp_mono [OF wp_stage_bundle [OF facts(5)]], goal_cases)
    case (1 B t)
    then have "unchanged_outside (staged_set P) s t" using frame [OF u _ sets(3)] by blast
    moreover from facts(4) have "pp_binary P \<notin> set_option (pp_bundle P)" by auto
    with 1 have "t (pp_binary P) = u (pp_binary P)" by (intro unchanged_outsideD) auto
    then have "stamped_as A settings platform content t (pp_binary P)" using stamped by (simp add: stamped_as_def)
    ultimately show ?case using 1 metadata by simp
  qed (use frame [OF u _ sets(3)] in auto)
  show ?thesis
    unfolding eq
  proof (rule wp_bindio, rule wp_copy_file)
    fix b
    let ?s = "s(pp_binary P \<mapsto> Regular b)"
    have first: "unchanged_outside (staged_set P) s ?s" using sets(2) by simp
    have "?s (pp_binary P) = Some (Regular b)" by simp
    from wp_stamp_and_sign [where s = ?s and p = "pp_binary P" and input = b, OF laws this]
    show "wp (bindio (bindio (stamp_runtime_data A (pp_binary P) settings platform content gb) (\<lambda>_. ad_hoc_sign_macos A (pp_binary P) platform)) (\<lambda>_.
      bindio (stage_bundle (bs_layout settings) gb (pp_bundle P)) (\<lambda>B.
      bindio (write_artifact_metadata A d (pp_stem P) settings platform (pp_binary P) B lock_file content) (\<lambda>M. ret (B, M))))) ?Q ?E ?C ?s"
      by (rule wp_bindio [OF wp_mono]) (use frame [where X = "{pp_binary P}", OF first] sets(2) bundles in auto)
  qed (use frame [where X = "{pp_binary P}" and t = s] sets(2) in auto)
qed


section \<open>The published release\<close>

definition obsolete_bundle :: "path \<Rightarrow> planned_paths \<Rightarrow> path option" where
  "obsolete_bundle out P = (if pp_bundle P = None then Some (bundle_path out (pp_stem P)) else None)"

definition release_ready :: "artifact_ext \<Rightarrow> build_settings \<Rightarrow> string \<Rightarrow> string \<Rightarrow> path \<Rightarrow> planned_paths \<Rightarrow> fs \<Rightarrow> bool" where
  "release_ready A settings platform content out P t \<longleftrightarrow> checksums_genuine A (release_list P) (pp_checksums P) t
     \<and> stamped_as A settings platform content t (pp_binary P) \<and> (case obsolete_bundle out P of None \<Rightarrow> True | Some q \<Rightarrow> t q = None)"

definition release_paths :: "path \<Rightarrow> planned_paths \<Rightarrow> path list" where
  "release_paths out P = release_list P @ pp_checksums P # (case obsolete_bundle out P of None \<Rightarrow> [] | Some q \<Rightarrow> [q])"

definition release_visible :: "artifact_ext \<Rightarrow> build_settings \<Rightarrow> string \<Rightarrow> string \<Rightarrow> path \<Rightarrow> planned_paths \<Rightarrow> fs \<Rightarrow> fs \<Rightarrow> bool" where
  "release_visible A settings platform content out P s t \<longleftrightarrow>
     t (pp_checksums P) = None \<or> list_all (\<lambda>p. t p = s p) (release_paths out P) \<or> release_ready A settings platform content out P t"

lemma release_ready_frame:
  assumes "release_ready A settings platform content out P t" "\<forall>p \<in> set (release_paths out P). u p = t p"
  shows "release_ready A settings platform content out P u"
proof -
  from assms(1) obtain cs where cs: "list_all2 (listed A t) (release_list P) cs"
    "t (pp_checksums P) = Some (Regular (bytes_of_string (render_checksums (sort_key ac_path cs))))"
    by (auto simp: release_ready_def checksums_genuine_def)
  have "list_all2 (listed A u) (release_list P) cs"
    using cs(1) by (rule list.rel_mono_strong) (use assms(2) in \<open>auto simp: release_paths_def intro: listed_frame\<close>)
  moreover have "u (pp_binary P) = t (pp_binary P)" "u (pp_checksums P) = t (pp_checksums P)"
    using assms(2) by (auto simp: release_paths_def release_list_def)
  ultimately show ?thesis
    using assms cs(2) by (auto simp: release_ready_def checksums_genuine_def stamped_as_def release_paths_def split: option.splits)
qed

lemma release_visible_frame:
  assumes "release_visible A settings platform content out P s t" "\<forall>p \<in> set (release_paths out P). u p = t p"
  shows "release_visible A settings platform content out P s u"
  using assms release_ready_frame [OF _ assms(2)] by (auto simp: release_visible_def list_all_iff release_paths_def)

lemma release_visible_intros:
  "release_ready A settings platform content out P t \<Longrightarrow> release_visible A settings platform content out P s t"
  "\<forall>p \<in> set (release_paths out P). t p = s p \<Longrightarrow> release_visible A settings platform content out P s t"
  by (simp_all add: release_visible_def list_all_iff)

text \<open>Moving the staged files leaves the checksums true: they name files, not directories.\<close>

lemma released_genuine:
  fixes w d out name lay lab tgt
  defines "Ps \<equiv> planned_artifact_paths w d name lay lab tgt" and "P \<equiv> planned_artifact_paths w out name lay lab tgt"
  assumes moved: "release_complete (published_pairs Ps (pp_bundle Ps) (metadata_paths_in d (pp_stem Ps)) P @ [(pp_checksums Ps, pp_checksums P)])
      (obsolete_bundle out P) s t"
    and staged: "checksums_genuine A (release_list Ps) (pp_checksums Ps) s" "stamped_as A settings platform content s (pp_binary Ps)"
  shows "release_ready A settings platform content out P t"
proof -
  have M: "metadata_paths_in d (pp_stem Ps) = \<lparr>am_info = pp_info Ps, am_checksums = pp_checksums Ps, am_lock = pp_lock Ps,
      am_package_list = pp_package_list Ps, am_sbom = pp_sbom Ps\<rparr>"
    unfolding Ps_def by (rule planned_facts(1))
  note plan = Ps_def P_def planned_artifact_paths_def Let_def bundle_path_def
  let ?same = "\<lambda>a b. t b = s a \<and> file_name b = file_name a"
  have "list_all2 ?same (release_list Ps) (release_list P)" and checks: "t (pp_checksums P) = s (pp_checksums Ps)"
    and binary: "t (pp_binary P) = s (pp_binary Ps)"
    using moved unfolding release_complete_def published_all_def published_pairs_def M
    by (auto simp: plan release_list_def file_name_def split: option.splits if_splits)
  moreover from staged(1) obtain cs where cs: "list_all2 (listed A s) (release_list Ps) cs"
    "s (pp_checksums Ps) = Some (Regular (bytes_of_string (render_checksums (sort_key ac_path cs))))"
    by (auto simp: checksums_genuine_def)
  ultimately have "list_all2 (listed A t) (release_list P) cs"
    by (auto simp: list_all2_conv_all_nth listed_def)
  then show ?thesis
    using cs(2) checks binary staged(2) moved by (auto simp: release_ready_def checksums_genuine_def stamped_as_def release_complete_def)
qed

lemma staging_apart:
  fixes w d out name lay lab tgt
  defines "Ps \<equiv> planned_artifact_paths w d name lay lab tgt" and "P \<equiv> planned_artifact_paths w out name lay lab tgt"
  defines "pairs \<equiv> published_pairs Ps (pp_bundle Ps) (metadata_paths_in d (pp_stem Ps)) P"
    and "extra \<equiv> [pp_checksums Ps, pp_checksums P, publication_lock_path out (pp_stem P), d @ [''.previous-sha256''], d @ [''.previous-bundle''], d]"
  assumes name: "safe_name name" and d: "d \<in> staging_names out"
  shows "distinct (map fst pairs @ map snd pairs @ extra)"
    and "set_option (obsolete_bundle out P) \<inter> (pair_paths pairs \<union> set extra) = {}"
    and "set (release_paths out P) \<inter> (insert (publication_lock_path out (pp_stem P)) (tree_below d)) = {}"
    and "staged_set Ps \<subseteq> tree_below d" "d \<notin> staged_set Ps" "set (release_paths out P) \<inter> staging_names out = {}"
proof -
  have dot_class: "\<not> is_ascii_alphanumeric (CHR ''.'')" by code_simp
  obtain h n where name_eq: "name = h # n" "h \<noteq> CHR ''.''"
    using name dot_class by (cases name) (auto simp: safe_name_def)
  define stem where "stem = n @ (case lab of None \<Rightarrow> [] | Some l \<Rightarrow> ''-'' @ l)"
  have stem: "artifact_stem name lab = h # stem" by (simp add: artifact_stem_def stem_def name_eq split: option.splits)
  obtain x where x: "d = out @ [''.conda-ship-'' @ x]" "list_all is_ascii_alphanumeric x" using d by (auto simp: staging_names_def)
  have dot: "CHR ''.'' \<notin> set x" using x(2) dot_class by (auto simp: list_all_iff)
  have lock: "''conda-ship-'' @ x \<noteq> h # stem @ ''.conda-ship.publish.lock''"
  proof
    assume eq: "''conda-ship-'' @ x = h # stem @ ''.conda-ship.publish.lock''"
    have "CHR ''.'' \<in> set (h # stem @ ''.conda-ship.publish.lock'')" by simp
    then show False unfolding eq [symmetric] using dot by simp
  qed
  note plan = Ps_def P_def planned_artifact_paths_def Let_def bundle_path_def stem metadata_paths_in_def publication_lock_path_def
    obsolete_bundle_def release_paths_def release_list_def staged_set_def
  note names = binary_filename_cases [of w "h # stem" tgt]
  show "distinct (map fst pairs @ map snd pairs @ extra)"
    using names name_eq(2) lock unfolding pairs_def extra_def published_pairs_def
    by (cases lay) (auto simp: plan x(1))
  show "set_option (obsolete_bundle out P) \<inter> (pair_paths pairs \<union> set extra) = {}"
    using names name_eq(2) unfolding pairs_def extra_def published_pairs_def
    by (cases lay) (auto simp: plan x(1))
  show "set (release_paths out P) \<inter> (insert (publication_lock_path out (pp_stem P)) (tree_below d)) = {}"
    using names name_eq(2) by (cases lay) (auto simp: plan x(1) tree_below_def)
  show "staged_set Ps \<subseteq> tree_below d" "d \<notin> staged_set Ps"
    by (cases lay; auto simp: plan tree_below_def)+
  show "set (release_paths out P) \<inter> staging_names out = {}"
    using names name_eq(2) by (cases lay) (auto simp: plan staging_names_def)
qed


lemma consistent_visible:
  fixes w d out name lay lab tgt
  defines "Ps \<equiv> planned_artifact_paths w d name lay lab tgt" and "P \<equiv> planned_artifact_paths w out name lay lab tgt"
  assumes moved: "release_consistent (pp_checksums P) (published_pairs Ps (pp_bundle Ps) (metadata_paths_in d (pp_stem Ps)) P @ [(pp_checksums Ps, pp_checksums P)])
      (obsolete_bundle out P) s t"
    and staged: "checksums_genuine A (release_list Ps) (pp_checksums Ps) s" "stamped_as A settings platform content s (pp_binary Ps)"
  shows "release_visible A settings platform content out P s t"
proof -
  let ?pairs = "published_pairs Ps (pp_bundle Ps) (metadata_paths_in d (pp_stem Ps)) P @ [(pp_checksums Ps, pp_checksums P)]"
  have paths: "set (release_paths out P) \<subseteq> set (map snd ?pairs) \<union> set_option (obsolete_bundle out P)"
    by (cases lay) (auto simp: published_pairs_def release_paths_def release_list_def obsolete_bundle_def Ps_def P_def planned_artifact_paths_def Let_def)
  consider "t (pp_checksums P) = None" | "\<forall>p \<in> set (map snd ?pairs) \<union> set_option (obsolete_bundle out P). t p = s p"
    | "release_complete ?pairs (obsolete_bundle out P) s t"
    using moved unfolding release_consistent_def by (elim disjE) simp_all
  then show ?thesis
  proof cases
    case 1
    then show ?thesis by (simp add: release_visible_def)
  next
    case 2
    with paths show ?thesis by (intro release_visible_intros(2)) blast
  next
    case 3
    then show ?thesis
      using released_genuine [of w d name lay lab tgt out, folded Ps_def P_def] staged by (intro release_visible_intros(1)) blast
  qed
qed

lemma wp_stage_and_publish:
  fixes A d out settings lab tgt
  defines "Ps \<equiv> planned_artifact_paths (ar_windows A) d (bs_artifact_name settings) (bs_layout settings) lab tgt"
    and "P \<equiv> planned_artifact_paths (ar_windows A) out (bs_artifact_name settings) (bs_layout settings) lab tgt"
  assumes laws: "artifact_laws A" and name: "safe_name (bs_artifact_name settings)" and d: "d \<in> staging_names out" "s d = Some Directory"
  shows "wp (bindio (stage_files A d Ps source_binary settings platform lock_file content gb)
         (\<lambda>(B, M). publish_staged_artifact_set A out d Ps B M P))
     (\<lambda>_. release_ready A settings platform content out P) (\<lambda>_. release_visible A settings platform content out P s)
     (release_visible A settings platform content out P s) s"
    (is "wp _ ?Q ?E ?C s")
proof -
  note apart = staging_apart [where w = "ar_windows A" and d = d and out = out and name = "bs_artifact_name settings" and lay = "bs_layout settings"
      and lab = lab and tgt = tgt, folded Ps_def P_def, OF name d(1)]
  have M: "am_checksums (metadata_paths_in d (pp_stem Ps)) = pp_checksums Ps"
    unfolding Ps_def by (simp add: planned_facts(1))
  have same: "\<forall>p \<in> set (release_paths out P). t p = s p" if "unchanged_outside (staged_set Ps) s t" for t
    using apart(3,4) by (intro ballI unchanged_outsideD [OF that]) blast
  have early: "?C t" if "unchanged_outside (staged_set Ps) s t" for t
    by (rule release_visible_intros(2)) (use same [OF that] in simp)
  have published: "wp (publish_staged_artifact_set A out d Ps (pp_bundle Ps) (metadata_paths_in d (pp_stem Ps)) P) ?Q ?E ?C t"
    if t: "unchanged_outside (staged_set Ps) s t"
      and staged: "checksums_genuine A (release_list Ps) (pp_checksums Ps) t" "stamped_as A settings platform content t (pp_binary Ps)" for t
  proof -
    let ?pairs = "published_pairs Ps (pp_bundle Ps) (metadata_paths_in d (pp_stem Ps)) P @ [(pp_checksums Ps, pp_checksums P)]"
    have dir: "t d = Some Directory" using unchanged_outsideD [OF t apart(5)] d(2) by simp
    have visible: "?C u" if "release_consistent (pp_checksums P) ?pairs (obsolete_bundle out P) t u" for u
    proof -
      have "release_visible A settings platform content out P t u"
        using consistent_visible [of "ar_windows A" out "bs_artifact_name settings" "bs_layout settings" lab tgt d, folded Ps_def P_def] that staged by blast
      then show ?thesis using same [OF t] release_ready_frame by (auto simp: release_visible_def list_all_iff)
    qed
    have ready: "release_ready A settings platform content out P u" if "release_complete ?pairs (obsolete_bundle out P) t u" for u
      using released_genuine [of "ar_windows A" d "bs_artifact_name settings" "bs_layout settings" lab tgt out, folded Ps_def P_def] that staged by blast
    have bapart: "set_option (obsolete_bundle out P) \<inter> (pair_paths (published_pairs Ps (pp_bundle Ps) (metadata_paths_in d (pp_stem Ps)) P)
        \<union> {pp_checksums Ps, pp_checksums P, publication_lock_path out (pp_stem P), d @ [''.previous-sha256''], d @ [''.previous-bundle''], d}) = {}"
      using apart(2) by simp
    show ?thesis
      by (rule wp_mono [OF wp_publish_set [where s = t and A = A and out = out and staging = d and staged_paths = Ps and staged_bundle = "pp_bundle Ps"
            and metadata = "metadata_paths_in d (pp_stem Ps)" and paths = P, folded obsolete_bundle_def, unfolded M,
            OF apart(1) bapart dir artifact_lawsD(1) [OF laws]]])
        (simp_all add: visible ready)
  qed
  show ?thesis
    by (rule wp_bindio, rule wp_mono [OF wp_stage_files [where w = "ar_windows A" and d = d and name = "bs_artifact_name settings" and lab = lab and tgt = tgt
          and settings = settings, folded Ps_def, OF laws]])
      (auto intro: published early)
qed

text \<open>\<open>create_dir_all\<close> makes the output directory and those above it.\<close>

lemma release_paths_length: "p \<in> set (release_paths out (planned_artifact_paths w out name lay lab tgt)) \<Longrightarrow> length p = Suc (length out)"
  by (cases lay) (auto simp: planned_artifact_paths_def Let_def bundle_path_def obsolete_bundle_def release_paths_def release_list_def)

lemma wp_stage_artifacts:
  fixes A out settings lab tgt
  defines "P \<equiv> planned_artifact_paths (ar_windows A) out (bs_artifact_name settings) (bs_layout settings) lab tgt"
  assumes laws: "artifact_laws A" and name: "safe_name (bs_artifact_name settings)"
  shows "wp (stage_artifacts A source_binary settings lab platform tgt out lock_file content gb)
     (\<lambda>P' t. P' = P \<and> release_ready A settings platform content out P t) (\<lambda>_. release_visible A settings platform content out P s)
     (release_visible A settings platform content out P s) s"
    (is "wp _ ?Q ?E ?C s")
proof -
  have dirs: "stays (create_dir_all out) {p. length p \<le> length out}"
    by (intro stays_intros) auto
  have same: "\<forall>p \<in> set (release_paths out P). t p = s p" if "unchanged_outside {p. length p \<le> length out} s t" for t
    by (intro ballI unchanged_outsideD [OF that]) (simp add: P_def release_paths_length)
  note apart = staging_apart [where w = "ar_windows A" and out = out and name = "bs_artifact_name settings" and lay = "bs_layout settings"
      and lab = lab and tgt = tgt, folded P_def, OF name]
  have outside: "set (release_paths out P) \<inter> staging_names out = {}"
    by (rule apart(6) [where d = "out @ [''.conda-ship-'']"]) (auto simp: staging_names_def)
  show ?thesis
    unfolding stage_artifacts_def Let_def P_def [symmetric]
  proof (rule wp_bindio_stays [OF dirs])
    fix t assume t: "unchanged_outside {p. length p \<le> length out} s t"
    have visible: "?C u" if "\<forall>p \<in> set (release_paths out P). v p = s p" "release_visible A settings platform content out P v u" for u v
      using that release_ready_frame by (auto simp: release_visible_def list_all_iff)
    have unstaged: "?C u" if "unchanged_outside (staging_names out) t u" for u
    proof (rule release_visible_intros(2), intro ballI)
      fix p assume p: "p \<in> set (release_paths out P)"
      then have "p \<notin> staging_names out" using outside by blast
      then show "u p = s p" using unchanged_outsideD [OF that] same [OF t] p by simp
    qed
    let ?plan = "\<lambda>d. planned_artifact_paths (ar_windows A) d (bs_artifact_name settings) (bs_layout settings) lab tgt"
    let ?clean = "\<lambda>d r. bindio (tryio (remove_dir_all (ar_interrupted A) d)) (\<lambda>_. bindio (lift_result r) (\<lambda>_. ret P))"
    have body: "wp (bindio (tryio (bindio (stage_files A d (?plan d) source_binary settings platform lock_file content gb)
         (\<lambda>(B, M). publish_staged_artifact_set A out d (?plan d) B M P))) (?clean d)) ?Q ?E ?C u"
      if d: "d \<in> staging_names out" "u d = Some Directory" "unchanged_outside {d} t u" for d u
    proof -
      have kept: "\<forall>p \<in> set (release_paths out P). u p = s p"
      proof
        fix p assume p: "p \<in> set (release_paths out P)"
        then have "p \<notin> {d}" using outside d(1) by blast
        then show "u p = s p" using unchanged_outsideD [OF d(3)] same [OF t] p by simp
      qed
      have below: "stays (tryio (remove_dir_all (ar_interrupted A) d)) (tree_below d)" by (intro stays_intros) simp
      have cleaned: "\<forall>p \<in> set (release_paths out P). z p = v p" if "unchanged_outside (tree_below d) v z" for v z
        using apart(3) [OF d(1)] by (intro ballI unchanged_outsideD [OF that]) blast
      have good: "wp (?clean d (Inr x)) ?Q ?E ?C v" if "release_ready A settings platform content out P v" for v x
        by (rule wp_bindio_stays [OF below])
          (use release_ready_frame [OF that] cleaned release_visible_intros(1) in \<open>auto intro!: wp_bindio wp_lift_result wp_ret\<close>)
      have bad: "wp (?clean d (Inl e)) ?Q ?E ?C v" if "?C v" for v e
        by (rule wp_bindio_stays [OF below])
          (use release_visible_frame [OF that] cleaned in \<open>auto intro!: wp_bindio wp_fail\<close>)
      show ?thesis
        by (rule wp_bindio, rule wp_tryio, rule wp_mono [OF wp_stage_and_publish [where s = u and d = d and A = A and out = out and settings = settings
              and lab = lab and tgt = tgt, folded P_def, OF laws name d(1,2)]])
          (use good bad visible [OF kept] in auto)
    qed
    show "wp (bindio (ar_staging_dir A out) (\<lambda>d. bindio (tryio (bindio (stage_files A d (?plan d) source_binary settings platform lock_file content gb)
         (\<lambda>(B, M). publish_staged_artifact_set A out d (?plan d) B M P))) (?clean d))) ?Q ?E ?C t"
      by (rule wp_bindio, rule wp_mono [OF artifact_lawsD(3) [OF laws]]) (use body unstaged in auto)
  next
    fix t assume "unchanged_outside {p. length p \<le> length out} s t"
    then show "(\<forall>e. ?E e t) \<and> ?C t" using same release_visible_intros(2) by blast
  qed
qed


text \<open>C25. Whatever the schedule of faults and stops, after \<open>stage_artifacts\<close> the checksum file of the artifact is absent, or the files of the release
(and an obsolete bundle) are the ones that were there before, or the new release is in place: every line of the checksum file is
the digest of the file it names, all files are covered, the executable reads back as the settings say (or has been signed since), and no bundle of another
layout is left. When the function returns successfully it is the last of these.\<close>

theorem publication_never_mixed:
  fixes A out settings label target
  defines "P \<equiv> planned_artifact_paths (ar_windows A) out (bs_artifact_name settings) (bs_layout settings) label target"
  assumes "artifact_laws A" "safe_name (bs_artifact_name settings)"
    and run: "stage_artifacts A source_binary settings label platform target out lock_file content generated_bundle \<lparr>w_fs = s, w_schedule = schedule\<rparr> = (r, w')"
  shows "release_visible A settings platform content out P s (w_fs w')
     \<and> (case r of Ok P' \<Rightarrow> P' = P \<and> release_ready A settings platform content out P (w_fs w') | _ \<Rightarrow> True)"
  using wpD [OF wp_stage_artifacts [where A = A and out = out and settings = settings and lab = label and tgt = target, OF assms(2,3), folded P_def] run]
  by (auto intro: release_visible_intros(1) split: outcome.splits)

section \<open>Instances\<close>

definition sample_artifact :: artifact_ext where
  "sample_artifact = \<lparr>ar_codec = sample_codec, ar_pe = sample_pe, ar_macho = sample_macho, ar_sbom = sample_sbom, ar_windows = False, ar_macos = False,
     ar_info_json = (\<lambda>i. Inr (ai_name i)), ar_environment = (\<lambda>l. Some (map (\<lambda>p. (p, cyclic_packages)) (rl_platforms l))),
     ar_staging_dir = (\<lambda>d. atomic_op (\<lambda>s. Inr (d @ [''.conda-ship-a''], s(d @ [''.conda-ship-a''] \<mapsto> Directory)))),
     ar_interrupted = (\<lambda>_ _. {}), ar_lock = (\<lambda>_. ret ()),
     ar_stamp_env = (\<lambda>_. \<lparr>se_is_symlink = False, se_is_file = True, se_input = [], se_metadata = sample_meta, se_copied_metadata = sample_meta,
        se_second_read = [], se_path_matches_opened = True, se_temporary_matches = True, se_path_matches_input = True, se_rename_ok = True, se_persisted_matches = True\<rparr>),
     ar_bundle_reads = (\<lambda>_ b. the sample_bundle), ar_codesign = (\<lambda>_ _. ret True), ar_is_osx = (\<lambda>p. p = ''osx-arm64'')\<rparr>"

lemma sample_artifact_laws: "artifact_laws sample_artifact"
proof -
  have name: "d @ [''.conda-ship-a''] \<in> staging_names d" for d
    unfolding staging_names_def by (rule CollectI, rule exI [where x = "''a''"]) (simp, code_simp)
  have "wp (ar_staging_dir sample_artifact d) (\<lambda>p t. p \<in> staging_names d \<and> t p = Some Directory \<and> unchanged_outside {p} s t)
      (\<lambda>_. unchanged_outside (staging_names d) s) (unchanged_outside (staging_names d) s) s" for d s
    unfolding sample_artifact_def artifact_ext.simps by (rule wp_atomic_op) (use name in simp_all)
  then show ?thesis
    by (auto simp: artifact_laws_def sample_artifact_def intro!: stays_intros wp_ret)
qed

definition sample_release_fs :: fs where
  "sample_release_fs = [[''dist''] \<mapsto> Directory, [''cs-runtime''] \<mapsto> Regular [], [''dist'', ''demo''] \<mapsto> Regular [7],
     [''dist'', ''demo.sha256''] \<mapsto> Regular [8]]"

definition sample_build_settings :: build_settings where
  "sample_build_settings = \<lparr>bs_runtime = ''demo'', bs_artifact_name = ''demo'', bs_layout = Online, bs_config = sample_stamp_config\<rparr>"

lemma publication_never_mixed_witness:
  "let (r, w') = stage_artifacts sample_artifact [''cs-runtime''] sample_build_settings None ''linux-64'' None [''dist'']
       \<lparr>rl_platforms = [], rl_channels = [], rl_packages = []\<rparr> ''lock'' None
       \<lparr>w_fs = sample_release_fs, w_schedule = [Go, Go, Go, Go, Halt 0]\<rparr>
   in release_visible sample_artifact sample_build_settings ''linux-64'' ''lock'' [''dist'']
        (planned_artifact_paths False [''dist''] ''demo'' Online None None) sample_release_fs (w_fs w')"
proof -
  have name: "safe_name (bs_artifact_name sample_build_settings)" by code_simp
  show ?thesis
    using publication_never_mixed [where source_binary = "[''cs-runtime'']" and label = None and platform = "''linux-64''" and target = None
        and out = "[''dist'']" and lock_file = "\<lparr>rl_platforms = [], rl_channels = [], rl_packages = []\<rparr>" and content = "''lock''"
        and generated_bundle = None and s = sample_release_fs and schedule = "[Go, Go, Go, Go, Halt 0]",
        OF sample_artifact_laws name prod.collapse [symmetric]]
    by (simp add: split_beta Let_def sample_artifact_def sample_build_settings_def)
qed

end
