(* ===== verification/Update_Package.thy ===== *)
theory Update_Package
  imports Artifact_Safety
begin

text \<open>
  Packaging a finished executable for its update channel (\<open>src/bin/cs/update_package.rs\<close>). The executable is copied once,
  the copy is checked against the artifact info and its own stamp, and is then the single payload of a conda package
  that is written under a temporary name and given its name only if that is free. \<open>package_ext\<close> holds the parsers, the
  package writer of rattler and the temporary files.
\<close>

section \<open>Definitions\<close>

record native_platform =
  np_name :: string
  np_windows :: bool
  np_virtual :: bool
  np_only_platform :: "string option"
  np_arch :: "string option"

text \<open>The two documents of a package, before their JSON rendering.\<close>

record package_index =
  px_arch :: string
  px_name :: string
  px_version :: string
  px_build :: string
  px_build_number :: nat
  px_depends :: "string list"
  px_platform :: string
  px_subdir :: string

record package_paths =
  py_path :: string
  py_path_type :: string
  py_sha256 :: string
  py_size_in_bytes :: nat
  py_paths_version :: nat

record update_package_output =
  uo_schema_version :: nat
  uo_path :: path
  uo_filename :: string
  uo_package_name :: string
  uo_runtime_version :: string
  uo_build_number :: nat
  uo_platform :: string
  uo_sha256 :: string
  uo_size :: nat
  uo_payload_sha256 :: string
  uo_payload_size :: nat

record package_ext =
  pg_codec :: codec_ext
  pg_pe :: pe_ext
  pg_macho :: macho_ext
  pg_current_dir :: "path result"
  pg_info :: "bytes \<Rightarrow> artifact_info result"
  pg_url :: "string \<Rightarrow> url result"
  pg_url_with_base :: "string \<Rightarrow> url result"
  pg_package_name :: "string \<Rightarrow> string result"
  pg_version :: "string \<Rightarrow> unit result"
  pg_platform :: "string \<Rightarrow> native_platform result"
  pg_index_json :: "package_index \<Rightarrow> bytes result"
  pg_paths_json :: "package_paths \<Rightarrow> bytes result"
  pg_conda :: "string \<Rightarrow> (string \<times> bytes) list \<Rightarrow> bytes result"
  pg_temp_dir :: "path io"
  pg_temp_file :: "path \<Rightarrow> path io"
  pg_interrupted :: "nat \<Rightarrow> path \<Rightarrow> path set"

definition UPDATE_PACKAGE_OUTPUT_SCHEMA_VERSION :: nat where
  "UPDATE_PACKAGE_OUTPUT_SCHEMA_VERSION = 1"

subsection \<open>Checks\<close>

definition validate_plain_filename :: "string \<Rightarrow> unit result" where
  "validate_plain_filename value =
     (if value = [] \<or> CHR ''/'' \<in> set value \<or> CHR 0x5C \<in> set value
        \<or> (case path_components value of [Normal_Component _] \<Rightarrow> False | _ \<Rightarrow> True)
      then Inl (Invalid ''must be a plain filename'') else Inr ())"

definition validate_info :: "artifact_info \<Rightarrow> unit result" where
  "validate_info info =
     (if ai_schema_version info \<noteq> 1 then Inl (Invalid ''unsupported artifact info schema version'')
      else if \<not> (ai_layout info = ''online'' \<or> ai_layout info = ''embedded'')
      then Inl (Invalid ''update packages are supported only for online and embedded artifacts'')
      else if ai_update info = None then Inl (Invalid ''artifact info has no runtime update configuration'')
      else validate_plain_filename (ai_binary info))"

text \<open>\<open>bytes\<close> is the file the data was read from: \<open>verify\<close> opens it again.\<close>

definition validate_stamp :: "codec_ext \<Rightarrow> artifact_info \<Rightarrow> bytes \<Rightarrow> runtime_data \<Rightarrow> unit result" where
  "validate_stamp X info bytes stamped =
     (let h = rd_header stamped in
      if h_runtime_name h \<noteq> ai_runtime_name info \<or> h_artifact_name h \<noteq> ai_artifact_name info
         \<or> h_runtime_version h \<noteq> ai_runtime_version info \<or> h_artifact_layout h \<noteq> ai_layout info
         \<or> h_platform h \<noteq> ai_platform info
      then Inl (Invalid ''runtime executable does not match artifact info'')
      else if h_update h \<noteq> ai_update info
      then Inl (Invalid ''runtime executable update configuration does not match artifact info'')
      else if ai_layout info = ''online'' \<and> rd_bundle stamped \<noteq> None
      then Inl (Invalid ''online runtime executable unexpectedly contains an embedded bundle'')
      else if ai_layout info = ''embedded'' then
        rbind (ok_or ''embedded runtime executable has no embedded bundle'' (rd_bundle stamped)) (verify_bundle X bytes)
      else if ai_layout info = ''online'' then Inr ()
      else Inl (Invalid ''update packages are supported only for online and embedded artifacts''))"

definition validate_recorded_binary_checksum :: "artifact_info \<Rightarrow> string \<Rightarrow> nat \<Rightarrow> unit result" where
  "validate_recorded_binary_checksum info actual_sha256 actual_size =
     rbind (ok_or ''artifact info has no checksum for its recorded binary'' (find (\<lambda>c. ac_path c = ai_binary info) (ai_checksums info))) (\<lambda>expected.
     if ac_sha256 expected \<noteq> actual_sha256 \<or> ac_bytes expected \<noteq> actual_size
     then Inl (Invalid ''runtime executable does not match the checksum recorded in artifact info'') else Inr ())"

definition validate_channel :: "package_ext \<Rightarrow> string \<Rightarrow> unit result" where
  "validate_channel G value =
     rbind (pg_url G value) (\<lambda>channel.
     if url_scheme channel \<noteq> ''https'' \<and> url_scheme channel \<noteq> ''file''
     then Inl (Invalid ''runtime update channel must use https:// or file://'')
     else validate_artifact_url (pg_url_with_base G) value)"

definition require_input_file :: "path \<Rightarrow> string \<Rightarrow> unit io" where
  "require_input_file p kind = bindio (metadata_follow p) (\<lambda>k. ensure (k = Is_File) (kind @ '' is not a regular file''))"

definition absolute_path_of :: "package_ext \<Rightarrow> path_buf \<Rightarrow> path result" where
  "absolute_path_of G p = (if fst p then Inr (snd p) else rbind (pg_current_dir G) (\<lambda>d. Inr (d @ snd p)))"

subsection \<open>The plan of a package\<close>

text \<open>What the stamp determines; the local variables of \<open>package_update\<close>.\<close>

record package_plan =
  pn_update :: runtime_update_config
  pn_name :: string
  pn_version :: string
  pn_platform :: native_platform
  pn_payload :: string
  pn_stem :: string
  pn_filename :: string

definition plan_package :: "package_ext \<Rightarrow> runtime_header \<Rightarrow> package_plan result" where
  "plan_package G h =
     rbind (ok_or ''runtime executable has no update configuration'' (h_update h)) (\<lambda>update.
     if \<not> supports_direct_update update then Inl (Invalid ''legacy externally managed runtimes cannot be packaged for direct executable updates'')
     else rbind (validate_channel G (u_channel update)) (\<lambda>_.
     rbind (pg_package_name G (u_package update)) (\<lambda>package_name.
     rbind (pg_version G (h_runtime_version h)) (\<lambda>_.
     rbind (pg_platform G (h_platform h)) (\<lambda>platform.
     if np_virtual platform then Inl (Invalid ''runtime update packages must use a native conda platform'')
     else rbind (validate_plain_filename (h_artifact_name h)) (\<lambda>_.
     let stem = package_name @ ''-'' @ h_runtime_version h @ ''-'' @ decimal (u_build_number update) in
     rbind (validate_plain_filename (stem @ ''.conda'')) (\<lambda>_.
     Inr \<lparr>pn_update = update, pn_name = package_name, pn_version = h_runtime_version h, pn_platform = platform,
       pn_payload = (if np_windows platform then h_artifact_name h @ ''.exe'' else ''bin/'' @ h_artifact_name h),
       pn_stem = stem, pn_filename = stem @ ''.conda''\<rparr>)))))))"

definition index_of_plan :: "package_plan \<Rightarrow> package_index result" where
  "index_of_plan plan =
     rbind (ok_or ''update package platform must be native'' (np_only_platform (pn_platform plan))) (\<lambda>package_platform.
     rbind (ok_or ''update package platform must have an architecture'' (np_arch (pn_platform plan))) (\<lambda>package_arch.
     Inr \<lparr>px_arch = package_arch, px_name = pn_name plan, px_version = pn_version plan, px_build = decimal (u_build_number (pn_update plan)),
       px_build_number = u_build_number (pn_update plan), px_depends = [], px_platform = package_platform, px_subdir = np_name (pn_platform plan)\<rparr>))"

definition paths_of_plan :: "package_plan \<Rightarrow> string \<Rightarrow> nat \<Rightarrow> package_paths" where
  "paths_of_plan plan payload_sha256 payload_size =
     \<lparr>py_path = pn_payload plan, py_path_type = ''hardlink'', py_sha256 = payload_sha256, py_size_in_bytes = payload_size, py_paths_version = 1\<rparr>"

definition write_json :: "path \<Rightarrow> bytes result \<Rightarrow> unit io" where
  "write_json p rendered = bindio (lift_result rendered) (\<lambda>b. write_file p (b @ [10]))"

definition stage_package_contents ::
    "package_ext \<Rightarrow> path \<Rightarrow> path \<Rightarrow> package_plan \<Rightarrow> string \<Rightarrow> nat \<Rightarrow> unit io" where
  "stage_package_contents G root binary plan payload_sha256 payload_size =
     bindio (lift_result (index_of_plan plan)) (\<lambda>index.
     let info_dir = root @ [''info'']; payload_path = join root (pn_payload plan) in
     bindio (create_dir_all info_dir) (\<lambda>_.
     bindio (lift_result (ok_or ''update package payload has no parent directory'' (parent payload_path))) (\<lambda>d.
     bindio (create_dir_all d) (\<lambda>_.
     bindio (copy_file binary payload_path) (\<lambda>_.
     bindio (write_json (info_dir @ [''index.json'']) (pg_index_json G index)) (\<lambda>_.
     bindio (write_file (info_dir @ [''files'']) (bytes_of_string (pn_payload plan @ [lf]))) (\<lambda>_.
     write_json (info_dir @ [''paths.json'']) (pg_paths_json G (paths_of_plan plan payload_sha256 payload_size)))))))))"

subsection \<open>Writing the package\<close>

fun read_contents :: "path \<Rightarrow> string list \<Rightarrow> (string \<times> bytes) list io" where
  "read_contents root [] = ret []"
| "read_contents root (x # xs) =
     bindio (read_file (join root x)) (\<lambda>b. bindio (read_contents root xs) (\<lambda>rest. ret ((x, b) # rest)))"

definition package_members :: "package_plan \<Rightarrow> string list" where
  "package_members plan = [''info/index.json'', ''info/files'', ''info/paths.json'', pn_payload plan]"

text \<open>\<open>persist_noclobber\<close>.\<close>

definition rename_noclobber :: "path \<Rightarrow> path \<Rightarrow> unit io" where
  "rename_noclobber p q = atomic_op (\<lambda>s.
     if s q \<noteq> None then Inl Already_Exists
     else case s p of Some (Regular b) \<Rightarrow> Inr ((), s(p := None, q \<mapsto> Regular b)) | _ \<Rightarrow> Inl Not_Found)"

definition with_temp_file :: "package_ext \<Rightarrow> path \<Rightarrow> (path \<Rightarrow> unit io) \<Rightarrow> unit io" where
  "with_temp_file G d f =
     bindio (pg_temp_file G d) (\<lambda>p.
     bindio (tryio (f p)) (\<lambda>r. case r of
       Inr _ \<Rightarrow> ret ()
     | Inl e \<Rightarrow> bindio (tryio (remove_file p)) (\<lambda>_. fail e)))"

text \<open>A \<open>TempDir\<close>: removed at the end of its scope.\<close>

definition with_temp_dir :: "package_ext \<Rightarrow> (path \<Rightarrow> 'a io) \<Rightarrow> 'a io" where
  "with_temp_dir G f =
     bindio (pg_temp_dir G) (\<lambda>d.
     bindio (tryio (f d)) (\<lambda>r.
     bindio (tryio (remove_dir_all (pg_interrupted G) d)) (\<lambda>_. lift_result r)))"

definition write_update_package :: "package_ext \<Rightarrow> path \<Rightarrow> package_plan \<Rightarrow> path \<Rightarrow> unit io" where
  "write_update_package G root plan out_dir =
     with_temp_file G out_dir (\<lambda>temporary.
       bindio (read_contents root (package_members plan)) (\<lambda>contents.
       bindio (lift_result (pg_conda G (pn_stem plan) contents)) (\<lambda>b.
       bindio (write_all temporary b) (\<lambda>_.
       bindio sync (\<lambda>_.
       rename_noclobber temporary (out_dir @ [pn_filename plan]))))))"

subsection \<open>The command\<close>

definition package_out_dir :: "package_ext \<Rightarrow> path \<Rightarrow> path_buf option \<Rightarrow> path result" where
  "package_out_dir G info_path out_dir =
     (case out_dir of Some p \<Rightarrow> absolute_path_of G p | None \<Rightarrow> ok_or ''artifact info path has no parent directory'' (parent info_path))"

definition package_binary :: "package_ext \<Rightarrow> path \<Rightarrow> artifact_info \<Rightarrow> path_buf option \<Rightarrow> path result" where
  "package_binary G info_path info binary_override =
     (case binary_override of Some p \<Rightarrow> absolute_path_of G p
      | None \<Rightarrow> rbind (ok_or ''artifact info path has no parent directory'' (parent info_path)) (\<lambda>d. Inr (join d (ai_binary info))))"

definition package_output :: "package_ext \<Rightarrow> path \<Rightarrow> package_plan \<Rightarrow> string \<Rightarrow> nat \<Rightarrow> update_package_output io" where
  "package_output G output_path plan payload_sha256 payload_size =
     bindio (read_file output_path) (\<lambda>b.
     ret \<lparr>uo_schema_version = UPDATE_PACKAGE_OUTPUT_SCHEMA_VERSION, uo_path = output_path, uo_filename = pn_filename plan,
       uo_package_name = pn_name plan, uo_runtime_version = pn_version plan, uo_build_number = u_build_number (pn_update plan),
       uo_platform = np_name (pn_platform plan), uo_sha256 = hex (sha256 (pg_codec G) b), uo_size = length b,
       uo_payload_sha256 = payload_sha256, uo_payload_size = payload_size\<rparr>)"

definition package_snapshot ::
    "package_ext \<Rightarrow> artifact_info \<Rightarrow> bool \<Rightarrow> path \<Rightarrow> path result \<Rightarrow> update_package_output io" where
  "package_snapshot G info overridden snapshot out_dir =
     bindio (read_file snapshot) (\<lambda>b.
     let payload_sha256 = hex (sha256 (pg_codec G) b); payload_size = length b in
     bindio (if overridden then ret () else lift_result (validate_recorded_binary_checksum info payload_sha256 payload_size)) (\<lambda>_.
     bindio (read_file snapshot) (\<lambda>b.
     bindio (lift_result (read_from_file (pg_codec G) (pg_pe G) (pg_macho G) snapshot b)) (\<lambda>data.
     bindio (lift_result (ok_or ''runtime executable is not stamped by conda-ship'' data)) (\<lambda>stamped.
     bindio (lift_result (validate_stamp (pg_codec G) info b stamped)) (\<lambda>_.
     bindio (lift_result (plan_package G (rd_header stamped))) (\<lambda>plan.
     bindio (lift_result out_dir) (\<lambda>out_dir.
     bindio (create_dir_all out_dir) (\<lambda>_.
     let output_path = out_dir @ [pn_filename plan] in
     bindio (path_exists output_path) (\<lambda>present.
     bindio (ensure (\<not> present) ''refusing to overwrite existing update package'') (\<lambda>_.
     with_temp_dir G (\<lambda>root.
       bindio (stage_package_contents G root snapshot plan payload_sha256 payload_size) (\<lambda>_.
       bindio (write_update_package G root plan out_dir) (\<lambda>_.
       package_output G output_path plan payload_sha256 payload_size))))))))))))))"

definition package_update ::
    "package_ext \<Rightarrow> path_buf \<Rightarrow> path_buf option \<Rightarrow> path_buf option \<Rightarrow> update_package_output io" where
  "package_update G info_path binary_override out_dir =
     bindio (lift_result (absolute_path_of G info_path)) (\<lambda>info_path.
     bindio (require_input_file info_path ''artifact info'') (\<lambda>_.
     bindio (read_file info_path) (\<lambda>b.
     bindio (lift_result (pg_info G b)) (\<lambda>info.
     bindio (lift_result (validate_info info)) (\<lambda>_.
     bindio (lift_result (package_binary G info_path info binary_override)) (\<lambda>binary.
     bindio (require_input_file binary ''runtime executable'') (\<lambda>_.
     with_temp_dir G (\<lambda>snapshot_dir.
       let snapshot = snapshot_dir @ [''runtime.snapshot''] in
       bindio (copy_file binary snapshot) (\<lambda>_.
       package_snapshot G info (binary_override \<noteq> None) snapshot (package_out_dir G info_path out_dir))))))))))"

end
