(* ===== verification/Update_Channel.thy ===== *)
theory Update_Channel
  imports Runtime_Update "HOL-Library.Multiset"
begin

text \<open>
  What the update channel guarantees: the greatest newer release is chosen, the payload that is staged is the verified
  executable of this runtime and follows the same channel, cached repodata is never torn, a probe changes nothing but
  the cache, an offline update uses no network, and the update actions need the lock of their caller.
\<close>

section \<open>Selection\<close>

text \<open>The order of versions is total.\<close>

definition version_laws :: "channel_ext \<Rightarrow> bool" where
  "version_laws R \<longleftrightarrow> (\<forall>a b. ch_version_le R a b \<or> ch_version_le R b a)
     \<and> (\<forall>a b c. ch_version_le R a b \<longrightarrow> ch_version_le R b c \<longrightarrow> ch_version_le R a c)"

lemma release_order:
  assumes "version_laws R"
  shows "release_le R a b \<or> release_le R b a" and "release_le R a b \<Longrightarrow> release_le R b c \<Longrightarrow> release_le R a c"
proof -
  from assms have total: "\<And>x y. ch_version_le R x y \<or> ch_version_le R y x"
    and trans: "\<And>x y z. ch_version_le R x y \<Longrightarrow> ch_version_le R y z \<Longrightarrow> ch_version_le R x z"
    unfolding version_laws_def by blast+
  show "release_le R a b \<or> release_le R b a"
    using total [of "fst a" "fst b"] by (auto simp: release_le_def)
  assume le: "release_le R a b" "release_le R b c"
  then have "ch_version_le R (fst a) (fst c)" unfolding release_le_def using trans by blast
  moreover have "snd a \<le> snd c" if rev: "ch_version_le R (fst c) (fst a)"
  proof -
    from le rev have "ch_version_le R (fst b) (fst a)" "ch_version_le R (fst c) (fst b)"
      unfolding release_le_def using trans by blast+
    with le show ?thesis unfolding release_le_def by (auto intro: order_trans)
  qed
  ultimately show "release_le R a c" unfolding release_le_def by blast
qed

lemma mset_insert_release [simp]: "mset (insert_release le c cs) = {#c#} + mset cs"
  by (induction cs) auto

lemma mset_sort_releases: "mset (sort_releases le cs) = mset cs"
  by (induction cs) auto

lemma set_sort_releases [simp]: "set (sort_releases le cs) = set cs"
  by (metis mset_sort_releases set_mset_mset)

lemma set_insert_release [simp]: "set (insert_release le c cs) = insert c (set cs)"
  by (metis mset_insert_release set_mset_add_mset_insert set_mset_mset add_mset_add_single union_commute)

lemma sorted_sort_releases:
  assumes "version_laws R"
  shows "sorted_wrt (\<lambda>c d. release_le R (release_of (sp_record c)) (release_of (sp_record d))) (sort_releases (release_le R) cs)"
proof -
  note order = release_order [OF assms]
  let ?P = "\<lambda>c d. release_le R (release_of (sp_record c)) (release_of (sp_record d))"
  have "sorted_wrt ?P ds \<Longrightarrow> sorted_wrt ?P (insert_release (release_le R) c ds)" for c ds
  proof (induction ds)
    case (Cons d ds)
    show ?case
    proof (cases "?P c d")
      case True
      with Cons.prems show ?thesis using order(2) by auto
    next
      case False
      with order(1) have "?P d c" by blast
      with False Cons show ?thesis by auto
    qed
  qed simp
  then show ?thesis by (induction cs) auto
qed

lemma last_greatest:
  assumes "sorted_wrt P xs" "x \<in> set xs" "\<And>x. P x x"
  shows "P x (last xs)"
  using assms by (induction xs) auto

lemma list_all2_partners:
  assumes "list_all2 P xs ys"
  shows "y \<in> set ys \<Longrightarrow> \<exists>x \<in> set xs. P x y" and "x \<in> set xs \<Longrightarrow> \<exists>y \<in> set ys. P x y"
  using assms by (induction rule: list_all2_induct) auto

definition offered :: "channel_ext \<Rightarrow> string \<Rightarrow> string \<times> nat \<Rightarrow> string \<Rightarrow> repodata_record \<Rightarrow> bool" where
  "offered R package_name current platform r \<longleftrightarrow>
     pk_name (rr_package r) = package_name \<and> ends_with ''.conda'' (rr_identifier r) \<and> pk_subdir (rr_package r) = platform
     \<and> \<not> release_le R (release_of r) current"

definition selects :: "repodata_record \<Rightarrow> selected_package \<Rightarrow> bool" where
  "selects r c \<longleftrightarrow> sp_record c = r \<and> sp_filename c = rr_identifier r \<and> pk_size (rr_package r) = Some (sp_size c)
     \<and> (\<exists>digest. pk_sha256 (rr_package r) = Some digest \<and> sp_sha256 c = hex digest)
     \<and> validate_package_filename (rr_identifier r) = Inr ()"

lemma collect_candidates_exact:
  "collect_candidates R name current platform rs = Inr cs \<Longrightarrow>
     list_all2 selects (filter (offered R name current platform) rs) cs"
  by (induction rs arbitrary: cs) (auto simp: offered_def selects_def success_simps split: if_splits)

text \<open>C35. The choice of an update is right: if the repodata is accepted, the answer is a record of this package for this
  platform that is newer than the runtime, with its own digest and size, and no other such record has a
  greater version or, at the same version, a greater build number; the answer is none exactly if there is no such record.\<close>

theorem select_candidate_greatest:
  assumes laws: "version_laws R" and run: "select_candidate R header update platform records = Inr choice"
  shows "\<exists>name version. ch_package_name R (u_package update) = Inr name \<and> ch_version R (h_runtime_version header) = Inr version
     \<and> (let new = filter (offered R name (version, u_build_number update) platform) records in
        case choice of
          None \<Rightarrow> new = []
        | Some c \<Rightarrow> sp_record c \<in> set new \<and> selects (sp_record c) c
            \<and> (\<forall>r \<in> set new. release_le R (release_of r) (release_of (sp_record c))))"
proof -
  let ?new = "\<lambda>name version. filter (offered R name (version, u_build_number update) platform) records"
  obtain name version cs where parsed: "ch_package_name R (u_package update) = Inr name"
      "ch_version R (h_runtime_version header) = Inr version"
    and cs: "collect_candidates R name (version, u_build_number update) platform records = Inr cs"
    and choice: "choice = pop (sort_releases (release_le R) cs)"
    using run by (auto simp: select_candidate_def success_simps)
  from collect_candidates_exact [OF cs] have new: "list_all2 selects (?new name version) cs" .
  have "case choice of None \<Rightarrow> ?new name version = [] | Some c \<Rightarrow> sp_record c \<in> set (?new name version)
        \<and> selects (sp_record c) c \<and> (\<forall>r \<in> set (?new name version). release_le R (release_of r) (release_of (sp_record c)))"
  proof (cases "cs = []")
    case True
    with new choice show ?thesis by (simp add: pop_def)
  next
    case False
    let ?sorted = "sort_releases (release_le R) cs" and ?c = "last (sort_releases (release_le R) cs)"
    from False have "?sorted \<noteq> []" by (metis set_empty set_sort_releases)
    with choice have c: "choice = Some ?c" and mem: "?c \<in> set cs" using last_in_set [of ?sorted] by (auto simp: pop_def)
    have greatest: "release_le R (release_of (sp_record d)) (release_of (sp_record ?c))" if "d \<in> set cs" for d
    proof -
      have refl: "release_le R x x" for x using release_order(1) [OF laws, of x x] by blast
      from that have "d \<in> set ?sorted" by simp
      from last_greatest [OF sorted_sort_releases [OF laws] this refl] show ?thesis .
    qed
    from list_all2_partners(1) [OF new mem] obtain r where r: "r \<in> set (?new name version)" "selects r ?c" by blast
    then have "sp_record ?c = r" by (simp add: selects_def)
    with r have "sp_record ?c \<in> set (?new name version)" "selects (sp_record ?c) ?c" by simp_all
    moreover have "release_le R (release_of r) (release_of (sp_record ?c))" if "r \<in> set (?new name version)" for r
    proof -
      from list_all2_partners(2) [OF new that] obtain d where "d \<in> set cs" "selects r d" by blast
      with greatest show ?thesis by (auto simp: selects_def)
    qed
    ultimately show ?thesis by (simp add: c)
  qed
  with parsed show ?thesis by (simp add: Let_def)
qed

section \<open>The payload\<close>

definition genuine_payload ::
    "channel_ext \<Rightarrow> fs \<Rightarrow> path \<Rightarrow> runtime_header \<Rightarrow> runtime_update_config \<Rightarrow> package_record \<Rightarrow> path \<Rightarrow> bool" where
  "genuine_payload R s extracted current update record payload \<longleftrightarrow>
     (\<exists>rest b d u. payload = extracted @ rest \<and> ''..'' \<notin> set rest \<and> follow s payload = Some (Regular b)
        \<and> read_from_file (ue_codec (ch_update R)) (ue_pe (ch_update R)) (ue_macho (ch_update R)) payload b = Inr (Some d)
        \<and> h_runtime_name (rd_header d) = h_runtime_name current \<and> h_artifact_name (rd_header d) = h_artifact_name current
        \<and> h_platform (rd_header d) = ch_platform R
        \<and> ch_version_le R (h_runtime_version (rd_header d)) (pk_version record)
        \<and> ch_version_le R (pk_version record) (h_runtime_version (rd_header d))
        \<and> h_update (rd_header d) = Some u \<and> u_channel u = u_channel update \<and> u_package u = u_package update
        \<and> u_build_number u = pk_build_number record \<and> supports_direct_update u)"

lemma join_normal:
  assumes "list_all normal_component (path_components rel)"
  shows "join d rel = d @ components rel" and "''..'' \<notin> set (components rel)"
  using assms by (auto simp: path_components_def join_def list_all_iff normal_component_def split: if_splits)

lemma wp_read_from_path:
  assumes "\<And>b x. follow s p = Some (Regular b) \<Longrightarrow>
      read_from_file (ue_codec (ch_update R)) (ue_pe (ch_update R)) (ue_macho (ch_update R)) p b = Inr x \<Longrightarrow> Q x s"
    and "\<And>e. E e s" "C s"
  shows "wp (read_from_path R p) Q E C s"
  unfolding read_from_path_def using assms by (intro wp_bindio wp_read_file wp_lift_result) auto

lemma wp_verify_file:
  assumes "\<And>b. follow s p = Some (Regular b) \<Longrightarrow> length b = n \<Longrightarrow> hex (ch_sha256 R b) = digest \<Longrightarrow> Q () s" and "\<And>e. E e s" "C s"
  shows "wp (verify_file R p digest n) Q E C s"
  unfolding verify_file_def using assms by (intro wp_bindio wp_read_file wp_ensure) auto

lemma wp_validate_payload:
  assumes index: "index_matches R package index record"
  shows "wp (validate_payload R extracted current update index paths entry)
     (\<lambda>payload s'. s' = s \<and> genuine_payload R s extracted current update record payload) (\<lambda>_ s'. s' = s) (\<lambda>s'. s' = s) s"
  unfolding validate_payload_def Let_def
proof (rule wp_bindio, rule wp_ensure, goal_cases)
  case 1
  then have rel: "list_all normal_component (path_components (pt_relative_path entry))" by (simp add: payload_entry_valid_def)
  show ?case
    unfolding join_normal(1) [OF rel]
  proof (intro wp_bindio wp_lift_result wp_verify_file wp_read_from_path wp_ensure wp_ret, goal_cases)
    case (1 digest n b b' data stamped u)
    then show ?case
      using index join_normal(2) [OF rel] unfolding genuine_payload_def
      by (intro conjI refl exI [of _ "components (pt_relative_path entry)"] exI [of _ b'] exI [of _ stamped] exI [of _ u])
        (auto simp: stamp_matches_def stamped_update_matches_def index_matches_def ok_or_def split: option.splits)
  qed simp_all
qed simp

lemma wp_validate_extracted_candidate:
  assumes look: "\<And>d. stays (ch_index_json R d) {}" "\<And>d. stays (ch_paths_json R d) {}"
  shows "wp (validate_extracted_candidate R extracted current update candidate)
     (\<lambda>payload s'. s' = s \<and> genuine_payload R s extracted current update (rr_package (sp_record candidate)) payload)
     (\<lambda>_ s'. s' = s) (\<lambda>s'. s' = s) s"
  unfolding validate_extracted_candidate_def
proof (rule wp_bindio_stays [OF look(1)], goal_cases)
  case (1 index s1)
  then have s1: "s1 = s" by simp
  show ?case
    unfolding s1
  proof (rule wp_bindio, rule wp_lift_result, goal_cases)
    case (1 package)
    show ?case
    proof (rule wp_bindio, rule wp_ensure, goal_cases)
      case 1
      then show ?case
      proof (intro wp_bindio_stays [OF look(2)], goal_cases)
        case (1 paths s2)
        then have s2: "s2 = s" by simp
        show ?case
          unfolding s2 using wp_validate_payload [OF 1(1)] by (auto split: list.split intro: wp_fail)
      qed simp
    qed simp
  qed simp
qed simp

text \<open>C36. What an update stages is genuine: if the extracted package is accepted, under any faults, the payload is a regular file
  inside the package that reads as a stamped executable of this runtime, for this platform, of the selected
  version and build number, and it follows the same channel and package and may update itself; so an update can
  neither replace the runtime by another one nor move it to another source.\<close>

theorem staged_payload_genuine:
  assumes "\<And>d. stays (ch_index_json R d) {}" "\<And>d. stays (ch_paths_json R d) {}"
    and "validate_extracted_candidate R extracted current update candidate \<lparr>w_fs = s, w_schedule = schedule\<rparr> = (r, w')"
  shows "w_fs w' = s \<and> (\<forall>payload. r = Ok payload \<longrightarrow>
     genuine_payload R s extracted current update (rr_package (sp_record candidate)) payload)"
  using wpD [OF wp_validate_extracted_candidate [OF assms(1,2)] assms(3)] by (cases r) auto

section \<open>The repodata cache\<close>

lemma wp_with_temporary:
  assumes m: "wp m Q E' C (s(temporary \<mapsto> Regular []))"
    and error: "\<And>e s'. E' e s' \<Longrightarrow> E e s' \<and> E e (s'(temporary := None)) \<and> C s' \<and> C (s'(temporary := None))"
    and start: "\<And>e. E e s" "C s" "C (s(temporary \<mapsto> Regular []))"
  shows "wp (with_temporary temporary m) Q E C s"
  unfolding with_temporary_def
proof (rule wp_bindio, rule wp_create_new, goal_cases)
  case 1
  have "wp (bindio (tryio m) (\<lambda>r. case r of Inr _ \<Rightarrow> ret () | Inl e \<Rightarrow> bindio (tryio (remove_file temporary)) (\<lambda>_. fail e))) Q E C
       (s(temporary \<mapsto> Regular []))"
  proof (rule wp_bindio, rule wp_tryio, rule wp_mono [OF m])
    fix e s' assume "E' e s'"
    from error [OF this] show "wp (case Inl e of Inr _ \<Rightarrow> ret () | Inl e \<Rightarrow> bindio (tryio (remove_file temporary)) (\<lambda>_. fail e)) Q E C s'"
      by (auto intro!: wp_intros)
  qed (auto intro: wp_ret)
  with start(3) show ?case by (intro conjI)
qed (use start in simp_all)

lemma stays_with_temporary [stays_intros]: "temporary \<in> P \<Longrightarrow> stays m P \<Longrightarrow> stays (with_temporary temporary m) P"
  unfolding with_temporary_def by (intro stays_intros)

text \<open>The files a cache write may touch: the cache file, its lock and temporary file, and missing directories above.\<close>

definition cache_places :: "channel_ext \<Rightarrow> path \<Rightarrow> path set" where
  "cache_places R p = {take n p | n. n \<le> length p} \<union> {with_extension p ''lock'', butlast p @ [ch_temp_name R]}"

lemma in_cache_places [simp]:
  "p \<in> cache_places R p" "butlast p @ [ch_temp_name R] \<in> cache_places R p" "with_extension p ''lock'' \<in> cache_places R p"
proof -
  show "p \<in> cache_places R p" unfolding cache_places_def by (rule UnI1, rule CollectI, rule exI [of _ "length p"]) simp
qed (simp_all add: cache_places_def)

lemma parent_Inr: "ok_or m (parent p) = Inr d \<longleftrightarrow> p \<noteq> [] \<and> d = butlast p"
  by (auto simp: parent_def ok_or_def)

lemma take_butlast_le: "n \<le> length (butlast p) \<Longrightarrow> take n (butlast p) = take n p"
  by (cases p rule: rev_cases) simp_all

lemma stays_lock_cache_file:
  assumes "\<And>l. stays (ch_lock R l) {}"
  shows "stays (lock_cache_file R p) (cache_places R p - ({p} - {with_extension p ''lock''}))"
proof (cases "p = []")
  case False
  have up: "ok_or m (parent p) = Inr (butlast p)" for m using False by (simp add: parent_def ok_or_def)
  have above: "take n (butlast p) \<in> cache_places R p - ({p} - {with_extension p ''lock''})" if "n \<le> length (butlast p)" for n
  proof -
    from that False have "n < length p" by (cases p rule: rev_cases) simp_all
    then have "take n p \<noteq> p" by (metis length_take min.absorb4 nat_neq_iff)
    with that \<open>n < length p\<close> show ?thesis unfolding take_butlast_le [OF that] cache_places_def by auto
  qed
  show ?thesis
    unfolding lock_cache_file_def up lift_result_simps bindio_ret
    by (intro stays_intros stays_mono [OF assms] above) (simp_all add: cache_places_def)
qed (simp add: lock_cache_file_def parent_def ok_or_def stays_intros)

definition cache_settled :: "path \<Rightarrow> bytes \<Rightarrow> fs \<Rightarrow> fs \<Rightarrow> bool" where
  "cache_settled p b s s' \<longleftrightarrow> s' p = s p \<or> s' p = None \<or> s' p = Some (Regular b)"

lemma wp_cache_contents:
  assumes "temporary \<noteq> p" and "s0 p = s p"
  shows "wp (with_temporary temporary
       (bindio (write_all temporary b) (\<lambda>_. bindio sync (\<lambda>_. bindio (path_exists p) (\<lambda>present.
        bindio (if present then remove_file p else ret ()) (\<lambda>_. rename temporary p))))))
     (\<lambda>_ s'. s' p = Some (Regular b)) (\<lambda>_. cache_settled p b s) (cache_settled p b s) s0"
  by (rule wp_with_temporary [where E' = "\<lambda>_. cache_settled p b s"])
    (use assms in \<open>auto intro!: wp_intros simp: append_bytes_def cache_settled_def\<close>)

lemma wp_cache_persist:
  assumes "temporary \<noteq> p" and "s0 p = s p"
  shows "wp (with_temporary temporary (bindio (write_all temporary b) (\<lambda>_. rename temporary p)))
     (\<lambda>_ s'. s' p = Some (Regular b)) (\<lambda>_. cache_settled p b s) (cache_settled p b s) s0"
  by (rule wp_with_temporary [where E' = "\<lambda>_. cache_settled p b s"])
    (use assms in \<open>auto intro!: wp_intros simp: append_bytes_def cache_settled_def\<close>)

lemma repodata_cache_pathE:
  assumes "repodata_cache_path R prefix source = Inr p"
  obtains d n where "p = d @ [n @ ''.json'']" "with_extension p ''lock'' \<noteq> p"
proof -
  from assms obtain d n where p: "p = d @ [''repodata'', n @ ''.json'']" by (auto simp: repodata_cache_path_def success_simps)
  then have "with_extension p ''lock'' \<noteq> p"
    by (auto simp: with_extension_def file_name_def dest: arg_cong [where f = "\<lambda>q. last (last q)"])
  with p that [of "d @ [''repodata'']" n] show thesis by simp
qed

lemma cache_settled_same: "s' p = s p \<Longrightarrow> cache_settled p b s s'"
  by (simp add: cache_settled_def)

lemma wp_write_cache_file:
  assumes lock: "\<And>l. stays (ch_lock R l) {}" and names: "with_extension p ''lock'' \<noteq> p" "p \<noteq> []" "ch_temp_name R \<noteq> last p"
  shows "wp (write_cache_file R p b) (\<lambda>_ s'. s' p = Some (Regular b)) (\<lambda>_. cache_settled p b s) (cache_settled p b s) s"
proof -
  have up: "ok_or m (parent p) = Inr (butlast p)" for m using names(2) by (simp add: parent_def ok_or_def)
  have temporary: "butlast p @ [ch_temp_name R] \<noteq> p" using names(2,3) by (metis last_snoc)
  have same: "s' p = s p" if "unchanged_outside (cache_places R p - ({p} - {with_extension p ''lock''})) s s'" for s'
    using that names(1) by (auto elim: unchanged_outsideD)
  show ?thesis
    unfolding write_cache_file_def up lift_result_simps bindio_ret Let_def
    by (rule wp_bindio_stays [OF stays_lock_cache_file [OF lock]])
      (auto intro!: wp_cache_contents temporary same cache_settled_same)
qed

lemma stays_write_cache_file:
  assumes lock: "\<And>l. stays (ch_lock R l) {}"
  shows "stays (write_cache_file R p b) (cache_places R p)"
proof (cases "p = []")
  case False
  have up: "ok_or m (parent p) = Inr (butlast p)" for m using False by (simp add: parent_def ok_or_def)
  show ?thesis
    unfolding write_cache_file_def up lift_result_simps bindio_ret Let_def
    by (intro stays_intros stays_mono [OF stays_lock_cache_file [OF lock]]) auto
qed (simp add: write_cache_file_def lock_cache_file_def parent_def ok_or_def stays_intros)

lemma stays_try_write_cache_file:
  assumes lock: "\<And>l. stays (ch_try_lock R l) {}"
  shows "stays (try_write_cache_file R p b) (cache_places R p)"
proof (cases "p = []")
  case False
  have up: "ok_or m (parent p) = Inr (butlast p)" for m using False by (simp add: parent_def ok_or_def)
  have above: "take n (butlast p) \<in> cache_places R p" if "n \<le> length (butlast p)" for n
    unfolding take_butlast_le [OF that] cache_places_def using that by auto
  show ?thesis
    unfolding try_write_cache_file_def up lift_result_simps bindio_ret Let_def
    by (intro stays_intros above stays_mono [OF lock]) auto
qed (simp add: try_write_cache_file_def parent_def ok_or_def stays_intros)

lemma wp_try_write_cache_file:
  assumes lock: "\<And>l. stays (ch_try_lock R l) {}" and names: "with_extension p ''lock'' \<noteq> p" "p \<noteq> []" "ch_temp_name R \<noteq> last p"
  shows "wp (try_write_cache_file R p b) (\<lambda>_ s'. s' p = Some (Regular b)) (\<lambda>_. cache_settled p b s) (cache_settled p b s) s"
proof -
  let ?lock = "with_extension p ''lock''" and ?temporary = "butlast p @ [ch_temp_name R]"
  have up: "ok_or m (parent p) = Inr (butlast p)" for m using names(2) by (simp add: parent_def ok_or_def)
  have temporary: "?temporary \<noteq> p" using names(2,3) by (metis last_snoc)
  have above: "take n (butlast p) \<in> - {p}" if "n \<le> length (butlast p)" for n
  proof -
    from that names(2) have "length (take n (butlast p)) < length p" by (cases p rule: rev_cases) simp_all
    then show ?thesis by (metis ComplI less_irrefl singletonD)
  qed
  have preparing: "stays (bindio (create_dir_all (butlast p)) (\<lambda>_. bindio (open_or_create ?lock) (\<lambda>_. ch_try_lock R ?lock))) (- {p})"
    by (intro stays_intros above stays_mono [OF lock]) (use names in auto)
  have shape: "try_write_cache_file R p b
      = bindio (bindio (create_dir_all (butlast p)) (\<lambda>_. bindio (open_or_create ?lock) (\<lambda>_. ch_try_lock R ?lock)))
          (\<lambda>_. with_temporary ?temporary (bindio (write_all ?temporary b) (\<lambda>_. rename ?temporary p)))"
    unfolding try_write_cache_file_def up lift_result_simps bindio_ret Let_def bindio_assoc ..
  show ?thesis
    unfolding shape
    by (rule wp_bindio_stays [OF preparing])
      (auto intro!: wp_cache_persist temporary cache_settled_same elim: unchanged_outsideD)
qed

text \<open>C37. Cached repodata is never torn: whatever fails or stops a write of the cache, also the quick one of a probe, the cache
  file is as before, gone, or complete, it is complete if the write returns, and besides it only its lock, a temporary
  file and missing directories above are touched.\<close>

theorem repodata_cache_never_torn:
  assumes locks: "\<And>l. stays (ch_lock R l) {}" "\<And>l. stays (ch_try_lock R l) {}"
    and p: "repodata_cache_path R prefix source = Inr p" "ch_temp_name R \<noteq> last p"
    and kind: "m = write_cache_file R p b \<or> m = try_write_cache_file R p b"
    and run: "m \<lparr>w_fs = s, w_schedule = schedule\<rparr> = (r, w')"
  shows "cache_settled p b s (w_fs w') \<and> (r = Ok () \<longrightarrow> w_fs w' p = Some (Regular b)) \<and> unchanged_outside (cache_places R p) s (w_fs w')"
proof -
  from p(1) obtain d n where "p = d @ [n @ ''.json'']" and lock: "with_extension p ''lock'' \<noteq> p" by (rule repodata_cache_pathE)
  then have "p \<noteq> []" by simp
  note names = lock this p(2)
  have "wp m (\<lambda>_ s'. s' p = Some (Regular b)) (\<lambda>_. cache_settled p b s) (cache_settled p b s) s" "stays m (cache_places R p)"
    using kind wp_write_cache_file [OF locks(1) names] wp_try_write_cache_file [OF locks(2) names]
      stays_write_cache_file [OF locks(1)] stays_try_write_cache_file [OF locks(2)] by blast+
  from wpD [OF this(1) run] stays_run [OF this(2) run] show ?thesis
    by (cases r) (auto simp: cache_settled_def)
qed

section \<open>Probes\<close>

definition network_quiet :: "channel_ext \<Rightarrow> bool" where
  "network_quiet R \<longleftrightarrow> (\<forall>l. stays (ch_lock R l) {}) \<and> (\<forall>l. stays (ch_try_lock R l) {}) \<and> (\<forall>u. stays (ch_get R u) {})
     \<and> (\<forall>u. stays (ch_probe_get R u) {}) \<and> (\<forall>p. stays (ch_cache_age R p) {})"

lemma network_quietD:
  assumes "network_quiet R"
  shows "stays (ch_lock R l) P" "stays (ch_try_lock R l) P" "stays (ch_get R u) P" "stays (ch_probe_get R u) P"
    "stays (ch_cache_age R p) P"
  using assms unfolding network_quiet_def by (blast intro: stays_mono [of _ "{}"])+

lemma stays_ok_io [stays_intros]: "stays m P \<Longrightarrow> stays (ok_io m) P"
  unfolding ok_io_def by (intro stays_intros)

text \<open>The cached repodata of the update channel of \<open>update\<close>.\<close>

definition probe_places :: "channel_ext \<Rightarrow> path \<Rightarrow> path set" where
  "probe_places R prefix = \<Union> {cache_places R p | p source. repodata_cache_path R prefix source = Inr p}"

lemma stays_probe_channel:
  assumes quiet: "network_quiet R"
  shows "stays (probe_channel R prefix header update channel platform offline) (probe_places R prefix)"
proof -
  note calm = network_quietD [OF quiet]
  have network: "stays (probe_network R select url) P" and cached: "stays (probe_cache R select c) P"
    and from_file: "stays (probe_file R select url) P" for select url c P
    unfolding probe_network_def probe_cache_def probe_file_def by (auto intro!: stays_intros calm)
  have writes: "stays (try_write_cache_file R cache b) (probe_places R prefix)" if "repodata_cache_path R prefix source = Inr cache"
    for source cache b
    by (rule stays_mono [OF stays_try_write_cache_file [OF calm(2)]]) (use that in \<open>auto simp: probe_places_def\<close>)
  show ?thesis
    unfolding probe_channel_def Let_def
    by (auto intro!: stays_intros network cached from_file writes split: sum.split)
qed

text \<open>A probe only looks: whatever it answers and whatever fails, it changes nothing but the cached repodata with its lock
  and temporary file, so in particular it never repairs or rewrites the runtime's metadata or executable.\<close>

theorem probe_only_writes_cache:
  assumes "network_quiet R" and "probe R prefix header update \<lparr>w_fs = s, w_schedule = schedule\<rparr> = (r, w')"
  shows "unchanged_outside (probe_places R prefix) s (w_fs w')"
proof -
  have "stays (probe_candidate R prefix header update offline) (probe_places R prefix)" for offline
    unfolding probe_candidate_def by (auto intro!: stays_intros stays_probe_channel [OF assms(1)] split: sum.split)
  then have "stays (probe R prefix header update) (probe_places R prefix)"
    unfolding probe_def Let_def by (intro stays_intros)
  then show ?thesis using assms(2) by (rule stays_run)
qed

section \<open>Offline\<close>

text \<open>The parts of the environment that reach the network.\<close>

definition other_network :: "channel_ext \<Rightarrow> unit result \<Rightarrow> (url \<Rightarrow> (url \<times> bytes) io) \<Rightarrow> (url \<Rightarrow> (url \<times> bytes) io)
    \<Rightarrow> (url \<Rightarrow> path \<Rightarrow> bytes \<Rightarrow> (nat \<times> bytes) io) \<Rightarrow> channel_ext" where
  "other_network R client get probe_get extract_url =
     R\<lparr>ch_client := client, ch_get := get, ch_probe_get := probe_get, ch_extract_url := extract_url\<rparr>"

lemma other_network_fields [simp]:
  "ch_update (other_network R c g q x) = ch_update R" "ch_platform (other_network R c g q x) = ch_platform R"
  "ch_version (other_network R c g q x) = ch_version R" "ch_version_le (other_network R c g q x) = ch_version_le R"
  "ch_package_name (other_network R c g q x) = ch_package_name R" "ch_url (other_network R c g q x) = ch_url R"
  "ch_url_with_base (other_network R c g q x) = ch_url_with_base R" "ch_channel (other_network R c g q x) = ch_channel R"
  "ch_join_url (other_network R c g q x) = ch_join_url R" "ch_to_file_path (other_network R c g q x) = ch_to_file_path R"
  "ch_repodata (other_network R c g q x) = ch_repodata R" "ch_has_package_map (other_network R c g q x) = ch_has_package_map R"
  "ch_extract_file (other_network R c g q x) = ch_extract_file R" "ch_get_or_fetch (other_network R c g q x) = ch_get_or_fetch R"
  "ch_index_json (other_network R c g q x) = ch_index_json R" "ch_paths_json (other_network R c g q x) = ch_paths_json R"
  "ch_cache_dir (other_network R c g q x) = ch_cache_dir R" "ch_cache_age (other_network R c g q x) = ch_cache_age R"
  "ch_temp_name (other_network R c g q x) = ch_temp_name R" "ch_lock (other_network R c g q x) = ch_lock R"
  "ch_try_lock (other_network R c g q x) = ch_try_lock R" "ch_invocation_path (other_network R c g q x) = ch_invocation_path R"
  "ch_env (other_network R c g q x) = ch_env R" "ch_env_path (other_network R c g q x) = ch_env_path R"
  "ch_respond (other_network R c g q x) = ch_respond R"
  by (simp_all add: other_network_def)

lemma other_network_simps [simp]:
  "candidate_channel (other_network R c g q x) header update = candidate_channel R header update"
  "select_candidate (other_network R c g q x) header update platform records = select_candidate R header update platform records"
  "repodata_cache_path (other_network R c g q x) prefix source = repodata_cache_path R prefix source"
  "update_cache_dir (other_network R c g q x) prefix = update_cache_dir R prefix"
  "validate_extracted_candidate (other_network R c g q x) extracted current update candidate
     = validate_extracted_candidate R extracted current update candidate"
  "selected_candidate_digest (other_network R c g q x) = selected_candidate_digest R"
  "probe_select (other_network R c g q x) header update channel platform = probe_select R header update channel platform"
proof -
  have config: "validate_update_config (other_network R c g q x) u = validate_update_config R u" for u
    by (simp add: validate_update_config_def cong: if_cong option.case_cong sum.case_cong)
  then show "candidate_channel (other_network R c g q x) header update = candidate_channel R header update"
    by (simp add: candidate_channel_def cong: if_cong option.case_cong sum.case_cong)
  have le: "release_le (other_network R c g q x) = release_le R" by (intro ext) (simp add: release_le_def cong: if_cong option.case_cong sum.case_cong)
  have "collect_candidates (other_network R c g q x) n cur platform records = collect_candidates R n cur platform records" for n cur platform records
    by (induction records) (simp_all add: le cong: if_cong option.case_cong sum.case_cong)
  then show select: "select_candidate (other_network R c g q x) header update platform records = select_candidate R header update platform records"
    for header update platform records by (simp add: select_candidate_def le cong: if_cong option.case_cong sum.case_cong)
  have "read_from_path (other_network R c g q x) p = read_from_path R p"
    "verify_file (other_network R c g q x) p d n = verify_file R p d n"
    "stamp_matches (other_network R c g q x) = stamp_matches R" "index_matches (other_network R c g q x) = index_matches R" for p d n
    by (simp_all add: read_from_path_def verify_file_def stamp_matches_def index_matches_def fun_eq_iff cong: if_cong option.case_cong sum.case_cong)
  then have "validate_payload (other_network R c g q x) extracted current update index paths entry
      = validate_payload R extracted current update index paths entry" for extracted current update index paths entry
    by (simp add: validate_payload_def config cong: if_cong option.case_cong sum.case_cong)
  then show "validate_extracted_candidate (other_network R c g q x) extracted current update candidate
     = validate_extracted_candidate R extracted current update candidate"
    using \<open>index_matches (other_network R c g q x) = index_matches R\<close>
    by (simp add: validate_extracted_candidate_def cong: if_cong option.case_cong sum.case_cong list.case_cong)
  show "probe_select (other_network R c g q x) header update channel platform = probe_select R header update channel platform"
    by (intro ext) (simp add: probe_select_def parse_probe_repodata_def select cong: if_cong option.case_cong sum.case_cong)
qed (simp_all add: repodata_cache_path_def update_cache_dir_def selected_candidate_digest_def cong: if_cong option.case_cong sum.case_cong)

lemma offline_resolve:
  "resolve_candidate (other_network R c g q x) prefix header update True = resolve_candidate R prefix header update True"
proof -
  have "load_repodata (other_network R c g q x) prefix channel platform True = load_repodata R prefix channel platform True" for channel platform
    by (simp add: load_repodata_def cong: if_cong cong: if_cong option.case_cong sum.case_cong)
  then show ?thesis by (simp add: resolve_candidate_def cong: if_cong option.case_cong sum.case_cong)
qed

lemma offline_fetch: "fetch_package (other_network R c g q x) prefix candidate True = fetch_package R prefix candidate True"
proof -
  have "fetch_archive (other_network R c g q x) candidate e False = fetch_archive R candidate e False" for e
    by (intro ext) (simp add: fetch_archive_def cong: if_cong option.case_cong sum.case_cong)
  then show ?thesis by (simp add: fetch_package_def fetch_package_into_def cong: if_cong option.case_cong sum.case_cong)
qed

text \<open>Offline updates stay offline: with the offline flag the check and the staging of an update and the choice of the probe depend
  neither on a client nor on any request, so that they use the cached repodata and packages or fail.\<close>

theorem offline_update_no_network:
  "run_check (other_network R client get probe_get extract_url) prefix update meta True = run_check R prefix update meta True
   \<and> run_stage windows (other_network R client get probe_get extract_url) prefix update meta True = run_stage windows R prefix update meta True
   \<and> probe_candidate (other_network R client get probe_get extract_url) prefix header update True = probe_candidate R prefix header update True"
proof -
  have check: "run_check (other_network R client get probe_get extract_url) prefix update meta True = run_check R prefix update meta True"
    by (simp add: run_check_def offline_resolve cong: if_cong option.case_cong sum.case_cong)
  have stage: "run_stage windows (other_network R client get probe_get extract_url) prefix update meta True = run_stage windows R prefix update meta True"
    by (simp add: run_stage_def offline_resolve offline_fetch cong: if_cong option.case_cong sum.case_cong)
  have "probe_file (other_network R client get probe_get extract_url) = probe_file R"
    "probe_cache (other_network R client get probe_get extract_url) = probe_cache R"
    by (simp_all add: probe_file_def probe_cache_def fun_eq_iff cong: if_cong option.case_cong sum.case_cong)
  then have "probe_candidate (other_network R client get probe_get extract_url) prefix header update True = probe_candidate R prefix header update True"
    by (simp add: probe_candidate_def probe_channel_def cong: if_cong option.case_cong sum.case_cong)
  with check stage show ?thesis by blast
qed

section \<open>The lock of the caller\<close>

text \<open>The actions that prepare or install an update are for the client that coordinates it: without its lock \<open>check\<close>,
  \<open>stage\<close> and \<open>apply\<close> fail before anything is changed or answered, whatever else happens.\<close>

theorem update_actions_need_lock:
  assumes action: "action \<in> {''v1/check'', ''v1/stage'', ''v1/apply''}" and free: "\<not> ue_lock_held (ch_update R)"
    and run: "run_internal_helper n windows R action prefix \<lparr>w_fs = s, w_schedule = schedule\<rparr> = (r, w')"
  shows "w_fs w' = s \<and> (\<forall>x. r \<noteq> Ok x)"
proof -
  let ?rest = "\<lambda>_. fail undefined :: unit io"
  have held: "wp (bindio (update_lock_is_held (ch_update R) prefix mf) (\<lambda>held. ensure held m)) (\<lambda>_ _. False) (\<lambda>_ s'. s' = s) (\<lambda>s'. s' = s) s"
    for mf m
    unfolding update_lock_is_held_def by (intro wp_intros) (simp_all add: free)
  have parsed: "parse_action windows action \<in> {Some Check_Action, Some Stage_Action, Some Apply_Action}"
    using action by (auto simp: parse_action_def)
  have "wp (run_internal_helper n windows R action prefix) (\<lambda>_ _. False) (\<lambda>_ s'. s' = s) (\<lambda>s'. s' = s) s"
    unfolding run_internal_helper_def Let_def
  proof (rule wp_bindio, rule wp_lift_result, goal_cases)
    case (1 update)
    have "wp (bindio (bindio (update_lock_is_held (ch_update R) prefix (h_metadata_file (ch_header R)))
        (\<lambda>held. ensure held ''runtime update coordination lock is not held by the caller'')) k) (\<lambda>_ _. False) (\<lambda>_ s'. s' = s) (\<lambda>s'. s' = s) s"
      for k :: "unit \<Rightarrow> unit io"
      by (rule wp_bindio, rule wp_mono [OF held]) auto
    with parsed show ?case by auto
  qed simp
  from wpD [OF this run] show ?thesis by (cases r) auto
qed

section \<open>Instances\<close>

definition channel_header :: runtime_header where
  "channel_header = (header_for_name ''2.0.0'' ''demo'')
     \<lparr>h_artifact_layout := ''online'', h_platform := ''linux-64'',
      h_update := Some (runtime_update_config_new ''https://h/c'' ''demo'' 1)\<rparr>"

definition channel_codec :: codec_ext where
  "channel_codec =
     \<lparr>sha256 = (\<lambda>b. take 32 (b @ replicate 32 0)),
      header_to_vec = (\<lambda>h. if h = channel_header then Inr [2] else Inl Io_Failed),
      header_from_slice = (\<lambda>b. if b = [2] then Inr channel_header else Inl Io_Failed)\<rparr>"

definition channel_payload :: bytes where
  "channel_payload = replicate 32 2 @ stamp_payload channel_codec [2] []"

lemma channel_payload_stamped:
  "read_from_file channel_codec sample_pe sample_macho p channel_payload
    = Inr (Some (stamped_data channel_codec p 32 channel_header [2] []))"
proof -
  have ok: "stampable channel_codec channel_header [2] []"
    by (auto simp: stampable_def codec_laws_def channel_codec_def FORMAT_VERSION_def MAX_HEADER_LEN_def min_def
        channel_header_def header_for_name_def)
  have "channel_payload = replicate 32 2 @ stamp_payload channel_codec [2] [] @ replicate 0 0 @ []"
    by (simp add: channel_payload_def)
  from search_finds_stamp [OF ok this, of "\<lparr>fs_data_end = length channel_payload, fs_alignment = 1, fs_minimum_payload_offset = 0\<rparr>" p]
  have "read_runtime_data_with_search_spec channel_codec p channel_payload
      \<lparr>fs_data_end = length channel_payload, fs_alignment = 1, fs_minimum_payload_offset = 0\<rparr>
    = Inr (Some (stamped_data channel_codec p 32 channel_header [2] []))"
    by (simp add: channel_payload_def)
  moreover have "detect_binary_format sample_pe channel_payload = Inr Other"
  proof -
    have "detect_binary_format sample_pe (replicate 32 2) = Inr Other"
      by code_simp
    from detect_Other_append [OF this] show ?thesis by (simp add: channel_payload_def)
  qed
  ultimately show ?thesis by (simp add: read_from_file_def)
qed

definition sample_channel_url :: url where
  "sample_channel_url = \<lparr>url_scheme = ''https'', url_username = [], url_password = None, url_query = None, url_fragment = None,
     url_segments = Some [''c''], url_text = ''https://h/c''\<rparr>"

definition newer_record :: "string \<Rightarrow> nat \<Rightarrow> repodata_record" where
  "newer_record version build = \<lparr>rr_package = \<lparr>pk_name = ''demo'', pk_version = version, pk_build = ''0'', pk_build_number = build,
       pk_subdir = ''linux-64'', pk_depends = [], pk_md5 = None, pk_sha256 = Some [2], pk_size = Some 10\<rparr>,
     rr_identifier = ''demo.conda'', rr_dist = ''demo'', rr_url = sample_channel_url, rr_channel = None\<rparr>"

text \<open>Versions of one digit in front, compared by it; the package \<open>2.0.0\<close> with the payload above.\<close>

definition sample_channel :: channel_ext where
  "sample_channel = \<lparr>ch_update = sample_env\<lparr>ue_codec := channel_codec\<rparr>, ch_platform = ''linux-64'', ch_version = Inr,
     ch_version_le = (\<lambda>a b. (of_char (hd a) :: nat) \<le> of_char (hd b)), ch_package_name = Inr, ch_url = (\<lambda>_. Inr sample_channel_url),
     ch_url_with_base = (\<lambda>_. Inr sample_channel_url), ch_channel = (\<lambda>_. Inr sample_channel_url),
     ch_join_url = (\<lambda>u s. Inr u), ch_to_file_path = (\<lambda>_. None),
     ch_repodata = (\<lambda>_ _. Inr [newer_record ''2.0.0'' 0, newer_record ''2.0.0'' 1, newer_record ''1.0.0'' 0]),
     ch_has_package_map = (\<lambda>_. Inr True), ch_client = Inr (), ch_get = (\<lambda>u. ret (u, [1])), ch_probe_get = (\<lambda>u. ret (u, [1])),
     ch_extract_file = (\<lambda>_ _. ret (10, [2])), ch_extract_url = (\<lambda>_ _ _. ret (10, [2])),
     ch_get_or_fetch = (\<lambda>d _ _ fetch. bindio (fetch d) (\<lambda>_. ret d)),
     ch_index_json = (\<lambda>_. ret \<lparr>ij_name = ''demo'', ij_version = ''2.0.0'', ij_build = ''0'', ij_build_number = 1,
        ij_subdir = Some ''linux-64'', ij_depends = []\<rparr>),
     ch_paths_json = (\<lambda>_. ret \<lparr>pj_version = 1, pj_paths = [\<lparr>pt_relative_path = ''bin/demo'', pt_type = Hard_Link_Path,
        pt_prefix_placeholder = False, pt_sha256 = Some (replicate 32 2), pt_size_in_bytes = Some (length channel_payload)\<rparr>]\<rparr>),
     ch_cache_dir = Some [''cache''], ch_cache_age = (\<lambda>_. ret None), ch_temp_name = ''.tmp1'', ch_lock = (\<lambda>_. ret ()),
     ch_try_lock = (\<lambda>_. ret ()), ch_invocation_path = Inr (True, [''bin'', ''demo'']), ch_env = (\<lambda>_. Env_Absent),
     ch_env_path = (\<lambda>_. None), ch_respond = (\<lambda>_. ret ())\<rparr>"

lemma select_candidate_greatest_witness:
  "\<exists>c. select_candidate sample_channel channel_header (runtime_update_config_new ''https://h/c'' ''demo'' 0) ''linux-64''
       [newer_record ''3.0.0'' 0, newer_record ''2.0.0'' 1, newer_record ''3.0.0'' 1] = Inr (Some c)
     \<and> release_le sample_channel (''3.0.0'', 0) (release_of (sp_record c))"
proof -
  let ?u = "runtime_update_config_new ''https://h/c'' ''demo'' 0"
  let ?rs = "[newer_record ''3.0.0'' 0, newer_record ''2.0.0'' 1, newer_record ''3.0.0'' 1]"
  have "version_laws sample_channel" by (auto simp: version_laws_def sample_channel_def)
  moreover obtain c where run: "select_candidate sample_channel channel_header ?u ''linux-64'' ?rs = Inr (Some c)"
    by (simp add: select_candidate_def sample_channel_def channel_header_def header_for_name_def runtime_update_config_new_def
        newer_record_def release_le_def release_of_def ends_with_def validate_package_filename_def ok_or_def pop_def)
  ultimately have "newer_record ''3.0.0'' 0 \<in> set (filter (offered sample_channel ''demo'' (''2.0.0'', 0) ''linux-64'') ?rs)
      \<Longrightarrow> release_le sample_channel (release_of (newer_record ''3.0.0'' 0)) (release_of (sp_record c))"
    using select_candidate_greatest [of sample_channel channel_header ?u "''linux-64''" ?rs "Some c"]
    by (auto simp: Let_def sample_channel_def channel_header_def header_for_name_def runtime_update_config_new_def)
  then have "release_le sample_channel (''3.0.0'', 0) (release_of (sp_record c))"
    by (simp add: offered_def newer_record_def release_of_def release_le_def ends_with_def sample_channel_def)
  with run show ?thesis by blast
qed

lemma staged_payload_genuine_witness:
  "\<exists>d. read_from_file channel_codec sample_pe sample_macho [''p'', ''bin'', ''demo''] channel_payload = Inr (Some d)
     \<and> h_update (rd_header d) = Some (runtime_update_config_new ''https://h/c'' ''demo'' 1)"
proof -
  let ?s = "[[''p'', ''bin'', ''demo''] \<mapsto> Regular channel_payload] :: fs"
  let ?u = "runtime_update_config_new ''https://h/c'' ''demo'' 0"
  let ?c = "\<lparr>sp_record = newer_record ''2.0.0'' 1, sp_filename = ''demo.conda'', sp_sha256 = ''02'', sp_size = 10\<rparr>"
  let ?m = "validate_extracted_candidate sample_channel [''p''] channel_header ?u ?c"
  have look: "stays (ch_index_json sample_channel d) {}" "stays (ch_paths_json sample_channel d) {}" for d
    by (simp_all add: sample_channel_def stays_intros)
  have env: "ue_codec (ch_update sample_channel) = channel_codec" "ue_pe (ch_update sample_channel) = sample_pe"
    "ue_macho (ch_update sample_channel) = sample_macho"
    by (simp_all add: sample_channel_def sample_env_def)
  have components: "path_components ''bin/demo'' = [Normal_Component ''bin'', Normal_Component ''demo'']"
    "components ''bin/demo'' = [''bin'', ''demo'']"
    by (simp_all add: path_components_def components_def starts_with_def)
  have config: "validate_update_config sample_channel (runtime_update_config_new ''https://h/c'' ''demo'' 1) = Inr ()"
    by (simp add: validate_update_config_def sample_channel_def sample_channel_url_def validate_artifact_url_def
        runtime_update_config_new_def) code_simp
  have digest: "sha256 channel_codec channel_payload = replicate 32 2"
    by (simp add: channel_codec_def channel_payload_def)
  have index: "index_matches sample_channel ''demo'' \<lparr>ij_name = ''demo'', ij_version = ''2.0.0'', ij_build = ''0'', ij_build_number = 1,
        ij_subdir = Some ''linux-64'', ij_depends = []\<rparr> (rr_package (sp_record ?c))"
    by (simp add: index_matches_def sample_channel_def newer_record_def)
  have stamp: "stamp_matches sample_channel channel_header \<lparr>ij_name = ''demo'', ij_version = ''2.0.0'', ij_build = ''0'', ij_build_number = 1,
        ij_subdir = Some ''linux-64'', ij_depends = []\<rparr> channel_header"
    by (simp add: stamp_matches_def channel_header_def header_for_name_def sample_channel_def)
  have join_demo: "join [''p''] ''bin/demo'' = [''p'', ''bin'', ''demo'']" by (simp add: join_def starts_with_def components)
  have verified: "verify_file sample_channel [''p'', ''bin'', ''demo''] (hex (replicate 32 2)) (length channel_payload) \<lparr>w_fs = ?s, w_schedule = []\<rparr>
      = (Ok (), \<lparr>w_fs = ?s, w_schedule = []\<rparr>)"
    by (simp add: verify_file_def read_file_def bindio_def atomic_op_def next_event_def follow_def ensure_def ret_def env digest)
  have read_back: "read_from_path sample_channel [''p'', ''bin'', ''demo''] \<lparr>w_fs = ?s, w_schedule = []\<rparr>
      = (Ok (Some (stamped_data channel_codec [''p'', ''bin'', ''demo''] 32 channel_header [2] [])), \<lparr>w_fs = ?s, w_schedule = []\<rparr>)"
    by (simp add: read_from_path_def read_file_def bindio_def atomic_op_def next_event_def follow_def env channel_payload_stamped ret_def)
  note verified_step = bindio_Ok [where m = "verify_file sample_channel _ _ _" and w = "\<lparr>w_fs = ?s, w_schedule = []\<rparr>", OF verified]
  note read_step = bindio_Ok [where m = "read_from_path sample_channel _" and w = "\<lparr>w_fs = ?s, w_schedule = []\<rparr>", OF read_back]
  have stamped_step: "rd_header (stamped_data channel_codec p 32 channel_header [2] []) = channel_header"
      "h_update channel_header = Some (runtime_update_config_new ''https://h/c'' ''demo'' 1)" for p
    by (simp_all add: stamped_data_def) (simp add: channel_header_def)
  have payload: "validate_payload sample_channel [''p''] channel_header ?u \<lparr>ij_name = ''demo'', ij_version = ''2.0.0'', ij_build = ''0'',
        ij_build_number = 1, ij_subdir = Some ''linux-64'', ij_depends = []\<rparr>
       \<lparr>pj_version = 1, pj_paths = [\<lparr>pt_relative_path = ''bin/demo'', pt_type = Hard_Link_Path,
        pt_prefix_placeholder = False, pt_sha256 = Some (replicate 32 2), pt_size_in_bytes = Some (length channel_payload)\<rparr>]\<rparr>
       \<lparr>pt_relative_path = ''bin/demo'', pt_type = Hard_Link_Path,
        pt_prefix_placeholder = False, pt_sha256 = Some (replicate 32 2), pt_size_in_bytes = Some (length channel_payload)\<rparr>
       \<lparr>w_fs = ?s, w_schedule = []\<rparr> = (Ok [''p'', ''bin'', ''demo''], \<lparr>w_fs = ?s, w_schedule = []\<rparr>)"
    unfolding validate_payload_def Let_def paths_entry.simps join_demo
    by (simp add: payload_entry_valid_def components normal_component_def ok_or_def ensure_def verified_step read_step stamped_step
        stamp [unfolded One_nat_def] config [unfolded One_nat_def runtime_update_config_new_def]
        stamped_update_matches_def supports_direct_update_def runtime_update_config_new_def)
      (simp add: ret_def)
  have "?m \<lparr>w_fs = ?s, w_schedule = []\<rparr> = (Ok [''p'', ''bin'', ''demo''], \<lparr>w_fs = ?s, w_schedule = []\<rparr>)"
    using payload index unfolding validate_extracted_candidate_def
    by (simp add: sample_channel_def [THEN arg_cong [where f = ch_index_json]] sample_channel_def [THEN arg_cong [where f = ch_paths_json]]
        sample_channel_def [THEN arg_cong [where f = ch_package_name]] runtime_update_config_new_def ensure_def)
  from staged_payload_genuine [OF look this] show ?thesis
    by (auto simp: genuine_payload_def env channel_payload_stamped stamped_data_def channel_header_def)
qed

lemma repodata_cache_never_torn_witness:
  "let p = [''cache'', ''conda-ship'', ''updates'', ''repodata'', hex (replicate 32 0) @ ''.json''];
       (r, w') = write_cache_file sample_channel p [1] \<lparr>w_fs = [[''cache''] \<mapsto> Directory], w_schedule = replicate 6 Go @ [Halt 0]\<rparr>
   in cache_settled p [1] [[''cache''] \<mapsto> Directory] (w_fs w')"
proof -
  let ?p = "[''cache'', ''conda-ship'', ''updates'', ''repodata'', hex (replicate 32 0) @ ''.json'']"
  have "repodata_cache_path sample_channel [''opt''] '''' = Inr ?p"
    by (simp add: repodata_cache_path_def update_cache_dir_def sample_channel_def channel_codec_def bytes_of_string_def)
  moreover have "ch_temp_name sample_channel \<noteq> last ?p"
    by (auto simp: sample_channel_def dest: arg_cong [where f = last])
  moreover have "stays (ch_lock sample_channel l) {}" "stays (ch_try_lock sample_channel l) {}" for l
    by (simp_all add: sample_channel_def stays_intros)
  moreover obtain r w' where run: "write_cache_file sample_channel ?p [1]
      \<lparr>w_fs = [[''cache''] \<mapsto> Directory], w_schedule = replicate 6 Go @ [Halt 0]\<rparr> = (r, w')" by fastforce
  ultimately have "cache_settled ?p [1] [[''cache''] \<mapsto> Directory] (w_fs w')"
    using repodata_cache_never_torn [of sample_channel, OF _ _ _ _ disjI1 [OF refl] run] by blast
  then show ?thesis by (simp only: Let_def run prod.case)
qed

lemma probe_only_writes_cache_witness:
  "let (r, w') = probe sample_channel [''opt''] channel_header (runtime_update_config_new ''https://h/c'' ''demo'' 0)
       \<lparr>w_fs = sample_machine 1, w_schedule = []\<rparr>
   in w_fs w' [''opt'', ''.demo.json''] = Some (Regular [1, 10])"
proof -
  have quiet: "network_quiet sample_channel" by (simp add: network_quiet_def sample_channel_def stays_intros)
  obtain r w' where run: "probe sample_channel [''opt''] channel_header (runtime_update_config_new ''https://h/c'' ''demo'' 0)
       \<lparr>w_fs = sample_machine 1, w_schedule = []\<rparr> = (r, w')" by fastforce
  have "hd q = ''cache''" if "q \<in> probe_places sample_channel [''opt'']" "q \<noteq> []" for q
    using that by (auto simp: probe_places_def cache_places_def repodata_cache_path_def update_cache_dir_def sample_channel_def
        with_extension_def file_name_def take_Cons split: nat.splits)
  then have "[''opt'', ''.demo.json''] \<notin> probe_places sample_channel [''opt'']" by fastforce
  from unchanged_outsideD [OF probe_only_writes_cache [OF quiet run] this] show ?thesis
    by (simp only: Let_def run prod.case) (simp add: sample_machine_def)
qed

lemma update_actions_need_lock_witness:
  "let (r, w') = run_internal_helper 1 False sample_channel ''v1/stage'' [''opt''] \<lparr>w_fs = sample_machine 1, w_schedule = []\<rparr>
   in w_fs w' = sample_machine 1"
proof -
  obtain r w' where run: "run_internal_helper 1 False sample_channel ''v1/stage'' [''opt''] \<lparr>w_fs = sample_machine 1, w_schedule = []\<rparr>
      = (r, w')" by fastforce
  from update_actions_need_lock [OF _ _ run] show ?thesis by (simp only: Let_def run prod.case) (simp add: sample_channel_def sample_env_def)
qed

end
