(* ===== verification/Package_Safety.thy ===== *)
theory Package_Safety
  imports Update_Package Update_Channel
begin

text \<open>
  Packaging under faults: no file that existed before is changed, and every file that appears outside the temporary
  directories is a complete package of the executable and the info it was built from.
\<close>

section \<open>Changes that only add\<close>

definition settles :: "path set \<Rightarrow> (path \<Rightarrow> bytes \<Rightarrow> bool) \<Rightarrow> fs \<Rightarrow> fs \<Rightarrow> bool" where
  "settles T K s t \<longleftrightarrow> (\<forall>p. t p = s p \<or> s p = None \<and> (p \<in> T \<or> t p = Some Directory \<or> (\<exists>b. t p = Some (Regular b) \<and> K p b)))"

abbreviation grows :: "path set \<Rightarrow> fs \<Rightarrow> fs \<Rightarrow> bool" where
  "grows T \<equiv> settles T (\<lambda>_ _. False)"

lemma settles_refl [simp, intro]: "settles T K s s"
  by (simp add: settles_def)

lemma settles_trans: "settles T K s t \<Longrightarrow> settles T K t u \<Longrightarrow> settles T K s u"
  unfolding settles_def by metis

lemma settles_mono: "settles T K s t \<Longrightarrow> T \<subseteq> T' \<Longrightarrow> (\<And>p b. K p b \<Longrightarrow> K' p b) \<Longrightarrow> settles T' K' s t"
  unfolding settles_def by (meson subsetD)

lemma grows_settles: "grows T s t \<Longrightarrow> T \<subseteq> T' \<Longrightarrow> settles T' K s t"
  by (erule settles_mono) simp_all

lemma settles_keeps: "settles T K s t \<Longrightarrow> s p = Some n \<Longrightarrow> t p = Some n"
  unfolding settles_def by (metis option.distinct(1))

lemma settles_follow: "settles T K s t \<Longrightarrow> follow s p = Some n \<Longrightarrow> follow t p = Some n"
proof (cases "s p")
  case (Some m)
  assume "settles T K s t" "follow s p = Some n"
  with Some settles_keeps [of T K s t] show ?thesis by (cases m) (auto simp: follow_def)
qed (simp add: follow_def)

lemma settles_scratch:
  assumes "settles T K s t" "unchanged_outside P t t'" "P \<subseteq> T" "\<forall>p \<in> P. s p = None"
  shows "settles T K s t'"
  unfolding settles_def
proof
  fix p
  show "t' p = s p \<or> s p = None \<and> (p \<in> T \<or> t' p = Some Directory \<or> (\<exists>b. t' p = Some (Regular b) \<and> K p b))"
  proof (cases "p \<in> P")
    case True
    with assms(3,4) show ?thesis by blast
  next
    case False
    with assms(2) have "t' p = t p" by (simp add: unchanged_outside_def)
    with assms(1) show ?thesis by (simp add: settles_def)
  qed
qed

lemma settles_new:
  assumes "settles T K s t" "t p = None" "K p b"
  shows "settles T K s (t(p \<mapsto> Regular b))"
proof -
  have "s p = None" using assms(1,2) settles_keeps [OF assms(1), of p] by (cases "s p") simp_all
  with assms show ?thesis by (auto simp: settles_def)
qed

lemma wp_create_dir_all_grows: "wp (create_dir_all p) (\<lambda>_. grows {} s) (\<lambda>_. grows {} s) (grows {} s) s"
proof -
  have one: "wp (create_dir q) (\<lambda>_. grows {} s) (\<lambda>_. grows {} s) (grows {} s) s" for q s
    unfolding create_dir_def by (rule wp_atomic_op) (auto simp: settles_def split: option.splits node.splits if_splits)
  have "wp (create_dirs ps) (\<lambda>_. grows {} s) (\<lambda>_. grows {} s) (grows {} s) s" for ps
  proof (induction ps arbitrary: s)
    case (Cons q ps)
    show ?case
      unfolding create_dirs.simps
      by (rule wp_bindio, rule wp_mono [OF one]) (auto intro: wp_mono [OF Cons.IH] settles_trans)
  qed (simp add: wp_ret)
  then show ?thesis by (simp add: create_dir_all_def)
qed

lemma wp_copy_known:
  assumes "follow s p = Some (Regular b)" "Q () (s(q \<mapsto> Regular b))"
    and "\<And>e t. unchanged_outside {q} s t \<Longrightarrow> E e t" "\<And>t. unchanged_outside {q} s t \<Longrightarrow> C t"
  shows "wp (copy_file p q) Q E C s"
  unfolding copy_file_def using assms by (auto intro!: wp_bindio wp_read_file wp_write_file)

section \<open>Temporary files and directories\<close>

definition temporary_name :: "string \<Rightarrow> bool" where
  "temporary_name x \<longleftrightarrow> (\<exists>y. x = ''.tmp'' @ y \<and> list_all is_ascii_alphanumeric y)"

definition temp_root :: "path \<Rightarrow> path \<Rightarrow> bool" where
  "temp_root out d \<longleftrightarrow> d \<noteq> [] \<and> temporary_name (last d) \<and> out \<notin> tree_below d"

definition temp_area :: "path \<Rightarrow> path set" where
  "temp_area out = (\<Union>d \<in> {d. temp_root out d}. tree_below d)"

text \<open>
  A temporary directory is new and empty, has a name of its own and does not contain the output directory; a temporary file is new.
  If they cannot be made, nothing has happened.
\<close>

definition package_laws :: "package_ext \<Rightarrow> path \<Rightarrow> bool" where
  "package_laws G out \<longleftrightarrow>
     (\<forall>s. wp (pg_temp_dir G) (\<lambda>d t. temp_root out d \<and> (\<forall>p \<in> tree_below d. s p = None) \<and> t = s(d \<mapsto> Directory)) (\<lambda>_ t. t = s)
        (\<lambda>t. t = s \<or> (\<exists>d. temp_root out d \<and> (\<forall>p \<in> tree_below d. s p = None) \<and> t = s(d \<mapsto> Directory))) s)
     \<and> (\<forall>s. wp (pg_temp_file G out) (\<lambda>p t. (\<exists>x. p = out @ [x] \<and> temporary_name x) \<and> s p = None \<and> t = s(p \<mapsto> Regular [])) (\<lambda>_ t. t = s)
        (\<lambda>t. t = s \<or> (\<exists>x. temporary_name x \<and> s (out @ [x]) = None \<and> t = s(out @ [x] \<mapsto> Regular []))) s)"

lemma tree_below_self [simp]: "d \<in> tree_below d"
  by (simp add: tree_below_def)

lemma temp_area_root: "temp_root out d \<Longrightarrow> tree_below d \<subseteq> temp_area out"
  unfolding temp_area_def by blast

lemma temp_file_root: "temporary_name x \<Longrightarrow> temp_root out (out @ [x])"
  by (simp add: temp_root_def tree_below_def)

lemma conda_not_temporary: "\<not> temporary_name (x @ ''.conda'')"
proof
  assume "temporary_name (x @ ''.conda'')"
  then obtain y where y: "x @ ''.conda'' = ''.tmp'' @ y" "list_all is_ascii_alphanumeric y" by (auto simp: temporary_name_def)
  have "\<not> is_ascii_alphanumeric (CHR ''.'')" by code_simp
  then have "CHR ''.'' \<notin> set y" using y(2) by (auto simp: list_all_iff)
  then have tail: "CHR ''.'' \<notin> set (tl (x @ ''.conda''))" by (simp add: y(1))
  show False
  proof (cases x)
    case Nil
    with y(1) show False by simp
  next
    case (Cons c z)
    with tail show False by simp
  qed
qed

lemma output_not_temporary: "out @ [x @ ''.conda''] \<notin> temp_area out"
proof
  assume "out @ [x @ ''.conda''] \<in> temp_area out"
  then obtain d where d: "d \<noteq> []" "temporary_name (last d)" "out \<notin> tree_below d" "take (length d) (out @ [x @ ''.conda'']) = d"
    by (auto simp: temp_area_def temp_root_def tree_below_def)
  show False
  proof (cases "length d \<le> length out")
    case True
    with d(3,4) show False by (simp add: tree_below_def)
  next
    case False
    then have "d = out @ [x @ ''.conda'']" using d(4) by simp
    with d(2) conda_not_temporary show False by simp
  qed
qed

lemma wp_with_temp_dir:
  assumes laws: "package_laws G out"
    and body: "\<And>d. temp_root out d \<Longrightarrow> \<forall>p \<in> tree_below d. s p = None \<Longrightarrow> wp (f d) Q (\<lambda>_. C) C (s(d \<mapsto> Directory))"
    and stable: "\<And>d t t'. temp_root out d \<Longrightarrow> \<forall>p \<in> tree_below d. s p = None \<Longrightarrow> unchanged_outside (tree_below d) t t' \<Longrightarrow> C t \<Longrightarrow> C t'"
      "\<And>d t t' x. temp_root out d \<Longrightarrow> \<forall>p \<in> tree_below d. s p = None \<Longrightarrow> unchanged_outside (tree_below d) t t' \<Longrightarrow> Q x t \<Longrightarrow> Q x t'"
    and good: "\<And>x t. Q x t \<Longrightarrow> C t" and start: "C s"
  shows "wp (with_temp_dir G f) Q (\<lambda>_. C) C s"
proof -
  have cleaned: "wp (bindio (tryio (remove_dir_all (pg_interrupted G) d)) (\<lambda>_. lift_result r)) Q (\<lambda>_. C) C t"
    if d: "temp_root out d" "\<forall>p \<in> tree_below d. s p = None" and t: "case r of Inr x \<Rightarrow> Q x t | Inl e \<Rightarrow> C t" for d t r
  proof -
    have below: "stays (tryio (remove_dir_all (pg_interrupted G) d)) (tree_below d)" by (intro stays_intros) simp
    have C: "C t" using t good by (auto split: sum.splits)
    show ?thesis
      by (rule wp_bindio_stays [OF below])
        (use t stable [OF d] C in \<open>auto intro!: wp_lift_result wp_ret wp_fail split: sum.splits\<close>)
  qed
  have created: "wp (bindio (tryio (f d)) (\<lambda>r. bindio (tryio (remove_dir_all (pg_interrupted G) d)) (\<lambda>_. lift_result r))) Q (\<lambda>_. C) C (s(d \<mapsto> Directory))"
    if d: "temp_root out d" "\<forall>p \<in> tree_below d. s p = None" for d
    by (rule wp_bindio, rule wp_tryio, rule wp_mono [OF body [OF d]]) (use cleaned [OF d, where r = "Inr _"] cleaned [OF d, where r = "Inl _"] in auto)
  have halted: "C (s(d \<mapsto> Directory))" if d: "temp_root out d" "\<forall>p \<in> tree_below d. s p = None" for d
    by (rule stable(1) [OF d _ start]) (simp add: unchanged_outside_def)
  have law: "wp (pg_temp_dir G) (\<lambda>d t. temp_root out d \<and> (\<forall>p \<in> tree_below d. s p = None) \<and> t = s(d \<mapsto> Directory)) (\<lambda>_ t. t = s)
        (\<lambda>t. t = s \<or> (\<exists>d. temp_root out d \<and> (\<forall>p \<in> tree_below d. s p = None) \<and> t = s(d \<mapsto> Directory))) s"
    using laws unfolding package_laws_def by blast
  show ?thesis
    unfolding with_temp_dir_def
    by (rule wp_bindio, rule wp_mono [OF law]) (use created halted start in auto)
qed


section \<open>The contents of a package\<close>

lemma validate_plain_filename_iff [success_simps]: "validate_plain_filename v = Inr () \<longleftrightarrow> plain_component v"
proof
  assume "validate_plain_filename v = Inr ()"
  then obtain c where v: "v \<noteq> []" "CHR ''/'' \<notin> set v" "CHR 0x5C \<notin> set v" and c: "path_components v = [Normal_Component c]"
    by (auto simp: validate_plain_filename_def split: if_splits list.splits component.splits)
  have "components v = (if v = ''.'' then [] else [v])"
    using v by (simp add: components_def split_on_absent)
  with v c show "plain_component v"
    by (auto simp: plain_component_def path_components_def starts_with_def)
next
  assume v: "plain_component v"
  then have slash: "CHR ''/'' \<notin> set v" "v \<noteq> ''.''" by (simp_all add: plain_component_def)
  have "x \<in> set v" if "take n v = y" "x \<in> set y" for n x y using that in_set_takeD by fastforce
  from this [of 1 "''/''" "CHR ''/''"] this [of 2 "''./''" "CHR ''/''"] slash
  have "\<not> starts_with ''/'' v" "\<not> starts_with ''./'' v" by (auto simp: starts_with_def numeral_2_eq_2)
  with v components_plain [OF v] show "validate_plain_filename v = Inr ()"
    by (simp add: validate_plain_filename_def plain_component_def path_components_def)
qed

lemma plan_package_Inr:
  assumes "plan_package G h = Inr plan"
  obtains update platform name where "h_update h = Some update" "supports_direct_update update" "validate_channel G (u_channel update) = Inr ()"
    "pg_package_name G (u_package update) = Inr name" "pg_platform G (h_platform h) = Inr platform" "\<not> np_virtual platform"
    "plain_component (h_artifact_name h)"
    "pn_update plan = update" "pn_name plan = name" "pn_version plan = h_runtime_version h" "pn_platform plan = platform"
    "pn_payload plan = (if np_windows platform then h_artifact_name h @ ''.exe'' else ''bin/'' @ h_artifact_name h)"
    "pn_filename plan = pn_stem plan @ ''.conda''" "plain_component (pn_filename plan)"
  using assms by (auto simp: plan_package_def Let_def success_simps split: if_splits)

definition payload_parts :: "package_plan \<Rightarrow> path" where
  "payload_parts plan = components (pn_payload plan)"

lemma split_on_bin: "split_on CHR ''/'' (''bin/'' @ s) = ''bin'' # split_on CHR ''/'' s"
  by simp

lemma plain_exe: "plain_component s \<Longrightarrow> plain_component (s @ ''.exe'')"
  by (auto simp: plain_component_def append_eq_Cons_conv)

lemma payload_paths:
  assumes "plan_package G h = Inr plan"
  shows "join root (pn_payload plan) = root @ payload_parts plan"
    and "payload_parts plan = [h_artifact_name h @ ''.exe''] \<or> payload_parts plan = [''bin'', h_artifact_name h]"
  using assms
proof (atomize (full), elim plan_package_Inr, goal_cases)
  case (1 update platform name)
  show ?case
  proof (cases "np_windows platform")
    case True
    with 1 plain_exe [OF 1(7)] components_plain [OF plain_exe [OF 1(7)]] show ?thesis by (simp add: payload_parts_def)
  next
    case False
    have "components (''bin/'' @ h_artifact_name h) = [''bin'', h_artifact_name h]"
      using components_plain [OF 1(7)] unfolding components_def split_on_bin by simp
    with False 1 show ?thesis by (simp add: payload_parts_def join_def starts_with_def)
  qed
qed

text \<open>What is below \<open>root\<close> when the package is written.\<close>

definition staged_members :: "package_plan \<Rightarrow> bytes \<Rightarrow> bytes \<Rightarrow> bytes \<Rightarrow> (string \<times> bytes) list" where
  "staged_members plan index paths b =
     [(''info/index.json'', index @ [10]), (''info/files'', bytes_of_string (pn_payload plan @ [lf])), (''info/paths.json'', paths @ [10]), (pn_payload plan, b)]"

definition members_at :: "path \<Rightarrow> (string \<times> bytes) list \<Rightarrow> fs \<Rightarrow> bool" where
  "members_at root ms t \<longleftrightarrow> (\<forall>(x, b) \<in> set ms. t (join root x) = Some (Regular b))"

lemma member_paths:
  "join root ''info/index.json'' = root @ [''info'', ''index.json'']" "join root ''info/files'' = root @ [''info'', ''files'']"
  "join root ''info/paths.json'' = root @ [''info'', ''paths.json'']"
  by (simp_all add: join_def starts_with_def components_def)

lemma wp_write_json:
  assumes "\<And>b. r = Inr b \<Longrightarrow> Q () (s(p \<mapsto> Regular (b @ [10])))" "\<And>e t. unchanged_outside {p} s t \<Longrightarrow> E e t"
    "\<And>t. unchanged_outside {p} s t \<Longrightarrow> C t"
  shows "wp (write_json p r) Q E C s"
  unfolding write_json_def using assms by (auto intro!: wp_bindio wp_lift_result wp_write_file)

lemma below_root: "p \<noteq> [] \<Longrightarrow> root @ p \<in> tree_below root - {root}"
  by (simp add: tree_below_def)

lemma wp_stage_package_contents:
  assumes plan: "plan_package G h = Inr plan" and b: "s snapshot = Some (Regular b)"
    and fresh: "\<forall>p \<in> tree_below root - {root}. s p = None"
  shows "wp (stage_package_contents G root snapshot plan digest n)
     (\<lambda>_ t. grows (tree_below root) s t \<and> (\<exists>index i ps. index_of_plan plan = Inr index \<and> pg_index_json G index = Inr i
        \<and> pg_paths_json G (paths_of_plan plan digest n) = Inr ps \<and> members_at root (staged_members plan i ps b) t))
     (\<lambda>_. grows (tree_below root) s) (grows (tree_below root) s) s"
    (is "wp _ ?Q ?E ?C s")
proof -
  note payload = payload_paths [OF plan]
  have parts: "payload_parts plan \<noteq> []" using payload(2) by auto
  let ?payload = "root @ payload_parts plan" and ?i = "root @ [''info'', ''index.json'']" and ?f = "root @ [''info'', ''files'']"
    and ?p = "root @ [''info'', ''paths.json'']"
  let ?W = "tree_below root - {root}"
  have inside: "?payload \<in> ?W" "?i \<in> ?W" "?f \<in> ?W" "?p \<in> ?W" using below_root parts by simp_all
  have new: "grows (tree_below root) s (t(p \<mapsto> n))" if "grows (tree_below root) s t" "p \<in> ?W" for t p n
    by (rule settles_scratch [OF that(1), of "?W"]) (use that(2) fresh in \<open>auto simp: unchanged_outside_def\<close>)
  have stop: "?C t'" if "grows (tree_below root) s t" "unchanged_outside {p} t t'" "p \<in> ?W" for t t' p
    by (rule settles_scratch [OF that(1,2)]) (use that(3) fresh in auto)
  have apart: "?payload \<noteq> ?i" "?payload \<noteq> ?f" "?payload \<noteq> ?p" using payload(2) by auto
  have files: "wp (bindio (copy_file snapshot ?payload) (\<lambda>_.
     bindio (write_json ?i (pg_index_json G index)) (\<lambda>_.
     bindio (write_file ?f (bytes_of_string (pn_payload plan @ [lf]))) (\<lambda>_.
     write_json ?p (pg_paths_json G (paths_of_plan plan digest n)))))) ?Q ?E ?C t"
    if index: "index_of_plan plan = Inr index" and t: "grows (tree_below root) s t" for index t
  proof (rule wp_bindio, rule wp_copy_known [where b = b])
    show "follow t snapshot = Some (Regular b)" using settles_keeps [OF t b] by (simp add: follow_def)
    let ?t1 = "t(?payload \<mapsto> Regular b)"
    note t1 = new [OF t inside(1)]
    show "wp (bindio (write_json ?i (pg_index_json G index)) (\<lambda>_.
     bindio (write_file ?f (bytes_of_string (pn_payload plan @ [lf]))) (\<lambda>_.
     write_json ?p (pg_paths_json G (paths_of_plan plan digest n))))) ?Q ?E ?C ?t1"
    proof (rule wp_bindio, rule wp_write_json)
      fix i assume i: "pg_index_json G index = Inr i"
      let ?t2 = "?t1(?i \<mapsto> Regular (i @ [10]))"
      note t2 = new [OF t1 inside(2)]
      show "wp (bindio (write_file ?f (bytes_of_string (pn_payload plan @ [lf]))) (\<lambda>_.
         write_json ?p (pg_paths_json G (paths_of_plan plan digest n)))) ?Q ?E ?C ?t2"
      proof (rule wp_bindio, rule wp_write_file)
        let ?t3 = "?t2(?f \<mapsto> Regular (bytes_of_string (pn_payload plan @ [lf])))"
        note t3 = new [OF t2 inside(3)]
        show "wp (write_json ?p (pg_paths_json G (paths_of_plan plan digest n))) ?Q ?E ?C ?t3"
        proof (rule wp_write_json)
          fix ps assume ps: "pg_paths_json G (paths_of_plan plan digest n) = Inr ps"
          let ?t4 = "?t3(?p \<mapsto> Regular (ps @ [10]))"
          have "members_at root (staged_members plan i ps b) ?t4"
            using apart by (simp add: members_at_def staged_members_def member_paths payload(1))
          then show "?Q () ?t4" using new [OF t3 inside(4)] index i ps by blast
        qed (use stop [OF t3 _ inside(4)] in blast)+
      qed (use stop [OF t2 _ inside(3)] in blast)+
    qed (use stop [OF t1 _ inside(2)] in blast)+
  qed (use stop [OF t _ inside(1)] in blast)+
  have parent: "parent ?payload = Some (butlast ?payload)" using parts by (simp add: parent_def)
  have dirs: "wp (bindio (create_dir_all d) f) ?Q ?E ?C t"
    if t: "grows (tree_below root) s t" and f: "\<And>x u. grows (tree_below root) s u \<Longrightarrow> wp (f x) ?Q ?E ?C u" for d t and f :: "unit \<Rightarrow> unit io"
  proof -
    have step: "grows (tree_below root) s u" if "grows {} t u" for u
      using settles_trans [OF t settles_mono [OF that]] by simp
    show ?thesis
      by (rule wp_bindio, rule wp_mono [OF wp_create_dir_all_grows]) (erule f [OF step] | erule step)+
  qed
  show ?thesis
    unfolding stage_package_contents_def Let_def payload(1) parent append_assoc append_Cons append_Nil ok_or_simps lift_result_simps bindio_ret
    by (rule wp_bindio, rule wp_lift_result, rule dirs [OF settles_refl], erule dirs, erule (1) files) (rule settles_refl)
qed


section \<open>Writing it\<close>

lemma wp_read_contents:
  assumes "\<forall>(x, b) \<in> set ms. follow s (join root x) = Some (Regular b)" "Q ms s" "\<And>e. E e s" "C s"
  shows "wp (read_contents root (map fst ms)) Q E C s"
  using assms
proof (induction ms arbitrary: Q)
  case (Cons m ms)
  obtain x b where m: "m = (x, b)" by fastforce
  show ?case
    unfolding m fst_conv list.map read_contents.simps
    by (rule wp_bindio, rule wp_read_file) (use Cons m in \<open>auto intro!: wp_bindio wp_ret Cons.IH\<close>)
qed (simp add: wp_ret)

lemma wp_rename_noclobber:
  assumes "\<And>b. s p = Some (Regular b) \<Longrightarrow> s q = None \<Longrightarrow> Q () (s(p := None, q \<mapsto> Regular b)) \<and> C (s(p := None, q \<mapsto> Regular b))"
    and "\<And>e. E e s" "C s"
  shows "wp (rename_noclobber p q) Q E C s"
  unfolding rename_noclobber_def using assms by (intro wp_atomic_op) (auto split: if_splits option.splits node.splits)

text \<open>The temporary file \<open>p\<close> is filled and gets the name \<open>dest\<close>, or nothing else has changed.\<close>

definition published_package :: "package_ext \<Rightarrow> string \<Rightarrow> (string \<times> bytes) list \<Rightarrow> path \<Rightarrow> fs \<Rightarrow> fs \<Rightarrow> bool" where
  "published_package G stem ms dest s t \<longleftrightarrow> (\<exists>pkg. s dest = None \<and> pg_conda G stem ms = Inr pkg \<and> t = s(dest \<mapsto> Regular pkg))"

lemma wp_fill_package:
  assumes members: "members_at root ms s" and p: "s p = None" "p \<noteq> dest"
  shows "wp (bindio (read_contents root (map fst ms)) (\<lambda>contents.
       bindio (lift_result (pg_conda G stem contents)) (\<lambda>b.
       bindio (write_all p b) (\<lambda>_.
       bindio sync (\<lambda>_.
       rename_noclobber p dest))))) (\<lambda>_. published_package G stem ms dest s) (\<lambda>_. unchanged_outside {p} s)
     (\<lambda>t. unchanged_outside {p} s t \<or> published_package G stem ms dest s t) (s(p \<mapsto> Regular []))"
    (is "wp _ ?Q ?E ?C _")
proof (rule wp_bindio, rule wp_read_contents)
  have written: "append_bytes (s(p \<mapsto> Regular [])) p c = s(p \<mapsto> Regular c)" for c by (simp add: append_bytes_def)
  have S: "unchanged_outside {p} s (s(p \<mapsto> Regular c))" for c by (simp add: unchanged_outside_def)
  have "join root y \<noteq> p \<and> s (join root y) = Some (Regular c)" if "(y, c) \<in> set ms" for y c
    using members that p(1) by (auto simp: members_at_def)
  then show "\<forall>(y, c) \<in> set ms. follow (s(p \<mapsto> Regular [])) (join root y) = Some (Regular c)"
    by (auto simp: follow_def)
  have renamed: "wp (rename_noclobber p dest) ?Q ?E ?C (s(p \<mapsto> Regular pkg))" if pkg: "pg_conda G stem ms = Inr pkg" for pkg
  proof (rule wp_rename_noclobber)
    fix c assume "(s(p \<mapsto> Regular pkg)) p = Some (Regular c)" "(s(p \<mapsto> Regular pkg)) dest = None"
    then have "s dest = None" "s(p \<mapsto> Regular pkg, p := None, dest \<mapsto> Regular c) = s(dest \<mapsto> Regular pkg)"
      using p by (auto simp: fun_eq_iff)
    with pkg show "?Q () (s(p \<mapsto> Regular pkg, p := None, dest \<mapsto> Regular c)) \<and> ?C (s(p \<mapsto> Regular pkg, p := None, dest \<mapsto> Regular c))"
      unfolding published_package_def by auto
  qed (use S in simp_all)
  show "wp (bindio (lift_result (pg_conda G stem ms)) (\<lambda>b. bindio (write_all p b) (\<lambda>_. bindio sync (\<lambda>_. rename_noclobber p dest)))) ?Q ?E ?C (s(p \<mapsto> Regular []))"
    by (rule wp_bindio, rule wp_lift_result)
      (auto intro!: wp_bindio wp_write_all wp_sync renamed simp: written S)
qed (simp_all add: unchanged_outside_def)

lemma wp_write_update_package:
  fixes out plan i ps b K
  defines "dest \<equiv> out @ [pn_filename plan]" and "ms \<equiv> staged_members plan i ps b"
  assumes laws: "package_laws G out" and plan: "plan_package G h = Inr plan" and members: "members_at root ms s"
    and K: "\<And>pkg. pg_conda G (pn_stem plan) ms = Inr pkg \<Longrightarrow> K dest pkg"
  shows "wp (write_update_package G root plan out)
     (\<lambda>_ t. settles (temp_area out) K s t \<and> published_package G (pn_stem plan) ms dest s t)
     (\<lambda>_. settles (temp_area out) K s) (settles (temp_area out) K s) s"
    (is "wp _ ?Q ?E ?C s")
proof -
  have law: "wp (pg_temp_file G out) (\<lambda>p t. (\<exists>x. p = out @ [x] \<and> temporary_name x) \<and> s p = None \<and> t = s(p \<mapsto> Regular [])) (\<lambda>_ t. t = s)
        (\<lambda>t. t = s \<or> (\<exists>x. temporary_name x \<and> s (out @ [x]) = None \<and> t = s(out @ [x] \<mapsto> Regular []))) s"
    using laws unfolding package_laws_def by blast
  have area: "out @ [x] \<in> temp_area out" if "temporary_name x" for x
    by (rule subsetD [OF temp_area_root [OF temp_file_root [OF that]]]) simp
  have scratch: "?C t" if "temporary_name x" "s (out @ [x]) = None" "unchanged_outside {out @ [x]} s t" for t x
    by (rule settles_scratch [OF settles_refl that(3)]) (use that area in auto)
  have file_eq: "pn_filename plan = pn_stem plan @ ''.conda''" using plan by (rule plan_package_Inr)
  have names: "package_members plan = map fst ms"
    by (simp add: ms_def staged_members_def package_members_def)
  have final: "?C t" if "published_package G (pn_stem plan) ms dest s t" for t
    using that settles_new [OF settles_refl, where p = dest and K = K] K by (auto simp: published_package_def)
  let ?drop = "\<lambda>p r. case r of Inr _ \<Rightarrow> ret () | Inl e \<Rightarrow> bindio (tryio (remove_file p)) (\<lambda>_. fail e)"
  have main: "wp (bindio (tryio (bindio (read_contents root (package_members plan)) (\<lambda>contents.
       bindio (lift_result (pg_conda G (pn_stem plan) contents)) (\<lambda>b.
       bindio (write_all p b) (\<lambda>_. bindio sync (\<lambda>_. rename_noclobber p dest)))))) (?drop p)) ?Q ?E ?C (s(p \<mapsto> Regular []))"
    if x: "temporary_name x" and p: "p = out @ [x]" "s p = None" for p x
  proof -
    have pq: "p \<noteq> dest" using x conda_not_temporary by (auto simp: p(1) dest_def file_eq)
    have away: "?C t" if "unchanged_outside {p} s t" for t using scratch [OF x] p that by blast
    have dropped: "wp (?drop p (Inl e)) ?Q ?E ?C t" if "unchanged_outside {p} s t" for e t
      unfolding sum.case
      by (rule wp_bindio_stays [where P = "{p}"])
        (auto intro!: stays_intros wp_fail away intro: unchanged_outside_trans [OF that])
    show ?thesis
      unfolding names
      by (rule wp_bindio, rule wp_tryio, rule wp_mono [OF wp_fill_package [OF members p(2) pq]])
        (use dropped away final in \<open>auto intro: wp_ret\<close>)
  qed
  show ?thesis
    unfolding write_update_package_def with_temp_file_def dest_def [symmetric]
    by (rule wp_bindio, rule wp_mono [OF law]) (use main scratch in \<open>auto simp: unchanged_outside_def\<close>)
qed


section \<open>The command\<close>

text \<open>\<open>pkg\<close> is the package of the executable \<open>b\<close> and of \<open>info\<close>, planned from the stamp of \<open>b\<close>.\<close>

definition package_of :: "package_ext \<Rightarrow> artifact_info \<Rightarrow> bool \<Rightarrow> bytes \<Rightarrow> package_plan \<Rightarrow> bytes \<Rightarrow> bool" where
  "package_of G info overridden b plan pkg \<longleftrightarrow>
     (\<exists>p data. read_from_file (pg_codec G) (pg_pe G) (pg_macho G) p b = Inr (Some data) \<and> validate_stamp (pg_codec G) info b data = Inr ()
        \<and> plan_package G (rd_header data) = Inr plan)
     \<and> (overridden \<or> validate_recorded_binary_checksum info (hex (sha256 (pg_codec G) b)) (length b) = Inr ())
     \<and> (\<exists>index i ps. index_of_plan plan = Inr index \<and> pg_index_json G index = Inr i
        \<and> pg_paths_json G (paths_of_plan plan (hex (sha256 (pg_codec G) b)) (length b)) = Inr ps
        \<and> pg_conda G (pn_stem plan) (staged_members plan i ps b) = Inr pkg)"

definition report_of :: "package_ext \<Rightarrow> path \<Rightarrow> package_plan \<Rightarrow> bytes \<Rightarrow> bytes \<Rightarrow> update_package_output" where
  "report_of G out plan b pkg = \<lparr>uo_schema_version = 1, uo_path = out @ [pn_filename plan], uo_filename = pn_filename plan,
     uo_package_name = pn_name plan, uo_runtime_version = pn_version plan, uo_build_number = u_build_number (pn_update plan),
     uo_platform = np_name (pn_platform plan), uo_sha256 = hex (sha256 (pg_codec G) pkg), uo_size = length pkg,
     uo_payload_sha256 = hex (sha256 (pg_codec G) b), uo_payload_size = length b\<rparr>"

definition package_written :: "package_ext \<Rightarrow> artifact_info \<Rightarrow> bool \<Rightarrow> bytes \<Rightarrow> path \<Rightarrow> update_package_output \<Rightarrow> fs \<Rightarrow> fs \<Rightarrow> bool" where
  "package_written G info overridden b out x s t \<longleftrightarrow> (\<exists>plan pkg. package_of G info overridden b plan pkg \<and> x = report_of G out plan b pkg
     \<and> s (uo_path x) = None \<and> t (uo_path x) = Some (Regular pkg))"

abbreviation packages_of :: "package_ext \<Rightarrow> artifact_info \<Rightarrow> bool \<Rightarrow> bytes \<Rightarrow> path \<Rightarrow> path \<Rightarrow> bytes \<Rightarrow> bool" where
  "packages_of G info overridden b out \<equiv> (\<lambda>p pkg. \<exists>plan. p = out @ [pn_filename plan] \<and> package_of G info overridden b plan pkg)"

lemma plan_filename: "plan_package G h = Inr plan \<Longrightarrow> pn_filename plan = pn_stem plan @ ''.conda''"
  by (rule plan_package_Inr)

lemma package_written_stable:
  assumes "package_written G info overridden b out x s t" "unchanged_outside P t t'" "P \<subseteq> temp_area out"
  shows "package_written G info overridden b out x s t'"
proof -
  from assms(1) obtain plan pkg where w: "package_of G info overridden b plan pkg" "x = report_of G out plan b pkg" "s (uo_path x) = None"
    "t (uo_path x) = Some (Regular pkg)"
    by (auto simp: package_written_def)
  from w(1) obtain h where "plan_package G h = Inr plan" by (auto simp: package_of_def)
  then have "uo_path x \<notin> temp_area out" using output_not_temporary [of out "pn_stem plan"] by (simp add: w(2) report_of_def plan_filename)
  then have "t' (uo_path x) = t (uo_path x)" using assms(2,3) by (auto simp: unchanged_outside_def)
  with w show ?thesis by (auto simp: package_written_def)
qed

lemma settles_fresh: "settles T K s t \<Longrightarrow> t p = None \<Longrightarrow> s p = None"
  by (cases "s p") (auto dest: settles_keeps)

lemma wp_package_root:
  assumes laws: "package_laws G out" and b: "s snapshot = Some (Regular b)"
    and read_back: "read_from_file (pg_codec G) (pg_pe G) (pg_macho G) p b = Inr (Some data)"
    and valid: "validate_stamp (pg_codec G) info b data = Inr ()" and plan: "plan_package G (rd_header data) = Inr plan"
    and recorded: "overridden \<or> validate_recorded_binary_checksum info (hex (sha256 (pg_codec G) b)) (length b) = Inr ()"
  shows "wp (with_temp_dir G (\<lambda>root.
       bindio (stage_package_contents G root snapshot plan (hex (sha256 (pg_codec G) b)) (length b)) (\<lambda>_.
       bindio (write_update_package G root plan out) (\<lambda>_.
       package_output G (out @ [pn_filename plan]) plan (hex (sha256 (pg_codec G) b)) (length b)))))
     (\<lambda>x t. settles (temp_area out) (packages_of G info overridden b out) s t \<and> package_written G info overridden b out x s t)
     (\<lambda>_. settles (temp_area out) (packages_of G info overridden b out) s) (settles (temp_area out) (packages_of G info overridden b out) s) s"
    (is "wp _ ?Q _ ?C s")
proof (rule wp_with_temp_dir [OF laws])
  fix root assume root: "temp_root out root" "\<forall>p \<in> tree_below root. s p = None"
  let ?s = "s(root \<mapsto> Directory)" and ?dest = "out @ [pn_filename plan]"
  have area: "tree_below root \<subseteq> temp_area out" by (rule temp_area_root [OF root(1)])
  have start: "?C ?s" by (rule settles_scratch [where P = "tree_below root"]) (use root area in \<open>auto simp: unchanged_outside_def\<close>)
  have staged: "?C t" if "grows (tree_below root) ?s t" for t
    by (rule settles_trans [OF start grows_settles [OF that area]])
  have fresh: "\<forall>p \<in> tree_below root - {root}. ?s p = None" using root(2) by simp
  have "snapshot \<noteq> root" using root(2) b by force
  then have snapshot: "?s snapshot = Some (Regular b)" using b by simp
  have report: "wp (package_output G ?dest plan (hex (sha256 (pg_codec G) b)) (length b)) ?Q (\<lambda>_. ?C) ?C u"
    if t: "?C t" and u: "settles (temp_area out) (packages_of G info overridden b out) t u" "published_package G (pn_stem plan) ms ?dest t u"
      and pkg: "\<And>pkg. pg_conda G (pn_stem plan) ms = Inr pkg \<Longrightarrow> package_of G info overridden b plan pkg" for t u ms
  proof -
    have C: "?C u" by (rule settles_trans [OF t u(1)])
    from u(2) obtain x where x: "t ?dest = None" "pg_conda G (pn_stem plan) ms = Inr x" "u = t(?dest \<mapsto> Regular x)"
      by (auto simp: published_package_def)
    then have "package_written G info overridden b out (report_of G out plan b x) s u"
      using pkg settles_fresh [OF t x(1)] by (auto simp: package_written_def report_of_def)
    then show ?thesis
      unfolding package_output_def
      by (intro wp_bindio wp_read_file wp_ret)
        (use C x(3) in \<open>auto simp: follow_def report_of_def UPDATE_PACKAGE_OUTPUT_SCHEMA_VERSION_def\<close>)
  qed
  have written: "wp (bindio (write_update_package G root plan out) (\<lambda>_.
       package_output G ?dest plan (hex (sha256 (pg_codec G) b)) (length b))) ?Q (\<lambda>_. ?C) ?C t"
    if t: "?C t" and staged: "index_of_plan plan = Inr index" "pg_index_json G index = Inr i"
        "pg_paths_json G (paths_of_plan plan (hex (sha256 (pg_codec G) b)) (length b)) = Inr ps" "members_at root (staged_members plan i ps b) t" for t index i ps
  proof -
    have pkg: "package_of G info overridden b plan pkg" if "pg_conda G (pn_stem plan) (staged_members plan i ps b) = Inr pkg" for pkg
      unfolding package_of_def using read_back valid plan recorded staged(1-3) that by blast
    show ?thesis
      by (rule wp_bindio, rule wp_mono [OF wp_write_update_package [where K = "packages_of G info overridden b out", OF laws plan staged(4)]])
        (use pkg report [OF t] settles_trans [OF t] in blast)+
  qed
  show "wp (bindio (stage_package_contents G root snapshot plan (hex (sha256 (pg_codec G) b)) (length b)) (\<lambda>_.
       bindio (write_update_package G root plan out) (\<lambda>_. package_output G ?dest plan (hex (sha256 (pg_codec G) b)) (length b))))
      ?Q (\<lambda>_. ?C) ?C ?s"
    by (rule wp_bindio, rule wp_mono [OF wp_stage_package_contents [OF plan snapshot fresh]]) (use written staged in blast)+
next
  fix d t t' assume d: "temp_root out d" "\<forall>p \<in> tree_below d. s p = None" "unchanged_outside (tree_below d) t t'"
  then show "?C t \<Longrightarrow> ?C t'" by (intro settles_scratch [OF _ d(3)] temp_area_root)
  then show "?Q x t \<Longrightarrow> ?Q x t'" for x
    using package_written_stable [OF _ d(3) temp_area_root [OF d(1)]] by blast
qed auto


lemma wp_package_snapshot:
  assumes laws: "package_laws G out" and b: "s snapshot = Some (Regular b)"
  shows "wp (package_snapshot G info overridden snapshot (Inr out))
     (\<lambda>x t. settles (temp_area out) (packages_of G info overridden b out) s t \<and> package_written G info overridden b out x s t)
     (\<lambda>_. settles (temp_area out) (packages_of G info overridden b out) s) (settles (temp_area out) (packages_of G info overridden b out) s) s"
    (is "wp _ ?Q ?E ?C s")
proof -
  have seen: "follow s snapshot = Some (Regular b)" using b by (simp add: follow_def)
  have reading: "wp (read_file snapshot) Q ?E ?C s" if "Q b s" for Q
    by (rule wp_read_file) (use seen that in auto)
  have created: "wp (bindio (create_dir_all out) f) ?Q ?E ?C s"
    if f: "\<And>x t. settles (temp_area out) (packages_of G info overridden b out) s t \<Longrightarrow> t snapshot = Some (Regular b) \<Longrightarrow> wp (f x) ?Q ?E ?C t"
    for f :: "unit \<Rightarrow> update_package_output io"
  proof -
    have grown: "?C t" if "grows {} s t" for t using grows_settles [OF that] by blast
    show ?thesis
      by (rule wp_bindio, rule wp_mono [OF wp_create_dir_all_grows]) (use f grown settles_keeps b in blast)+
  qed
  have rooted: "wp (with_temp_dir G (\<lambda>root.
       bindio (stage_package_contents G root snapshot plan (hex (sha256 (pg_codec G) b)) (length b)) (\<lambda>_.
       bindio (write_update_package G root plan out) (\<lambda>_.
       package_output G (out @ [pn_filename plan]) plan (hex (sha256 (pg_codec G) b)) (length b))))) ?Q ?E ?C t"
    if "?C t" "t snapshot = Some (Regular b)" "read_from_file (pg_codec G) (pg_pe G) (pg_macho G) snapshot b = Inr (Some data)"
      "validate_stamp (pg_codec G) info b data = Inr ()" "plan_package G (rd_header data) = Inr plan"
      "overridden \<or> validate_recorded_binary_checksum info (hex (sha256 (pg_codec G) b)) (length b) = Inr ()" for t data plan
  proof (rule wp_mono [OF wp_package_root [where s = t and snapshot = snapshot and b = b and plan = plan, OF laws that(2-6)]])
    fix x u assume u: "settles (temp_area out) (packages_of G info overridden b out) t u \<and> package_written G info overridden b out x t u"
    then have "package_written G info overridden b out x s u"
      using settles_fresh [OF that(1)] unfolding package_written_def by blast
    with u show "?Q x u" using settles_trans [OF that(1)] by blast
  qed (use settles_trans [OF that(1)] in blast)+
  have recorded: "wp (if overridden then ret () else lift_result (validate_recorded_binary_checksum info (hex (sha256 (pg_codec G) b)) (length b))) Q ?E ?C s"
    if "overridden \<or> validate_recorded_binary_checksum info (hex (sha256 (pg_codec G) b)) (length b) = Inr () \<Longrightarrow> Q () s" for Q
    using that by (auto intro!: wp_ret wp_lift_result)
  show ?thesis
    unfolding package_snapshot_def Let_def lift_result_simps bindio_ret
  proof (rule wp_bindio, rule reading, rule wp_bindio, rule recorded, rule wp_bindio, rule reading, rule wp_bindio, rule wp_lift_result,
      rule wp_bindio, rule wp_lift_result, rule wp_bindio, rule wp_lift_result, rule wp_bindio, rule wp_lift_result, rule created,
      rule wp_bindio, rule wp_path_exists, rule wp_bindio, rule wp_ensure, goal_cases)
    case (1 data stamped u plan x t present)
    then show ?case by (intro rooted [where data = stamped]) (simp_all add: success_simps)
  qed auto
qed


text \<open>The info and the executable that the command was given.\<close>

definition package_input :: "package_ext \<Rightarrow> fs \<Rightarrow> path \<Rightarrow> path_buf option \<Rightarrow> artifact_info \<Rightarrow> bytes \<Rightarrow> bool" where
  "package_input G s info_path binary_override info b \<longleftrightarrow>
     (\<exists>doc binary. follow s info_path = Some (Regular doc) \<and> pg_info G doc = Inr info \<and> validate_info info = Inr ()
        \<and> package_binary G info_path info binary_override = Inr binary \<and> follow s binary = Some (Regular b))"

abbreviation packages_of_input :: "package_ext \<Rightarrow> fs \<Rightarrow> path \<Rightarrow> path_buf option \<Rightarrow> path \<Rightarrow> path \<Rightarrow> bytes \<Rightarrow> bool" where
  "packages_of_input G s info_path binary_override out \<equiv>
     (\<lambda>p pkg. \<exists>info b. package_input G s info_path binary_override info b \<and> packages_of G info (binary_override \<noteq> None) b out p pkg)"

lemma wp_require_input_file:
  assumes "\<And>b. follow s p = Some (Regular b) \<Longrightarrow> Q () s" "\<And>e. E e s" "C s"
  shows "wp (require_input_file p kind) Q E C s"
  unfolding require_input_file_def using assms
  by (auto intro!: wp_bindio wp_metadata_follow wp_ensure simp: node_kind_def split: node.splits)

lemma wp_package_executable:
  assumes laws: "package_laws G out" and input: "package_input G s ip binary_override info b"
    and binary: "package_binary G ip info binary_override = Inr binary" "follow s binary = Some (Regular b)"
  shows "wp (with_temp_dir G (\<lambda>d. bindio (copy_file binary (d @ [''runtime.snapshot''])) (\<lambda>_.
       package_snapshot G info (binary_override \<noteq> None) (d @ [''runtime.snapshot'']) (Inr out))))
     (\<lambda>x t. settles (temp_area out) (packages_of_input G s ip binary_override out) s t \<and> package_written G info (binary_override \<noteq> None) b out x s t)
     (\<lambda>_. settles (temp_area out) (packages_of_input G s ip binary_override out) s)
     (settles (temp_area out) (packages_of_input G s ip binary_override out) s) s"
    (is "wp _ ?Q _ ?C s")
proof (rule wp_with_temp_dir [OF laws])
  fix d assume d: "temp_root out d" "\<forall>p \<in> tree_below d. s p = None"
  let ?s = "s(d \<mapsto> Directory)" and ?snapshot = "d @ [''runtime.snapshot'']"
  let ?t = "?s(?snapshot \<mapsto> Regular b)"
  have area: "tree_below d \<subseteq> temp_area out" by (rule temp_area_root [OF d(1)])
  have inside: "?snapshot \<in> tree_below d" by (simp add: tree_below_def)
  have scratch: "settles (temp_area out) K s t" if "unchanged_outside (tree_below d) s t" for K t
    by (rule settles_scratch [OF settles_refl that area d(2)])
  have start: "settles (temp_area out) K s ?s" "settles (temp_area out) K s ?t" for K
    by (rule scratch; use inside in \<open>simp add: unchanged_outside_def\<close>)+
  have later: "settles (temp_area out) (packages_of_input G s ip binary_override out) s u"
    if "settles (temp_area out) (packages_of G info (binary_override \<noteq> None) b out) ?t u" for u
    by (rule settles_trans [OF start(2) settles_mono [OF that order_refl]]) (use input in blast)
  show "wp (bindio (copy_file binary ?snapshot) (\<lambda>_. package_snapshot G info (binary_override \<noteq> None) ?snapshot (Inr out))) ?Q (\<lambda>_. ?C) ?C ?s"
  proof (rule wp_bindio, rule wp_copy_known [where b = b])
    show "follow ?s binary = Some (Regular b)" using settles_follow [OF start(1) binary(2)] .
    show "wp (package_snapshot G info (binary_override \<noteq> None) ?snapshot (Inr out)) ?Q (\<lambda>_. ?C) ?C ?t"
    proof (rule wp_mono [OF wp_package_snapshot [where s = ?t and snapshot = ?snapshot and b = b, OF laws]])
      fix x u assume u: "settles (temp_area out) (packages_of G info (binary_override \<noteq> None) b out) ?t u
          \<and> package_written G info (binary_override \<noteq> None) b out x ?t u"
      then have "package_written G info (binary_override \<noteq> None) b out x s u"
        using settles_fresh [OF start(2)] unfolding package_written_def by blast
      with u show "?Q x u" using later by blast
    qed (simp, (rule later, assumption)+)
  next
    fix e t assume t: "unchanged_outside {?snapshot} ?s t"
    have "unchanged_outside (tree_below d) s t"
      unfolding unchanged_outside_def
    proof (intro allI impI)
      fix p assume "p \<notin> tree_below d"
      then have "p \<notin> {?snapshot}" "p \<noteq> d" using inside by auto
      then show "t p = s p" using unchanged_outsideD [OF t] by simp
    qed
    then show "?C t" "?C t" by (rule scratch)+
  qed
next
  fix d t t' assume d: "temp_root out d" "\<forall>p \<in> tree_below d. s p = None" "unchanged_outside (tree_below d) t t'"
  then show "?C t \<Longrightarrow> ?C t'" by (intro settles_scratch [OF _ d(3)] temp_area_root)
  then show "?Q x t \<Longrightarrow> ?Q x t'" for x
    using package_written_stable [OF _ d(3) temp_area_root [OF d(1)]] by blast
qed auto

lemma wp_package_update:
  assumes laws: "package_laws G out" and paths: "absolute_path_of G info_path = Inr ip" "package_out_dir G ip out_dir = Inr out"
  shows "wp (package_update G info_path binary_override out_dir)
     (\<lambda>x t. settles (temp_area out) (packages_of_input G s ip binary_override out) s t
        \<and> (\<exists>info b. package_input G s ip binary_override info b \<and> package_written G info (binary_override \<noteq> None) b out x s t))
     (\<lambda>_. settles (temp_area out) (packages_of_input G s ip binary_override out) s)
     (settles (temp_area out) (packages_of_input G s ip binary_override out) s) s"
  unfolding package_update_def paths lift_result_simps bindio_ret Let_def
proof (rule wp_bindio, rule wp_require_input_file, rule wp_bindio, rule wp_read_file, rule wp_bindio, rule wp_lift_result,
    rule wp_bindio, rule wp_lift_result, rule wp_bindio, rule wp_lift_result, rule wp_bindio, rule wp_require_input_file, goal_cases)
  case (1 c doc info u binary b)
  then have "package_input G s ip binary_override info b" by (auto simp: package_input_def)
  from wp_package_executable [OF laws this 1(5,6)] show ?case
    unfolding paths by (rule wp_mono) (use \<open>package_input G s ip binary_override info b\<close> in blast)+
qed auto

text \<open>C27. Whatever the schedule of faults and stops, packaging an executable changes no file that existed before: what is new is a directory, lies in a
temporary directory or file of its own, or is a complete package under its name whose single payload is the executable that was there,
read back as stamped with the header the info describes, and (unless the executable was given separately) with the recorded checksum.
When the command returns, such a package is in place, its name was free, and its reported digests and sizes are those of the
package and the payload.\<close>

theorem update_package_genuine:
  assumes "package_laws G out" "absolute_path_of G info_path = Inr ip" "package_out_dir G ip out_dir = Inr out"
    and run: "package_update G info_path binary_override out_dir \<lparr>w_fs = s, w_schedule = schedule\<rparr> = (r, w')"
  shows "settles (temp_area out) (packages_of_input G s ip binary_override out) s (w_fs w')
     \<and> (case r of Ok x \<Rightarrow> \<exists>info b. package_input G s ip binary_override info b \<and> package_written G info (binary_override \<noteq> None) b out x s (w_fs w')
        | _ \<Rightarrow> True)"
  using wpD [OF wp_package_update [OF assms(1-3)] run] by (auto split: outcome.splits)


section \<open>Instances\<close>

definition linux_platform :: native_platform where
  "linux_platform = \<lparr>np_name = ''linux-64'', np_windows = False, np_virtual = False, np_only_platform = Some ''linux'', np_arch = Some ''x86_64''\<rparr>"

definition sample_info :: artifact_info where
  "sample_info = \<lparr>ai_schema_version = 1, ai_name = ''demo'', ai_artifact_name = ''demo'', ai_runtime_name = ''demo'', ai_runtime_version = ''2.0.0'',
     ai_layout = ''online'', ai_platform = ''linux-64'', ai_update = h_update channel_header, ai_binary = ''demo'', ai_bundle = None,
     ai_lock = ''demo.runtime.lock'', ai_package_list = ''demo.packages.txt'', ai_sbom = None, ai_package_count = 0,
     ai_checksums = [\<lparr>ac_path = ''demo'', ac_sha256 = hex (sha256 channel_codec channel_payload), ac_bytes = length channel_payload\<rparr>]\<rparr>"

definition sample_package_ext :: package_ext where
  "sample_package_ext = \<lparr>pg_codec = channel_codec, pg_pe = sample_pe, pg_macho = sample_macho, pg_current_dir = Inr [''dist''],
     pg_info = (\<lambda>_. Inr sample_info), pg_url = (\<lambda>_. Inr sample_channel_url), pg_url_with_base = (\<lambda>_. Inr sample_channel_url),
     pg_package_name = Inr, pg_version = (\<lambda>_. Inr ()), pg_platform = (\<lambda>x. if x = ''linux-64'' then Inr linux_platform else Inl Io_Failed),
     pg_index_json = (\<lambda>_. Inr [1]), pg_paths_json = (\<lambda>_. Inr [2]), pg_conda = (\<lambda>_ ms. Inr (concat (map snd ms))),
     pg_temp_dir = atomic_op (\<lambda>s. if s [''.tmp1''] = None \<and> (\<forall>p \<in> tree_below [''.tmp1'']. s p = None)
        then Inr ([''.tmp1''], s([''.tmp1''] \<mapsto> Directory)) else Inl Io_Failed),
     pg_temp_file = (\<lambda>d. atomic_op (\<lambda>s. if s (d @ [''.tmp2'']) = None then Inr (d @ [''.tmp2''], s(d @ [''.tmp2''] \<mapsto> Regular [])) else Inl Io_Failed)),
     pg_interrupted = (\<lambda>_ _. {})\<rparr>"

lemma sample_package_laws: "package_laws sample_package_ext [''dist'']"
proof -
  have names: "temporary_name ''.tmp1''" "temporary_name ''.tmp2''"
    unfolding temporary_name_def by (rule exI [of _ "''1''"], simp, code_simp, rule exI [of _ "''2''"], simp, code_simp)
  have "temp_root [''dist''] [''.tmp1'']" using names by (simp add: temp_root_def tree_below_def)
  with names show ?thesis
    unfolding package_laws_def sample_package_ext_def package_ext.simps
    by (intro conjI allI wp_atomic_op) (auto split: if_splits)
qed

lemma update_package_genuine_witness:
  "let (r, w') = package_update sample_package_ext (False, [''demo.info.json'']) None None
       \<lparr>w_fs = [[''dist''] \<mapsto> Directory, [''dist'', ''demo.info.json''] \<mapsto> Regular [], [''dist'', ''demo''] \<mapsto> Regular channel_payload],
         w_schedule = replicate 20 Go @ [Fail 0]\<rparr>
   in w_fs w' [''dist'', ''demo''] = Some (Regular channel_payload)"
proof -
  let ?s = "[[''dist''] \<mapsto> Directory, [''dist'', ''demo.info.json''] \<mapsto> Regular [], [''dist'', ''demo''] \<mapsto> Regular channel_payload]"
  have paths: "absolute_path_of sample_package_ext (False, [''demo.info.json'']) = Inr [''dist'', ''demo.info.json'']"
    "package_out_dir sample_package_ext [''dist'', ''demo.info.json''] None = Inr [''dist'']"
    by (simp_all add: absolute_path_of_def sample_package_ext_def package_out_dir_def parent_def)
  have "?s [''dist'', ''demo''] = Some (Regular channel_payload)" by simp
  with update_package_genuine [where binary_override = None and s = ?s and schedule = "replicate 20 Go @ [Fail 0]",
      OF sample_package_laws paths prod.collapse [symmetric]] settles_keeps
  show ?thesis unfolding Let_def case_prod_beta by blast
qed

end
