(* ===== verification/Package_Channel.thy ===== *)
theory Package_Channel
  imports Package_Safety Update_Channel
begin

text \<open>
  The two ends of the update channel: what \<open>update_package.rs\<close> writes is what \<open>runtime_update.rs\<close> accepts.
\<close>

section \<open>Reading a stamp does not depend on where the file is\<close>

definition relocate :: "path \<Rightarrow> runtime_data \<Rightarrow> runtime_data" where
  "relocate q d = d\<lparr>rd_bundle := map_option (\<lambda>e. e\<lparr>eb_executable := q\<rparr>) (rd_bundle d)\<rparr>"

definition relocated :: "path \<Rightarrow> runtime_data option result \<Rightarrow> runtime_data option result" where
  "relocated q r = (case r of Inl e \<Rightarrow> Inl e | Inr d \<Rightarrow> Inr (map_option (relocate q) d))"

lemma relocate_header [simp]: "rd_header (relocate q d) = rd_header d"
  by (simp add: relocate_def)

lemma relocated_simps:
  "relocated q (Inl e) = Inl e" "relocated q (Inr d) = Inr (map_option (relocate q) d)"
  "relocated q (rbind m g) = rbind m (\<lambda>x. relocated q (g x))" "relocated q (if b then r else r') = (if b then relocated q r else relocated q r')"
  "rbind (relocated q m') h = rbind m' (\<lambda>x. h (map_option (relocate q) x))"
  by (simp_all add: relocated_def rbind_def split: sum.split)

lemma payload_relocated: "read_runtime_data_payload X q f start d = relocated q (read_runtime_data_payload X p f start d)"
  by (simp add: read_runtime_data_payload_def relocated_simps relocate_def cong: if_cong)

lemma footer_relocated: "read_runtime_data_at_footer X q f start m b = relocated q (read_runtime_data_at_footer X p f start m b)"
  unfolding read_runtime_data_at_footer_def relocated_simps
  by (intro rbind_cong refl) (simp add: relocated_simps Let_def payload_relocated [of X q _ _ _ p] split: option.split cong: if_cong)

lemma paddings_relocated: "search_paddings X q f spec ps = relocated q (search_paddings X p f spec ps)"
proof (induction ps)
  case (Cons a ps)
  show ?case
    unfolding search_paddings.simps Cons.IH
    by (simp add: relocated_simps footer_relocated [where p = p and q = q] split: option.split cong: if_cong)
qed (simp add: relocated_simps)

lemma search_relocated: "read_runtime_data_with_search_spec X q f spec = relocated q (read_runtime_data_with_search_spec X p f spec)"
  unfolding read_runtime_data_with_search_spec_def by (rule paddings_relocated)

lemma pe_relocated: "read_pe_runtime_data X P q f = relocated q (read_pe_runtime_data X P p f)"
proof -
  have unanchored: "read_pe_unanchored X q f l = relocated q (read_pe_unanchored X p f l)" for l
    unfolding read_pe_unanchored_def
    by (simp add: relocated_simps search_relocated [of X q _ _ p] comp_def split: option.split cong: if_cong option.case_cong)
  have anchored: "read_pe_anchored X q f l a = relocated q (read_pe_anchored X p f l a)" for l a
    unfolding read_pe_anchored_def relocated_simps
    by (intro rbind_cong refl) (simp add: relocated_simps Let_def payload_relocated [of X q _ _ _ p] comp_def split: prod.split cong: if_cong option.case_cong)
  show ?thesis
    unfolding read_pe_runtime_data_def relocated_simps
    by (intro rbind_cong refl) (simp add: unanchored anchored split: option.split)
qed


lemma macho_relocated: "read_macho_runtime_data X M q f = relocated q (read_macho_runtime_data X M p f)"
  unfolding read_macho_runtime_data_def relocated_simps
  by (intro rbind_cong refl) (simp add: relocated_simps search_relocated [of X q _ _ p] comp_def split: prod.split cong: option.case_cong)

lemma read_from_file_relocated: "read_from_file X P M q f = relocated q (read_from_file X P M p f)"
  unfolding read_from_file_def relocated_simps
  by (intro rbind_cong refl) (simp add: relocated_simps search_relocated [of X q _ _ p] pe_relocated [of X P q _ p] macho_relocated [of X M q _ p] split: binary_format.split)


section \<open>From the builder to the updater\<close>

definition index_json_of :: "package_index \<Rightarrow> index_json" where
  "index_json_of x = \<lparr>ij_name = px_name x, ij_version = px_version x, ij_build = px_build x, ij_build_number = px_build_number x,
     ij_subdir = Some (px_subdir x), ij_depends = px_depends x\<rparr>"

definition paths_json_of :: "package_paths \<Rightarrow> bytes \<Rightarrow> paths_json" where
  "paths_json_of x digest = \<lparr>pj_version = py_paths_version x,
     pj_paths = [\<lparr>pt_relative_path = py_path x, pt_type = Hard_Link_Path, pt_prefix_placeholder = False, pt_sha256 = Some digest,
       pt_size_in_bytes = Some (py_size_in_bytes x)\<rparr>]\<rparr>"

text \<open>The package unpacked: its payload, and its two documents as rattler parses them.\<close>

definition unpacked :: "package_ext \<Rightarrow> channel_ext \<Rightarrow> package_plan \<Rightarrow> bytes \<Rightarrow> path \<Rightarrow> fs \<Rightarrow> bool" where
  "unpacked G R plan b extracted s \<longleftrightarrow> s (join extracted (pn_payload plan)) = Some (Regular b)
     \<and> (\<exists>index. index_of_plan plan = Inr index \<and> ch_index_json R extracted = ret (index_json_of index))
     \<and> ch_paths_json R extracted = ret (paths_json_of (paths_of_plan plan (hex (sha256 (pg_codec G) b)) (length b)) (sha256 (pg_codec G) b))"

text \<open>Builder and runtime use the same parsers; a parsed platform is written as it was read, and a version is not less than itself.\<close>

definition same_parsers :: "package_ext \<Rightarrow> channel_ext \<Rightarrow> bool" where
  "same_parsers G R \<longleftrightarrow> ue_codec (ch_update R) = pg_codec G \<and> ue_pe (ch_update R) = pg_pe G \<and> ue_macho (ch_update R) = pg_macho G
     \<and> ch_url R = pg_url G \<and> ch_url_with_base R = pg_url_with_base G \<and> ch_package_name R = pg_package_name G
     \<and> (\<forall>x p. pg_platform G x = Inr p \<longrightarrow> np_name p = x) \<and> (\<forall>v. ch_version_le R v v)"

text \<open>The runtime that asks is one of the same name, platform and channel; the repodata lists the package.\<close>

definition same_runtime :: "artifact_info \<Rightarrow> runtime_header \<Rightarrow> runtime_update_config \<Rightarrow> string \<Rightarrow> bool" where
  "same_runtime info current update platform \<longleftrightarrow> h_runtime_name current = ai_runtime_name info \<and> h_artifact_name current = ai_artifact_name info
     \<and> platform = ai_platform info
     \<and> (\<exists>u. ai_update info = Some u \<and> u_channel u = u_channel update \<and> u_package u = u_package update)"

definition lists_package :: "package_record \<Rightarrow> package_plan \<Rightarrow> bool" where
  "lists_package r plan \<longleftrightarrow> pk_name r = pn_name plan \<and> pk_version r = pn_version plan \<and> pk_build r = decimal (u_build_number (pn_update plan))
     \<and> pk_build_number r = u_build_number (pn_update plan) \<and> pk_subdir r = np_name (pn_platform plan) \<and> pk_depends r = []"

lemma validate_stamp_Inr:
  assumes "validate_stamp X info b data = Inr ()"
  shows "h_runtime_name (rd_header data) = ai_runtime_name info" "h_artifact_name (rd_header data) = ai_artifact_name info"
    "h_runtime_version (rd_header data) = ai_runtime_version info" "h_artifact_layout (rd_header data) = ai_layout info"
    "h_platform (rd_header data) = ai_platform info" "h_update (rd_header data) = ai_update info"
    "ai_layout info = ''online'' \<or> ai_layout info = ''embedded''"
  using assms by (auto simp: validate_stamp_def Let_def split: if_splits)

lemma plain_path_components: "plain_component v \<Longrightarrow> path_components v = [Normal_Component v]"
  using validate_plain_filename_iff [of v] components_plain [of v]
  by (auto simp: validate_plain_filename_def path_components_def split: if_splits list.splits component.splits)

lemma payload_components:
  assumes "plan_package G h = Inr plan"
  shows "list_all normal_component (path_components (pn_payload plan))" "pn_payload plan \<noteq> []"
  using assms
proof (atomize (full), elim plan_package_Inr, goal_cases)
  case (1 update platform name)
  have bin: "components (''bin/'' @ x) = [''bin'', x]" if "plain_component x" for x
    using components_plain [OF that] unfolding components_def split_on_bin by simp
  have "path_components (''bin/'' @ h_artifact_name h) = [Normal_Component ''bin'', Normal_Component (h_artifact_name h)]"
    using 1(7) bin [OF 1(7)] by (simp add: path_components_def starts_with_def plain_component_def)
  with 1 plain_path_components [OF plain_exe [OF 1(7)]] show ?case
    by (simp add: normal_component_def)
qed

lemma run_read_file_Ok: "follow s p = Some (Regular b) \<Longrightarrow> read_file p \<lparr>w_fs = s, w_schedule = []\<rparr> = (Ok b, \<lparr>w_fs = s, w_schedule = []\<rparr>)"
  by (simp add: read_file_def atomic_op_def next_event_def)

lemma run_validate_payload:
  assumes parsers: "same_parsers G R" and same: "same_runtime info current update (ch_platform R)"
    and pkg: "package_of G info overridden b plan pkg" and at: "s (join extracted (pn_payload plan)) = Some (Regular b)"
    and index: "index_of_plan plan = Inr index"
  defines "paths \<equiv> paths_json_of (paths_of_plan plan (hex (sha256 (pg_codec G) b)) (length b)) (sha256 (pg_codec G) b)"
  shows "validate_payload R extracted current update (index_json_of index) paths (hd (pj_paths paths)) \<lparr>w_fs = s, w_schedule = []\<rparr>
     = (Ok (join extracted (pn_payload plan)), \<lparr>w_fs = s, w_schedule = []\<rparr>)"
proof -
  let ?w = "\<lparr>w_fs = s, w_schedule = []\<rparr>" and ?p = "join extracted (pn_payload plan)"
  from pkg obtain q data where d: "read_from_file (pg_codec G) (pg_pe G) (pg_macho G) q b = Inr (Some data)"
    "validate_stamp (pg_codec G) info b data = Inr ()" and plan: "plan_package G (rd_header data) = Inr plan"
    by (auto simp: package_of_def)
  note stamp = validate_stamp_Inr [OF d(2)]
  obtain u where u: "h_update (rd_header data) = Some u" "pn_update plan = u" "supports_direct_update u" "validate_channel G (u_channel u) = Inr ()"
    "\<exists>n. pg_package_name G (u_package u) = Inr n" "pn_version plan = h_runtime_version (rd_header data)"
    using plan by (elim plan_package_Inr) auto
  have again: "read_from_file (pg_codec G) (pg_pe G) (pg_macho G) ?p b = Inr (Some (relocate ?p data))"
    using read_from_file_relocated [of _ _ _ ?p b q] d(1) by (simp add: relocated_simps)
  have read_p: "read_file ?p ?w = (Ok b, ?w)" using at by (simp add: run_read_file_Ok follow_def)
  have codec: "ue_codec (ch_update R) = pg_codec G" "ue_pe (ch_update R) = pg_pe G" "ue_macho (ch_update R) = pg_macho G"
    using parsers by (simp_all add: same_parsers_def)
  have entry: "payload_entry_valid paths (hd (pj_paths paths))" "pt_sha256 (hd (pj_paths paths)) = Some (sha256 (pg_codec G) b)"
    "pt_size_in_bytes (hd (pj_paths paths)) = Some (length b)" "pt_relative_path (hd (pj_paths paths)) = pn_payload plan"
    using payload_components [OF plan] by (simp_all add: payload_entry_valid_def paths_def paths_json_of_def paths_of_plan_def)
  have verified: "verify_file R ?p (hex (sha256 (pg_codec G) b)) (length b) ?w = (Ok (), ?w)"
    by (simp add: verify_file_def bindio_Ok [where m = "read_file ?p" and w = ?w and w' = ?w, OF read_p] codec ensure_def) (simp add: ret_def)
  have data': "read_from_path R ?p ?w = (Ok (Some (relocate ?p data)), ?w)"
    by (simp add: read_from_path_def bindio_Ok [where m = "read_file ?p" and w = ?w and w' = ?w, OF read_p] codec again) (simp add: ret_def)
  have channel: "validate_update_config R u = Inr ()"
    using u(4,5) parsers by (auto simp: validate_update_config_def validate_channel_def same_parsers_def success_simps split: if_splits)
  have matches: "stamp_matches R current (index_json_of index) (rd_header data)" "stamped_update_matches update (index_json_of index) u"
    using stamp same u index by (auto simp: stamp_matches_def stamped_update_matches_def same_runtime_def index_json_of_def index_of_plan_def success_simps)
  show ?thesis
    unfolding validate_payload_def Let_def entry ensure_def if_P [OF entry(1)] if_P [OF matches(1)]
    by (simp add: entry bindio_Ok [where m = "verify_file R ?p d n" and w = ?w and w' = ?w for d n, OF verified]
      bindio_Ok [where m = "read_from_path R ?p" and w = ?w and w' = ?w, OF data'] matches u(1) channel) (simp add: ret_def)
qed

text \<open>C28. Every package the builder writes is accepted by the updater of a runtime of the same name, platform and channel: unpacked, and listed in the repodata with
the values of its own index, it passes each check of \<open>validate_extracted_candidate\<close>, wherever it has been unpacked to.\<close>

theorem built_package_accepted:
  assumes "same_parsers G R" "same_runtime info current update (ch_platform R)" "package_of G info overridden b plan pkg"
    and "unpacked G R plan b extracted s" "lists_package (rr_package (sp_record candidate)) plan"
  shows "validate_extracted_candidate R extracted current update candidate \<lparr>w_fs = s, w_schedule = []\<rparr>
     = (Ok (join extracted (pn_payload plan)), \<lparr>w_fs = s, w_schedule = []\<rparr>)"
proof -
  from assms(4) obtain index where index: "index_of_plan plan = Inr index" "ch_index_json R extracted = ret (index_json_of index)"
    and at: "s (join extracted (pn_payload plan)) = Some (Regular b)"
    and paths: "ch_paths_json R extracted = ret (paths_json_of (paths_of_plan plan (hex (sha256 (pg_codec G) b)) (length b)) (sha256 (pg_codec G) b))"
    by (auto simp: unpacked_def)
  from assms(3) obtain data where d: "validate_stamp (pg_codec G) info b data = Inr ()" and plan: "plan_package G (rd_header data) = Inr plan"
    by (auto simp: package_of_def)
  obtain u name where u: "h_update (rd_header data) = Some u" "pn_update plan = u" "pg_package_name G (u_package u) = Inr name" "pn_name plan = name"
    "pg_platform G (h_platform (rd_header data)) = Inr (pn_platform plan)"
    using plan by (elim plan_package_Inr) auto
  have platform: "np_name (pn_platform plan) = ch_platform R"
    using u(5) assms(1,2) validate_stamp_Inr(5) [OF d] by (simp add: same_parsers_def same_runtime_def)
  have expected: "ch_package_name R (u_package update) = Inr name"
    using u assms(1,2) validate_stamp_Inr(6) [OF d] by (auto simp: same_parsers_def same_runtime_def)
  have matches: "index_matches R name (index_json_of index) (rr_package (sp_record candidate))"
    using assms(1,5) index(1) platform u(2,4)
    by (auto simp: index_matches_def index_json_of_def index_of_plan_def lists_package_def same_parsers_def success_simps)
  show ?thesis
    using run_validate_payload [where s = s and extracted = extracted and plan = plan and b = b, OF assms(1-3) at index(1)]
    by (simp add: validate_extracted_candidate_def index(2) paths expected matches ensure_def) (simp add: paths_json_of_def)
qed


section \<open>Instances\<close>

definition sample_package_plan :: package_plan where
  "sample_package_plan = \<lparr>pn_update = runtime_update_config_new ''https://h/c'' ''demo'' 1, pn_name = ''demo'', pn_version = ''2.0.0'', pn_platform = linux_platform,
     pn_payload = ''bin/demo'', pn_stem = ''demo-2.0.0-1'', pn_filename = ''demo-2.0.0-1.conda''\<rparr>"

lemma sample_package_plan: "plan_package sample_package_ext channel_header = Inr sample_package_plan"
proof -
  have plain: "validate_plain_filename ''demo'' = Inr ()" "validate_plain_filename ''demo-2.0.0-1.conda'' = Inr ()" by code_simp+
  have channel: "check_published_path ''https://h/c'' = Inr ()" by code_simp
  have one: "decimal 1 = ''1''" by code_simp
  show ?thesis
    using plain channel one
    by (simp add: plan_package_def channel_header_def header_for_name_def runtime_update_config_new_def supports_direct_update_def sample_package_ext_def
        validate_channel_def validate_artifact_url_def sample_channel_url_def sample_package_plan_def linux_platform_def)
qed

definition sample_updater :: channel_ext where
  "sample_updater = sample_channel\<lparr>ch_version_le := (=), ch_index_json := (\<lambda>_. ret \<lparr>ij_name = ''demo'', ij_version = ''2.0.0'', ij_build = ''1'',
     ij_build_number = 1, ij_subdir = Some ''linux-64'', ij_depends = []\<rparr>)\<rparr>"

definition sample_candidate :: selected_package where
  "sample_candidate = \<lparr>sp_record = (newer_record ''2.0.0'' 1)\<lparr>rr_package := (rr_package (newer_record ''2.0.0'' 1))\<lparr>pk_build := ''1''\<rparr>\<rparr>,
     sp_filename = ''demo-2.0.0-1.conda'', sp_sha256 = [], sp_size = 0\<rparr>"

lemma sample_package_built: "\<exists>pkg. package_of sample_package_ext sample_info False channel_payload sample_package_plan pkg"
proof -
  have codec: "pg_codec sample_package_ext = channel_codec" "pg_pe sample_package_ext = sample_pe" "pg_macho sample_package_ext = sample_macho"
    by (simp_all add: sample_package_ext_def)
  let ?data = "stamped_data channel_codec [''demo''] 32 channel_header [2] []"
  have header: "rd_header ?data = channel_header" "rd_bundle ?data = None" by (simp_all add: stamped_data_def)
  have "validate_stamp channel_codec sample_info channel_payload ?data = Inr ()"
    unfolding validate_stamp_def header Let_def
    by (simp add: sample_info_def) (simp add: channel_header_def header_for_name_def)
  moreover have "validate_recorded_binary_checksum sample_info (hex (sha256 channel_codec channel_payload)) (length channel_payload) = Inr ()"
    by (simp add: validate_recorded_binary_checksum_def sample_info_def)
  ultimately show ?thesis
    using channel_payload_stamped [of "[''demo'']"] sample_package_plan
    by (auto simp: package_of_def codec header index_of_plan_def sample_package_ext_def sample_package_plan_def linux_platform_def
        intro!: exI [of _ "[''demo'']"] exI [of _ ?data])
qed

lemma built_package_accepted_witness:
  "validate_extracted_candidate sample_updater [''pkg''] channel_header (runtime_update_config_new ''https://h/c'' ''demo'' 0) sample_candidate
     \<lparr>w_fs = [[''pkg'', ''bin'', ''demo''] \<mapsto> Regular channel_payload], w_schedule = []\<rparr>
   = (Ok [''pkg'', ''bin'', ''demo''], \<lparr>w_fs = [[''pkg'', ''bin'', ''demo''] \<mapsto> Regular channel_payload], w_schedule = []\<rparr>)"
proof -
  let ?s = "[[''pkg'', ''bin'', ''demo''] \<mapsto> Regular channel_payload]"
  have digest: "sha256 channel_codec channel_payload = replicate 32 2"
    by (simp add: channel_codec_def channel_payload_def)
  have one: "decimal 1 = ''1''" by code_simp
  have joined: "join [''pkg''] ''bin/demo'' = [''pkg'', ''bin'', ''demo'']" by code_simp
  have parsers: "same_parsers sample_package_ext sample_updater"
    by (auto simp: same_parsers_def sample_package_ext_def sample_updater_def sample_channel_def sample_env_def linux_platform_def split: if_splits)
  have same: "same_runtime sample_info channel_header (runtime_update_config_new ''https://h/c'' ''demo'' 0) (ch_platform sample_updater)"
    by (simp add: same_runtime_def sample_info_def channel_header_def header_for_name_def sample_updater_def sample_channel_def runtime_update_config_new_def)
  have listed: "lists_package (rr_package (sp_record sample_candidate)) sample_package_plan"
    using one by (simp add: lists_package_def sample_candidate_def newer_record_def sample_package_plan_def linux_platform_def runtime_update_config_new_def)
  have unpacked: "unpacked sample_package_ext sample_updater sample_package_plan channel_payload [''pkg''] ?s"
    using joined digest one
    by (simp add: unpacked_def sample_package_plan_def index_of_plan_def linux_platform_def index_json_of_def paths_json_of_def paths_of_plan_def
        sample_updater_def sample_channel_def sample_package_ext_def runtime_update_config_new_def)
  obtain pkg where "package_of sample_package_ext sample_info False channel_payload sample_package_plan pkg" using sample_package_built by blast
  from built_package_accepted [OF parsers same this unpacked listed] joined show ?thesis
    by (simp add: sample_package_plan_def)
qed

end
