(* ===== verification/Ship_Bundle.thy ===== *)
theory Ship_Bundle
  imports Artifact_Safety "HOL-Library.Sublist"
begin

text \<open>
  The bundle of a build (\<open>src/bin/cs/bundle.rs\<close>): every package of the platform is copied or downloaded into an empty
  directory under a temporary name, gets its name if its SHA-256 is the one of the lockfile, and the files of the directory are
  packed in the order of their names. \<open>bundle_ext\<close> holds the network, the listing of a directory, the archive format and the order in
  which the tasks finish; a task runs without interruption by the others (tasks of different archives touch different files).
\<close>

section \<open>Definitions\<close>

record bundle_ext =
  bx_codec :: codec_ext
  bx_environment :: "runtime_lock \<Rightarrow> (lock_platform \<times> conda_package list) list option"
  bx_client :: "unit result"
  bx_file_name :: "package_location \<Rightarrow> string option"
  bx_local :: "path_buf \<Rightarrow> path"
  bx_get :: "url \<Rightarrow> (bytes \<times> bool) io"
  bx_order :: "conda_package list \<Rightarrow> conda_package list"
  bx_read_dir :: "path \<Rightarrow> string list io"
  bx_archive :: "(string \<times> bytes) list \<Rightarrow> bytes result"
  bx_interrupted :: "nat \<Rightarrow> path \<Rightarrow> path set"

definition validate_package_archive_name :: "string \<Rightarrow> unit result" where
  "validate_package_archive_name name =
     (if name = [] then Inl (Invalid ''archive name must not be empty'')
      else if name = ''.'' \<or> name = ''..'' then Inl (Invalid ''archive name must not be . or ..'')
      else if CHR ''/'' \<in> set name \<or> CHR 0x5C \<in> set name \<or> has_control name then Inl (Invalid ''archive name must be a plain filename'')
      else if \<not> (ends_with ''.conda'' name \<or> ends_with ''.tar.bz2'' name)
      then Inl (Invalid ''archive name must end with .conda or .tar.bz2'')
      else Inr ())"

definition archive_name_of :: "bundle_ext \<Rightarrow> conda_package \<Rightarrow> string result" where
  "archive_name_of B package =
     rbind (ok_or ''package location has no archive name'' (bx_file_name B (cp_location package))) (\<lambda>name.
     rbind (validate_package_archive_name name) (\<lambda>_. Inr name))"

definition expected_sha256 :: "conda_package \<Rightarrow> bytes result" where
  "expected_sha256 package =
     rbind (ok_or ''archive is missing its package record in the runtime lock'' (cp_record package)) (\<lambda>r.
     ok_or ''archive has no SHA256 in the runtime lock'' (pk_sha256 r))"

text \<open>The bytes arrive in chunks; the flag tells whether the response ended well.\<close>

definition obtain_archive :: "bundle_ext \<Rightarrow> package_location \<Rightarrow> path \<Rightarrow> bytes io" where
  "obtain_archive B location tmp_dest =
     (case location of
        Package_Path p \<Rightarrow>
          bindio (read_file (bx_local B p)) (\<lambda>b.
          bindio (write_file tmp_dest b) (\<lambda>_.
          bindio (read_file tmp_dest) (\<lambda>b. ret (sha256 (bx_codec B) b))))
      | Package_Url u \<Rightarrow>
          bindio (bx_get B u) (\<lambda>(b, ended).
          bindio (write_file tmp_dest b) (\<lambda>_.
          bindio (ensure ended ''failed to read the response'') (\<lambda>_.
          ret (sha256 (bx_codec B) b)))))"

definition download_package :: "bundle_ext \<Rightarrow> path \<Rightarrow> conda_package \<Rightarrow> unit io" where
  "download_package B bundle_dir package =
     bindio (lift_result (archive_name_of B package)) (\<lambda>name.
     let dest = bundle_dir @ [name]; tmp_dest = bundle_dir @ [''.'' @ name @ ''.download''] in
     bindio (lift_result (expected_sha256 package)) (\<lambda>expected.
     bindio (path_exists dest) (\<lambda>present.
     bindio (if present then bindio (read_file dest) (\<lambda>b. ret (sha256 (bx_codec B) b = expected)) else ret False) (\<lambda>complete.
     if complete then ret ()
     else
       bindio (if present then remove_file dest else ret ()) (\<lambda>_.
       bindio (obtain_archive B (cp_location package) tmp_dest) (\<lambda>actual.
       if actual \<noteq> expected then bindio (tryio (remove_file tmp_dest)) (\<lambda>_. fail (Invalid ''SHA256 mismatch''))
       else rename tmp_dest dest))))))"

text \<open>All tasks run; the first failure among the results is returned.\<close>

fun run_downloads :: "bundle_ext \<Rightarrow> path \<Rightarrow> conda_package list \<Rightarrow> unit result list io" where
  "run_downloads B bundle_dir [] = ret []"
| "run_downloads B bundle_dir (p # ps) =
     bindio (tryio (download_package B bundle_dir p)) (\<lambda>r. bindio (run_downloads B bundle_dir ps) (\<lambda>rs. ret (r # rs)))"

fun first_error :: "unit result list \<Rightarrow> unit result" where
  "first_error [] = Inr ()"
| "first_error (r # rs) = rbind r (\<lambda>_. first_error rs)"

definition is_regular :: "path \<Rightarrow> bool io" where
  "is_regular p = bindio (tryio (metadata_follow p)) (\<lambda>k. ret (k = Inr Is_File))"

fun read_entries :: "path \<Rightarrow> string list \<Rightarrow> (string \<times> bytes) list io" where
  "read_entries d [] = ret []"
| "read_entries d (n # ns) =
     bindio (is_regular (d @ [n])) (\<lambda>file.
     if file then bindio (read_file (d @ [n])) (\<lambda>b. bindio (read_entries d ns) (\<lambda>es. ret ((n, b) # es)))
     else read_entries d ns)"

definition write_bundle :: "bundle_ext \<Rightarrow> path \<Rightarrow> string list \<Rightarrow> path \<Rightarrow> unit io" where
  "write_bundle B bundle_dir names archive =
     bindio (create_truncate archive) (\<lambda>_.
     bindio (read_entries bundle_dir (sort names)) (\<lambda>entries.
     bindio (lift_result (bx_archive B entries)) (\<lambda>b.
     write_all archive b)))"

text \<open>\<open>if let Ok(metadata)\<close>: an error of the inspection is ignored.\<close>

definition clear_bundle_dir :: "bundle_ext \<Rightarrow> path \<Rightarrow> unit io" where
  "clear_bundle_dir B bundle_dir =
     bindio (tryio (symlink_metadata bundle_dir)) (\<lambda>k. case k of
       Inl _ \<Rightarrow> ret ()
     | Inr kind \<Rightarrow> if kind = Is_Directory then remove_dir_all (bx_interrupted B) bundle_dir else remove_file bundle_dir)"

definition download_and_bundle :: "bundle_ext \<Rightarrow> conda_package list \<Rightarrow> path \<Rightarrow> unit io" where
  "download_and_bundle B packages archive =
     bindio (lift_result (bx_client B)) (\<lambda>_.
     bindio (lift_result (ok_or ''bundle path has no parent'' (parent archive))) (\<lambda>bundle_parent.
     let bundle_dir = bundle_parent @ [''bundle''] in
     bindio (create_dir_all bundle_parent) (\<lambda>_.
     bindio (clear_bundle_dir B bundle_dir) (\<lambda>_.
     bindio (create_dir_all bundle_dir) (\<lambda>_.
     bindio (run_downloads B bundle_dir (bx_order B packages)) (\<lambda>results.
     bindio (lift_result (first_error results)) (\<lambda>_.
     bindio (bx_read_dir B bundle_dir) (\<lambda>names.
     bindio (write_bundle B bundle_dir names archive) (\<lambda>_.
     bindio (metadata_follow archive) (\<lambda>_. ret ()))))))))))"

definition gen_bundle_from_lock :: "bundle_ext \<Rightarrow> runtime_lock \<Rightarrow> string \<Rightarrow> path \<Rightarrow> path io" where
  "gen_bundle_from_lock B lock_file platform archive =
     bindio (lift_result (packages_for_platform (bx_environment B lock_file) platform)) (\<lambda>packages.
     bindio (lift_result (validate_package_hashes packages)) (\<lambda>_.
     bindio (download_and_bundle B packages archive) (\<lambda>_. ret archive)))"

section \<open>A downloaded archive\<close>

lemma wp_True: "wp m (\<lambda>_ _. True) (\<lambda>_ _. True) (\<lambda>_. True) s"
  by (simp add: wp_def split: outcome.split)

text \<open>\<open>b\<close> is the archive of one of the packages.\<close>

definition genuine_archive :: "bundle_ext \<Rightarrow> conda_package list \<Rightarrow> string \<Rightarrow> bytes \<Rightarrow> bool" where
  "genuine_archive B packages n b \<longleftrightarrow> (\<exists>p \<in> set packages. archive_name_of B p = Inr n \<and> expected_sha256 p = Inr (sha256 (bx_codec B) b))"

definition names_of :: "bundle_ext \<Rightarrow> conda_package list \<Rightarrow> string set" where
  "names_of B packages = {n. \<exists>p \<in> set packages. archive_name_of B p = Inr n}"

text \<open>After the tasks of \<open>packages\<close>, started in \<open>s\<close>: their archives are there, and nothing else is new.\<close>

definition downloaded :: "bundle_ext \<Rightarrow> path \<Rightarrow> conda_package list \<Rightarrow> fs \<Rightarrow> fs \<Rightarrow> bool" where
  "downloaded B d packages s t \<longleftrightarrow>
     (\<forall>n \<in> names_of B packages. \<exists>b. t (d @ [n]) = Some (Regular b) \<and> genuine_archive B packages n b)
     \<and> (\<forall>n. n \<notin> names_of B packages \<longrightarrow> t (d @ [n]) = s (d @ [n]) \<or> t (d @ [n]) = None)"


definition no_links :: "path \<Rightarrow> fs \<Rightarrow> bool" where
  "no_links d s \<longleftrightarrow> (\<forall>n x. s (d @ [n]) \<noteq> Some (Symlink x))"

lemma no_links_follow: "no_links d s \<Longrightarrow> follow s (d @ [n]) = s (d @ [n])"
  by (auto simp: no_links_def follow_def split: option.splits node.splits)

lemma wp_path_exists_exact: "Q (follow s p \<noteq> None) s \<Longrightarrow> Q False s \<Longrightarrow> C s \<Longrightarrow> wp (path_exists p) Q E C s"
  unfolding path_exists_def by (intro wp_bindio wp_tryio wp_metadata_follow wp_ret) auto

lemma archive_name_of_Inr: "archive_name_of B p = Inr n \<Longrightarrow> ends_with ''.conda'' n \<or> ends_with ''.tar.bz2'' n"
  by (auto simp: archive_name_of_def validate_package_archive_name_def success_simps split: if_splits)

lemma download_not_archive:
  assumes "archive_name_of B p = Inr m"
  shows "m \<noteq> ''.'' @ n @ ''.download''"
proof
  assume m: "m = ''.'' @ n @ ''.download''"
  have last_of: "last m = last e" if "ends_with e m" "e \<noteq> []" for e
  proof -
    have "m = take (length m - length e) m @ e" using that(1) unfolding ends_with_def by (metis append_take_drop_id)
    then show ?thesis using that(2) by (metis last_appendR)
  qed
  from archive_name_of_Inr [OF assms] show False
    using last_of [of "''.conda''"] last_of [of "''.tar.bz2''"] m by auto
qed

text \<open>One task: on success the archive is there with the digest of the lockfile, and the temporary name is free or as before.\<close>

lemma wp_obtain_archive:
  assumes get: "\<And>u. stays (bx_get B u) {}" and links: "\<And>x. s tmp \<noteq> Some (Symlink x)"
    and good: "\<And>b. Q (sha256 (bx_codec B) b) (s(tmp \<mapsto> Regular b))"
  shows "wp (obtain_archive B location tmp) Q (\<lambda>_ _. True) (\<lambda>_. True) s"
proof (cases location)
  case (Package_Path p)
  have written: "wp (bindio (write_file tmp b) (\<lambda>_. bindio (read_file tmp) (\<lambda>b. ret (sha256 (bx_codec B) b)))) Q (\<lambda>_ _. True) (\<lambda>_. True) s" for b
    by (auto intro!: wp_bindio wp_write_file wp_read_file wp_ret good simp: follow_def)
  show ?thesis
    unfolding obtain_archive_def Package_Path package_location.case by (rule wp_bindio, rule wp_read_file) (use written in simp_all)
next
  case (Package_Url u)
  show ?thesis
    unfolding obtain_archive_def Package_Url package_location.case
    by (rule wp_bindio_stays [OF get]) (auto intro!: wp_bindio wp_write_file wp_ensure wp_ret good split: prod.split)
qed

lemma wp_download_package:
  assumes get: "\<And>u. stays (bx_get B u) {}" and links: "no_links d s"
  shows "wp (download_package B d p)
     (\<lambda>_ t. \<exists>n b. archive_name_of B p = Inr n \<and> expected_sha256 p = Inr (sha256 (bx_codec B) b) \<and> t (d @ [n]) = Some (Regular b)
        \<and> (\<forall>m. m \<noteq> n \<longrightarrow> t (d @ [m]) = s (d @ [m]) \<or> m = ''.'' @ n @ ''.download'' \<and> t (d @ [m]) = None))
     (\<lambda>_ _. True) (\<lambda>_. True) s"
    (is "wp _ ?Q _ _ s")
  unfolding download_package_def Let_def
proof (rule wp_bindio, rule wp_lift_result)
  fix n assume n: "archive_name_of B p = Inr n"
  let ?dest = "d @ [n]" and ?tmp = "d @ [''.'' @ n @ ''.download'']"
  have apart: "?tmp \<noteq> ?dest" using download_not_archive [OF n] by auto
  have fetch: "wp (bindio (obtain_archive B (cp_location p) ?tmp) (\<lambda>actual.
       if actual \<noteq> expected then bindio (tryio (remove_file ?tmp)) (\<lambda>_. fail (Invalid ''SHA256 mismatch'')) else rename ?tmp ?dest)) ?Q (\<lambda>_ _. True) (\<lambda>_. True) t"
    if e: "expected_sha256 p = Inr expected" and t: "t = s \<or> t = s(?dest := None)" for expected t
  proof (rule wp_bindio, rule wp_obtain_archive [OF get])
    fix x show "t ?tmp \<noteq> Some (Symlink x)" using t apart links by (auto simp: no_links_def)
  next
    fix b
    have moved: "wp (rename ?tmp ?dest) ?Q (\<lambda>_ _. True) (\<lambda>_. True) (t(?tmp \<mapsto> Regular b))" if "sha256 (bx_codec B) b = expected"
      by (rule wp_rename) (use t apart n e that in auto)
    show "wp (if sha256 (bx_codec B) b \<noteq> expected then bindio (tryio (remove_file ?tmp)) (\<lambda>_. fail (Invalid ''SHA256 mismatch'')) else rename ?tmp ?dest)
        ?Q (\<lambda>_ _. True) (\<lambda>_. True) (t(?tmp \<mapsto> Regular b))"
      using moved by (auto intro!: wp_bindio wp_tryio wp_remove_file wp_fail)
  qed
  show "wp (bindio (lift_result (expected_sha256 p)) (\<lambda>expected.
     bindio (path_exists ?dest) (\<lambda>present.
     bindio (if present then bindio (read_file ?dest) (\<lambda>b. ret (sha256 (bx_codec B) b = expected)) else ret False) (\<lambda>complete.
     if complete then ret ()
     else bindio (if present then remove_file ?dest else ret ()) (\<lambda>_.
       bindio (obtain_archive B (cp_location p) ?tmp) (\<lambda>actual.
       if actual \<noteq> expected then bindio (tryio (remove_file ?tmp)) (\<lambda>_. fail (Invalid ''SHA256 mismatch''))
       else rename ?tmp ?dest)))))) ?Q (\<lambda>_ _. True) (\<lambda>_. True) s"
  proof (rule wp_bindio, rule wp_lift_result, rule wp_bindio, rule wp_path_exists, rule wp_bindio)
    fix expected present assume e: "expected_sha256 p = Inr expected"
    have found: "wp (ret ()) ?Q (\<lambda>_ _. True) (\<lambda>_. True) s" if "follow s ?dest = Some (Regular b)" "sha256 (bx_codec B) b = expected" for b
      using that n e no_links_follow [OF links, of n] by (intro wp_ret) auto
    have again: "wp (bindio (if present then remove_file ?dest else ret ()) (\<lambda>_. bindio (obtain_archive B (cp_location p) ?tmp) (\<lambda>actual.
       if actual \<noteq> expected then bindio (tryio (remove_file ?tmp)) (\<lambda>_. fail (Invalid ''SHA256 mismatch'')) else rename ?tmp ?dest))) ?Q (\<lambda>_ _. True) (\<lambda>_. True) s"
    proof (cases present)
      case True
      show ?thesis unfolding if_P [OF True] by (rule wp_bindio, rule wp_remove_file) (use fetch [OF e] in auto)
    next
      case False
      show ?thesis unfolding if_not_P [OF False] bindio_ret using fetch [OF e] by blast
    qed
    show "wp (if present then bindio (read_file ?dest) (\<lambda>b. ret (sha256 (bx_codec B) b = expected)) else ret False)
        (\<lambda>complete. wp (if complete then ret () else bindio (if present then remove_file ?dest else ret ()) (\<lambda>_.
           bindio (obtain_archive B (cp_location p) ?tmp) (\<lambda>actual.
           if actual \<noteq> expected then bindio (tryio (remove_file ?tmp)) (\<lambda>_. fail (Invalid ''SHA256 mismatch'')) else rename ?tmp ?dest)))
           ?Q (\<lambda>_ _. True) (\<lambda>_. True)) (\<lambda>_ _. True) (\<lambda>_. True) s"
      using again found by (auto intro!: wp_bindio [of "read_file _"] wp_read_file wp_ret)
  qed auto
qed simp


section \<open>All downloads\<close>

lemma genuine_archive_mono: "genuine_archive B ps n b \<Longrightarrow> set ps \<subseteq> set qs \<Longrightarrow> genuine_archive B qs n b"
  by (auto simp: genuine_archive_def)

lemma downloadedD:
  assumes "downloaded B d ps s t"
  shows "n \<in> names_of B ps \<Longrightarrow> \<exists>b. t (d @ [n]) = Some (Regular b) \<and> genuine_archive B ps n b"
    and "n \<notin> names_of B ps \<Longrightarrow> t (d @ [n]) = s (d @ [n]) \<or> t (d @ [n]) = None"
  using assms unfolding downloaded_def by simp_all

lemma downloaded_step:
  assumes before: "downloaded B d ps s t" and n: "archive_name_of B p = Inr n" and b: "expected_sha256 p = Inr (sha256 (bx_codec B) b)" "u (d @ [n]) = Some (Regular b)"
    and rest: "\<forall>m. m \<noteq> n \<longrightarrow> u (d @ [m]) = t (d @ [m]) \<or> m = ''.'' @ n @ ''.download'' \<and> u (d @ [m]) = None"
  shows "downloaded B d (ps @ [p]) s u"
proof -
  have names: "names_of B (ps @ [p]) = insert n (names_of B ps)" using n by (auto simp: names_of_def)
  have present: "\<exists>c. u (d @ [m]) = Some (Regular c) \<and> genuine_archive B (ps @ [p]) m c" if "m \<in> insert n (names_of B ps)" for m
  proof (cases "m = n")
    case True
    then show ?thesis using n b by (auto simp: genuine_archive_def)
  next
    case False
    with that obtain q where "archive_name_of B q = Inr m" by (auto simp: names_of_def)
    then have "m \<noteq> ''.'' @ n @ ''.download''" by (rule download_not_archive)
    with rest False have "u (d @ [m]) = t (d @ [m])" by blast
    moreover have "m \<in> names_of B ps" using that False by simp
    then obtain c where "t (d @ [m]) = Some (Regular c)" "genuine_archive B ps m c" using downloadedD(1) [OF before] by blast
    ultimately show ?thesis using genuine_archive_mono [of B ps m c "ps @ [p]"] by auto
  qed
  have other: "u (d @ [m]) = s (d @ [m]) \<or> u (d @ [m]) = None" if "m \<notin> insert n (names_of B ps)" for m
  proof -
    have "t (d @ [m]) = s (d @ [m]) \<or> t (d @ [m]) = None" using downloadedD(2) [OF before, of m] that by simp
    moreover have "u (d @ [m]) = t (d @ [m]) \<or> u (d @ [m]) = None" using rest [rule_format, of m] that by auto
    ultimately show ?thesis by auto
  qed
  show ?thesis unfolding downloaded_def names by (intro conjI ballI allI impI; (erule present | erule other))
qed

lemma downloaded_no_links: "downloaded B d ps s t \<Longrightarrow> no_links d s \<Longrightarrow> no_links d t"
  using downloadedD [of B d ps s t] unfolding no_links_def by (metis node.distinct(3) option.inject option.distinct(1))

lemma wp_run_downloads:
  assumes get: "\<And>u. stays (bx_get B u) {}" and links: "no_links d s"
  shows "downloaded B d qs s t \<Longrightarrow> wp (run_downloads B d ps) (\<lambda>rs u. first_error rs = Inr () \<longrightarrow> downloaded B d (qs @ ps) s u) (\<lambda>_ _. True) (\<lambda>_. True) t"
proof (induction ps arbitrary: qs t)
  case Nil
  then show ?case by (simp add: wp_ret)
next
  case (Cons p ps)
  have failed: "wp (bindio (run_downloads B d ps) (\<lambda>rs. ret (Inl e # rs))) (\<lambda>rs u. first_error rs = Inr () \<longrightarrow> downloaded B d (qs @ p # ps) s u)
      (\<lambda>_ _. True) (\<lambda>_. True) u" for e u
    by (rule wp_bindio, rule wp_mono [OF wp_True]) (simp_all add: wp_ret)
  have done': "wp (bindio (run_downloads B d ps) (\<lambda>rs. ret (Inr () # rs))) (\<lambda>rs u. first_error rs = Inr () \<longrightarrow> downloaded B d (qs @ p # ps) s u)
      (\<lambda>_ _. True) (\<lambda>_. True) u" if "downloaded B d (qs @ [p]) s u" for u
    by (rule wp_bindio, rule wp_mono [OF Cons.IH [OF that]]) (simp_all add: wp_ret)
  show ?case
    unfolding run_downloads.simps
  proof (rule wp_bindio, rule wp_tryio, rule wp_mono [OF wp_download_package [OF get downloaded_no_links [OF Cons.prems links]]])
    fix x u assume "\<exists>n b. archive_name_of B p = Inr n \<and> expected_sha256 p = Inr (sha256 (bx_codec B) b) \<and> u (d @ [n]) = Some (Regular b)
        \<and> (\<forall>m. m \<noteq> n \<longrightarrow> u (d @ [m]) = t (d @ [m]) \<or> m = ''.'' @ n @ ''.download'' \<and> u (d @ [m]) = None)"
    then have "downloaded B d (qs @ [p]) s u" using downloaded_step [OF Cons.prems] by blast
    from done' [OF this] show "wp (bindio (run_downloads B d ps) (\<lambda>rs. ret (Inr x # rs))) (\<lambda>rs u. first_error rs = Inr () \<longrightarrow> downloaded B d (qs @ p # ps) s u)
      (\<lambda>_ _. True) (\<lambda>_. True) u" by simp
  qed (use failed in auto)
qed

section \<open>The bundle\<close>

text \<open>The network and the listing change no file; a listing has every name once; all tasks are run.\<close>

definition bundle_laws :: "bundle_ext \<Rightarrow> bool" where
  "bundle_laws B \<longleftrightarrow> (\<forall>u. stays (bx_get B u) {}) \<and> (\<forall>ps. mset (bx_order B ps) = mset ps)
     \<and> (\<forall>d s. wp (bx_read_dir B d) (\<lambda>ns t. t = s \<and> distinct ns \<and> set ns = {n. s (d @ [n]) \<noteq> None}) (\<lambda>_ t. t = s) (\<lambda>t. t = s) s)"

text \<open>The entries are sorted, each is the archive of a package, or was in the directory before.\<close>

definition bundle_entries :: "bundle_ext \<Rightarrow> conda_package list \<Rightarrow> path \<Rightarrow> fs \<Rightarrow> (string \<times> bytes) list \<Rightarrow> bool" where
  "bundle_entries B packages d s es \<longleftrightarrow> sorted (map fst es) \<and> distinct (map fst es)
     \<and> (\<forall>(n, b) \<in> set es. genuine_archive B packages n b \<or> n \<notin> names_of B packages \<and> s (d @ [n]) = Some (Regular b))"

lemma wp_read_entries:
  assumes "no_links d s" "\<And>es. subseq (map fst es) ns \<Longrightarrow> \<forall>(n, b) \<in> set es. s (d @ [n]) = Some (Regular b) \<Longrightarrow> Q es s"
  shows "wp (read_entries d ns) Q (\<lambda>_ _. True) (\<lambda>_. True) s"
  using assms(2)
proof (induction ns arbitrary: Q)
  case Nil
  show ?case by (simp, rule wp_ret, rule Nil) auto
next
  case (Cons n ns)
  have skip: "wp (read_entries d ns) Q (\<lambda>_ _. True) (\<lambda>_. True) s"
    by (rule Cons.IH) (auto intro: Cons.prems)
  have take: "wp (bindio (read_entries d ns) (\<lambda>es. ret ((n, b) # es))) Q (\<lambda>_ _. True) (\<lambda>_. True) s" if "s (d @ [n]) = Some (Regular b)" for b
    by (rule wp_bindio, rule Cons.IH) (use that in \<open>auto intro!: wp_ret Cons.prems\<close>)
  show ?case
    unfolding read_entries.simps is_regular_def bindio_assoc bindio_ret
  proof (rule wp_bindio, rule wp_tryio, rule wp_metadata_follow)
    fix k
    show "wp (if Inr (node_kind k) = Inr Is_File then bindio (read_file (d @ [n])) (\<lambda>b. bindio (read_entries d ns) (\<lambda>es. ret ((n, b) # es)))
        else read_entries d ns) Q (\<lambda>_ _. True) (\<lambda>_. True) s"
      using skip take by (auto intro!: wp_bindio [of "read_file _"] wp_read_file simp: no_links_follow [OF assms(1)])
  qed (use skip in auto)
qed

lemma downloaded_entries:
  assumes got: "downloaded B d ps s t" and ns: "sorted ns" "distinct ns" and sub: "subseq (map fst es) ns"
    and es: "\<forall>(n, b) \<in> set es. t (d @ [n]) = Some (Regular b)"
  shows "bundle_entries B ps d s es"
  unfolding bundle_entries_def
proof (intro conjI ballI)
  obtain N where "map fst es = nths ns N" using sub by (auto simp: subseq_conv_nths)
  with ns show "sorted (map fst es)" "distinct (map fst es)" by (simp_all add: sorted_nths distinct_nthsI)
  fix x assume "x \<in> set es"
  moreover obtain n b where x: "x = (n, b)" by fastforce
  ultimately have b: "t (d @ [n]) = Some (Regular b)" using es by auto
  show "case x of (n, b) \<Rightarrow> genuine_archive B ps n b \<or> n \<notin> names_of B ps \<and> s (d @ [n]) = Some (Regular b)"
  proof (cases "n \<in> names_of B ps")
    case True
    then show ?thesis using downloadedD(1) [OF got, of n] b x by auto
  next
    case False
    then have "t (d @ [n]) = s (d @ [n]) \<or> t (d @ [n]) = None" by (rule downloadedD(2) [OF got])
    with b False x show ?thesis by auto
  qed
qed


lemma wp_write_bundle:
  assumes got: "downloaded B d ps s t" and links: "no_links d t" and ns: "distinct ns" and apart: "\<And>n. archive \<noteq> d @ [n]"
  shows "wp (write_bundle B d ns archive)
     (\<lambda>_ u. \<exists>es z. bundle_entries B ps d s es \<and> bx_archive B es = Inr z \<and> u archive = Some (Regular z)) (\<lambda>_ _. True) (\<lambda>_. True) t"
    (is "wp _ ?Q _ _ t")
  unfolding write_bundle_def
proof (rule wp_bindio, rule wp_create_truncate)
  let ?t = "t(archive \<mapsto> Regular [])"
  have same: "?t (d @ [n]) = t (d @ [n])" for n using apart [of n] by simp
  then have links': "no_links d ?t" using links by (simp add: no_links_def)
  have written: "wp (bindio (lift_result (bx_archive B es)) (\<lambda>b. write_all archive b)) ?Q (\<lambda>_ _. True) (\<lambda>_. True) ?t"
    if "bundle_entries B ps d s es" for es
    by (rule wp_bindio, rule wp_lift_result, rule wp_write_all) (use that in \<open>auto simp: append_bytes_def\<close>)
  show "wp (bindio (read_entries d (sort ns)) (\<lambda>entries. bindio (lift_result (bx_archive B entries)) (\<lambda>b. write_all archive b))) ?Q (\<lambda>_ _. True) (\<lambda>_. True) ?t
      \<and> True"
  proof (rule conjI [OF _ TrueI], rule wp_bindio, rule wp_read_entries [OF links'])
    fix es assume "subseq (map fst es) (sort ns)" "\<forall>(n, b) \<in> set es. ?t (d @ [n]) = Some (Regular b)"
    then have "bundle_entries B ps d s es"
      using ns by (intro downloaded_entries [OF got, of "sort ns"]) (simp_all only: same sorted_sort distinct_sort)
    then show "wp (bindio (lift_result (bx_archive B es)) (\<lambda>b. write_all archive b)) ?Q (\<lambda>_ _. True) (\<lambda>_. True) ?t" by (rule written)
  qed
qed simp_all

text \<open>Clearing and making the directory leaves entries as they were or takes them away.\<close>

definition only_fewer :: "path \<Rightarrow> fs \<Rightarrow> fs \<Rightarrow> bool" where
  "only_fewer d s t \<longleftrightarrow> (\<forall>n. t (d @ [n]) = s (d @ [n]) \<or> t (d @ [n]) = None)"

lemma only_fewer_trans: "only_fewer d s t \<Longrightarrow> only_fewer d t u \<Longrightarrow> only_fewer d s u"
  unfolding only_fewer_def by metis

lemma only_fewer_outside: "unchanged_outside P s t \<Longrightarrow> (\<And>n. d @ [n] \<notin> P) \<Longrightarrow> only_fewer d s t"
  by (simp add: only_fewer_def unchanged_outside_def)

lemma wp_clear_bundle_dir: "wp (clear_bundle_dir B d) (\<lambda>_. only_fewer d s) (\<lambda>_ _. True) (\<lambda>_. True) s"
proof -
  have removed: "wp (remove_dir_all i d) (\<lambda>_. only_fewer d s) (\<lambda>_ _. True) (\<lambda>_. True) s" for i
    unfolding wp_def
  proof (intro allI impI)
    fix schedule r w' assume run: "remove_dir_all i d \<lparr>w_fs = s, w_schedule = schedule\<rparr> = (r, w')"
    obtain e w1 where n: "next_event \<lparr>w_fs = s, w_schedule = schedule\<rparr> = (e, w1)" by fastforce
    then have "w_fs w1 = s" by (auto simp: next_event_def split: list.splits)
    with run n show "case r of Ok x \<Rightarrow> only_fewer d s (w_fs w') | Err e \<Rightarrow> True | Crash \<Rightarrow> True"
      by (cases e) (auto simp: remove_dir_all_def only_fewer_def drop_paths_def split: option.splits node.splits)
  qed
  show ?thesis
    unfolding clear_bundle_dir_def
    by (rule wp_bindio, rule wp_tryio, rule wp_symlink_metadata)
      (auto intro!: wp_ret removed wp_remove_file simp: only_fewer_def)
qed

lemma names_of_order: "mset qs = mset ps \<Longrightarrow> bundle_entries B qs d s es = bundle_entries B ps d s es"
  by (drule mset_eq_setD) (simp add: bundle_entries_def genuine_archive_def names_of_def)

lemma bundle_entries_fewer:
  assumes "bundle_entries B ps d t es" "only_fewer d s t"
  shows "bundle_entries B ps d s es"
proof -
  have "s (d @ [n]) = Some m" if "t (d @ [n]) = Some m" for n m
    using assms(2) that by (metis only_fewer_def option.distinct(1))
  then show ?thesis using assms(1) by (auto simp: bundle_entries_def)
qed

lemma wp_download_and_bundle:
  assumes laws: "bundle_laws B" and archive: "archive = p @ [x]" and links: "no_links (p @ [''bundle'']) s"
  shows "wp (download_and_bundle B packages archive)
     (\<lambda>_ t. \<exists>es z. bundle_entries B packages (p @ [''bundle'']) s es \<and> bx_archive B es = Inr z \<and> t archive = Some (Regular z)) (\<lambda>_ _. True) (\<lambda>_. True) s"
    (is "wp _ ?Q _ _ s")
proof -
  let ?d = "p @ [''bundle'']"
  have get: "\<And>u. stays (bx_get B u) {}" and order: "mset (bx_order B packages) = mset packages"
    and listing: "\<And>d s. wp (bx_read_dir B d) (\<lambda>ns t. t = s \<and> distinct ns \<and> set ns = {n. s (d @ [n]) \<noteq> None}) (\<lambda>_ t. t = s) (\<lambda>t. t = s) s"
    using laws unfolding bundle_laws_def by blast+
  have parent: "parent archive = Some p" by (simp add: parent_def archive)
  have dirs: "stays (create_dir_all q) {r. length r \<le> length ?d}" if "length q \<le> length ?d" for q
    by (intro stays_intros) (use that in auto)
  have shorter: "?d @ [n] \<notin> {r. length r \<le> length ?d}" for n by simp
  have fewer_links: "no_links ?d t" if "only_fewer ?d s t" for t
    using that links unfolding only_fewer_def no_links_def by (metis option.distinct(1))
  have bundled: "wp (bindio (bx_read_dir B ?d) (\<lambda>names. bindio (write_bundle B ?d names archive) (\<lambda>_. bindio (metadata_follow archive) (\<lambda>_. ret ()))))
      ?Q (\<lambda>_ _. True) (\<lambda>_. True) u"
    if t: "only_fewer ?d s t" and u: "downloaded B ?d (bx_order B packages) t u" for t u
  proof (rule wp_bindio, rule wp_mono [OF listing])
    fix ns v assume ns: "v = u \<and> distinct ns \<and> set ns = {n. u (?d @ [n]) \<noteq> None}"
    have fits: "?Q () w" if "\<exists>es z. bundle_entries B (bx_order B packages) ?d t es \<and> bx_archive B es = Inr z \<and> w archive = Some (Regular z)" for w
    proof -
      from that obtain es z where e: "bundle_entries B (bx_order B packages) ?d t es" "bx_archive B es = Inr z" "w archive = Some (Regular z)" by blast
      have "bundle_entries B packages ?d s es"
        using bundle_entries_fewer [OF e(1) t] by (simp only: names_of_order [OF order])
      with e show ?thesis by blast
    qed
    have "wp (bindio (write_bundle B ?d ns archive) (\<lambda>_. bindio (metadata_follow archive) (\<lambda>_. ret ()))) ?Q (\<lambda>_ _. True) (\<lambda>_. True) u"
      by (rule wp_bindio, rule wp_mono [OF wp_write_bundle [OF u downloaded_no_links [OF u fewer_links [OF t]]]])
        (use ns archive fits in \<open>auto intro!: wp_bindio wp_metadata_follow wp_ret\<close>)
    then show "wp (bindio (write_bundle B ?d ns archive) (\<lambda>_. bindio (metadata_follow archive) (\<lambda>_. ret ()))) ?Q (\<lambda>_ _. True) (\<lambda>_. True) v"
      using ns by simp
  qed simp_all
  have loaded: "wp (bindio (run_downloads B ?d (bx_order B packages)) (\<lambda>results. bindio (lift_result (first_error results)) (\<lambda>_.
       bindio (bx_read_dir B ?d) (\<lambda>names. bindio (write_bundle B ?d names archive) (\<lambda>_. bindio (metadata_follow archive) (\<lambda>_. ret ()))))))
      ?Q (\<lambda>_ _. True) (\<lambda>_. True) t" if t: "only_fewer ?d s t" for t
  proof -
    have "downloaded B ?d [] t t" by (simp add: downloaded_def names_of_def)
    from wp_run_downloads [OF get fewer_links [OF t] this, of "bx_order B packages"] show ?thesis
      by (rule wp_bindio [OF wp_mono]) (use bundled [OF t] in \<open>auto intro!: wp_bindio [of "lift_result _"] wp_lift_result\<close>)
  qed
  show ?thesis
    unfolding download_and_bundle_def Let_def parent ok_or_simps lift_result_simps bindio_ret
  proof (rule wp_bindio, rule wp_lift_result, rule wp_bindio_stays [OF dirs])
    fix t assume "unchanged_outside {r. length r \<le> length ?d} s t"
    then have t: "only_fewer ?d s t" by (rule only_fewer_outside) simp
    show "wp (bindio (clear_bundle_dir B ?d) (\<lambda>_. bindio (create_dir_all ?d) (\<lambda>_.
       bindio (run_downloads B ?d (bx_order B packages)) (\<lambda>results. bindio (lift_result (first_error results)) (\<lambda>_.
       bindio (bx_read_dir B ?d) (\<lambda>names. bindio (write_bundle B ?d names archive) (\<lambda>_. bindio (metadata_follow archive) (\<lambda>_. ret ()))))))))
      ?Q (\<lambda>_ _. True) (\<lambda>_. True) t"
    proof (rule wp_bindio, rule wp_mono [OF wp_clear_bundle_dir], rule wp_bindio_stays [OF dirs])
      fix u v assume "only_fewer ?d t u" "unchanged_outside {r. length r \<le> length ?d} u v"
      then have "only_fewer ?d s v" using only_fewer_trans [OF t] only_fewer_outside [of _ u v ?d] shorter only_fewer_trans by blast
      then show "wp (bindio (run_downloads B ?d (bx_order B packages)) (\<lambda>results. bindio (lift_result (first_error results)) (\<lambda>_.
         bindio (bx_read_dir B ?d) (\<lambda>names. bindio (write_bundle B ?d names archive) (\<lambda>_. bindio (metadata_follow archive) (\<lambda>_. ret ()))))))
        ?Q (\<lambda>_ _. True) (\<lambda>_. True) v" by (rule loaded)
    qed simp_all
  qed simp_all
qed


lemma archive_names_agree: "validate_package_archive_name n = Inr () \<longleftrightarrow> validate_bundle_archive_name n = Inr ()"
  by (simp add: validate_package_archive_name_def validate_bundle_archive_name_def)

text \<open>C26. Whatever the schedule of faults, when \<open>gen_bundle_from_lock\<close> returns the bundle, its entries are sorted by name without duplicates, and each of them has the name
and the SHA-256 of a package of the platform in the lockfile (or was already in the directory, under a name of no package, because clearing it
failed silently); every name of a package is one that the runtime unpacks.\<close>

theorem bundle_entries_verified:
  assumes "bundle_laws B" "no_links (p @ [''bundle'']) s"
    and run: "gen_bundle_from_lock B lock_file platform (p @ [x]) \<lparr>w_fs = s, w_schedule = schedule\<rparr> = (Ok archive, w')"
  shows "\<exists>packages es z. packages_for_platform (bx_environment B lock_file) platform = Inr packages \<and> archive = p @ [x]
     \<and> w_fs w' archive = Some (Regular z) \<and> bx_archive B es = Inr z \<and> bundle_entries B packages (p @ [''bundle'']) s es
     \<and> (\<forall>n \<in> names_of B packages. validate_bundle_archive_name n = Inr ())"
proof -
  let ?Q = "\<lambda>a t. \<exists>packages es z. packages_for_platform (bx_environment B lock_file) platform = Inr packages \<and> a = p @ [x]
     \<and> t a = Some (Regular z) \<and> bx_archive B es = Inr z \<and> bundle_entries B packages (p @ [''bundle'']) s es"
  have "wp (gen_bundle_from_lock B lock_file platform (p @ [x])) ?Q (\<lambda>_ _. True) (\<lambda>_. True) s"
    unfolding gen_bundle_from_lock_def
    by (rule wp_bindio, rule wp_lift_result, rule wp_bindio, rule wp_lift_result, rule wp_bindio,
        rule wp_mono [OF wp_download_and_bundle [OF assms(1) refl assms(2)]]) (auto intro!: wp_ret)
  from wpD [OF this run] obtain packages es z where r: "packages_for_platform (bx_environment B lock_file) platform = Inr packages" "archive = p @ [x]"
    "w_fs w' archive = Some (Regular z)" "bx_archive B es = Inr z" "bundle_entries B packages (p @ [''bundle'']) s es" by auto
  moreover have "\<forall>n \<in> names_of B packages. validate_bundle_archive_name n = Inr ()"
    by (auto simp: names_of_def archive_name_of_def success_simps archive_names_agree)
  ultimately show ?thesis by blast
qed

text \<open>\<open>is_file\<close> takes an error for a file that is not there: the archive is left out of the bundle, and the build goes on.\<close>

lemma bundle_drops_uninspected: "read_entries d [n] \<lparr>w_fs = s, w_schedule = [Fail k]\<rparr> = (Ok [], \<lparr>w_fs = s, w_schedule = []\<rparr>)"
  by (simp add: is_regular_def metadata_follow_def atomic_op_def next_event_def tryio_def bindio_def ret_def)

section \<open>Instances\<close>

definition bundled_package :: conda_package where
  "bundled_package = \<lparr>cp_record = Some \<lparr>pk_name = ''a'', pk_version = ''1'', pk_build = ''0'', pk_build_number = 0, pk_subdir = ''linux-64'', pk_depends = [],
     pk_md5 = None, pk_sha256 = Some (1 # replicate 31 0), pk_size = None\<rparr>, cp_location = Package_Path (True, [''pkgs'', ''a.conda'']), cp_binary = True\<rparr>"

definition sample_bundle_ext :: bundle_ext where
  "sample_bundle_ext = \<lparr>bx_codec = sample_codec, bx_environment = (\<lambda>l. Some (map (\<lambda>p. (p, [bundled_package])) (rl_platforms l))), bx_client = Inr (),
     bx_file_name = (\<lambda>l. case l of Package_Path p \<Rightarrow> file_name (snd p) | Package_Url _ \<Rightarrow> None), bx_local = snd, bx_get = (\<lambda>_. ret ([], True)), bx_order = (\<lambda>ps. ps),
     bx_read_dir = (\<lambda>d. atomic_op (\<lambda>s. if {n. s (d @ [n]) \<noteq> None} = {''a.conda''} then Inr ([''a.conda''], s) else Inl Io_Failed)),
     bx_archive = (\<lambda>es. Inr (concat (map snd es))), bx_interrupted = (\<lambda>_ _. {})\<rparr>"

lemma sample_bundle_laws: "bundle_laws sample_bundle_ext"
proof -
  have "wp (bx_read_dir sample_bundle_ext d) (\<lambda>ns t. t = s \<and> distinct ns \<and> set ns = {n. s (d @ [n]) \<noteq> None}) (\<lambda>_ t. t = s) (\<lambda>t. t = s) s" for d s
    unfolding sample_bundle_ext_def bundle_ext.simps
    by (rule wp_atomic_op) (simp_all split: if_split_asm, clarify, simp)
  moreover have "stays (bx_get sample_bundle_ext u) {}" "mset (bx_order sample_bundle_ext ps) = mset ps" for u ps
    by (simp_all add: sample_bundle_ext_def stays_intros)
  ultimately show ?thesis unfolding bundle_laws_def by blast
qed

abbreviation packed_fs :: fs where
  "packed_fs \<equiv> [[''pkgs'', ''a.conda''] \<mapsto> Regular [1]]"

abbreviation cleared_fs :: fs where
  "cleared_fs \<equiv> packed_fs([''out''] \<mapsto> Directory, [''out'', ''bundle''] \<mapsto> Directory)"

abbreviation loaded_fs :: fs where
  "loaded_fs \<equiv> cleared_fs([''out'', ''bundle'', ''a.conda''] \<mapsto> Regular [1])"

abbreviation linux_lock :: runtime_lock where
  "linux_lock \<equiv> \<lparr>rl_platforms = [\<lparr>lp_name = ''linux-64'', lp_subdir = ''linux-64''\<rparr>], rl_channels = [], rl_packages = []\<rparr>"

lemma sample_obtain_steady: "steady (obtain_archive sample_bundle_ext l q)"
  unfolding obtain_archive_def write_file_def
  by (auto intro!: steady_intros simp: create_truncate_def sample_bundle_ext_def read_file_def split: package_location.split prod.split)

lemma sample_download: "run (download_package sample_bundle_ext [''out'', ''bundle''] bundled_package) cleared_fs = (Ok (), loaded_fs)"
proof -
  note step = sample_obtain_steady
  have name: "archive_name_of sample_bundle_ext bundled_package = Inr ''a.conda''"
    by (simp add: archive_name_of_def sample_bundle_ext_def bundled_package_def file_name_def) code_simp
  let ?s = packed_fs and ?u = cleared_fs and ?t = loaded_fs
  let ?tmp = "[''out'', ''bundle'', ''.a.conda.download'']"
  have obtained: "run (obtain_archive sample_bundle_ext (Package_Path (True, [''pkgs'', ''a.conda''])) ?tmp) ?u = (Ok (1 # replicate 31 0), ?u(?tmp \<mapsto> Regular [1]))"
    by (simp add: obtain_archive_def sample_bundle_ext_def write_file_def create_truncate_def read_file_def run_simps steady_intros follow_def parent_exists_def
        parent_def append_bytes_def sample_codec_def)
  have moved: "run (rename ?tmp [''out'', ''bundle'', ''a.conda'']) (?u(?tmp \<mapsto> Regular [1])) = (Ok (), ?t)"
    by (simp add: rename_def run_simps parent_exists_def parent_def follow_def)
  have absent: "follow ?u [''out'', ''bundle'', ''a.conda''] = None" by (simp add: follow_def)
  have expected: "expected_sha256 bundled_package = Inr (1 # replicate 31 0)" "cp_location bundled_package = Package_Path (True, [''pkgs'', ''a.conda''])"
    by (simp_all add: expected_sha256_def bundled_package_def)
  show ?thesis
    using moved obtained
    by (simp add: download_package_def name Let_def expected run_simps steady_intros absent step)
qed

lemma sample_bundle_steady:
  "steady (clear_bundle_dir sample_bundle_ext d)" "steady (run_downloads sample_bundle_ext d ps)" "steady (bx_read_dir sample_bundle_ext d)"
  "steady (write_bundle sample_bundle_ext d ns p)"
proof -
  have "steady (remove_dir_all i d)" for i
    by (auto simp: steady_def remove_dir_all_def next_event_def Let_def split: option.split node.split)
  then show "steady (clear_bundle_dir sample_bundle_ext d)"
    by (auto intro!: steady_intros simp: clear_bundle_dir_def symlink_metadata_def remove_file_def split: sum.split)
  have tasks: "steady (download_package sample_bundle_ext d q)" for q
    unfolding download_package_def Let_def
    by (intro steady_intros sample_obtain_steady)
  then show "steady (run_downloads sample_bundle_ext d ps)"
    by (induction ps) (auto intro!: steady_intros)
  have "steady (read_entries d ns)" for ns
    by (induction ns) (auto intro!: steady_intros simp: is_regular_def metadata_follow_def read_file_def)
  then show "steady (bx_read_dir sample_bundle_ext d)" "steady (write_bundle sample_bundle_ext d ns p)"
    by (auto intro!: steady_intros simp: sample_bundle_ext_def write_bundle_def create_truncate_def)
qed

lemma sample_bundle_run:
  "run (gen_bundle_from_lock sample_bundle_ext linux_lock ''linux-64'' [''out'', ''bundle.tar.zst'']) packed_fs
     = (Ok [''out'', ''bundle.tar.zst''], loaded_fs([''out'', ''bundle.tar.zst''] \<mapsto> Regular [1]))"
proof -
  let ?s = packed_fs and ?u = cleared_fs and ?t = loaded_fs and ?lock = linux_lock
  have packages: "packages_for_platform (bx_environment sample_bundle_ext ?lock) ''linux-64'' = Inr [bundled_package]"
    by (simp add: packages_for_platform_def sample_bundle_ext_def)
  have hashes: "validate_package_hashes [bundled_package] = Inr ()"
    by (simp add: validate_package_hashes_def bundled_package_def package_record_of_def missing_hashes_def)
  have dirs: "{n. ?t [''out'', ''bundle'', n] \<noteq> None} = {''a.conda''}" by auto
  have dirs0: "run (create_dir_all [''out'']) ?s = (Ok (), ?s([''out''] \<mapsto> Directory))"
    by (simp add: create_dir_all_def create_dir_def run_simps steady_intros follow_def)
  have cleared: "run (clear_bundle_dir sample_bundle_ext [''out'', ''bundle'']) (?s([''out''] \<mapsto> Directory)) = (Ok (), ?s([''out''] \<mapsto> Directory))"
    by (simp add: clear_bundle_dir_def symlink_metadata_def run_simps steady_intros)
  have dirs1: "run (create_dir_all [''out'', ''bundle'']) (?s([''out''] \<mapsto> Directory)) = (Ok (), ?u)"
    by (simp add: create_dir_all_def create_dir_def run_simps steady_intros follow_def)
  have tasks: "steady (download_package sample_bundle_ext d q)" for d q
    unfolding download_package_def Let_def
    by (intro steady_intros sample_obtain_steady)
  have downloads: "run (run_downloads sample_bundle_ext [''out'', ''bundle''] [bundled_package]) ?u = (Ok [Inr ()], ?t)"
    using sample_download by (simp add: run_simps steady_intros tasks)
  have listing: "run (bx_read_dir sample_bundle_ext [''out'', ''bundle'']) ?t = (Ok [''a.conda''], ?t)" 
    using dirs by (simp add: sample_bundle_ext_def run_simps)
  have written: "run (write_bundle sample_bundle_ext [''out'', ''bundle''] [''a.conda''] [''out'', ''bundle.tar.zst'']) ?t = (Ok (), ?t([''out'', ''bundle.tar.zst''] \<mapsto> Regular [1]))"
    by (simp add: write_bundle_def is_regular_def metadata_follow_def create_truncate_def read_file_def sample_bundle_ext_def run_simps steady_intros follow_def parent_exists_def
        parent_def append_bytes_def node_kind_def)
  let ?fin = "?t([''out'', ''bundle.tar.zst''] \<mapsto> Regular [1])"
  have checked: "run (metadata_follow [''out'', ''bundle.tar.zst'']) ?fin = (Ok Is_File, ?fin)"
    by (simp add: metadata_follow_def run_simps follow_def node_kind_def)
  have params: "bx_client sample_bundle_ext = Inr ()" "bx_order sample_bundle_ext = (\<lambda>ps. ps)" by (simp_all add: sample_bundle_ext_def)
  show ?thesis
    using packages hashes params dirs0 cleared dirs1 downloads listing written checked
    by (simp add: gen_bundle_from_lock_def download_and_bundle_def parent_def run_simps steady_intros sample_bundle_steady Let_def del: run_downloads.simps)
qed

lemma bundle_entries_verified_witness:
  "\<exists>w' es z. gen_bundle_from_lock sample_bundle_ext \<lparr>rl_platforms = [\<lparr>lp_name = ''linux-64'', lp_subdir = ''linux-64''\<rparr>], rl_channels = [], rl_packages = []\<rparr> ''linux-64''
       [''out'', ''bundle.tar.zst''] \<lparr>w_fs = [[''pkgs'', ''a.conda''] \<mapsto> Regular [1]], w_schedule = []\<rparr> = (Ok [''out'', ''bundle.tar.zst''], w')
     \<and> w_fs w' [''out'', ''bundle.tar.zst''] = Some (Regular z) \<and> bx_archive sample_bundle_ext es = Inr z
     \<and> bundle_entries sample_bundle_ext [bundled_package] [''out'', ''bundle''] [[''pkgs'', ''a.conda''] \<mapsto> Regular [1]] es"
proof -
  have packages: "packages_for_platform (bx_environment sample_bundle_ext linux_lock) ''linux-64'' = Inr [bundled_package]"
    by (simp add: packages_for_platform_def sample_bundle_ext_def)
  obtain w' where w': "gen_bundle_from_lock sample_bundle_ext linux_lock ''linux-64'' ([''out''] @ [''bundle.tar.zst'']) \<lparr>w_fs = packed_fs, w_schedule = []\<rparr>
      = (Ok [''out'', ''bundle.tar.zst''], w')" using sample_bundle_run by (auto simp: run_def split: prod.splits)
  have links: "no_links ([''out''] @ [''bundle'']) packed_fs" by (simp add: no_links_def)
  from bundle_entries_verified [where p = "[''out'']" and x = "''bundle.tar.zst''" and s = packed_fs and schedule = "[]", OF sample_bundle_laws links w'] packages w'
  show ?thesis by auto
qed

end
