(* ===== verification/Spec2Isabelle.thy ===== *)
theory Spec2Isabelle
  imports Runtime_Stamp Fleet Package_Channel Ship_Bundle
begin

text \<open>
  A verification library for conda-ship, which builds single-file runtimes: an executable template is stamped with the
  description of a conda environment (a lockfile, and perhaps the packages themselves), and the stamped executable
  installs that environment on first use, hands over to a command in it, and can replace itself by a later release.

  \<^bold>\<open>The program and its model.\<close> In the order of the code:

  \<^item> \<open>Prelude\<close>, \<open>Names\<close>: results and checked arithmetic, byte strings, little-endian and hexadecimal codecs, character
    classes, paths. The locales \<open>fixed_width_codec\<close> and \<open>component_validator\<close> are the interfaces the other theories use.
  \<^item> \<open>Runtime_Header\<close>, \<open>Runtime_Footer\<close>, \<open>Runtime_Content\<close>, \<open>Pe_Image\<close>, \<open>Pe_Roundtrip\<close>, \<open>Macho_Image\<close>,
    \<open>Macho_Roundtrip\<close>, \<open>Runtime_Stamp\<close> model \<open>src/runtime_data.rs\<close>. A file is its list of bytes. The header record is
    \<open>RuntimeDataHeader\<close>, the footer the fixed block that points back to the payload; \<open>append_to_binary\<close> and
    \<open>read_from_file\<close> are the entry points, with one writer and one reader for each binary format. The parsers of the
    \<open>object\<close> crate, \<open>serde_json\<close>, zstd and SHA-256 are the parameters \<open>pe_ext\<close>, \<open>macho_ext\<close> and \<open>codec_ext\<close>.
  \<^item> \<open>File_System\<close> is the state of everything that follows: a map from paths to files, directories and links, and a
    schedule of faults that lets each operation of \<open>std::fs\<close> succeed, fail or be the last one before the process stops.
    \<open>wp\<close> and \<open>stays\<close> are the program logic over it.
  \<^item> \<open>Prefix_Metadata\<close> models the metadata part of \<open>src/config.rs\<close> (\<open>persist_metadata_for\<close>, \<open>read_metadata_for\<close>), with
    the locale \<open>durable_cell\<close> as its contract; \<open>Bootstrap_State\<close> models \<open>src/bootstrap_state.rs\<close> and
    \<open>src/bootstrap_lock.rs\<close>; \<open>Delegate\<close> models \<open>src/exec.rs\<close>.
  \<^item> \<open>Bootstrap\<close> models the automatic bootstrap of \<open>src/commands.rs\<close>, over an installer that keeps \<open>installer_laws\<close>.
  \<^item> \<open>Http_Urls\<close> models \<open>src/http.rs\<close>, \<open>Bundle_Install\<close> \<open>src/install.rs\<close>, \<open>Constructor_Metadata\<close>
    \<open>src/constructor_metadata.rs\<close>. \<open>Install_Safety\<close> holds their properties, and \<open>Install_Contract\<close> shows that they
    are an installer as \<open>Bootstrap\<close> needs it, so that the two halves compose.
  \<^item> \<open>Exec_Update\<close> models \<open>src/executable_update.rs\<close>. \<open>Update_Safety\<close>, \<open>Update_Steps\<close> and \<open>Update_Recovery\<close> prove that
    the executable stays complete and that an interrupted update finishes or is withdrawn; \<open>Update_Ownership\<close> is about
    who may replace it. \<open>Runtime_Update\<close> models \<open>src/runtime_update.rs\<close>, and \<open>Update_Channel\<close> holds its properties.

  \<^bold>\<open>How the code appears.\<close> Functions keep their names; a Rust \<open>Result\<close> is the sum \<open>err + 'a\<close>, a function that touches
  files is an \<open>'a io\<close>. Error texts are shortened, and progress output is left out. Closures and traits
  of the code (what a crate does, the environment, the clock) are fields of the records named \<open>..._ext\<close>; where a property
  needs something of them it says so in a named hypothesis (\<open>json_laws\<close>, \<open>state_laws\<close>, \<open>rattler_laws\<close>,
  \<open>installer_laws\<close> and their kind), and the witness of the property has a concrete instance.

  \<^bold>\<open>The groups of lemmas.\<close> Codecs and writers are shown to be inverse to their readers, with the checks of the readers
  characterised exactly where the code means them to be exact. Operations on files have a \<open>stays\<close> lemma (which paths they
  touch), a \<open>wp\<close> lemma (what holds after success, failure and a stop, under every schedule) and, where they finish
  something, a \<open>run\<close> lemma (what they do without faults). The properties quantify over schedules, and over sequences of
  interrupted runs where the code is meant to be restarted.

  \<^bold>\<open>Bounds and fuel.\<close> The definitions are total. The walk over the certificate table and the percent-decoding loop
  recurse on what is left of the input. The loops that poll a lock or wait for another process
  (\<open>run_windows_worker\<close>, \<open>try_write_cache_file\<close> and \<open>run_internal_helper\<close>) take the number of attempts that the deadline of
  the code allows, and their properties hold for every number. Redirects are bounded by the code itself.

  \<^bold>\<open>Not modelled.\<close> Power loss: what an operation wrote stays written, so \<open>sync_all\<close> has no effect. Concurrency of
  processes beyond the locks the code takes; asynchronous tasks run in sequence. A link is followed once. Building the
  HTTP client and TLS provider, spawning and replacing processes, terminal output and the command line parser only pass
  values on to a library.
\<close>

end
